(* ===== verification/Prelude.thy ===== *)
theory Prelude
  imports Main "HOL-Library.List_Lexorder" "HOL-Library.Char_ord"
begin

text \<open>
  Shared vocabulary of the development.

  \<^item> Errors of the Go code as values, with \<open>error_message\<close> for \<open>err.Error()\<close>.
  \<^item> \<open>reconcile_result\<close>, the \<open>reconcile.Result\<close> a handler returns; durations are \<open>int\<close>
    nanoseconds, as \<open>time.Duration\<close> counts them.
  \<^item> The handler steps: a step maps a state to a value or an early return of the handler
    (\<open>Inl\<close>), and the state after it. Every early \<open>return\<close> of the Go code is an \<open>Inl\<close>.
  \<^item> The Hoare predicate \<open>holds_after\<close> over steps, with its rules in the collection
    \<open>step_intros\<close>.
  \<^item> Generic lemmas on lists and maps.
\<close>

section \<open>Collections\<close>

named_theorems step_defs \<open>definitions of the step combinators\<close>
named_theorems step_intros \<open>Hoare rules for steps\<close>
named_theorems pool_simps \<open>what the accessors of a node pool read\<close>

section \<open>Errors\<close>

datatype go_error =
    NotFound string          \<comment> \<open>\<open>k8serrors.IsNotFound\<close> holds\<close>
  | Conflict string          \<comment> \<open>\<open>k8serrors.IsConflict\<close> holds\<close>
  | ApiError string          \<comment> \<open>any other error of a client\<close>
  | EntityNotFound string    \<comment> \<open>\<open>humioapi.EntityNotFound\<close>\<close>
  | Msg string               \<comment> \<open>\<open>fmt.Errorf\<close> or \<open>errors.New\<close> without a wrapped error\<close>
  | Panic string           \<comment> \<open>a run-time panic: a nil dereference, an index out of range\<close>
  | Wrap string "go_error option" \<comment> \<open>\<open>fmt.Errorf("%s: %w", msg, err)\<close>; the error may be nil\<close>

fun error_message :: "go_error \<Rightarrow> string" where
  "error_message (NotFound m) = m"
| "error_message (Conflict m) = m"
| "error_message (ApiError m) = m"
| "error_message (EntityNotFound m) = m"
| "error_message (Msg m) = m"
| "error_message (Panic m) = m"
| "error_message (Wrap m None) = m @ '': %!w(<nil>)''"
| "error_message (Wrap m (Some e)) = m @ '': '' @ error_message e"

text \<open>\<open>errors.As\<close> and \<open>k8serrors.IsNotFound\<close> look through wrapped errors.\<close>

fun is_not_found :: "go_error \<Rightarrow> bool" where
  "is_not_found (NotFound _) = True"
| "is_not_found (Wrap _ (Some e)) = is_not_found e"
| "is_not_found _ = False"

fun is_entity_not_found :: "go_error \<Rightarrow> bool" where
  "is_entity_not_found (EntityNotFound _) = True"
| "is_entity_not_found (Wrap _ (Some e)) = is_entity_not_found e"
| "is_entity_not_found _ = False"

text \<open>A panic unwinds the callers that only wrap errors; the model lets it pass like an error.\<close>

fun is_panic :: "go_error \<Rightarrow> bool" where
  "is_panic (Panic _) = True"
| "is_panic (Wrap _ (Some e)) = is_panic e"
| "is_panic _ = False"

section \<open>Results of a handler\<close>

type_synonym duration = int

definition second :: duration where
  "second = 1000000000"

lemma second_pos [simp]: "0 < second" "second \<noteq> 0"
  by (simp_all add: second_def)

record reconcile_result =
  requeue :: bool
  requeue_after :: duration

definition empty_result :: reconcile_result where
  "empty_result = \<lparr>requeue = False, requeue_after = 0\<rparr>"

definition requeue_now :: reconcile_result where
  "requeue_now = \<lparr>requeue = True, requeue_after = 0\<rparr>"

definition requeue_in :: "duration \<Rightarrow> reconcile_result" where
  "requeue_in d = \<lparr>requeue = False, requeue_after = d\<rparr>"

type_synonym handler_result = "reconcile_result \<times> go_error option"

lemma result_neq [simp]:
  "requeue_now \<noteq> empty_result" "empty_result \<noteq> requeue_now"
  "requeue_in d = empty_result \<longleftrightarrow> d = 0"
  by (auto simp: requeue_now_def empty_result_def requeue_in_def)

lemma result_fields [simp]:
  "requeue empty_result = False" "requeue_after empty_result = 0"
  "requeue requeue_now = True" "requeue_after requeue_now = 0"
  "requeue (requeue_in d) = False" "requeue_after (requeue_in d) = d"
  by (simp_all add: requeue_now_def empty_result_def requeue_in_def)

section \<open>Steps of a handler\<close>

type_synonym ('s, 'r, 'a) step = "'s \<Rightarrow> ('r + 'a) \<times> 's"

definition ret :: "'a \<Rightarrow> ('s, 'r, 'a) step" where
  [step_defs]: "ret a s = (Inr a, s)"

definition exit_with :: "'r \<Rightarrow> ('s, 'r, 'a) step" where
  [step_defs]: "exit_with r s = (Inl r, s)"

definition and_then :: "('s, 'r, 'a) step \<Rightarrow> ('a \<Rightarrow> ('s, 'r, 'b) step) \<Rightarrow> ('s, 'r, 'b) step" where
  [step_defs]: "and_then m f s = (case m s of (Inl r, s') \<Rightarrow> (Inl r, s') | (Inr a, s') \<Rightarrow> f a s')"

text \<open>
  \<open>on_error m h\<close> is the Go idiom \<open>x, err := m(); if err != nil { return h(err) }\<close>: the
  operation returns a value or an error, and an error ends the handler with \<open>h\<close>.
\<close>

definition on_error ::
  "('s \<Rightarrow> (go_error + 'a) \<times> 's) \<Rightarrow> (go_error \<Rightarrow> ('s, 'r, 'a) step) \<Rightarrow> ('s, 'r, 'a) step" where
  [step_defs]: "on_error m h s = (case m s of (Inl e, s') \<Rightarrow> h e s' | (Inr a, s') \<Rightarrow> (Inr a, s'))"

text \<open>
  \<open>if err != nil { return r.logErrorAndReturn(err, msg) }\<close>: the log line is dropped, the error is
  wrapped with the message.
\<close>

definition log_error ::
  "string \<Rightarrow> ('s \<Rightarrow> (go_error + 'a) \<times> 's) \<Rightarrow> ('s, go_error, 'a) step" where
  [step_defs]: "log_error msg m = on_error m (\<lambda>err. exit_with (Wrap msg (Some err)))"

text \<open>A loop over a list whose body may leave the handler.\<close>

fun for_each :: "('a \<Rightarrow> ('s, 'r, unit) step) \<Rightarrow> 'a list \<Rightarrow> ('s, 'r, unit) step" where
  "for_each f [] s = (Inr (), s)"
| "for_each f (x # xs) s =
     (case f x s of (Inl r, s') \<Rightarrow> (Inl r, s') | (Inr u, s') \<Rightarrow> for_each f xs s')"

text \<open>The same with an accumulator.\<close>

fun fold_step :: "('a \<Rightarrow> 'b \<Rightarrow> ('s, 'r, 'b) step) \<Rightarrow> 'a list \<Rightarrow> 'b \<Rightarrow> ('s, 'r, 'b) step" where
  "fold_step f [] b = ret b"
| "fold_step f (x # xs) b = and_then (f x b) (fold_step f xs)"

section \<open>Hoare predicate\<close>

text \<open>
  \<open>holds_after P m R Q\<close>: from a state where \<open>P\<close> holds, \<open>R r s'\<close> holds when the handler
  leaves with \<open>r\<close>, and \<open>Q a s'\<close> when the step continues with \<open>a\<close>.
\<close>

definition holds_after ::
  "('s \<Rightarrow> bool) \<Rightarrow> ('s, 'r, 'a) step \<Rightarrow> ('r \<Rightarrow> 's \<Rightarrow> bool) \<Rightarrow> ('a \<Rightarrow> 's \<Rightarrow> bool) \<Rightarrow> bool" where
  "holds_after P m R Q \<longleftrightarrow>
     (\<forall>s. P s \<longrightarrow> (\<forall>r s'. m s = (Inl r, s') \<longrightarrow> R r s') \<and> (\<forall>a s'. m s = (Inr a, s') \<longrightarrow> Q a s'))"

lemma and_then_Inl:
  "and_then m f s = (Inl r, t) \<longleftrightarrow>
     m s = (Inl r, t) \<or> (\<exists>a s'. m s = (Inr a, s') \<and> f a s' = (Inl r, t))"
  by (auto simp: and_then_def split: prod.splits sum.splits)

lemma and_then_Inr:
  "and_then m f s = (Inr b, t) \<longleftrightarrow> (\<exists>a s'. m s = (Inr a, s') \<and> f a s' = (Inr b, t))"
  by (auto simp: and_then_def split: prod.splits sum.splits)

lemma on_error_Inl:
  "on_error m h s = (Inl r, t) \<longleftrightarrow> (\<exists>e s'. m s = (Inl e, s') \<and> h e s' = (Inl r, t))"
  by (auto simp: on_error_def split: prod.splits sum.splits)

lemma on_error_Inr:
  "on_error m h s = (Inr a, t) \<longleftrightarrow>
     m s = (Inr a, t) \<or> (\<exists>e s'. m s = (Inl e, s') \<and> h e s' = (Inr a, t))"
  by (auto simp: on_error_def split: prod.splits sum.splits)

text \<open>The values a step may continue with.\<close>

definition may_return :: "('s, 'r, 'a) step \<Rightarrow> 'a \<Rightarrow> bool" where
  "may_return m a \<longleftrightarrow> (\<exists>s s'. m s = (Inr a, s'))"

lemma may_returnI: "m s = (Inr a, s') \<Longrightarrow> may_return m a"
  by (auto simp: may_return_def)

lemma may_return_simps [simp]:
  "may_return (ret a) b \<longleftrightarrow> b = a" "\<not> may_return (exit_with r) b"
  by (auto simp: may_return_def ret_def exit_with_def)

lemma may_return_and_then: "may_return (and_then m f) b \<Longrightarrow> \<exists>a. may_return m a \<and> may_return (f a) b"
  by (auto simp: may_return_def and_then_Inr)

lemma may_return_log_error: "may_return (log_error msg m) a \<longleftrightarrow> may_return m a"
  by (auto simp: may_return_def log_error_def on_error_Inr exit_with_def)

lemma for_each_Cons: "for_each f (x # xs) = and_then (f x) (\<lambda>_. for_each f xs)"
  by (rule ext) (simp add: and_then_def split: prod.split sum.split)

lemma for_each_Nil: "for_each f [] = ret ()"
  by (rule ext) (simp add: ret_def)

lemma holds_afterI:
  "(\<And>s r s'. P s \<Longrightarrow> m s = (Inl r, s') \<Longrightarrow> R r s') \<Longrightarrow>
   (\<And>s a s'. P s \<Longrightarrow> m s = (Inr a, s') \<Longrightarrow> Q a s') \<Longrightarrow> holds_after P m R Q"
  by (simp add: holds_after_def)

lemma holds_after_exit: "holds_after P m R Q \<Longrightarrow> P s \<Longrightarrow> m s = (Inl r, s') \<Longrightarrow> R r s'"
  by (simp add: holds_after_def)

lemma holds_after_value: "holds_after P m R Q \<Longrightarrow> P s \<Longrightarrow> m s = (Inr a, s') \<Longrightarrow> Q a s'"
  by (simp add: holds_after_def)

lemma holds_after_ret [step_intros]: "(\<And>s. P s \<Longrightarrow> Q a s) \<Longrightarrow> holds_after P (ret a) R Q"
  by (simp add: holds_after_def ret_def)

lemma holds_after_exit_with [step_intros]:
  "(\<And>s. P s \<Longrightarrow> R r s) \<Longrightarrow> holds_after P (exit_with r) R Q"
  by (simp add: holds_after_def exit_with_def)

lemma holds_after_and_then [step_intros]:
  assumes "holds_after P m R Q" and "\<And>a. holds_after (Q a) (f a) R T"
  shows "holds_after P (and_then m f) R T"
proof (rule holds_afterI)
  fix s r t
  assume "P s" and "and_then m f s = (Inl r, t)"
  then show "R r t"
    using assms by (auto simp: and_then_Inl dest: holds_after_exit holds_after_value)
next
  fix s b t
  assume "P s" and "and_then m f s = (Inr b, t)"
  then show "T b t"
    using assms by (auto simp: and_then_Inr dest: holds_after_value)
qed

lemma holds_after_if [step_intros]:
  "(b \<Longrightarrow> holds_after P m R Q) \<Longrightarrow> (\<not> b \<Longrightarrow> holds_after P n R Q) \<Longrightarrow>
   holds_after P (if b then m else n) R Q"
  by (cases b) auto

lemma holds_after_for_each [step_intros]:
  "(\<And>x. x \<in> set xs \<Longrightarrow> holds_after I (f x) R (\<lambda>_. I)) \<Longrightarrow>
   holds_after I (for_each f xs) R (\<lambda>_. I)"
proof (induction xs)
  case Nil
  show ?case unfolding for_each_Nil by (rule holds_after_ret)
next
  case (Cons x xs)
  show ?case
    unfolding for_each_Cons
    by (rule holds_after_and_then [where Q = "\<lambda>_. I"]) (simp_all add: Cons)
qed

lemma holds_after_fold_step:
  "(\<And>x ys b. holds_after (I ys b) (f x b) R (I (ys @ [x]))) \<Longrightarrow>
   holds_after (I ys b) (fold_step f xs b) R (I (ys @ xs))"
proof (induction xs arbitrary: ys b)
  case Nil
  show ?case by (auto intro: holds_after_ret)
next
  case (Cons x xs)
  have "holds_after (I (ys @ [x]) c) (fold_step f xs c) R (I ((ys @ [x]) @ xs))" for c
    by (rule Cons.IH) (rule Cons.prems)
  then show ?case
    by (auto intro!: holds_after_and_then [where Q = "I (ys @ [x])"] Cons.prems)
qed

lemma holds_after_weaken:
  "holds_after P m R Q \<Longrightarrow> (\<And>s. P' s \<Longrightarrow> P s) \<Longrightarrow> (\<And>r s. R r s \<Longrightarrow> R' r s) \<Longrightarrow>
   (\<And>a s. Q a s \<Longrightarrow> Q' a s) \<Longrightarrow> holds_after P' m R' Q'"
  unfolding holds_after_def by blast

section \<open>Lists and maps\<close>

lemma distinct_map_unique:
  "distinct (map f xs) \<Longrightarrow> x \<in> set xs \<Longrightarrow> y \<in> set xs \<Longrightarrow> f x = f y \<Longrightarrow> x = y"
  by (auto simp: distinct_map inj_on_def)

lemma find_Some_first:
  "find P xs = Some x \<Longrightarrow> P x \<and> x \<in> set xs"
  by (auto simp: find_Some_iff)

lemma find_None_all: "find P xs = None \<Longrightarrow> x \<in> set xs \<Longrightarrow> \<not> P x"
  by (auto simp: find_None_iff)

lemma length_filter_eq_length: "length (filter P xs) = length xs \<longleftrightarrow> (\<forall>x\<in>set xs. P x)"
  using length_filter_less [of _ xs P] by fastforce

lemma count_list_filter: "count_list (map f xs) k = length (filter (\<lambda>x. f x = k) xs)"
  by (induction xs) auto

lemma distinct_count_list: "distinct xs \<longleftrightarrow> (\<forall>x. count_list xs x \<le> 1)"
proof (induction xs)
  case Nil
  show ?case by simp
next
  case (Cons y ys)
  have pos: "y \<in> set ys \<longleftrightarrow> count_list ys y > 0" using count_list_0_iff [of ys y] by linarith
  show ?case
  proof
    assume "distinct (y # ys)"
    then show "\<forall>x. count_list (y # ys) x \<le> 1" using Cons pos by auto
  next
    assume all: "\<forall>x. count_list (y # ys) x \<le> 1"
    then have "count_list (y # ys) y \<le> 1" ..
    then have "y \<notin> set ys" using pos by simp
    moreover have "count_list ys x \<le> 1" for x
      using all [THEN spec, of x] by (simp split: if_splits)
    ultimately show "distinct (y # ys)" using Cons by simp
  qed
qed

lemma find_map_same: "(\<And>x. Q (f x) = P x) \<Longrightarrow> find Q (map f xs) = map_option f (find P xs)"
  by (induction xs) auto

lemma find_index: "find (\<lambda>i. P (xs ! i)) [0..<length xs] = Some i \<Longrightarrow> find P xs = Some (xs ! i)"
  by (auto simp: find_Some_iff)

lemma find_index_None: "find (\<lambda>i. P (xs ! i)) [0..<length xs] = None \<longleftrightarrow> find P xs = None"
  by (auto simp: find_None_iff in_set_conv_nth)

end
