(* ===== verification/Go_Lib.thy ===== *)
theory Go_Lib
  imports Prelude
begin

text \<open>
  The functions of Go's standard library the operator uses on strings, written out: a Go
  string is its list of bytes, so \<open>string\<close> (a \<open>char list\<close>) and the byte order of
  \<open>List_Lexorder\<close> and \<open>Char_ord\<close> for \<open><\<close>.

  \<^item> \<open>split_n2 c s\<close> is \<open>strings.SplitN(s, c, 2)\<close>, \<open>split_on c s\<close> is \<open>strings.Split\<close>,
    \<open>join_with\<close> is \<open>strings.Join\<close>, \<open>has_prefix\<close> is \<open>strings.HasPrefix\<close> (arguments in Go's order);
  \<^item> \<open>to_lower\<close> is \<open>strings.ToLower\<close> on ASCII;
  \<^item> \<open>itoa\<close> and \<open>atoi\<close> are \<open>strconv.Itoa\<close> and \<open>strconv.Atoi\<close> on 64-bit \<open>int\<close>;
  \<^item> \<open>stable_sort_desc\<close> is \<open>sort.SliceStable\<close> with \<open>a[i].key > a[j].key\<close>.
\<close>

section \<open>Splitting and joining\<close>

definition split_n2 :: "char \<Rightarrow> string \<Rightarrow> string list" where
  "split_n2 c s =
     (if c \<in> set s then [takeWhile (\<lambda>x. x \<noteq> c) s, tl (dropWhile (\<lambda>x. x \<noteq> c) s)] else [s])"

fun split_on :: "char \<Rightarrow> string \<Rightarrow> string list" where
  "split_on c [] = [[]]"
| "split_on c (x # xs) =
     (if x = c then [] # split_on c xs
      else (case split_on c xs of [] \<Rightarrow> [[x]] | p # ps \<Rightarrow> (x # p) # ps))"

fun join_with :: "string \<Rightarrow> string list \<Rightarrow> string" where
  "join_with sep [] = []"
| "join_with sep [x] = x"
| "join_with sep (x # y # ys) = x @ sep @ join_with sep (y # ys)"

definition has_prefix :: "string \<Rightarrow> string \<Rightarrow> bool" where
  "has_prefix s p \<longleftrightarrow> take (length p) s = p"

definition has_suffix :: "string \<Rightarrow> string \<Rightarrow> bool" where
  "has_suffix s p \<longleftrightarrow> has_prefix (rev s) (rev p)"

definition trim_prefix :: "string \<Rightarrow> string \<Rightarrow> string" where
  "trim_prefix s p = (if has_prefix s p then drop (length p) s else s)"

lemma split_on_not_Nil [simp]: "split_on c s \<noteq> []"
  by (induction s) (auto split: list.split)

lemma hd_split_on: "hd (split_on c s) = takeWhile (\<lambda>x. x \<noteq> c) s"
  by (induction s) (auto split: list.split)

lemma join_split_on: "join_with [c] (split_on c s) = s"
proof (induction s)
  case Nil
  show ?case by simp
next
  case (Cons x xs)
  obtain p ps where "split_on c xs = p # ps" by (cases "split_on c xs") auto
  with Cons show ?case by (cases ps) auto
qed

lemma split_on_append_sep: "c \<notin> set a \<Longrightarrow> split_on c (a @ c # b) = a # split_on c b"
  by (induction a) auto

lemma hd_split_n2: "hd (split_n2 c s) = takeWhile (\<lambda>x. x \<noteq> c) s"
proof (cases "c \<in> set s")
  case True
  then show ?thesis by (simp add: split_n2_def)
next
  case False
  then show ?thesis
    by (auto simp: split_n2_def intro!: takeWhile_eq_all_conv [THEN iffD2, symmetric])
qed

lemma takeWhile_append_sep: "c \<notin> set a \<Longrightarrow> takeWhile (\<lambda>x. x \<noteq> c) (a @ c # b) = a"
  by (induction a) auto

lemma dropWhile_append_sep: "c \<notin> set a \<Longrightarrow> dropWhile (\<lambda>x. x \<noteq> c) (a @ c # b) = c # b"
  by (induction a) auto

lemma split_n2_append_sep: "c \<notin> set a \<Longrightarrow> split_n2 c (a @ c # b) = [a, b]"
  by (simp add: split_n2_def takeWhile_append_sep dropWhile_append_sep)

lemma split_n2_absent: "c \<notin> set s \<Longrightarrow> split_n2 c s = [s]"
  by (simp add: split_n2_def)

lemma has_prefix_append [simp]: "has_prefix (p @ s) p"
  by (simp add: has_prefix_def)

lemma has_prefix_self [simp]: "has_prefix s s" "has_prefix s []"
  by (simp_all add: has_prefix_def)

section \<open>Case mapping\<close>

definition lower_char :: "char \<Rightarrow> char" where
  "lower_char c = (if CHR ''A'' \<le> c \<and> c \<le> CHR ''Z'' then char_of (of_char c + 32 :: nat) else c)"

definition to_lower :: "string \<Rightarrow> string" where
  "to_lower = map lower_char"

section \<open>Decimal numbers\<close>

definition digit_char :: "nat \<Rightarrow> char" where
  "digit_char d = char_of (48 + d)"

fun digits_of :: "nat \<Rightarrow> string" where
  "digits_of n = (if n < 10 then [digit_char n] else digits_of (n div 10) @ [digit_char (n mod 10)])"

declare digits_of.simps [simp del]

definition itoa :: "int \<Rightarrow> string" where
  "itoa i = (if i < 0 then CHR ''-'' # digits_of (nat (- i)) else digits_of (nat i))"

definition is_digit :: "char \<Rightarrow> bool" where
  "is_digit c \<longleftrightarrow> 48 \<le> (of_char c :: nat) \<and> (of_char c :: nat) \<le> 57"

definition digit_value :: "char \<Rightarrow> nat" where
  "digit_value c = of_char c - 48"

definition value_of_digits :: "string \<Rightarrow> nat" where
  "value_of_digits s = foldl (\<lambda>n c. 10 * n + digit_value c) 0 s"

text \<open>
  \<open>strconv.Atoi\<close>: an optional sign, then at least one digit and nothing else; a value outside
  the 64-bit range is an error.
\<close>

definition atoi :: "string \<Rightarrow> int option" where
  "atoi s =
     (let neg = (s \<noteq> [] \<and> hd s = CHR ''-'');
          ds = (if s \<noteq> [] \<and> hd s \<in> {CHR ''-'', CHR ''+''} then tl s else s);
          v = (if neg then - int (value_of_digits ds) else int (value_of_digits ds))
      in if ds \<noteq> [] \<and> list_all is_digit ds \<and> - (2 ^ 63) \<le> v \<and> v < 2 ^ 63 then Some v else None)"

lemma of_char_digit_char: "d < 10 \<Longrightarrow> (of_char (digit_char d) :: nat) = 48 + d"
  by (simp add: digit_char_def)

lemma is_digit_digit_char: "d < 10 \<Longrightarrow> is_digit (digit_char d)"
  by (simp add: is_digit_def of_char_digit_char)

lemma digit_value_digit_char: "d < 10 \<Longrightarrow> digit_value (digit_char d) = d"
  by (simp add: digit_value_def of_char_digit_char)

lemma digits_of_nonempty: "digits_of n \<noteq> []"
  by (subst digits_of.simps) simp

lemma digits_of_digits: "list_all is_digit (digits_of n)"
proof (induction n rule: digits_of.induct)
  case (1 n)
  then show ?case by (subst digits_of.simps) (auto simp: is_digit_digit_char)
qed

lemma value_of_digits_snoc: "value_of_digits (s @ [c]) = 10 * value_of_digits s + digit_value c"
  by (simp add: value_of_digits_def)

lemma value_digits_of: "value_of_digits (digits_of n) = n"
proof (induction n rule: digits_of.induct)
  case (1 n)
  show ?case
  proof (cases "n < 10")
    case True
    then show ?thesis
      by (subst digits_of.simps) (simp add: value_of_digits_def digit_value_digit_char)
  next
    case False
    with 1 have "value_of_digits (digits_of (n div 10)) = n div 10" by simp
    with False show ?thesis
      by (subst digits_of.simps) (simp add: value_of_digits_snoc digit_value_digit_char)
  qed
qed

lemma hd_digits_of: "is_digit (hd (digits_of n))"
  using digits_of_digits [of n] digits_of_nonempty [of n]
  by (cases "digits_of n") auto

lemma not_digit_sign: "\<not> is_digit (CHR ''-'')" "\<not> is_digit (CHR ''+'')"
  by (simp_all add: is_digit_def)

lemma hd_digits_of_sign [simp]:
  "hd (digits_of n) \<noteq> CHR ''-''" "hd (digits_of n) \<noteq> CHR ''+''"
  using hd_digits_of [of n] not_digit_sign by metis+

lemma atoi_itoa:
  assumes "- (2 ^ 63) \<le> i" and "i < 2 ^ 63"
  shows "atoi (itoa i) = Some i"
proof (cases "i < 0")
  case True
  with assms show ?thesis
    by (simp add: atoi_def itoa_def Let_def digits_of_nonempty digits_of_digits value_digits_of)
next
  case False
  with assms show ?thesis
    by (simp add: atoi_def itoa_def Let_def digits_of_nonempty digits_of_digits value_digits_of)
qed

lemma hd_itoa_sign: "hd (itoa i) = CHR ''-'' \<longleftrightarrow> i < 0"
  by (simp add: itoa_def)

lemma itoa_inj: "itoa i = itoa j \<Longrightarrow> i = j"
proof -
  assume eq: "itoa i = itoa j"
  have sgn: "(i < 0) = (j < 0)"
    using eq hd_itoa_sign [of i] hd_itoa_sign [of j] by simp
  show "i = j"
  proof (cases "i < 0")
    case True
    with eq sgn have "digits_of (nat (- i)) = digits_of (nat (- j))"
      by (simp add: itoa_def)
    then have "nat (- i) = nat (- j)" by (metis value_digits_of)
    with True sgn show ?thesis by simp
  next
    case False
    with eq sgn have "digits_of (nat i) = digits_of (nat j)"
      by (simp add: itoa_def)
    then have "nat i = nat j" by (metis value_digits_of)
    with False sgn show ?thesis by simp
  qed
qed

section \<open>Division\<close>

text \<open>Integer division of Go truncates towards zero.\<close>

definition quot :: "int \<Rightarrow> int \<Rightarrow> int" where
  "quot a b = sgn a * sgn b * (\<bar>a\<bar> div \<bar>b\<bar>)"

lemma quot_nonneg: "0 \<le> a \<Longrightarrow> 0 < b \<Longrightarrow> quot a b = a div b"
  by (cases "a = 0") (simp_all add: quot_def)

section \<open>Stable sorting\<close>

text \<open>
  \<open>sort.SliceStable(xs, key descending)\<close>: a stable insertion sort by descending key. A stable
  sort by a total preorder is unique, so this is the list Go produces.
\<close>

fun insort_desc :: "('a \<Rightarrow> 'k::linorder) \<Rightarrow> 'a \<Rightarrow> 'a list \<Rightarrow> 'a list" where
  "insort_desc k x [] = [x]"
| "insort_desc k x (y # ys) = (if k y \<le> k x then x # y # ys else y # insort_desc k x ys)"

definition stable_sort_desc :: "('a \<Rightarrow> 'k::linorder) \<Rightarrow> 'a list \<Rightarrow> 'a list" where
  "stable_sort_desc k xs = foldr (insort_desc k) xs []"

lemma set_insort_desc: "set (insort_desc k x xs) = insert x (set xs)"
  by (induction xs) auto

lemma set_stable_sort_desc [simp]: "set (stable_sort_desc k xs) = set xs"
  by (induction xs) (auto simp: stable_sort_desc_def set_insort_desc)

lemma length_insort_desc [simp]: "length (insort_desc k x xs) = Suc (length xs)"
  by (induction xs) auto

lemma length_stable_sort_desc [simp]: "length (stable_sort_desc k xs) = length xs"
  by (induction xs) (auto simp: stable_sort_desc_def)

lemma sorted_insort_desc:
  "sorted_wrt (\<lambda>a b. k b \<le> k a) xs \<Longrightarrow> sorted_wrt (\<lambda>a b. k b \<le> k a) (insort_desc k x xs)"
  by (induction xs) (auto simp: set_insort_desc)

lemma sorted_stable_sort_desc: "sorted_wrt (\<lambda>a b. k b \<le> k a) (stable_sort_desc k xs)"
  by (induction xs) (auto simp: stable_sort_desc_def sorted_insort_desc)

lemma stable_sort_desc_sorted:
  "sorted_wrt (\<lambda>a b. k b \<le> k a) xs \<Longrightarrow> stable_sort_desc k xs = xs"
proof (induction xs)
  case Nil
  then show ?case by (simp add: stable_sort_desc_def)
next
  case (Cons x xs)
  then have "foldr (insort_desc k) xs [] = xs"
    by (simp add: stable_sort_desc_def)
  with Cons.prems show ?case by (cases xs) (auto simp: stable_sort_desc_def)
qed

lemma stable_sort_desc_idem [simp]:
  "stable_sort_desc k (stable_sort_desc k xs) = stable_sort_desc k xs"
  by (rule stable_sort_desc_sorted) (rule sorted_stable_sort_desc)

lemma filter_insort_desc:
  "filter (\<lambda>y. k y = c) (insort_desc k x xs) =
     (if k x = c then x # filter (\<lambda>y. k y = c) xs else filter (\<lambda>y. k y = c) xs)"
  by (induction xs) (auto simp: not_le)

lemma filter_stable_sort_desc:
  "filter (\<lambda>y. k y = c) (stable_sort_desc k xs) = filter (\<lambda>y. k y = c) xs"
  by (induction xs) (auto simp: stable_sort_desc_def filter_insort_desc)

text \<open>With distinct keys the order of the input does not matter.\<close>

lemma distinct_insort_desc:
  "k x \<notin> k ` set xs \<Longrightarrow> distinct (map k xs) \<Longrightarrow> distinct (map k (insort_desc k x xs))"
  by (induction xs) (auto simp: set_insort_desc)

lemma distinct_stable_sort_desc: "distinct (map k xs) \<Longrightarrow> distinct (map k (stable_sort_desc k xs))"
proof (induction xs)
  case Nil
  then show ?case by (simp add: stable_sort_desc_def)
next
  case (Cons x xs)
  then show ?case
    using distinct_insort_desc [of k x "stable_sort_desc k xs"] set_stable_sort_desc [of k xs]
    by (simp add: stable_sort_desc_def)
qed

lemma stable_sort_desc_unique:
  assumes "distinct (map k xs)" and "distinct (map k ys)" and "set xs = set ys"
  shows "stable_sort_desc k xs = stable_sort_desc k ys"
proof -
  have sorted: "sorted (rev (map k (stable_sort_desc k zs)))" for zs
    using sorted_stable_sort_desc [of k zs] by (simp add: rev_map sorted_wrt_map sorted_wrt_rev)
  have "rev (map k (stable_sort_desc k xs)) = rev (map k (stable_sort_desc k ys))"
    by (rule sorted_distinct_set_unique)
      (simp_all add: sorted distinct_stable_sort_desc assms)
  then have eq: "map k (stable_sort_desc k xs) = map k (stable_sort_desc k ys)" by simp
  have "inj_on k (set ys)" using assms(2) by (simp add: distinct_map)
  then show ?thesis
    using eq by (intro map_inj_on [where f = k]) (simp_all add: assms(3))
qed

end
