(* ===== verification/Api_Types.thy ===== *)
theory Api_Types
  imports Go_Lib
begin

text \<open>
  The data of the operator: the custom resource types of api/v1alpha1/humiocluster_types.go,
  the \<open>HumioNodePool\<close> of humiocluster_defaults.go, and of the Kubernetes objects (which
  are not part of the repository) the fields the operator reads or writes.

  A pointer of Go is an \<open>option\<close>, a Go map a \<open>string \<rightharpoonup> string\<close>, a number an \<open>int\<close>. Parts of
  Kubernetes objects the operator only carries around (probes, affinities, resources, security
  contexts) are \<open>kvalue\<close>s, the JSON-like tree Kubernetes stores; \<open>KObj []\<close> is the zero struct.
  Field names carry the prefix of their record.
\<close>

section \<open>Kubernetes objects\<close>

datatype kvalue =
  KNil | KBool bool | KInt int | KStr string | KList "kvalue list" | KObj "(string \<times> kvalue) list"

type_synonym smap = "string \<rightharpoonup> string"

text \<open>Reading a missing key of a Go map gives the zero value.\<close>

definition map_get :: "smap \<Rightarrow> string \<Rightarrow> string" where
  "map_get m k = (case m k of None \<Rightarrow> [] | Some v \<Rightarrow> v)"

lemma map_get_simps [simp]:
  "map_get (m(k \<mapsto> v)) k = v" "k \<noteq> j \<Longrightarrow> map_get (m(k \<mapsto> v)) j = map_get m j"
  by (simp_all add: map_get_def)

datatype int_or_string = IntVal int | StrVal string

record env_var =
  ev_name :: string
  ev_value :: string
  ev_value_from :: kvalue

record env_from_source =
  efs_config_map :: "string option"
  efs_secret :: "string option"

record volume_mount =
  vm_name :: string
  vm_mount_path :: string
  vm_sub_path :: string
  vm_read_only :: bool

record volume_source =
  vs_pvc :: "string option"   \<comment> \<open>\<open>PersistentVolumeClaim\<close>, its \<open>ClaimName\<close>\<close>
  vs_rest :: kvalue           \<comment> \<open>the other members of the union\<close>

definition empty_volume_source :: volume_source where
  "empty_volume_source = \<lparr>vs_pvc = None, vs_rest = KObj []\<rparr>"

record volume =
  v_name :: string
  v_source :: volume_source

record container =
  c_name :: string
  c_image :: string
  c_image_pull_policy :: string
  c_command :: "string list"
  c_args :: "string list"
  c_ports :: kvalue
  c_env :: "env_var list"
  c_env_from :: "env_from_source list"
  c_volume_mounts :: "volume_mount list"
  c_readiness_probe :: "kvalue option"
  c_liveness_probe :: "kvalue option"
  c_startup_probe :: "kvalue option"
  c_resources :: kvalue
  c_security_context :: "kvalue option"
  c_termination_message_path :: string
  c_termination_message_policy :: string

definition empty_container :: container where
  "empty_container = \<lparr>c_name = [], c_image = [], c_image_pull_policy = [], c_command = [],
     c_args = [], c_ports = KNil, c_env = [], c_env_from = [], c_volume_mounts = [],
     c_readiness_probe = None, c_liveness_probe = None, c_startup_probe = None,
     c_resources = KObj [], c_security_context = None, c_termination_message_path = [],
     c_termination_message_policy = []\<rparr>"

record pod_spec =
  ps_init_containers :: "container list"
  ps_containers :: "container list"
  ps_volumes :: "volume list"
  ps_hostname :: string
  ps_subdomain :: string
  ps_node_name :: string
  ps_restart_policy :: string
  ps_dns_policy :: string
  ps_scheduler_name :: string
  ps_priority :: "int option"
  ps_priority_class_name :: string
  ps_enable_service_links :: "bool option"
  ps_preemption_policy :: "string option"
  ps_deprecated_service_account :: string
  ps_service_account_name :: string
  ps_share_process_namespace :: "bool option"
  ps_image_pull_secrets :: "string list"
  ps_affinity :: kvalue
  ps_tolerations :: "kvalue list"
  ps_topology_spread_constraints :: "kvalue list"
  ps_security_context :: "kvalue option"
  ps_termination_grace_period_seconds :: "int option"

definition empty_pod_spec :: pod_spec where
  "empty_pod_spec = \<lparr>ps_init_containers = [], ps_containers = [], ps_volumes = [],
     ps_hostname = [], ps_subdomain = [], ps_node_name = [], ps_restart_policy = [],
     ps_dns_policy = [], ps_scheduler_name = [], ps_priority = None, ps_priority_class_name = [],
     ps_enable_service_links = None, ps_preemption_policy = None,
     ps_deprecated_service_account = [], ps_service_account_name = [],
     ps_share_process_namespace = None, ps_image_pull_secrets = [], ps_affinity = KObj [],
     ps_tolerations = [], ps_topology_spread_constraints = [], ps_security_context = None,
     ps_termination_grace_period_seconds = None\<rparr>"

type_synonym time = int   \<comment> \<open>nanoseconds since the epoch\<close>

record pod_condition =
  pc_type :: string
  pc_status :: string
  pc_reason :: string
  pc_last_transition_time :: "time option"   \<comment> \<open>\<open>None\<close> is the zero time\<close>

record container_status =
  cs_waiting :: "string option"      \<comment> \<open>\<open>State.Waiting\<close>, its reason\<close>
  cs_terminated :: "string option"   \<comment> \<open>\<open>State.Terminated\<close>, its reason\<close>

record pod =
  p_name :: string
  p_namespace :: string
  p_labels :: smap
  p_annotations :: smap
  p_deletion_timestamp :: "time option"
  p_managers :: "string list"        \<comment> \<open>the managers of \<open>ManagedFields\<close>\<close>
  p_spec :: pod_spec
  p_phase :: string
  p_reason :: string
  p_conditions :: "pod_condition list"
  p_container_statuses :: "container_status list"

definition empty_pod :: pod where
  "empty_pod = \<lparr>p_name = [], p_namespace = [], p_labels = Map.empty, p_annotations = Map.empty,
     p_deletion_timestamp = None, p_managers = [], p_spec = empty_pod_spec, p_phase = [],
     p_reason = [], p_conditions = [], p_container_statuses = []\<rparr>"

record node =
  node_labels :: smap
  node_unschedulable :: bool

record pvc =
  pvc_name :: string
  pvc_phase :: string
  pvc_deletion_timestamp :: "time option"
  pvc_volume_name :: string
  pvc_labels :: smap

record persistent_volume =
  pv_local :: bool
  pv_node_affinity :: "string list list list option option"
    \<comment> \<open>\<open>NodeAffinity\<close>, \<open>Required\<close>, then the terms, their expressions and their values\<close>

record secret_key_selector =
  sks_name :: string
  sks_key :: string

section \<open>Other Kubernetes objects\<close>

text \<open>
  The objects the operator reads, creates and updates as a whole. One record serves every kind: a
  field a kind does not have keeps its zero value, and \<open>ko_spec\<close> is the part of the specification
  no other field holds. \<open>zero_object\<close> is the zero value a failed \<open>Get\<close> leaves.
\<close>

datatype object_kind =
    ConfigMapKind | SecretKind | IngressKind | ServiceKind | ServiceAccountKind | ClusterRoleKind
  | ClusterRoleBindingKind | IssuerKind | CertificateKind | PodDisruptionBudgetKind | TelemetryKind

record ingress_path =
  ip_path :: string
  ip_path_type :: "string option"
  ip_service :: string
  ip_port :: int

record ingress_rule =
  ir_host :: string
  ir_http :: "ingress_path list option"    \<comment> \<open>\<open>HTTP\<close>, its \<open>Paths\<close>\<close>

record k8s_object =
  ko_name :: string
  ko_namespace :: string
  ko_labels :: smap
  ko_annotations :: smap
  ko_deletion_timestamp :: "time option"
  ko_creation :: time                      \<comment> \<open>\<open>CreationTimestamp\<close>\<close>
  ko_owner_kinds :: "string list"          \<comment> \<open>the kinds of the owner references\<close>
  ko_owner_uids :: "string list"           \<comment> \<open>their UIDs\<close>
  ko_type :: string                        \<comment> \<open>\<open>Type\<close> of a secret or a service\<close>
  ko_data :: smap                          \<comment> \<open>\<open>Data\<close> of a config map or a secret\<close>
  ko_string_data :: smap                   \<comment> \<open>\<open>StringData\<close> of a secret, which the API server never returns\<close>
  ko_selector :: smap                      \<comment> \<open>\<open>Spec.Selector\<close> of a service\<close>
  ko_publish_not_ready :: bool             \<comment> \<open>\<open>Spec.PublishNotReadyAddresses\<close> of a service\<close>
  ko_rules :: "ingress_rule list"          \<comment> \<open>\<open>Spec.Rules\<close> of an ingress\<close>
  ko_tls :: "(string list \<times> string) list"  \<comment> \<open>\<open>Spec.TLS\<close> of an ingress: hosts and secret\<close>
  ko_dns_names :: "string list"            \<comment> \<open>\<open>Spec.DNSNames\<close> of a certificate\<close>
  ko_keystores :: "kvalue option option"   \<comment> \<open>\<open>Spec.Keystores\<close> of a certificate, its \<open>JKS\<close>\<close>
  ko_conditions :: "(string \<times> string) list"  \<comment> \<open>type and status of the conditions of an issuer\<close>
  ko_finalizers :: "string list"
  ko_spec :: kvalue

definition zero_object :: k8s_object where
  "zero_object = \<lparr>ko_name = [], ko_namespace = [], ko_labels = Map.empty, ko_annotations = Map.empty,
     ko_deletion_timestamp = None, ko_creation = 0, ko_owner_kinds = [], ko_owner_uids = [], ko_type = [], ko_data = Map.empty, ko_string_data = Map.empty,
     ko_selector = Map.empty, ko_publish_not_ready = False, ko_rules = [], ko_tls = [],
     ko_dns_names = [], ko_keystores = None, ko_conditions = [], ko_finalizers = [], ko_spec = KNil\<rparr>"

section \<open>Telemetry\<close>

record telemetry_collection =
  tc_interval :: string
  tc_include :: "string list"

record telemetry_config =
  tlc_url :: "(string \<times> secret_key_selector option) option"
    \<comment> \<open>\<open>RemoteReport\<close>: its URL and \<open>Token.SecretKeyRef\<close>\<close>
  tlc_cluster_identifier :: string
  tlc_collections :: "telemetry_collection list"

record telemetry_error =
  te_type :: string
  te_message :: string
  te_timestamp :: time

record telemetry_status =
  ts_state :: string
  ts_last_collection_time :: "time option"
  ts_last_export_time :: "time option"
  ts_collection_errors :: "telemetry_error list"
  ts_export_errors :: "telemetry_error list"
  ts_resource_name :: string

record humio_telemetry =
  ht_name :: string
  ht_namespace :: string
  ht_labels :: smap
  ht_cluster_identifier :: string
  ht_managed_cluster_name :: string
  ht_url :: string
  ht_token :: "secret_key_selector option"
  ht_collections :: "telemetry_collection list"
  ht_state :: string
  ht_last_collection_time :: "time option"
  ht_last_export_time :: "time option"
  ht_collection_errors :: "telemetry_error list"
  ht_export_errors :: "telemetry_error list"

record external_cluster =
  ec_url :: string
  ec_api_token_secret_name :: string
  ec_insecure :: bool
  ec_ca_secret_name :: string
  ec_state :: string      \<comment> \<open>\<open>Status.State\<close>\<close>
  ec_version :: string    \<comment> \<open>\<open>Status.Version\<close>\<close>

section \<open>The HumioCluster resource\<close>

record update_strategy =
  us_type :: string
  us_min_ready_seconds :: int
  us_enable_zone_awareness :: "bool option"
  us_max_unavailable :: "int_or_string option"

record pdb_spec =
  pdb_min_available :: "int_or_string option"
  pdb_max_unavailable :: "int_or_string option"
  pdb_unhealthy_pod_eviction_policy :: "string option"
  pdb_enabled :: bool

record humio_node_spec =
  ns_image :: string
  ns_image_source :: "secret_key_selector option"  \<comment> \<open>\<open>ImageSource.ConfigMapRef\<close>: name and key\<close>
  ns_node_count :: int
  ns_pvc_spec_template :: kvalue
  ns_pvc_reclaim_type :: string
  ns_data_volume_source :: volume_source
  ns_disable_init_container :: bool
  ns_environment_variables_source :: "env_from_source list"
  ns_pod_annotations :: smap
  ns_share_process_namespace :: "bool option"
  ns_humio_service_account_name :: string
  ns_image_pull_secrets :: "string list"
  ns_helper_image :: string
  ns_image_pull_policy :: string
  ns_container_security_context :: "kvalue option"
  ns_container_readiness_probe :: "kvalue option"
  ns_container_liveness_probe :: "kvalue option"
  ns_container_startup_probe :: "kvalue option"
  ns_pod_security_context :: "kvalue option"
  ns_resources :: kvalue
  ns_termination_grace_period_seconds :: "int option"
  ns_affinity :: kvalue
  ns_tolerations :: "kvalue list"
  ns_topology_spread_constraints :: "kvalue list"
  ns_sidecar_containers :: "container list"
  ns_extra_kafka_configs :: string
  ns_extra_humio_volume_mounts :: "volume_mount list"
  ns_extra_volumes :: "volume list"
  ns_humio_service_account_annotations :: smap
  ns_humio_service_labels :: smap
  ns_environment_variables :: "env_var list"
  ns_humio_service_type :: string
  ns_humio_service_port :: int
  ns_humio_es_service_port :: int
  ns_humio_service_annotations :: smap
  ns_init_service_account_name :: string
  ns_pod_labels :: smap
  ns_update_strategy :: "update_strategy option"
  ns_priority_class_name :: string
  ns_allowed_api_request_types :: "string list option"
  ns_pod_disruption_budget :: "pdb_spec option"

record humio_node_pool_spec =
  nps_name :: string
  nps_spec :: humio_node_spec

record ingress_spec =
  ing_enabled :: bool
  ing_controller :: string
  ing_tls :: "bool option"
  ing_secret_name :: string
  ing_es_secret_name :: string
  ing_annotations :: smap

record tls_spec =
  tls_enabled_flag :: "bool option"
  tls_ca_secret_name :: string
  tls_extra_hostnames :: "string list"

record humio_cluster_spec =
  hcs_enable_downscaling_feature :: bool
  hcs_target_replication_factor :: int
  hcs_digest_partitions_count :: int
  hcs_license :: "secret_key_selector option"
  hcs_idp_certificate_secret_name :: string
  hcs_view_group_permissions :: string
  hcs_role_permissions :: string
  hcs_hostname :: string
  hcs_es_hostname :: string
  hcs_hostname_source :: "secret_key_selector option"
  hcs_es_hostname_source :: "secret_key_selector option"
  hcs_path :: string
  hcs_ingress :: ingress_spec
  hcs_tls :: "tls_spec option"
  hcs_headless_service_annotations :: smap
  hcs_headless_service_labels :: smap
  hcs_node :: humio_node_spec                     \<comment> \<open>the inlined \<open>HumioNodeSpec\<close>\<close>
  hcs_common_environment_variables :: "env_var list"
  hcs_node_pools :: "humio_node_pool_spec list"
  hcs_telemetry :: "telemetry_config option"

record humio_pod_status =
  hps_pod_name :: string
  hps_pvc_name :: string
  hps_node_name :: string

record humio_license_status =
  hls_type :: string
  hls_expiration :: string

record node_pool_status =
  nst_name :: string
  nst_state :: string
  nst_zone_under_maintenance :: string
  nst_desired_pod_revision :: int
  nst_desired_pod_hash :: string
  nst_desired_bootstrap_token_hash :: string

record humio_cluster_status =
  st_state :: string
  st_message :: string
  st_version :: string
  st_node_count :: int
  st_pod_status :: "humio_pod_status list"
  st_license_status :: humio_license_status
  st_node_pool_status :: "node_pool_status list"
  st_observed_generation :: string
  st_evicted_node_ids :: "int list"
  st_telemetry :: "telemetry_status option"

record humio_cluster =
  hc_name :: string
  hc_namespace :: string
  hc_annotations :: smap
  hc_generation :: int
  hc_spec :: humio_cluster_spec
  hc_status :: humio_cluster_status

section \<open>States and strategies\<close>

definition StateRunning :: string where "StateRunning = ''Running''"
definition StateRestarting :: string where "StateRestarting = ''Restarting''"
definition StateUpgrading :: string where "StateUpgrading = ''Upgrading''"
definition StateConfigError :: string where "StateConfigError = ''ConfigError''"
definition StatePending :: string where "StatePending = ''Pending''"

definition OnDelete :: string where "OnDelete = ''OnDelete''"
definition RollingUpdate :: string where "RollingUpdate = ''RollingUpdate''"
definition ReplaceAllOnUpdate :: string where "ReplaceAllOnUpdate = ''ReplaceAllOnUpdate''"
definition RollingUpdateBestEffort :: string where
  "RollingUpdateBestEffort = ''RollingUpdateBestEffort''"

definition OnNodeDelete :: string where "OnNodeDelete = ''OnNodeDelete''"

lemmas cluster_states =
  StateRunning_def StateRestarting_def StateUpgrading_def StateConfigError_def StatePending_def

lemmas update_strategies =
  OnDelete_def RollingUpdate_def ReplaceAllOnUpdate_def RollingUpdateBestEffort_def

lemma cluster_states_distinct [simp]:
  "StateRunning \<noteq> StateRestarting" "StateRunning \<noteq> StateUpgrading"
  "StateRunning \<noteq> StateConfigError" "StateRunning \<noteq> StatePending"
  "StateRestarting \<noteq> StateUpgrading" "StateRestarting \<noteq> StateRunning"
  "StateRestarting \<noteq> StateConfigError" "StateRestarting \<noteq> StatePending"
  "StateUpgrading \<noteq> StateRunning" "StateUpgrading \<noteq> StateRestarting"
  "StateUpgrading \<noteq> StateConfigError" "StateUpgrading \<noteq> StatePending"
  "StateConfigError \<noteq> StateRunning" "StateConfigError \<noteq> StateRestarting"
  "StateConfigError \<noteq> StateUpgrading" "StateConfigError \<noteq> StatePending"
  "StatePending \<noteq> StateRunning" "StatePending \<noteq> StateRestarting"
  "StatePending \<noteq> StateUpgrading" "StatePending \<noteq> StateConfigError"
  "StateRunning \<noteq> []" "StateRestarting \<noteq> []" "StateUpgrading \<noteq> []"
  "StateConfigError \<noteq> []" "StatePending \<noteq> []"
  by (simp_all add: cluster_states)

lemma update_strategies_distinct [simp]:
  "OnDelete \<noteq> RollingUpdate" "OnDelete \<noteq> ReplaceAllOnUpdate" "OnDelete \<noteq> RollingUpdateBestEffort"
  "RollingUpdate \<noteq> OnDelete" "RollingUpdate \<noteq> ReplaceAllOnUpdate"
  "RollingUpdate \<noteq> RollingUpdateBestEffort" "ReplaceAllOnUpdate \<noteq> OnDelete"
  "ReplaceAllOnUpdate \<noteq> RollingUpdate" "ReplaceAllOnUpdate \<noteq> RollingUpdateBestEffort"
  "RollingUpdateBestEffort \<noteq> OnDelete" "RollingUpdateBestEffort \<noteq> RollingUpdate"
  "RollingUpdateBestEffort \<noteq> ReplaceAllOnUpdate"
  by (simp_all add: update_strategies)

text \<open>
  \<open>HumioPodStatusList.Less\<close>, the order \<open>sort.Sort\<close> uses on the pod status list: by pod name.
\<close>

definition pod_status_less :: "humio_pod_status \<Rightarrow> humio_pod_status \<Rightarrow> bool" where
  "pod_status_less a b \<longleftrightarrow> hps_pod_name a < hps_pod_name b"

section \<open>Node pools\<close>

text \<open>
  \<open>HumioNodePool\<close> of humiocluster_defaults.go. The tracker of the fields the operator manages is
  a pod of which only the specification is used.
\<close>

record node_pool =
  np_cluster_name :: string
  np_node_pool_name :: string
  np_namespace :: string
  np_hostname :: string
  np_es_hostname :: string
  np_hostname_source :: "secret_key_selector option"
  np_es_hostname_source :: "secret_key_selector option"
  np_spec :: humio_node_spec
  np_tls :: "tls_spec option"
  np_idp_certificate_secret_name :: string
  np_view_group_permissions :: string
  np_role_permissions :: string
  np_enable_downscaling_feature :: bool
  np_target_replication_factor :: int
  np_digest_partitions_count :: int
  np_path :: string
  np_ingress :: ingress_spec
  np_cluster_annotations :: smap
  np_state :: string
  np_zone_under_maintenance :: string
  np_desired_pod_revision :: int
  np_desired_pod_hash :: string
  np_desired_bootstrap_token_hash :: string
  np_pod_disruption_budget :: "pdb_spec option"
  np_tracker :: pod_spec

section \<open>Libraries outside the repository\<close>

text \<open>
  What the operator observes of a \<open>*semver.Version\<close> of github.com/Masterminds/semver, and the
  library functions and the process environment the model takes as parameters:
  \<open>semver.NewVersion\<close>; \<open>semver.NewConstraint\<close> with \<open>Check\<close>; \<open>GetScaledValueFromIntOrPercent\<close>
  of k8s.io/apimachinery; the hash of a pod specification (SHA-256 of its JSON encoding);
  SHA-256 of a string; \<open>Limits.Cpu().IsZero()\<close> of a resource requirement; the hash of the node
  certificate of a pool; and \<open>os.Getenv\<close>.
\<close>

record semver =
  sv_major :: nat
  sv_minor :: nat
  sv_text :: string

record lib =
  x_semver_parse :: "string \<Rightarrow> semver option"
  x_semver_check :: "string \<Rightarrow> (semver \<Rightarrow> bool) option"
  x_scaled_value :: "int_or_string \<Rightarrow> int \<Rightarrow> bool \<Rightarrow> go_error + int"
  x_pod_spec_hash :: "pod_spec \<Rightarrow> string"
  x_sha256 :: "string \<Rightarrow> string"
  x_cpu_limit_is_zero :: "kvalue \<Rightarrow> bool"
  x_json_of_object :: "k8s_object \<Rightarrow> string"
  x_json_of_map :: "smap \<Rightarrow> string"
  x_getenv :: "string \<Rightarrow> string"
  x_license_uid :: "string \<Rightarrow> go_error + string"  \<comment> \<open>\<open>humio.GetLicenseUIDFromLicenseString\<close>: the claim of a signed token\<close>
  x_url_hostname :: "string \<Rightarrow> go_error + string"  \<comment> \<open>\<open>url.Parse(s)\<close>, then \<open>u.Hostname()\<close>\<close>

end
