(* ===== verification/Versions.thy ===== *)
theory Versions
  imports Api_Types
begin

text \<open>
  Versions of the LogScale img: internal/controller/humiocluster_version.go,
  internal/controller/versions/versions.go and the environment switches of
  internal/helpers/helpers.go. The semver library is the parameter \<open>L\<close>.
\<close>

section \<open>Environment switches\<close>

definition true_str :: string where "true_str = ''true''"

definition use_envtest :: "lib \<Rightarrow> bool" where
  "use_envtest L \<longleftrightarrow> x_getenv L ''TEST_USING_ENVTEST'' = true_str"

definition use_cert_manager :: "lib \<Rightarrow> bool" where
  "use_cert_manager L \<longleftrightarrow> (if use_envtest L then False else x_getenv L ''USE_CERTMANAGER'' = true_str)"

definition use_dummy_image :: "lib \<Rightarrow> bool" where
  "use_dummy_image L \<longleftrightarrow> x_getenv L ''DUMMY_LOGSCALE_IMAGE'' = true_str"

definition default_core_image_unmanaged :: "lib \<Rightarrow> string" where
  "default_core_image_unmanaged L = x_getenv L ''HUMIO_OPERATOR_DEFAULT_HUMIO_CORE_IMAGE_UNMANAGED''"

definition default_core_image_managed :: "lib \<Rightarrow> string" where
  "default_core_image_managed L = x_getenv L ''HUMIO_OPERATOR_DEFAULT_HUMIO_CORE_IMAGE_MANAGED''"

definition default_core_image :: "lib \<Rightarrow> string" where
  "default_core_image L =
     (let img = x_getenv L ''HUMIO_OPERATOR_DEFAULT_HUMIO_CORE_IMAGE''
      in if img \<noteq> [] then img else default_core_image_unmanaged L)"

definition default_helper_image_unmanaged :: "lib \<Rightarrow> string" where
  "default_helper_image_unmanaged L =
     x_getenv L ''HUMIO_OPERATOR_DEFAULT_HUMIO_HELPER_IMAGE_UNMANAGED''"

definition default_helper_image_managed :: "lib \<Rightarrow> string" where
  "default_helper_image_managed L =
     x_getenv L ''HUMIO_OPERATOR_DEFAULT_HUMIO_HELPER_IMAGE_MANAGED''"

definition default_helper_image :: "lib \<Rightarrow> string" where
  "default_helper_image L =
     (let img = x_getenv L ''HUMIO_OPERATOR_DEFAULT_HUMIO_HELPER_IMAGE''
      in if img \<noteq> [] then img else default_helper_image_unmanaged L)"

section \<open>Default images\<close>

definition DefaultHelperImageVersion :: "lib \<Rightarrow> string" where
  "DefaultHelperImageVersion L =
     (let version = [''humio/humio-operator-helper:18b8d8df927ae03ead82162ba8f1171960c1b275'']
      in join_with [] (if use_dummy_image L then version @ [''-dummy''] else version))"

definition DefaultHumioImageVersion :: "lib \<Rightarrow> string" where
  "DefaultHumioImageVersion L =
     (let version = [''humio/humio-core:1.159.1'']
      in join_with [] (if use_dummy_image L then version @ [''-dummy''] else version))"

section \<open>HumioVersion\<close>

definition HumioVersionMinimumSupported :: string where
  "HumioVersionMinimumSupported = ''1.130.0''"
definition HumioVersionExtraKafkaConfigsDeprecated :: string where
  "HumioVersionExtraKafkaConfigsDeprecated = ''1.173.0''"
definition HumioVersionExtraKafkaConfigsRemoved :: string where
  "HumioVersionExtraKafkaConfigsRemoved = ''1.225.0''"

record humio_version =
  hv_assume_latest :: bool
  hv_version :: "semver option"

definition HumioVersionFromString :: "lib \<Rightarrow> string \<Rightarrow> humio_version" where
  "HumioVersionFromString L img =
     (let nodeImage = split_n2 (CHR ''@'') img;
          nodeImage = split_n2 (CHR '':'') (nodeImage ! 0)
      in if length nodeImage = 1 then \<lparr>hv_assume_latest = True, hv_version = None\<rparr>
         else
           let nodeImage = split_n2 (CHR ''-'') (nodeImage ! 1)
           in case x_semver_parse L (nodeImage ! 0) of
                None \<Rightarrow> \<lparr>hv_assume_latest = True, hv_version = None\<rparr>
              | Some v \<Rightarrow> \<lparr>hv_assume_latest = False, hv_version = Some v\<rparr>)"

definition hv_is_latest :: "humio_version \<Rightarrow> bool" where
  "hv_is_latest hv = hv_assume_latest hv"

definition hv_semver :: "humio_version \<Rightarrow> semver option" where
  "hv_semver hv = hv_version hv"

definition hv_constraint :: "lib \<Rightarrow> humio_version \<Rightarrow> string \<Rightarrow> go_error + bool" where
  "hv_constraint L hv c =
     (case x_semver_check L c of
        None \<Rightarrow> Inl (Msg (''could not parse constraint of `'' @ c @ ''`''))
      | Some check \<Rightarrow>
          (case hv_version hv of
             None \<Rightarrow> Inl (Panic ''nil version'')
           | Some v \<Rightarrow> Inr (check v)))"

definition hv_at_least :: "lib \<Rightarrow> humio_version \<Rightarrow> string \<Rightarrow> go_error + bool" where
  "hv_at_least L hv v =
     (if hv_assume_latest hv then Inr True else hv_constraint L hv (''>= '' @ v))"

text \<open>\<open>ok, _ := hv.AtLeast(v)\<close>: on an error the boolean is false.\<close>

definition hv_at_least_ok :: "lib \<Rightarrow> humio_version \<Rightarrow> string \<Rightarrow> bool" where
  "hv_at_least_ok L hv v = (case hv_at_least L hv v of Inl _ \<Rightarrow> False | Inr b \<Rightarrow> b)"

text \<open>\<open>String()\<close> calls a value-receiver method on the version: a panic when it is nil.\<close>

definition hv_string :: "humio_version \<Rightarrow> go_error + string" where
  "hv_string hv =
     (case hv_semver hv of None \<Rightarrow> Inl (Panic ''nil pointer dereference'') | Some v \<Rightarrow> Inr (sv_text v))"

section \<open>Facts\<close>

lemma version_from_string_cases:
  "hv_assume_latest (HumioVersionFromString L img) \<longleftrightarrow> hv_version (HumioVersionFromString L img) = None"
  by (simp add: HumioVersionFromString_def Let_def split: option.split)

lemma at_least_never_panics:
  "hv_at_least L (HumioVersionFromString L img) v \<noteq> Inl (Panic m)"
  using version_from_string_cases [of L img]
  by (auto simp: hv_at_least_def hv_constraint_def split: option.splits)

lemma version_of_tagged_image:
  assumes "CHR '':'' \<notin> set repo" and "CHR ''@'' \<notin> set repo" and "CHR ''@'' \<notin> set tag"
  shows "HumioVersionFromString L (repo @ CHR '':'' # tag) =
           (case x_semver_parse L (takeWhile (\<lambda>c. c \<noteq> CHR ''-'') tag) of
              None \<Rightarrow> \<lparr>hv_assume_latest = True, hv_version = None\<rparr>
            | Some v \<Rightarrow> \<lparr>hv_assume_latest = False, hv_version = Some v\<rparr>)"
proof -
  have "CHR ''@'' \<notin> set (repo @ CHR '':'' # tag)" using assms by simp
  then have at: "split_n2 (CHR ''@'') (repo @ CHR '':'' # tag) = [repo @ CHR '':'' # tag]"
    by (rule split_n2_absent)
  have first: "split_n2 (CHR ''-'') tag ! 0 = takeWhile (\<lambda>c. c \<noteq> CHR ''-'') tag"
    using hd_split_n2 [of "CHR ''-''" tag] by (simp add: split_n2_def split: if_splits)
  show ?thesis
    unfolding HumioVersionFromString_def
    by (simp add: at split_n2_append_sep [OF assms(1)] first)
qed

lemma version_ignores_digest:
  assumes "CHR ''@'' \<notin> set img"
  shows "HumioVersionFromString L (img @ CHR ''@'' # digest) = HumioVersionFromString L img"
  by (simp add: HumioVersionFromString_def split_n2_append_sep [OF assms] split_n2_absent [OF assms])

end
