(* ===== verification/Kube_Api.thy ===== *)
theory Kube_Api
  imports Versions
begin

text \<open>
  What the operator is connected to. The Kubernetes API server and the LogScale GraphQL API are
  not code of the repository: the record \<open>kube\<close> holds one function per call the operator makes,
  from the state of the outside world to a result and the next state of it. Any call, a read as
  well, may return an error and may find the world changed by somebody else, since nothing is
  assumed of these functions.

  The state \<open>st\<close> of a handler is the outside world, the shared \<open>*HumioCluster\<close> the handlers
  of one reconciliation update, the process-wide cache \<open>nodeNameToZoneName\<close> of
  internal/kubernetes/nodes.go, and the ghost field \<open>calls\<close>, the list of the mutating calls made
  so far, which the properties speak about.
\<close>

section \<open>The outside world\<close>

datatype api_call =
    DeletePod pod
  | CreatePod pod
  | UpdatePod pod
  | PatchPod string pod_spec
  | UpdateStatus humio_cluster
  | DeletePvc pvc
  | CreatePvc string
  | UpdatePvc pvc
  | CreateBootstrapToken
  | SetEvicted int bool
  | Unregister int
  | InstallLicense string
  | AddUser string
  | RotateToken string
  | CreateTelemetry humio_telemetry
  | UpdateTelemetry humio_telemetry
  | DeleteTelemetry humio_telemetry
  | CreateObject object_kind k8s_object
  | UpdateObject object_kind k8s_object
  | DeleteObject object_kind k8s_object

text \<open>What the GraphQL API says of a LogScale node.\<close>

record cluster_node =
  cn_id :: int
  cn_uri :: string
  cn_is_available :: bool

record removal_reasons =
  rr_is_alive :: bool
  rr_leads_digest :: bool
  rr_under_replicated :: bool
  rr_only_on_this_node :: bool

record node_eviction =
  nev_id :: int
  nev_is_being_evicted :: "bool option"
  nev_reasons :: removal_reasons

record bootstrap_token =
  bt_name :: string
  bt_state :: string
  bt_managed_cluster_name :: string
  bt_token_ref :: "secret_key_selector option"   \<comment> \<open>\<open>Status.TokenSecretKeyRef.SecretKeyRef\<close>\<close>
  bt_hashed_ref :: "secret_key_selector option"  \<comment> \<open>\<open>Status.HashedTokenSecretKeyRef.SecretKeyRef\<close>\<close>

record 'w kube =
  k_get_cluster :: "string \<Rightarrow> string \<Rightarrow> 'w \<Rightarrow> (go_error + humio_cluster) \<times> 'w"
  k_update_status :: "humio_cluster \<Rightarrow> 'w \<Rightarrow> (go_error + humio_cluster) \<times> 'w"
  k_list_pods :: "string \<Rightarrow> smap \<Rightarrow> 'w \<Rightarrow> (go_error + pod list) \<times> 'w"
  k_create_pod :: "pod \<Rightarrow> 'w \<Rightarrow> (go_error + unit) \<times> 'w"
  k_delete_pod :: "pod \<Rightarrow> 'w \<Rightarrow> (go_error + unit) \<times> 'w"
  k_update_pod :: "pod \<Rightarrow> 'w \<Rightarrow> (go_error + unit) \<times> 'w"
  k_patch_pod :: "string \<Rightarrow> string \<Rightarrow> pod_spec \<Rightarrow> 'w \<Rightarrow> (go_error + unit) \<times> 'w"
  k_get_node :: "string \<Rightarrow> 'w \<Rightarrow> (go_error + node) \<times> 'w"
  k_list_pvcs :: "string \<Rightarrow> smap \<Rightarrow> 'w \<Rightarrow> (go_error + pvc list) \<times> 'w"
  k_create_pvc :: "string \<Rightarrow> node_pool \<Rightarrow> 'w \<Rightarrow> (go_error + unit) \<times> 'w"
  k_update_pvc :: "pvc \<Rightarrow> 'w \<Rightarrow> (go_error + unit) \<times> 'w"
  k_delete_pvc :: "pvc \<Rightarrow> 'w \<Rightarrow> (go_error + unit) \<times> 'w"
  k_get_pv :: "string \<Rightarrow> 'w \<Rightarrow> (go_error + persistent_volume) \<times> 'w"
  k_get_pod :: "string \<Rightarrow> string \<Rightarrow> 'w \<Rightarrow> (go_error + unit) \<times> 'w"
  k_get_object :: "object_kind \<Rightarrow> string \<Rightarrow> string \<Rightarrow> 'w \<Rightarrow> (go_error + k8s_object) \<times> 'w"
  k_list_objects :: "object_kind \<Rightarrow> string \<Rightarrow> smap \<Rightarrow> 'w \<Rightarrow> (go_error + k8s_object list) \<times> 'w"
  k_create_object :: "object_kind \<Rightarrow> k8s_object \<Rightarrow> 'w \<Rightarrow> (go_error + unit) \<times> 'w"
  k_update_object :: "object_kind \<Rightarrow> k8s_object \<Rightarrow> 'w \<Rightarrow> (go_error + unit) \<times> 'w"
  k_delete_object :: "object_kind \<Rightarrow> k8s_object \<Rightarrow> 'w \<Rightarrow> (go_error + unit) \<times> 'w"
  k_list_bootstrap_tokens :: "string \<Rightarrow> smap \<Rightarrow> 'w \<Rightarrow> (go_error + bootstrap_token list) \<times> 'w"
  k_get_bootstrap_token :: "string \<Rightarrow> string \<Rightarrow> 'w \<Rightarrow> (go_error + bootstrap_token) \<times> 'w"
  k_create_bootstrap_token :: "string \<Rightarrow> string \<Rightarrow> 'w \<Rightarrow> (go_error + unit) \<times> 'w"
  k_generate_ca :: "'w \<Rightarrow> (go_error + string \<times> string) \<times> 'w"
  k_random_string :: "'w \<Rightarrow> string \<times> 'w"
  k_now :: "'w \<Rightarrow> time \<times> 'w"
  k_sleep :: "duration \<Rightarrow> 'w \<Rightarrow> 'w"
  k_get_external_cluster :: "string \<Rightarrow> string \<Rightarrow> 'w \<Rightarrow> (go_error + external_cluster) \<times> 'w"
  k_get_telemetry :: "string \<Rightarrow> string \<Rightarrow> 'w \<Rightarrow> (go_error + humio_telemetry) \<times> 'w"
  k_create_telemetry :: "humio_telemetry \<Rightarrow> 'w \<Rightarrow> (go_error + unit) \<times> 'w"
  k_update_telemetry :: "humio_telemetry \<Rightarrow> 'w \<Rightarrow> (go_error + unit) \<times> 'w"
  k_delete_telemetry :: "humio_telemetry \<Rightarrow> 'w \<Rightarrow> (go_error + unit) \<times> 'w"
  k_humio_nodes :: "'w \<Rightarrow> (go_error + cluster_node list) \<times> 'w"
  k_humio_eviction_status :: "'w \<Rightarrow> (go_error + node_eviction list) \<times> 'w"
  k_humio_refresh_stats :: "int \<Rightarrow> 'w \<Rightarrow> (go_error + removal_reasons) \<times> 'w"
  k_humio_set_evicted :: "int \<Rightarrow> bool \<Rightarrow> 'w \<Rightarrow> (go_error + unit) \<times> 'w"
  k_humio_unregister :: "int \<Rightarrow> bool \<Rightarrow> 'w \<Rightarrow> (go_error + int list) \<times> 'w"
  k_humio_version :: "'w \<Rightarrow> (go_error + string) \<times> 'w"
  k_humio_user_id :: "string \<Rightarrow> 'w \<Rightarrow> (go_error + string) \<times> 'w"
  k_humio_add_user :: "string \<Rightarrow> bool \<Rightarrow> 'w \<Rightarrow> (go_error + string) \<times> 'w"
  k_humio_rotate_token :: "string \<Rightarrow> 'w \<Rightarrow> (go_error + string) \<times> 'w"
  k_license_installed :: "'w \<Rightarrow> (go_error + string \<times> string) \<times> 'w"  \<comment> \<open>UID and expiry\<close>
  k_install_license :: "string \<Rightarrow> 'w \<Rightarrow> (go_error + unit) \<times> 'w"

record 'w st =
  server :: 'w
  calls :: "api_call list"
  zone_cache :: smap
  hc_obj :: humio_cluster

text \<open>
  \<open>query\<close> runs a reading call, \<open>act\<close> a mutating one, which the trace records whether it
  succeeds or not.
\<close>

definition query :: "('w \<Rightarrow> (go_error + 'a) \<times> 'w) \<Rightarrow> 'w st \<Rightarrow> (go_error + 'a) \<times> 'w st" where
  "query f s = (fst (f (server s)), s\<lparr>server := snd (f (server s))\<rparr>)"

definition act :: "api_call \<Rightarrow> ('w \<Rightarrow> (go_error + 'a) \<times> 'w) \<Rightarrow> 'w st \<Rightarrow> (go_error + 'a) \<times> 'w st" where
  "act c f s = (fst (f (server s)), s\<lparr>server := snd (f (server s)), calls := calls s @ [c]\<rparr>)"

definition pick :: "('w \<Rightarrow> 'a \<times> 'w) \<Rightarrow> ('w st, 'r, 'a) step" where
  "pick f s = (Inr (fst (f (server s))), s\<lparr>server := snd (f (server s))\<rparr>)"

definition get_hc :: "('w st, 'r, humio_cluster) step" where
  "get_hc s = (Inr (hc_obj s), s)"

definition set_hc :: "humio_cluster \<Rightarrow> ('w st, 'r, unit) step" where
  "set_hc hc s = (Inr (), s\<lparr>hc_obj := hc\<rparr>)"

text \<open>An operation whose error is ignored (\<open>_, _ = f()\<close>), and one whose error is passed on.\<close>

definition ignoring :: "('s \<Rightarrow> 'b \<times> 's) \<Rightarrow> ('s, 'r, unit) step" where
  "ignoring m s = (Inr (), snd (m s))"

definition observe :: "('s \<Rightarrow> 'b \<times> 's) \<Rightarrow> ('s, 'r, 'b) step" where
  "observe m s = (Inr (fst (m s)), snd (m s))"

section \<open>Mutating calls of a step\<close>

text \<open>
  \<open>emits Q m\<close>: the mutating calls \<open>m\<close> appends to the trace satisfy \<open>Q\<close>, whatever the outside
  world answers.
\<close>

definition emits :: "(api_call list \<Rightarrow> bool) \<Rightarrow> ('w st \<Rightarrow> 'x \<times> 'w st) \<Rightarrow> bool" where
  "emits Q m \<longleftrightarrow> (\<forall>s. \<exists>cs. calls (snd (m s)) = calls s @ cs \<and> Q cs)"

definition adds_only :: "(api_call \<Rightarrow> bool) \<Rightarrow> ('w st \<Rightarrow> 'x \<times> 'w st) \<Rightarrow> bool" where
  "adds_only P = emits (list_all P)"

text \<open>At most \<open>n\<close> of the calls satisfy \<open>P\<close>.\<close>

definition at_most :: "nat \<Rightarrow> (api_call \<Rightarrow> bool) \<Rightarrow> ('w st \<Rightarrow> 'x \<times> 'w st) \<Rightarrow> bool" where
  "at_most n P = emits (\<lambda>cs. length (filter P cs) \<le> n)"

named_theorems trace_intros \<open>which mutating calls a step makes\<close>

lemma emitsI:
  "(\<And>s. \<exists>cs. calls (snd (m s)) = calls s @ cs \<and> Q cs) \<Longrightarrow> emits Q m"
  by (simp add: emits_def)

lemma emitsE:
  assumes "emits Q m"
  obtains cs where "calls (snd (m s)) = calls s @ cs" and "Q cs"
  using assms by (auto simp: emits_def)

lemma emits_mono: "emits Q m \<Longrightarrow> (\<And>cs. Q cs \<Longrightarrow> R cs) \<Longrightarrow> emits R m"
  unfolding emits_def by blast

text \<open>The sequencing combinators, once and for all, for a \<open>Q\<close> closed under concatenation.\<close>

lemma emits_and_then:
  assumes "emits Q m" and "\<And>a. emits R (f a)"
    and "\<And>cs. Q cs \<Longrightarrow> T cs" and "\<And>cs ds. Q cs \<Longrightarrow> R ds \<Longrightarrow> T (cs @ ds)"
  shows "emits T (and_then m f)"
proof (rule emitsI)
  fix s
  obtain r s' where m: "m s = (r, s')" by (cases "m s")
  obtain cs where cs: "calls (snd (m s)) = calls s @ cs" "Q cs" using assms(1) by (rule emitsE)
  show "\<exists>cs. calls (snd (and_then m f s)) = calls s @ cs \<and> T cs"
  proof (cases r)
    case (Inl e)
    with m cs assms(3) show ?thesis by (auto simp: and_then_def)
  next
    case (Inr a)
    obtain ds where "calls (snd (f a s')) = calls s' @ ds" "R ds" using assms(2) by (rule emitsE)
    with Inr m cs assms(4) show ?thesis by (auto simp: and_then_def)
  qed
qed

lemma emits_on_error:
  assumes "emits Q m" and "\<And>e. emits R (h e)"
    and "\<And>cs. Q cs \<Longrightarrow> T cs" and "\<And>cs ds. Q cs \<Longrightarrow> R ds \<Longrightarrow> T (cs @ ds)"
  shows "emits T (on_error m h)"
proof (rule emitsI)
  fix s
  obtain r s' where m: "m s = (r, s')" by (cases "m s")
  obtain cs where cs: "calls (snd (m s)) = calls s @ cs" "Q cs" using assms(1) by (rule emitsE)
  show "\<exists>cs. calls (snd (on_error m h s)) = calls s @ cs \<and> T cs"
  proof (cases r)
    case (Inr a)
    with m cs assms(3) show ?thesis by (auto simp: on_error_def)
  next
    case (Inl e)
    obtain ds where "calls (snd (h e s')) = calls s' @ ds" "R ds" using assms(2) by (rule emitsE)
    with Inl m cs assms(4) show ?thesis by (auto simp: on_error_def)
  qed
qed

text \<open>The same when what follows depends on a value the first step may return.\<close>

lemma emits_and_then_returned:
  assumes "emits Q m" and "\<And>a. may_return m a \<Longrightarrow> emits (R a) (f a)"
    and "\<And>cs. Q cs \<Longrightarrow> T cs" and "\<And>a cs ds. may_return m a \<Longrightarrow> Q cs \<Longrightarrow> R a ds \<Longrightarrow> T (cs @ ds)"
  shows "emits T (and_then m f)"
proof (rule emitsI)
  fix s
  obtain r s' where m: "m s = (r, s')" by (cases "m s")
  obtain cs where cs: "calls (snd (m s)) = calls s @ cs" "Q cs" using assms(1) by (rule emitsE)
  show "\<exists>cs. calls (snd (and_then m f s)) = calls s @ cs \<and> T cs"
  proof (cases r)
    case (Inl e)
    with m cs assms(3) show ?thesis by (auto simp: and_then_def)
  next
    case (Inr a)
    with m have a: "may_return m a" by (auto intro: may_returnI)
    obtain ds where "calls (snd (f a s')) = calls s' @ ds" "R a ds" using assms(2) [OF a] by (rule emitsE)
    with Inr m cs assms(4) [OF a] show ?thesis by (auto simp: and_then_def)
  qed
qed

lemma emits_simple:
  "Q [] \<Longrightarrow> emits Q (ret a)" "Q [] \<Longrightarrow> emits Q (exit_with r)" "Q [] \<Longrightarrow> emits Q (query f)"
  "Q [] \<Longrightarrow> emits Q (pick g)" "Q [] \<Longrightarrow> emits Q get_hc" "Q [c] \<Longrightarrow> emits Q (act c h)"
  by (auto simp: emits_def ret_def exit_with_def query_def pick_def get_hc_def act_def)

lemma emits_on_error_exit: "emits Q m \<Longrightarrow> emits Q (on_error m (\<lambda>e. exit_with (g e)))"
  by (rule emits_on_error [where Q = Q and R = "\<lambda>cs. cs = []"]) (auto intro: emits_simple)

lemma emits_nothing: "emits (\<lambda>cs. cs = []) m \<longleftrightarrow> adds_only (\<lambda>_. False) m"
proof -
  have "list_all (\<lambda>_. False) = (\<lambda>cs :: api_call list. cs = [])"
  proof
    fix cs :: "api_call list"
    show "list_all (\<lambda>_. False) cs = (cs = [])" by (cases cs) simp_all
  qed
  then show ?thesis by (simp add: adds_only_def)
qed

lemma may_return_on_error_exit:
  "may_return (on_error m (\<lambda>e. exit_with (g e))) a \<longleftrightarrow> may_return m a"
  by (auto simp: may_return_def on_error_Inr exit_with_def)

lemma adds_only_and_then [trace_intros]:
  "adds_only P m \<Longrightarrow> (\<And>a. adds_only P (f a)) \<Longrightarrow> adds_only P (and_then m f)"
  unfolding adds_only_def
  by (rule emits_and_then [where Q = "list_all P" and R = "list_all P"]) auto

lemma adds_only_and_then_returned:
  assumes "adds_only P m" and "\<And>a. may_return m a \<Longrightarrow> adds_only P (f a)"
  shows "adds_only P (and_then m f)"
  unfolding adds_only_def
proof (rule emitsI)
  fix s
  obtain r s' where m: "m s = (r, s')" by (cases "m s")
  obtain cs where cs: "calls (snd (m s)) = calls s @ cs" "list_all P cs"
    using assms(1) unfolding adds_only_def by (rule emitsE)
  show "\<exists>cs. calls (snd (and_then m f s)) = calls s @ cs \<and> list_all P cs"
  proof (cases r)
    case (Inl e)
    with m cs show ?thesis by (simp add: and_then_def)
  next
    case (Inr a)
    with m have "may_return m a" by (auto intro: may_returnI)
    then have "adds_only P (f a)" by (rule assms(2))
    then obtain ds where "calls (snd (f a s')) = calls s' @ ds" "list_all P ds"
      unfolding adds_only_def by (rule emitsE)
    with Inr m cs show ?thesis by (simp add: and_then_def)
  qed
qed

lemma adds_only_on_error [trace_intros]:
  "adds_only P m \<Longrightarrow> (\<And>e. adds_only P (h e)) \<Longrightarrow> adds_only P (on_error m h)"
  unfolding adds_only_def
  by (rule emits_on_error [where Q = "list_all P" and R = "list_all P"]) auto

lemma adds_only_log_error [trace_intros]: "adds_only P m \<Longrightarrow> adds_only P (log_error msg m)"
  unfolding log_error_def
  by (rule adds_only_on_error) (auto simp: adds_only_def emits_def exit_with_def)

lemma adds_only_if [trace_intros]:
  "(b \<Longrightarrow> adds_only P m) \<Longrightarrow> (\<not> b \<Longrightarrow> adds_only P n) \<Longrightarrow> adds_only P (if b then m else n)"
  by simp

lemma adds_only_weaken: "adds_only P m \<Longrightarrow> (\<And>c. P c \<Longrightarrow> Q c) \<Longrightarrow> adds_only Q m"
  unfolding adds_only_def by (erule emits_mono) (auto simp: list_all_iff)

lemma adds_only_simple [trace_intros]:
  "adds_only P (ret a)" "adds_only P (exit_with r)" "adds_only P (query f)" "adds_only P (pick g)"
  "adds_only P get_hc" "adds_only P (set_hc hc)" "P c \<Longrightarrow> adds_only P (act c f)"
  by (auto simp: adds_only_def emits_def ret_def exit_with_def query_def pick_def get_hc_def
      set_hc_def act_def)

lemma adds_only_ignoring [trace_intros]: "adds_only P m \<Longrightarrow> adds_only P (ignoring m)"
  by (auto simp: adds_only_def emits_def ignoring_def)

lemma adds_only_observe [trace_intros]: "adds_only P m \<Longrightarrow> adds_only P (observe m)"
  by (auto simp: adds_only_def emits_def observe_def)

lemma adds_only_cases [trace_intros]:
  "(\<And>a. x = Inl a \<Longrightarrow> adds_only P (f1 a)) \<Longrightarrow> (\<And>b. x = Inr b \<Longrightarrow> adds_only P (f2 b)) \<Longrightarrow>
   adds_only P (case x of Inl a \<Rightarrow> f1 a | Inr b \<Rightarrow> f2 b)"
  "(y = None \<Longrightarrow> adds_only P g1) \<Longrightarrow> (\<And>b. y = Some b \<Longrightarrow> adds_only P (g2 b)) \<Longrightarrow>
   adds_only P (case y of None \<Rightarrow> g1 | Some b \<Rightarrow> g2 b)"
  "(\<And>a b. z = (a, b) \<Longrightarrow> adds_only P (h a b)) \<Longrightarrow> adds_only P (case z of (a, b) \<Rightarrow> h a b)"
  "(xs = [] \<Longrightarrow> adds_only P k1) \<Longrightarrow> (\<And>v vs. xs = v # vs \<Longrightarrow> adds_only P (k2 v vs)) \<Longrightarrow>
   adds_only P (case xs of [] \<Rightarrow> k1 | v # vs \<Rightarrow> k2 v vs)"
  by (simp_all split: sum.split option.split prod.split list.split)

lemma adds_only_for_each [trace_intros]:
  "(\<And>x. x \<in> set xs \<Longrightarrow> adds_only P (f x)) \<Longrightarrow> adds_only P (for_each f xs)"
proof (induction xs)
  case Nil
  show ?case by (simp add: for_each_Nil adds_only_simple)
next
  case (Cons x xs)
  show ?case unfolding for_each_Cons by (rule adds_only_and_then) (simp_all add: Cons)
qed

lemma at_most_0: "adds_only (\<lambda>c. \<not> P c) m \<Longrightarrow> at_most 0 P m"
  unfolding adds_only_def at_most_def by (erule emits_mono) (auto simp: list_all_iff filter_empty_conv)

lemma at_most_mono: "at_most m P f \<Longrightarrow> m \<le> n \<Longrightarrow> at_most n P f"
  unfolding at_most_def by (erule emits_mono) simp

lemma at_most_and_then:
  "at_most m P f \<Longrightarrow> (\<And>a. at_most n P (g a)) \<Longrightarrow> at_most (m + n) P (and_then f g)"
  unfolding at_most_def
  by (rule emits_and_then
        [where Q = "\<lambda>cs. length (filter P cs) \<le> m" and R = "\<lambda>cs. length (filter P cs) \<le> n"]) auto

lemma at_most_on_error:
  "at_most m P f \<Longrightarrow> (\<And>a. at_most n P (g a)) \<Longrightarrow> at_most (m + n) P (on_error f g)"
  unfolding at_most_def
  by (rule emits_on_error
        [where Q = "\<lambda>cs. length (filter P cs) \<le> m" and R = "\<lambda>cs. length (filter P cs) \<le> n"]) auto

lemma at_most_if: "(b \<Longrightarrow> at_most n P f) \<Longrightarrow> (\<not> b \<Longrightarrow> at_most n P g) \<Longrightarrow> at_most n P (if b then f else g)"
  by simp

lemma at_most_act: "at_most 1 P (act c f)"
  by (auto simp: at_most_def emits_def act_def)

section \<open>Steps that cannot fail\<close>

definition succeeds :: "('s \<Rightarrow> ('r + 'a) \<times> 's) \<Rightarrow> bool" where
  "succeeds m \<longleftrightarrow> (\<forall>s. \<exists>a s'. m s = (Inr a, s'))"

named_theorems success_intros \<open>steps that always continue\<close>

lemma succeedsE: "succeeds m \<Longrightarrow> (\<And>a s'. m s = (Inr a, s') \<Longrightarrow> thesis) \<Longrightarrow> thesis"
  unfolding succeeds_def by blast

lemma succeeds_simple [success_intros]:
  "succeeds (ret a)" "succeeds (pick g)" "succeeds get_hc" "succeeds (set_hc hc)"
  "succeeds (observe m)" "succeeds (ignoring m)"
  "(\<And>w. \<exists>x. fst (f w) = Inr x) \<Longrightarrow> succeeds (query f)"
  "(\<And>w. \<exists>x. fst (h w) = Inr x) \<Longrightarrow> succeeds (act c h)"
  by (auto simp: succeeds_def ret_def pick_def get_hc_def set_hc_def observe_def ignoring_def query_def act_def)

lemma succeeds_and_then [success_intros]:
  "succeeds m \<Longrightarrow> (\<And>a. succeeds (f a)) \<Longrightarrow> succeeds (and_then m f)"
  unfolding succeeds_def and_then_Inr by blast

lemma succeeds_on_error [success_intros]: "succeeds m \<Longrightarrow> succeeds (on_error m h)"
  unfolding succeeds_def on_error_Inr by blast

lemma succeeds_log_error [success_intros]: "succeeds m \<Longrightarrow> succeeds (log_error msg m)"
  unfolding log_error_def by (rule succeeds_on_error)

lemma succeeds_if [success_intros]:
  "(b \<Longrightarrow> succeeds m) \<Longrightarrow> (\<not> b \<Longrightarrow> succeeds n) \<Longrightarrow> succeeds (if b then m else n)"
  by simp

section \<open>Mutating calls under an invariant\<close>

text \<open>
  \<open>adds_from I P m\<close>: from a state where \<open>I\<close> holds, \<open>m\<close> appends only calls that satisfy \<open>P\<close> and
  keeps \<open>I\<close>. \<open>returns_from I m a\<close>: \<open>a\<close> is a value \<open>m\<close> may continue with from such a state.
\<close>

definition adds_from ::
  "('w st \<Rightarrow> bool) \<Rightarrow> (api_call \<Rightarrow> bool) \<Rightarrow> ('w st \<Rightarrow> 'x \<times> 'w st) \<Rightarrow> bool" where
  "adds_from I P m \<longleftrightarrow>
     (\<forall>s. I s \<longrightarrow> I (snd (m s)) \<and> (\<exists>cs. calls (snd (m s)) = calls s @ cs \<and> list_all P cs))"

definition returns_from :: "('w st \<Rightarrow> bool) \<Rightarrow> ('w st, 'r, 'a) step \<Rightarrow> 'a \<Rightarrow> bool" where
  "returns_from I m a \<longleftrightarrow> (\<exists>s s'. I s \<and> m s = (Inr a, s'))"

lemma adds_fromI:
  "(\<And>s. I s \<Longrightarrow> I (snd (m s))) \<Longrightarrow>
   (\<And>s. I s \<Longrightarrow> \<exists>cs. calls (snd (m s)) = calls s @ cs \<and> list_all P cs) \<Longrightarrow> adds_from I P m"
  by (simp add: adds_from_def)

lemma adds_fromD:
  assumes "adds_from I P m" and "I s" and "m s = (r, s')"
  shows "I s'" and "\<exists>cs. calls s' = calls s @ cs \<and> list_all P cs"
  using assms(1) [unfolded adds_from_def, rule_format, OF assms(2)] assms(3) by simp_all

lemma adds_from_weaken: "adds_from I P m \<Longrightarrow> (\<And>c. P c \<Longrightarrow> Q c) \<Longrightarrow> adds_from I Q m"
  unfolding adds_from_def list_all_iff by blast

lemma adds_from_and_then:
  assumes m: "adds_from I P m" and f: "\<And>a. returns_from I m a \<Longrightarrow> adds_from I P (f a)"
  shows "adds_from I P (and_then m f)"
proof -
  have step: "I t \<and> (\<exists>cs. calls t = calls s @ cs \<and> list_all P cs)"
    if I: "I s" and run: "and_then m f s = (r, t)" for s r t
  proof (cases "m s")
    case (Pair ra s')
    have 1: "I s'" "\<exists>cs. calls s' = calls s @ cs \<and> list_all P cs"
      using adds_fromD [OF m I Pair] by auto
    show ?thesis
    proof (cases ra)
      case (Inl e)
      with 1 Pair run show ?thesis by (auto simp: and_then_def)
    next
      case (Inr a)
      have "returns_from I m a" using I Pair Inr by (auto simp: returns_from_def)
      moreover have "f a s' = (r, t)" using run Pair Inr by (simp add: and_then_def)
      ultimately show ?thesis using adds_fromD [OF f 1(1)] 1 by fastforce
    qed
  qed
  show ?thesis
    by (rule adds_fromI) (metis prod.collapse step)+
qed

lemma adds_from_on_error:
  assumes m: "adds_from I P m" and h: "\<And>e. adds_from I P (h e)"
  shows "adds_from I P (on_error m h)"
proof -
  have step: "I t \<and> (\<exists>cs. calls t = calls s @ cs \<and> list_all P cs)"
    if I: "I s" and run: "on_error m h s = (r, t)" for s r t
  proof (cases "m s")
    case (Pair ra s')
    have 1: "I s'" "\<exists>cs. calls s' = calls s @ cs \<and> list_all P cs"
      using adds_fromD [OF m I Pair] by auto
    show ?thesis
    proof (cases ra)
      case (Inr a)
      with 1 Pair run show ?thesis by (auto simp: on_error_def)
    next
      case (Inl e)
      then have "h e s' = (r, t)" using run Pair by (simp add: on_error_def)
      then show ?thesis using adds_fromD [OF h 1(1)] 1 by fastforce
    qed
  qed
  show ?thesis
    by (rule adds_fromI) (metis prod.collapse step)+
qed

lemma adds_from_if:
  "(b \<Longrightarrow> adds_from I P m) \<Longrightarrow> (\<not> b \<Longrightarrow> adds_from I P n) \<Longrightarrow> adds_from I P (if b then m else n)"
  by simp

lemma adds_from_simple:
  "adds_from I P (ret a)" "adds_from I P (exit_with r)" "adds_from I P get_hc"
  by (auto simp: adds_from_def ret_def exit_with_def get_hc_def)

lemma adds_from_log_error: "adds_from I P m \<Longrightarrow> adds_from I P (log_error msg m)"
  unfolding log_error_def by (rule adds_from_on_error) (auto simp: adds_from_simple)

lemma adds_from_for_each:
  "(\<And>x. x \<in> set xs \<Longrightarrow> adds_from I P (f x)) \<Longrightarrow> adds_from I P (for_each f xs)"
proof (induction xs)
  case Nil
  show ?case by (simp add: for_each_Nil adds_from_simple)
next
  case (Cons x xs)
  show ?case unfolding for_each_Cons by (rule adds_from_and_then) (simp_all add: Cons)
qed

lemma returns_from_and_then:
  "returns_from I (and_then m f) b \<Longrightarrow> adds_from I P m \<Longrightarrow>
   \<exists>a. returns_from I m a \<and> returns_from I (f a) b"
  by (auto simp: returns_from_def and_then_Inr) (blast dest: adds_fromD(1))

lemma returns_from_log_error: "returns_from I (log_error msg m) a \<longleftrightarrow> returns_from I m a"
  by (auto simp: returns_from_def log_error_def on_error_Inr exit_with_def)

text \<open>The invariant that matters: the cluster object the handlers share is \<open>hc\<close>.\<close>

definition hc_is :: "humio_cluster \<Rightarrow> 'w st \<Rightarrow> bool" where
  "hc_is hc s \<longleftrightarrow> hc_obj s = hc"

lemma returns_from_get_hc: "returns_from (hc_is hc) get_hc a \<Longrightarrow> a = hc"
  by (auto simp: returns_from_def get_hc_def hc_is_def)

lemma adds_from_calls:
  "adds_from (hc_is hc) P (query f)" "adds_from (hc_is hc) P (pick g)"
  "P c \<Longrightarrow> adds_from (hc_is hc) P (act c h)"
  by (auto simp: adds_from_def query_def pick_def act_def hc_is_def)

section \<open>Retries\<close>

text \<open>
  \<open>retry.RetryOnConflict(retry.DefaultRetry, f)\<close> of client-go. Its documented behaviour: it runs
  \<open>f\<close>, again for as long as \<open>f\<close> returns a conflict and the backoff allows, and returns the
  result of the last run. \<open>retry_run f s out\<close> says \<open>out\<close> is the outcome of such a run from \<open>s\<close>;
  the number of attempts is the library's.
\<close>

inductive retry_run ::
  "('s \<Rightarrow> (go_error + unit) \<times> 's) \<Rightarrow> 's \<Rightarrow> (go_error + unit) \<times> 's \<Rightarrow> bool" for f where
  retry_last: "retry_run f s (f s)"
| retry_again: "f s = (Inl (Conflict m), s') \<Longrightarrow> retry_run f s' out \<Longrightarrow> retry_run f s out"

inductive_cases retry_runE: "retry_run f s out"

type_synonym 'w retrier = "('w st \<Rightarrow> (go_error + unit) \<times> 'w st) \<Rightarrow> 'w st \<Rightarrow> (go_error + unit) \<times> 'w st"

definition retries :: "'w retrier \<Rightarrow> bool" where
  "retries R \<longleftrightarrow> (\<forall>f s. retry_run f s (R f s))"

text \<open>The simplest such retrier, one attempt, and one of five attempts.\<close>

fun retry_steps :: "nat \<Rightarrow> 'w retrier" where
  "retry_steps 0 f s = f s"
| "retry_steps (Suc n) f s =
     (case f s of (Inl (Conflict m), s') \<Rightarrow> retry_steps n f s' | out \<Rightarrow> out)"

lemma retries_retry_steps: "retries (retry_steps n)"
proof -
  have "retry_run f s (retry_steps n f s)" for f :: "'a st \<Rightarrow> (go_error + unit) \<times> 'a st" and s
  proof (induction n arbitrary: s)
    case 0
    show ?case by (simp add: retry_last)
  next
    case (Suc n)
    show ?case
    proof (cases "\<exists>m s'. f s = (Inl (Conflict m), s')")
      case True
      then show ?thesis using Suc by (auto intro: retry_again)
    next
      case False
      then have "retry_steps (Suc n) f s = f s"
        by (auto split: prod.split sum.split go_error.split)
      then show ?thesis by (simp only: retry_last)
    qed
  qed
  then show ?thesis by (simp add: retries_def)
qed

lemma retry_run_emits:
  assumes "retry_run f s out" and "adds_only P f"
  shows "\<exists>cs. calls (snd out) = calls s @ cs \<and> list_all P cs"
  using assms(1)
proof (induction rule: retry_run.induct)
  case (retry_last s)
  show ?case using assms(2) by (simp add: adds_only_def emits_def)
next
  case (retry_again s m s' out)
  obtain cs where "calls (snd (f s)) = calls s @ cs" "list_all P cs"
    using assms(2) unfolding adds_only_def by (rule emitsE)
  with retry_again show ?case by auto
qed

lemma adds_only_retry: "retries R \<Longrightarrow> adds_only P f \<Longrightarrow> adds_only P (R f)"
  using retry_run_emits unfolding retries_def adds_only_def emits_def by blast

text \<open>What every attempt establishes on success holds after a successful run.\<close>

lemma retry_run_success:
  assumes "retry_run f s out" and "I s"
    and "\<And>s s' m. I s \<Longrightarrow> f s = (Inl m, s') \<Longrightarrow> I s'"
    and "\<And>s s'. I s \<Longrightarrow> f s = (Inr (), s') \<Longrightarrow> Q s'"
  shows "fst out = Inr () \<Longrightarrow> Q (snd out)"
  using assms(1,2)
proof (induction rule: retry_run.induct)
  case (retry_last s)
  then show ?case using assms(4) by (cases "f s") auto
next
  case (retry_again s m s' out)
  then show ?case using assms(3) by blast
qed

section \<open>Zones\<close>

text \<open>
  internal/kubernetes/nodes.go. \<open>GetZoneForNodeName\<close> reads the label of the node's zone, the
  old label when the new one is absent, and remembers the answer; an error reading the node is
  returned as no zone and no error.
\<close>

definition zone_label :: string where "zone_label = ''topology.kubernetes.io/zone''"
definition zone_label_beta :: string where
  "zone_label_beta = ''failure-domain.beta.kubernetes.io/zone''"

definition GetZoneForNodeName :: "'w kube \<Rightarrow> string \<Rightarrow> 'w st \<Rightarrow> string \<times> 'w st" where
  "GetZoneForNodeName K nodeName s =
     (case zone_cache s nodeName of
        Some zone \<Rightarrow> (zone, s)
      | None \<Rightarrow>
          (case query (k_get_node K nodeName) s of
             (Inl e, s') \<Rightarrow> ([], s')
           | (Inr n, s') \<Rightarrow>
               let zone = (case node_labels n zone_label of
                             Some z \<Rightarrow> z
                           | None \<Rightarrow> map_get (node_labels n) zone_label_beta)
               in (zone, s'\<lparr>zone_cache := (zone_cache s')(nodeName \<mapsto> zone)\<rparr>)))"

lemma zone_of_cached: "zone_cache s n = Some z \<Longrightarrow> GetZoneForNodeName K n s = (z, s)"
  by (simp add: GetZoneForNodeName_def)

text \<open>A zone that was answered from a node stays the answer for the life of the process.\<close>

lemma zone_cached_afterwards:
  "GetZoneForNodeName K n s = (z, s') \<Longrightarrow> z \<noteq> [] \<Longrightarrow> zone_cache s' n = Some z"
  by (auto simp: GetZoneForNodeName_def Let_def split: option.splits prod.splits sum.splits)

lemma zone_cache_grows: "zone_cache s \<subseteq>\<^sub>m zone_cache (snd (GetZoneForNodeName K n s))"
  by (auto simp: GetZoneForNodeName_def Let_def query_def map_le_def
      split: option.splits prod.splits sum.splits)

lemma zone_frame [simp]:
  "calls (snd (GetZoneForNodeName K n s)) = calls s"
  "hc_obj (snd (GetZoneForNodeName K n s)) = hc_obj s"
  by (auto simp: GetZoneForNodeName_def Let_def query_def split: option.splits prod.splits sum.splits)

end
