(* ===== verification/Fixture.thy ===== *)
theory Fixture
  imports Kube_Api
begin

text \<open>
  Concrete data for the witnesses: zero values of the resource types and an in-memory
  API server, an instance of the parameter \<open>kube\<close>, on which the witnesses evaluate the
  handlers. Of the rest the model uses only the zero values, where the code does.
\<close>

section \<open>Zero values\<close>

definition empty_node_spec :: humio_node_spec where
  "empty_node_spec = \<lparr>ns_image = [], ns_image_source = None, ns_node_count = 0,
     ns_pvc_spec_template = KObj [], ns_pvc_reclaim_type = [],
     ns_data_volume_source = empty_volume_source, ns_disable_init_container = False,
     ns_environment_variables_source = [], ns_pod_annotations = Map.empty,
     ns_share_process_namespace = None, ns_humio_service_account_name = [],
     ns_image_pull_secrets = [], ns_helper_image = [], ns_image_pull_policy = [],
     ns_container_security_context = None, ns_container_readiness_probe = None,
     ns_container_liveness_probe = None, ns_container_startup_probe = None,
     ns_pod_security_context = None, ns_resources = KObj [],
     ns_termination_grace_period_seconds = None, ns_affinity = KObj [], ns_tolerations = [],
     ns_topology_spread_constraints = [], ns_sidecar_containers = [], ns_extra_kafka_configs = [],
     ns_extra_humio_volume_mounts = [], ns_extra_volumes = [],
     ns_humio_service_account_annotations = Map.empty, ns_humio_service_labels = Map.empty,
     ns_environment_variables = [], ns_humio_service_type = [], ns_humio_service_port = 0,
     ns_humio_es_service_port = 0, ns_humio_service_annotations = Map.empty,
     ns_init_service_account_name = [], ns_pod_labels = Map.empty, ns_update_strategy = None,
     ns_priority_class_name = [], ns_allowed_api_request_types = None,
     ns_pod_disruption_budget = None\<rparr>"

definition empty_ingress :: ingress_spec where
  "empty_ingress = \<lparr>ing_enabled = False, ing_controller = [], ing_tls = None, ing_secret_name = [],
     ing_es_secret_name = [], ing_annotations = Map.empty\<rparr>"

definition empty_cluster_spec :: humio_cluster_spec where
  "empty_cluster_spec = \<lparr>hcs_enable_downscaling_feature = False, hcs_target_replication_factor = 0,
     hcs_digest_partitions_count = 0, hcs_license = None, hcs_idp_certificate_secret_name = [],
     hcs_view_group_permissions = [], hcs_role_permissions = [], hcs_hostname = [],
     hcs_es_hostname = [], hcs_hostname_source = None, hcs_es_hostname_source = None,
     hcs_path = [], hcs_ingress = empty_ingress, hcs_tls = None,
     hcs_headless_service_annotations = Map.empty, hcs_headless_service_labels = Map.empty, hcs_node = empty_node_spec,
     hcs_common_environment_variables = [], hcs_node_pools = [], hcs_telemetry = None\<rparr>"

definition empty_status :: humio_cluster_status where
  "empty_status = \<lparr>st_state = [], st_message = [], st_version = [], st_node_count = 0,
     st_pod_status = [], st_license_status = \<lparr>hls_type = [], hls_expiration = []\<rparr>,
     st_node_pool_status = [], st_observed_generation = [], st_evicted_node_ids = [], st_telemetry = None\<rparr>"

definition empty_cluster :: humio_cluster where
  "empty_cluster = \<lparr>hc_name = ''c'', hc_namespace = ''ns'', hc_annotations = Map.empty,
     hc_generation = 1, hc_spec = empty_cluster_spec, hc_status = empty_status\<rparr>"

definition empty_pool :: node_pool where
  "empty_pool = \<lparr>np_cluster_name = ''c'', np_node_pool_name = [], np_namespace = ''ns'',
     np_hostname = [], np_es_hostname = [], np_hostname_source = None, np_es_hostname_source = None,
     np_spec = empty_node_spec, np_tls = None, np_idp_certificate_secret_name = [],
     np_view_group_permissions = [], np_role_permissions = [],
     np_enable_downscaling_feature = False, np_target_replication_factor = 0,
     np_digest_partitions_count = 0, np_path = [], np_ingress = empty_ingress,
     np_cluster_annotations = Map.empty, np_state = [], np_zone_under_maintenance = [],
     np_desired_pod_revision = 1, np_desired_pod_hash = [], np_desired_bootstrap_token_hash = [],
     np_pod_disruption_budget = None, np_tracker = empty_pod_spec\<rparr>"

text \<open>Library functions: no version parses, hashes are constant, no environment variable is set.\<close>

definition plain_lib :: lib where
  "plain_lib = \<lparr>x_semver_parse = (\<lambda>s. None), x_semver_check = (\<lambda>s. None),
     x_scaled_value = (\<lambda>v total up. case v of IntVal i \<Rightarrow> Inr i
                       | StrVal s \<Rightarrow> Inl (ApiError ''invalid value'')),
     x_pod_spec_hash = (\<lambda>p. ''h''), x_sha256 = (\<lambda>s. ''s'' @ s), x_cpu_limit_is_zero = (\<lambda>r. True),
     x_json_of_object = (\<lambda>ob. ''crt''), x_json_of_map = (\<lambda>m. ''json''), x_getenv = (\<lambda>s. []),
     x_license_uid = Inr, x_url_hostname = Inr\<rparr>"

section \<open>An in-memory server\<close>

record world =
  w_cluster :: humio_cluster
  w_pods :: "pod list"
  w_nodes :: "(string \<times> node) list"
  w_pvcs :: "pvc list"
  w_nodes_of_cluster :: "cluster_node list"
  w_evictions :: "node_eviction list"
  w_objects :: "(object_kind \<times> k8s_object) list"
  w_time :: time

definition is_object :: "object_kind \<Rightarrow> string \<Rightarrow> string \<Rightarrow> object_kind \<times> k8s_object \<Rightarrow> bool" where
  "is_object kind n ns e \<longleftrightarrow> fst e = kind \<and> ko_name (snd e) = n \<and> ko_namespace (snd e) = ns"

definition mem_kube :: "world kube" where
  "mem_kube = \<lparr>
     k_get_cluster = (\<lambda>n ns w. (Inr (w_cluster w), w)),
     k_update_status = (\<lambda>hc w. (Inr hc, w\<lparr>w_cluster := hc\<rparr>)),
     k_list_pods = (\<lambda>ns sel w. (Inr (w_pods w), w)),
     k_create_pod = (\<lambda>p w. (Inr (), w\<lparr>w_pods := w_pods w @ [p]\<rparr>)),
     k_delete_pod = (\<lambda>p w. (Inr (), w\<lparr>w_pods := filter (\<lambda>q. p_name q \<noteq> p_name p) (w_pods w)\<rparr>)),
     k_update_pod = (\<lambda>p w. (Inr (), w\<lparr>w_pods := map (\<lambda>q. if p_name q = p_name p then p else q) (w_pods w)\<rparr>)),
     k_patch_pod = (\<lambda>n ns spec w. (Inr (), w)),
     k_get_node = (\<lambda>n w. (case map_of (w_nodes w) n of Some x \<Rightarrow> Inr x | None \<Rightarrow> Inl (NotFound n), w)),
     k_list_pvcs = (\<lambda>ns sel w. (Inr (w_pvcs w), w)),
     k_create_pvc = (\<lambda>n hnp w. (Inr (), w\<lparr>w_pvcs := w_pvcs w @
        [\<lparr>pvc_name = n, pvc_phase = ''Pending'', pvc_deletion_timestamp = None, pvc_volume_name = [], pvc_labels = Map.empty\<rparr>]\<rparr>)),
     k_update_pvc = (\<lambda>p w. (Inr (), w\<lparr>w_pvcs := map (\<lambda>q. if pvc_name q = pvc_name p then p else q) (w_pvcs w)\<rparr>)),
     k_delete_pvc = (\<lambda>p w. (Inr (), w\<lparr>w_pvcs := filter (\<lambda>q. pvc_name q \<noteq> pvc_name p) (w_pvcs w)\<rparr>)),
     k_get_pv = (\<lambda>n w. (Inl (NotFound n), w)),
     k_get_pod = (\<lambda>n ns w. (if n \<in> p_name ` set (w_pods w) then Inr () else Inl (NotFound n), w)),
     k_get_object = (\<lambda>kind n ns w. (case find (is_object kind n ns) (w_objects w) of
        Some (k, ob) \<Rightarrow> Inr ob | None \<Rightarrow> Inl (NotFound n), w)),
     k_list_objects = (\<lambda>kind ns sel w. (Inr (map snd (filter (\<lambda>(k, ob). k = kind) (w_objects w))), w)),
     k_create_object = (\<lambda>kind ob w.
        if find (is_object kind (ko_name ob) (ko_namespace ob)) (w_objects w) = None
        then (Inr (), w\<lparr>w_objects := w_objects w @ [(kind, ob)]\<rparr>) else (Inl (ApiError ''already exists''), w)),
     k_update_object = (\<lambda>kind ob w.
        if find (is_object kind (ko_name ob) (ko_namespace ob)) (w_objects w) = None then (Inl (NotFound (ko_name ob)), w)
        else (Inr (), w\<lparr>w_objects := map (\<lambda>e. if is_object kind (ko_name ob) (ko_namespace ob) e then (kind, ob) else e)
                                       (w_objects w)\<rparr>)),
     k_delete_object = (\<lambda>kind ob w. (Inr (), w\<lparr>w_objects :=
        filter (\<lambda>e. \<not> is_object kind (ko_name ob) (ko_namespace ob) e) (w_objects w)\<rparr>)),
     k_list_bootstrap_tokens = (\<lambda>ns sel w. (Inr [], w)),
     k_get_bootstrap_token = (\<lambda>n ns w. (Inl (NotFound n), w)),
     k_create_bootstrap_token = (\<lambda>n ns w. (Inr (), w)),
     k_generate_ca = (\<lambda>w. (Inr (''cert'', ''key''), w)),
     k_random_string = (\<lambda>w. (''abcdef'', w)),
     k_now = (\<lambda>w. (w_time w, w)),
     k_sleep = (\<lambda>d w. w\<lparr>w_time := w_time w + d\<rparr>),
     k_get_external_cluster = (\<lambda>n ns w. (Inl (NotFound n), w)),
     k_get_telemetry = (\<lambda>n ns w. (Inl (NotFound n), w)),
     k_create_telemetry = (\<lambda>t w. (Inr (), w)), k_update_telemetry = (\<lambda>t w. (Inr (), w)),
     k_delete_telemetry = (\<lambda>t w. (Inr (), w)),
     k_humio_nodes = (\<lambda>w. (Inr (w_nodes_of_cluster w), w)),
     k_humio_eviction_status = (\<lambda>w. (Inr (w_evictions w), w)),
     k_humio_refresh_stats = (\<lambda>i w. (case find (\<lambda>n. nev_id n = i) (w_evictions w) of
        Some n \<Rightarrow> Inr (nev_reasons n) | None \<Rightarrow> Inl (ApiError ''no such node''), w)),
     k_humio_set_evicted = (\<lambda>i b w. (Inr (), w\<lparr>w_evictions :=
        map (\<lambda>n. if nev_id n = i then n\<lparr>nev_is_being_evicted := Some b\<rparr> else n) (w_evictions w)\<rparr>)),
     k_humio_unregister = (\<lambda>i b w. (Inr (map nev_id (filter (\<lambda>n. nev_id n \<noteq> i) (w_evictions w))),
        w\<lparr>w_evictions := filter (\<lambda>n. nev_id n \<noteq> i) (w_evictions w)\<rparr>)),
     k_humio_version = (\<lambda>w. (Inr ''1.0.0'', w)),
     k_humio_user_id = (\<lambda>n w. (Inr ''u1'', w)), k_humio_add_user = (\<lambda>n b w. (Inr ''u1'', w)),
     k_humio_rotate_token = (\<lambda>n w. (Inr ''token'', w)),
     k_license_installed = (\<lambda>w. (Inr (''license'', ''2030''), w)),
     k_install_license = (\<lambda>l w. (Inr (), w))\<rparr>"

definition empty_world :: world where
  "empty_world = \<lparr>w_cluster = empty_cluster, w_pods = [], w_nodes = [], w_pvcs = [],
     w_nodes_of_cluster = [], w_evictions = [], w_objects = [], w_time = 0\<rparr>"

definition mem_state :: "world \<Rightarrow> world st" where
  "mem_state w = \<lparr>server = w, calls = [], zone_cache = Map.empty, hc_obj = w_cluster w\<rparr>"

text \<open>A running pod of revision 1, ready since time 0.\<close>

definition sample_pod :: "string \<Rightarrow> pod" where
  "sample_pod name = empty_pod\<lparr>p_name := name, p_namespace := ''ns'', p_phase := ''Running'',
     p_annotations := [''humio.com/pod-revision'' \<mapsto> itoa 1],
     p_spec := empty_pod_spec\<lparr>ps_containers := [empty_container\<lparr>c_name := ''humio''\<rparr>], ps_node_name := ''n1''\<rparr>,
     p_conditions := [\<lparr>pc_type = ''Ready'', pc_status = ''True'', pc_reason = [],
       pc_last_transition_time = Some 0\<rparr>]\<rparr>"

lemma sample_pod_fields [simp]:
  "p_name (sample_pod n) = n" "p_deletion_timestamp (sample_pod n) = None" "p_phase (sample_pod n) = ''Running''"
  "p_reason (sample_pod n) = []" "p_container_statuses (sample_pod n) = []"
  "p_annotations (sample_pod n) = [''humio.com/pod-revision'' \<mapsto> itoa 1]"
  "p_conditions (sample_pod n) = [\<lparr>pc_type = ''Ready'', pc_status = ''True'', pc_reason = [],
       pc_last_transition_time = Some 0\<rparr>]"
  "ps_containers (p_spec (sample_pod n)) = [empty_container\<lparr>c_name := ''humio''\<rparr>]"
  "ps_node_name (p_spec (sample_pod n)) = ''n1''"
  by (simp_all add: sample_pod_def empty_pod_def)

lemma atoi_one [simp]: "atoi (itoa 1) = Some 1"
  by (rule atoi_itoa) simp_all

lemmas fixture_defs = empty_node_spec_def empty_ingress_def empty_cluster_spec_def empty_status_def
  empty_cluster_def empty_pool_def plain_lib_def mem_kube_def empty_world_def mem_state_def
  empty_volume_source_def empty_pod_spec_def empty_pod_def empty_container_def

end
