(* ===== verification/Status.thy ===== *)
theory Status
  imports Fixture
begin

text \<open>
  The status of a cluster: internal/controller/humiocluster_status.go. The options a handler
  builds up, what each does to the status, and \<open>updateStatus\<close>, which applies them to the latest
  version of the resource and derives the result of the handler. The interface \<open>Option\<close> of the
  code is the locale \<open>status_options\<close>, interpreted on each kind of option and on their union.
\<close>

section \<open>Options\<close>

record state_option =
  so_state :: string
  so_node_pool_name :: string
  so_zone_under_maintenance :: string
  so_desired_pod_revision :: int
  so_desired_pod_hash :: string
  so_desired_bootstrap_token_hash :: string
  so_requeue_period :: duration

definition empty_state_option :: state_option where
  "empty_state_option = \<lparr>so_state = [], so_node_pool_name = [], so_zone_under_maintenance = [],
     so_desired_pod_revision = 0, so_desired_pod_hash = [], so_desired_bootstrap_token_hash = [],
     so_requeue_period = 0\<rparr>"

datatype status_option =
    MessageOption string
  | StateOption state_option
  | StateOptionList "state_option list"
  | VersionOption string
  | PodsOption "humio_pod_status list"
  | LicenseOption humio_license_status
  | NodeCountOption int
  | ObservedGenerationOption int

section \<open>Builders\<close>

definition statusOptions :: "status_option list" where
  "statusOptions = []"

definition withMessage :: "string \<Rightarrow> status_option list \<Rightarrow> status_option list" where
  "withMessage msg opts = opts @ [MessageOption msg]"

definition withState :: "string \<Rightarrow> status_option list \<Rightarrow> status_option list" where
  "withState state opts = opts @ [StateOption (empty_state_option\<lparr>so_state := state\<rparr>)]"

definition withRequeuePeriod :: "duration \<Rightarrow> status_option list \<Rightarrow> status_option list" where
  "withRequeuePeriod period opts =
     opts @ [StateOption (empty_state_option\<lparr>so_requeue_period := period\<rparr>)]"

definition withNodePoolState ::
  "string \<Rightarrow> string \<Rightarrow> int \<Rightarrow> string \<Rightarrow> string \<Rightarrow> string \<Rightarrow> status_option list \<Rightarrow> status_option list" where
  "withNodePoolState state nodePoolName podRevision podHash bootstrapTokenHash zoneName opts =
     opts @ [StateOption
       \<lparr>so_state = state, so_node_pool_name = nodePoolName, so_zone_under_maintenance = zoneName,
        so_desired_pod_revision = podRevision, so_desired_pod_hash = podHash,
        so_desired_bootstrap_token_hash = bootstrapTokenHash, so_requeue_period = 0\<rparr>]"

definition state_option_of :: "node_pool_status \<Rightarrow> state_option" where
  "state_option_of p = \<lparr>so_state = nst_state p, so_node_pool_name = nst_name p,
     so_zone_under_maintenance = nst_zone_under_maintenance p,
     so_desired_pod_revision = nst_desired_pod_revision p,
     so_desired_pod_hash = nst_desired_pod_hash p,
     so_desired_bootstrap_token_hash = nst_desired_bootstrap_token_hash p, so_requeue_period = 0\<rparr>"

definition withNodePoolStatusList ::
  "node_pool_status list \<Rightarrow> status_option list \<Rightarrow> status_option list" where
  "withNodePoolStatusList l opts = opts @ [StateOptionList (map state_option_of l)]"

definition withVersion :: "string \<Rightarrow> status_option list \<Rightarrow> status_option list" where
  "withVersion version opts = opts @ [VersionOption version]"

definition withPods :: "humio_pod_status list \<Rightarrow> status_option list \<Rightarrow> status_option list" where
  "withPods pods opts = opts @ [PodsOption pods]"

definition withLicense :: "humio_license_status \<Rightarrow> status_option list \<Rightarrow> status_option list" where
  "withLicense license opts = opts @ [LicenseOption license]"

definition withNodeCount :: "int \<Rightarrow> status_option list \<Rightarrow> status_option list" where
  "withNodeCount n opts = opts @ [NodeCountOption n]"

definition withObservedGeneration :: "int \<Rightarrow> status_option list \<Rightarrow> status_option list" where
  "withObservedGeneration g opts = opts @ [ObservedGenerationOption g]"

lemmas status_builders = statusOptions_def withMessage_def withState_def withRequeuePeriod_def
  withNodePoolState_def withNodePoolStatusList_def withVersion_def withPods_def withLicense_def
  withNodeCount_def withObservedGeneration_def

section \<open>Applying an option\<close>

abbreviation update_hc_status ::
  "(humio_cluster_status \<Rightarrow> humio_cluster_status) \<Rightarrow> humio_cluster \<Rightarrow> humio_cluster" where
  "update_hc_status \<equiv> hc_status_update"

definition apply_message :: "string \<Rightarrow> humio_cluster \<Rightarrow> humio_cluster" where
  "apply_message m hc = update_hc_status (\<lambda>t. t\<lparr>st_message := m\<rparr>) hc"

definition pool_status_of_option :: "state_option \<Rightarrow> node_pool_status" where
  "pool_status_of_option s = \<lparr>nst_name = so_node_pool_name s, nst_state = so_state s,
     nst_zone_under_maintenance = so_zone_under_maintenance s,
     nst_desired_pod_revision = so_desired_pod_revision s,
     nst_desired_pod_hash = so_desired_pod_hash s,
     nst_desired_bootstrap_token_hash = so_desired_bootstrap_token_hash s\<rparr>"

text \<open>
  The loop of \<open>stateOption.Apply\<close>: the first entry of that name is replaced and the loop
  returns; without one the new entry is appended. Every field of the entry but its name, which
  is equal, is overwritten.
\<close>

fun put_pool_status :: "state_option \<Rightarrow> node_pool_status list \<Rightarrow> node_pool_status list" where
  "put_pool_status s [] = [pool_status_of_option s]"
| "put_pool_status s (p # ps) =
     (if nst_name p = so_node_pool_name s
      then p\<lparr>nst_state := so_state s, nst_zone_under_maintenance := so_zone_under_maintenance s,
             nst_desired_pod_revision := so_desired_pod_revision s,
             nst_desired_pod_hash := so_desired_pod_hash s,
             nst_desired_bootstrap_token_hash := so_desired_bootstrap_token_hash s\<rparr> # ps
      else p # put_pool_status s ps)"

definition apply_state :: "state_option \<Rightarrow> humio_cluster \<Rightarrow> humio_cluster" where
  "apply_state s hc =
     (let hc = (if so_state s \<noteq> [] then update_hc_status (\<lambda>t. t\<lparr>st_state := so_state s\<rparr>) hc else hc)
      in if so_node_pool_name s \<noteq> []
         then update_hc_status (\<lambda>t. t\<lparr>st_node_pool_status := put_pool_status s (st_node_pool_status t)\<rparr>) hc
         else hc)"

definition apply_state_list :: "state_option list \<Rightarrow> humio_cluster \<Rightarrow> humio_cluster" where
  "apply_state_list l hc =
     update_hc_status (\<lambda>t. t\<lparr>st_node_pool_status := map pool_status_of_option l\<rparr>) hc"

definition apply_version :: "string \<Rightarrow> humio_cluster \<Rightarrow> humio_cluster" where
  "apply_version v hc = update_hc_status (\<lambda>t. t\<lparr>st_version := v\<rparr>) hc"

definition apply_pods :: "humio_pod_status list \<Rightarrow> humio_cluster \<Rightarrow> humio_cluster" where
  "apply_pods ps hc = update_hc_status (\<lambda>t. t\<lparr>st_pod_status := ps\<rparr>) hc"

definition apply_license :: "humio_license_status \<Rightarrow> humio_cluster \<Rightarrow> humio_cluster" where
  "apply_license l hc = update_hc_status (\<lambda>t. t\<lparr>st_license_status := l\<rparr>) hc"

definition apply_node_count :: "int \<Rightarrow> humio_cluster \<Rightarrow> humio_cluster" where
  "apply_node_count n hc = update_hc_status (\<lambda>t. t\<lparr>st_node_count := n\<rparr>) hc"

definition apply_observed_generation :: "int \<Rightarrow> humio_cluster \<Rightarrow> humio_cluster" where
  "apply_observed_generation g hc = update_hc_status (\<lambda>t. t\<lparr>st_observed_generation := itoa g\<rparr>) hc"

fun apply_option :: "status_option \<Rightarrow> humio_cluster \<Rightarrow> humio_cluster" where
  "apply_option (MessageOption m) = apply_message m"
| "apply_option (StateOption s) = apply_state s"
| "apply_option (StateOptionList l) = apply_state_list l"
| "apply_option (VersionOption v) = apply_version v"
| "apply_option (PodsOption p) = apply_pods p"
| "apply_option (LicenseOption l) = apply_license l"
| "apply_option (NodeCountOption n) = apply_node_count n"
| "apply_option (ObservedGenerationOption g) = apply_observed_generation g"

section \<open>Results\<close>

definition no_result :: "'a \<Rightarrow> handler_result" where
  "no_result o' = (empty_result, None)"

definition state_result :: "state_option \<Rightarrow> handler_result" where
  "state_result s =
     (if so_state s = StateRestarting \<or> so_state s = StateUpgrading \<or> so_state s = StatePending
      then (requeue_in second, None)
      else if so_state s = StateConfigError then (requeue_in (10 * second), None)
      else let period = (if so_requeue_period s = 0 then 15 * second else so_requeue_period s)
           in (requeue_in period, None))"

fun option_result :: "status_option \<Rightarrow> handler_result" where
  "option_result (StateOption s) = state_result s"
| "option_result (MessageOption m) = no_result m"
| "option_result (StateOptionList l) = no_result l"
| "option_result (VersionOption v) = no_result v"
| "option_result (PodsOption p) = no_result p"
| "option_result (LicenseOption l) = no_result l"
| "option_result (NodeCountOption n) = no_result n"
| "option_result (ObservedGenerationOption g) = no_result g"

text \<open>
  The two loops at the end of \<open>updateStatus\<close>, over any kind of option: the first error, else
  the first result that asks for a requeue, else the empty result.
\<close>

definition wants_requeue :: "reconcile_result \<Rightarrow> bool" where
  "wants_requeue res \<longleftrightarrow> requeue res \<or> requeue_after res > 0"

definition results_of :: "('o \<Rightarrow> handler_result) \<Rightarrow> 'o list \<Rightarrow> handler_result" where
  "results_of get_result opts =
     (case find (\<lambda>o'. snd (get_result o') \<noteq> None) opts of
        Some o' \<Rightarrow> get_result o'
      | None \<Rightarrow>
          (case find (\<lambda>o'. wants_requeue (fst (get_result o'))) opts of
             Some o' \<Rightarrow> (fst (get_result o'), None)
           | None \<Rightarrow> (empty_result, None)))"

definition apply_all :: "('o \<Rightarrow> humio_cluster \<Rightarrow> humio_cluster) \<Rightarrow> 'o list \<Rightarrow> humio_cluster \<Rightarrow> humio_cluster" where
  "apply_all app opts hc = foldl (\<lambda>hc o'. app o' hc) hc opts"

section \<open>The interface Option\<close>

text \<open>
  What \<open>updateStatus\<close> relies on: an option changes the status only, applying it again to what it
  produced changes nothing (so a retry after a conflict is harmless), and it reports no error.
\<close>

locale status_options =
  fixes app :: "'o \<Rightarrow> humio_cluster \<Rightarrow> humio_cluster"
    and res :: "'o \<Rightarrow> handler_result"
  assumes status_only: "app p hc = hc\<lparr>hc_status := hc_status (app p hc)\<rparr>"
    and idempotent: "app p (app p hc) = app p hc"
    and no_error: "snd (res p) = None"
    and no_requeue_flag: "\<not> requeue (fst (res p))"
begin

lemma all_status_only:
  "apply_all app opts hc = hc\<lparr>hc_status := hc_status (apply_all app opts hc)\<rparr>"
proof (induction opts arbitrary: hc)
  case Nil
  show ?case by (simp add: apply_all_def)
next
  case (Cons p opts)
  have tail: "apply_all app (p # opts) hc = apply_all app opts (app p hc)"
    by (simp add: apply_all_def)
  show ?case
    unfolding tail
    by (subst Cons.IH, subst status_only) (simp add: apply_all_def)
qed

lemma results_no_error: "snd (results_of res opts) = None"
  by (auto simp: results_of_def find_None_iff no_error split: option.split)

lemma results_first:
  "results_of res opts =
     (case find (\<lambda>p. requeue_after (fst (res p)) > 0) opts of
        Some p \<Rightarrow> (fst (res p), None) | None \<Rightarrow> (empty_result, None))"
proof -
  have "find (\<lambda>p. snd (res p) \<noteq> None) opts = None"
    by (simp add: find_None_iff no_error)
  then show ?thesis
    by (simp add: results_of_def wants_requeue_def no_requeue_flag)
qed

lemma results_nonneg: "0 \<le> requeue_after (fst (results_of res opts))"
  by (auto simp: results_first find_Some_iff split: option.split)

end

lemma put_pool_status_name [simp]:
  "put_pool_status s (put_pool_status s ps) = put_pool_status s ps"
  by (induction ps) (auto simp: pool_status_of_option_def)

lemmas apply_defs = apply_message_def apply_state_def apply_state_list_def apply_version_def
  apply_pods_def apply_license_def apply_node_count_def apply_observed_generation_def

lemma apply_option_status_only:
  "apply_option p hc = hc\<lparr>hc_status := hc_status (apply_option p hc)\<rparr>"
  by (cases p) (simp_all add: apply_defs Let_def)

lemma apply_option_idem: "apply_option p (apply_option p hc) = apply_option p hc"
  by (cases p) (simp_all add: apply_defs Let_def)

interpretation message_opt: status_options apply_message no_result
  by unfold_locales (simp_all add: apply_defs no_result_def)

interpretation state_opt: status_options apply_state state_result
  by unfold_locales (simp_all add: apply_defs Let_def state_result_def)

interpretation state_list_opt: status_options apply_state_list no_result
  by unfold_locales (simp_all add: apply_defs no_result_def)

interpretation version_opt: status_options apply_version no_result
  by unfold_locales (simp_all add: apply_defs no_result_def)

interpretation pods_opt: status_options apply_pods no_result
  by unfold_locales (simp_all add: apply_defs no_result_def)

interpretation license_opt: status_options apply_license no_result
  by unfold_locales (simp_all add: apply_defs no_result_def)

interpretation node_count_opt: status_options apply_node_count no_result
  by unfold_locales (simp_all add: apply_defs no_result_def)

interpretation generation_opt: status_options apply_observed_generation no_result
  by unfold_locales (simp_all add: apply_defs no_result_def)

lemma option_result_cases:
  "option_result p = no_result p \<or> (\<exists>s. p = StateOption s \<and> option_result p = state_result s)"
  by (cases p) (simp_all add: no_result_def)

interpretation opt: status_options apply_option option_result
proof
  show "snd (option_result p) = None" for p
    using option_result_cases [of p] state_opt.no_error by (auto simp: no_result_def)
  show "\<not> requeue (fst (option_result p))" for p
    using option_result_cases [of p] state_opt.no_requeue_flag by (auto simp: no_result_def)
qed (rule apply_option_status_only apply_option_idem)+

section \<open>updateStatus\<close>

definition getLatestHumioCluster :: "'w kube \<Rightarrow> ('w st, go_error, unit) step" where
  "getLatestHumioCluster K =
     and_then get_hc (\<lambda>hc.
     and_then (query (k_get_cluster K (hc_name hc) (hc_namespace hc))) set_hc)"

text \<open>\<open>StatusWriter.Update(ctx, hc)\<close>: on success the object becomes what the server answered.\<close>

definition write_status :: "'w kube \<Rightarrow> ('w st, go_error, unit) step" where
  "write_status K =
     and_then get_hc (\<lambda>hc.
     and_then (act (UpdateStatus hc) (k_update_status K hc)) set_hc)"

definition status_attempt :: "'w kube \<Rightarrow> status_option list \<Rightarrow> ('w st, go_error, unit) step" where
  "status_attempt K opts =
     and_then (getLatestHumioCluster K) (\<lambda>_.
     and_then get_hc (\<lambda>hc.
     and_then (set_hc (apply_all apply_option opts hc)) (\<lambda>_.
     write_status K)))"

definition updateStatus ::
  "'w kube \<Rightarrow> 'w retrier \<Rightarrow> status_option list \<Rightarrow> 'w st \<Rightarrow> handler_result \<times> 'w st" where
  "updateStatus K R opts s =
     (case R (status_attempt K opts) s of
        (Inl e, s') \<Rightarrow> ((empty_result, Some e), s')
      | (Inr u, s') \<Rightarrow> (results_of option_result opts, s'))"

definition setStateOptimistically :: "'w kube \<Rightarrow> string \<Rightarrow> ('w st, go_error, unit) step" where
  "setStateOptimistically K state =
     and_then get_hc (\<lambda>hc.
     if st_state (hc_status hc) = state then ret ()
     else and_then (set_hc (update_hc_status (\<lambda>t. t\<lparr>st_state := state\<rparr>) hc)) (\<lambda>_.
          write_status K))"

definition set_state_attempt :: "'w kube \<Rightarrow> string \<Rightarrow> ('w st, go_error, unit) step" where
  "set_state_attempt K state =
     and_then (on_error (getLatestHumioCluster K)
                 (\<lambda>err. if \<not> is_not_found err then exit_with err else ret ())) (\<lambda>_.
     and_then get_hc (\<lambda>hc.
     and_then (set_hc (update_hc_status (\<lambda>t. t\<lparr>st_state := state\<rparr>) hc)) (\<lambda>_.
     write_status K)))"

text \<open>\<open>logErrorAndReturn(err, msg)\<close> is \<open>fmt.Errorf("%s: %w", msg, err)\<close>.\<close>

definition setState :: "'w kube \<Rightarrow> 'w retrier \<Rightarrow> string \<Rightarrow> ('w st, go_error, unit) step" where
  "setState K R state =
     and_then get_hc (\<lambda>hc.
     if st_state (hc_status hc) = state then ret ()
     else on_error (setStateOptimistically K state) (\<lambda>_.
          on_error (R (set_state_attempt K state))
            (\<lambda>err. exit_with (Wrap ''failed to update resource status'' (Some err)))))"

section \<open>The list of pool states as a map\<close>

definition pool_view :: "node_pool_status list \<Rightarrow> string \<rightharpoonup> node_pool_status" where
  "pool_view ps = map_of (map (\<lambda>p. (nst_name p, p)) ps)"

lemma put_pool_status_view:
  "pool_view (put_pool_status s ps) = (pool_view ps)(so_node_pool_name s \<mapsto> pool_status_of_option s)"
  by (induction ps) (auto simp: pool_view_def pool_status_of_option_def fun_upd_twist)

lemma put_pool_status_names:
  "map nst_name (put_pool_status s ps) =
     (if so_node_pool_name s \<in> nst_name ` set ps then map nst_name ps
      else map nst_name ps @ [so_node_pool_name s])"
  by (induction ps) (auto simp: pool_status_of_option_def)

lemma put_pool_status_distinct:
  "distinct (map nst_name ps) \<Longrightarrow> distinct (map nst_name (put_pool_status s ps))"
  by (auto simp: put_pool_status_names)

lemma put_pool_status_length:
  "length (put_pool_status s ps) =
     (if so_node_pool_name s \<in> nst_name ` set ps then length ps else Suc (length ps))"
  by (induction ps) auto

text \<open>
  Claim C16. Recording the state of a node pool is a map update: applying a \<open>stateOption\<close> that
  names a pool to a cluster leaves every other pool's entry, and the order of the entries, as they
  were, makes the named pool's entry the given one, never introduces a second entry of a name, and
  sets the cluster state exactly when the option carries one.
\<close>

theorem state_option_updates_one_pool:
  assumes "so_node_pool_name s \<noteq> []"
  shows "pool_view (st_node_pool_status (hc_status (apply_state s hc))) =
           (pool_view (st_node_pool_status (hc_status hc)))(so_node_pool_name s \<mapsto> pool_status_of_option s)
         \<and> map nst_name (st_node_pool_status (hc_status (apply_state s hc))) =
             (let names = map nst_name (st_node_pool_status (hc_status hc))
              in if so_node_pool_name s \<in> set names then names else names @ [so_node_pool_name s])
         \<and> st_state (hc_status (apply_state s hc)) =
             (if so_state s = [] then st_state (hc_status hc) else so_state s)"
  using assms by (simp add: apply_state_def Let_def put_pool_status_view put_pool_status_names)

lemma state_option_updates_one_pool_witness:
  "\<exists>s hc. so_node_pool_name s = ''b'' \<and>
     map nst_name (st_node_pool_status (hc_status (apply_state s hc))) = [''a'', ''b'']"
proof (intro exI conjI)
  let ?s = "empty_state_option\<lparr>so_node_pool_name := ''b'', so_state := StateUpgrading\<rparr>"
  let ?hc = "apply_state (?s\<lparr>so_node_pool_name := ''a''\<rparr>) empty_cluster"
  show "so_node_pool_name ?s = ''b''" by simp
  show "map nst_name (st_node_pool_status (hc_status (apply_state ?s ?hc))) = [''a'', ''b'']"
    using state_option_updates_one_pool [of ?s ?hc]
    by (simp add: apply_state_def empty_cluster_def empty_status_def pool_status_of_option_def)
qed

section \<open>What updateStatus writes and returns\<close>

lemma getLatest_calls [simp]: "calls (snd (getLatestHumioCluster K s)) = calls s"
  by (simp add: getLatestHumioCluster_def and_then_def get_hc_def set_hc_def query_def
      split: prod.split sum.split)

lemma write_status_run:
  "write_status K s =
     (case k_update_status K (hc_obj s) (server s) of
        (Inl e, w) \<Rightarrow> (Inl e, s\<lparr>server := w, calls := calls s @ [UpdateStatus (hc_obj s)]\<rparr>)
      | (Inr hc, w) \<Rightarrow>
          (Inr (), s\<lparr>server := w, calls := calls s @ [UpdateStatus (hc_obj s)], hc_obj := hc\<rparr>))"
  by (simp add: write_status_def and_then_def get_hc_def act_def set_hc_def
      split: prod.split sum.split)

lemma status_attempt_run:
  "status_attempt K opts s =
     (case getLatestHumioCluster K s of
        (Inl e, s') \<Rightarrow> (Inl e, s')
      | (Inr u, s') \<Rightarrow> write_status K (s'\<lparr>hc_obj := apply_all apply_option opts (hc_obj s')\<rparr>))"
  by (simp add: status_attempt_def and_then_def get_hc_def set_hc_def split: prod.split sum.split)

lemma status_attempt_calls:
  "(\<exists>e. fst (status_attempt K opts s) = Inl e \<and> calls (snd (status_attempt K opts s)) = calls s) \<or>
   (\<exists>hc. calls (snd (status_attempt K opts s)) =
           calls s @ [UpdateStatus (apply_all apply_option opts hc)])"
proof -
  obtain r s' where g: "getLatestHumioCluster K s = (r, s')" by fastforce
  then have "calls s' = calls s" using getLatest_calls [of K s] by simp
  with g show ?thesis
    by (cases r) (auto simp: status_attempt_run write_status_run split: prod.split sum.split)
qed

definition writes_applied :: "status_option list \<Rightarrow> api_call \<Rightarrow> bool" where
  "writes_applied opts c \<longleftrightarrow> (\<exists>hc. c = UpdateStatus (apply_all apply_option opts hc))"

lemma status_attempt_adds: "adds_only (writes_applied opts) (status_attempt K opts)"
  unfolding adds_only_def
proof (rule emitsI)
  fix s
  show "\<exists>cs. calls (snd (status_attempt K opts s)) = calls s @ cs \<and> list_all (writes_applied opts) cs"
    using status_attempt_calls [of K opts s] by (auto simp: writes_applied_def)
qed

lemma updateStatus_writes:
  assumes "retries R"
  shows "adds_only (writes_applied opts) (updateStatus K R opts)"
proof -
  have "adds_only (writes_applied opts) (R (status_attempt K opts))"
    using assms status_attempt_adds by (rule adds_only_retry)
  then show ?thesis
    by (auto simp: adds_only_def emits_def updateStatus_def split: prod.splits sum.splits)
       (metis snd_conv)+
qed

lemma updateStatus_adds [trace_intros]:
  assumes "retries R" and "\<And>hc. P (UpdateStatus hc)"
  shows "adds_only P (updateStatus K R opts)"
  using updateStatus_writes [OF assms(1)] by (rule adds_only_weaken) (auto simp: writes_applied_def assms(2))



text \<open>
  The status update at the end of a successful reconciliation ignores the configured
  requeue period: \<open>withState\<close> comes first and already asks for a requeue.
\<close>

lemma final_update_ignores_requeue_period:
  "results_of option_result (withMessage m (withRequeuePeriod d (withState state statusOptions))) =
     (if state = StateRestarting \<or> state = StateUpgrading \<or> state = StatePending
      then (requeue_in second, None)
      else if state = StateConfigError then (requeue_in (10 * second), None)
      else (requeue_in (15 * second), None))"
  by (simp add: opt.results_first status_builders state_result_def empty_state_option_def Let_def)

end
