(* ===== verification/Node_Pool.thy ===== *)
theory Node_Pool
  imports Status
begin

text \<open>
  Node pools: internal/controller/humiocluster_defaults.go. The construction of a
  \<open>HumioNodePool\<close> from the resource, its accessors with their defaults, the environment of the
  LogScale container, and the tracker of the fields the operator manages; from
  humiocluster_controller.go the merge of environment variables and the detection of duplicates.

  An accessor that writes to the tracker (\<open>GetImage\<close>, \<open>GetHelperImage\<close>,
  \<open>GetEnvironmentVariables\<close>) or to the pool (\<open>GetUpdateStrategy\<close>) returns the pool as well.
\<close>

section \<open>Environment variables\<close>

definition EnvVarValue :: "env_var list \<Rightarrow> string \<Rightarrow> string" where
  "EnvVarValue envVars key =
     (case find (\<lambda>e. ev_name e = key) envVars of Some e \<Rightarrow> ev_value e | None \<Rightarrow> [])"

definition EnvVarHasValue :: "env_var list \<Rightarrow> string \<Rightarrow> string \<Rightarrow> bool" where
  "EnvVarHasValue envVars key v \<longleftrightarrow> list_ex (\<lambda>e. ev_name e = key \<and> ev_value e = v) envVars"

definition EnvVarHasKey :: "env_var list \<Rightarrow> string \<Rightarrow> bool" where
  "EnvVarHasKey envVars key \<longleftrightarrow> list_ex (\<lambda>e. ev_name e = key) envVars"

text \<open>The inner loop of \<open>mergeEnvVars\<close> with its flag.\<close>

fun merge_add_flag :: "env_var \<Rightarrow> env_var list \<Rightarrow> bool \<Rightarrow> bool" where
  "merge_add_flag commonVar [] add = add"
| "merge_add_flag commonVar (nodeVar # rest) add =
     (if ev_name commonVar = ev_name nodeVar then False else merge_add_flag commonVar rest True)"

definition mergeEnvVars :: "env_var list \<Rightarrow> env_var list \<Rightarrow> env_var list" where
  "mergeEnvVars from into =
     (if into = [] then from
      else foldl (\<lambda>into commonVar. if merge_add_flag commonVar into False then into @ [commonVar] else into)
             into from)"

definition findDuplicateEnvVars :: "env_var list \<Rightarrow> string \<rightharpoonup> nat" where
  "findDuplicateEnvVars envVars =
     snd (foldl (\<lambda>(envVarCount, duplicates) e.
            let n = (case envVarCount (ev_name e) of None \<Rightarrow> 0 | Some c \<Rightarrow> c) + 1;
                envVarCount = envVarCount(ev_name e \<mapsto> n)
            in (envVarCount, if n > 1 then duplicates(ev_name e \<mapsto> n) else duplicates))
          (Map.empty, Map.empty) envVars)"

definition GetDuplicateEnvVarsErrorMessage :: "(string \<rightharpoonup> nat) \<Rightarrow> string" where
  "GetDuplicateEnvVarsErrorMessage duplicates =
     (if duplicates = Map.empty then []
      else
        let message = ''Duplicate environment variables found in HumioCluster spec: '';
            keys = sorted_list_of_set (dom duplicates);
            message = foldl (\<lambda>m name. m @ CHR 0x27 # name @ CHR 0x27 # '' appears '' @
                        itoa (int (the (duplicates name))) @ '' times, '') message keys
        in take (length message - 2) message)"

section \<open>The tracker of managed fields\<close>

definition mergeEnvironmentVariables :: "container \<Rightarrow> container \<Rightarrow> container" where
  "mergeEnvironmentVariables src dest =
     (if c_env src = [] then dest
      else dest\<lparr>c_env := c_env dest @
             filter (\<lambda>newEnv. ev_name newEnv \<notin> ev_name ` set (c_env dest)) (c_env src)\<rparr>)"

definition mergeContainers :: "container \<Rightarrow> container \<Rightarrow> container" where
  "mergeContainers src dest =
     mergeEnvironmentVariables src (if c_image src \<noteq> [] then dest\<lparr>c_image := c_image src\<rparr> else dest)"

text \<open>The first container of that name is merged into; without one the container is appended.\<close>

fun merge_into_containers :: "container list \<Rightarrow> container \<Rightarrow> container list" where
  "merge_into_containers [] new = [new]"
| "merge_into_containers (c # cs) new =
     (if c_name c = c_name new then mergeContainers new c # cs else c # merge_into_containers cs new)"

definition MergeContainerIntoPod :: "pod_spec \<Rightarrow> container \<Rightarrow> pod_spec" where
  "MergeContainerIntoPod podSpec newContainer =
     podSpec\<lparr>ps_containers := merge_into_containers (ps_containers podSpec) newContainer\<rparr>"

definition MergeInitContainerIntoPod :: "pod_spec \<Rightarrow> container \<Rightarrow> pod_spec" where
  "MergeInitContainerIntoPod podSpec newContainer =
     podSpec\<lparr>ps_init_containers := merge_into_containers (ps_init_containers podSpec) newContainer\<rparr>"

definition HumioContainerName :: string where "HumioContainerName = ''humio''"
definition InitContainerName :: string where "InitContainerName = ''humio-init''"

lemma container_names_distinct [simp]:
  "HumioContainerName \<noteq> InitContainerName" "InitContainerName \<noteq> HumioContainerName"
  by (simp_all add: HumioContainerName_def InitContainerName_def)

definition AddManagedFieldForContainer :: "container \<Rightarrow> node_pool \<Rightarrow> node_pool" where
  "AddManagedFieldForContainer c hnp =
     (if c_name c = HumioContainerName then hnp\<lparr>np_tracker := MergeContainerIntoPod (np_tracker hnp) c\<rparr>
      else if c_name c = InitContainerName
      then hnp\<lparr>np_tracker := MergeInitContainerIntoPod (np_tracker hnp) c\<rparr>
      else hnp)"

definition AppendHumioContainerEnvVarToManagedFields :: "env_var \<Rightarrow> node_pool \<Rightarrow> node_pool" where
  "AppendHumioContainerEnvVarToManagedFields envVar hnp =
     hnp\<lparr>np_tracker := MergeContainerIntoPod (np_tracker hnp)
        (empty_container\<lparr>c_name := HumioContainerName, c_env := [envVar]\<rparr>)\<rparr>"

definition AppendEnvVarToEnvVarsIfNotAlreadyPresent ::
  "env_var \<Rightarrow> env_var list \<times> node_pool \<Rightarrow> env_var list \<times> node_pool" where
  "AppendEnvVarToEnvVarsIfNotAlreadyPresent defaultEnvVar = (\<lambda>(envVars, hnp).
     if list_ex (\<lambda>e. ev_name e = ev_name defaultEnvVar) envVars then (envVars, hnp)
     else (envVars @ [defaultEnvVar], AppendHumioContainerEnvVarToManagedFields defaultEnvVar hnp))"

text \<open>\<open>GetManagedFieldsPod\<close>: the patch the operator applies, a pod with only a name and a specification.\<close>

definition GetManagedFieldsPod :: "node_pool \<Rightarrow> string \<Rightarrow> string \<Rightarrow> pod" where
  "GetManagedFieldsPod hnp name namespace =
     empty_pod\<lparr>p_name := name, p_namespace := namespace, p_spec := np_tracker hnp\<rparr>"

section \<open>Construction\<close>

definition pool_status_named :: "humio_cluster \<Rightarrow> string \<Rightarrow> node_pool_status option" where
  "pool_status_named hc name = find (\<lambda>p. nst_name p = name) (st_node_pool_status (hc_status hc))"

text \<open>
  The two constructors share the fields they copy from the cluster. \<open>pool_from\<close> takes the pool's
  name, its entry of the status, if any, and its node specification.
\<close>

definition pool_from ::
  "humio_cluster \<Rightarrow> string \<Rightarrow> node_pool_status option \<Rightarrow> humio_node_spec \<Rightarrow> node_pool" where
  "pool_from hc name status spec =
     (let sp = hc_spec hc in
      \<lparr>np_cluster_name = hc_name hc, np_node_pool_name = name, np_namespace = hc_namespace hc,
       np_hostname = hcs_hostname sp, np_es_hostname = hcs_es_hostname sp,
       np_hostname_source = hcs_hostname_source sp, np_es_hostname_source = hcs_es_hostname_source sp,
       np_spec = spec, np_tls = hcs_tls sp,
       np_idp_certificate_secret_name = hcs_idp_certificate_secret_name sp,
       np_view_group_permissions = hcs_view_group_permissions sp,
       np_role_permissions = hcs_role_permissions sp,
       np_enable_downscaling_feature = hcs_enable_downscaling_feature sp,
       np_target_replication_factor = hcs_target_replication_factor sp,
       np_digest_partitions_count = hcs_digest_partitions_count sp,
       np_path = hcs_path sp, np_ingress = hcs_ingress sp, np_cluster_annotations = hc_annotations hc,
       np_state = (case status of None \<Rightarrow> [] | Some p \<Rightarrow> nst_state p),
       np_zone_under_maintenance = (case status of None \<Rightarrow> [] | Some p \<Rightarrow> nst_zone_under_maintenance p),
       np_desired_pod_revision = (case status of None \<Rightarrow> 0 | Some p \<Rightarrow> nst_desired_pod_revision p),
       np_desired_pod_hash = (case status of None \<Rightarrow> [] | Some p \<Rightarrow> nst_desired_pod_hash p),
       np_desired_bootstrap_token_hash =
         (case status of None \<Rightarrow> [] | Some p \<Rightarrow> nst_desired_bootstrap_token_hash p),
       np_pod_disruption_budget = ns_pod_disruption_budget (hcs_node sp),
       np_tracker = empty_pod_spec\<rparr>)"

text \<open>Every field of the cluster's own node specification is copied; the variables are merged.\<close>

definition NewHumioNodeManagerFromHumioCluster :: "humio_cluster \<Rightarrow> node_pool" where
  "NewHumioNodeManagerFromHumioCluster hc =
     pool_from hc [] (pool_status_named hc (hc_name hc))
       ((hcs_node (hc_spec hc))\<lparr>ns_environment_variables :=
          mergeEnvVars (hcs_common_environment_variables (hc_spec hc))
            (ns_environment_variables (hcs_node (hc_spec hc)))\<rparr>)"

text \<open>
  For an additional node pool every field is copied but the policy of the persistent volume claims
  (\<open>DataVolumePersistentVolumeClaimPolicy\<close>), which keeps its zero value.
\<close>

definition NewHumioNodeManagerFromHumioNodePool :: "humio_cluster \<Rightarrow> humio_node_pool_spec \<Rightarrow> node_pool" where
  "NewHumioNodeManagerFromHumioNodePool hc hnp =
     pool_from hc (nps_name hnp)
       (pool_status_named hc (join_with ''-'' [hc_name hc, nps_name hnp]))
       ((nps_spec hnp)\<lparr>ns_environment_variables :=
          mergeEnvVars (hcs_common_environment_variables (hc_spec hc))
            (ns_environment_variables (nps_spec hnp)),
        ns_pvc_reclaim_type := []\<rparr>)"

definition getHumioNodePoolManagers :: "humio_cluster \<Rightarrow> node_pool list" where
  "getHumioNodePoolManagers hc =
     NewHumioNodeManagerFromHumioCluster hc #
     map (NewHumioNodeManagerFromHumioNodePool hc) (hcs_node_pools (hc_spec hc))"

section \<open>Accessors\<close>

definition targetReplicationFactor :: int where "targetReplicationFactor = 2"
definition digestPartitionsCount :: int where "digestPartitionsCount = 24"
definition HumioPort :: int where "HumioPort = 8080"
definition ElasticPort :: int where "ElasticPort = 9200"
definition NodePoolFeatureAllowedAPIRequestType :: string where
  "NodePoolFeatureAllowedAPIRequestType = ''OperatorInternal''"
definition humioVersionMinimumForReliableDownscaling :: string where
  "humioVersionMinimumForReliableDownscaling = ''1.173.0''"

definition GetClusterName :: "node_pool \<Rightarrow> string" where
  "GetClusterName hnp = np_cluster_name hnp"

definition GetNodePoolName :: "node_pool \<Rightarrow> string" where
  "GetNodePoolName hnp =
     (if np_node_pool_name hnp = [] then GetClusterName hnp
      else join_with ''-'' [GetClusterName hnp, np_node_pool_name hnp])"

definition GetNamespace :: "node_pool \<Rightarrow> string" where "GetNamespace hnp = np_namespace hnp"
definition GetHostname :: "node_pool \<Rightarrow> string" where "GetHostname hnp = np_hostname hnp"

definition SetImage :: "string \<Rightarrow> node_pool \<Rightarrow> node_pool" where
  "SetImage img hnp = hnp\<lparr>np_spec := (np_spec hnp)\<lparr>ns_image := img\<rparr>\<rparr>"

definition GetImage :: "lib \<Rightarrow> node_pool \<Rightarrow> string \<times> node_pool" where
  "GetImage L hnp =
     (if ns_image (np_spec hnp) \<noteq> [] then (ns_image (np_spec hnp), hnp)
      else if default_core_image L \<noteq> [] then (default_core_image L, hnp)
      else
        let img = default_core_image_managed L;
            img = (if img = [] then DefaultHumioImageVersion L else img)
        in (img, AddManagedFieldForContainer
                   (empty_container\<lparr>c_name := HumioContainerName, c_image := img\<rparr>) hnp))"

definition GetHelperImage :: "lib \<Rightarrow> node_pool \<Rightarrow> string \<times> node_pool" where
  "GetHelperImage L hnp =
     (if ns_helper_image (np_spec hnp) \<noteq> [] then (ns_helper_image (np_spec hnp), hnp)
      else if default_helper_image L \<noteq> [] then (default_helper_image L, hnp)
      else
        let img = default_helper_image_managed L;
            img = (if img = [] then DefaultHelperImageVersion L else img)
        in (img, AddManagedFieldForContainer
                   (empty_container\<lparr>c_name := InitContainerName, c_image := img\<rparr>) hnp))"

definition IsDownscalingFeatureEnabled :: "lib \<Rightarrow> node_pool \<Rightarrow> bool \<times> node_pool" where
  "IsDownscalingFeatureEnabled L hnp =
     (let (img, hnp) = GetImage L hnp;
          humioVersion = HumioVersionFromString L img
      in (if \<not> hv_at_least_ok L humioVersion humioVersionMinimumForReliableDownscaling then False
          else np_enable_downscaling_feature hnp, hnp))"

definition GetPodDisruptionBudget :: "node_pool \<Rightarrow> pdb_spec option" where
  "GetPodDisruptionBudget hnp =
     (if ns_pod_disruption_budget (np_spec hnp) \<noteq> None then ns_pod_disruption_budget (np_spec hnp)
      else np_pod_disruption_budget hnp)"

definition GetPodDisruptionBudgetName :: "node_pool \<Rightarrow> string" where
  "GetPodDisruptionBudgetName hnp = GetNodePoolName hnp @ ''-pdb''"

definition GetTargetReplicationFactor :: "node_pool \<Rightarrow> int" where
  "GetTargetReplicationFactor hnp =
     (if np_target_replication_factor hnp \<noteq> 0 then np_target_replication_factor hnp
      else targetReplicationFactor)"

definition GetDigestPartitionsCount :: "node_pool \<Rightarrow> int" where
  "GetDigestPartitionsCount hnp =
     (if np_digest_partitions_count hnp \<noteq> 0 then np_digest_partitions_count hnp
      else digestPartitionsCount)"

definition GetDesiredPodRevision :: "node_pool \<Rightarrow> int" where
  "GetDesiredPodRevision hnp = np_desired_pod_revision hnp"
definition GetDesiredPodHash :: "node_pool \<Rightarrow> string" where
  "GetDesiredPodHash hnp = np_desired_pod_hash hnp"
definition GetDesiredBootstrapTokenHash :: "node_pool \<Rightarrow> string" where
  "GetDesiredBootstrapTokenHash hnp = np_desired_bootstrap_token_hash hnp"
definition GetZoneUnderMaintenance :: "node_pool \<Rightarrow> string" where
  "GetZoneUnderMaintenance hnp = np_zone_under_maintenance hnp"
definition GetState :: "node_pool \<Rightarrow> string" where "GetState hnp = np_state hnp"
definition GetBootstrapTokenName :: "node_pool \<Rightarrow> string" where
  "GetBootstrapTokenName hnp = np_cluster_name hnp"

definition TLSEnabled :: "lib \<Rightarrow> node_pool \<Rightarrow> bool" where
  "TLSEnabled L hnp =
     (case np_tls hnp of
        None \<Rightarrow> use_cert_manager L
      | Some t \<Rightarrow>
          (case tls_enabled_flag t of
             None \<Rightarrow> use_cert_manager L
           | Some b \<Rightarrow> use_cert_manager L \<and> b))"

definition GetPath :: "node_pool \<Rightarrow> string" where
  "GetPath hnp =
     (if np_path hnp \<noteq> []
      then if has_prefix (np_path hnp) ''/'' then np_path hnp else CHR ''/'' # np_path hnp
      else ''/'')"

definition GetNodeCount :: "node_pool \<Rightarrow> int" where
  "GetNodeCount hnp = ns_node_count (np_spec hnp)"

definition PVCsEnabled :: "node_pool \<Rightarrow> bool" where
  "PVCsEnabled hnp \<longleftrightarrow> ns_pvc_spec_template (np_spec hnp) \<noteq> KObj []"

definition GetDataVolumePersistentVolumeClaimSpecTemplate :: "node_pool \<Rightarrow> string \<Rightarrow> volume_source" where
  "GetDataVolumePersistentVolumeClaimSpecTemplate hnp pvcName =
     (if PVCsEnabled hnp then empty_volume_source\<lparr>vs_pvc := Some pvcName\<rparr> else empty_volume_source)"

definition DataVolumePersistentVolumeClaimSpecTemplateIsSetByUser :: "node_pool \<Rightarrow> bool" where
  "DataVolumePersistentVolumeClaimSpecTemplateIsSetByUser hnp \<longleftrightarrow>
     ns_pvc_spec_template (np_spec hnp) \<noteq> KObj []"

definition GetDataVolumePersistentVolumeClaimPolicy :: "node_pool \<Rightarrow> string" where
  "GetDataVolumePersistentVolumeClaimPolicy hnp =
     (if PVCsEnabled hnp then ns_pvc_reclaim_type (np_spec hnp) else [])"

definition OkToDeletePvc :: "node_pool \<Rightarrow> bool" where
  "OkToDeletePvc hnp \<longleftrightarrow> GetDataVolumePersistentVolumeClaimPolicy hnp = OnNodeDelete"

definition GetDataVolumeSource :: "node_pool \<Rightarrow> volume_source" where
  "GetDataVolumeSource hnp = ns_data_volume_source (np_spec hnp)"

definition GetNodePoolFeatureAllowedAPIRequestTypes :: "node_pool \<Rightarrow> string list" where
  "GetNodePoolFeatureAllowedAPIRequestTypes hnp =
     (case ns_allowed_api_request_types (np_spec hnp) of
        Some l \<Rightarrow> l | None \<Rightarrow> [NodePoolFeatureAllowedAPIRequestType])"

section \<open>Labels\<close>

definition NodePoolLabelName :: string where "NodePoolLabelName = ''humio.com/node-pool''"
definition FeatureLabelName :: string where "FeatureLabelName = ''humio.com/feature''"
definition PodMarkedForDataEviction :: string where
  "PodMarkedForDataEviction = ''humio.com/marked-for-data-eviction''"
definition LogScaleClusterVhost :: string where "LogScaleClusterVhost = ''humio.com/cluster-vhost''"

definition LabelsForHumio :: "string \<Rightarrow> smap" where
  "LabelsForHumio clusterName =
     [''app.kubernetes.io/instance'' \<mapsto> clusterName,
      ''app.kubernetes.io/managed-by'' \<mapsto> ''humio-operator'',
      ''app.kubernetes.io/name'' \<mapsto> ''humio'']"

definition MatchingLabelsForHumioNodePool :: "string \<Rightarrow> string \<Rightarrow> smap" where
  "MatchingLabelsForHumioNodePool clusterName nodePoolName =
     (LabelsForHumio clusterName)(''humio.com/node-pool'' \<mapsto> nodePoolName)"

definition AnnotationsForHumio :: "smap \<Rightarrow> string \<Rightarrow> smap" where
  "AnnotationsForHumio podAnnotations productVersion =
     podAnnotations ++ [''productID'' \<mapsto> ''none'', ''productName'' \<mapsto> ''humio'',
                        ''productVersion'' \<mapsto> productVersion]"

definition GetCommonClusterLabels :: "node_pool \<Rightarrow> smap" where
  "GetCommonClusterLabels hnp = LabelsForHumio (np_cluster_name hnp)"

definition GetNodePoolLabels :: "node_pool \<Rightarrow> smap" where
  "GetNodePoolLabels hnp = (GetCommonClusterLabels hnp)(NodePoolLabelName \<mapsto> GetNodePoolName hnp)"

text \<open>The user's labels are added where the operator has none of that name.\<close>

definition GetPodLabels :: "node_pool \<Rightarrow> smap" where
  "GetPodLabels hnp =
     (let labels = ns_pod_labels (np_spec hnp) ++ GetNodePoolLabels hnp
      in if NodePoolFeatureAllowedAPIRequestType \<in> set (GetNodePoolFeatureAllowedAPIRequestTypes hnp)
         then labels(FeatureLabelName \<mapsto> NodePoolFeatureAllowedAPIRequestType)
         else labels)"

definition headlessServiceName :: "string \<Rightarrow> string" where
  "headlessServiceName clusterName = clusterName @ ''-headless''"

definition NodePoolFilterHasNode :: "node_pool \<Rightarrow> bool" where
  "NodePoolFilterHasNode hnp \<longleftrightarrow> GetNodeCount hnp > 0"

definition NodePoolFilterDoesNotHaveNodes :: "node_pool \<Rightarrow> bool" where
  "NodePoolFilterDoesNotHaveNodes hnp \<longleftrightarrow> \<not> NodePoolFilterHasNode hnp"

section \<open>The environment of the LogScale container\<close>

definition env_value :: "string \<Rightarrow> string \<Rightarrow> env_var" where
  "env_value n v = \<lparr>ev_name = n, ev_value = v, ev_value_from = KNil\<rparr>"

definition env_field :: "string \<Rightarrow> string \<Rightarrow> env_var" where
  "env_field n path = \<lparr>ev_name = n, ev_value = [],
     ev_value_from = KObj [(''fieldRef'', KObj [(''apiVersion'', KStr ''v1''), (''fieldPath'', KStr path)])]\<rparr>"

definition env_defaults :: "lib \<Rightarrow> node_pool \<Rightarrow> env_var list" where
  "env_defaults L hnp =
     (let scheme = (if \<not> TLSEnabled L hnp then ''http'' else ''https'') in
      [env_field ''THIS_POD_IP'' ''status.podIP'',
       env_field ''POD_NAME'' ''metadata.name'',
       env_field ''POD_NAMESPACE'' ''metadata.namespace'',
       env_value ''HUMIO_PORT'' (itoa HumioPort),
       env_value ''ELASTIC_PORT'' (itoa ElasticPort),
       env_value ''DEFAULT_DIGEST_REPLICATION_FACTOR'' (itoa (GetTargetReplicationFactor hnp)),
       env_value ''DEFAULT_SEGMENT_REPLICATION_FACTOR'' (itoa (GetTargetReplicationFactor hnp)),
       env_value ''INGEST_QUEUE_INITIAL_PARTITIONS'' (itoa (GetDigestPartitionsCount hnp)),
       env_value ''HUMIO_LOG4J_CONFIGURATION'' ''log4j2-json-stdout.xml'',
       env_value ''EXTERNAL_URL''
         (to_lower scheme @ ''://$(POD_NAME).'' @ headlessServiceName (GetClusterName hnp) @
          ''.$(POD_NAMESPACE):$(HUMIO_PORT)''),
       env_value ''HUMIO_JVM_LOG_OPTS'' ''-Xlog:gc+jni=debug:stdout -Xlog:gc*:stdout:time,tags'',
       env_value ''HUMIO_OPTS'' ''-Dakka.log-config-on-start=on -Dlog4j2.formatMsgNoLookups=true''])"

definition append_defaults :: "env_var list \<Rightarrow> env_var list \<times> node_pool \<Rightarrow> env_var list \<times> node_pool" where
  "append_defaults ds st = foldl (\<lambda>st d. AppendEnvVarToEnvVarsIfNotAlreadyPresent d st) st ds"

definition public_url :: "lib \<Rightarrow> node_pool \<Rightarrow> env_var" where
  "public_url L hnp =
     (let scheme = (if \<not> TLSEnabled L hnp then ''http'' else ''https'');
          pathSuffix = (if GetPath hnp \<noteq> ''/'' then GetPath hnp else [])
      in if ing_enabled (np_ingress hnp)
         then env_value ''PUBLIC_URL'' (''https://'' @ GetHostname hnp @ pathSuffix)
         else env_value ''PUBLIC_URL'' (scheme @ ''://$(THIS_POD_IP):$(HUMIO_PORT)'' @ pathSuffix))"

definition GetEnvironmentVariables :: "lib \<Rightarrow> node_pool \<Rightarrow> env_var list \<times> node_pool" where
  "GetEnvironmentVariables L hnp =
     (let st = append_defaults (env_defaults L hnp) (ns_environment_variables (np_spec hnp), hnp);
          st = (if \<not> EnvVarHasKey (fst st) ''PUBLIC_URL''
                then AppendEnvVarToEnvVarsIfNotAlreadyPresent (public_url L hnp) st else st)
      in if GetPath hnp \<noteq> ''/''
         then AppendEnvVarToEnvVarsIfNotAlreadyPresent (env_value ''PROXY_PREFIX_URL'' (GetPath hnp)) st
         else st)"

section \<open>Probes, security contexts, affinity\<close>

definition GetProbeScheme :: "lib \<Rightarrow> node_pool \<Rightarrow> string" where
  "GetProbeScheme L hnp = (if \<not> TLSEnabled L hnp then ''HTTP'' else ''HTTPS'')"

definition is_node_up_probe :: "lib \<Rightarrow> node_pool \<Rightarrow> int \<Rightarrow> int \<Rightarrow> kvalue" where
  "is_node_up_probe L hnp initialDelay failureThreshold = KObj
     [(''httpGet'', KObj [(''path'', KStr ''/api/v1/is-node-up''), (''port'', KInt HumioPort),
                         (''scheme'', KStr (GetProbeScheme L hnp))]),
      (''initialDelaySeconds'', KInt initialDelay), (''periodSeconds'', KInt 5),
      (''timeoutSeconds'', KInt 5), (''successThreshold'', KInt 1),
      (''failureThreshold'', KInt failureThreshold)]"

text \<open>An empty probe given by the user switches the probe off; no probe gives the default.\<close>

definition GetContainerReadinessProbe :: "lib \<Rightarrow> node_pool \<Rightarrow> kvalue option" where
  "GetContainerReadinessProbe L hnp =
     (case ns_container_readiness_probe (np_spec hnp) of
        Some p \<Rightarrow> if p = KObj [] then None else Some p
      | None \<Rightarrow> Some (is_node_up_probe L hnp (if use_dummy_image L then 0 else 30) 10))"

definition GetContainerLivenessProbe :: "lib \<Rightarrow> node_pool \<Rightarrow> kvalue option" where
  "GetContainerLivenessProbe L hnp =
     (case ns_container_liveness_probe (np_spec hnp) of
        Some p \<Rightarrow> if p = KObj [] then None else Some p
      | None \<Rightarrow> Some (is_node_up_probe L hnp 30 80))"

definition GetContainerStartupProbe :: "lib \<Rightarrow> node_pool \<Rightarrow> kvalue option" where
  "GetContainerStartupProbe L hnp =
     (case ns_container_startup_probe (np_spec hnp) of
        Some p \<Rightarrow> if p = KObj [] then None else Some p
      | None \<Rightarrow> Some (is_node_up_probe L hnp 0 120))"

definition GetContainerSecurityContext :: "node_pool \<Rightarrow> kvalue" where
  "GetContainerSecurityContext hnp =
     (case ns_container_security_context (np_spec hnp) of
        None \<Rightarrow> KObj
          [(''allowPrivilegeEscalation'', KBool False), (''privileged'', KBool False),
           (''readOnlyRootFilesystem'', KBool True), (''runAsUser'', KInt 65534),
           (''runAsNonRoot'', KBool True),
           (''capabilities'', KObj [(''add'', KList [KStr ''SYS_NICE'']), (''drop'', KList [KStr ''ALL''])])]
      | Some c \<Rightarrow> c)"

definition GetPodSecurityContext :: "node_pool \<Rightarrow> kvalue" where
  "GetPodSecurityContext hnp =
     (case ns_pod_security_context (np_spec hnp) of
        None \<Rightarrow> KObj [(''runAsUser'', KInt 65534), (''runAsNonRoot'', KBool True),
                      (''runAsGroup'', KInt 0), (''fsGroup'', KInt 0)]
      | Some c \<Rightarrow> c)"

definition match_in :: "string \<Rightarrow> string \<Rightarrow> kvalue" where
  "match_in k v = KObj [(''key'', KStr k), (''operator'', KStr ''In''), (''values'', KList [KStr v])]"

definition GetAffinity :: "node_pool \<Rightarrow> kvalue" where
  "GetAffinity hnp =
     (if ns_affinity (np_spec hnp) = KObj []
      then KObj [(''nodeAffinity'', KObj [(''requiredDuringSchedulingIgnoredDuringExecution'',
             KObj [(''nodeSelectorTerms'', KList [KObj [(''matchExpressions'',
               KList [match_in ''kubernetes.io/arch'' ''amd64'', match_in ''kubernetes.io/os'' ''linux''])]])])])]
      else ns_affinity (np_spec hnp))"

definition GetShareProcessNamespace :: "node_pool \<Rightarrow> bool" where
  "GetShareProcessNamespace hnp =
     (case ns_share_process_namespace (np_spec hnp) of None \<Rightarrow> False | Some b \<Rightarrow> b)"

definition GetTerminationGracePeriodSeconds :: "node_pool \<Rightarrow> int" where
  "GetTerminationGracePeriodSeconds hnp =
     (case ns_termination_grace_period_seconds (np_spec hnp) of None \<Rightarrow> 300 | Some n \<Rightarrow> n)"

section \<open>Names, services, extra configuration\<close>

definition GetInitServiceAccountSecretName :: "node_pool \<Rightarrow> string" where
  "GetInitServiceAccountSecretName hnp = GetNodePoolName hnp @ ''-init''"

definition GetInitServiceAccountName :: "node_pool \<Rightarrow> string" where
  "GetInitServiceAccountName hnp =
     (if ns_init_service_account_name (np_spec hnp) \<noteq> [] then ns_init_service_account_name (np_spec hnp)
      else GetNodePoolName hnp @ ''-init'')"

definition InitServiceAccountIsSetByUser :: "node_pool \<Rightarrow> bool" where
  "InitServiceAccountIsSetByUser hnp \<longleftrightarrow> ns_init_service_account_name (np_spec hnp) \<noteq> []"

definition GetInitClusterRoleName :: "node_pool \<Rightarrow> string" where
  "GetInitClusterRoleName hnp = GetNamespace hnp @ ''-'' @ GetNodePoolName hnp @ ''-init''"

definition GetInitClusterRoleBindingName :: "node_pool \<Rightarrow> string" where
  "GetInitClusterRoleBindingName hnp = GetNamespace hnp @ ''-'' @ GetNodePoolName hnp @ ''-init''"

definition HumioServiceAccountIsSetByUser :: "node_pool \<Rightarrow> bool" where
  "HumioServiceAccountIsSetByUser hnp \<longleftrightarrow> ns_humio_service_account_name (np_spec hnp) \<noteq> []"

definition GetHumioServiceAccountName :: "node_pool \<Rightarrow> string" where
  "GetHumioServiceAccountName hnp =
     (if ns_humio_service_account_name (np_spec hnp) \<noteq> [] then ns_humio_service_account_name (np_spec hnp)
      else GetNodePoolName hnp @ ''-humio'')"

definition GetExtraKafkaConfigsConfigMapName :: "node_pool \<Rightarrow> string" where
  "GetExtraKafkaConfigsConfigMapName hnp = GetNodePoolName hnp @ ''-extra-kafka-configs''"

definition GetExtraKafkaConfigs :: "node_pool \<Rightarrow> string" where
  "GetExtraKafkaConfigs hnp = ns_extra_kafka_configs (np_spec hnp)"

definition ShouldUseExtraKafkaConfigsFile :: "lib \<Rightarrow> node_pool \<Rightarrow> bool \<times> node_pool" where
  "ShouldUseExtraKafkaConfigsFile L hnp =
     (if GetExtraKafkaConfigs hnp = [] then (False, hnp)
      else
        let (img, hnp) = GetImage L hnp;
            humioVersion = HumioVersionFromString L img
        in (\<not> hv_at_least_ok L humioVersion HumioVersionExtraKafkaConfigsRemoved, hnp))"

definition GetViewGroupPermissionsConfigMapName :: "node_pool \<Rightarrow> string" where
  "GetViewGroupPermissionsConfigMapName hnp = GetClusterName hnp @ ''-view-group-permissions''"

definition GetRolePermissionsConfigMapName :: "node_pool \<Rightarrow> string" where
  "GetRolePermissionsConfigMapName hnp = GetClusterName hnp @ ''-role-permissions''"

definition GetIDPCertificateSecretName :: "node_pool \<Rightarrow> string" where
  "GetIDPCertificateSecretName hnp =
     (if np_idp_certificate_secret_name hnp \<noteq> [] then np_idp_certificate_secret_name hnp
      else GetClusterName hnp @ ''-idp-certificate'')"

definition GetHumioServicePort :: "node_pool \<Rightarrow> int" where
  "GetHumioServicePort hnp =
     (if ns_humio_service_port (np_spec hnp) \<noteq> 0 then ns_humio_service_port (np_spec hnp) else HumioPort)"

definition GetHumioESServicePort :: "node_pool \<Rightarrow> int" where
  "GetHumioESServicePort hnp =
     (if ns_humio_es_service_port (np_spec hnp) \<noteq> 0 then ns_humio_es_service_port (np_spec hnp)
      else ElasticPort)"

definition GetServiceType :: "node_pool \<Rightarrow> string" where
  "GetServiceType hnp =
     (if ns_humio_service_type (np_spec hnp) \<noteq> [] then ns_humio_service_type (np_spec hnp)
      else ''ClusterIP'')"

definition GetServiceName :: "node_pool \<Rightarrow> string" where
  "GetServiceName hnp =
     (if np_node_pool_name hnp = [] then np_cluster_name hnp
      else np_cluster_name hnp @ ''-'' @ np_node_pool_name hnp)"

definition certificateSecretNameOrDefault :: "humio_cluster \<Rightarrow> string" where
  "certificateSecretNameOrDefault hc =
     (if ing_secret_name (hcs_ingress (hc_spec hc)) \<noteq> [] then ing_secret_name (hcs_ingress (hc_spec hc))
      else hc_name hc @ ''-certificate'')"

definition esCertificateSecretNameOrDefault :: "humio_cluster \<Rightarrow> string" where
  "esCertificateSecretNameOrDefault hc =
     (if ing_es_secret_name (hcs_ingress (hc_spec hc)) \<noteq> []
      then ing_es_secret_name (hcs_ingress (hc_spec hc)) else hc_name hc @ ''-es-certificate'')"

definition ingressTLSOrDefault :: "humio_cluster \<Rightarrow> bool" where
  "ingressTLSOrDefault hc = (case ing_tls (hcs_ingress (hc_spec hc)) of None \<Rightarrow> True | Some b \<Rightarrow> b)"

definition humioPathOrDefault :: "humio_cluster \<Rightarrow> string" where
  "humioPathOrDefault hc =
     (let path = hcs_path (hc_spec hc) in
      if path \<noteq> [] then if has_prefix path ''/'' then path else CHR ''/'' # path else ''/'')"

section \<open>The update strategy\<close>

text \<open>
  \<open>GetUpdateStrategy\<close> fills the missing members of the user's strategy in place: the pool is
  returned with the strategy as written back.
\<close>

definition GetUpdateStrategy :: "node_pool \<Rightarrow> update_strategy \<times> node_pool" where
  "GetUpdateStrategy hnp =
     (case ns_update_strategy (np_spec hnp) of
        Some u \<Rightarrow>
          let u = (if us_enable_zone_awareness u = None then u\<lparr>us_enable_zone_awareness := Some True\<rparr> else u);
              u = (if us_max_unavailable u = None then u\<lparr>us_max_unavailable := Some (IntVal 1)\<rparr> else u)
          in (u, hnp\<lparr>np_spec := (np_spec hnp)\<lparr>ns_update_strategy := Some u\<rparr>\<rparr>)
      | None \<Rightarrow>
          (\<lparr>us_type = ReplaceAllOnUpdate, us_min_ready_seconds = 0,
            us_enable_zone_awareness = Some True, us_max_unavailable = Some (IntVal 1)\<rparr>, hnp))"

abbreviation update_strategy_of :: "node_pool \<Rightarrow> update_strategy" where
  "update_strategy_of hnp \<equiv> fst (GetUpdateStrategy hnp)"

section \<open>Merging environment variables\<close>

definition env_view :: "env_var list \<Rightarrow> string \<rightharpoonup> env_var" where
  "env_view vs = map_of (map (\<lambda>e. (ev_name e, e)) vs)"

lemma env_view_simps [simp]:
  "env_view [] = Map.empty" "env_view (e # vs) = (env_view vs)(ev_name e \<mapsto> e)"
  "env_view (vs @ ws) = env_view ws ++ env_view vs"
  by (simp_all add: env_view_def)

lemma env_view_None: "env_view vs n = None \<longleftrightarrow> n \<notin> ev_name ` set vs"
  by (simp add: env_view_def map_of_eq_None_iff image_image)

lemma dom_env_view: "dom (env_view vs) = ev_name ` set vs"
  by (simp add: env_view_def dom_map_of_conv_image_fst image_image)

lemma merge_add_flag_iff:
  "merge_add_flag v vs add \<longleftrightarrow> ev_name v \<notin> ev_name ` set vs \<and> (vs = [] \<longrightarrow> add)"
  by (induction vs arbitrary: add) auto

definition merge_step :: "env_var list \<Rightarrow> env_var \<Rightarrow> env_var list" where
  "merge_step into v = (if merge_add_flag v into False then into @ [v] else into)"

lemma mergeEnvVars_foldl: "into \<noteq> [] \<Longrightarrow> mergeEnvVars from into = foldl merge_step into from"
  by (simp add: mergeEnvVars_def merge_step_def [abs_def])

lemma merge_foldl:
  assumes "into \<noteq> []"
  shows "env_view (foldl merge_step into from) = env_view from ++ env_view into
         \<and> (\<exists>added. foldl merge_step into from = into @ added)
         \<and> (distinct (map ev_name into) \<longrightarrow> distinct (map ev_name (foldl merge_step into from)))"
  using assms
proof (induction "from" arbitrary: into)
  case Nil
  then show ?case by simp
next
  case (Cons v vs)
  show ?case
  proof (cases "ev_name v \<in> ev_name ` set into")
    case True
    then have "merge_step into v = into" by (auto simp: merge_step_def merge_add_flag_iff)
    moreover have "env_view (v # vs) ++ env_view into = env_view vs ++ env_view into"
      using True by (auto simp: fun_eq_iff map_add_def dom_env_view [symmetric] split: option.split)
    ultimately show ?thesis using Cons.IH [OF Cons.prems] by (simp del: env_view_simps)
  next
    case False
    then have step: "merge_step into v = into @ [v]"
      using Cons.prems by (auto simp: merge_step_def merge_add_flag_iff)
    have "env_view into (ev_name v) = None" using False by (simp only: env_view_None not_False_eq_True)
    then have "env_view vs ++ env_view (into @ [v]) = env_view (v # vs) ++ env_view into"
      by (auto simp: fun_eq_iff map_add_def split: option.split)
    moreover have "distinct (map ev_name into) \<Longrightarrow> distinct (map ev_name (into @ [v]))"
      using False by auto
    moreover have "into @ [v] \<noteq> []" by simp
    ultimately show ?thesis
      using Cons.IH [of "into @ [v]"] step by (simp del: env_view_simps) (metis append_assoc)
  qed
qed

text \<open>
  Merging the common environment variables into those of a node: reading a name in the
  result gives the node's variable when it has one of that name and the common one otherwise; the
  node's own variables come first, in their order; and no name is introduced twice.
\<close>

lemma mergeEnvVars_precedence:
  "env_view (mergeEnvVars from into) = env_view from ++ env_view into
   \<and> take (length into) (mergeEnvVars from into) = into
   \<and> (distinct (map ev_name from) \<and> distinct (map ev_name into) \<longrightarrow>
        distinct (map ev_name (mergeEnvVars from into)))"
proof (cases "into = []")
  case True
  then show ?thesis by (simp add: mergeEnvVars_def)
next
  case False
  then show ?thesis
    using merge_foldl [OF False, of "from"] mergeEnvVars_foldl [OF False, of "from"] by auto
qed

lemma mergeEnvVars_precedence_witness:
  "let common = [env_value ''A'' ''1'', env_value ''B'' ''1'']; own = [env_value ''B'' ''2''] in
     env_view (mergeEnvVars common own) ''B'' = Some (env_value ''B'' ''2'') \<and>
     env_view (mergeEnvVars common own) ''A'' = Some (env_value ''A'' ''1'') \<and>
     distinct (map ev_name (mergeEnvVars common own))"
  using mergeEnvVars_precedence [of "[env_value ''A'' ''1'', env_value ''B'' ''1'']" "[env_value ''B'' ''2'']"]
  by (simp add: env_value_def)

section \<open>Duplicate environment variables\<close>

definition dup_step :: "(string \<rightharpoonup> nat) \<times> (string \<rightharpoonup> nat) \<Rightarrow> env_var \<Rightarrow> (string \<rightharpoonup> nat) \<times> (string \<rightharpoonup> nat)" where
  "dup_step = (\<lambda>(envVarCount, duplicates) e.
     let n = (case envVarCount (ev_name e) of None \<Rightarrow> 0 | Some c \<Rightarrow> c) + 1;
         envVarCount = envVarCount(ev_name e \<mapsto> n)
     in (envVarCount, if n > 1 then duplicates(ev_name e \<mapsto> n) else duplicates))"

definition counts_of :: "env_var list \<Rightarrow> string \<Rightarrow> nat" where
  "counts_of vs n = count_list (map ev_name vs) n"

lemma dup_foldl:
  "foldl dup_step (Map.empty, Map.empty) vs =
     (\<lambda>n. if counts_of vs n = 0 then None else Some (counts_of vs n),
      \<lambda>n. if counts_of vs n > 1 then Some (counts_of vs n) else None)"
proof (induction vs rule: rev_induct)
  case Nil
  show ?case by (simp add: counts_of_def fun_eq_iff)
next
  case (snoc e vs)
  have count: "counts_of (vs @ [e]) n = counts_of vs n + (if ev_name e = n then 1 else 0)" for n
    by (simp add: counts_of_def)
  show ?case
    unfolding foldl_append snoc
    by (auto simp: dup_step_def count fun_eq_iff)
qed

text \<open>
  \<open>findDuplicateEnvVars\<close> reports exactly the names that occur more than once, each with
  the number of its occurrences; the map is empty exactly when the names are distinct.
\<close>

lemma findDuplicateEnvVars_exact:
  "findDuplicateEnvVars vs n =
     (if count_list (map ev_name vs) n > 1 then Some (count_list (map ev_name vs) n) else None)
   \<and> (findDuplicateEnvVars vs = Map.empty) = distinct (map ev_name vs)"
proof -
  have eq: "findDuplicateEnvVars vs = (\<lambda>n. if counts_of vs n > 1 then Some (counts_of vs n) else None)"
    using dup_foldl [of vs] by (simp add: findDuplicateEnvVars_def dup_step_def [abs_def])
  have "(\<forall>n. \<not> count_list (map ev_name vs) n > 1) = distinct (map ev_name vs)"
    by (auto simp: distinct_count_list not_less)
  with eq show ?thesis by (auto simp: counts_of_def fun_eq_iff)
qed

section \<open>The environment and its tracker\<close>

text \<open>The variables the tracker holds for the LogScale container.\<close>

definition tracked_env :: "node_pool \<Rightarrow> env_var list" where
  "tracked_env hnp =
     (case find (\<lambda>c. c_name c = HumioContainerName) (ps_containers (np_tracker hnp)) of
        None \<Rightarrow> [] | Some c \<Rightarrow> c_env c)"

lemma find_merged:
  "c_name new = n \<Longrightarrow>
   find (\<lambda>c. c_name c = n) (merge_into_containers cs new) =
     (case find (\<lambda>c. c_name c = n) cs of None \<Rightarrow> Some new | Some c \<Rightarrow> Some (mergeContainers new c))"
  by (induction cs) (auto simp: mergeContainers_def mergeEnvironmentVariables_def)

lemma tracked_env_append:
  "tracked_env (AppendHumioContainerEnvVarToManagedFields d hnp) =
     (if ev_name d \<in> ev_name ` set (tracked_env hnp) then tracked_env hnp else tracked_env hnp @ [d])"
  by (auto simp: tracked_env_def AppendHumioContainerEnvVarToManagedFields_def MergeContainerIntoPod_def
      find_merged mergeContainers_def mergeEnvironmentVariables_def empty_container_def
      split: option.split)

text \<open>The environment built so far is the user's followed by what is tracked.\<close>

definition env_split :: "env_var list \<Rightarrow> env_var list \<times> node_pool \<Rightarrow> bool" where
  "env_split user st \<longleftrightarrow> fst st = user @ tracked_env (snd st)
     \<and> ev_name ` set (tracked_env (snd st)) \<inter> ev_name ` set user = {}
     \<and> distinct (map ev_name (tracked_env (snd st)))"

lemma append_default_split:
  "env_split user st \<Longrightarrow> env_split user (AppendEnvVarToEnvVarsIfNotAlreadyPresent d st)"
  by (cases st) (auto simp: env_split_def AppendEnvVarToEnvVarsIfNotAlreadyPresent_def
      tracked_env_append list_ex_iff)

lemma append_default_names:
  "ev_name ` set (fst (AppendEnvVarToEnvVarsIfNotAlreadyPresent d st)) =
     insert (ev_name d) (ev_name ` set (fst st))"
  by (cases st) (auto simp: AppendEnvVarToEnvVarsIfNotAlreadyPresent_def list_ex_iff image_iff, metis)

lemma append_defaults_split: "env_split user st \<Longrightarrow> env_split user (append_defaults ds st)"
  unfolding append_defaults_def by (induction ds arbitrary: st) (simp_all add: append_default_split)

lemma append_defaults_names:
  "ev_name ` set (fst (append_defaults ds st)) = ev_name ` set ds \<union> ev_name ` set (fst st)"
  unfolding append_defaults_def by (induction ds arbitrary: st) (auto simp: append_default_names)

lemma tracked_env_fresh [simp]: "np_tracker hnp = empty_pod_spec \<Longrightarrow> tracked_env hnp = []"
  by (simp add: tracked_env_def empty_pod_spec_def)

text \<open>
  Claim C15. The environment of the LogScale container of a freshly built pool is the user's
  variables, unchanged and first, followed by exactly the variables the tracker then holds as
  managed by the operator; these carry names the user did not set, each once; and every default,
  \<open>PUBLIC_URL\<close> included, is present under its name.
\<close>

theorem environment_is_user_then_tracked:
  assumes "np_tracker hnp = empty_pod_spec" and "GetEnvironmentVariables L hnp = (envVars, hnp')"
  shows "envVars = ns_environment_variables (np_spec hnp) @ tracked_env hnp'
         \<and> ev_name ` set (tracked_env hnp') \<inter> ev_name ` set (ns_environment_variables (np_spec hnp)) = {}
         \<and> distinct (map ev_name (tracked_env hnp'))
         \<and> insert ''PUBLIC_URL'' (ev_name ` set (env_defaults L hnp)) \<subseteq> ev_name ` set envVars"
proof -
  let ?user = "ns_environment_variables (np_spec hnp)"
  let ?st = "append_defaults (env_defaults L hnp) (?user, hnp)"
  have init: "env_split ?user (?user, hnp)" using assms(1) by (simp add: env_split_def)
  have public: "ev_name (public_url L hnp) = ''PUBLIC_URL''"
    by (simp add: public_url_def env_value_def Let_def)
  have has: "EnvVarHasKey vs n \<longleftrightarrow> n \<in> ev_name ` set vs" for vs n
    by (auto simp: EnvVarHasKey_def list_ex_iff)
  have result: "(envVars, hnp') = GetEnvironmentVariables L hnp" using assms(2) by simp
  have "env_split ?user (envVars, hnp')"
    unfolding result GetEnvironmentVariables_def Let_def
    by (auto intro!: append_default_split append_defaults_split init)
  moreover have "insert ''PUBLIC_URL'' (ev_name ` set (env_defaults L hnp)) \<subseteq> ev_name ` set envVars"
    using arg_cong [OF result, of fst] append_defaults_names [of "env_defaults L hnp" "(?user, hnp)"]
    by (auto simp: GetEnvironmentVariables_def Let_def append_default_names public has)
  ultimately show ?thesis by (simp add: env_split_def)
qed

lemma environment_is_user_then_tracked_witness:
  "let user = [env_value ''HUMIO_OPTS'' ''-X''];
       hnp = empty_pool\<lparr>np_spec := empty_node_spec\<lparr>ns_environment_variables := user\<rparr>\<rparr>;
       (envVars, hnp') = GetEnvironmentVariables plain_lib hnp
   in hd envVars = env_value ''HUMIO_OPTS'' ''-X'' \<and> ''HUMIO_OPTS'' \<notin> ev_name ` set (tracked_env hnp')
      \<and> ''PUBLIC_URL'' \<in> ev_name ` set envVars"
proof -
  let ?user = "[env_value ''HUMIO_OPTS'' ''-X'']"
  let ?hnp = "empty_pool\<lparr>np_spec := empty_node_spec\<lparr>ns_environment_variables := ?user\<rparr>\<rparr>"
  obtain envVars hnp' where run: "GetEnvironmentVariables plain_lib ?hnp = (envVars, hnp')"
    by fastforce
  have "np_tracker ?hnp = empty_pod_spec" by (simp add: empty_pool_def)
  from environment_is_user_then_tracked [OF this run] run show ?thesis
    by (auto simp: Let_def env_value_def)
qed

section \<open>Update strategy and volume policy\<close>

text \<open>
  \<open>GetUpdateStrategy\<close> always gives a strategy with a zone awareness and a
  \<open>maxUnavailable\<close>: what the user set is kept, the defaults are \<open>true\<close> and \<open>1\<close>, without a
  strategy the type is \<open>ReplaceAllOnUpdate\<close>. Its write-back to the pool does not change what it
  returns the next time, nor any other field of the pool.
\<close>

lemma update_strategy_defaults:
  "(let u = update_strategy_of hnp in
      us_enable_zone_awareness u =
        Some (case ns_update_strategy (np_spec hnp) of
                Some v \<Rightarrow> (case us_enable_zone_awareness v of Some b \<Rightarrow> b | None \<Rightarrow> True) | None \<Rightarrow> True)
      \<and> us_max_unavailable u =
        Some (case ns_update_strategy (np_spec hnp) of
                Some v \<Rightarrow> (case us_max_unavailable v of Some m \<Rightarrow> m | None \<Rightarrow> IntVal 1) | None \<Rightarrow> IntVal 1)
      \<and> us_type u =
        (case ns_update_strategy (np_spec hnp) of Some v \<Rightarrow> us_type v | None \<Rightarrow> ReplaceAllOnUpdate)
      \<and> us_min_ready_seconds u =
        (case ns_update_strategy (np_spec hnp) of Some v \<Rightarrow> us_min_ready_seconds v | None \<Rightarrow> 0))
   \<and> GetUpdateStrategy (snd (GetUpdateStrategy hnp)) = GetUpdateStrategy hnp
   \<and> snd (GetUpdateStrategy hnp) =
       hnp\<lparr>np_spec := (np_spec hnp)\<lparr>ns_update_strategy :=
             ns_update_strategy (np_spec (snd (GetUpdateStrategy hnp)))\<rparr>\<rparr>"
  by (auto simp: GetUpdateStrategy_def Let_def split: option.split)

text \<open>
  The operator's right to delete orphaned claims can be configured for the cluster's own
  node pool only: for an additional pool of \<open>spec.nodePools\<close> \<open>OkToDeletePvc\<close> is false whatever the
  reclaim type of that pool says.
\<close>

lemma additional_pools_never_delete_pvcs:
  "\<not> OkToDeletePvc (NewHumioNodeManagerFromHumioNodePool hc hnp)
   \<and> OkToDeletePvc (NewHumioNodeManagerFromHumioCluster hc) =
       (ns_pvc_spec_template (hcs_node (hc_spec hc)) \<noteq> KObj []
        \<and> ns_pvc_reclaim_type (hcs_node (hc_spec hc)) = OnNodeDelete)"
  by (auto simp: OkToDeletePvc_def GetDataVolumePersistentVolumeClaimPolicy_def PVCsEnabled_def
      NewHumioNodeManagerFromHumioNodePool_def NewHumioNodeManagerFromHumioCluster_def pool_from_def
      Let_def OnNodeDelete_def)

section \<open>What the accessors read\<close>

lemma pool_from_reads [pool_simps]:
  "GetClusterName (pool_from hc n p sp) = hc_name hc"
  "GetNamespace (pool_from hc n p sp) = hc_namespace hc"
  "np_node_pool_name (pool_from hc n p sp) = n"
  "np_spec (pool_from hc n p sp) = sp"
  "np_tracker (pool_from hc n p sp) = empty_pod_spec"
  "GetNodeCount (pool_from hc n p sp) = ns_node_count sp"
  by (simp_all add: pool_from_def GetClusterName_def GetNamespace_def GetNodeCount_def Let_def)

lemma tracker_update_reads [pool_simps]:
  "GetNodePoolName (hnp\<lparr>np_tracker := t\<rparr>) = GetNodePoolName hnp"
  "GetNodeCount (hnp\<lparr>np_tracker := t\<rparr>) = GetNodeCount hnp"
  "GetNodePoolLabels (hnp\<lparr>np_tracker := t\<rparr>) = GetNodePoolLabels hnp"
  "PVCsEnabled (hnp\<lparr>np_tracker := t\<rparr>) = PVCsEnabled hnp"
  "update_strategy_of (hnp\<lparr>np_tracker := t\<rparr>) = update_strategy_of hnp"
  by (auto simp: GetNodePoolName_def GetClusterName_def GetNodeCount_def GetNodePoolLabels_def
      GetCommonClusterLabels_def PVCsEnabled_def GetUpdateStrategy_def Let_def split: option.split)

lemma node_pool_names:
  "GetNodePoolName (NewHumioNodeManagerFromHumioCluster hc) = hc_name hc"
  "nps_name hnp \<noteq> [] \<Longrightarrow>
   GetNodePoolName (NewHumioNodeManagerFromHumioNodePool hc hnp) = hc_name hc @ CHR ''-'' # nps_name hnp"
  by (simp_all add: GetNodePoolName_def NewHumioNodeManagerFromHumioCluster_def
      NewHumioNodeManagerFromHumioNodePool_def pool_simps pool_from_def GetClusterName_def Let_def)

text \<open>Distinct pool names in the specification give distinct managers, so distinct labels.\<close>

lemma node_pool_managers_distinct:
  assumes "distinct (map nps_name (hcs_node_pools (hc_spec hc)))"
    and "[] \<notin> nps_name ` set (hcs_node_pools (hc_spec hc))"
  shows "distinct (map GetNodePoolName (getHumioNodePoolManagers hc))"
proof -
  let ?ps = "hcs_node_pools (hc_spec hc)"
  have name: "GetNodePoolName (NewHumioNodeManagerFromHumioNodePool hc p) = hc_name hc @ CHR ''-'' # nps_name p"
    if "p \<in> set ?ps" for p
  proof (rule node_pool_names(2))
    show "nps_name p \<noteq> []" using assms(2) that by (metis imageI)
  qed
  then have eq: "map (GetNodePoolName \<circ> NewHumioNodeManagerFromHumioNodePool hc) ?ps =
             map (\<lambda>p. hc_name hc @ CHR ''-'' # nps_name p) ?ps"
    by simp
  have "distinct (map (\<lambda>p. hc_name hc @ CHR ''-'' # nps_name p) ?ps)"
    using assms(1) by (auto simp: distinct_map inj_on_def)
  moreover have "hc_name hc \<notin> (\<lambda>p. hc_name hc @ CHR ''-'' # nps_name p) ` set ?ps"
    by auto
  ultimately show ?thesis
    unfolding getHumioNodePoolManagers_def list.map map_map eq by (simp add: node_pool_names(1))
qed

end
