(* ===== verification/Cluster_Objects.thy ===== *)
theory Cluster_Objects
  imports Node_Pool
begin

text \<open>
  The Kubernetes objects the operator wants to exist beside the pods: the constructors of
  internal/controller/humiocluster_services.go, humiocluster_ingresses.go and humiocluster_tls.go, and
  of configmaps.go, secrets.go, service_accounts.go, cluster_roles.go and cluster_role_bindings.go in
  internal/kubernetes, with the comparisons that decide on an update.
\<close>

section \<open>Comparing maps\<close>

text \<open>
  \<open>MapToSortedString\<close>: the pairs of the map as strings, sorted in descending order. The order in which
  Go visits the map does not matter, since equal strings are the same.
\<close>

definition MapToSortedString :: "smap \<Rightarrow> string" where
  "MapToSortedString m =
     (if dom m = {} then [CHR 0x22, CHR 0x22, CHR '':'', CHR 0x22, CHR 0x22]
      else join_with '','' (stable_sort_desc id
             (map (\<lambda>k. k @ ''='' @ map_get m k) (sorted_list_of_set (dom m)))))"

section \<open>Accessors\<close>

definition GetHumioServiceLabels :: "node_pool \<Rightarrow> smap" where
  "GetHumioServiceLabels hnp = ns_humio_service_labels (np_spec hnp)"

definition GetHumioServiceAnnotations :: "node_pool \<Rightarrow> smap" where
  "GetHumioServiceAnnotations hnp = ns_humio_service_annotations (np_spec hnp)"

definition GetHumioServiceAccountAnnotations :: "node_pool \<Rightarrow> smap" where
  "GetHumioServiceAccountAnnotations hnp = ns_humio_service_account_annotations (np_spec hnp)"

definition GetTLSSpec :: "node_pool \<Rightarrow> tls_spec option" where
  "GetTLSSpec hnp = np_tls hnp"

definition GetViewGroupPermissions :: "node_pool \<Rightarrow> string" where
  "GetViewGroupPermissions hnp = np_view_group_permissions hnp"

definition GetRolePermissions :: "node_pool \<Rightarrow> string" where
  "GetRolePermissions hnp = np_role_permissions hnp"

text \<open>\<open>helpers.TLSEnabled\<close>, of the cluster.\<close>

definition ClusterTLSEnabled :: "lib \<Rightarrow> humio_cluster \<Rightarrow> bool" where
  "ClusterTLSEnabled L hc =
     (case hcs_tls (hc_spec hc) of
        None \<Rightarrow> use_cert_manager L
      | Some t \<Rightarrow> (case tls_enabled_flag t of
                    None \<Rightarrow> use_cert_manager L
                  | Some b \<Rightarrow> use_cert_manager L \<and> b))"

section \<open>Services\<close>

definition mergeHumioServiceLabels :: "string \<Rightarrow> smap \<Rightarrow> smap" where
  "mergeHumioServiceLabels clusterName serviceLabels = serviceLabels ++ LabelsForHumio clusterName"

definition internalServiceName :: "string \<Rightarrow> string" where
  "internalServiceName clusterName = clusterName @ ''-internal''"

definition HumioPortName :: string where "HumioPortName = ''http''"
definition ElasticPortName :: string where "ElasticPortName = ''es''"

definition service_port :: "string \<Rightarrow> int \<Rightarrow> int option \<Rightarrow> kvalue" where
  "service_port name port target =
     KObj ([(''name'', KStr name), (''port'', KInt port)]
           @ (case target of None \<Rightarrow> [] | Some t \<Rightarrow> [(''targetPort'', KInt t)]))"

definition ConstructService :: "node_pool \<Rightarrow> k8s_object" where
  "ConstructService hnp = zero_object\<lparr>
     ko_name := GetNodePoolName hnp, ko_namespace := GetNamespace hnp,
     ko_labels := mergeHumioServiceLabels (GetClusterName hnp) (GetHumioServiceLabels hnp),
     ko_annotations := GetHumioServiceAnnotations hnp,
     ko_type := GetServiceType hnp, ko_selector := GetNodePoolLabels hnp,
     ko_spec := KObj [(''ports'', KList
       [service_port HumioPortName (GetHumioServicePort hnp) (Some HumioPort),
        service_port ElasticPortName (GetHumioESServicePort hnp) (Some ElasticPort)])]\<rparr>"

definition constructHeadlessService :: "humio_cluster \<Rightarrow> k8s_object" where
  "constructHeadlessService hc = zero_object\<lparr>
     ko_name := headlessServiceName (hc_name hc), ko_namespace := hc_namespace hc,
     ko_labels := mergeHumioServiceLabels (hc_name hc) (hcs_headless_service_labels (hc_spec hc)),
     ko_annotations := hcs_headless_service_annotations (hc_spec hc),
     ko_type := ''ClusterIP'', ko_selector := LabelsForHumio (hc_name hc),
     ko_publish_not_ready := True,
     ko_spec := KObj [(''clusterIP'', KStr ''None''),
       (''ports'', KList [service_port HumioPortName HumioPort None, service_port ElasticPortName ElasticPort None])]\<rparr>"

definition constructInternalService :: "humio_cluster \<Rightarrow> k8s_object" where
  "constructInternalService hc = zero_object\<lparr>
     ko_name := internalServiceName (hc_name hc), ko_namespace := hc_namespace hc,
     ko_labels := LabelsForHumio (hc_name hc), ko_type := ''ClusterIP'',
     ko_selector := mergeHumioServiceLabels (hc_name hc) [FeatureLabelName \<mapsto> NodePoolFeatureAllowedAPIRequestType],
     ko_spec := KObj [
       (''ports'', KList [service_port HumioPortName HumioPort None, service_port ElasticPortName ElasticPort None])]\<rparr>"

text \<open>The error \<open>servicesMatch\<close> returns with \<open>false\<close> is only logged.\<close>

definition servicesMatch :: "k8s_object \<Rightarrow> k8s_object \<Rightarrow> bool" where
  "servicesMatch existingService service \<longleftrightarrow>
     (if MapToSortedString (ko_labels existingService) \<noteq> MapToSortedString (ko_labels service) then False
      else if MapToSortedString (ko_annotations existingService) \<noteq> MapToSortedString (ko_annotations service)
      then False
      else if ko_publish_not_ready existingService \<noteq> ko_publish_not_ready service then False
      else if MapToSortedString (ko_selector existingService) \<noteq> MapToSortedString (ko_selector service) then False
      else True)"

definition updateService :: "k8s_object \<Rightarrow> k8s_object \<Rightarrow> k8s_object" where
  "updateService existingService service = existingService\<lparr>
     ko_annotations := ko_annotations service, ko_labels := ko_labels service,
     ko_selector := ko_selector service, ko_publish_not_ready := ko_publish_not_ready service\<rparr>"

section \<open>Ingresses\<close>

definition nginx :: "string \<Rightarrow> string" where
  "nginx n = ''nginx.ingress.kubernetes.io/'' @ n"

definition security_headers :: string where
  \<open>security_headers =
     CHR 0x0A # ''more_set_headers "Expect-CT: max-age=604800, enforce";''
     @ CHR 0x0A # ''more_set_headers "Referrer-Policy: no-referrer";''
     @ CHR 0x0A # ''more_set_headers "X-Content-Type-Options: nosniff";''
     @ CHR 0x0A # ''more_set_headers "X-Frame-Options: DENY";''
     @ CHR 0x0A # ''more_set_headers "X-XSS-Protection: 1; mode=block";''\<close>

definition constructNginxIngressAnnotations :: "lib \<Rightarrow> humio_cluster \<Rightarrow> string \<Rightarrow> smap \<Rightarrow> smap" where
  "constructNginxIngressAnnotations L hc hostname ingressSpecificAnnotations =
     [nginx ''configuration-snippet'' \<mapsto> security_headers,
      nginx ''cors-allow-credentials'' \<mapsto> ''false'',
      nginx ''cors-allow-headers'' \<mapsto> ''DNT,X-CustomHeader,Keep-Alive,User-Agent,X-Requested-With,If-Modified-Since,Cache-Control,Content-Type,Authorization'',
      nginx ''cors-allow-methods'' \<mapsto> ''GET, PUT, POST, DELETE, PATCH, OPTIONS'',
      nginx ''cors-allow-origin'' \<mapsto> ''https://'' @ hostname,
      nginx ''enable-cors'' \<mapsto> true_str,
      nginx ''upstream-vhost'' \<mapsto> hostname]
     ++ (if ingressTLSOrDefault hc then [nginx ''force-ssl-redirect'' \<mapsto> true_str] else Map.empty)
     ++ (if ClusterTLSEnabled L hc
         then [nginx ''backend-protocol'' \<mapsto> ''HTTPS'',
               nginx ''proxy-ssl-name'' \<mapsto> hc_name hc @ ''.'' @ hc_namespace hc,
               nginx ''proxy-ssl-server-name'' \<mapsto> hc_name hc @ ''.'' @ hc_namespace hc,
               nginx ''proxy-ssl-secret'' \<mapsto> hc_namespace hc @ ''/'' @ hc_name hc,
               nginx ''proxy-ssl-verify'' \<mapsto> ''on'']
         else Map.empty)
     ++ ingressSpecificAnnotations"

definition PathTypeImplementationSpecific :: string where
  "PathTypeImplementationSpecific = ''ImplementationSpecific''"

definition constructIngress ::
  "humio_cluster \<Rightarrow> string \<Rightarrow> string \<Rightarrow> string list \<Rightarrow> int \<Rightarrow> string \<Rightarrow> smap \<Rightarrow> k8s_object" where
  "constructIngress hc name hostname paths port secretName annotations = zero_object\<lparr>
     ko_name := name, ko_namespace := hc_namespace hc,
     ko_annotations := annotations ++ ing_annotations (hcs_ingress (hc_spec hc)),
     ko_labels := LabelsForHumio (hc_name hc),
     ko_rules := [\<lparr>ir_host = hostname, ir_http = Some (map (\<lambda>path.
       \<lparr>ip_path = path, ip_path_type = Some PathTypeImplementationSpecific,
        ip_service = ko_name (ConstructService (NewHumioNodeManagerFromHumioCluster hc)), ip_port = port\<rparr>) paths)\<rparr>],
     ko_tls := (if ingressTLSOrDefault hc then [([hostname], secretName)] else [])\<rparr>"

definition proxy_annotations :: "string \<Rightarrow> smap" where
  "proxy_annotations timeout =
     [nginx ''proxy-body-size'' \<mapsto> ''512m'', nginx ''proxy-http-version'' \<mapsto> ''1.1'',
      nginx ''proxy-read-timeout'' \<mapsto> timeout]"

definition ConstructGeneralIngress :: "lib \<Rightarrow> humio_cluster \<Rightarrow> string \<Rightarrow> k8s_object" where
  "ConstructGeneralIngress L hc hostname =
     constructIngress hc (hc_name hc @ ''-general'') hostname [humioPathOrDefault hc] HumioPort
       (certificateSecretNameOrDefault hc)
       (constructNginxIngressAnnotations L hc hostname (proxy_annotations ''25''))"

definition ConstructStreamingQueryIngress :: "lib \<Rightarrow> humio_cluster \<Rightarrow> string \<Rightarrow> k8s_object" where
  "ConstructStreamingQueryIngress L hc hostname =
     constructIngress hc (hc_name hc @ ''-streaming-query'') hostname
       [humioPathOrDefault hc @ ''api/v./(dataspaces|repositories)/[^/]+/query$''] HumioPort
       (certificateSecretNameOrDefault hc)
       (constructNginxIngressAnnotations L hc hostname
          ((proxy_annotations ''4h'')(nginx ''use-regex'' \<mapsto> true_str, nginx ''proxy-buffering'' \<mapsto> ''off'')))"

definition ConstructIngestIngress :: "lib \<Rightarrow> humio_cluster \<Rightarrow> string \<Rightarrow> k8s_object" where
  "ConstructIngestIngress L hc hostname =
     constructIngress hc (hc_name hc @ ''-ingest'') hostname
       [humioPathOrDefault hc @ ''api/v./(dataspaces|repositories)/[^/]+/(ingest|logplex)'',
        humioPathOrDefault hc @ ''api/v1/ingest'',
        humioPathOrDefault hc @ ''services/collector'',
        humioPathOrDefault hc @ ''_bulk''] HumioPort
       (certificateSecretNameOrDefault hc)
       (constructNginxIngressAnnotations L hc hostname ((proxy_annotations ''90'')(nginx ''use-regex'' \<mapsto> true_str)))"

definition ConstructESIngestIngress :: "lib \<Rightarrow> humio_cluster \<Rightarrow> string \<Rightarrow> k8s_object" where
  "ConstructESIngestIngress L hc esHostname =
     constructIngress hc (hc_name hc @ ''-es-ingest'') esHostname [humioPathOrDefault hc] ElasticPort
       (esCertificateSecretNameOrDefault hc)
       (constructNginxIngressAnnotations L hc esHostname (proxy_annotations ''90''))"

text \<open>
  \<open>ingressesMatch\<close> fills the missing path types of the existing ingress in place, so the filled ingress
  is returned with the verdict. A rule without \<open>HTTP\<close> is a nil dereference.
\<close>

definition fill_path_type :: "ingress_path \<Rightarrow> ingress_path" where
  "fill_path_type p =
     (if ip_path_type p = None then p\<lparr>ip_path_type := Some PathTypeImplementationSpecific\<rparr> else p)"

fun fill_rules :: "ingress_rule list \<Rightarrow> go_error + ingress_rule list" where
  "fill_rules [] = Inr []"
| "fill_rules (r # rs) =
     (case ir_http r of
        None \<Rightarrow> Inl (Panic ''nil pointer dereference'')
      | Some paths \<Rightarrow>
          (case fill_rules rs of
             Inl e \<Rightarrow> Inl e
           | Inr rs' \<Rightarrow> Inr (r\<lparr>ir_http := Some (map fill_path_type paths)\<rparr> # rs')))"

definition same_ingress_spec :: "k8s_object \<Rightarrow> k8s_object \<Rightarrow> bool" where
  "same_ingress_spec a b \<longleftrightarrow> ko_rules a = ko_rules b \<and> ko_tls a = ko_tls b \<and> ko_spec a = ko_spec b"

definition ingressesMatch :: "k8s_object \<Rightarrow> k8s_object \<Rightarrow> go_error + bool \<times> k8s_object" where
  "ingressesMatch ingress desiredIngress =
     (case fill_rules (ko_rules ingress) of
        Inl e \<Rightarrow> Inl e
      | Inr rules \<Rightarrow>
          let ingress = ingress\<lparr>ko_rules := rules\<rparr> in
          Inr (if \<not> same_ingress_spec ingress desiredIngress then False
               else if MapToSortedString (ko_annotations ingress) \<noteq> MapToSortedString (ko_annotations desiredIngress)
               then False
               else True, ingress))"

section \<open>Certificates and issuers\<close>

definition getCASecretName :: "humio_cluster \<Rightarrow> string" where
  "getCASecretName hc =
     (case hcs_tls (hc_spec hc) of
        Some t \<Rightarrow> if tls_ca_secret_name t \<noteq> [] then tls_ca_secret_name t else hc_name hc @ ''-ca-keypair''
      | None \<Rightarrow> hc_name hc @ ''-ca-keypair'')"

definition useExistingCA :: "humio_cluster \<Rightarrow> bool" where
  "useExistingCA hc \<longleftrightarrow>
     (case hcs_tls (hc_spec hc) of Some t \<Rightarrow> tls_ca_secret_name t \<noteq> [] | None \<Rightarrow> False)"

definition constructCAIssuer :: "humio_cluster \<Rightarrow> k8s_object" where
  "constructCAIssuer hc = zero_object\<lparr>
     ko_name := hc_name hc, ko_namespace := hc_namespace hc, ko_labels := LabelsForHumio (hc_name hc),
     ko_spec := KObj [(''ca'', KObj [(''secretName'', KStr (getCASecretName hc))])]\<rparr>"

definition extra_hostnames :: "tls_spec option \<Rightarrow> string list" where
  "extra_hostnames t = (case t of None \<Rightarrow> [] | Some t \<Rightarrow> tls_extra_hostnames t)"

definition constructClusterCACertificateBundle :: "humio_cluster \<Rightarrow> k8s_object" where
  "constructClusterCACertificateBundle hc = zero_object\<lparr>
     ko_name := hc_name hc, ko_namespace := hc_namespace hc, ko_labels := LabelsForHumio (hc_name hc),
     ko_dns_names := [hc_name hc @ ''.'' @ hc_namespace hc, hc_name hc @ ''-headless.'' @ hc_namespace hc,
                      hc_name hc @ ''-internal.'' @ hc_namespace hc] @ extra_hostnames (hcs_tls (hc_spec hc)),
     ko_spec := KObj [(''issuerRef'', KObj [(''name'', KStr (ko_name (constructCAIssuer hc)))]),
                      (''secretName'', KStr (hc_name hc))]\<rparr>"

definition ConstructNodeCertificate :: "node_pool \<Rightarrow> string \<Rightarrow> k8s_object" where
  "ConstructNodeCertificate hnp nodeSuffix =
     (let core = GetNodePoolName hnp @ ''-core-'' @ nodeSuffix in zero_object\<lparr>
     ko_name := core, ko_namespace := GetNamespace hnp, ko_labels := GetNodePoolLabels hnp,
     ko_dns_names := [core @ ''.'' @ headlessServiceName (GetClusterName hnp) @ ''.'' @ GetNamespace hnp,
        core,
        GetNodePoolName hnp @ ''.'' @ GetNamespace hnp,
        GetClusterName hnp @ ''-headless.'' @ GetNamespace hnp,
        GetClusterName hnp @ ''-internal.'' @ GetNamespace hnp] @ extra_hostnames (GetTLSSpec hnp),
     ko_keystores := Some (Some (KObj [(''create'', KBool True),
        (''passwordSecretRef'', KObj [(''name'', KStr (GetClusterName hnp @ ''-keystore-passphrase'')),
                                      (''key'', KStr ''passphrase'')])])),
     ko_spec := KObj [(''issuerRef'', KObj [(''name'', KStr (GetClusterName hnp))]),
                      (''secretName'', KStr core)]\<rparr>)"

definition GetDesiredCertHash :: "lib \<Rightarrow> node_pool \<Rightarrow> string" where
  "GetDesiredCertHash L hnp =
     x_sha256 L (x_json_of_object L ((ConstructNodeCertificate hnp [])\<lparr>ko_keystores := None\<rparr>))"

section \<open>Config maps and secrets\<close>

definition ExtraKafkaPropertiesFilename :: string where
  "ExtraKafkaPropertiesFilename = ''extra-kafka-properties.properties''"

definition ViewGroupPermissionsFilename :: string where
  "ViewGroupPermissionsFilename = ''view-group-permissions.json''"

definition RolePermissionsFilename :: string where
  "RolePermissionsFilename = ''role-permissions.json''"

definition config_map :: "string \<Rightarrow> string \<Rightarrow> string \<Rightarrow> string \<Rightarrow> string \<Rightarrow> k8s_object" where
  "config_map name filename contents clusterName namespace = zero_object\<lparr>
     ko_name := name, ko_namespace := namespace, ko_labels := LabelsForHumio clusterName,
     ko_data := [filename \<mapsto> contents]\<rparr>"

definition ConstructExtraKafkaConfigsConfigMap :: "string \<Rightarrow> string \<Rightarrow> string \<Rightarrow> string \<Rightarrow> string \<Rightarrow> k8s_object" where
  "ConstructExtraKafkaConfigsConfigMap = config_map"

definition ConstructViewGroupPermissionsConfigMap :: "string \<Rightarrow> string \<Rightarrow> string \<Rightarrow> string \<Rightarrow> string \<Rightarrow> k8s_object" where
  "ConstructViewGroupPermissionsConfigMap = config_map"

definition ConstructRolePermissionsConfigMap :: "string \<Rightarrow> string \<Rightarrow> string \<Rightarrow> string \<Rightarrow> string \<Rightarrow> k8s_object" where
  "ConstructRolePermissionsConfigMap = config_map"

definition SecretNameLabelName :: string where "SecretNameLabelName = ''humio.com/secret-identifier''"

definition LabelsForSecret :: "string \<Rightarrow> string \<Rightarrow> smap \<Rightarrow> smap" where
  "LabelsForSecret clusterName secretName additionalSecretLabels =
     additionalSecretLabels ++ (LabelsForHumio clusterName)(SecretNameLabelName \<mapsto> secretName)"

definition ConstructSecret ::
  "string \<Rightarrow> string \<Rightarrow> string \<Rightarrow> smap \<Rightarrow> smap \<Rightarrow> smap \<Rightarrow> k8s_object" where
  "ConstructSecret clusterName namespace secretName data additionalLabels additionalAnnotations = zero_object\<lparr>
     ko_name := secretName, ko_namespace := namespace,
     ko_labels := LabelsForSecret clusterName secretName additionalLabels,
     ko_annotations := additionalAnnotations, ko_data := data\<rparr>"

text \<open>The last argument is the random string that ends the name.\<close>

definition ConstructServiceAccountSecret ::
  "string \<Rightarrow> string \<Rightarrow> string \<Rightarrow> string \<Rightarrow> string \<Rightarrow> k8s_object" where
  "ConstructServiceAccountSecret clusterName namespace secretName serviceAccountName random = zero_object\<lparr>
     ko_name := secretName @ ''-'' @ random, ko_namespace := namespace,
     ko_labels := LabelsForSecret clusterName secretName Map.empty,
     ko_annotations := [''kubernetes.io/service-account.name'' \<mapsto> serviceAccountName],
     ko_type := ''kubernetes.io/service-account-token''\<rparr>"

section \<open>Service accounts and roles\<close>

definition ConstructServiceAccount :: "string \<Rightarrow> string \<Rightarrow> smap \<Rightarrow> smap \<Rightarrow> k8s_object" where
  "ConstructServiceAccount name namespace annotations labels = zero_object\<lparr>
     ko_name := name, ko_namespace := namespace, ko_labels := labels, ko_annotations := annotations\<rparr>"

definition ConstructInitClusterRole :: "string \<Rightarrow> smap \<Rightarrow> k8s_object" where
  "ConstructInitClusterRole clusterRoleName labels = zero_object\<lparr>
     ko_name := clusterRoleName, ko_labels := labels,
     ko_spec := KObj [(''rules'', KList [KObj
       [(''apiGroups'', KList [KStr []]), (''resources'', KList [KStr ''nodes'']),
        (''verbs'', KList [KStr ''get'', KStr ''list'', KStr ''watch''])]])]\<rparr>"

definition ConstructClusterRoleBinding ::
  "string \<Rightarrow> string \<Rightarrow> string \<Rightarrow> string \<Rightarrow> smap \<Rightarrow> k8s_object" where
  "ConstructClusterRoleBinding name clusterRoleName namespace serviceAccountName labels = zero_object\<lparr>
     ko_name := name, ko_labels := labels,
     ko_spec := KObj
       [(''roleRef'', KObj [(''kind'', KStr ''ClusterRole''), (''apiGroup'', KStr ''rbac.authorization.k8s.io''),
                            (''name'', KStr clusterRoleName)]),
        (''subjects'', KList [KObj [(''kind'', KStr ''ServiceAccount''), (''name'', KStr serviceAccountName),
                                    (''namespace'', KStr namespace)]])]\<rparr>"

section \<open>When the comparison of maps is exact\<close>

text \<open>
  A map is \<open>plain_map\<close> when no key holds \<open>=\<close> or \<open>,\<close> and no value holds \<open>,\<close>: then its string can be taken
  apart again.
\<close>

definition plain_map :: "smap \<Rightarrow> bool" where
  "plain_map m \<longleftrightarrow> finite (dom m) \<and>
     (\<forall>k v. m k = Some v \<longrightarrow> CHR ''='' \<notin> set k \<and> CHR '','' \<notin> set k \<and> CHR '','' \<notin> set v)"

lemma split_on_absent: "c \<notin> set s \<Longrightarrow> split_on c s = [s]"
  by (induction s) auto

lemma split_join:
  assumes "xs \<noteq> []" and "\<forall>x\<in>set xs. c \<notin> set x"
  shows "split_on c (join_with [c] xs) = xs"
  using assms
proof (induction xs rule: list_nonempty_induct)
  case (cons x xs)
  then show ?case by (cases xs) (simp_all add: split_on_append_sep)
qed (simp add: split_on_absent)

definition entries :: "smap \<Rightarrow> string list" where
  "entries m = stable_sort_desc id (map (\<lambda>k. k @ ''='' @ map_get m k) (sorted_list_of_set (dom m)))"

lemma set_entries: "finite (dom m) \<Longrightarrow> set (entries m) = (\<lambda>k. k @ ''='' @ map_get m k) ` dom m"
  by (simp add: entries_def)

lemma split_entries:
  assumes "plain_map m" and "dom m \<noteq> {}"
  shows "split_on (CHR '','') (MapToSortedString m) = entries m"
proof -
  have fin: "finite (dom m)" using assms(1) by (simp add: plain_map_def)
  have "set (entries m) \<noteq> {}" using assms(2) by (simp add: set_entries [OF fin])
  then have "entries m \<noteq> []" by auto
  moreover have "\<forall>x\<in>set (entries m). CHR '','' \<notin> set x"
    using assms(1) by (auto simp: set_entries [OF fin] plain_map_def map_get_def)
  ultimately show ?thesis
    using split_join [of "entries m" "CHR '',''"] assms(2) by (simp add: MapToSortedString_def entries_def)
qed

lemma entry_of_map:
  assumes "plain_map m"
  shows "m k = Some v \<longleftrightarrow> CHR ''='' \<notin> set k \<and> k @ ''='' @ v \<in> set (entries m)"
proof -
  have "\<forall>k'\<in>dom m. CHR ''='' \<notin> set k'" using assms by (auto simp: plain_map_def)
  then have same: "k' = k \<and> map_get m k' = v"
    if "CHR ''='' \<notin> set k" "k' \<in> dom m" "k @ ''='' @ v = k' @ ''='' @ map_get m k'" for k'
    using that split_n2_append_sep [of "CHR ''=''" k v] split_n2_append_sep [of "CHR ''=''" k' "map_get m k'"]
    by simp
  have fin: "finite (dom m)" using assms by (simp add: plain_map_def)
  show ?thesis
  proof
    assume k: "m k = Some v"
    then have "k @ ''='' @ v = k @ ''='' @ map_get m k" by (simp add: map_get_def)
    with k assms show "CHR ''='' \<notin> set k \<and> k @ ''='' @ v \<in> set (entries m)"
      by (auto simp: set_entries [OF fin] plain_map_def)
  next
    assume "CHR ''='' \<notin> set k \<and> k @ ''='' @ v \<in> set (entries m)"
    then obtain k' where "k' \<in> dom m" "k' = k \<and> map_get m k' = v"
      using same by (auto simp: set_entries [OF fin])
    then show "m k = Some v" by (auto simp: map_get_def)
  qed
qed

lemma comparison_exact:
  assumes "plain_map m" and "plain_map n"
  shows "MapToSortedString m = MapToSortedString n \<longleftrightarrow> m = n"
proof
  assume eq: "MapToSortedString m = MapToSortedString n"
  have nonempty: "dom n \<noteq> {}" if "MapToSortedString m = MapToSortedString n" "plain_map m" "dom m \<noteq> {}" for m n
  proof
    assume "dom n = {}"
    then have "split_on (CHR '','') (MapToSortedString n) = [MapToSortedString n]"
      and no_eq: "CHR ''='' \<notin> set (MapToSortedString n)"
      by (simp_all add: MapToSortedString_def)
    then have "entries m = [MapToSortedString n]" using split_entries [OF that(2,3)] that(1) by simp
    moreover have "set (entries m) \<noteq> {}"
      using that by (simp add: set_entries plain_map_def)
    ultimately have "\<exists>k. MapToSortedString n = k @ ''='' @ map_get m k"
      using that(2) set_entries [of m] by (auto simp: plain_map_def)
    with no_eq show False by auto
  qed
  show "m = n"
  proof (cases "dom m = {}")
    case True
    then have "dom n = {}" using nonempty [OF eq [symmetric] assms(2)] by auto
    with True show ?thesis by simp
  next
    case False
    then have "dom n \<noteq> {}" using nonempty [OF eq assms(1)] by simp
    then have "entries m = entries n"
      using split_entries [OF assms(1) False] split_entries [OF assms(2)] eq by simp
    then have "m k = Some v \<longleftrightarrow> n k = Some v" for k v
      by (simp add: entry_of_map assms)
    then show "m = n" by (intro ext) (metis not_Some_eq)
  qed
qed simp

text \<open>
  Between services whose labels, annotations and selectors are plain maps, \<open>servicesMatch\<close> is
  exact: it holds if and only if \<open>updateService\<close> would change nothing.
\<close>

lemma servicesMatch_exact:
  assumes "list_all plain_map [ko_labels e, ko_labels s, ko_annotations e, ko_annotations s, ko_selector e, ko_selector s]"
  shows "servicesMatch e s \<longleftrightarrow> updateService e s = e"
  using assms by (cases e; cases s) (auto simp: servicesMatch_def updateService_def comparison_exact)

lemma servicesMatch_exact_witness:
  "\<not> servicesMatch (zero_object\<lparr>ko_labels := [''a'' \<mapsto> ''1'']\<rparr>) zero_object"
proof -
  have "plain_map Map.empty" "plain_map [''a'' \<mapsto> ''1'']" by (simp_all add: plain_map_def)
  then have "servicesMatch (zero_object\<lparr>ko_labels := [''a'' \<mapsto> ''1'']\<rparr>) zero_object
      \<longleftrightarrow> updateService (zero_object\<lparr>ko_labels := [''a'' \<mapsto> ''1'']\<rparr>) zero_object = zero_object\<lparr>ko_labels := [''a'' \<mapsto> ''1'']\<rparr>"
    by (intro servicesMatch_exact) (simp add: zero_object_def)
  moreover have "Map.empty \<noteq> [''a'' \<mapsto> ''1'']" by (metis map_upd_nonempty)
  ultimately show ?thesis by (simp add: updateService_def zero_object_def)
qed

section \<open>When it is not\<close>

lemma two_entries:
  assumes "a \<noteq> b" and "a @ ''='' @ y \<le> b @ ''='' @ x"
  shows "MapToSortedString [b \<mapsto> x, a \<mapsto> y] = b @ ''='' @ x @ '','' @ a @ ''='' @ y"
  using assms
  by (auto simp: MapToSortedString_def stable_sort_desc_def sorted_list_of_set_insert_remove)

text \<open>
  A changed annotation may go unnoticed: when the value of one annotation spells the pair of
  another, the service with one annotation and the service with two match, so the operator never writes
  the difference.
\<close>

lemma annotation_change_goes_unnoticed:
  assumes "a \<noteq> b" and "a @ ''='' @ y \<le> b @ ''='' @ x"
  shows "servicesMatch (e\<lparr>ko_annotations := [b \<mapsto> x @ '','' @ a @ ''='' @ y]\<rparr>)
                       (e\<lparr>ko_annotations := [b \<mapsto> x, a \<mapsto> y]\<rparr>)"
  using two_entries [OF assms] by (simp add: servicesMatch_def MapToSortedString_def stable_sort_desc_def)

lemma annotation_change_goes_unnoticed_witness:
  "servicesMatch (zero_object\<lparr>ko_annotations := [''b'' \<mapsto> ''2,a=1'']\<rparr>)
                 (zero_object\<lparr>ko_annotations := [''b'' \<mapsto> ''2'', ''a'' \<mapsto> ''1'']\<rparr>)"
  using annotation_change_goes_unnoticed [of "''a''" "''b''" "''1''" "''2''" zero_object]
  by (simp add: less_char_def)

end
