(* ===== verification/Cluster_Client.thy ===== *)
theory Cluster_Client
  imports Cluster_Objects
begin

text \<open>
  How the operator reaches LogScale: \<open>NewCluster\<close> of internal/helpers/clusterinterface.go, which turns
  a cluster name into the address, the token and the CA of the HTTP client, and the bootstrap tokens of
  internal/kubernetes/humio_bootstrap_tokens.go. An address is its text; that a URL parses is asked of
  \<open>x_url_hostname\<close>. The requests of the HTTP client itself are calls of \<open>kube\<close>.
\<close>

section \<open>Bootstrap tokens\<close>

definition HumioBootstrapTokenStateReady :: string where "HumioBootstrapTokenStateReady = ''Ready''"

definition BootstrapTokenManagedClusterNameLabelName :: string where
  "BootstrapTokenManagedClusterNameLabelName = ''managed-cluster-name''"

definition LabelsForHumioBootstrapToken :: "string \<Rightarrow> smap" where
  "LabelsForHumioBootstrapToken clusterName =
     (LabelsForHumio clusterName)(BootstrapTokenManagedClusterNameLabelName \<mapsto> clusterName)"

text \<open>A token without the label is found by its specification.\<close>

definition ListHumioBootstrapTokens ::
  "'w kube \<Rightarrow> string \<Rightarrow> smap \<Rightarrow> ('w st, go_error, bootstrap_token list) step" where
  "ListHumioBootstrapTokens K namespace matchingLabels =
     and_then (query (k_list_bootstrap_tokens K namespace matchingLabels)) (\<lambda>found.
     if found \<noteq> [] then ret found
     else
       case matchingLabels BootstrapTokenManagedClusterNameLabelName of
         None \<Rightarrow> ret []
       | Some humioClusterName \<Rightarrow>
           and_then (query (k_list_bootstrap_tokens K namespace Map.empty)) (\<lambda>all.
           ret (filter (\<lambda>hbt. bt_managed_cluster_name hbt = humioClusterName) all)))"

lemma ListHumioBootstrapTokens_quiet [trace_intros]: "adds_only P (ListHumioBootstrapTokens K ns l)"
  unfolding ListHumioBootstrapTokens_def by (intro trace_intros)

section \<open>The configuration of a client\<close>

record humio_config =
  cfg_address :: string
  cfg_token :: string
  cfg_insecure :: bool
  cfg_ca_certificate :: string

definition ServiceTokenSecretNameSuffix :: string where "ServiceTokenSecretNameSuffix = ''admin-token''"

definition managed_url :: "lib \<Rightarrow> bool \<Rightarrow> humio_cluster \<Rightarrow> string \<Rightarrow> string \<Rightarrow> string" where
  "managed_url L certManagerEnabled hc name namespace =
     (if \<not> certManagerEnabled \<or> \<not> ClusterTLSEnabled L hc then ''http'' else ''https'')
     @ ''://'' @ name @ ''-internal.'' @ namespace @ '':8080/''"

definition managed_api_token :: "'w kube \<Rightarrow> string \<Rightarrow> string \<Rightarrow> ('w st, go_error, string) step" where
  "managed_api_token K name namespace =
     and_then (log_error ''unable to get admin secret containing api token''
                (query (k_get_object K SecretKind (name @ ''-'' @ ServiceTokenSecretNameSuffix) namespace))) (\<lambda>apiToken.
     ret (map_get (ko_data apiToken) ''token''))"

text \<open>The tokens of every namespace are listed; the last one that names the cluster is taken.\<close>

definition bootstrap_api_token ::
  "'w kube \<Rightarrow> string \<Rightarrow> string \<Rightarrow> string \<Rightarrow> ('w st, go_error, string) step" where
  "bootstrap_api_token K name namespace token =
     and_then (log_error ''unable to get bootstrap token'' (query (k_list_bootstrap_tokens K [] Map.empty))) (\<lambda>hbtList.
     case rev (filter (\<lambda>hbt. bt_managed_cluster_name hbt = name) hbtList) of
       [] \<Rightarrow> exit_with (Msg (''unable to find bootstrap token with ManagedClusterName '' @ name))
     | matchedHbt # _ \<Rightarrow>
         (case bt_token_ref matchedHbt of
            None \<Rightarrow> ret token
          | Some r \<Rightarrow>
              and_then (log_error ''unable to get bootstrap secret containing api token''
                         (query (k_get_object K SecretKind (sks_name r) namespace))) (\<lambda>bootstrapToken.
              case ko_data bootstrapToken (sks_key r) of
                None \<Rightarrow> exit_with (Msg (''unable to get bootstrap secret containing api token. secret does not contain key named ''
                          @ CHR 0x22 # sks_key r @ [CHR 0x22]))
              | Some t \<Rightarrow> ret (''localroot~'' @ t))))"

definition managed_config ::
  "lib \<Rightarrow> 'w kube \<Rightarrow> string \<Rightarrow> string \<Rightarrow> bool \<Rightarrow> bool \<Rightarrow> bool \<Rightarrow> ('w st, go_error, humio_config) step" where
  "managed_config L K name namespace certManagerEnabled withAPIToken withBootstrapToken =
     and_then (query (k_get_cluster K name namespace)) (\<lambda>hc.
     and_then (query (k_get_cluster K name namespace)) (\<lambda>hc'.
     let clusterURL = managed_url L certManagerEnabled hc' name namespace in
     and_then (if withAPIToken then managed_api_token K name namespace else ret []) (\<lambda>token.
     and_then (if withBootstrapToken then bootstrap_api_token K name namespace token else ret token) (\<lambda>token.
     if \<not> certManagerEnabled \<or> \<not> ClusterTLSEnabled L hc
     then ret \<lparr>cfg_address = clusterURL, cfg_token = token, cfg_insecure = True, cfg_ca_certificate = []\<rparr>
     else
       and_then (log_error ''unable to get CA certificate'' (query (k_get_object K SecretKind name namespace))) (\<lambda>ca.
       ret \<lparr>cfg_address = clusterURL, cfg_token = token, cfg_insecure = False,
            cfg_ca_certificate = map_get (ko_data ca) ''ca.crt''\<rparr>)))))"

definition external_config ::
  "lib \<Rightarrow> 'w kube \<Rightarrow> string \<Rightarrow> string \<Rightarrow> ('w st, go_error, humio_config) step" where
  "external_config L K name namespace =
     and_then (query (k_get_external_cluster K name namespace)) (\<lambda>ec.
     if ec_url ec = [] then exit_with (Msg ''no url specified'')
     else if ec_api_token_secret_name ec = [] then exit_with (Msg ''no api token secret name specified'')
     else if has_prefix (ec_url ec) ''http://'' \<and> \<not> ec_insecure ec
     then exit_with (Msg ''not possible to run secure cluster with plain http'')
     else
       and_then (log_error ''unable to get secret containing api token''
                  (query (k_get_object K SecretKind (ec_api_token_secret_name ec) namespace))) (\<lambda>apiToken.
       case x_url_hostname L (ec_url ec) of
         Inl err \<Rightarrow> exit_with err
       | Inr _ \<Rightarrow>
           let config = \<lparr>cfg_address = ec_url ec, cfg_token = map_get (ko_data apiToken) ''token'',
                         cfg_insecure = ec_insecure ec, cfg_ca_certificate = []\<rparr>
           in if ec_insecure ec then ret config
              else if ec_ca_secret_name ec \<noteq> []
              then and_then (log_error ''unable to get CA certificate''
                     (query (k_get_object K SecretKind (ec_ca_secret_name ec) namespace))) (\<lambda>ca.
                   ret (config\<lparr>cfg_ca_certificate := map_get (ko_data ca) ''ca.crt''\<rparr>))
              else ret config))"

definition NewCluster ::
  "lib \<Rightarrow> 'w kube \<Rightarrow> string \<Rightarrow> string \<Rightarrow> string \<Rightarrow> bool \<Rightarrow> bool \<Rightarrow> bool \<Rightarrow> ('w st, go_error, humio_config) step" where
  "NewCluster L K managedClusterName externalClusterName namespace certManagerEnabled withPersonalAPIToken withBootstrapToken =
     (if managedClusterName \<noteq> [] \<and> externalClusterName \<noteq> []
      then exit_with (Msg ''cannot have both ManagedClusterName and ExternalClusterName set at the same time'')
      else if managedClusterName = [] \<and> externalClusterName = []
      then exit_with (Msg ''must have one of ManagedClusterName and ExternalClusterName set'')
      else if namespace = [] then exit_with (Msg ''must have non-empty namespace set'')
      else if managedClusterName \<noteq> []
      then managed_config L K managedClusterName namespace certManagerEnabled withPersonalAPIToken withBootstrapToken
      else external_config L K externalClusterName namespace)"

lemma NewCluster_quiet [trace_intros]: "adds_only P (NewCluster L K m e ns c a b)"
  unfolding NewCluster_def managed_config_def external_config_def managed_api_token_def bootstrap_api_token_def Let_def
  by (intro trace_intros)

text \<open>A client of a managed cluster, from a world that answers every read.\<close>

lemma NewCluster_succeeds [success_intros]:
  assumes "\<And>n ns w. \<exists>h. fst (k_get_cluster K n ns w) = Inr h"
    and "\<And>k n ns w. \<exists>ob. fst (k_get_object K k n ns w) = Inr ob"
    and "m \<noteq> []" and "ns \<noteq> []"
  shows "succeeds (NewCluster L K m [] ns c a False)"
proof -
  have "succeeds (managed_config L K m ns c a False)"
    unfolding managed_config_def managed_api_token_def Let_def
    by (intro success_intros assms(1,2)) simp
  then show ?thesis using assms(3,4) by (simp add: NewCluster_def)
qed

end
