(* ===== verification/Pod_Hash.thy ===== *)
theory Pod_Hash
  imports Cluster_Client
begin

text \<open>
  Hashing of pods: internal/controller/humiocluster_pod_hasher.go and \<open>sanitizePod\<close> of
  humiocluster_pods.go, which removes what Kubernetes fills in before pods are hashed or compared.
\<close>

section \<open>PodHasher\<close>

record pod_hasher =
  ph_pod :: "pod option"
  ph_managed :: "pod option"

definition NewPodHasher :: "pod option \<Rightarrow> pod option \<Rightarrow> pod_hasher" where
  "NewPodHasher p m = \<lparr>ph_pod = p, ph_managed = m\<rparr>"

definition calculateHash :: "lib \<Rightarrow> pod_hasher \<Rightarrow> go_error + string" where
  "calculateHash L h =
     (case ph_pod h of
        None \<Rightarrow> Inl (Msg ''cannot calculate hash for nil pod'')
      | Some p \<Rightarrow> Inr (x_pod_spec_hash L (p_spec p)))"

text \<open>
  The effect of one managed container on one container of the pod: the two inner loops of
  \<open>podHasherMinusManagedFields\<close>. Only the value of a managed variable is cleared.
\<close>

definition exclude_managed_container :: "container \<Rightarrow> container \<Rightarrow> container" where
  "exclude_managed_container m c =
     (if c_name c = c_name m
      then let c = (if c_image m \<noteq> [] then c\<lparr>c_image := []\<rparr> else c)
           in c\<lparr>c_env := foldl (\<lambda>env managedEnvVar.
                  map (\<lambda>e. if ev_name managedEnvVar = ev_name e then e\<lparr>ev_value := []\<rparr> else e) env)
                (c_env c) (c_env m)\<rparr>
      else c)"

definition exclude_managed_fields :: "pod_spec \<Rightarrow> pod_spec \<Rightarrow> pod_spec" where
  "exclude_managed_fields m p =
     p\<lparr>ps_containers := foldl (\<lambda>cs mc. map (exclude_managed_container mc) cs)
          (ps_containers p) (ps_containers m),
       ps_init_containers := foldl (\<lambda>cs mc. map (exclude_managed_container mc) cs)
          (ps_init_containers p) (ps_init_containers m)\<rparr>"

definition podHasherOnlyManagedFields :: "pod_hasher \<Rightarrow> pod_hasher" where
  "podHasherOnlyManagedFields h = NewPodHasher (ph_managed h) None"

text \<open>A nil pod is dereferenced as soon as there is a managed container to look for.\<close>

definition podHasherMinusManagedFields :: "pod_hasher \<Rightarrow> go_error + pod_hasher" where
  "podHasherMinusManagedFields h =
     (case ph_managed h of
        None \<Rightarrow> Inr h
      | Some m \<Rightarrow>
          (case ph_pod h of
             None \<Rightarrow>
               if ps_containers (p_spec m) = [] \<and> ps_init_containers (p_spec m) = []
               then Inr (NewPodHasher None None) else Inl (Panic ''nil pod'')
           | Some p \<Rightarrow>
               Inr (NewPodHasher (Some (p\<lparr>p_spec := exclude_managed_fields (p_spec m) (p_spec p)\<rparr>)) None)))"

definition PodHashOnlyManagedFields :: "lib \<Rightarrow> pod_hasher \<Rightarrow> go_error + string" where
  "PodHashOnlyManagedFields L h = calculateHash L (podHasherOnlyManagedFields h)"

definition PodHashMinusManagedFields :: "lib \<Rightarrow> pod_hasher \<Rightarrow> go_error + string" where
  "PodHashMinusManagedFields L h =
     (case podHasherMinusManagedFields h of Inl e \<Rightarrow> Inl e | Inr h' \<Rightarrow> calculateHash L h')"

section \<open>sanitizePod\<close>

definition HumioDataVolumeName :: string where "HumioDataVolumeName = ''humio-data''"

definition secret_volume_source :: "string \<Rightarrow> volume_source" where
  "secret_volume_source secretName = \<lparr>vs_pvc = None, vs_rest = KObj [(''secret'',
     KObj [(''secretName'', KStr secretName), (''defaultMode'', KInt 420)])]\<rparr>"

text \<open>
  \<open>reflect.DeepEqual(volume.PersistentVolumeClaim, corev1.PersistentVolumeClaimVolumeSource{})\<close>
  compares a pointer with a struct value. \<open>DeepEqual\<close> of values of different types is false.
\<close>

definition pvc_source_deep_equals_empty_struct :: "string option \<Rightarrow> bool" where
  "pvc_source_deep_equals_empty_struct ptr = False"

definition sanitize_volume :: "node_pool \<Rightarrow> volume \<Rightarrow> volume" where
  "sanitize_volume hnp v =
     (if v_name v = HumioDataVolumeName \<and> pvc_source_deep_equals_empty_struct (vs_pvc (v_source v))
      then \<lparr>v_name = HumioDataVolumeName, v_source = GetDataVolumeSource hnp\<rparr>
      else if v_name v = HumioDataVolumeName \<and> \<not> pvc_source_deep_equals_empty_struct (vs_pvc (v_source v))
      then \<lparr>v_name = HumioDataVolumeName,
            v_source = GetDataVolumePersistentVolumeClaimSpecTemplate hnp []\<rparr>
      else if v_name v = ''tls-cert''
      then \<lparr>v_name = ''tls-cert'', v_source = secret_volume_source (GetNodePoolName hnp @ ''-core-'')\<rparr>
      else if v_name v = ''init-service-account-secret''
      then \<lparr>v_name = ''init-service-account-secret'',
            v_source = secret_volume_source (GetNodePoolName hnp @ ''-init-'')\<rparr>
      else if has_prefix ''kube-api-access-'' (v_name v)
      then \<lparr>v_name = ''kube-api-access-'', v_source = empty_volume_source\<rparr>
      else v)"

definition sanitize_env :: "lib \<Rightarrow> node_pool \<Rightarrow> env_var \<Rightarrow> env_var" where
  "sanitize_env L hnp e =
     (if ev_name e = ''EXTERNAL_URL''
      then env_value ''EXTERNAL_URL''
             (to_lower (GetProbeScheme L hnp) @ ''://'' @ GetNodePoolName hnp @ ''-core-.'' @
              headlessServiceName (GetClusterName hnp) @ ''.'' @ GetNamespace hnp @ '':'' @ itoa HumioPort)
      else e)"

text \<open>The fields of a container the API server defaults.\<close>

definition reset_container :: "node_pool \<Rightarrow> container \<Rightarrow> container" where
  "reset_container hnp c =
     c\<lparr>c_image_pull_policy := ns_image_pull_policy (np_spec hnp), c_termination_message_path := [],
       c_termination_message_policy := []\<rparr>"

definition sort_env :: "container \<Rightarrow> container" where
  "sort_env c = c\<lparr>c_env := stable_sort_desc ev_name (c_env c)\<rparr>"

definition sanitize_spec :: "lib \<Rightarrow> node_pool \<Rightarrow> pod_spec \<Rightarrow> pod_spec" where
  "sanitize_spec L hnp sp =
     sp\<lparr>ps_containers := map (\<lambda>c. sort_env (reset_container hnp
            (if c_name c = HumioContainerName then c\<lparr>c_env := map (sanitize_env L hnp) (c_env c)\<rparr> else c)))
          (ps_containers sp),
        ps_init_containers := map (\<lambda>c. sort_env (reset_container hnp c)) (ps_init_containers sp),
        ps_volumes := map (sanitize_volume hnp) (ps_volumes sp),
        ps_hostname := GetNodePoolName hnp @ ''-core-'',
        ps_restart_policy := [], ps_dns_policy := [], ps_scheduler_name := [], ps_priority := None,
        ps_enable_service_links := None, ps_preemption_policy := None,
        ps_deprecated_service_account := [], ps_node_name := [],
        ps_tolerations := ns_tolerations (np_spec hnp),
        ps_topology_spread_constraints := ns_topology_spread_constraints (np_spec hnp)\<rparr>"

definition sanitizePod :: "lib \<Rightarrow> node_pool \<Rightarrow> pod \<Rightarrow> pod" where
  "sanitizePod L hnp pd = pd\<lparr>p_spec := sanitize_spec L hnp (p_spec pd)\<rparr>"

section \<open>What the hash ignores\<close>

lemma clear_values:
  "foldl (\<lambda>env m. map (\<lambda>e. if ev_name m = ev_name e then e\<lparr>ev_value := []\<rparr> else e) env) env ms =
     map (\<lambda>e. if ev_name e \<in> ev_name ` set ms then e\<lparr>ev_value := []\<rparr> else e) env"
  by (induction ms arbitrary: env) auto

text \<open>The names of the variables of container \<open>cn\<close> that are managed, and whether its image is.\<close>

definition managed_names :: "container list \<Rightarrow> string \<Rightarrow> string set" where
  "managed_names ms cn = (\<Union>m\<in>{m \<in> set ms. c_name m = cn}. ev_name ` set (c_env m))"

definition image_managed :: "container list \<Rightarrow> string \<Rightarrow> bool" where
  "image_managed ms cn \<longleftrightarrow> (\<exists>m\<in>set ms. c_name m = cn \<and> c_image m \<noteq> [])"

definition hide :: "container list \<Rightarrow> container \<Rightarrow> container" where
  "hide ms c = c\<lparr>c_image := (if image_managed ms (c_name c) then [] else c_image c),
     c_env := map (\<lambda>e. if ev_name e \<in> managed_names ms (c_name c) then e\<lparr>ev_value := []\<rparr> else e) (c_env c)\<rparr>"

lemma managed_simps [simp]:
  "managed_names [] cn = {}" "image_managed [] cn = False"
  "managed_names (m # ms) cn =
     (if c_name m = cn then ev_name ` set (c_env m) \<union> managed_names ms cn else managed_names ms cn)"
  "image_managed (m # ms) cn \<longleftrightarrow> c_name m = cn \<and> c_image m \<noteq> [] \<or> image_managed ms cn"
  by (auto simp: managed_names_def image_managed_def)

lemma hide_Nil: "hide [] = (\<lambda>c. c)"
  by (rule ext) (simp add: hide_def)

lemma hide_Cons: "hide ms (exclude_managed_container m c) = hide (m # ms) c"
proof (cases "c_name c = c_name m")
  case True
  then show ?thesis
    by (simp add: hide_def exclude_managed_container_def clear_values Let_def)
next
  case False
  then show ?thesis by (simp add: hide_def exclude_managed_container_def)
qed

lemma foldl_exclude: "foldl (\<lambda>cs m. map (exclude_managed_container m) cs) cs ms = map (hide ms) cs"
  by (induction ms arbitrary: cs) (simp_all add: hide_Nil hide_Cons comp_def)

lemma exclude_managed_fields_hide:
  "exclude_managed_fields m p = p\<lparr>ps_containers := map (hide (ps_containers m)) (ps_containers p),
     ps_init_containers := map (hide (ps_init_containers m)) (ps_init_containers p)\<rparr>"
  by (simp add: exclude_managed_fields_def foldl_exclude)

text \<open>Setting the value of a variable of a container.\<close>

definition set_value :: "string \<Rightarrow> string \<Rightarrow> container \<Rightarrow> container" where
  "set_value n v c = c\<lparr>c_env := map (\<lambda>e. if ev_name e = n then e\<lparr>ev_value := v\<rparr> else e) (c_env c)\<rparr>"

definition set_env_value :: "string \<Rightarrow> string \<Rightarrow> string \<Rightarrow> pod \<Rightarrow> pod" where
  "set_env_value cn n v p = p\<lparr>p_spec := (p_spec p)\<lparr>ps_containers :=
     map (\<lambda>c. if c_name c = cn then set_value n v c else c) (ps_containers (p_spec p))\<rparr>\<rparr>"

definition has_value :: "string \<Rightarrow> string \<Rightarrow> container \<Rightarrow> bool" where
  "has_value n v c \<longleftrightarrow> (\<forall>e\<in>set (c_env c). ev_name e = n \<longrightarrow> ev_value e = v)"

lemma hide_set_value:
  "hide ms (set_value n v c) = hide ms c \<longleftrightarrow> n \<in> managed_names ms (c_name c) \<or> has_value n v c"
proof -
  let ?g = "\<lambda>e::env_var. if ev_name e \<in> managed_names ms (c_name c) then e\<lparr>ev_value := []\<rparr> else e"
  let ?f = "\<lambda>e::env_var. if ev_name e = n then e\<lparr>ev_value := v\<rparr> else e"
  have upd: "e\<lparr>ev_value := v\<rparr> = e \<longleftrightarrow> ev_value e = v" for e :: env_var
    by (cases e) auto
  have step: "?g (?f e) = ?g e \<longleftrightarrow> (ev_name e = n \<longrightarrow> n \<in> managed_names ms (c_name c) \<or> ev_value e = v)"
    for e using upd [of e] by simp
  have eq: "d\<lparr>c_image := i, c_env := xs\<rparr> = d\<lparr>c_image := i, c_env := ys\<rparr> \<longleftrightarrow> xs = ys" for d :: container and i xs ys
    by (cases d) simp
  have "hide ms (set_value n v c) = hide ms c \<longleftrightarrow> map (\<lambda>e. ?g (?f e)) (c_env c) = map ?g (c_env c)"
  proof -
    let ?i = "if image_managed ms (c_name c) then [] else c_image c"
    have "hide ms (set_value n v c) = c\<lparr>c_image := ?i, c_env := map (\<lambda>e. ?g (?f e)) (c_env c)\<rparr>"
      by (simp add: hide_def set_value_def comp_def)
    moreover have "hide ms c = c\<lparr>c_image := ?i, c_env := map ?g (c_env c)\<rparr>" by (simp add: hide_def)
    ultimately show ?thesis by (simp only: eq)
  qed
  also have "\<dots> \<longleftrightarrow> (\<forall>e\<in>set (c_env c). ev_name e = n \<longrightarrow> n \<in> managed_names ms (c_name c) \<or> ev_value e = v)"
    unfolding map_eq_conv step ..
  also have "\<dots> \<longleftrightarrow> (\<forall>e\<in>set (c_env c). ev_name e = n \<longrightarrow> n \<in> managed_names ms (c_name c)) \<or> has_value n v c"
    by (auto simp: has_value_def)
  finally show ?thesis by (auto simp: has_value_def)
qed

lemma set_value_same: "set_value n v c = c \<longleftrightarrow> has_value n v c"
  using hide_set_value [of "[]" n v c] by (simp add: hide_Nil)

lemma map_eq_id_conv: "map f xs = xs \<longleftrightarrow> (\<forall>x\<in>set xs. f x = x)"
  using map_eq_conv [of f xs "\<lambda>x. x"] by simp



section \<open>What sanitizing forgets\<close>

lemma sanitize_env_simps [simp]:
  "ev_name (sanitize_env L hnp e) = ev_name e"
  "sanitize_env L hnp (sanitize_env L hnp e) = sanitize_env L hnp e"
  by (simp_all add: sanitize_env_def env_value_def)

lemma sanitize_volume_idem [simp]: "sanitize_volume hnp (sanitize_volume hnp v) = sanitize_volume hnp v"
  by (simp add: sanitize_volume_def pvc_source_deep_equals_empty_struct_def HumioDataVolumeName_def)

lemma insort_desc_map: "(\<And>x. k (f x) = k x) \<Longrightarrow> insort_desc k (f x) (map f xs) = map f (insort_desc k x xs)"
  by (induction xs) auto

lemma stable_sort_desc_map: "(\<And>x. k (f x) = k x) \<Longrightarrow> stable_sort_desc k (map f xs) = map f (stable_sort_desc k xs)"
  by (induction xs) (simp_all add: stable_sort_desc_def insort_desc_map)

text \<open>
  Sanitizing a pod twice is sanitizing it once, so a sanitized pod compares equal to
  itself sanitized again.
\<close>

lemma sanitizePod_idempotent:
  "sanitizePod L hnp (sanitizePod L hnp pd) = sanitizePod L hnp pd"
  by (simp add: sanitizePod_def sanitize_spec_def sort_env_def reset_container_def comp_def
      stable_sort_desc_map)

text \<open>
  Two containers that differ only in what the API server fills in and in the order of their
  variables, and two pods whose containers are so related and that differ otherwise only in the
  node they run on and in the defaulted fields.
\<close>

definition same_container :: "container \<Rightarrow> container \<Rightarrow> bool" where
  "same_container c d \<longleftrightarrow>
     (c_env c = c_env d \<or>
      set (c_env c) = set (c_env d) \<and> distinct (map ev_name (c_env c)) \<and> distinct (map ev_name (c_env d))) \<and>
     d\<lparr>c_env := [], c_image_pull_policy := [], c_termination_message_path := [],
       c_termination_message_policy := []\<rparr> =
     c\<lparr>c_env := [], c_image_pull_policy := [], c_termination_message_path := [],
       c_termination_message_policy := []\<rparr>"

definition same_up_to_defaults :: "pod_spec \<Rightarrow> pod_spec \<Rightarrow> bool" where
  "same_up_to_defaults p q \<longleftrightarrow>
     list_all2 same_container (ps_containers p) (ps_containers q) \<and>
     list_all2 same_container (ps_init_containers p) (ps_init_containers q) \<and>
     q\<lparr>ps_containers := [], ps_init_containers := [], ps_hostname := [], ps_node_name := [],
       ps_restart_policy := [], ps_dns_policy := [], ps_scheduler_name := [], ps_priority := None,
       ps_enable_service_links := None, ps_preemption_policy := None,
       ps_deprecated_service_account := [], ps_tolerations := [], ps_topology_spread_constraints := []\<rparr> =
     p\<lparr>ps_containers := [], ps_init_containers := [], ps_hostname := [], ps_node_name := [],
       ps_restart_policy := [], ps_dns_policy := [], ps_scheduler_name := [], ps_priority := None,
       ps_enable_service_links := None, ps_preemption_policy := None,
       ps_deprecated_service_account := [], ps_tolerations := [], ps_topology_spread_constraints := []\<rparr>"

lemma same_container_fields:
  assumes "same_container c d"
  shows "c_name c = c_name d"
    and "(reset_container hnp c)\<lparr>c_env := e\<rparr> = (reset_container hnp d)\<lparr>c_env := e\<rparr>"
    and "stable_sort_desc ev_name (c_env c) = stable_sort_desc ev_name (c_env d)"
proof -
  show "c_name c = c_name d" "(reset_container hnp c)\<lparr>c_env := e\<rparr> = (reset_container hnp d)\<lparr>c_env := e\<rparr>"
    using assms by (cases c; cases d; auto simp: same_container_def reset_container_def)+
  show "stable_sort_desc ev_name (c_env c) = stable_sort_desc ev_name (c_env d)"
    using assms stable_sort_desc_unique [of ev_name "c_env c" "c_env d"] by (auto simp: same_container_def)
qed

lemma same_container_sort:
  "same_container c d \<Longrightarrow> sort_env (reset_container hnp c) = sort_env (reset_container hnp d)"
  using same_container_fields(2,3) [of c d]
  by (simp add: sort_env_def reset_container_def)

lemma same_container_sanitize:
  assumes "same_container c d"
  shows "sort_env (reset_container hnp (c\<lparr>c_env := map (sanitize_env L hnp) (c_env c)\<rparr>)) =
         sort_env (reset_container hnp (d\<lparr>c_env := map (sanitize_env L hnp) (c_env d)\<rparr>))"
  using same_container_fields(2,3) [OF assms]
  by (simp add: sort_env_def reset_container_def stable_sort_desc_map)



text \<open>
  The data volume of a pod is not part of what is compared: whatever its source, it is
  replaced by the claim template with an empty claim name, or by no source when the pool has no
  claim template. In particular a change of \<open>dataVolumeSource\<close> does not change the pod hash.
\<close>

lemma data_volume_source_is_not_hashed:
  "sanitize_volume hnp \<lparr>v_name = HumioDataVolumeName, v_source = a\<rparr> =
     \<lparr>v_name = HumioDataVolumeName,
      v_source = (if PVCsEnabled hnp then \<lparr>vs_pvc = Some [], vs_rest = KObj []\<rparr>
                  else \<lparr>vs_pvc = None, vs_rest = KObj []\<rparr>)\<rparr>
   \<and> PodHashMinusManagedFields L (NewPodHasher (Some (sanitizePod L hnp
       (pd\<lparr>p_spec := sp\<lparr>ps_volumes := vs @ \<lparr>v_name = HumioDataVolumeName, v_source = a\<rparr> # ws\<rparr>\<rparr>))) m) =
     PodHashMinusManagedFields L (NewPodHasher (Some (sanitizePod L hnp
       (pd\<lparr>p_spec := sp\<lparr>ps_volumes := vs @ \<lparr>v_name = HumioDataVolumeName, v_source = b\<rparr> # ws\<rparr>\<rparr>))) m)"
  by (simp add: sanitizePod_def sanitize_spec_def sanitize_volume_def
      pvc_source_deep_equals_empty_struct_def GetDataVolumePersistentVolumeClaimSpecTemplate_def
      empty_volume_source_def)

end
