(* ===== verification/Pod_Compare.thy ===== *)
theory Pod_Compare
  imports Pod_Hash
begin

text \<open>
  Comparison of a running pod with the desired one: internal/controller/humiocluster_pod_compare.go.
  The severities form a linear order, in which \<open>setDoesNotMatch\<close> never goes down. The names of the
  mismatched environment variables, which the code collects in the iteration order of two Go maps,
  are a set. The human-readable diff is not modelled.
\<close>

section \<open>Annotations\<close>

definition CertificateHashAnnotation :: string where
  "CertificateHashAnnotation = ''humio.com/certificate-hash''"
definition PodHashAnnotation :: string where "PodHashAnnotation = ''humio.com/pod-hash''"
definition PodOperatorManagedFieldsHashAnnotation :: string where
  "PodOperatorManagedFieldsHashAnnotation = ''humio.com/pod-operator-managed-fields-hash''"
definition PodRevisionAnnotation :: string where "PodRevisionAnnotation = ''humio.com/pod-revision''"
definition BootstrapTokenHashAnnotation :: string where
  "BootstrapTokenHashAnnotation = ''humio.com/bootstrap-token-hash''"
definition EnvVarSourceHashAnnotation :: string where
  "EnvVarSourceHashAnnotation = ''humio.com/env-var-source-hash''"

lemmas annotation_names = CertificateHashAnnotation_def PodHashAnnotation_def
  PodOperatorManagedFieldsHashAnnotation_def PodRevisionAnnotation_def
  BootstrapTokenHashAnnotation_def EnvVarSourceHashAnnotation_def

section \<open>Severities\<close>

datatype mismatch_severity = NoMismatch | SeverityWarning | SeverityCritical

datatype mismatch_type = NoMismatchType | PodMismatchVersion | PodMismatchAnnotation

instantiation mismatch_severity :: linorder
begin

definition severity_rank :: "mismatch_severity \<Rightarrow> nat" where
  "severity_rank x = (case x of NoMismatch \<Rightarrow> 0 | SeverityWarning \<Rightarrow> 1 | SeverityCritical \<Rightarrow> 2)"

definition less_eq_mismatch_severity :: "mismatch_severity \<Rightarrow> mismatch_severity \<Rightarrow> bool" where
  "less_eq_mismatch_severity a b \<longleftrightarrow> severity_rank a \<le> severity_rank b"

definition less_mismatch_severity :: "mismatch_severity \<Rightarrow> mismatch_severity \<Rightarrow> bool" where
  "less_mismatch_severity a b \<longleftrightarrow> severity_rank a < severity_rank b"

instance
  by standard
    (auto simp: less_eq_mismatch_severity_def less_mismatch_severity_def severity_rank_def
      split: mismatch_severity.splits)

end

lemma severity_order [simp]:
  "NoMismatch \<le> s" "s \<le> SeverityCritical" "SeverityWarning < SeverityCritical"
  "NoMismatch < SeverityWarning" "NoMismatch < SeverityCritical"
  "SeverityCritical \<le> s \<longleftrightarrow> s = SeverityCritical"
  by (auto simp: less_eq_mismatch_severity_def less_mismatch_severity_def severity_rank_def
      split: mismatch_severity.splits)

section \<open>PodComparison\<close>

record version_mismatch =
  vmm_from :: "humio_version option"
  vmm_to :: "humio_version option"

record pod_comparison =
  pcmp_current :: pod
  pcmp_desired :: pod
  pcmp_annotations :: "string list"
  pcmp_env :: "string set"
  pcmp_versions :: version_mismatch
  pcmp_severity :: mismatch_severity
  pcmp_type :: mismatch_type

definition GetContainerIndexByName :: "pod \<Rightarrow> string \<Rightarrow> go_error + nat" where
  "GetContainerIndexByName pd name =
     (case find (\<lambda>i. c_name (ps_containers (p_spec pd) ! i) = name) [0..<length (ps_containers (p_spec pd))] of
        Some i \<Rightarrow> Inr i
      | None \<Rightarrow> Inl (Msg (''container with name '' @ name @ '' not found'')))"

definition setDoesNotMatch :: "mismatch_type \<Rightarrow> mismatch_severity \<Rightarrow> pod_comparison \<Rightarrow> pod_comparison" where
  "setDoesNotMatch t sev pc =
     (if pcmp_severity pc = SeverityCritical \<and> sev = SeverityWarning then pc
      else pc\<lparr>pcmp_type := t, pcmp_severity := sev\<rparr>)"

definition compareAnnotation :: "pod_comparison \<Rightarrow> string \<Rightarrow> bool" where
  "compareAnnotation pc a \<longleftrightarrow>
     map_get (p_annotations (pcmp_current pc)) a = map_get (p_annotations (pcmp_desired pc)) a"

definition process_annotation :: "mismatch_severity \<Rightarrow> pod_comparison \<Rightarrow> string \<Rightarrow> pod_comparison" where
  "process_annotation sev pc a =
     (if \<not> compareAnnotation pc a
      then (setDoesNotMatch PodMismatchAnnotation sev pc)\<lparr>pcmp_annotations := pcmp_annotations pc @ [a]\<rparr>
      else pc)"

definition critical_annotations :: "string list" where
  "critical_annotations = [BootstrapTokenHashAnnotation, PodHashAnnotation, PodRevisionAnnotation,
     BootstrapTokenHashAnnotation, EnvVarSourceHashAnnotation, CertificateHashAnnotation]"

definition warning_annotations :: "string list" where
  "warning_annotations = [PodOperatorManagedFieldsHashAnnotation]"

definition processAnnotations :: "pod_comparison \<Rightarrow> pod_comparison" where
  "processAnnotations pc =
     foldl (process_annotation SeverityWarning)
       (foldl (process_annotation SeverityCritical) pc critical_annotations) warning_annotations"

text \<open>
  The two maps from a name to the value of its first occurrence, and the names that differ: those
  of the desired pod that the current one lacks or has with another value, and those only the
  current one has.
\<close>

definition env_map :: "env_var list \<Rightarrow> smap" where
  "env_map env n = (if n \<in> ev_name ` set env then Some (EnvVarValue env n) else None)"

definition processEnvironmentVariables :: "container \<Rightarrow> container \<Rightarrow> pod_comparison \<Rightarrow> pod_comparison" where
  "processEnvironmentVariables current desired pc =
     pc\<lparr>pcmp_env := pcmp_env pc
         \<union> {n \<in> ev_name ` set (c_env desired). env_map (c_env current) n \<noteq> env_map (c_env desired) n}
         \<union> {n \<in> ev_name ` set (c_env current). env_map (c_env desired) n = None}\<rparr>"

definition processHumioContainerImages :: "lib \<Rightarrow> container \<Rightarrow> container \<Rightarrow> pod_comparison \<Rightarrow> pod_comparison" where
  "processHumioContainerImages L current desired pc =
     (if c_image current \<noteq> c_image desired
      then (setDoesNotMatch PodMismatchVersion SeverityCritical pc)\<lparr>pcmp_versions :=
             \<lparr>vmm_from = Some (HumioVersionFromString L (c_image current)),
              vmm_to = Some (HumioVersionFromString L (c_image desired))\<rparr>\<rparr>
      else pc)"

definition NewPodComparison :: "lib \<Rightarrow> node_pool \<Rightarrow> pod \<Rightarrow> pod \<Rightarrow> go_error + pod_comparison" where
  "NewPodComparison L hnp current desired =
     (let current = sanitizePod L hnp current;
          desired = sanitizePod L hnp desired;
          pc = \<lparr>pcmp_current = current, pcmp_desired = desired, pcmp_annotations = [], pcmp_env = {},
                pcmp_versions = \<lparr>vmm_from = None, vmm_to = None\<rparr>, pcmp_severity = NoMismatch,
                pcmp_type = NoMismatchType\<rparr>
      in case GetContainerIndexByName current HumioContainerName of
           Inl e \<Rightarrow> Inl e
         | Inr i \<Rightarrow>
             (case GetContainerIndexByName desired HumioContainerName of
                Inl e \<Rightarrow> Inl e
              | Inr j \<Rightarrow>
                  let c = ps_containers (p_spec current) ! i;
                      d = ps_containers (p_spec desired) ! j
                  in Inr (processHumioContainerImages L c d
                       (processEnvironmentVariables c d (processAnnotations pc)))))"

definition HasCriticalMismatch :: "pod_comparison \<Rightarrow> bool" where
  "HasCriticalMismatch pc \<longleftrightarrow> pcmp_severity pc = SeverityCritical"

definition HasWarningMismatch :: "pod_comparison \<Rightarrow> bool" where
  "HasWarningMismatch pc \<longleftrightarrow> pcmp_severity pc = SeverityWarning"

definition Matches :: "pod_comparison \<Rightarrow> bool" where
  "Matches pc \<longleftrightarrow> \<not> HasCriticalMismatch pc \<and> \<not> HasWarningMismatch pc"

definition MismatchedAnnotations :: "pod_comparison \<Rightarrow> string list" where
  "MismatchedAnnotations pc = pcmp_annotations pc"

definition MismatchedEnvironmentVariables :: "pod_comparison \<Rightarrow> string set" where
  "MismatchedEnvironmentVariables pc = pcmp_env pc"

definition MismatchedHumioVersions :: "pod_comparison \<Rightarrow> bool \<times> version_mismatch" where
  "MismatchedHumioVersions pc = (pcmp_type pc = PodMismatchVersion, pcmp_versions pc)"

section \<open>The verdict of a comparison\<close>

definition humio_container :: "pod \<Rightarrow> container option" where
  "humio_container pd = find (\<lambda>c. c_name c = HumioContainerName) (ps_containers (p_spec pd))"

definition annotation_differs :: "pod \<Rightarrow> pod \<Rightarrow> string \<Rightarrow> bool" where
  "annotation_differs p q a \<longleftrightarrow> map_get (p_annotations p) a \<noteq> map_get (p_annotations q) a"

lemma process_annotation_fold:
  assumes "sev \<noteq> NoMismatch"
  shows "pcmp_annotations (foldl (process_annotation sev) pc as) =
           pcmp_annotations pc @ filter (annotation_differs (pcmp_current pc) (pcmp_desired pc)) as
         \<and> pcmp_severity (foldl (process_annotation sev) pc as) =
           (if list_ex (annotation_differs (pcmp_current pc) (pcmp_desired pc)) as
            then max (pcmp_severity pc) sev else pcmp_severity pc)
         \<and> pcmp_current (foldl (process_annotation sev) pc as) = pcmp_current pc
         \<and> pcmp_desired (foldl (process_annotation sev) pc as) = pcmp_desired pc
         \<and> pcmp_env (foldl (process_annotation sev) pc as) = pcmp_env pc
         \<and> pcmp_versions (foldl (process_annotation sev) pc as) = pcmp_versions pc
         \<and> (pcmp_type pc \<noteq> PodMismatchVersion \<longrightarrow>
              pcmp_type (foldl (process_annotation sev) pc as) \<noteq> PodMismatchVersion)"
  using assms
proof (induction as arbitrary: pc)
  case Nil
  show ?case by simp
next
  case (Cons a as)
  have "pcmp_severity (process_annotation sev pc a) =
          (if annotation_differs (pcmp_current pc) (pcmp_desired pc) a
           then max (pcmp_severity pc) sev else pcmp_severity pc)"
    using Cons.prems
    by (cases sev; cases "pcmp_severity pc")
      (simp_all add: process_annotation_def compareAnnotation_def annotation_differs_def
        setDoesNotMatch_def max_def less_eq_mismatch_severity_def severity_rank_def)
  moreover have "pcmp_current (process_annotation sev pc a) = pcmp_current pc"
    "pcmp_desired (process_annotation sev pc a) = pcmp_desired pc"
    "pcmp_env (process_annotation sev pc a) = pcmp_env pc"
    "pcmp_versions (process_annotation sev pc a) = pcmp_versions pc"
    "pcmp_type pc \<noteq> PodMismatchVersion \<Longrightarrow> pcmp_type (process_annotation sev pc a) \<noteq> PodMismatchVersion"
    "pcmp_annotations (process_annotation sev pc a) = pcmp_annotations pc @
       (if annotation_differs (pcmp_current pc) (pcmp_desired pc) a then [a] else [])"
    by (simp_all add: process_annotation_def compareAnnotation_def annotation_differs_def setDoesNotMatch_def)
  ultimately show ?case
    using Cons.IH [OF Cons.prems, of "process_annotation sev pc a"] by simp
qed

lemma index_by_name:
  "GetContainerIndexByName pd HumioContainerName = Inr i \<Longrightarrow>
   humio_container pd = Some (ps_containers (p_spec pd) ! i)"
  by (auto simp: GetContainerIndexByName_def humio_container_def split: option.splits dest: find_index)

lemma index_by_name_error:
  "(\<exists>e. GetContainerIndexByName pd HumioContainerName = Inl e) \<longleftrightarrow> humio_container pd = None"
  using find_index_None [of "\<lambda>c. c_name c = HumioContainerName" "ps_containers (p_spec pd)"]
  by (auto simp: GetContainerIndexByName_def humio_container_def split: option.splits)

definition sanitized_container :: "lib \<Rightarrow> node_pool \<Rightarrow> container \<Rightarrow> container" where
  "sanitized_container L hnp c = sort_env (reset_container hnp
     (if c_name c = HumioContainerName then c\<lparr>c_env := map (sanitize_env L hnp) (c_env c)\<rparr> else c))"

lemma sanitized_container_simps [simp]:
  "c_name (sanitized_container L hnp c) = c_name c" "c_image (sanitized_container L hnp c) = c_image c"
  by (simp_all add: sanitized_container_def sort_env_def reset_container_def)

lemma humio_container_sanitized:
  "humio_container (sanitizePod L hnp pd) = map_option (sanitized_container L hnp) (humio_container pd)"
proof -
  have "ps_containers (p_spec (sanitizePod L hnp pd)) = map (sanitized_container L hnp) (ps_containers (p_spec pd))"
    by (simp add: sanitizePod_def sanitize_spec_def sanitized_container_def)
  then show ?thesis by (simp add: humio_container_def find_map_same)
qed

lemma NewPodComparison_cases:
  assumes "NewPodComparison L hnp current desired = Inr pc"
  obtains c d where "humio_container current = Some c" and "humio_container desired = Some d"
    and "pc = processHumioContainerImages L (sanitized_container L hnp c) (sanitized_container L hnp d)
           (processEnvironmentVariables (sanitized_container L hnp c) (sanitized_container L hnp d)
             (processAnnotations
               \<lparr>pcmp_current = sanitizePod L hnp current, pcmp_desired = sanitizePod L hnp desired,
                pcmp_annotations = [], pcmp_env = {}, pcmp_versions = \<lparr>vmm_from = None, vmm_to = None\<rparr>,
                pcmp_severity = NoMismatch, pcmp_type = NoMismatchType\<rparr>))"
  using assms
  by (auto simp: NewPodComparison_def Let_def humio_container_sanitized split: sum.splits
      dest!: index_by_name)

definition image_differs :: "pod \<Rightarrow> pod \<Rightarrow> bool" where
  "image_differs p q \<longleftrightarrow> map_option c_image (humio_container p) \<noteq> map_option c_image (humio_container q)"

lemma comparison_verdict:
  "case NewPodComparison L hnp current desired of
     Inl e \<Rightarrow> humio_container current = None \<or> humio_container desired = None
   | Inr pc \<Rightarrow>
       humio_container current \<noteq> None \<and> humio_container desired \<noteq> None
       \<and> HasCriticalMismatch pc =
           (list_ex (annotation_differs current desired) critical_annotations \<or> image_differs current desired)
       \<and> HasWarningMismatch pc =
           (\<not> HasCriticalMismatch pc \<and> annotation_differs current desired PodOperatorManagedFieldsHashAnnotation)
       \<and> Matches pc =
           (list_all (\<lambda>a. \<not> annotation_differs current desired a) (critical_annotations @ warning_annotations)
            \<and> \<not> image_differs current desired)
       \<and> set (MismatchedAnnotations pc) =
           set (filter (annotation_differs current desired) (critical_annotations @ warning_annotations))
       \<and> fst (MismatchedHumioVersions pc) = image_differs current desired
       \<and> snd (MismatchedHumioVersions pc) =
            (if image_differs current desired
             then \<lparr>vmm_from = map_option (\<lambda>c. HumioVersionFromString L (c_image c)) (humio_container current),
                   vmm_to = map_option (\<lambda>c. HumioVersionFromString L (c_image c)) (humio_container desired)\<rparr>
             else \<lparr>vmm_from = None, vmm_to = None\<rparr>)"
proof (cases "NewPodComparison L hnp current desired")
  case (Inl e)
  then show ?thesis
    using index_by_name_error [of "sanitizePod L hnp current"]
      index_by_name_error [of "sanitizePod L hnp desired"]
    by (auto simp: NewPodComparison_def Let_def humio_container_sanitized split: sum.splits)
next
  case (Inr pc)
  let ?pc0 = "\<lparr>pcmp_current = sanitizePod L hnp current, pcmp_desired = sanitizePod L hnp desired,
                pcmp_annotations = [], pcmp_env = {}, pcmp_versions = \<lparr>vmm_from = None, vmm_to = None\<rparr>,
                pcmp_severity = NoMismatch, pcmp_type = NoMismatchType\<rparr>"
  let ?pc1 = "foldl (process_annotation SeverityCritical) ?pc0 critical_annotations"
  let ?D = "annotation_differs current desired"
  obtain c d where c: "humio_container current = Some c" and d: "humio_container desired = Some d"
    and pc: "pc = processHumioContainerImages L (sanitized_container L hnp c) (sanitized_container L hnp d)
           (processEnvironmentVariables (sanitized_container L hnp c) (sanitized_container L hnp d)
             (processAnnotations ?pc0))"
    using Inr by (rule NewPodComparison_cases)
  have D: "annotation_differs (sanitizePod L hnp current) (sanitizePod L hnp desired) = ?D"
    by (simp add: fun_eq_iff annotation_differs_def sanitizePod_def)
  have first: "pcmp_annotations ?pc1 = filter ?D critical_annotations
       \<and> pcmp_severity ?pc1 = (if list_ex ?D critical_annotations then SeverityCritical else NoMismatch)
       \<and> pcmp_current ?pc1 = sanitizePod L hnp current \<and> pcmp_desired ?pc1 = sanitizePod L hnp desired
       \<and> pcmp_versions ?pc1 = \<lparr>vmm_from = None, vmm_to = None\<rparr> \<and> pcmp_type ?pc1 \<noteq> PodMismatchVersion"
    using process_annotation_fold [of SeverityCritical ?pc0 critical_annotations] D
    by (simp add: max_def)
  have second: "pcmp_annotations (processAnnotations ?pc0) =
         filter ?D (critical_annotations @ warning_annotations)
       \<and> pcmp_severity (processAnnotations ?pc0) =
           (if list_ex ?D critical_annotations then SeverityCritical
            else if ?D PodOperatorManagedFieldsHashAnnotation then SeverityWarning else NoMismatch)
       \<and> pcmp_versions (processAnnotations ?pc0) = \<lparr>vmm_from = None, vmm_to = None\<rparr>
       \<and> pcmp_type (processAnnotations ?pc0) \<noteq> PodMismatchVersion"
    using process_annotation_fold [of SeverityWarning ?pc1 warning_annotations] first D
    by (auto simp: processAnnotations_def warning_annotations_def max_def)
  have img: "image_differs current desired \<longleftrightarrow> c_image c \<noteq> c_image d"
    by (simp add: image_differs_def c d)
  have all: "list_all (\<lambda>a. \<not> ?D a) (critical_annotations @ warning_annotations) \<longleftrightarrow>
             \<not> list_ex ?D critical_annotations \<and> \<not> ?D PodOperatorManagedFieldsHashAnnotation"
    by (auto simp: list_all_iff list_ex_iff warning_annotations_def)
  show ?thesis
    unfolding Inr sum.case img all
    using second
    by (simp add: c d pc processHumioContainerImages_def processEnvironmentVariables_def setDoesNotMatch_def
        HasCriticalMismatch_def HasWarningMismatch_def Matches_def MismatchedAnnotations_def
        MismatchedHumioVersions_def)
qed

text \<open>
  The verdict of a pod comparison. It fails exactly when a pod has no LogScale
  container; otherwise the mismatch is critical exactly when one of the five annotations that
  require a restart or the image of the LogScale container differs, it is a warning exactly when
  nothing of that differs but the hash of the operator-managed fields does, and the pod matches
  exactly when all six annotations and the image agree. A version mismatch is reported exactly when
  the image differs, with the versions of the two images, and the mismatched annotations are those
  that differ.
\<close>

lemma pod_comparison_verdict:
  "case NewPodComparison L hnp current desired of
     Inl e \<Rightarrow> humio_container current = None \<or> humio_container desired = None
   | Inr pc \<Rightarrow>
       humio_container current \<noteq> None \<and> humio_container desired \<noteq> None
       \<and> HasCriticalMismatch pc =
           (list_ex (annotation_differs current desired) critical_annotations \<or> image_differs current desired)
       \<and> HasWarningMismatch pc =
           (\<not> HasCriticalMismatch pc \<and> annotation_differs current desired PodOperatorManagedFieldsHashAnnotation)
       \<and> Matches pc =
           (list_all (\<lambda>a. \<not> annotation_differs current desired a) (critical_annotations @ warning_annotations)
            \<and> \<not> image_differs current desired)
       \<and> set (MismatchedAnnotations pc) =
           set (filter (annotation_differs current desired) (critical_annotations @ warning_annotations))
       \<and> fst (MismatchedHumioVersions pc) = image_differs current desired
       \<and> snd (MismatchedHumioVersions pc) =
            (if image_differs current desired
             then \<lparr>vmm_from = map_option (\<lambda>c. HumioVersionFromString L (c_image c)) (humio_container current),
                   vmm_to = map_option (\<lambda>c. HumioVersionFromString L (c_image c)) (humio_container desired)\<rparr>
             else \<lparr>vmm_from = None, vmm_to = None\<rparr>)"
  by (rule comparison_verdict)

text \<open>The same, for the users of a comparison.\<close>

lemma comparison_matches:
  assumes "NewPodComparison L hnp current desired = Inr pc"
  shows "Matches pc \<longleftrightarrow>
           list_all (\<lambda>a. \<not> annotation_differs current desired a) (critical_annotations @ warning_annotations)
           \<and> \<not> image_differs current desired"
    and "HasCriticalMismatch pc \<longleftrightarrow>
           list_ex (annotation_differs current desired) critical_annotations \<or> image_differs current desired"
    and "HasWarningMismatch pc \<Longrightarrow> \<not> HasCriticalMismatch pc"
    and "fst (MismatchedHumioVersions pc) = image_differs current desired"
    and "set (MismatchedAnnotations pc) =
           set (filter (annotation_differs current desired) (critical_annotations @ warning_annotations))"
  using comparison_verdict [where L = L and hnp = hnp and current = current and desired = desired]
  unfolding assms sum.case by blast+

lemma comparison_exists:
  "humio_container current \<noteq> None \<Longrightarrow> humio_container desired \<noteq> None \<Longrightarrow>
   \<exists>pc. NewPodComparison L hnp current desired = Inr pc"
  using comparison_verdict [where L = L and hnp = hnp and current = current and desired = desired]
  by (cases "NewPodComparison L hnp current desired") auto

text \<open>The mismatched variables are exactly those whose values differ, absent ones included.\<close>

lemma mismatched_env_exact:
  assumes "NewPodComparison L hnp current desired = Inr pc"
    and "humio_container current = Some c" and "humio_container desired = Some d"
  shows "MismatchedEnvironmentVariables pc =
           {n. env_map (c_env (sanitized_container L hnp c)) n \<noteq> env_map (c_env (sanitized_container L hnp d)) n}"
proof -
  have "pcmp_env (processAnnotations pc0) = pcmp_env pc0" for pc0
    using process_annotation_fold [of SeverityWarning _ warning_annotations]
      process_annotation_fold [of SeverityCritical pc0 critical_annotations]
    by (simp add: processAnnotations_def)
  then show ?thesis
    using assms
    by (auto elim!: NewPodComparison_cases simp: MismatchedEnvironmentVariables_def env_map_def
        processHumioContainerImages_def setDoesNotMatch_def processEnvironmentVariables_def
        split: if_splits) (metis imageI)+
qed

end
