(* ===== verification/Pvcs.thy ===== *)
theory Pvcs
  imports Pod_Compare "HOL-Library.Product_Lexorder"
begin

text \<open>
  Persistent volume claims: internal/controller/humiocluster_persistent_volumes.go, the claim
  functions of humiocluster_controller.go (orphaned claims, creation of claims) and of
  humiocluster_pods.go (the volume of a new pod, the pod of a claim).
\<close>

definition ClaimBound :: string where "ClaimBound = ''Bound''"
definition ClaimPending :: string where "ClaimPending = ''Pending''"
definition waitForPvcTimeoutSeconds :: nat where "waitForPvcTimeoutSeconds = 30"

section \<open>Claims and pods\<close>

text \<open>Whether a pod mounts the claim as its data volume.\<close>

definition uses_claim :: "pod \<Rightarrow> string \<Rightarrow> bool" where
  "uses_claim pd name \<longleftrightarrow>
     list_ex (\<lambda>v. v_name v = HumioDataVolumeName \<and> vs_pvc (v_source v) = Some name) (ps_volumes (p_spec pd))"

definition FindPvcForPod :: "pvc list \<Rightarrow> pod \<Rightarrow> go_error + pvc" where
  "FindPvcForPod pvcList pd =
     (case find (\<lambda>c. uses_claim pd (pvc_name c)) pvcList of
        Some c \<Rightarrow> Inr c
      | None \<Rightarrow> Inl (Msg (''could not find a pvc for pod '' @ p_name pd)))"

text \<open>The claim names the pods mount, and the order of \<open>sort.Slice\<close>: bound claims first, then by name.\<close>

definition claims_in_use :: "pod list \<Rightarrow> string list" where
  "claims_in_use podList = concat (map (\<lambda>pd.
     concat (map (\<lambda>v. if v_name v = HumioDataVolumeName
                      then (case vs_pvc (v_source v) of None \<Rightarrow> [] | Some n \<Rightarrow> [n]) else [])
       (ps_volumes (p_spec pd)))) podList)"

definition pvc_order :: "pvc \<Rightarrow> bool \<times> string" where
  "pvc_order c = (pvc_phase c \<noteq> ClaimBound, pvc_name c)"

text \<open>
  The map of names in use is shared with the caller, so it is returned; \<open>None\<close> is the nil map.
\<close>

definition FindNextAvailablePvc ::
  "pvc list \<Rightarrow> pod list \<Rightarrow> string set option \<Rightarrow> (go_error + string) \<times> string set option" where
  "FindNextAvailablePvc pvcList podList pvcClaimNamesInUse =
     (case pvcClaimNamesInUse of
        None \<Rightarrow> (Inl (Msg ''pvcClaimNamesInUse must not be nil''), None)
      | Some inUse \<Rightarrow>
          let inUse = inUse \<union> set (claims_in_use podList)
          in (case find (\<lambda>c. pvc_name c \<notin> inUse) (sort_key pvc_order pvcList) of
                Some c \<Rightarrow> Inr (pvc_name c)
              | None \<Rightarrow> Inl (Msg ''no available pvcs''), Some inUse))"

definition findAvailableVolumeSourceForPod ::
  "node_pool \<Rightarrow> pod list \<Rightarrow> pvc list \<Rightarrow> string set option \<Rightarrow> (go_error + volume_source) \<times> string set option" where
  "findAvailableVolumeSourceForPod hnp podList pvcList inUse =
     (if PVCsEnabled hnp \<and> GetDataVolumeSource hnp \<noteq> empty_volume_source
      then (Inl (Msg ''cannot have both dataVolumePersistentVolumeClaimSpecTemplate and dataVolumeSource defined''), inUse)
      else if PVCsEnabled hnp
      then (case FindNextAvailablePvc pvcList podList inUse of
              (Inl err, inUse) \<Rightarrow> (Inl err, inUse)
            | (Inr pvcName, inUse) \<Rightarrow>
                (Inr (GetDataVolumePersistentVolumeClaimSpecTemplate hnp pvcName), inUse))
      else (Inr (GetDataVolumeSource hnp), inUse))"

text \<open>
  \<open>findPodForPvc\<close> as written: the first pod for which \<open>FindPvcForPod\<close> returns an error. It
  returns both a pod and an error, the empty pod with an error.
\<close>

definition findPodForPvc :: "pod list \<Rightarrow> pvc \<Rightarrow> pod \<times> go_error option" where
  "findPodForPvc podList c =
     (case find (\<lambda>pd. case FindPvcForPod [c] pd of Inl err \<Rightarrow> True | Inr x \<Rightarrow> False) podList of
        Some pd \<Rightarrow> (pd, None)
      | None \<Rightarrow> (empty_pod, Some (Msg (''could not find a pod for pvc '' @ pvc_name c))))"

section \<open>Schedulable claims\<close>

text \<open>The node a local volume is bound to, as the first value of the first expression.\<close>

definition pv_node_name :: "persistent_volume \<Rightarrow> go_error + string" where
  "pv_node_name pv =
     (case pv_node_affinity pv of
        None \<Rightarrow> Inr []
      | Some None \<Rightarrow> Inl (Panic ''nil Required'')
      | Some (Some terms) \<Rightarrow>
          (case terms of
             (expr # es) # ts \<Rightarrow> (case expr of v # vs \<Rightarrow> Inr v | [] \<Rightarrow> Inr [])
           | _ \<Rightarrow> Inr []))"

definition pvc_schedulable :: "'w kube \<Rightarrow> pvc \<Rightarrow> ('w st, go_error, bool) step" where
  "pvc_schedulable K c =
     (if pvc_deletion_timestamp c \<noteq> None then ret False
      else if pvc_phase c = ClaimPending then ret True
      else
        and_then (log_error (''failed to get persistent volume '' @ pvc_volume_name c)
                   (query (k_get_pv K (pvc_volume_name c)))) (\<lambda>pv.
        if \<not> pv_local pv then ret True
        else (case pv_node_name pv of
                Inl p \<Rightarrow> exit_with p
              | Inr nodeName \<Rightarrow>
                  if nodeName = [] then exit_with (Msg ''node name not found in PV spec'')
                  else and_then (log_error (''failed to get node '' @ nodeName)
                                  (query (k_get_node K nodeName))) (\<lambda>n.
                       ret (\<not> node_unschedulable n)))))"

text \<open>A filter whose test is a step.\<close>

fun filter_step :: "('a \<Rightarrow> ('s, 'r, bool) step) \<Rightarrow> 'a list \<Rightarrow> ('s, 'r, 'a list) step" where
  "filter_step f [] = ret []"
| "filter_step f (x # xs) =
     and_then (f x) (\<lambda>keep. and_then (filter_step f xs) (\<lambda>ys. ret (if keep then x # ys else ys)))"

definition FilterSchedulablePVCs :: "'w kube \<Rightarrow> pvc list \<Rightarrow> ('w st, go_error, pvc list) step" where
  "FilterSchedulablePVCs K = filter_step (pvc_schedulable K)"

definition pvcList :: "'w kube \<Rightarrow> node_pool \<Rightarrow> ('w st, go_error, pvc list) step" where
  "pvcList K hnp =
     (if PVCsEnabled hnp
      then and_then (query (k_list_pvcs K (GetNamespace hnp) (GetNodePoolLabels hnp))) (FilterSchedulablePVCs K)
      else ret [])"

section \<open>Orphaned claims\<close>

text \<open>The node a claim's pod ran on according to the pod or to the status, looked up.\<close>

definition node_is_gone :: "'w kube \<Rightarrow> string \<Rightarrow> ('w st, go_error, bool) step" where
  "node_is_gone K nodeName s =
     (case query (k_get_node K nodeName) s of
        (Inr n, s') \<Rightarrow> (Inr False, s')
      | (Inl err, s') \<Rightarrow>
          (if is_not_found err then Inr True
           else Inl (Wrap (''could not get node '' @ nodeName) (Some err)), s'))"

fun orphaned_by_status :: "'w kube \<Rightarrow> string \<Rightarrow> humio_pod_status list \<Rightarrow> ('w st, go_error, bool) step" where
  "orphaned_by_status K name [] = ret False"
| "orphaned_by_status K name (podStatus # rest) =
     (if hps_pvc_name podStatus = name \<and> hps_node_name podStatus \<noteq> []
      then and_then (node_is_gone K (hps_node_name podStatus)) (\<lambda>gone.
           if gone then ret True else orphaned_by_status K name rest)
      else orphaned_by_status K name rest)"

definition isPvcOrphaned :: "'w kube \<Rightarrow> node_pool \<Rightarrow> pvc \<Rightarrow> ('w st, go_error, bool) step" where
  "isPvcOrphaned K hnp c =
     and_then (log_error ''could not list pods''
                (query (k_list_pods K (GetNamespace hnp) (GetCommonClusterLabels hnp)))) (\<lambda>podList.
     (let (pd, err) = findPodForPvc podList c
      in if err \<noteq> None \<and> ps_node_name (p_spec pd) \<noteq> []
         then node_is_gone K (ps_node_name (p_spec pd))
         else and_then get_hc (\<lambda>hc. orphaned_by_status K (pvc_name c) (st_pod_status (hc_status hc)))))"

text \<open>The two results of \<open>isPodAttachedToOrphanedPvc\<close> are both used by its caller.\<close>

definition isPodAttachedToOrphanedPvc ::
  "'w kube \<Rightarrow> node_pool \<Rightarrow> pod \<Rightarrow> 'w st \<Rightarrow> (bool \<times> go_error option) \<times> 'w st" where
  "isPodAttachedToOrphanedPvc K hnp pd s =
     (case pvcList K hnp s of
        (Inl err, s) \<Rightarrow> ((False, Some (Wrap ''failed to list pvcs'' (Some err))), s)
      | (Inr pvcs, s) \<Rightarrow>
          (case FindPvcForPod pvcs pd of
             Inl err \<Rightarrow> ((True, Some (Wrap ''could not find pvc for pod'' (Some err))), s)
           | Inr c \<Rightarrow>
               (case isPvcOrphaned K hnp c s of
                  (Inl err, s) \<Rightarrow> ((False, Some (Wrap ''could not check if pvc is orphaned'' (Some err))), s)
                | (Inr orphaned, s) \<Rightarrow> ((orphaned, None), s))))"

definition delete_pvc_if_orphaned :: "'w kube \<Rightarrow> node_pool \<Rightarrow> pvc \<Rightarrow> ('w st, go_error, unit) step" where
  "delete_pvc_if_orphaned K hnp c =
     and_then (log_error ''could not check if pvc is orphaned'' (isPvcOrphaned K hnp c)) (\<lambda>pvcOrphaned.
     if pvcOrphaned \<and> pvc_deletion_timestamp c = None
     then log_error (''cloud not delete pvc '' @ pvc_name c) (act (DeletePvc c) (k_delete_pvc K c))
     else ret ())"

definition ensureOrphanedPvcsAreDeleted :: "'w kube \<Rightarrow> node_pool \<Rightarrow> ('w st, go_error, unit) step" where
  "ensureOrphanedPvcsAreDeleted K hnp =
     (if OkToDeletePvc hnp
      then and_then get_hc (\<lambda>hc.
           and_then (log_error ''failed to list pvcs''
                      (query (k_list_pvcs K (hc_namespace hc) (GetNodePoolLabels hnp)))) (\<lambda>pvcs.
           for_each (delete_pvc_if_orphaned K hnp) pvcs))
      else ret ())"

section \<open>Creation of claims\<close>

fun waitForNewPvc_loop :: "'w kube \<Rightarrow> node_pool \<Rightarrow> string \<Rightarrow> nat \<Rightarrow> ('w st, go_error, unit) step" where
  "waitForNewPvc_loop K hnp name 0 =
     exit_with (Msg (''timed out waiting to validate new pvc with name '' @ name @ '' was created''))"
| "waitForNewPvc_loop K hnp name (Suc n) =
     and_then (on_error (query (k_list_pvcs K (GetNamespace hnp) (GetNodePoolLabels hnp)))
                (\<lambda>err. exit_with (Wrap ''failed to list pvcs'' (Some err)))) (\<lambda>latestPvcList.
     if list_ex (\<lambda>c. pvc_name c = name) latestPvcList then ret ()
     else and_then (pick (\<lambda>w. ((), k_sleep K second w))) (\<lambda>_. waitForNewPvc_loop K hnp name n))"

definition waitForNewPvc :: "'w kube \<Rightarrow> node_pool \<Rightarrow> string \<Rightarrow> ('w st, go_error, unit) step" where
  "waitForNewPvc K hnp name = waitForNewPvc_loop K hnp name waitForPvcTimeoutSeconds"

definition constructPersistentVolumeClaim_name :: "'w kube \<Rightarrow> node_pool \<Rightarrow> ('w st, go_error, string) step" where
  "constructPersistentVolumeClaim_name K hnp =
     and_then (pick (k_random_string K)) (\<lambda>r. ret (GetNodePoolName hnp @ ''-core-'' @ r))"

definition ensurePersistentVolumeClaimsExist :: "'w kube \<Rightarrow> node_pool \<Rightarrow> ('w st, go_error, unit) step" where
  "ensurePersistentVolumeClaimsExist K hnp =
     (if \<not> PVCsEnabled hnp then ret ()
      else
        and_then (log_error ''failed to list pvcs''
                   (query (k_list_pvcs K (GetNamespace hnp) (GetNodePoolLabels hnp)))) (\<lambda>found.
        and_then (log_error ''failed to filter pvcs'' (FilterSchedulablePVCs K found)) (\<lambda>filtered.
        if int (length filtered) < GetNodeCount hnp
        then and_then (constructPersistentVolumeClaim_name K hnp) (\<lambda>name.
             and_then (log_error ''unable to create pvc'' (act (CreatePvc name) (k_create_pvc K name hnp))) (\<lambda>_.
             log_error ''unable to create pvc'' (waitForNewPvc K hnp name)))
        else ret ())))"

section \<open>The choice of a claim\<close>

lemma claims_in_use_iff: "n \<in> set (claims_in_use pods) \<longleftrightarrow> (\<exists>pd\<in>set pods. uses_claim pd n)"
  by (force simp: claims_in_use_def uses_claim_def list_ex_iff split: if_splits option.splits)

lemma find_sorted_least:
  assumes "find P (sort_key f xs) = Some x" and "y \<in> set xs" and "P y"
  shows "f x \<le> f y"
proof -
  obtain i where i: "i < length (sort_key f xs)" "x = sort_key f xs ! i"
      "\<forall>j<i. \<not> P (sort_key f xs ! j)"
    using assms(1) by (auto simp: find_Some_iff)
  obtain j where j: "j < length (sort_key f xs)" "y = sort_key f xs ! j"
    using assms(2) by (metis in_set_conv_nth set_sort)
  then have "i \<le> j" using i(3) assms(3) not_less by blast
  moreover have "sorted (map f (sort_key f xs))" by simp
  ultimately have "map f (sort_key f xs) ! i \<le> map f (sort_key f xs) ! j"
    using j(1) by (intro sorted_nth_mono) simp_all
  then show ?thesis using i j by simp
qed

text \<open>
  Claim C14. \<open>FindNextAvailablePvc\<close> gives a new pod a claim that exists, that no listed pod mounts
  and that is not already promised, preferring bound claims and then the smallest name; it fails
  exactly when there is no such claim; and the names the pods mount are recorded as promised for
  the following calls.
\<close>

theorem next_available_pvc:
  assumes "FindNextAvailablePvc pvcs pods (Some promised) = (res, promised')"
  shows "promised' = Some (promised \<union> {n. \<exists>pd\<in>set pods. uses_claim pd n})
         \<and> (case res of
              Inl err \<Rightarrow> \<forall>c\<in>set pvcs. pvc_name c \<in> promised \<or> (\<exists>pd\<in>set pods. uses_claim pd (pvc_name c))
            | Inr name \<Rightarrow>
                \<exists>c\<in>set pvcs. pvc_name c = name \<and> name \<notin> promised \<and> (\<forall>pd\<in>set pods. \<not> uses_claim pd name)
                  \<and> (\<forall>d\<in>set pvcs. pvc_name d \<notin> promised \<and> (\<forall>pd\<in>set pods. \<not> uses_claim pd (pvc_name d))
                        \<longrightarrow> pvc_order c \<le> pvc_order d))"
proof -
  let ?used = "promised \<union> set (claims_in_use pods)"
  let ?P = "\<lambda>c. pvc_name c \<notin> ?used"
  have p: "promised' = Some ?used" and r: "res =
      (case find ?P (sort_key pvc_order pvcs) of Some c \<Rightarrow> Inr (pvc_name c)
       | None \<Rightarrow> Inl (Msg ''no available pvcs''))"
    using assms by (auto simp: FindNextAvailablePvc_def Let_def)
  have used: "?used = promised \<union> {n. \<exists>pd\<in>set pods. uses_claim pd n}"
    by (auto simp: claims_in_use_iff)
  show ?thesis
  proof (cases "find ?P (sort_key pvc_order pvcs)")
    case None
    then have "\<forall>c\<in>set pvcs. pvc_name c \<in> ?used" by (auto simp: find_None_iff)
    with None r p used show ?thesis by auto
  next
    case (Some c)
    have "c \<in> set pvcs" "pvc_name c \<notin> ?used" using find_Some_first [OF Some] by auto
    moreover have "pvc_order c \<le> pvc_order d" if "d \<in> set pvcs" "pvc_name d \<notin> ?used" for d
      using find_sorted_least [OF Some] that by simp
    ultimately show ?thesis using Some r p used by auto
  qed
qed

lemma next_available_pvc_witness:
  "let c = \<lparr>pvc_name = ''a'', pvc_phase = ''Pending'', pvc_deletion_timestamp = None, pvc_volume_name = [], pvc_labels = Map.empty\<rparr>;
       d = \<lparr>pvc_name = ''b'', pvc_phase = ''Bound'', pvc_deletion_timestamp = None, pvc_volume_name = [], pvc_labels = Map.empty\<rparr>
   in fst (FindNextAvailablePvc [c, d] [] (Some {})) = Inr ''b''"
proof -
  let ?c = "\<lparr>pvc_name = ''a'', pvc_phase = ''Pending'', pvc_deletion_timestamp = None, pvc_volume_name = [], pvc_labels = Map.empty\<rparr> :: pvc"
  let ?d = "\<lparr>pvc_name = ''b'', pvc_phase = ''Bound'', pvc_deletion_timestamp = None, pvc_volume_name = [], pvc_labels = Map.empty\<rparr> :: pvc"
  obtain res promised' where run: "FindNextAvailablePvc [?c, ?d] [] (Some {}) = (res, promised')" by fastforce
  have "\<not> pvc_order ?c \<le> pvc_order ?d" by (simp add: pvc_order_def ClaimBound_def less_eq_prod_def)
  with next_available_pvc [OF run] run show ?thesis by (auto simp: Let_def split: sum.splits)
qed

section \<open>When a claim counts as orphaned\<close>

lemma findPodForPvc_error: "snd (findPodForPvc pods c) \<noteq> None \<Longrightarrow> fst (findPodForPvc pods c) = empty_pod"
  by (auto simp: findPodForPvc_def split: option.splits)

lemma isPvcOrphaned_by_status:
  "isPvcOrphaned K hnp c =
     and_then (log_error ''could not list pods''
                (query (k_list_pods K (GetNamespace hnp) (GetCommonClusterLabels hnp)))) (\<lambda>podList.
     and_then get_hc (\<lambda>hc. orphaned_by_status K (pvc_name c) (st_pod_status (hc_status hc))))"
proof -
  have "(let (pd, err) = findPodForPvc pods c
         in if err \<noteq> None \<and> ps_node_name (p_spec pd) \<noteq> []
            then node_is_gone K (ps_node_name (p_spec pd)) else m) = m" for pods and m
    using findPodForPvc_error [of pods c]
    by (cases "findPodForPvc pods c") (auto simp: empty_pod_def empty_pod_spec_def)
  then show ?thesis by (simp add: isPvcOrphaned_def)
qed

lemma node_is_gone_frame [simp]:
  "hc_obj (snd (node_is_gone K n s)) = hc_obj s" "calls (snd (node_is_gone K n s)) = calls s"
  by (simp_all add: node_is_gone_def query_def split: prod.split sum.split)

lemma orphaned_by_status_true:
  "orphaned_by_status K name l s = (Inr True, s') \<Longrightarrow>
   \<exists>ps\<in>set l. hps_pvc_name ps = name \<and> hps_node_name ps \<noteq> []
     \<and> (\<exists>t. fst (node_is_gone K (hps_node_name ps) t) = Inr True)"
proof (induction l arbitrary: s)
  case Nil
  then show ?case by (simp add: ret_def)
next
  case (Cons ps l)
  show ?case
  proof (cases "hps_pvc_name ps = name \<and> hps_node_name ps \<noteq> []")
    case True
    then obtain b t where b: "node_is_gone K (hps_node_name ps) s = (Inr b, t)"
        "(if b then ret True else orphaned_by_status K name l) t = (Inr True, s')"
      using Cons.prems by (auto simp: and_then_Inr)
    show ?thesis
    proof (cases b)
      case True
      then have "fst (node_is_gone K (hps_node_name ps) s) = Inr True" using b by simp
      with \<open>hps_pvc_name ps = name \<and> hps_node_name ps \<noteq> []\<close> show ?thesis by auto
    next
      case False
      with b Cons.IH [of t] show ?thesis by auto
    qed
  next
    case False
    then have "orphaned_by_status K name l s = (Inr True, s')" using Cons.prems by auto
    with Cons.IH show ?thesis by (meson list.set_intros(2))
  qed
qed

lemma orphaned_frame:
  "hc_obj (snd (orphaned_by_status K name l s)) = hc_obj s \<and> calls (snd (orphaned_by_status K name l s)) = calls s"
proof (induction l arbitrary: s)
  case Nil
  show ?case by (simp add: ret_def)
next
  case (Cons ps l)
  have "hc_obj t = hc_obj s \<and> calls t = calls s" if "node_is_gone K n s = (r, t)" for n r t
    using node_is_gone_frame [of K n s] that by simp
  with Cons show ?case
    by (auto simp: and_then_def ret_def split: prod.split sum.split)
qed

text \<open>The nodes the operator found missing: a lookup of theirs answers not found.\<close>

definition may_be_gone :: "'w kube \<Rightarrow> string \<Rightarrow> bool" where
  "may_be_gone K n \<longleftrightarrow> (\<exists>w e. fst (k_get_node K n w) = Inl e \<and> is_not_found e)"

lemma node_is_gone_true: "fst (node_is_gone K n t) = Inr True \<Longrightarrow> may_be_gone K n"
  by (auto simp: node_is_gone_def query_def may_be_gone_def split: sum.splits if_splits)

definition lost_claim :: "'w kube \<Rightarrow> humio_cluster \<Rightarrow> string \<Rightarrow> bool" where
  "lost_claim K hc name \<longleftrightarrow>
     (\<exists>ps\<in>set (st_pod_status (hc_status hc)). hps_pvc_name ps = name \<and> hps_node_name ps \<noteq> []
        \<and> may_be_gone K (hps_node_name ps))"

lemma orphaned_adds: "adds_from (hc_is hc) P (orphaned_by_status K name l)"
  using orphaned_frame [of K name l] by (auto simp: adds_from_def hc_is_def)

lemma isPvcOrphaned_adds: "adds_from (hc_is hc) P (isPvcOrphaned K hnp c)"
  unfolding isPvcOrphaned_by_status
  by (intro adds_from_and_then adds_from_log_error adds_from_calls adds_from_simple orphaned_adds)

lemma isPvcOrphaned_true:
  assumes "returns_from (hc_is hc) (isPvcOrphaned K hnp c) True"
  shows "lost_claim K hc (pvc_name c)"
proof -
  obtain s s' where I: "hc_obj s = hc" and run: "isPvcOrphaned K hnp c s = (Inr True, s')"
    using assms by (auto simp: returns_from_def hc_is_def)
  then obtain t where "orphaned_by_status K (pvc_name c) (st_pod_status (hc_status (hc_obj t))) t = (Inr True, s')"
      and "hc_obj t = hc_obj s"
    by (auto simp: isPvcOrphaned_by_status and_then_Inr log_error_def on_error_Inr exit_with_def query_def
        get_hc_def)
  with I show ?thesis
    using orphaned_by_status_true node_is_gone_true unfolding lost_claim_def by metis
qed

definition deletes_lost_claim :: "'w kube \<Rightarrow> humio_cluster \<Rightarrow> api_call \<Rightarrow> bool" where
  "deletes_lost_claim K hc call \<longleftrightarrow>
     (\<exists>c. call = DeletePvc c \<and> pvc_deletion_timestamp c = None \<and> lost_claim K hc (pvc_name c))"

lemma delete_pvc_adds: "adds_from (hc_is hc) (deletes_lost_claim K hc) (delete_pvc_if_orphaned K hnp c)"
  unfolding delete_pvc_if_orphaned_def
proof (rule adds_from_and_then)
  show "adds_from (hc_is hc) (deletes_lost_claim K hc)
          (log_error ''could not check if pvc is orphaned'' (isPvcOrphaned K hnp c))"
    by (rule adds_from_log_error) (rule isPvcOrphaned_adds)
  fix orphaned
  assume "returns_from (hc_is hc) (log_error ''could not check if pvc is orphaned'' (isPvcOrphaned K hnp c)) orphaned"
  then have "orphaned \<Longrightarrow> lost_claim K hc (pvc_name c)"
    by (simp add: returns_from_log_error isPvcOrphaned_true)
  then show "adds_from (hc_is hc) (deletes_lost_claim K hc)
     (if orphaned \<and> pvc_deletion_timestamp c = None
      then log_error (''cloud not delete pvc '' @ pvc_name c) (act (DeletePvc c) (k_delete_pvc K c)) else ret ())"
    by (intro adds_from_if adds_from_log_error adds_from_calls adds_from_simple)
       (auto simp: deletes_lost_claim_def)
qed

lemma orphaned_adds_from:
  "adds_from (hc_is hc) (\<lambda>call. OkToDeletePvc hnp \<and> deletes_lost_claim K hc call) (ensureOrphanedPvcsAreDeleted K hnp)"
proof (cases "OkToDeletePvc hnp")
  case False
  then show ?thesis by (simp add: ensureOrphanedPvcsAreDeleted_def adds_from_simple)
next
  case True
  then show ?thesis
    unfolding ensureOrphanedPvcsAreDeleted_def
    by (simp, intro adds_from_and_then adds_from_log_error adds_from_calls adds_from_simple
        adds_from_for_each delete_pvc_adds)
qed

text \<open>
  Claim C8. Data is deleted only when it is lost: the only mutating calls
  \<open>ensureOrphanedPvcsAreDeleted\<close> makes are deletions of claims that are not already being deleted
  and that the cluster status records for a pod on a worker node whose lookup answers that the
  node does not exist; without the reclaim policy \<open>OnNodeDelete\<close> it makes none.
\<close>

theorem orphaned_pvc_deletion_safe:
  "\<exists>cs. calls (snd (ensureOrphanedPvcsAreDeleted K hnp s)) = calls s @ cs
      \<and> list_all (\<lambda>call. OkToDeletePvc hnp \<and> deletes_lost_claim K (hc_obj s) call) cs"
  using orphaned_adds_from [of "hc_obj s" hnp K] by (auto simp: adds_from_def hc_is_def)

end
