(* ===== verification/Pod_Status.thy ===== *)
theory Pod_Status
  imports Pvcs
begin

text \<open>
  The status of a node pool's pods: internal/controller/humiocluster_pod_status.go.
  \<open>getPodsStatus\<close> walks the pods in the order of their names, counts the ready ones, and collects
  those in error and those that must be cleaned up. \<open>sort.Slice\<close> sorts the caller's slice, so the
  sorted list is returned as well.
\<close>

record pods_status =
  pst_node_count :: int
  pst_ready_count :: int
  pst_not_ready_count :: int
  pst_not_ready_due_to_min_ready_seconds :: int
  pst_pod_revisions :: "int list"
  pst_pod_image_versions :: "string list"
  pst_pod_deletion_timestamp_set :: "bool list"
  pst_pod_names :: "string list"
  pst_bad_status :: "pod list"       \<comment> \<open>\<open>podAreUnschedulableOrHaveBadStatusConditions\<close>\<close>
  pst_evicted :: "pod list"          \<comment> \<open>\<open>podsEvictedOrUsesPVCAttachedToHostThatNoLongerExists\<close>\<close>
  pst_pods_ready :: "pod list"
  pst_scaled_max_unavailable :: int
  pst_min_ready_seconds :: int

definition containerStateCreating :: string where "containerStateCreating = ''ContainerCreating''"
definition containerStateCompleted :: string where "containerStateCompleted = ''Completed''"
definition podInitializing :: string where "podInitializing = ''PodInitializing''"
definition PodConditionReasonUnschedulable :: string where
  "PodConditionReasonUnschedulable = ''Unschedulable''"
definition podConditionReasonEvicted :: string where "podConditionReasonEvicted = ''Evicted''"
definition PodReady :: string where "PodReady = ''Ready''"
definition ConditionTrue :: string where "ConditionTrue = ''True''"
definition ConditionFalse :: string where "ConditionFalse = ''False''"
definition PodFailed :: string where "PodFailed = ''Failed''"
definition PodPending :: string where "PodPending = ''Pending''"

definition MaximumMinReadyRequeue :: duration where
  "MaximumMinReadyRequeue = 300 * second"

section \<open>Time a pod must still wait\<close>

text \<open>\<open>t.After(u)\<close> for a time \<open>t\<close> that is not zero; every such time is after the zero time.\<close>

definition time_after :: "time \<Rightarrow> time option \<Rightarrow> bool" where
  "time_after t u = (case u of None \<Rightarrow> True | Some u' \<Rightarrow> u' < t)"

fun latest_loop :: "nat \<Rightarrow> pod_condition list \<Rightarrow> time option \<Rightarrow> time option" where
  "latest_loop idx [] mostRecent = mostRecent"
| "latest_loop idx (c # cs) mostRecent =
     (case pc_last_transition_time c of
        None \<Rightarrow> latest_loop (Suc idx) cs mostRecent
      | Some t \<Rightarrow> latest_loop (Suc idx) cs (if idx = 0 \<or> time_after t mostRecent then Some t else mostRecent))"

definition latestTransitionTime :: "pod_condition list \<Rightarrow> time option" where
  "latestTransitionTime conditions =
     (case conditions of [] \<Rightarrow> None | c # cs \<Rightarrow> latest_loop 0 conditions (pc_last_transition_time c))"

definition ready_conditions :: "pod \<Rightarrow> pod_condition list" where
  "ready_conditions pd = filter (\<lambda>c. pc_type c = PodReady \<and> pc_status c = ConditionTrue) (p_conditions pd)"

definition milliseconds :: "duration \<Rightarrow> int" where
  "milliseconds d = quot d 1000000"

definition remaining_wait :: "int \<Rightarrow> time \<Rightarrow> time \<Rightarrow> duration" where
  "remaining_wait minReadySeconds latest now =
     (let diff = milliseconds (now - latest);
          minRdy = milliseconds (second * minReadySeconds)
      in if diff \<le> minRdy then min (second * quot (minRdy - diff) 1000) MaximumMinReadyRequeue
         else -1)"

definition remainingMinReadyWaitTime ::
  "'w kube \<Rightarrow> pods_status \<Rightarrow> pod \<Rightarrow> ('w st, go_error, duration) step" where
  "remainingMinReadyWaitTime K status pd =
     (case latestTransitionTime (ready_conditions pd) of
        None \<Rightarrow> ret (-1)
      | Some latest \<Rightarrow>
          and_then (pick (k_now K)) (\<lambda>now. ret (remaining_wait (pst_min_ready_seconds status) latest now)))"

section \<open>getPodsStatus\<close>

text \<open>One entry of \<open>ContainerStatuses\<close>; a pod is appended once per state in error.\<close>

definition add_container_errors :: "pod \<Rightarrow> container_status \<Rightarrow> pods_status \<Rightarrow> pods_status" where
  "add_container_errors pd cs status =
     (let status = (case cs_waiting cs of
             Some reason \<Rightarrow> if reason \<noteq> containerStateCreating \<and> reason \<noteq> podInitializing
                            then status\<lparr>pst_bad_status := pst_bad_status status @ [pd]\<rparr> else status
           | None \<Rightarrow> status)
      in case cs_terminated cs of
           Some reason \<Rightarrow> if reason \<noteq> containerStateCompleted
                          then status\<lparr>pst_bad_status := pst_bad_status status @ [pd]\<rparr> else status
         | None \<Rightarrow> status)"

definition process_condition ::
  "'w kube \<Rightarrow> pod \<Rightarrow> pod_condition \<Rightarrow> pods_status \<Rightarrow> ('w st, go_error, pods_status) step" where
  "process_condition K pd condition status =
     (if pc_status condition = ConditionFalse \<and> pc_reason condition = PodConditionReasonUnschedulable
      then ret (status\<lparr>pst_bad_status := pst_bad_status status @ [pd]\<rparr>)
      else if pc_type condition = PodReady
      then and_then (remainingMinReadyWaitTime K status pd) (\<lambda>remaining.
           if pc_status condition = ConditionTrue \<and> remaining \<le> 0
           then ret (status\<lparr>pst_pods_ready := pst_pods_ready status @ [pd],
                       pst_ready_count := pst_ready_count status + 1,
                       pst_not_ready_count := pst_not_ready_count status - 1\<rparr>)
           else
             let status = (if remaining > 0
                           then status\<lparr>pst_not_ready_due_to_min_ready_seconds :=
                                  pst_not_ready_due_to_min_ready_seconds status + 1\<rparr> else status)
             in ret (foldl (\<lambda>st cs. add_container_errors pd cs st) status (p_container_statuses pd)))
      else ret status)"

definition append_evicted :: "pod \<Rightarrow> pods_status \<Rightarrow> pods_status" where
  "append_evicted pd status = status\<lparr>pst_evicted := pst_evicted status @ [pd]\<rparr>"

text \<open>A pending pod whose claim's node is gone; an error together with \<open>deletePod\<close> is dropped.\<close>

definition check_pending ::
  "'w kube \<Rightarrow> node_pool \<Rightarrow> pod \<Rightarrow> pods_status \<Rightarrow> ('w st, go_error, pods_status) step" where
  "check_pending K hnp pd status =
     (if p_phase pd = PodPending
      then and_then (observe (isPodAttachedToOrphanedPvc K hnp pd)) (\<lambda>(deletePod, err).
           (case err of
              Some e \<Rightarrow> if \<not> deletePod
                        then exit_with (Wrap ''unable to determine whether pod should be deleted'' (Some e))
                        else ret (if deletePod \<and> OkToDeletePvc hnp then append_evicted pd status else status)
            | None \<Rightarrow> ret (if deletePod \<and> OkToDeletePvc hnp then append_evicted pd status else status)))
      else ret status)"

definition process_pod ::
  "'w kube \<Rightarrow> node_pool \<Rightarrow> pod \<Rightarrow> pods_status \<Rightarrow> ('w st, go_error, pods_status) step" where
  "process_pod K hnp pd status =
     (case atoi (map_get (p_annotations pd) PodRevisionAnnotation) of
        None \<Rightarrow> exit_with (Wrap (''unable to identify pod revision for pod '' @ p_name pd)
                  (Some (Msg ''strconv.Atoi'')))
      | Some podRevision \<Rightarrow>
          let humioIdx = (case GetContainerIndexByName pd ''humio'' of Inr i \<Rightarrow> i | Inl e \<Rightarrow> 0) in
          if ps_containers (p_spec pd) = [] then exit_with (Panic ''index out of range'')
          else
            let status = status\<lparr>
                  pst_pod_revisions := pst_pod_revisions status @ [podRevision],
                  pst_pod_deletion_timestamp_set :=
                    pst_pod_deletion_timestamp_set status @ [p_deletion_timestamp pd \<noteq> None],
                  pst_pod_names := pst_pod_names status @ [p_name pd],
                  pst_pod_image_versions :=
                    pst_pod_image_versions status @ [c_image (ps_containers (p_spec pd) ! humioIdx)]\<rparr>
            in if p_deletion_timestamp pd \<noteq> None then ret status
               else if p_phase pd = PodFailed \<and> p_reason pd = podConditionReasonEvicted
               then ret (append_evicted pd status)
               else and_then (check_pending K hnp pd status)
                      (fold_step (process_condition K pd) (p_conditions pd)))"

definition getPodsStatus ::
  "lib \<Rightarrow> 'w kube \<Rightarrow> node_pool \<Rightarrow> pod list \<Rightarrow> ('w st, go_error, pods_status \<times> pod list) step" where
  "getPodsStatus L K hnp foundPodList =
     (let updateStrategy = update_strategy_of hnp;
          foundPodList = sort_key p_name foundPodList
      in case x_scaled_value L (the (us_max_unavailable updateStrategy)) (GetNodeCount hnp) False of
           Inl err \<Rightarrow> exit_with (Msg ''unable to fetch rounded up scaled value for maxUnavailable'')
         | Inr scaled \<Rightarrow>
             let status = \<lparr>pst_node_count = GetNodeCount hnp, pst_ready_count = 0,
                   pst_not_ready_count = int (length foundPodList),
                   pst_not_ready_due_to_min_ready_seconds = 0, pst_pod_revisions = [],
                   pst_pod_image_versions = [], pst_pod_deletion_timestamp_set = [], pst_pod_names = [],
                   pst_bad_status = [], pst_evicted = [], pst_pods_ready = [],
                   pst_scaled_max_unavailable = max scaled 1,
                   pst_min_ready_seconds = us_min_ready_seconds updateStrategy\<rparr>
             in and_then (fold_step (process_pod K hnp) foundPodList status)
                  (\<lambda>status. ret (status, foundPodList)))"

section \<open>Questions asked of the status\<close>

definition haveUnschedulablePodsOrPodsWithBadStatusConditions :: "pods_status \<Rightarrow> bool" where
  "haveUnschedulablePodsOrPodsWithBadStatusConditions s \<longleftrightarrow> pst_bad_status s \<noteq> []"

definition foundEvictedPodsOrPodsWithOrpahanedPVCs :: "pods_status \<Rightarrow> bool" where
  "foundEvictedPodsOrPodsWithOrpahanedPVCs s \<longleftrightarrow> pst_evicted s \<noteq> []"

definition waitingOnPods :: "pods_status \<Rightarrow> bool" where
  "waitingOnPods s \<longleftrightarrow>
     (pst_ready_count s < pst_node_count s \<or> pst_not_ready_count s > 0)
     \<and> \<not> haveUnschedulablePodsOrPodsWithBadStatusConditions s
     \<and> \<not> foundEvictedPodsOrPodsWithOrpahanedPVCs s"

definition scaledMaxUnavailableMinusNotReadyDueToMinReadySeconds :: "pods_status \<Rightarrow> int" where
  "scaledMaxUnavailableMinusNotReadyDueToMinReadySeconds s =
     max (pst_scaled_max_unavailable s - pst_not_ready_due_to_min_ready_seconds s) 0"

definition podRevisionCountMatchesNodeCountAndAllPodsHaveRevision :: "pods_status \<Rightarrow> int \<Rightarrow> bool" where
  "podRevisionCountMatchesNodeCountAndAllPodsHaveRevision s podRevision =
     (if int (length (pst_pod_revisions s)) \<noteq> pst_node_count s then False
      else
        let numCorrectRevisionsFound =
              foldl (\<lambda>n i. if pst_pod_revisions s ! i = podRevision then n + 1 else n) (0::int)
                [0..<length (pst_pod_revisions s)]
        in numCorrectRevisionsFound = pst_node_count s)"

section \<open>What the walk over the pods establishes\<close>

text \<open>
  The effect of the conditions of one pod: it is counted ready \<open>k\<close> times, at most once per true
  \<open>Ready\<close> condition, and appended to the list of pods in error some number of times.
\<close>

definition with_effect :: "pod \<Rightarrow> nat \<Rightarrow> pod list \<Rightarrow> int \<Rightarrow> pods_status \<Rightarrow> pods_status" where
  "with_effect pd k bad m st =
     st\<lparr>pst_pods_ready := pst_pods_ready st @ replicate k pd,
        pst_ready_count := pst_ready_count st + int k,
        pst_not_ready_count := pst_not_ready_count st - int k,
        pst_bad_status := pst_bad_status st @ bad,
        pst_not_ready_due_to_min_ready_seconds := pst_not_ready_due_to_min_ready_seconds st + m\<rparr>"

definition pod_effect :: "pod \<Rightarrow> nat \<Rightarrow> pods_status \<Rightarrow> pods_status \<Rightarrow> bool" where
  "pod_effect pd limit st0 st \<longleftrightarrow>
     (\<exists>k bad m. k \<le> limit \<and> set bad \<subseteq> {pd} \<and> 0 \<le> m \<and> st = with_effect pd k bad m st0)"

lemma pod_effectI:
  "k \<le> n \<Longrightarrow> set bad \<subseteq> {pd} \<Longrightarrow> 0 \<le> m \<Longrightarrow> st = with_effect pd k bad m st0 \<Longrightarrow> pod_effect pd n st0 st"
  unfolding pod_effect_def by blast

lemma with_effect_with_effect:
  "with_effect pd k' bad' m' (with_effect pd k bad m st) = with_effect pd (k + k') (bad @ bad') (m + m') st"
  by (simp add: with_effect_def replicate_add)

lemma pod_effect_refl: "pod_effect pd 0 st st"
  by (rule pod_effectI [of 0 _ "[]" _ 0]) (simp_all add: with_effect_def)

lemma pod_effect_trans:
  assumes "pod_effect pd m st0 st1" and "pod_effect pd n st1 st2"
  shows "pod_effect pd (m + n) st0 st2"
proof -
  obtain k bad d where 1: "k \<le> m" "set bad \<subseteq> {pd}" "0 \<le> d" "st1 = with_effect pd k bad d st0"
    using assms(1) by (auto simp: pod_effect_def)
  obtain k' bad' d' where 2: "k' \<le> n" "set bad' \<subseteq> {pd}" "0 \<le> d'" "st2 = with_effect pd k' bad' d' st1"
    using assms(2) by (auto simp: pod_effect_def)
  show ?thesis
    by (rule pod_effectI [of "k + k'" _ "bad @ bad'" _ "d + d'"])
       (use 1 2 in \<open>simp_all add: with_effect_with_effect\<close>)
qed

lemma pod_effect_mono: "pod_effect pd m st st' \<Longrightarrow> m \<le> n \<Longrightarrow> pod_effect pd n st st'"
  unfolding pod_effect_def using order_trans by blast

lemma add_container_errors_effect: "pod_effect pd 0 st (add_container_errors pd cs st)"
proof -
  have "\<exists>bad. set bad \<subseteq> {pd} \<and> add_container_errors pd cs st = st\<lparr>pst_bad_status := pst_bad_status st @ bad\<rparr>"
    by (rule exI [of _ "(case cs_waiting cs of Some r \<Rightarrow> if r \<noteq> containerStateCreating \<and> r \<noteq> podInitializing
           then [pd] else [] | None \<Rightarrow> []) @
         (case cs_terminated cs of Some r \<Rightarrow> if r \<noteq> containerStateCompleted then [pd] else [] | None \<Rightarrow> [])"])
       (auto simp: add_container_errors_def Let_def split: option.splits)
  then obtain bad where "set bad \<subseteq> {pd}" "add_container_errors pd cs st = st\<lparr>pst_bad_status := pst_bad_status st @ bad\<rparr>"
    by blast
  then show ?thesis
    by (intro pod_effectI [of 0 _ bad _ 0]) (simp_all add: with_effect_def)
qed

lemma container_errors_effect:
  "pod_effect pd 0 st (foldl (\<lambda>st cs. add_container_errors pd cs st) st css)"
proof (induction css arbitrary: st)
  case Nil
  show ?case by (simp add: pod_effect_refl)
next
  case (Cons c css)
  show ?case using pod_effect_trans [OF add_container_errors_effect Cons] by simp
qed

definition is_ready_condition :: "pod_condition \<Rightarrow> bool" where
  "is_ready_condition c \<longleftrightarrow> pc_type c = PodReady \<and> pc_status c = ConditionTrue"

lemma ready_conditions_filter: "ready_conditions pd = filter is_ready_condition (p_conditions pd)"
  by (simp add: ready_conditions_def is_ready_condition_def [abs_def])

lemma process_condition_effect:
  assumes "process_condition K pd c st s = (Inr st', s')"
  shows "pod_effect pd (length (filter is_ready_condition [c])) st st'"
proof -
  have counted: "pod_effect pd 1 st (st\<lparr>pst_pods_ready := pst_pods_ready st @ [pd],
                       pst_ready_count := pst_ready_count st + 1,
                       pst_not_ready_count := pst_not_ready_count st - 1\<rparr>)"
    by (rule pod_effectI [of 1 _ "[]" _ 0]) (simp_all add: with_effect_def)
  have bad: "pod_effect pd 0 st (st\<lparr>pst_bad_status := pst_bad_status st @ [pd]\<rparr>)"
    by (rule pod_effectI [of 0 _ "[pd]" _ 0]) (simp_all add: with_effect_def)
  have waits: "pod_effect pd 0 st (st\<lparr>pst_not_ready_due_to_min_ready_seconds :=
                  pst_not_ready_due_to_min_ready_seconds st + 1\<rparr>)"
    by (rule pod_effectI [of 0 _ "[]" _ 1]) (simp_all add: with_effect_def)
  have mono: "pod_effect pd 0 st x \<Longrightarrow> pod_effect pd n st x" for n x
    by (erule pod_effect_mono) simp
  show ?thesis
    using assms counted bad mono mono [OF pod_effect_trans [OF waits container_errors_effect, simplified]]
      mono [OF container_errors_effect] mono [OF pod_effect_refl]
    by (auto simp: process_condition_def and_then_Inr ret_def is_ready_condition_def Let_def
        ConditionTrue_def ConditionFalse_def split: if_splits)
qed

lemma conditions_effect:
  "fold_step (process_condition K pd) cs st s = (Inr st', s') \<Longrightarrow>
   pod_effect pd (length (filter is_ready_condition cs)) st st'"
proof (induction cs arbitrary: st s)
  case Nil
  then show ?case by (simp add: ret_def pod_effect_refl)
next
  case (Cons c cs)
  then obtain st1 s1 where 1: "process_condition K pd c st s = (Inr st1, s1)"
    and 2: "fold_step (process_condition K pd) cs st1 s1 = (Inr st', s')"
    by (auto simp: and_then_Inr)
  show ?case
    using pod_effect_trans [OF process_condition_effect [OF 1] Cons.IH [OF 2]]
    by (cases "is_ready_condition c") simp_all
qed

definition revision_of :: "pod \<Rightarrow> int option" where
  "revision_of pd = atoi (map_get (p_annotations pd) PodRevisionAnnotation)"

definition live :: "pod \<Rightarrow> bool" where
  "live pd \<longleftrightarrow> p_deletion_timestamp pd = None"

definition evicted :: "pod \<Rightarrow> bool" where
  "evicted pd \<longleftrightarrow> p_phase pd = PodFailed \<and> p_reason pd = podConditionReasonEvicted"

text \<open>A pod that is cleaned up: evicted, or pending on a claim whose node is gone.\<close>

definition to_reclaim :: "pod \<Rightarrow> bool" where
  "to_reclaim pd \<longleftrightarrow> evicted pd \<or> p_phase pd = PodPending"

text \<open>What holds after the pods \<open>ys\<close>, starting from the initial status \<open>st0\<close>.\<close>

definition walked :: "pods_status \<Rightarrow> pod list \<Rightarrow> pods_status \<Rightarrow> bool" where
  "walked st0 ys st \<longleftrightarrow>
     pst_node_count st = pst_node_count st0
     \<and> pst_scaled_max_unavailable st = pst_scaled_max_unavailable st0
     \<and> pst_min_ready_seconds st = pst_min_ready_seconds st0
     \<and> map Some (pst_pod_revisions st) = map revision_of ys
     \<and> pst_pod_names st = map p_name ys
     \<and> pst_pod_deletion_timestamp_set st = map (\<lambda>p. \<not> live p) ys
     \<and> pst_ready_count st = int (length (pst_pods_ready st))
     \<and> pst_ready_count st + pst_not_ready_count st = pst_not_ready_count st0
     \<and> 0 \<le> pst_not_ready_due_to_min_ready_seconds st
     \<and> set (pst_pods_ready st) \<subseteq> {p \<in> set ys. live p \<and> \<not> evicted p \<and> ready_conditions p \<noteq> []}
     \<and> (distinct ys \<and> list_all (\<lambda>p. length (ready_conditions p) \<le> 1) ys \<longrightarrow> distinct (pst_pods_ready st))
     \<and> set (pst_evicted st) \<subseteq> {p \<in> set ys. live p \<and> to_reclaim p}
     \<and> set (pst_bad_status st) \<subseteq> {p \<in> set ys. live p \<and> \<not> evicted p}"

lemma check_pending_cases:
  "check_pending K hnp pd st s = (Inr st', s') \<Longrightarrow> st' = st \<or> st' = append_evicted pd st \<and> to_reclaim pd"
  by (auto simp: check_pending_def and_then_Inr ret_def exit_with_def to_reclaim_def split: if_splits option.splits)

text \<open>The lists \<open>process_pod\<close> extends for every pod.\<close>

definition noted :: "pod \<Rightarrow> int \<Rightarrow> string \<Rightarrow> pods_status \<Rightarrow> pods_status" where
  "noted pd rv img st = st\<lparr>pst_pod_revisions := pst_pod_revisions st @ [rv],
     pst_pod_deletion_timestamp_set := pst_pod_deletion_timestamp_set st @ [p_deletion_timestamp pd \<noteq> None],
     pst_pod_names := pst_pod_names st @ [p_name pd],
     pst_pod_image_versions := pst_pod_image_versions st @ [img]\<rparr>"

lemma process_pod_cases:
  assumes "process_pod K hnp pd st s = (Inr st', s')"
  obtains rv img where "revision_of pd = Some rv"
    and "st' = noted pd rv img st \<and> \<not> live pd
      \<or> st' = append_evicted pd (noted pd rv img st) \<and> live pd \<and> evicted pd
      \<or> live pd \<and> \<not> evicted pd \<and>
        (\<exists>st1. (st1 = noted pd rv img st \<or> st1 = append_evicted pd (noted pd rv img st) \<and> to_reclaim pd) \<and>
               pod_effect pd (length (ready_conditions pd)) st1 st')"
proof -
  obtain rv where rv: "revision_of pd = Some rv" and ne: "ps_containers (p_spec pd) \<noteq> []"
    using assms by (auto simp: process_pod_def revision_of_def exit_with_def Let_def split: option.splits if_splits)
  let ?img = "c_image (ps_containers (p_spec pd) !
    (case GetContainerIndexByName pd ''humio'' of Inr i \<Rightarrow> i | Inl e \<Rightarrow> 0))"
  let ?st = "noted pd rv ?img st"
  consider "\<not> live pd" "st' = ?st" | "live pd" "evicted pd" "st' = append_evicted pd ?st"
    | "live pd" "\<not> evicted pd"
      "and_then (check_pending K hnp pd ?st) (fold_step (process_condition K pd) (p_conditions pd)) s = (Inr st', s')"
    using assms rv ne
    by (auto simp: process_pod_def revision_of_def noted_def live_def evicted_def Let_def ret_def split: if_splits)
  then show ?thesis
  proof cases
    case 3
    then obtain st1 s1 where "check_pending K hnp pd ?st s = (Inr st1, s1)"
        "fold_step (process_condition K pd) (p_conditions pd) st1 s1 = (Inr st', s')"
      by (auto simp: and_then_Inr)
    then have "st1 = ?st \<or> st1 = append_evicted pd ?st \<and> to_reclaim pd" "pod_effect pd (length (ready_conditions pd)) st1 st'"
      using check_pending_cases conditions_effect unfolding ready_conditions_filter by blast+
    with 3 that [OF rv, of ?img] show ?thesis by blast
  qed (use that [OF rv, of ?img] in auto)
qed

lemma walked_noted:
  assumes "walked st0 ys st" and "revision_of pd = Some rv"
  shows "walked st0 (ys @ [pd]) (noted pd rv img st)"
  using assms by (auto simp: walked_def noted_def live_def)

lemma walked_evicted:
  "walked st0 (ys @ [pd]) st \<Longrightarrow> live pd \<Longrightarrow> to_reclaim pd \<Longrightarrow> walked st0 (ys @ [pd]) (append_evicted pd st)"
  by (auto simp: walked_def append_evicted_def)

lemma walked_effect:
  assumes w: "walked st0 (ys @ [pd]) st" and "live pd" "\<not> evicted pd"
    and fresh: "set (pst_pods_ready st) \<subseteq> set ys"
    and e: "pod_effect pd (length (ready_conditions pd)) st st'"
  shows "walked st0 (ys @ [pd]) st'"
proof -
  obtain k bad m where k: "k \<le> length (ready_conditions pd)" "set bad \<subseteq> {pd}" "0 \<le> m"
      "st' = with_effect pd k bad m st"
    using e by (auto simp: pod_effect_def)
  have "ready_conditions pd \<noteq> []" if "k > 0" using k(1) that by auto
  moreover have "distinct (pst_pods_ready st @ replicate k pd)"
    if "distinct (pst_pods_ready st)" "pd \<notin> set ys" "length (ready_conditions pd) \<le> 1"
  proof -
    have "k = 0 \<or> k = 1" using k(1) that(3) by linarith
    then show ?thesis using that fresh by auto
  qed
  ultimately show ?thesis
    using w assms(2,3) k
    by (auto simp: walked_def with_effect_def)
qed

lemma walked_step:
  assumes w: "walked st0 ys st" and run: "process_pod K hnp pd st s = (Inr st', s')"
  shows "walked st0 (ys @ [pd]) st'"
proof -
  obtain r img where r: "revision_of pd = Some r"
    and cases: "st' = noted pd r img st \<and> \<not> live pd
      \<or> st' = append_evicted pd (noted pd r img st) \<and> live pd \<and> evicted pd
      \<or> live pd \<and> \<not> evicted pd \<and>
        (\<exists>st1. (st1 = noted pd r img st \<or> st1 = append_evicted pd (noted pd r img st) \<and> to_reclaim pd) \<and>
               pod_effect pd (length (ready_conditions pd)) st1 st')"
    using run by (rule process_pod_cases)
  have n: "walked st0 (ys @ [pd]) (noted pd r img st)" using w r by (rule walked_noted)
  have ready: "pst_pods_ready (noted pd r img st) = pst_pods_ready st"
    "pst_pods_ready (append_evicted pd (noted pd r img st)) = pst_pods_ready st"
    by (simp_all add: noted_def append_evicted_def)
  have fresh: "set (pst_pods_ready st) \<subseteq> set ys" using w by (auto simp: walked_def)
  from cases show ?thesis
    using n walked_evicted [OF n] walked_effect [of st0 ys pd] fresh ready
    by (auto simp: to_reclaim_def)
qed

lemma walked_fold:
  "walked st0 ys st \<Longrightarrow> fold_step (process_pod K hnp) xs st s = (Inr st', s') \<Longrightarrow> walked st0 (ys @ xs) st'"
proof (induction xs arbitrary: ys st s)
  case Nil
  then show ?case by (simp add: ret_def)
next
  case (Cons x xs)
  then obtain st1 s1 where 1: "process_pod K hnp x st s = (Inr st1, s1)"
    and 2: "fold_step (process_pod K hnp) xs st1 s1 = (Inr st', s')"
    by (auto simp: and_then_Inr)
  show ?case using Cons.IH [OF walked_step [OF Cons.prems(1) 1] 2] by simp
qed

lemma getPodsStatus_walked:
  assumes "getPodsStatus L K hnp pods s = (Inr (st, ordered), s')"
  obtains st0 where "walked st0 ordered st" and "ordered = sort_key p_name pods"
    and "pst_node_count st0 = GetNodeCount hnp" and "pst_not_ready_count st0 = int (length pods)"
    and "1 \<le> pst_scaled_max_unavailable st0"
    and "\<exists>m. x_scaled_value L (the (us_max_unavailable (update_strategy_of hnp))) (GetNodeCount hnp) False = Inr m
              \<and> pst_scaled_max_unavailable st0 = max m 1"
    and "pst_min_ready_seconds st0 = us_min_ready_seconds (update_strategy_of hnp)"
proof -
  obtain m where m: "x_scaled_value L (the (us_max_unavailable (update_strategy_of hnp))) (GetNodeCount hnp) False = Inr m"
    using assms by (auto simp: getPodsStatus_def Let_def exit_with_def split: sum.splits)
  define st0 where "st0 = \<lparr>pst_node_count = GetNodeCount hnp, pst_ready_count = 0,
                   pst_not_ready_count = int (length pods),
                   pst_not_ready_due_to_min_ready_seconds = 0, pst_pod_revisions = [],
                   pst_pod_image_versions = [], pst_pod_deletion_timestamp_set = [], pst_pod_names = [],
                   pst_bad_status = [], pst_evicted = [], pst_pods_ready = [],
                   pst_scaled_max_unavailable = max m 1,
                   pst_min_ready_seconds = us_min_ready_seconds (update_strategy_of hnp)\<rparr>"
  have ordered: "ordered = sort_key p_name pods"
    using assms m by (auto simp: getPodsStatus_def Let_def and_then_Inr ret_def)
  have run: "\<exists>s''. fold_step (process_pod K hnp) (sort_key p_name pods) st0 s = (Inr st, s'')"
    using assms m by (auto simp: getPodsStatus_def Let_def and_then_Inr ret_def st0_def)
  have "walked st0 [] st0" by (simp add: walked_def st0_def)
  with run have "walked st0 ([] @ sort_key p_name pods) st" by (blast intro: walked_fold)
  then show ?thesis
    by (intro that [of st0]) (simp_all add: ordered m st0_def)
qed


section \<open>Derived questions\<close>

lemma count_correct_revisions:
  "foldl (\<lambda>n i. if xs ! i = r then n + 1 else n) k [0..<length xs] = k + int (count_list xs r)"
proof (induction xs arbitrary: k rule: rev_induct)
  case Nil
  then show ?case by simp
next
  case (snoc x xs)
  have "foldl (\<lambda>n i. if (xs @ [x]) ! i = r then n + 1 else n) k [0..<length xs] =
        foldl (\<lambda>n i. if xs ! i = r then n + 1 else n) k [0..<length xs]"
    by (rule foldl_cong) (auto simp: nth_append)
  then show ?case by (simp add: snoc)
qed

text \<open>
  After a successful \<open>getPodsStatus\<close>, the revision check asks exactly whether there are as
  many pods as the pool wants and all of them carry the given revision.
\<close>

lemma revision_check_exact:
  assumes "getPodsStatus L K hnp pods s = (Inr (st, ordered), s')"
  shows "podRevisionCountMatchesNodeCountAndAllPodsHaveRevision st r \<longleftrightarrow>
           int (length pods) = GetNodeCount hnp \<and> list_all (\<lambda>p. revision_of p = Some r) pods"
proof -
  obtain st0 where w: "walked st0 ordered st" and ordered: "ordered = sort_key p_name pods"
    and st0: "pst_node_count st0 = GetNodeCount hnp"
    using assms by (rule getPodsStatus_walked)
  have revs: "map Some (pst_pod_revisions st) = map revision_of ordered" using w by (simp add: walked_def)
  then have len: "length (pst_pod_revisions st) = length pods"
    using ordered by (metis length_map length_sort)
  have "count_list (pst_pod_revisions st) r = length (pst_pod_revisions st) \<longleftrightarrow> (\<forall>x\<in>set (pst_pod_revisions st). x = r)"
    unfolding count_list_eq_length_filter length_filter_eq_length by auto
  also have "\<dots> \<longleftrightarrow> (\<forall>x\<in>set (map Some (pst_pod_revisions st)). x = Some r)" by auto
  also have "\<dots> \<longleftrightarrow> list_all (\<lambda>p. revision_of p = Some r) pods"
    unfolding revs by (simp add: ordered list_all_iff)
  finally have all: "count_list (pst_pod_revisions st) r = length (pst_pod_revisions st) \<longleftrightarrow>
                     list_all (\<lambda>p. revision_of p = Some r) pods" .
  have "pst_node_count st = GetNodeCount hnp" using w st0 by (simp add: walked_def)
  then show ?thesis
    unfolding podRevisionCountMatchesNodeCountAndAllPodsHaveRevision_def count_correct_revisions Let_def
    using len all by auto
qed

lemma quot_bounds:
  assumes "0 \<le> a"
  shows "0 \<le> quot a 1000" and "1000 * quot a 1000 \<le> a" and "a < 1000 * quot a 1000 + 1000"
proof -
  have eq: "quot a 1000 = a div 1000" using assms by (simp add: quot_nonneg)
  have "a = 1000 * (a div 1000) + a mod 1000" by simp
  moreover have "0 \<le> a mod 1000" "a mod 1000 < 1000" by simp_all
  ultimately show "0 \<le> quot a 1000" "1000 * quot a 1000 \<le> a" "a < 1000 * quot a 1000 + 1000"
    using assms unfolding eq by linarith+
qed

text \<open>
  The time a ready pod must still wait is at most five minutes and never below the -1 ns
  that stands for no wait. A pod counted as ready (no positive wait) has been ready for more than
  \<open>minReadySeconds\<close> minus one second: the wait is truncated to whole seconds, so a pod may be
  accepted up to one second early.
\<close>

lemma remaining_wait_bounds:
  assumes "0 \<le> m" and "latest \<le> now"
  shows "-1 \<le> remaining_wait m latest now \<and> remaining_wait m latest now \<le> MaximumMinReadyRequeue
         \<and> (remaining_wait m latest now \<le> 0 \<longrightarrow> (m - 1) * second < now - latest)
         \<and> (m * second + 1000000 \<le> now - latest \<longrightarrow> remaining_wait m latest now \<le> 0)"
proof -
  define d where "d = now - latest"
  have d: "0 \<le> d" using assms by (simp add: d_def)
  have diff: "milliseconds d = d div 1000000"
    using d by (simp add: milliseconds_def quot_nonneg)
  have rdy: "milliseconds (second * m) = 1000 * m"
    using assms by (simp add: milliseconds_def quot_nonneg second_def)
  show ?thesis
  proof (cases "d div 1000000 \<le> 1000 * m")
    case False
    have "remaining_wait m latest now = -1"
      using False by (simp add: remaining_wait_def Let_def diff rdy flip: d_def)
    moreover have "(m - 1) * second < d"
      using False by (simp add: second_def algebra_simps)
    ultimately show ?thesis by (simp add: d_def MaximumMinReadyRequeue_def second_def)
  next
    case True
    define q where "q = quot (1000 * m - d div 1000000) 1000"
    have q: "0 \<le> q" "1000 * q \<le> 1000 * m - d div 1000000" "1000 * m - d div 1000000 < 1000 * q + 1000"
      using quot_bounds [of "1000 * m - d div 1000000"] True by (auto simp: q_def)
    have eq: "remaining_wait m latest now = min (second * q) MaximumMinReadyRequeue"
      using True by (simp add: remaining_wait_def Let_def diff rdy q_def flip: d_def)
    have "(m - 1) * second < d" if "q = 0"
    proof -
      have "1000 * m - d div 1000000 < 1000" using q(3) that by simp
      then show ?thesis by (simp add: second_def algebra_simps)
    qed
    moreover have "q = 0" if "m * second + 1000000 \<le> d"
      using that q(1,2) by (simp add: second_def)
    ultimately show ?thesis
      using q(1) eq by (auto simp: MaximumMinReadyRequeue_def second_def d_def min_def split: if_splits)
  qed
qed

lemma remaining_wait_bounds_witness:
  "remaining_wait 30 0 (29 * second + 500000000) \<le> 0 \<and> (30 - 1) * second < 29 * second + 500000000"
proof -
  have "remaining_wait 30 0 (29 * second + 500000000) \<le> 0"
    by (simp add: remaining_wait_def milliseconds_def quot_def second_def MaximumMinReadyRequeue_def)
  with remaining_wait_bounds [of 30 0 "29 * second + 500000000"] show ?thesis
    by (simp add: second_def)
qed

section \<open>Witnesses\<close>

definition sample_pool :: node_pool where
  "sample_pool = empty_pool\<lparr>np_spec := empty_node_spec\<lparr>ns_node_count := 1\<rparr>\<rparr>"

lemma sample_pool_reads [simp]:
  "GetNodeCount sample_pool = 1" "us_max_unavailable (update_strategy_of sample_pool) = Some (IntVal 1)"
  "us_min_ready_seconds (update_strategy_of sample_pool) = 0" "us_type (update_strategy_of sample_pool) = ReplaceAllOnUpdate"
  by (simp_all add: sample_pool_def GetNodeCount_def GetUpdateStrategy_def empty_node_spec_def empty_pool_def)

lemma sample_status_run:
  "\<exists>st s'. getPodsStatus plain_lib mem_kube sample_pool [sample_pod ''a'']
             (mem_state (empty_world\<lparr>w_time := 10 * second\<rparr>)) = (Inr (st, [sample_pod ''a'']), s')
          \<and> waitingOnPods st = False"
  by (simp add: getPodsStatus_def Let_def plain_lib_def and_then_def ret_def process_pod_def
      PodRevisionAnnotation_def map_get_def check_pending_def PodFailed_def PodPending_def process_condition_def
      ConditionFalse_def ConditionTrue_def PodReady_def remainingMinReadyWaitTime_def ready_conditions_def
      latestTransitionTime_def time_after_def pick_def mem_kube_def mem_state_def empty_world_def
      remaining_wait_def milliseconds_def quot_def second_def waitingOnPods_def
      haveUnschedulablePodsOrPodsWithBadStatusConditions_def foundEvictedPodsOrPodsWithOrpahanedPVCs_def)


lemma revision_check_exact_witness:
  "\<exists>st s'. getPodsStatus plain_lib mem_kube sample_pool [sample_pod ''a'']
             (mem_state (empty_world\<lparr>w_time := 10 * second\<rparr>)) = (Inr (st, [sample_pod ''a'']), s')
          \<and> podRevisionCountMatchesNodeCountAndAllPodsHaveRevision st 1
          \<and> \<not> podRevisionCountMatchesNodeCountAndAllPodsHaveRevision st 2"
proof -
  obtain st s' where run: "getPodsStatus plain_lib mem_kube sample_pool [sample_pod ''a'']
      (mem_state (empty_world\<lparr>w_time := 10 * second\<rparr>)) = (Inr (st, [sample_pod ''a'']), s')"
    using sample_status_run by blast
  from revision_check_exact [OF run] run show ?thesis
    by (auto simp: revision_of_def PodRevisionAnnotation_def map_get_def)
qed

end
