(* ===== verification/Pod_Construction.thy ===== *)
theory Pod_Construction
  imports Pod_Status
begin

text \<open>
  Construction of a pod: \<open>ConstructContainerArgs\<close>, \<open>ConstructPod\<close> and \<open>constructBasePod\<close> of
  internal/controller/humiocluster_pods.go. \<open>constructBasePod\<close> is cut into one definition per
  block of the function, in the order of the code; a block that can return early gives
  \<open>go_error + pod\<close>. The LogScale container is the first of the pod, which is what \<open>humioIdx\<close> is.
\<close>

section \<open>Attachments\<close>

record bootstrap_token_secret =
  bts_hash :: string
  bts_secret_reference :: "secret_key_selector option"

record pod_attachments =
  pa_data_volume_source :: volume_source
  pa_init_service_account_secret_name :: string
  pa_env_var_source_data :: "smap option"
  pa_bootstrap :: bootstrap_token_secret

section \<open>Container arguments\<close>

definition sharedPath :: string where "sharedPath = ''/shared''"
definition humioAppPath :: string where "humioAppPath = ''/app/humio''"
definition HumioDataPath :: string where "HumioDataPath = ''/data/humio-data''"

definition dquote :: string where "dquote = [CHR 0x22]"

definition ConstructContainerArgs :: "lib \<Rightarrow> node_pool \<Rightarrow> env_var list \<Rightarrow> go_error + string list" where
  "ConstructContainerArgs L hnp podEnvVars =
     (let shellCommands = (if \<not> ns_disable_init_container (np_spec hnp)
            then [''export ZONE=$(cat '' @ sharedPath @ ''/availability-zone)''] else []);
          shellCommands = shellCommands @
            (if \<not> EnvVarHasKey podEnvVars ''CORES'' \<and> x_cpu_limit_is_zero L (ns_resources (np_spec hnp))
             then [''export CORES=$(getconf _NPROCESSORS_ONLN)'',
                   ''export HUMIO_OPTS='' @ dquote @
                   ''$HUMIO_OPTS -XX:ActiveProcessorCount=$(getconf _NPROCESSORS_ONLN)'' @ dquote]
             else []);
          shellCommands = sort shellCommands @ [''exec bash '' @ humioAppPath @ ''/run.sh'']
      in Inr [''-c'', join_with '' && '' shellCommands])"

section \<open>Blocks of constructBasePod\<close>

text \<open>Changes to the LogScale container and to the pod's volumes.\<close>

definition upd_humio :: "(container \<Rightarrow> container) \<Rightarrow> pod \<Rightarrow> pod" where
  "upd_humio f pd = pd\<lparr>p_spec := (p_spec pd)\<lparr>ps_containers :=
     (case ps_containers (p_spec pd) of [] \<Rightarrow> [] | c # cs \<Rightarrow> f c # cs)\<rparr>\<rparr>"

definition add_env :: "env_var \<Rightarrow> pod \<Rightarrow> pod" where
  "add_env e = upd_humio (\<lambda>c. c\<lparr>c_env := c_env c @ [e]\<rparr>)"

definition add_mount :: "volume_mount \<Rightarrow> pod \<Rightarrow> pod" where
  "add_mount m = upd_humio (\<lambda>c. c\<lparr>c_volume_mounts := c_volume_mounts c @ [m]\<rparr>)"

definition add_volume :: "volume \<Rightarrow> pod \<Rightarrow> pod" where
  "add_volume v pd = pd\<lparr>p_spec := (p_spec pd)\<lparr>ps_volumes := ps_volumes (p_spec pd) @ [v]\<rparr>\<rparr>"

definition set_annotation :: "string \<Rightarrow> string \<Rightarrow> pod \<Rightarrow> pod" where
  "set_annotation k v pd = pd\<lparr>p_annotations := (p_annotations pd)(k \<mapsto> v)\<rparr>"

definition config_map_volume :: "string \<Rightarrow> string \<Rightarrow> volume" where
  "config_map_volume name cm = \<lparr>v_name = name, v_source = \<lparr>vs_pvc = None, vs_rest = KObj [(''configMap'',
     KObj [(''name'', KStr cm), (''defaultMode'', KInt 420)])]\<rparr>\<rparr>"

definition humio_ports :: kvalue where
  "humio_ports = KList
     [KObj [(''name'', KStr ''http''), (''containerPort'', KInt HumioPort), (''protocol'', KStr ''TCP'')],
      KObj [(''name'', KStr ''es''), (''containerPort'', KInt ElasticPort), (''protocol'', KStr ''TCP'')]]"

definition product_version :: "string \<Rightarrow> string" where
  "product_version img =
     (let imageSplit = split_n2 (CHR '':'') img
      in if length imageSplit = 2 then imageSplit ! 1 else ''unknown'')"

definition base_pod :: "lib \<Rightarrow> string \<Rightarrow> pod_attachments \<Rightarrow> node_pool \<Rightarrow> pod \<times> node_pool" where
  "base_pod L humioNodeName att hnp =
     (let (img, hnp) = GetImage L hnp;
          productVersion = product_version img;
          (img, hnp) = GetImage L hnp;
          (env, hnp) = GetEnvironmentVariables L hnp;
          humio = empty_container\<lparr>
            c_name := HumioContainerName, c_image := img,
            c_image_pull_policy := ns_image_pull_policy (np_spec hnp), c_command := [''/bin/sh''],
            c_ports := humio_ports, c_env := env,
            c_volume_mounts :=
              [\<lparr>vm_name = HumioDataVolumeName, vm_mount_path = HumioDataPath, vm_sub_path = [], vm_read_only = False\<rparr>,
               \<lparr>vm_name = ''shared'', vm_mount_path = sharedPath, vm_sub_path = [], vm_read_only = True\<rparr>],
            c_readiness_probe := GetContainerReadinessProbe L hnp,
            c_liveness_probe := GetContainerLivenessProbe L hnp,
            c_startup_probe := GetContainerStartupProbe L hnp,
            c_resources := ns_resources (np_spec hnp),
            c_security_context := Some (GetContainerSecurityContext hnp)\<rparr>;
          pd = empty_pod\<lparr>
            p_name := humioNodeName, p_namespace := GetNamespace hnp, p_labels := GetPodLabels hnp,
            p_annotations := AnnotationsForHumio (ns_pod_annotations (np_spec hnp)) productVersion,
            p_spec := empty_pod_spec\<lparr>
              ps_share_process_namespace := Some (GetShareProcessNamespace hnp),
              ps_service_account_name := GetHumioServiceAccountName hnp,
              ps_image_pull_secrets := ns_image_pull_secrets (np_spec hnp),
              ps_subdomain := headlessServiceName (GetClusterName hnp),
              ps_hostname := humioNodeName, ps_containers := [humio],
              ps_volumes := [\<lparr>v_name = ''shared'', v_source = \<lparr>vs_pvc = None, vs_rest = KObj [(''emptyDir'', KObj [])]\<rparr>\<rparr>],
              ps_affinity := GetAffinity hnp, ps_tolerations := ns_tolerations (np_spec hnp),
              ps_topology_spread_constraints := ns_topology_spread_constraints (np_spec hnp),
              ps_security_context := Some (GetPodSecurityContext hnp),
              ps_termination_grace_period_seconds := Some (GetTerminationGracePeriodSeconds hnp)\<rparr>\<rparr>
      in (add_volume \<lparr>v_name = HumioDataVolumeName, v_source = pa_data_volume_source att\<rparr> pd, hnp))"

definition add_env_from :: "lib \<Rightarrow> pod_attachments \<Rightarrow> node_pool \<Rightarrow> pod \<Rightarrow> pod" where
  "add_env_from L att hnp pd =
     (if ns_environment_variables_source (np_spec hnp) = [] then pd
      else
        let pd = upd_humio (\<lambda>c. c\<lparr>c_env_from := ns_environment_variables_source (np_spec hnp)\<rparr>) pd
        in case pa_env_var_source_data att of
             None \<Rightarrow> pd
           | Some m \<Rightarrow> set_annotation EnvVarSourceHashAnnotation (x_sha256 L (x_json_of_map L m)) pd)"

definition humio_env :: "pod \<Rightarrow> env_var list" where
  "humio_env pd = (case ps_containers (p_spec pd) of [] \<Rightarrow> [] | c # cs \<Rightarrow> c_env c)"

definition humio_mounts :: "pod \<Rightarrow> volume_mount list" where
  "humio_mounts pd = (case ps_containers (p_spec pd) of [] \<Rightarrow> [] | c # cs \<Rightarrow> c_volume_mounts c)"

definition add_saml :: "node_pool \<Rightarrow> pod \<Rightarrow> pod" where
  "add_saml hnp pd =
     (if EnvVarHasValue (humio_env pd) ''AUTHENTICATION_METHOD'' ''saml''
      then add_volume \<lparr>v_name = ''idp-cert-volume'', v_source = secret_volume_source (GetIDPCertificateSecretName hnp)\<rparr>
           (add_mount \<lparr>vm_name = ''idp-cert-volume'', vm_mount_path = ''/var/lib/humio/idp-certificate-secret'',
                       vm_sub_path = [], vm_read_only = True\<rparr>
           (add_env (env_value ''SAML_IDP_CERTIFICATE''
                       ''/var/lib/humio/idp-certificate-secret/idp-certificate.pem'') pd))
      else pd)"

definition init_resources :: kvalue where
  "init_resources = KObj
     [(''limits'', KObj [(''cpu'', KStr ''100m''), (''memory'', KStr ''50Mi'')]),
      (''requests'', KObj [(''cpu'', KStr ''100m''), (''memory'', KStr ''50Mi'')])]"

definition init_security_context :: kvalue where
  "init_security_context = KObj
     [(''privileged'', KBool False), (''allowPrivilegeEscalation'', KBool False),
      (''readOnlyRootFilesystem'', KBool True), (''runAsUser'', KInt 65534),
      (''capabilities'', KObj [(''drop'', KList [KStr ''ALL''])])]"

definition add_init_container :: "lib \<Rightarrow> pod_attachments \<Rightarrow> pod \<times> node_pool \<Rightarrow> pod \<times> node_pool" where
  "add_init_container L att = (\<lambda>(pd, hnp).
     if ns_disable_init_container (np_spec hnp) then (pd, hnp)
     else
       let (img, hnp) = GetHelperImage L hnp;
           c = empty_container\<lparr>
             c_name := InitContainerName, c_image := img,
             c_image_pull_policy := ns_image_pull_policy (np_spec hnp),
             c_env := [env_value ''MODE'' ''init'', env_value ''TARGET_FILE'' (sharedPath @ ''/availability-zone''),
                       env_field ''NODE_NAME'' ''spec.nodeName''],
             c_volume_mounts :=
               [\<lparr>vm_name = ''shared'', vm_mount_path = sharedPath, vm_sub_path = [], vm_read_only = False\<rparr>,
                \<lparr>vm_name = ''init-service-account-secret'',
                 vm_mount_path = ''/var/run/secrets/kubernetes.io/serviceaccount'', vm_sub_path = [],
                 vm_read_only = True\<rparr>],
             c_resources := init_resources, c_security_context := Some init_security_context\<rparr>
       in (add_volume \<lparr>v_name = ''init-service-account-secret'',
             v_source = secret_volume_source (pa_init_service_account_secret_name att)\<rparr>
             (pd\<lparr>p_spec := (p_spec pd)\<lparr>ps_init_containers := [c]\<rparr>\<rparr>), hnp))"

definition secret_key_ref :: "string \<Rightarrow> string \<Rightarrow> kvalue" where
  "secret_key_ref name key =
     KObj [(''secretKeyRef'', KObj [(''name'', KStr name), (''key'', KStr key)])]"

definition add_bootstrap_token :: "pod_attachments \<Rightarrow> pod \<Rightarrow> pod" where
  "add_bootstrap_token att pd =
     (case bts_secret_reference (pa_bootstrap att) of
        None \<Rightarrow> pd
      | Some r \<Rightarrow> add_env \<lparr>ev_name = ''BOOTSTRAP_ROOT_TOKEN_HASHED'', ev_value = [],
                            ev_value_from = secret_key_ref (sks_name r) (sks_key r)\<rparr> pd)"

definition add_extra_kafka :: "lib \<Rightarrow> pod \<times> node_pool \<Rightarrow> pod \<times> node_pool" where
  "add_extra_kafka L = (\<lambda>(pd, hnp).
     let (use, hnp) = ShouldUseExtraKafkaConfigsFile L hnp
     in (if use
         then add_volume (config_map_volume ''extra-kafka-configs'' (GetExtraKafkaConfigsConfigMapName hnp))
              (add_mount \<lparr>vm_name = ''extra-kafka-configs'',
                          vm_mount_path = ''/var/lib/humio/extra-kafka-configs-configmap'', vm_sub_path = [],
                          vm_read_only = True\<rparr>
              (add_env (env_value ''EXTRA_KAFKA_CONFIGS_FILE''
                 ''/var/lib/humio/extra-kafka-configs-configmap/extra-kafka-properties.properties'') pd))
         else pd, hnp))"

definition add_permissions_file :: "string \<Rightarrow> string \<Rightarrow> string \<Rightarrow> pod \<Rightarrow> pod" where
  "add_permissions_file name file cm pd =
     add_volume (config_map_volume name cm)
     (add_mount \<lparr>vm_name = name, vm_mount_path = HumioDataPath @ ''/'' @ file, vm_sub_path = file,
                 vm_read_only = True\<rparr>
     (add_env (env_value ''READ_GROUP_PERMISSIONS_FROM_FILE'' ''true'') pd))"

definition add_view_group_permissions :: "node_pool \<Rightarrow> pod \<Rightarrow> pod" where
  "add_view_group_permissions hnp pd =
     (if np_view_group_permissions hnp \<noteq> []
      then add_permissions_file ''view-group-permissions'' ''view-group-permissions.json''
             (GetViewGroupPermissionsConfigMapName hnp) pd
      else pd)"

definition add_role_permissions :: "node_pool \<Rightarrow> pod \<Rightarrow> pod" where
  "add_role_permissions hnp pd =
     (if np_role_permissions hnp \<noteq> []
      then add_permissions_file ''role-permissions'' ''role-permissions.json''
             (GetRolePermissionsConfigMapName hnp) pd
      else pd)"

text \<open>The loops that add what the user configured, with their name conflicts.\<close>

fun add_sidecars :: "container list \<Rightarrow> pod \<Rightarrow> go_error + pod" where
  "add_sidecars [] pd = Inr pd"
| "add_sidecars (sidecar # rest) pd =
     (if list_ex (\<lambda>c. c_name sidecar = c_name c) (ps_containers (p_spec pd))
      then Inl (Msg (''sidecarContainer conflicts with existing name: '' @ c_name sidecar))
      else add_sidecars rest
             (pd\<lparr>p_spec := (p_spec pd)\<lparr>ps_containers := ps_containers (p_spec pd) @ [sidecar]\<rparr>\<rparr>))"

fun mount_conflict :: "volume_mount \<Rightarrow> volume_mount list \<Rightarrow> go_error option" where
  "mount_conflict m [] = None"
| "mount_conflict m (e # es) =
     (if vm_name e = vm_name m
      then Some (Msg (''extraHumioVolumeMount conflicts with existing name: '' @ vm_name e))
      else if has_prefix (vm_mount_path e) (vm_mount_path m)
      then Some (Msg (''extraHumioVolumeMount conflicts with existing mount path: '' @ vm_mount_path e))
      else mount_conflict m es)"

fun add_extra_mounts :: "volume_mount list \<Rightarrow> pod \<Rightarrow> go_error + pod" where
  "add_extra_mounts [] pd = Inr pd"
| "add_extra_mounts (m # rest) pd =
     (case mount_conflict m (humio_mounts pd) of
        Some err \<Rightarrow> Inl err
      | None \<Rightarrow> add_extra_mounts rest (add_mount m pd))"

fun add_extra_volumes :: "volume list \<Rightarrow> pod \<Rightarrow> go_error + pod" where
  "add_extra_volumes [] pd = Inr pd"
| "add_extra_volumes (v # rest) pd =
     (if list_ex (\<lambda>e. v_name e = v_name v) (ps_volumes (p_spec pd))
      then Inl (Msg (''extraVolume conflicts with existing name: '' @ v_name v))
      else add_extra_volumes rest (add_volume v pd))"

definition passphrase_env :: "node_pool \<Rightarrow> string \<Rightarrow> env_var" where
  "passphrase_env hnp n = \<lparr>ev_name = n, ev_value = [],
     ev_value_from = secret_key_ref (GetClusterName hnp @ ''-keystore-passphrase'') ''passphrase''\<rparr>"

definition add_tls :: "lib \<Rightarrow> string \<Rightarrow> node_pool \<Rightarrow> pod \<Rightarrow> pod" where
  "add_tls L humioNodeName hnp pd =
     (if TLSEnabled L hnp
      then
        let pd = set_annotation CertificateHashAnnotation (GetDesiredCertHash L hnp) pd;
            pd = add_env (env_value ''TLS_TRUSTSTORE_LOCATION'' ''/var/lib/humio/tls-certificate-secret/truststore.jks'') pd;
            pd = add_env (env_value ''TLS_KEYSTORE_LOCATION'' ''/var/lib/humio/tls-certificate-secret/keystore.jks'') pd;
            pd = add_env (passphrase_env hnp ''TLS_TRUSTSTORE_PASSWORD'') pd;
            pd = add_env (passphrase_env hnp ''TLS_KEYSTORE_PASSWORD'') pd;
            pd = add_env (passphrase_env hnp ''TLS_KEY_PASSWORD'') pd;
            pd = add_mount \<lparr>vm_name = ''tls-cert'', vm_mount_path = ''/var/lib/humio/tls-certificate-secret'',
                            vm_sub_path = [], vm_read_only = True\<rparr> pd
        in add_volume \<lparr>v_name = ''tls-cert'', v_source = secret_volume_source humioNodeName\<rparr> pd
      else pd)"

definition finish_pod :: "lib \<Rightarrow> pod_attachments \<Rightarrow> node_pool \<Rightarrow> pod \<Rightarrow> go_error + pod" where
  "finish_pod L att hnp pd =
     (let pd = (if ns_priority_class_name (np_spec hnp) \<noteq> []
                then pd\<lparr>p_spec := (p_spec pd)\<lparr>ps_priority_class_name := ns_priority_class_name (np_spec hnp)\<rparr>\<rparr>
                else pd)
      in case ConstructContainerArgs L hnp (humio_env pd) of
           Inl err \<Rightarrow> Inl (Wrap ''unable to construct node container args'' (Some err))
         | Inr containerArgs \<Rightarrow>
             Inr (set_annotation BootstrapTokenHashAnnotation (bts_hash (pa_bootstrap att))
                  (set_annotation PodRevisionAnnotation (itoa (GetDesiredPodRevision hnp))
                  (upd_humio (\<lambda>c. c\<lparr>c_args := containerArgs\<rparr>) pd))))"

definition bind_result :: "'e + 'a \<Rightarrow> ('a \<Rightarrow> 'e + 'b) \<Rightarrow> 'e + 'b" where
  "bind_result r f = (case r of Inl e \<Rightarrow> Inl e | Inr a \<Rightarrow> f a)"

lemma bind_result_simps [simp]: "bind_result (Inl e) f = Inl e" "bind_result (Inr a) f = f a"
  by (simp_all add: bind_result_def)

lemma bind_result_Inr: "bind_result r f = Inr b \<longleftrightarrow> (\<exists>a. r = Inr a \<and> f a = Inr b)"
  by (cases r) simp_all

section \<open>constructBasePod and ConstructPod\<close>

text \<open>The part of the pod that cannot fail, and the pool with its tracker after it.\<close>

definition configured_pod :: "lib \<Rightarrow> string \<Rightarrow> pod_attachments \<Rightarrow> node_pool \<Rightarrow> pod \<times> node_pool" where
  "configured_pod L humioNodeName att hnp =
     (let (pd, hnp) = base_pod L humioNodeName att hnp;
          pd = add_env_from L att hnp pd;
          pd = add_saml hnp pd;
          (pd, hnp) = add_init_container L att (pd, hnp);
          pd = add_bootstrap_token att pd;
          (pd, hnp) = add_extra_kafka L (pd, hnp);
          pd = add_view_group_permissions hnp pd;
          pd = add_role_permissions hnp pd
      in (pd, hnp))"

definition constructBasePod ::
  "lib \<Rightarrow> string \<Rightarrow> pod_attachments \<Rightarrow> node_pool \<Rightarrow> (go_error + pod) \<times> node_pool" where
  "constructBasePod L humioNodeName att hnp =
     (let (pd, hnp) = configured_pod L humioNodeName att hnp
      in (bind_result (add_sidecars (ns_sidecar_containers (np_spec hnp)) pd) (\<lambda>pd.
          bind_result (add_extra_mounts (ns_extra_humio_volume_mounts (np_spec hnp)) pd) (\<lambda>pd.
          bind_result (add_extra_volumes (ns_extra_volumes (np_spec hnp)) pd) (\<lambda>pd.
          finish_pod L att hnp (add_tls L humioNodeName hnp pd)))), hnp))"

definition ConstructPod ::
  "lib \<Rightarrow> string \<Rightarrow> pod_attachments \<Rightarrow> node_pool \<Rightarrow> (go_error + pod) \<times> node_pool" where
  "ConstructPod L humioNodeName att hnp =
     (case constructBasePod L humioNodeName att hnp of
        (Inl err, hnp) \<Rightarrow> (Inl err, hnp)
      | (Inr pd, hnp) \<Rightarrow>
          let podHasher = NewPodHasher (Some (sanitizePod L hnp pd))
                (Some (empty_pod\<lparr>p_spec := np_tracker hnp\<rparr>))
          in (bind_result (PodHashMinusManagedFields L podHasher) (\<lambda>hash.
              bind_result (PodHashOnlyManagedFields L podHasher) (\<lambda>managedHash.
              Inr (set_annotation PodOperatorManagedFieldsHashAnnotation managedHash
                   (set_annotation PodHashAnnotation hash pd)))), hnp))"

section \<open>What does not depend on the name and the attachments\<close>

text \<open>
  \<open>twins hnp p q\<close>: pods that differ at most in name, hostname, and the sources of volumes that
  sanitizing replaces; their errors and checks are the same.
\<close>

definition twin_volumes :: "node_pool \<Rightarrow> volume list \<Rightarrow> volume list \<Rightarrow> bool" where
  "twin_volumes hnp vs ws \<longleftrightarrow> map v_name vs = map v_name ws \<and> map (sanitize_volume hnp) vs = map (sanitize_volume hnp) ws"

definition disguise :: "string \<Rightarrow> string \<Rightarrow> volume list \<Rightarrow> pod \<Rightarrow> pod" where
  "disguise n h ws p = p\<lparr>p_name := n, p_spec := (p_spec p)\<lparr>ps_hostname := h, ps_volumes := ws\<rparr>\<rparr>"

definition twins :: "node_pool \<Rightarrow> pod \<Rightarrow> pod \<Rightarrow> bool" where
  "twins hnp p q \<longleftrightarrow> (\<exists>n h ws. q = disguise n h ws p \<and> twin_volumes hnp (ps_volumes (p_spec p)) ws)"

lemma twins_disguise: "twin_volumes hnp (ps_volumes (p_spec p)) ws \<Longrightarrow> twins hnp p (disguise n h ws p)"
  unfolding twins_def by blast

lemma twinsE:
  assumes "twins hnp p q"
  obtains n h ws where "q = disguise n h ws p" and "twin_volumes hnp (ps_volumes (p_spec p)) ws"
  using assms by (auto simp: twins_def)

lemma disguise_fields [simp]:
  "ps_containers (p_spec (disguise n h ws p)) = ps_containers (p_spec p)"
  "p_annotations (disguise n h ws p) = p_annotations p"
  "ps_volumes (p_spec (disguise n h ws p)) = ws"
  "humio_env (disguise n h ws p) = humio_env p" "humio_mounts (disguise n h ws p) = humio_mounts p"
  by (simp_all add: disguise_def humio_env_def humio_mounts_def)

lemma disguise_commutes:
  "upd_humio f (disguise n h ws p) = disguise n h ws (upd_humio f p)"
  "set_annotation k v (disguise n h ws p) = disguise n h ws (set_annotation k v p)"
  "(disguise n h ws p)\<lparr>p_spec := (p_spec (disguise n h ws p))\<lparr>ps_init_containers := ic\<rparr>\<rparr> =
     disguise n h ws (p\<lparr>p_spec := (p_spec p)\<lparr>ps_init_containers := ic\<rparr>\<rparr>)"
  "(disguise n h ws p)\<lparr>p_spec := (p_spec (disguise n h ws p))\<lparr>ps_containers := cs\<rparr>\<rparr> =
     disguise n h ws (p\<lparr>p_spec := (p_spec p)\<lparr>ps_containers := cs\<rparr>\<rparr>)"
  "(disguise n h ws p)\<lparr>p_spec := (p_spec (disguise n h ws p))\<lparr>ps_priority_class_name := c\<rparr>\<rparr> =
     disguise n h ws (p\<lparr>p_spec := (p_spec p)\<lparr>ps_priority_class_name := c\<rparr>\<rparr>)"
  "add_volume u (disguise n h ws p) = disguise n h (ws @ [u]) (add_volume w p)"
  by (simp_all add: upd_humio_def set_annotation_def disguise_def add_volume_def)

lemma twins_fields:
  assumes "twins hnp p q"
  shows "ps_containers (p_spec q) = ps_containers (p_spec p)" and "p_annotations q = p_annotations p"
    and "humio_env q = humio_env p" and "humio_mounts q = humio_mounts p"
    and "map v_name (ps_volumes (p_spec q)) = map v_name (ps_volumes (p_spec p))"
  using assms by (auto simp: twins_def twin_volumes_def)

lemma upd_humio_volumes [simp]: "ps_volumes (p_spec (upd_humio f p)) = ps_volumes (p_spec p)"
  by (simp add: upd_humio_def)

lemma set_annotation_spec [simp]: "p_spec (set_annotation k v p) = p_spec p"
  by (simp add: set_annotation_def)

named_theorems twin_intros \<open>steps of the construction keep twins twins\<close>

lemma twins_refl [twin_intros]: "twins hnp p p"
  unfolding twins_def
  by (rule exI [of _ "p_name p"], rule exI [of _ "ps_hostname (p_spec p)"],
      rule exI [of _ "ps_volumes (p_spec p)"]) (simp add: disguise_def twin_volumes_def)

lemma twins_upd_humio [twin_intros]: "twins hnp p q \<Longrightarrow> twins hnp (upd_humio f p) (upd_humio f q)"
  by (auto elim!: twinsE simp: disguise_commutes(1) intro!: twins_disguise)

lemma twins_set_annotation [twin_intros]:
  "twins hnp p q \<Longrightarrow> twins hnp (set_annotation k v p) (set_annotation k v q)"
  by (auto elim!: twinsE simp: disguise_commutes(2) intro!: twins_disguise)

lemma twins_add_env [twin_intros]: "twins hnp p q \<Longrightarrow> twins hnp (add_env e p) (add_env e q)"
  unfolding add_env_def by (rule twins_upd_humio)

lemma twins_add_mount [twin_intros]: "twins hnp p q \<Longrightarrow> twins hnp (add_mount m p) (add_mount m q)"
  unfolding add_mount_def by (rule twins_upd_humio)

lemma twins_add_volume:
  assumes "twins hnp p q" and "v_name v = v_name w" and "sanitize_volume hnp v = sanitize_volume hnp w"
  shows "twins hnp (add_volume v p) (add_volume w q)"
proof -
  obtain n h ws where q: "q = disguise n h ws p" "twin_volumes hnp (ps_volumes (p_spec p)) ws"
    using assms(1) by (auto simp: twins_def)
  have "add_volume w q = disguise n h (ws @ [w]) (add_volume v p)"
    unfolding q by (rule disguise_commutes(6))
  moreover have "twin_volumes hnp (ps_volumes (p_spec (add_volume v p))) (ws @ [w])"
    using q(2) assms(2,3) by (simp add: twin_volumes_def add_volume_def)
  ultimately show ?thesis unfolding twins_def by blast
qed

lemma twins_same_volume [twin_intros]: "twins hnp p q \<Longrightarrow> twins hnp (add_volume v p) (add_volume v q)"
  by (rule twins_add_volume) simp_all

lemma twins_init_containers [twin_intros]:
  "twins hnp p q \<Longrightarrow> twins hnp (p\<lparr>p_spec := (p_spec p)\<lparr>ps_init_containers := ic\<rparr>\<rparr>)
     (q\<lparr>p_spec := (p_spec q)\<lparr>ps_init_containers := ic\<rparr>\<rparr>)"
  by (erule twinsE) (simp only: disguise_commutes(3), rule twins_disguise, simp)

lemma twins_containers [twin_intros]:
  "twins hnp p q \<Longrightarrow> twins hnp (p\<lparr>p_spec := (p_spec p)\<lparr>ps_containers := cs\<rparr>\<rparr>)
     (q\<lparr>p_spec := (p_spec q)\<lparr>ps_containers := cs\<rparr>\<rparr>)"
  by (erule twinsE) (simp only: disguise_commutes(4), rule twins_disguise, simp)

lemma twins_priority_class [twin_intros]:
  "twins hnp p q \<Longrightarrow> twins hnp (p\<lparr>p_spec := (p_spec p)\<lparr>ps_priority_class_name := c\<rparr>\<rparr>)
     (q\<lparr>p_spec := (p_spec q)\<lparr>ps_priority_class_name := c\<rparr>\<rparr>)"
  by (erule twinsE) (simp only: disguise_commutes(5), rule twins_disguise, simp)

lemma twins_sanitize:
  assumes "twins hnp p q"
  shows "sanitize_spec L hnp (p_spec q) = sanitize_spec L hnp (p_spec p)"
  using assms by (auto simp: twins_def disguise_def twin_volumes_def sanitize_spec_def)

lemma twins_env: "twins hnp p q \<Longrightarrow> humio_env q = humio_env p"
  by (rule twins_fields(3))

lemma twins_add_env_from [twin_intros]:
  "twins hnp p q \<Longrightarrow> pa_env_var_source_data att' = pa_env_var_source_data att \<Longrightarrow>
   twins hnp (add_env_from L att g p) (add_env_from L att' g q)"
  by (auto simp: add_env_from_def Let_def intro!: twin_intros split: option.split)

lemma twins_add_saml [twin_intros]: "twins hnp p q \<Longrightarrow> twins hnp (add_saml g p) (add_saml g q)"
  by (auto simp: add_saml_def twins_env intro!: twin_intros)

lemma sanitize_same_name:
  assumes "v_name v = v_name w" and "v_name v \<in> {HumioDataVolumeName, ''tls-cert'', ''init-service-account-secret''}"
  shows "sanitize_volume hnp v = sanitize_volume hnp w"
  using assms by (auto simp: sanitize_volume_def pvc_source_deep_equals_empty_struct_def)

lemma twins_add_init_container:
  assumes "twins hnp p q"
  shows "twins hnp (fst (add_init_container L att (p, g))) (fst (add_init_container L att' (q, g)))
         \<and> snd (add_init_container L att' (q, g)) = snd (add_init_container L att (p, g))"
proof (cases "ns_disable_init_container (np_spec g)")
  case True
  then show ?thesis using assms by (simp add: add_init_container_def)
next
  case False
  obtain img h where "GetHelperImage L g = (img, h)" by fastforce
  with False show ?thesis
    by (simp add: add_init_container_def Let_def)
       (intro twins_add_volume twins_init_containers assms sanitize_same_name; simp)
qed

lemma twins_add_bootstrap_token [twin_intros]:
  "twins hnp p q \<Longrightarrow> pa_bootstrap att' = pa_bootstrap att \<Longrightarrow>
   twins hnp (add_bootstrap_token att p) (add_bootstrap_token att' q)"
  by (auto simp: add_bootstrap_token_def intro!: twin_intros split: option.split)

lemma twins_add_extra_kafka:
  assumes "twins hnp p q"
  shows "twins hnp (fst (add_extra_kafka L (p, g))) (fst (add_extra_kafka L (q, g)))
         \<and> snd (add_extra_kafka L (q, g)) = snd (add_extra_kafka L (p, g))"
  using assms by (auto simp: add_extra_kafka_def Let_def split: prod.split intro!: twin_intros)

lemma twins_permissions [twin_intros]:
  "twins hnp p q \<Longrightarrow> twins hnp (add_permissions_file a b c p) (add_permissions_file a b c q)"
  "twins hnp p q \<Longrightarrow> twins hnp (add_view_group_permissions g p) (add_view_group_permissions g q)"
  "twins hnp p q \<Longrightarrow> twins hnp (add_role_permissions g p) (add_role_permissions g q)"
  by (auto simp: add_permissions_file_def add_view_group_permissions_def add_role_permissions_def
      intro!: twin_intros)

lemma twins_base_pod:
  "twins hnp (fst (base_pod L n att g)) (fst (base_pod L n' att' g))
   \<and> snd (base_pod L n' att' g) = snd (base_pod L n att g)"
proof -
  have named: "twins hnp p q" if "q = disguise n' n' (ps_volumes (p_spec p)) p" for p q
    unfolding that by (rule twins_disguise) (simp add: twin_volumes_def)
  show ?thesis
    unfolding base_pod_def Let_def
    by (simp split: prod.split, intro allI impI conjI, rule twins_add_volume, rule named)
       (simp_all add: disguise_def sanitize_same_name)
qed

lemma twins_configured_pod:
  assumes "pa_env_var_source_data att' = pa_env_var_source_data att" and "pa_bootstrap att' = pa_bootstrap att"
  shows "twins hnp (fst (configured_pod L n att g)) (fst (configured_pod L n' att' g))
         \<and> snd (configured_pod L n' att' g) = snd (configured_pod L n att g)"
proof -
  obtain p1 g1 where b: "base_pod L n att g = (p1, g1)" by fastforce
  obtain q1 where b': "base_pod L n' att' g = (q1, g1)" and 1: "twins hnp p1 q1"
    using twins_base_pod [of hnp L n att g n' att'] b by (metis fst_conv snd_conv surj_pair)
  let ?p2 = "add_saml g1 (add_env_from L att g1 p1)" and ?q2 = "add_saml g1 (add_env_from L att' g1 q1)"
  have 2: "twins hnp ?p2 ?q2" using 1 assms(1) by (intro twin_intros)
  obtain p3 g3 where i: "add_init_container L att (?p2, g1) = (p3, g3)" by fastforce
  obtain q3 where i': "add_init_container L att' (?q2, g1) = (q3, g3)" and 3: "twins hnp p3 q3"
    using twins_add_init_container [OF 2, of L att g1 att'] i by (metis fst_conv snd_conv surj_pair)
  let ?p4 = "add_bootstrap_token att p3" and ?q4 = "add_bootstrap_token att' q3"
  have 4: "twins hnp ?p4 ?q4" using 3 assms(2) by (intro twin_intros)
  obtain p5 g5 where k: "add_extra_kafka L (?p4, g3) = (p5, g5)" by fastforce
  obtain q5 where k': "add_extra_kafka L (?q4, g3) = (q5, g5)" and 5: "twins hnp p5 q5"
    using twins_add_extra_kafka [OF 4, of L g3] k by (metis fst_conv snd_conv surj_pair)
  show ?thesis
    using 5 by (auto simp: configured_pod_def b b' i i' k k' intro!: twin_intros)
qed

lemma twins_add_sidecars:
  "twins hnp p q \<Longrightarrow> rel_sum (=) (twins hnp) (add_sidecars ss p) (add_sidecars ss q)"
proof (induction ss arbitrary: p q)
  case Nil
  then show ?case by simp
next
  case (Cons c ss)
  have "ps_containers (p_spec q) = ps_containers (p_spec p)" using Cons.prems by (rule twins_fields(1))
  with Cons show ?case by (auto intro!: Cons.IH twin_intros)
qed

lemma twins_add_extra_mounts:
  "twins hnp p q \<Longrightarrow> rel_sum (=) (twins hnp) (add_extra_mounts ms p) (add_extra_mounts ms q)"
proof (induction ms arbitrary: p q)
  case Nil
  then show ?case by simp
next
  case (Cons m ms)
  have "humio_mounts q = humio_mounts p" using Cons.prems by (rule twins_fields(4))
  with Cons show ?case by (auto intro!: Cons.IH twin_intros split: option.split)
qed

lemma list_ex_v_name: "list_ex (\<lambda>e. v_name e = n) vs \<longleftrightarrow> n \<in> set (map v_name vs)"
  by (auto simp: list_ex_iff)

lemma twins_add_extra_volumes:
  "twins hnp p q \<Longrightarrow> rel_sum (=) (twins hnp) (add_extra_volumes vs p) (add_extra_volumes vs q)"
proof (induction vs arbitrary: p q)
  case Nil
  then show ?case by simp
next
  case (Cons v vs)
  have "map v_name (ps_volumes (p_spec q)) = map v_name (ps_volumes (p_spec p))"
    using Cons.prems by (rule twins_fields(5))
  then have "list_ex (\<lambda>e. v_name e = v_name v) (ps_volumes (p_spec q)) \<longleftrightarrow>
             list_ex (\<lambda>e. v_name e = v_name v) (ps_volumes (p_spec p))"
    unfolding list_ex_v_name by metis
  with Cons show ?case by (auto intro!: Cons.IH twin_intros)
qed

lemma twins_add_tls: "twins hnp p q \<Longrightarrow> twins hnp (add_tls L n g p) (add_tls L n' g q)"
  by (auto simp: add_tls_def Let_def intro!: twins_add_volume twin_intros sanitize_same_name)

lemma twins_finish_pod:
  "twins hnp p q \<Longrightarrow> pa_bootstrap att' = pa_bootstrap att \<Longrightarrow>
   rel_sum (=) (twins hnp) (finish_pod L att g p) (finish_pod L att' g q)"
  by (auto simp: finish_pod_def Let_def twins_env ConstructContainerArgs_def humio_env_def
      intro!: twin_intros dest: twins_fields(1))

lemma rel_bind_result:
  "rel_sum (=) A r r' \<Longrightarrow> (\<And>a a'. A a a' \<Longrightarrow> rel_sum (=) B (f a) (f' a')) \<Longrightarrow>
   rel_sum (=) B (bind_result r f) (bind_result r' f')"
  by (cases r; cases r') auto

lemma twins_constructBasePod:
  assumes "pa_env_var_source_data att' = pa_env_var_source_data att" and "pa_bootstrap att' = pa_bootstrap att"
  shows "rel_sum (=) (twins hnp) (fst (constructBasePod L n att g)) (fst (constructBasePod L n' att' g))
         \<and> snd (constructBasePod L n' att' g) = snd (constructBasePod L n att g)"
proof -
  obtain p g1 where c: "configured_pod L n att g = (p, g1)" by fastforce
  obtain q where c': "configured_pod L n' att' g = (q, g1)" and t: "twins hnp p q"
    using twins_configured_pod [OF assms, of hnp L n g n'] c by (metis fst_conv snd_conv surj_pair)
  show ?thesis
    using t assms(2)
    by (auto simp: constructBasePod_def c c' intro!: rel_bind_result twins_add_sidecars twins_add_extra_mounts
        twins_add_extra_volumes twins_finish_pod twins_add_tls)
qed

section \<open>The pool keeps everything but its tracker\<close>

definition same_pool :: "node_pool \<Rightarrow> node_pool \<Rightarrow> bool" where
  "same_pool h g \<longleftrightarrow> (\<exists>t. g = h\<lparr>np_tracker := t\<rparr>)"

lemma same_pool_refl [simp]: "same_pool h h"
  unfolding same_pool_def by (rule exI [of _ "np_tracker h"]) simp

lemma same_pool_tracker [simp]: "same_pool h (h\<lparr>np_tracker := t\<rparr>)"
  by (auto simp: same_pool_def)

lemma same_pool_trans: "same_pool h g \<Longrightarrow> same_pool g f \<Longrightarrow> same_pool h f"
  by (auto simp: same_pool_def)

lemma AddManagedField_same [simp]: "same_pool h (AddManagedFieldForContainer c h)"
  by (simp add: AddManagedFieldForContainer_def)

lemma GetImage_same [simp]: "same_pool h (snd (GetImage L h))"
  by (simp add: GetImage_def Let_def)

lemma GetHelperImage_same [simp]: "same_pool h (snd (GetHelperImage L h))"
  by (simp add: GetHelperImage_def Let_def)

lemma Append_same: "same_pool (snd st) (snd (AppendEnvVarToEnvVarsIfNotAlreadyPresent d st))"
  by (cases st) (simp add: AppendEnvVarToEnvVarsIfNotAlreadyPresent_def AppendHumioContainerEnvVarToManagedFields_def)

lemma Append_same_from:
  "same_pool h (snd st) \<Longrightarrow> same_pool h (snd (AppendEnvVarToEnvVarsIfNotAlreadyPresent d st))"
  using Append_same same_pool_trans by blast

lemma append_defaults_same: "same_pool (snd st) (snd (append_defaults ds st))"
  unfolding append_defaults_def
proof (induction ds arbitrary: st)
  case Nil
  show ?case by simp
next
  case (Cons d ds)
  show ?case using Append_same [of st d] Cons [of "AppendEnvVarToEnvVarsIfNotAlreadyPresent d st"]
    by (simp add: same_pool_trans)
qed

lemma GetEnvironmentVariables_same [simp]: "same_pool h (snd (GetEnvironmentVariables L h))"
proof -
  let ?st = "append_defaults (env_defaults L h) (ns_environment_variables (np_spec h), h)"
  have "same_pool h (snd ?st)" using append_defaults_same [of "(ns_environment_variables (np_spec h), h)"] by simp
  then show ?thesis
    unfolding GetEnvironmentVariables_def Let_def
    by (simp add: Append_same_from)
qed

lemma base_pod_same: "same_pool h (snd (base_pod L n att h))"
proof -
  obtain i1 h1 where 1: "GetImage L h = (i1, h1)" by fastforce
  obtain i2 h2 where 2: "GetImage L h1 = (i2, h2)" by fastforce
  obtain e h3 where 3: "GetEnvironmentVariables L h2 = (e, h3)" by fastforce
  have "same_pool h h1" using GetImage_same [of h L] 1 by simp
  moreover have "same_pool h1 h2" using GetImage_same [of h1 L] 2 by simp
  moreover have "same_pool h2 h3" using GetEnvironmentVariables_same [of h2 L] 3 by simp
  ultimately show ?thesis by (simp add: base_pod_def 1 2 3 Let_def) (blast intro: same_pool_trans)
qed

lemma add_init_container_same: "same_pool h (snd (add_init_container L att (p, h)))"
  using GetHelperImage_same [of h L]
  by (cases "GetHelperImage L h") (simp add: add_init_container_def Let_def)

lemma add_extra_kafka_same: "same_pool h (snd (add_extra_kafka L (p, h)))"
  using GetImage_same [of h L]
  by (cases "GetImage L h") (simp add: add_extra_kafka_def ShouldUseExtraKafkaConfigsFile_def Let_def)

lemma configured_pod_same: "same_pool h (snd (configured_pod L n att h))"
proof -
  obtain p1 h1 where 1: "base_pod L n att h = (p1, h1)" by fastforce
  obtain p2 h2 where 2: "add_init_container L att (add_saml h1 (add_env_from L att h1 p1), h1) = (p2, h2)" by fastforce
  obtain p3 h3 where 3: "add_extra_kafka L (add_bootstrap_token att p2, h2) = (p3, h3)" by fastforce
  have "same_pool h h1" using base_pod_same [of h L n att] 1 by simp
  moreover have "same_pool h1 h2" using add_init_container_same [of h1] 2 by (metis snd_conv)
  moreover have "same_pool h2 h3" using add_extra_kafka_same [of h2] 3 by (metis snd_conv)
  ultimately show ?thesis by (simp add: configured_pod_def 1 2 3 Let_def) (blast intro: same_pool_trans)
qed

lemma ConstructPod_same: "same_pool h (snd (ConstructPod L n att h))"
  using configured_pod_same [of h L n att]
  by (auto simp: ConstructPod_def constructBasePod_def Let_def split: prod.split sum.split)

lemma accessors_same_pool [simp]:
  "GetNodePoolName (h\<lparr>np_tracker := t\<rparr>) = GetNodePoolName h"
  "GetProbeScheme L (h\<lparr>np_tracker := t\<rparr>) = GetProbeScheme L h"
  "GetClusterName (h\<lparr>np_tracker := t\<rparr>) = GetClusterName h"
  "GetNamespace (h\<lparr>np_tracker := t\<rparr>) = GetNamespace h"
  "GetDataVolumeSource (h\<lparr>np_tracker := t\<rparr>) = GetDataVolumeSource h"
  "GetDataVolumePersistentVolumeClaimSpecTemplate (h\<lparr>np_tracker := t\<rparr>) =
     GetDataVolumePersistentVolumeClaimSpecTemplate h"
  by (simp_all add: GetNodePoolName_def GetProbeScheme_def TLSEnabled_def GetClusterName_def GetNamespace_def
      GetDataVolumeSource_def GetDataVolumePersistentVolumeClaimSpecTemplate_def PVCsEnabled_def fun_eq_iff)

lemma sanitize_parts_same_pool [simp]:
  "sanitize_env L (h\<lparr>np_tracker := t\<rparr>) = sanitize_env L h"
  "sanitize_volume (h\<lparr>np_tracker := t\<rparr>) = sanitize_volume h"
  "reset_container (h\<lparr>np_tracker := t\<rparr>) = reset_container h"
  by (rule ext, simp add: sanitize_env_def sanitize_volume_def reset_container_def)+

lemma sanitize_same_pool: "same_pool h g \<Longrightarrow> sanitize_spec L g sp = sanitize_spec L h sp"
  by (auto simp: same_pool_def sanitize_spec_def)

section \<open>No restart without a change\<close>

lemma ConstructPod_twins:
  assumes "pa_env_var_source_data att' = pa_env_var_source_data att" and "pa_bootstrap att' = pa_bootstrap att"
    and p: "ConstructPod L n att h = (Inr p, h1)" and q: "ConstructPod L n' att' h = (Inr q, h2)"
  shows "p_annotations q = p_annotations p \<and> ps_containers (p_spec q) = ps_containers (p_spec p)"
proof -
  obtain r g where b: "constructBasePod L n att h = (r, g)" by fastforce
  obtain r' where b': "constructBasePod L n' att' h = (r', g)" and rel: "rel_sum (=) (twins h) r r'"
    using twins_constructBasePod [OF assms(1,2), of h L n h n'] b by (metis fst_conv snd_conv surj_pair)
  obtain p0 where r: "r = Inr p0" using p b by (cases r) (auto simp: ConstructPod_def)
  then obtain q0 where r': "r' = Inr q0" and t: "twins h p0 q0" using rel by (cases r') auto
  have "same_pool h g"
    using configured_pod_same [of h L n att] b by (auto simp: constructBasePod_def Let_def split: prod.splits)
  then have san: "sanitize_spec L g (p_spec q0) = sanitize_spec L g (p_spec p0)"
    using twins_sanitize [OF t, of L] by (simp add: sanitize_same_pool)
  let ?m = "Some (empty_pod\<lparr>p_spec := np_tracker g\<rparr>)"
  let ?hp = "NewPodHasher (Some (sanitizePod L g p0)) ?m" and ?hq = "NewPodHasher (Some (sanitizePod L g q0)) ?m"
  have hash: "PodHashMinusManagedFields L ?hq = PodHashMinusManagedFields L ?hp"
    by (auto simp: PodHashMinusManagedFields_def podHasherMinusManagedFields_def NewPodHasher_def
        calculateHash_def sanitizePod_def san split: option.split)
  have only: "PodHashOnlyManagedFields L ?hq = PodHashOnlyManagedFields L ?hp"
    by (simp add: PodHashOnlyManagedFields_def podHasherOnlyManagedFields_def NewPodHasher_def calculateHash_def)
  obtain a c where a: "PodHashMinusManagedFields L ?hp = Inr a" and c: "PodHashOnlyManagedFields L ?hp = Inr c"
    and p': "p = set_annotation PodOperatorManagedFieldsHashAnnotation c (set_annotation PodHashAnnotation a p0)"
    using p by (auto simp: ConstructPod_def b r Let_def bind_result_Inr)
  have "q = set_annotation PodOperatorManagedFieldsHashAnnotation c (set_annotation PodHashAnnotation a q0)"
    using q a c hash only by (auto simp: ConstructPod_def b' r' Let_def bind_result_Inr)
  then show ?thesis
    using twins_fields(1,2) [OF t] p' by (simp add: set_annotation_def)
qed

text \<open>The LogScale container is the first one throughout the construction.\<close>

definition humio_first :: "pod \<Rightarrow> bool" where
  "humio_first p \<longleftrightarrow> (\<exists>c cs. ps_containers (p_spec p) = c # cs \<and> c_name c = HumioContainerName)"

named_theorems humio_first_intros \<open>steps of the construction keep the LogScale container first\<close>

lemma humio_first_upd [humio_first_intros]:
  "humio_first p \<Longrightarrow> (\<And>c. c_name (f c) = c_name c) \<Longrightarrow> humio_first (upd_humio f p)"
  by (auto simp: humio_first_def upd_humio_def)

lemma humio_first_steps [humio_first_intros]:
  "humio_first p \<Longrightarrow> humio_first (add_env e p)"
  "humio_first p \<Longrightarrow> humio_first (add_mount m p)"
  "humio_first p \<Longrightarrow> humio_first (add_volume v p)"
  "humio_first p \<Longrightarrow> humio_first (set_annotation k s p)"
  by (auto simp: add_env_def add_mount_def add_volume_def set_annotation_def humio_first_def upd_humio_def)

lemma humio_first_blocks [humio_first_intros]:
  "humio_first p \<Longrightarrow> humio_first (add_env_from L att h p)"
  "humio_first p \<Longrightarrow> humio_first (add_saml h p)"
  "humio_first p \<Longrightarrow> humio_first (add_bootstrap_token att p)"
  "humio_first p \<Longrightarrow> humio_first (add_view_group_permissions h p)"
  "humio_first p \<Longrightarrow> humio_first (add_role_permissions h p)"
  "humio_first p \<Longrightarrow> humio_first (add_tls L n h p)"
  by (auto simp: add_env_from_def add_saml_def add_bootstrap_token_def add_view_group_permissions_def
      add_role_permissions_def add_permissions_file_def add_tls_def Let_def intro!: humio_first_intros
      split: option.split)

lemma humio_first_tracked [humio_first_intros]:
  "humio_first p \<Longrightarrow> humio_first (fst (add_init_container L att (p, h)))"
  "humio_first p \<Longrightarrow> humio_first (fst (add_extra_kafka L (p, h)))"
  by (auto simp: add_init_container_def add_extra_kafka_def Let_def split: prod.split intro!: humio_first_intros)
     (simp add: humio_first_def)

lemma humio_first_base: "humio_first (fst (base_pod L n att h))"
  by (auto simp: base_pod_def Let_def split: prod.split intro!: humio_first_intros) (simp add: humio_first_def)

lemma humio_first_configured: "humio_first (fst (configured_pod L n att h))"
proof -
  obtain p1 h1 where 1: "base_pod L n att h = (p1, h1)" by fastforce
  let ?p2 = "add_saml h1 (add_env_from L att h1 p1)"
  obtain p3 h3 where 3: "add_init_container L att (?p2, h1) = (p3, h3)" by fastforce
  obtain p5 h5 where 5: "add_extra_kafka L (add_bootstrap_token att p3, h3) = (p5, h5)" by fastforce
  have "humio_first p1" using humio_first_base [of L n att h] 1 by simp
  then have "humio_first ?p2" by (intro humio_first_intros)
  then have "humio_first p3" using humio_first_tracked(1) [of ?p2 L att h1] 3 by simp
  then have "humio_first p5"
    using humio_first_tracked(2) [OF humio_first_blocks(3), of p3 L att h3] 5 by simp
  then show ?thesis by (simp add: configured_pod_def 1 3 5 humio_first_intros)
qed

lemma humio_first_add_sidecars: "add_sidecars ss p = Inr q \<Longrightarrow> humio_first p \<Longrightarrow> humio_first q"
proof (induction ss arbitrary: p)
  case Nil
  then show ?case by simp
next
  case (Cons c ss)
  have "humio_first (p\<lparr>p_spec := (p_spec p)\<lparr>ps_containers := ps_containers (p_spec p) @ [c]\<rparr>\<rparr>)"
    using Cons.prems(2) by (auto simp: humio_first_def)
  with Cons show ?case by (auto split: if_splits)
qed

lemma humio_first_add_extra_mounts: "add_extra_mounts ms p = Inr q \<Longrightarrow> humio_first p \<Longrightarrow> humio_first q"
  by (induction ms arbitrary: p) (auto intro: humio_first_steps(2) split: option.splits)

lemma humio_first_add_extra_volumes: "add_extra_volumes vs p = Inr q \<Longrightarrow> humio_first p \<Longrightarrow> humio_first q"
  by (induction vs arbitrary: p) (auto intro: humio_first_steps(3) split: if_splits)

lemmas humio_first_extras = humio_first_add_sidecars humio_first_add_extra_mounts humio_first_add_extra_volumes

lemma humio_first_finish: "finish_pod L att h p = Inr q \<Longrightarrow> humio_first p \<Longrightarrow> humio_first q"
  by (auto simp: finish_pod_def Let_def ConstructContainerArgs_def split: sum.splits if_splits
      intro!: humio_first_intros) (auto simp: humio_first_def)

lemma ConstructPod_humio_first:
  assumes "ConstructPod L n att h = (Inr p, h1)"
  shows "humio_first p"
proof -
  obtain p0 where "fst (constructBasePod L n att h) = Inr p0"
    and p: "\<exists>a c. p = set_annotation PodOperatorManagedFieldsHashAnnotation c (set_annotation PodHashAnnotation a p0)"
    using assms by (auto simp: ConstructPod_def Let_def bind_result_Inr split: prod.splits sum.splits)
  then have "humio_first p0"
    using humio_first_configured [of L n att h]
    by (auto simp: constructBasePod_def Let_def bind_result_Inr split: prod.splits
        elim!: humio_first_finish intro!: humio_first_blocks(6) dest!: humio_first_extras)
  with p show ?thesis by (auto intro: humio_first_intros)
qed

lemma humio_first_container: "humio_first p \<Longrightarrow> humio_container p \<noteq> None"
  by (auto simp: humio_first_def humio_container_def find_None_iff)

lemma same_container_image:
  "list_all2 same_container cs ds \<Longrightarrow>
   map_option c_image (find (\<lambda>c. c_name c = n) cs) = map_option c_image (find (\<lambda>c. c_name c = n) ds)"
proof (induction rule: list_all2_induct)
  case Nil
  show ?case by simp
next
  case (Cons c cs d ds)
  have "c_name c = c_name d" "c_image c = c_image d"
    using Cons.hyps(1) by (cases c; cases d; auto simp: same_container_def)+
  with Cons.IH show ?case by simp
qed

text \<open>
  Claim C7. No restart without a change of configuration. Let \<open>p\<close> be the pod the operator created for a
  pool, with whatever node name and volumes it got, and let the running pod \<open>r\<close> be \<open>p\<close> with the
  fields the API server fills in, its variables in any order, scheduled to some node, and the
  annotations the comparison reads unchanged. Then the pod constructed later for the same pool and
  the same attached environment and token compares as a match with \<open>r\<close>: the pod is not restarted.
\<close>

theorem no_restart_without_change:
  assumes "ConstructPod L n att h = (Inr p, h1)" and "ConstructPod L n' att' h = (Inr q, h2)"
    and "pa_env_var_source_data att' = pa_env_var_source_data att" and "pa_bootstrap att' = pa_bootstrap att"
    and running: "same_up_to_defaults (p_spec p) (p_spec r)"
    and "\<forall>a\<in>set (critical_annotations @ warning_annotations). map_get (p_annotations r) a = map_get (p_annotations p) a"
  shows "\<exists>pc. NewPodComparison L g r q = Inr pc \<and> Matches pc \<and> \<not> HasCriticalMismatch pc \<and> \<not> HasWarningMismatch pc"
proof -
  have q: "p_annotations q = p_annotations p" "ps_containers (p_spec q) = ps_containers (p_spec p)"
    using ConstructPod_twins [OF assms(3,4,1,2)] by simp_all
  have img: "map_option c_image (humio_container r) = map_option c_image (humio_container q)"
    using running same_container_image [of "ps_containers (p_spec p)" "ps_containers (p_spec r)"]
    by (simp add: humio_container_def q(2) same_up_to_defaults_def)
  have "humio_container q \<noteq> None"
    using ConstructPod_humio_first [OF assms(2)] by (rule humio_first_container)
  moreover from this have "humio_container r \<noteq> None" using img by auto
  ultimately obtain pc where pc: "NewPodComparison L g r q = Inr pc" using comparison_exists by blast
  have same: "list_all (\<lambda>a. \<not> annotation_differs r q a) (critical_annotations @ warning_annotations)"
    using assms(6) by (simp add: annotation_differs_def q(1) list_all_iff)
  have "\<not> HasCriticalMismatch pc" "\<not> HasWarningMismatch pc"
    using comparison_verdict [where L = L and hnp = g and current = r and desired = q] same img
    unfolding pc sum.case
    by (auto simp: list_all_iff list_ex_iff image_differs_def warning_annotations_def)
  with pc same img comparison_matches(1) [OF pc] show ?thesis by (auto simp: image_differs_def)
qed

definition sample_attachments :: pod_attachments where
  "sample_attachments = \<lparr>pa_data_volume_source = empty_volume_source, pa_init_service_account_secret_name = ''sa'',
     pa_env_var_source_data = None, pa_bootstrap = \<lparr>bts_hash = ''t'', bts_secret_reference = None\<rparr>\<rparr>"

definition built :: "string \<Rightarrow> pod" where
  "built n = projr (fst (ConstructPod plain_lib n sample_attachments empty_pool))"

lemma plain_pool_built:
  assumes "ns_sidecar_containers (np_spec h) = []" and "ns_extra_humio_volume_mounts (np_spec h) = []"
    and "ns_extra_volumes (np_spec h) = []"
  shows "\<exists>p. fst (ConstructPod L n att h) = Inr p"
proof -
  obtain p g where c: "configured_pod L n att h = (p, g)" by fastforce
  have "same_pool h g" using configured_pod_same [of h L n att] c by simp
  then have spec: "np_spec g = np_spec h" by (auto simp: same_pool_def)
  obtain q where "finish_pod L att g (add_tls L n g p) = Inr q"
    by (auto simp: finish_pod_def Let_def ConstructContainerArgs_def)
  then have "constructBasePod L n att h = (Inr q, g)" using assms by (simp add: constructBasePod_def c spec)
  then show ?thesis
    by (auto simp: ConstructPod_def Let_def bind_result_def PodHashMinusManagedFields_def PodHashOnlyManagedFields_def
        podHasherMinusManagedFields_def podHasherOnlyManagedFields_def NewPodHasher_def calculateHash_def
        split: sum.split)
qed

lemma built_run: "ConstructPod plain_lib n sample_attachments empty_pool =
    (Inr (built n), snd (ConstructPod plain_lib n sample_attachments empty_pool))"
  using plain_pool_built [of empty_pool plain_lib n sample_attachments]
  by (auto simp: built_def prod_eq_iff empty_pool_def empty_node_spec_def)

theorem no_restart_without_change_witness:
  "\<exists>pc. NewPodComparison plain_lib empty_pool
          ((built ''a'')\<lparr>p_spec := (p_spec (built ''a''))\<lparr>ps_node_name := ''n1'', ps_restart_policy := ''Always''\<rparr>\<rparr>)
          (built ''b'') = Inr pc \<and> Matches pc \<and> \<not> HasCriticalMismatch pc \<and> \<not> HasWarningMismatch pc"
  using no_restart_without_change [OF built_run [of "''a''"] built_run [of "''b''"], of
      "(built ''a'')\<lparr>p_spec := (p_spec (built ''a''))\<lparr>ps_node_name := ''n1'', ps_restart_policy := ''Always''\<rparr>\<rparr>" empty_pool]
  by (auto simp: same_up_to_defaults_def same_container_def list_all2_conv_all_nth)

end
