(* ===== verification/Pod_Lifecycle.thy ===== *)
theory Pod_Lifecycle
  imports Pod_Construction
begin

text \<open>
  Which pods of a pool must be replaced, and how: internal/controller/humiocluster_pod_lifecycle.go,
  \<open>getPodDesiredLifecycleState\<close> and the pod filters of internal/controller/humiocluster_pods.go.

  \<open>versionDifference\<close> is only set from a comparison whose two versions are set
  (lemma \<open>comparison_versions\<close>), so its versions are values, not pointers.
\<close>

section \<open>The lifecycle state\<close>

record version_difference =
  vd_from :: humio_version
  vd_to :: humio_version

record lifecycle_state =
  ls_pool :: node_pool
  ls_to_replace :: "pod list"
  ls_version_difference :: "version_difference option"
  ls_configuration_difference :: "bool option"  \<comment> \<open>\<open>requiresSimultaneousRestart\<close>\<close>

definition NewPodLifecycleState :: "node_pool \<Rightarrow> lifecycle_state" where
  "NewPodLifecycleState hnp = \<lparr>ls_pool = hnp, ls_to_replace = [], ls_version_difference = None,
     ls_configuration_difference = None\<rparr>"

definition FoundVersionDifference :: "lifecycle_state \<Rightarrow> bool" where
  "FoundVersionDifference p \<longleftrightarrow> ls_version_difference p \<noteq> None"

definition FoundConfigurationDifference :: "lifecycle_state \<Rightarrow> bool" where
  "FoundConfigurationDifference p \<longleftrightarrow> ls_configuration_difference p \<noteq> None"

definition same_minor :: "version_difference \<Rightarrow> bool" where
  "same_minor v \<longleftrightarrow>
     (let a = the (hv_semver (vd_from v)); b = the (hv_semver (vd_to v))
      in if sv_major a = sv_major b then sv_minor a = sv_minor b else False)"

definition ShouldRollingRestart :: "lifecycle_state \<Rightarrow> bool" where
  "ShouldRollingRestart p =
     (let strategy = us_type (update_strategy_of (ls_pool p)) in
      if (case ls_version_difference p of
            Some v \<Rightarrow> hv_is_latest (vd_from v) \<or> hv_is_latest (vd_to v) | None \<Rightarrow> False)
      then False
      else if ls_configuration_difference p = Some True then False
      else if strategy = ReplaceAllOnUpdate then False
      else if strategy = RollingUpdate then True
      else if strategy = RollingUpdateBestEffort
      then (case ls_version_difference p of Some v \<Rightarrow> same_minor v | None \<Rightarrow> False)
      else False)"

definition ADifferenceWasDetectedAndManualDeletionsNotEnabled :: "lifecycle_state \<Rightarrow> bool" where
  "ADifferenceWasDetectedAndManualDeletionsNotEnabled p =
     (if us_type (update_strategy_of (ls_pool p)) = OnDelete then False
      else FoundVersionDifference p \<or> FoundConfigurationDifference p)"

definition namesOfPodsToBeReplaced :: "lifecycle_state \<Rightarrow> string list" where
  "namesOfPodsToBeReplaced p = map p_name (ls_to_replace p)"

section \<open>getPodDesiredLifecycleState\<close>

definition environmentVariablesRequiringSimultaneousRestartRestart :: "string list" where
  "environmentVariablesRequiringSimultaneousRestartRestart = [''EXTERNAL_URL'']"

definition note_mismatch :: "pod_comparison \<Rightarrow> lifecycle_state \<Rightarrow> lifecycle_state" where
  "note_mismatch pc st =
     (let st = foldl (\<lambda>st a. st\<lparr>ls_configuration_difference := Some False\<rparr>) st (MismatchedAnnotations pc);
          (hasMismatch, v) = MismatchedHumioVersions pc;
          st = (if hasMismatch
                then st\<lparr>ls_version_difference := Some \<lparr>vd_from = the (vmm_from v), vd_to = the (vmm_to v)\<rparr>\<rparr>
                else st)
      in if list_ex (\<lambda>envVar. envVar \<in> MismatchedEnvironmentVariables pc)
              environmentVariablesRequiringSimultaneousRestartRestart
         then st\<lparr>ls_configuration_difference := Some True\<rparr> else st)"

definition append_replaced :: "pod \<Rightarrow> lifecycle_state \<Rightarrow> lifecycle_state" where
  "append_replaced pd st = st\<lparr>ls_to_replace := ls_to_replace st @ [pd]\<rparr>"

definition consider_pod ::
  "lib \<Rightarrow> 'w kube \<Rightarrow> bool \<Rightarrow> node_pool \<Rightarrow> pod \<Rightarrow> pod \<Rightarrow> lifecycle_state
     \<Rightarrow> ('w st, go_error, lifecycle_state) step" where
  "consider_pod L K bypass hnp desiredPod currentPod st =
     (if p_deletion_timestamp currentPod \<noteq> None then ret st
      else
        case NewPodComparison L hnp currentPod desiredPod of
          Inl err \<Rightarrow> exit_with (Wrap ''could not create pod comparison'' (Some err))
        | Inr pc \<Rightarrow>
            if Matches pc then ret st
            else if HasWarningMismatch pc then ret st
            else
              let st = note_mismatch pc st in
              if \<not> use_envtest L \<and> \<not> bypass \<and> the (us_enable_zone_awareness (update_strategy_of hnp))
              then
                if ps_node_name (p_spec currentPod) = [] then ret st
                else and_then (observe (GetZoneForNodeName K (ps_node_name (p_spec currentPod)))) (\<lambda>zone.
                     if GetZoneUnderMaintenance hnp \<noteq> [] \<and> zone \<noteq> GetZoneUnderMaintenance hnp then ret st
                     else ret (append_replaced currentPod st))
              else ret (append_replaced currentPod st))"

definition getPodDesiredLifecycleState ::
  "lib \<Rightarrow> 'w kube \<Rightarrow> node_pool \<Rightarrow> pod list \<Rightarrow> pod_attachments \<Rightarrow> bool
     \<Rightarrow> ('w st, go_error, (lifecycle_state \<times> pod) \<times> node_pool) step" where
  "getPodDesiredLifecycleState L K hnp foundPodList attachments bypass =
     (case ConstructPod L [] attachments hnp of
        (Inl err, hnp) \<Rightarrow> exit_with (Wrap ''could not construct pod'' (Some err))
      | (Inr desiredPod, hnp) \<Rightarrow>
          let desiredPod = (if bts_secret_reference (pa_bootstrap attachments) \<noteq> None
                then set_annotation BootstrapTokenHashAnnotation (bts_hash (pa_bootstrap attachments)) desiredPod
                else desiredPod)
          in and_then (fold_step (consider_pod L K bypass hnp desiredPod) foundPodList (NewPodLifecycleState hnp))
               (\<lambda>st. ret ((st, desiredPod), hnp)))"

section \<open>Filters\<close>

fun FilterPodsByZoneName ::
  "'w kube \<Rightarrow> string \<Rightarrow> pod list \<Rightarrow> ('w st, go_error, pod list) step" where
  "FilterPodsByZoneName K zoneName [] = ret []"
| "FilterPodsByZoneName K zoneName (pd # rest) =
     and_then (observe (GetZoneForNodeName K (ps_node_name (p_spec pd)))) (\<lambda>zone.
     and_then (FilterPodsByZoneName K zoneName rest) (\<lambda>ps.
     ret (if zone = zoneName then pd # ps else ps)))"

definition has_revision_and_hash :: "int \<Rightarrow> string \<Rightarrow> pod \<Rightarrow> bool" where
  "has_revision_and_hash podRevision podHash pd =
     (case (p_annotations pd PodRevisionAnnotation, p_annotations pd PodHashAnnotation) of
        (Some r, Some h) \<Rightarrow> itoa podRevision = r \<and> podHash = h
      | _ \<Rightarrow> False)"

definition FilterPodsExcludePodsWithPodRevisionOrPodHash :: "pod list \<Rightarrow> int \<Rightarrow> string \<Rightarrow> pod list" where
  "FilterPodsExcludePodsWithPodRevisionOrPodHash podList podRevision podHash =
     filter (\<lambda>pd. \<not> has_revision_and_hash podRevision podHash pd) podList"

definition FilterPodsExcludePodsWithEmptyNodeName :: "pod list \<Rightarrow> pod list" where
  "FilterPodsExcludePodsWithEmptyNodeName podList = filter (\<lambda>pd. ps_node_name (p_spec pd) \<noteq> []) podList"

section \<open>What a comparison contributes\<close>

text \<open>The pods that must be replaced to reach the desired pod: live, with a critical mismatch.\<close>

definition outdated :: "pod \<Rightarrow> pod \<Rightarrow> bool" where
  "outdated desired pd \<longleftrightarrow>
     live pd \<and> (list_ex (annotation_differs pd desired) critical_annotations \<or> image_differs pd desired)"

definition annotations_differ :: "pod \<Rightarrow> pod \<Rightarrow> bool" where
  "annotations_differ desired pd \<longleftrightarrow>
     list_ex (annotation_differs pd desired) (critical_annotations @ warning_annotations)"

text \<open>
  The comparison works on sanitized pods, and sanitizing gives \<open>EXTERNAL_URL\<close> the same value in
  both: all that can differ is its presence.
\<close>

definition has_external_url :: "pod \<Rightarrow> bool" where
  "has_external_url pd \<longleftrightarrow> (\<exists>c. humio_container pd = Some c \<and> ''EXTERNAL_URL'' \<in> ev_name ` set (c_env c))"

lemma value_of_constant:
  "(\<And>e. e \<in> set env \<Longrightarrow> ev_name e = k \<Longrightarrow> ev_value e = v) \<Longrightarrow> k \<in> ev_name ` set env \<Longrightarrow>
   EnvVarValue env k = v"
  by (auto simp: EnvVarValue_def find_None_iff split: option.split dest!: find_Some_first)

lemma set_stable_sort_desc_env [simp]: "set (c_env (sort_env c)) = set (c_env c)"
  by (simp add: sort_env_def)

lemma sanitized_env:
  "c_name c = HumioContainerName \<Longrightarrow>
   set (c_env (sanitized_container L hnp c)) = sanitize_env L hnp ` set (c_env c)"
  by (simp add: sanitized_container_def reset_container_def)

lemma sanitized_external_url:
  assumes "c_name c = HumioContainerName"
  shows "env_map (c_env (sanitized_container L hnp c)) ''EXTERNAL_URL'' =
           (if ''EXTERNAL_URL'' \<in> ev_name ` set (c_env c)
            then Some (to_lower (GetProbeScheme L hnp) @ ''://'' @ GetNodePoolName hnp @ ''-core-.'' @
              headlessServiceName (GetClusterName hnp) @ ''.'' @ GetNamespace hnp @ '':'' @ itoa HumioPort)
            else None)"
proof -
  have names: "ev_name ` set (c_env (sanitized_container L hnp c)) = ev_name ` set (c_env c)"
    by (simp add: sanitized_env [OF assms] image_image)
  have "EnvVarValue (c_env (sanitized_container L hnp c)) ''EXTERNAL_URL'' =
          to_lower (GetProbeScheme L hnp) @ ''://'' @ GetNodePoolName hnp @ ''-core-.'' @
              headlessServiceName (GetClusterName hnp) @ ''.'' @ GetNamespace hnp @ '':'' @ itoa HumioPort"
    if "''EXTERNAL_URL'' \<in> ev_name ` set (c_env c)"
  proof (rule value_of_constant)
    show "''EXTERNAL_URL'' \<in> ev_name ` set (c_env (sanitized_container L hnp c))" using that names by simp
  qed (auto simp: sanitized_env [OF assms] sanitize_env_def env_value_def split: if_splits)
  then show ?thesis by (simp add: env_map_def names)
qed

lemma humio_container_name: "humio_container pd = Some c \<Longrightarrow> c_name c = HumioContainerName"
  by (auto simp: humio_container_def dest: find_Some_first)

lemma external_url_mismatch:
  assumes "NewPodComparison L hnp current desired = Inr pc"
  shows "''EXTERNAL_URL'' \<in> MismatchedEnvironmentVariables pc \<longleftrightarrow> has_external_url current \<noteq> has_external_url desired"
proof -
  obtain c d where cd: "humio_container current = Some c" "humio_container desired = Some d"
    using assms by (rule NewPodComparison_cases)
  show ?thesis
    unfolding mismatched_env_exact [OF assms cd]
    using cd by (simp add: sanitized_external_url humio_container_name has_external_url_def)
qed

text \<open>
  A change of the value of \<open>EXTERNAL_URL\<close> is never seen as one that requires all pods to
  restart at the same time: if the running and the desired pod both have the variable, the
  comparison does not list it as mismatched, whatever the two values are. (The operator adds the
  variable to every pod, so the list of variables that require a simultaneous restart has no
  effect on the pods it creates.)
\<close>

lemma external_url_change_goes_unnoticed:
  assumes "NewPodComparison L hnp current desired = Inr pc"
    and "has_external_url current" and "has_external_url desired"
  shows "\<forall>envVar\<in>set environmentVariablesRequiringSimultaneousRestartRestart.
           envVar \<notin> MismatchedEnvironmentVariables pc"
  using external_url_mismatch [OF assms(1)] assms(2,3)
  by (simp add: environmentVariablesRequiringSimultaneousRestartRestart_def)

lemma external_url_change_goes_unnoticed_witness:
  "let url_pod = (\<lambda>v. (sample_pod ''a'')\<lparr>p_spec := (p_spec (sample_pod ''a''))\<lparr>ps_containers :=
         [empty_container\<lparr>c_name := ''humio'', c_env := [env_value ''EXTERNAL_URL'' v]\<rparr>]\<rparr>\<rparr>)
   in \<exists>pc. NewPodComparison plain_lib empty_pool (url_pod ''http://a'') (url_pod ''https://a'') = Inr pc
         \<and> ''EXTERNAL_URL'' \<notin> MismatchedEnvironmentVariables pc"
proof -
  let ?url_pod = "\<lambda>v. (sample_pod ''a'')\<lparr>p_spec := (p_spec (sample_pod ''a''))\<lparr>ps_containers :=
         [empty_container\<lparr>c_name := ''humio'', c_env := [env_value ''EXTERNAL_URL'' v]\<rparr>]\<rparr>\<rparr>"
  have humio: "humio_container (?url_pod v) =
      Some (empty_container\<lparr>c_name := ''humio'', c_env := [env_value ''EXTERNAL_URL'' v]\<rparr>)" for v
    by (simp add: humio_container_def HumioContainerName_def)
  then have has: "has_external_url (?url_pod v)" for v
    by (simp add: has_external_url_def env_value_def)
  obtain pc where "NewPodComparison plain_lib empty_pool (?url_pod ''http://a'') (?url_pod ''https://a'') = Inr pc"
    using comparison_exists humio by blast
  then show ?thesis
    using external_url_change_goes_unnoticed [OF _ has has]
    by (auto simp: environmentVariablesRequiringSimultaneousRestartRestart_def Let_def)
qed

section \<open>What getPodDesiredLifecycleState finds\<close>

text \<open>\<open>noted L g d st p\<close>: what pod \<open>p\<close> adds to the differences found.\<close>

definition add_differences :: "lib \<Rightarrow> pod \<Rightarrow> lifecycle_state \<Rightarrow> pod \<Rightarrow> lifecycle_state" where
  "add_differences L desired st pd =
     st\<lparr>ls_version_difference :=
          (if image_differs pd desired
           then Some \<lparr>vd_from = HumioVersionFromString L (c_image (the (humio_container pd))),
                      vd_to = HumioVersionFromString L (c_image (the (humio_container desired)))\<rparr>
           else ls_version_difference st),
        ls_configuration_difference :=
          (if has_external_url pd \<noteq> has_external_url desired then Some True
           else if annotations_differ desired pd then Some False
           else ls_configuration_difference st)\<rparr>"

lemma foldl_constant:
  "foldl (\<lambda>st a. st\<lparr>ls_configuration_difference := Some False\<rparr>) st xs =
     (if xs = [] then st else st\<lparr>ls_configuration_difference := Some False\<rparr>)"
  by (induction xs arbitrary: st) auto

lemma note_mismatch_adds:
  assumes "NewPodComparison L hnp current desired = Inr pc"
  shows "note_mismatch pc st = add_differences L desired st current"
proof -
  have pods: "humio_container current \<noteq> None" "humio_container desired \<noteq> None"
    and v: "snd (MismatchedHumioVersions pc) =
            (if image_differs current desired
             then \<lparr>vmm_from = map_option (\<lambda>c. HumioVersionFromString L (c_image c)) (humio_container current),
                   vmm_to = map_option (\<lambda>c. HumioVersionFromString L (c_image c)) (humio_container desired)\<rparr>
             else \<lparr>vmm_from = None, vmm_to = None\<rparr>)"
    using comparison_verdict [where L = L and hnp = hnp and current = current and desired = desired]
    unfolding assms sum.case by blast+
  have a: "MismatchedAnnotations pc = [] \<longleftrightarrow> \<not> annotations_differ desired current"
    using comparison_matches(5) [OF assms] unfolding set_empty [symmetric]
    by (auto simp: annotations_differ_def list_ex_iff filter_empty_conv)
  show ?thesis
    using pods v comparison_matches(4) [OF assms] external_url_mismatch [OF assms]
    by (auto simp: note_mismatch_def add_differences_def foldl_constant a Let_def split_beta
        environmentVariablesRequiringSimultaneousRestartRestart_def)
qed

definition zone_filter :: "lib \<Rightarrow> bool \<Rightarrow> node_pool \<Rightarrow> bool" where
  "zone_filter L bypass hnp \<longleftrightarrow>
     \<not> use_envtest L \<and> \<not> bypass \<and> the (us_enable_zone_awareness (update_strategy_of hnp))"

text \<open>What the zone filter says of a pod it lets through, in the zones known afterwards.\<close>

definition zone_allows :: "node_pool \<Rightarrow> smap \<Rightarrow> pod \<Rightarrow> bool" where
  "zone_allows hnp zones pd \<longleftrightarrow> ps_node_name (p_spec pd) \<noteq> []
     \<and> (GetZoneUnderMaintenance hnp \<noteq> [] \<longrightarrow>
          zones (ps_node_name (p_spec pd)) = Some (GetZoneUnderMaintenance hnp))"

lemma zone_allows_grows: "zone_allows hnp z pd \<Longrightarrow> z \<subseteq>\<^sub>m z' \<Longrightarrow> zone_allows hnp z' pd"
  by (auto simp: zone_allows_def map_le_def dom_def)

lemma outdated_iff:
  assumes "NewPodComparison L hnp pd desired = Inr pc"
  shows "outdated desired pd \<longleftrightarrow> live pd \<and> \<not> Matches pc \<and> \<not> HasWarningMismatch pc"
  using comparison_matches(2,3) [OF assms] by (auto simp: outdated_def Matches_def)

lemma consider_pod_run:
  assumes "consider_pod L K bypass hnp desired pd st s = (Inr st', s')"
  shows "if outdated desired pd
         then \<exists>keep. st' = (if keep then append_replaced pd else (\<lambda>x. x)) (add_differences L desired st pd)
                \<and> (if zone_filter L bypass hnp then keep \<longrightarrow> zone_allows hnp (zone_cache s') pd else keep)
                \<and> zone_cache s \<subseteq>\<^sub>m zone_cache s'
         else st' = st \<and> s' = s"
proof (cases "live pd")
  case False
  then have "consider_pod L K bypass hnp desired pd st s = (Inr st, s)" "\<not> outdated desired pd"
    by (simp_all add: consider_pod_def live_def outdated_def ret_def)
  then show ?thesis using assms by simp
next
  case True
  obtain pc where pc: "NewPodComparison L hnp pd desired = Inr pc"
    using assms True
    by (cases "NewPodComparison L hnp pd desired") (auto simp: consider_pod_def live_def exit_with_def)
  let ?st = "add_differences L desired st pd"
  obtain zone sz where z: "GetZoneForNodeName K (ps_node_name (p_spec pd)) s = (zone, sz)" by fastforce
  show ?thesis
  proof (cases "outdated desired pd")
    case False
    then have "Matches pc \<or> HasWarningMismatch pc" using True outdated_iff [OF pc] by blast
    then have "consider_pod L K bypass hnp desired pd st s = (Inr st, s)"
      using True by (auto simp: consider_pod_def pc live_def ret_def)
    then show ?thesis using assms False by simp
  next
    case old: True
    have run: "(if zone_filter L bypass hnp
               then if ps_node_name (p_spec pd) = [] then (Inr ?st, s)
                    else if GetZoneUnderMaintenance hnp \<noteq> [] \<and> zone \<noteq> GetZoneUnderMaintenance hnp then (Inr ?st, sz)
                    else (Inr (append_replaced pd ?st), sz)
               else (Inr (append_replaced pd ?st), s)) = (Inr st' :: go_error + lifecycle_state, s')"
      using assms True old outdated_iff [OF pc]
      by (cases "zone_filter L bypass hnp"; cases "ps_node_name (p_spec pd) = []")
        (auto simp: consider_pod_def pc live_def ret_def and_then_def observe_def z Let_def zone_filter_def
          note_mismatch_adds [OF pc] split: if_splits)
    have grow: "zone_cache s \<subseteq>\<^sub>m zone_cache sz" using zone_cache_grows [of s K] z by (metis snd_conv)
    have "zone \<noteq> [] \<Longrightarrow> zone_cache sz (ps_node_name (p_spec pd)) = Some zone"
      using zone_cached_afterwards [OF z] .
    then show ?thesis
      using run old grow by (cases "st' = ?st") (auto simp: zone_allows_def append_replaced_def split: if_splits)
  qed
qed

lemma case_last_None:
  "(case rev (filter P ps) of [] \<Rightarrow> None | p # _ \<Rightarrow> Some (f p)) = None \<longleftrightarrow> \<not> list_ex P ps"
proof -
  have "rev (filter P ps) = [] \<longleftrightarrow> \<not> list_ex P ps" by (auto simp: list_ex_iff filter_empty_conv)
  then show ?thesis by (cases "rev (filter P ps)") auto
qed

definition version_of_last :: "lib \<Rightarrow> pod \<Rightarrow> pod list \<Rightarrow> version_difference option" where
  "version_of_last L desired ps =
     (case rev (filter (\<lambda>p. outdated desired p \<and> image_differs p desired) ps) of
        [] \<Rightarrow> None
      | p # _ \<Rightarrow> Some \<lparr>vd_from = HumioVersionFromString L (c_image (the (humio_container p))),
                       vd_to = HumioVersionFromString L (c_image (the (humio_container desired)))\<rparr>)"

definition simultaneous_of_last :: "pod \<Rightarrow> pod list \<Rightarrow> bool option" where
  "simultaneous_of_last desired ps =
     (case rev (filter (\<lambda>p. outdated desired p
                 \<and> (has_external_url p \<noteq> has_external_url desired \<or> annotations_differ desired p)) ps) of
        [] \<Rightarrow> None | p # _ \<Rightarrow> Some (has_external_url p \<noteq> has_external_url desired))"

definition lifecycle_of ::
  "lib \<Rightarrow> bool \<Rightarrow> node_pool \<Rightarrow> pod \<Rightarrow> pod list \<Rightarrow> lifecycle_state \<Rightarrow> 'w st \<Rightarrow> bool" where
  "lifecycle_of L bypass hnp desired ps st s \<longleftrightarrow>
     ls_pool st = hnp
     \<and> ls_version_difference st = version_of_last L desired ps
     \<and> ls_configuration_difference st = simultaneous_of_last desired ps
     \<and> (if zone_filter L bypass hnp
        then set (ls_to_replace st) \<subseteq> {p \<in> set ps. outdated desired p \<and> zone_allows hnp (zone_cache s) p}
        else ls_to_replace st = filter (outdated desired) ps)"

lemma lifecycle_walk:
  "holds_after (lifecycle_of L bypass hnp desired ys st) (fold_step (consider_pod L K bypass hnp desired) ps st)
     (\<lambda>_ _. True) (lifecycle_of L bypass hnp desired (ys @ ps))"
proof (rule holds_after_fold_step, rule holds_afterI)
  fix pd ys st s st' s'
  assume I: "lifecycle_of L bypass hnp desired ys st s"
    and run: "consider_pod L K bypass hnp desired pd st s = (Inr st', s')"
  show "lifecycle_of L bypass hnp desired (ys @ [pd]) st' s'"
  proof (cases "outdated desired pd")
    case False
    then have "st' = st" "s' = s" using consider_pod_run [OF run] by simp_all
    then show ?thesis
      using I False by (auto simp: lifecycle_of_def version_of_last_def simultaneous_of_last_def)
  next
    case True
    then obtain keep
      where st': "st' = (if keep then append_replaced pd else (\<lambda>x. x)) (add_differences L desired st pd)"
        and z: "if zone_filter L bypass hnp then keep \<longrightarrow> zone_allows hnp (zone_cache s') pd else keep"
        and grow: "zone_cache s \<subseteq>\<^sub>m zone_cache s'"
      using consider_pod_run [OF run] by auto
    have fields: "ls_pool st' = ls_pool st"
      "ls_version_difference st' = ls_version_difference (add_differences L desired st pd)"
      "ls_configuration_difference st' = ls_configuration_difference (add_differences L desired st pd)"
      "ls_to_replace st' = ls_to_replace st @ (if keep then [pd] else [])"
      by (simp_all add: st' append_replaced_def add_differences_def)
    have "ls_version_difference st' = version_of_last L desired (ys @ [pd])"
      "ls_configuration_difference st' = simultaneous_of_last desired (ys @ [pd])"
      using I True fields(2,3)
      by (auto simp: lifecycle_of_def add_differences_def version_of_last_def simultaneous_of_last_def)
    moreover have "if zone_filter L bypass hnp
        then set (ls_to_replace st') \<subseteq> {p \<in> set (ys @ [pd]). outdated desired p \<and> zone_allows hnp (zone_cache s') p}
        else ls_to_replace st' = filter (outdated desired) (ys @ [pd])"
      using I True z fields(4) zone_allows_grows [OF _ grow]
      by (auto simp: lifecycle_of_def split: if_splits)
    ultimately show ?thesis using I fields(1) by (simp add: lifecycle_of_def)
  qed
qed simp

lemma lifecycle_run:
  assumes "getPodDesiredLifecycleState L K hnp ps att bypass s = (Inr ((st, desired), h), s')"
  shows "lifecycle_of L bypass h desired ps st s'" and "\<exists>q. ConstructPod L [] att hnp = (Inr q, h)"
proof -
  obtain r g where c: "ConstructPod L [] att hnp = (r, g)" by fastforce
  obtain q where r: "r = Inr q" using assms
    by (cases r) (simp_all add: getPodDesiredLifecycleState_def c exit_with_def)
  let ?fold = "\<lambda>d. fold_step (consider_pod L K bypass g d) ps (NewPodLifecycleState g)"
  obtain d where "and_then (?fold d) (\<lambda>st. ret ((st, d), g)) s = (Inr ((st, desired), h), s')"
    using assms by (simp add: getPodDesiredLifecycleState_def c r Let_def)
  then have "?fold d s = (Inr st, s')" and "d = desired" and "g = h"
    by (auto simp: and_then_Inr ret_def)
  then have q: "ConstructPod L [] att hnp = (Inr q, h)"
    and run: "fold_step (consider_pod L K bypass h desired) ps (NewPodLifecycleState h) s = (Inr st, s')"
    using c r by simp_all
  show "\<exists>q. ConstructPod L [] att hnp = (Inr q, h)" using q by blast
  have "lifecycle_of L bypass h desired [] (NewPodLifecycleState h) s"
    by (simp add: lifecycle_of_def NewPodLifecycleState_def version_of_last_def simultaneous_of_last_def)
  from holds_after_value [OF lifecycle_walk this run] show "lifecycle_of L bypass h desired ps st s'" by simp
qed


text \<open>A run for the witnesses: an unpinned pool, pods that have a LogScale container.\<close>

lemma built_hash: "map_get (p_annotations (built n)) PodHashAnnotation = ''h''"
proof -
  obtain p0 g where "constructBasePod plain_lib n sample_attachments empty_pool = (Inr p0, g)"
    using built_run [of n] by (cases "constructBasePod plain_lib n sample_attachments empty_pool")
      (auto simp: ConstructPod_def split: sum.splits)
  moreover have "x_pod_spec_hash plain_lib sp = ''h''" for sp by (simp add: plain_lib_def)
  ultimately have "\<exists>c. set_annotation PodOperatorManagedFieldsHashAnnotation c
               (set_annotation PodHashAnnotation ''h'' p0) = built n"
    using built_run [of n]
    by (auto simp: ConstructPod_def Let_def bind_result_Inr PodHashMinusManagedFields_def calculateHash_def
        split: sum.splits option.splits)
  then obtain c where "built n = set_annotation PodOperatorManagedFieldsHashAnnotation c
               (set_annotation PodHashAnnotation ''h'' p0)" by metis
  then show ?thesis
    by (simp add: set_annotation_def map_get_def PodOperatorManagedFieldsHashAnnotation_def PodHashAnnotation_def)
qed

lemma built_container: "humio_container (built n) \<noteq> None"
  using ConstructPod_humio_first [OF built_run] by (rule humio_first_container)

lemma consider_pod_returns:
  assumes "humio_container pd \<noteq> None" and "humio_container d \<noteq> None"
  shows "\<exists>st' s'. consider_pod L K True hnp d pd st s = (Inr st', s')"
  using comparison_exists [OF assms, of L hnp] by (auto simp: consider_pod_def ret_def Let_def)

lemma sample_lifecycle_run:
  assumes "\<forall>p\<in>set ps. humio_container p \<noteq> None"
  shows "\<exists>st h s'. getPodDesiredLifecycleState plain_lib K empty_pool ps sample_attachments True s =
           (Inr ((st, built []), h), s')"
proof -
  have "\<exists>st' s'. fold_step (consider_pod plain_lib K True h (built [])) ps st t = (Inr st', s')" for h st t
    using assms
  proof (induction ps arbitrary: st t)
    case Nil
    show ?case by (simp add: ret_def)
  next
    case (Cons p ps)
    obtain st' t' where "consider_pod plain_lib K True h (built []) p st t = (Inr st', t')"
      using consider_pod_returns [of p "built []"] Cons.prems built_container by fastforce
    then show ?case using Cons by (simp add: and_then_def)
  qed
  then obtain st s' where fold: "fold_step (consider_pod plain_lib K True
      (snd (ConstructPod plain_lib [] sample_attachments empty_pool)) (built [])) ps
      (NewPodLifecycleState (snd (ConstructPod plain_lib [] sample_attachments empty_pool))) s = (Inr st, s')"
    by blast
  obtain h where h: "ConstructPod plain_lib [] sample_attachments empty_pool = (Inr (built []), h)"
    using built_run by metis
  have "bts_secret_reference (pa_bootstrap sample_attachments) = None" by (simp add: sample_attachments_def)
  then have "getPodDesiredLifecycleState plain_lib K empty_pool ps sample_attachments True s =
      (Inr ((st, built []), h), s')"
    using fold by (simp add: getPodDesiredLifecycleState_def h and_then_def ret_def Let_def)
  then show ?thesis by blast
qed

lemma hash_differs:
  "p_annotations p = p_annotations (sample_pod n) \<Longrightarrow> annotation_differs p (built m) PodHashAnnotation"
proof -
  assume "p_annotations p = p_annotations (sample_pod n)"
  then have "map_get (p_annotations p) PodHashAnnotation = []" by (simp add: map_get_def PodHashAnnotation_def)
  then show ?thesis by (simp add: annotation_differs_def built_hash)
qed

lemma hash_outdated:
  "p_annotations p = p_annotations (sample_pod n) \<Longrightarrow> live p \<Longrightarrow>
   outdated (built m) p \<and> annotations_differ (built m) p"
  using hash_differs [of p n m]
  by (auto simp: outdated_def annotations_differ_def critical_annotations_def)


text \<open>
  The last outdated pod decides whether all pods restart at the same time: if its
  annotations differ but \<open>EXTERNAL_URL\<close> is present in both or in neither, the simultaneous restart
  an earlier pod of the list called for is forgotten.
\<close>

lemma last_pod_decides_simultaneous_restart:
  assumes "getPodDesiredLifecycleState L K hnp (ps @ [p]) att bypass s = (Inr ((st, desired), h), s')"
    and "outdated desired p" and "annotations_differ desired p"
    and "has_external_url p = has_external_url desired"
  shows "ls_configuration_difference st = Some False"
  using lifecycle_run(1) [OF assms(1)] assms(2-4) by (simp add: lifecycle_of_def simultaneous_of_last_def)

lemma last_pod_decides_simultaneous_restart_witness:
  "let p = (sample_pod ''a'')\<lparr>p_spec := p_spec (built [])\<rparr>
   in \<exists>st d h s'. getPodDesiredLifecycleState plain_lib mem_kube empty_pool ([sample_pod ''b''] @ [p]) sample_attachments
        True (mem_state empty_world) = (Inr ((st, d), h), s') \<and> ls_configuration_difference st = Some False"
proof -
  let ?p = "(sample_pod ''a'')\<lparr>p_spec := p_spec (built [])\<rparr>"
  have same: "humio_container ?p = humio_container (built [])" by (simp add: humio_container_def)
  have "\<forall>p\<in>set ([sample_pod ''b''] @ [?p]). humio_container p \<noteq> None"
    using same built_container by (auto simp: humio_container_def HumioContainerName_def)
  from sample_lifecycle_run [OF this] obtain st h s'
    where run: "getPodDesiredLifecycleState plain_lib mem_kube empty_pool ([sample_pod ''b''] @ [?p])
      sample_attachments True (mem_state empty_world) = (Inr ((st, built []), h), s')" by metis
  have old: "outdated (built []) ?p \<and> annotations_differ (built []) ?p"
    by (rule hash_outdated [of _ "''a''"]) (simp_all add: live_def)
  have "has_external_url ?p = has_external_url (built [])" using same by (simp add: has_external_url_def)
  then have "ls_configuration_difference st = Some False"
    using last_pod_decides_simultaneous_restart [OF run] old by blast
  with run show ?thesis unfolding Let_def by blast
qed

section \<open>Zones as an interface\<close>

text \<open>
  What the filters rely on of the zone lookup: known zones are answered from memory, memory only
  grows, and an answer that names a zone is remembered.
\<close>

locale zone_source =
  fixes zone_of :: "string \<Rightarrow> 's \<Rightarrow> string \<times> 's"
    and known :: "'s \<Rightarrow> smap"
  assumes from_memory: "known s n = Some z \<Longrightarrow> zone_of n s = (z, s)"
    and grows: "known s \<subseteq>\<^sub>m known (snd (zone_of n s))"
    and remembers: "zone_of n s = (z, s') \<Longrightarrow> z \<noteq> [] \<Longrightarrow> known s' n = Some z"
begin

lemma stable:
  assumes "zone_of n s = (z, s')" and "z \<noteq> []" and "known s' \<subseteq>\<^sub>m known t"
  shows "zone_of n t = (z, t)"
  using remembers [OF assms(1,2)] assms(3) by (intro from_memory) (auto simp: map_le_def dom_def)

lemma still_known: "known s n = Some z \<Longrightarrow> known s \<subseteq>\<^sub>m known t \<Longrightarrow> known t n = Some z"
  by (auto simp: map_le_def dom_def)

lemma grows_to: "zone_of n s = (z, s') \<Longrightarrow> known s \<subseteq>\<^sub>m known s'"
  using grows [of s n] by simp

end

interpretation zones: zone_source "GetZoneForNodeName K" zone_cache
  by unfold_locales (use zone_of_cached zone_cache_grows zone_cached_afterwards in auto)

lemma FilterPodsByZoneName_run:
  "FilterPodsByZoneName K Z ps s = (Inr qs, s') \<Longrightarrow> Z \<noteq> [] \<Longrightarrow>
   zone_cache s \<subseteq>\<^sub>m zone_cache s'
   \<and> set qs \<subseteq> {p \<in> set ps. zone_cache s' (ps_node_name (p_spec p)) = Some Z}
   \<and> {p \<in> set ps. zone_cache s (ps_node_name (p_spec p)) = Some Z} \<subseteq> set qs"
proof (induction ps arbitrary: qs s)
  case Nil
  then show ?case by (simp add: ret_def)
next
  case (Cons p ps)
  obtain z sz where z: "GetZoneForNodeName K (ps_node_name (p_spec p)) s = (z, sz)" by fastforce
  obtain rs where rs: "FilterPodsByZoneName K Z ps sz = (Inr rs, s')" and qs: "qs = (if z = Z then p # rs else rs)"
    using Cons.prems(1) by (auto simp: and_then_Inr observe_def z ret_def)
  note IH = Cons.IH [OF rs Cons.prems(2)]
  have g: "zone_cache s \<subseteq>\<^sub>m zone_cache sz" by (rule zones.grows_to [OF z])
  have "z = Z \<Longrightarrow> zone_cache sz (ps_node_name (p_spec p)) = Some Z"
    using zones.remembers [OF z] Cons.prems(2) by simp
  then have kept: "z = Z \<Longrightarrow> zone_cache s' (ps_node_name (p_spec p)) = Some Z"
    using IH zones.still_known by blast
  have "zone_cache s (ps_node_name (p_spec p)) = Some Z \<Longrightarrow> z = Z"
    using zones.from_memory [of s "ps_node_name (p_spec p)" Z K] z by simp
  moreover have "zone_cache s (ps_node_name (p_spec q)) = Some Z \<Longrightarrow> zone_cache sz (ps_node_name (p_spec q)) = Some Z" for q :: pod
    using g by (rule zones.still_known [rotated])
  ultimately show ?case using IH kept map_le_trans [OF g] by (auto simp: qs)
qed

text \<open>
  \<open>FilterPodsByZoneName\<close> for a named zone: it never fails; it keeps only pods whose node
  is, as far as the operator knows afterwards, in that zone; and it keeps every pod whose node it
  already knew to be there.
\<close>

lemma zone_filter_sound:
  assumes "Z \<noteq> []" and "FilterPodsByZoneName K Z ps s = (r, s')"
  shows "\<exists>qs. r = Inr qs \<and> set qs \<subseteq> {p \<in> set ps. zone_cache s' (ps_node_name (p_spec p)) = Some Z}
           \<and> {p \<in> set ps. zone_cache s (ps_node_name (p_spec p)) = Some Z} \<subseteq> set qs"
proof -
  have "\<exists>qs. fst (FilterPodsByZoneName K Z ps t) = Inr qs" for t
  proof (induction ps arbitrary: t)
    case Nil
    show ?case by (simp add: ret_def)
  next
    case (Cons p ps)
    obtain z u where z: "GetZoneForNodeName K (ps_node_name (p_spec p)) t = (z, u)" by fastforce
    obtain qs v where "FilterPodsByZoneName K Z ps u = (Inr qs, v)" using Cons [of u] by (metis prod.collapse)
    then show ?case by (simp add: and_then_def observe_def z ret_def)
  qed
  then obtain qs where "r = Inr qs" using assms(2) by (metis fst_conv)
  with assms FilterPodsByZoneName_run [of K Z ps s qs s'] show ?thesis by auto
qed

lemma zone_filter_sound_witness:
  "\<exists>qs s'. FilterPodsByZoneName mem_kube ''z'' [sample_pod ''a'']
       ((mem_state empty_world)\<lparr>zone_cache := [''n1'' \<mapsto> ''z'']\<rparr>) = (Inr qs, s') \<and> sample_pod ''a'' \<in> set qs"
proof -
  let ?s = "(mem_state empty_world)\<lparr>zone_cache := [''n1'' \<mapsto> ''z'']\<rparr>"
  obtain r s' where run: "FilterPodsByZoneName mem_kube ''z'' [sample_pod ''a''] ?s = (r, s')" by fastforce
  show ?thesis using zone_filter_sound [OF _ run] run by auto
qed

end
