(* ===== verification/Pod_Creation.thy ===== *)
theory Pod_Creation
  imports Pod_Lifecycle
begin

text \<open>
  Creation of the missing pods of a pool: \<open>ensurePodsExist\<close>, \<open>newPodAttachments\<close>, \<open>createPod\<close>,
  \<open>findHumioNodeNameAndCertHash\<close>, \<open>getDesiredBootstrapTokenHash\<close> and \<open>waitForNewPods\<close> of
  internal/controller/humiocluster_pods.go and humiocluster_controller.go. The map
  \<open>pvcClaimNamesInUse\<close> the calls of one \<open>ensurePodsExist\<close> share is passed and returned.
\<close>

definition waitForPodTimeoutSeconds :: nat where "waitForPodTimeoutSeconds = 10"

definition fieldManagerOperatorManagedName :: string where
  "fieldManagerOperatorManagedName = ''humio-operator''"

section \<open>Labels\<close>

definition GetLabelsForSecret :: "node_pool \<Rightarrow> string \<Rightarrow> smap" where
  "GetLabelsForSecret hnp secretName = (GetCommonClusterLabels hnp)(SecretNameLabelName \<mapsto> secretName)"

section \<open>What a pod is attached to\<close>

definition read_source ::
  "'w kube \<Rightarrow> node_pool \<Rightarrow> object_kind \<Rightarrow> string \<Rightarrow> string \<Rightarrow> ('w st, go_error, smap) step" where
  "read_source K hnp kind what name =
     and_then (on_error (query (k_get_object K kind name (GetNamespace hnp))) (\<lambda>err.
       exit_with (Msg (if is_not_found err
         then ''environmentVariablesSource was set but no '' @ what @ '' exists by name '' @ name
              @ '' in namespace '' @ GetNamespace hnp
         else ''unable to get '' @ what @ '' with name '' @ name @ '' in namespace '' @ GetNamespace hnp))))
     (\<lambda>ob. ret (ko_data ob))"

definition add_source ::
  "'w kube \<Rightarrow> node_pool \<Rightarrow> env_from_source \<Rightarrow> smap \<Rightarrow> ('w st, go_error, smap) step" where
  "add_source K hnp envVarSource full =
     and_then (case efs_config_map envVarSource of
                 None \<Rightarrow> ret full
               | Some name \<Rightarrow> and_then (read_source K hnp ConfigMapKind ''configMap'' name) (\<lambda>m. ret (full ++ m)))
     (\<lambda>full. case efs_secret envVarSource of
               None \<Rightarrow> ret full
             | Some name \<Rightarrow> and_then (read_source K hnp SecretKind ''secret'' name) (\<lambda>m. ret (full ++ m)))"

definition getEnvVarSource :: "'w kube \<Rightarrow> node_pool \<Rightarrow> ('w st, go_error, smap option) step" where
  "getEnvVarSource K hnp =
     and_then (fold_step (add_source K hnp) (ns_environment_variables_source (np_spec hnp)) Map.empty)
       (\<lambda>full. ret (if full = Map.empty then None else Some full))"

definition getInitServiceAccountSecretName :: "'w kube \<Rightarrow> node_pool \<Rightarrow> ('w st, go_error, string) step" where
  "getInitServiceAccountSecretName K hnp =
     and_then (query (k_list_objects K SecretKind (GetNamespace hnp)
                        (GetLabelsForSecret hnp (GetInitServiceAccountSecretName hnp)))) (\<lambda>found.
     case found of
       [] \<Rightarrow> ret []
     | [sec] \<Rightarrow> ret (ko_name sec)
     | _ \<Rightarrow> exit_with (Msg (''found more than one init service account secret: ''
              @ join_with '', '' (map ko_name found))))"

definition getDesiredBootstrapTokenHash :: "lib \<Rightarrow> 'w kube \<Rightarrow> ('w st, go_error, string) step" where
  "getDesiredBootstrapTokenHash L K =
     and_then get_hc (\<lambda>hc.
     and_then (ListHumioBootstrapTokens K (hc_namespace hc) (LabelsForHumioBootstrapToken (hc_name hc))) (\<lambda>tokens.
     case tokens of
       [] \<Rightarrow> exit_with (Wrap ''could not find bootstrap token matching labels'' None)
     | token # rest \<Rightarrow>
         if bt_state token \<noteq> HumioBootstrapTokenStateReady
         then exit_with (Msg (''bootstrap token not ready. status='' @ bt_state token))
         else
           (case bt_hashed_ref token of
             None \<Rightarrow> exit_with (Panic ''nil pointer dereference'')
           | Some r \<Rightarrow>
               and_then (on_error (query (k_get_object K SecretKind (sks_name r) (hc_namespace hc))) (\<lambda>err.
                 exit_with (Wrap (''failed to get bootstrap token secret '' @ sks_name r) (Some err)))) (\<lambda>sec.
               if map_get (ko_data sec) (sks_key r) \<noteq> []
               then ret (x_sha256 L (map_get (ko_data sec) (sks_key r)))
               else exit_with (Msg (''bootstrap token '' @ bt_name token @ '' does not have a value for key ''
                      @ sks_key r))))))"

definition newPodAttachments ::
  "'w kube \<Rightarrow> node_pool \<Rightarrow> pod list \<Rightarrow> string set
     \<Rightarrow> ('w st, go_error, pod_attachments \<times> string set) step" where
  "newPodAttachments K hnp foundPodList inUse =
     and_then (on_error (pvcList K hnp) (\<lambda>err. exit_with (Wrap ''problem getting pvc list'' (Some err)))) (\<lambda>pvcs.
     case findAvailableVolumeSourceForPod hnp foundPodList pvcs (Some inUse) of
       (Inl err, inUse') \<Rightarrow>
         exit_with (Wrap ''unable to construct data volume source for HumioCluster'' (Some err))
     | (Inr volumeSource, inUse') \<Rightarrow>
         let inUse = (case vs_pvc volumeSource of None \<Rightarrow> the inUse' | Some claim \<Rightarrow> insert claim (the inUse')) in
         and_then (on_error (getEnvVarSource K hnp) (\<lambda>err.
           exit_with (Wrap ''unable to create Pod for HumioCluster'' (Some err)))) (\<lambda>envVarSourceData.
         and_then (on_error (query (k_get_bootstrap_token K (GetClusterName hnp) (GetNamespace hnp))) (\<lambda>err.
           exit_with (Wrap ''unable to create Pod for HumioCluster. could not find HumioBootstrapToken'' (Some err)))) (\<lambda>hbt.
         case bt_hashed_ref hbt of
           None \<Rightarrow> exit_with (Wrap ''unable to create Pod for HumioCluster'' (Some (Msg (''bootstraptoken ''
             @ GetBootstrapTokenName hnp
             @ '' does not contain a status for the hashed token secret reference''))))
         | Some r \<Rightarrow>
             if ns_disable_init_container (np_spec hnp)
             then ret (\<lparr>pa_data_volume_source = volumeSource, pa_init_service_account_secret_name = [],
                        pa_env_var_source_data = envVarSourceData,
                        pa_bootstrap = \<lparr>bts_hash = [], bts_secret_reference = Some r\<rparr>\<rparr>, inUse)
             else
               and_then (on_error (getInitServiceAccountSecretName K hnp) (\<lambda>err.
                 exit_with (Wrap ''unable get init service account secret for HumioCluster'' (Some err)))) (\<lambda>name.
               if name = []
               then exit_with (Msg ''unable to create Pod for HumioCluster: the init service account secret does not exist'')
               else ret (\<lparr>pa_data_volume_source = volumeSource, pa_init_service_account_secret_name = name,
                          pa_env_var_source_data = envVarSourceData,
                          pa_bootstrap = \<lparr>bts_hash = [], bts_secret_reference = Some r\<rparr>\<rparr>, inUse)))))"

section \<open>createPod\<close>

record pod_name_and_certificate_hash =
  pnc_pod_name :: string
  pnc_certificate_hash :: string

fun first_free_certificate ::
  "'w kube \<Rightarrow> node_pool \<Rightarrow> pod list \<Rightarrow> nat \<Rightarrow> k8s_object list
     \<Rightarrow> ('w st, go_error, pod_name_and_certificate_hash) step" where
  "first_free_certificate K hnp newlyCreatedPods n [] =
     exit_with (Msg (''found '' @ itoa (int n) @ '' certificates but none of them are available to use''))"
| "first_free_certificate K hnp newlyCreatedPods n (c # cs) =
     (if list_ex (\<lambda>newPod. ko_name c = p_name newPod) newlyCreatedPods
      then first_free_certificate K hnp newlyCreatedPods n cs
      else if ko_keystores c = None then first_free_certificate K hnp newlyCreatedPods n cs
      else if ko_keystores c = Some None then first_free_certificate K hnp newlyCreatedPods n cs
      else
        and_then (observe (query (k_get_pod K (ko_name c) (GetNamespace hnp)))) (\<lambda>r.
        case r of
          Inl err \<Rightarrow> if is_not_found err
                     then ret \<lparr>pnc_pod_name = ko_name c,
                               pnc_certificate_hash = map_get (ko_annotations c) CertificateHashAnnotation\<rparr>
                     else exit_with err
        | Inr _ \<Rightarrow> first_free_certificate K hnp newlyCreatedPods n cs))"

definition findHumioNodeNameAndCertHash ::
  "lib \<Rightarrow> 'w kube \<Rightarrow> node_pool \<Rightarrow> pod list \<Rightarrow> ('w st, go_error, pod_name_and_certificate_hash) step" where
  "findHumioNodeNameAndCertHash L K hnp newlyCreatedPods =
     (if \<not> TLSEnabled L hnp
      then and_then (pick (k_random_string K)) (\<lambda>r.
           ret \<lparr>pnc_pod_name = GetNodePoolName hnp @ ''-core-'' @ r, pnc_certificate_hash = []\<rparr>)
      else and_then (query (k_list_objects K CertificateKind (GetNamespace hnp) (GetNodePoolLabels hnp))) (\<lambda>certificates.
           first_free_certificate K hnp newlyCreatedPods (length certificates) certificates))"

definition created_pod :: "lib \<Rightarrow> node_pool \<Rightarrow> pod_name_and_certificate_hash \<Rightarrow> pod \<Rightarrow> pod" where
  "created_pod L hnp nameAndHash pd =
     (let pd = (if TLSEnabled L hnp
                then set_annotation CertificateHashAnnotation (pnc_certificate_hash nameAndHash) pd else pd)
      in pd\<lparr>p_labels := (p_labels pd)(PodMarkedForDataEviction \<mapsto> ''false'')\<rparr>)"

definition createPod ::
  "lib \<Rightarrow> 'w kube \<Rightarrow> node_pool \<Rightarrow> pod_attachments \<Rightarrow> pod list \<Rightarrow> ('w st, go_error, pod \<times> node_pool) step" where
  "createPod L K hnp attachments newlyCreatedPods =
     and_then (log_error ''unable to find pod name'' (findHumioNodeNameAndCertHash L K hnp newlyCreatedPods)) (\<lambda>nh.
     and_then (log_error ''unable to find bootstrap token secret'' (getDesiredBootstrapTokenHash L K)) (\<lambda>hash.
     let attachments = attachments\<lparr>pa_bootstrap := (pa_bootstrap attachments)\<lparr>bts_hash := hash\<rparr>\<rparr> in
     case ConstructPod L (pnc_pod_name nh) attachments hnp of
       (Inl err, hnp') \<Rightarrow> exit_with (Wrap ''unable to construct pod'' (Some err))
     | (Inr pd, hnp') \<Rightarrow>
         let pd = created_pod L hnp' nh pd in
         and_then (act (CreatePod pd) (k_create_pod K pd)) (\<lambda>_. ret (pd, hnp'))))"

section \<open>ensurePodsExist\<close>

definition same_hash :: "pod \<Rightarrow> pod \<Rightarrow> bool" where
  "same_hash p q \<longleftrightarrow> map_get (p_annotations p) PodHashAnnotation = map_get (p_annotations q) PodHashAnnotation"

fun waitForNewPods_loop :: "'w kube \<Rightarrow> node_pool \<Rightarrow> nat \<Rightarrow> pod \<Rightarrow> nat \<Rightarrow> ('w st, go_error, unit) step" where
  "waitForNewPods_loop K hnp expectedPodCount expected 0 =
     exit_with (Msg ''timed out waiting to validate new pods was created'')"
| "waitForNewPods_loop K hnp expectedPodCount expected (Suc i) =
     and_then (query (k_list_pods K (GetNamespace hnp) (GetNodePoolLabels hnp))) (\<lambda>latestPodList.
     if length (filter (\<lambda>p. same_hash p expected) latestPodList) \<ge> expectedPodCount then ret ()
     else and_then (pick (\<lambda>w. ((), k_sleep K second w))) (\<lambda>_.
          waitForNewPods_loop K hnp expectedPodCount expected i))"

definition waitForNewPods :: "'w kube \<Rightarrow> node_pool \<Rightarrow> pod list \<Rightarrow> pod list \<Rightarrow> ('w st, go_error, unit) step" where
  "waitForNewPods K hnp previousPodList expectedPods =
     (case expectedPods of
        [] \<Rightarrow> exit_with (Panic ''index out of range'')
      | expected # rest \<Rightarrow>
          waitForNewPods_loop K hnp
            (length (filter (\<lambda>p. same_hash p expected) previousPodList) + length expectedPods)
            expected waitForPodTimeoutSeconds)"

text \<open>The loop that creates \<open>n\<close> pods; it collects the pods created and the claims in use.\<close>

fun create_pods ::
  "lib \<Rightarrow> 'w kube \<Rightarrow> pod list \<Rightarrow> nat \<Rightarrow> pod list \<Rightarrow> string set \<Rightarrow> node_pool
     \<Rightarrow> ('w st, handler_result, pod list \<times> node_pool) step" where
  "create_pods L K pods 0 expectedPodsList inUse hnp = ret (expectedPodsList, hnp)"
| "create_pods L K pods (Suc n) expectedPodsList inUse hnp =
     and_then (on_error (newPodAttachments K hnp pods inUse) (\<lambda>err.
       exit_with (requeue_in (5 * second), Some (Wrap ''failed to get pod attachments'' (Some err))))) (\<lambda>(attachments, inUse).
     and_then (on_error (createPod L K hnp attachments expectedPodsList) (\<lambda>err.
       exit_with (requeue_in (5 * second), Some (Wrap ''unable to create pod'' (Some err))))) (\<lambda>(pd, hnp).
     create_pods L K pods n (expectedPodsList @ [pd]) inUse hnp))"

definition ensurePodsExist :: "lib \<Rightarrow> 'w kube \<Rightarrow> node_pool \<Rightarrow> ('w st, handler_result, node_pool) step" where
  "ensurePodsExist L K hnp =
     and_then (on_error (query (k_list_pods K (GetNamespace hnp) (GetNodePoolLabels hnp))) (\<lambda>err.
       exit_with (empty_result, Some (Wrap ''failed to list pods'' (Some err))))) (\<lambda>pods.
     if int (length pods) < GetNodeCount hnp
     then and_then (create_pods L K pods (nat (GetNodeCount hnp - int (length pods))) [] {} hnp) (\<lambda>(expectedPodsList, hnp).
          and_then (on_error (waitForNewPods K hnp pods expectedPodsList) (\<lambda>err.
            exit_with (empty_result, Some (Wrap ''failed to validate new pod'' (Some err))))) (\<lambda>_.
          exit_with (requeue_now, None)))
     else ret hnp)"

section \<open>ensurePodsPatchedWithManagedFields\<close>

fun patch_first ::
  "'w kube \<Rightarrow> node_pool \<Rightarrow> pod list \<Rightarrow> ('w st, handler_result, unit) step" where
  "patch_first K hnp [] = ret ()"
| "patch_first K hnp (pd # rest) =
     (if fieldManagerOperatorManagedName \<in> set (p_managers pd) then patch_first K hnp rest
      else
        and_then (on_error (act (PatchPod (p_name pd) (p_spec (GetManagedFieldsPod hnp (p_name pd) (p_namespace pd))))
                    (k_patch_pod K (p_name pd) (p_namespace pd)
                       (p_spec (GetManagedFieldsPod hnp (p_name pd) (p_namespace pd))))) (\<lambda>err.
          exit_with (empty_result, Some (Wrap ''failed to patch new pod with managed fields'' (Some err))))) (\<lambda>_.
        exit_with (requeue_now, None)))"

definition ensurePodsPatchedWithManagedFields ::
  "'w kube \<Rightarrow> node_pool \<Rightarrow> ('w st, handler_result, unit) step" where
  "ensurePodsPatchedWithManagedFields K hnp =
     and_then (on_error (query (k_list_pods K (GetNamespace hnp) (GetNodePoolLabels hnp))) (\<lambda>err.
       exit_with (empty_result, Some (Wrap ''failed to list pods'' (Some err))))) (patch_first K hnp)"

section \<open>The data volume of a constructed pod\<close>

definition data_volumes :: "pod \<Rightarrow> volume list" where
  "data_volumes pd = filter (\<lambda>v. v_name v = HumioDataVolumeName) (ps_volumes (p_spec pd))"

lemma claims_of_data_volumes:
  "claims_in_use [pd] = concat (map (\<lambda>v. case vs_pvc (v_source v) of None \<Rightarrow> [] | Some n \<Rightarrow> [n]) (data_volumes pd))"
proof -
  have "concat (map (\<lambda>v. if v_name v = HumioDataVolumeName
                      then (case vs_pvc (v_source v) of None \<Rightarrow> [] | Some n \<Rightarrow> [n]) else []) vs) =
        concat (map (\<lambda>v. case vs_pvc (v_source v) of None \<Rightarrow> [] | Some n \<Rightarrow> [n])
                  (filter (\<lambda>v. v_name v = HumioDataVolumeName) vs))" for vs :: "volume list"
    by (induction vs) auto
  then show ?thesis by (simp add: claims_in_use_def data_volumes_def)
qed

lemma claims_in_use_append: "claims_in_use (ps @ qs) = claims_in_use ps @ claims_in_use qs"
  by (simp add: claims_in_use_def)

definition mounts_data :: "volume_source \<Rightarrow> pod \<Rightarrow> bool" where
  "mounts_data src pd \<longleftrightarrow> data_volumes pd = [\<lparr>v_name = HumioDataVolumeName, v_source = src\<rparr>]"

named_theorems data_intros \<open>steps of the construction keep the data volume\<close>

lemma mounts_data_steps [data_intros]:
  "mounts_data src p \<Longrightarrow> mounts_data src (upd_humio f p)"
  "mounts_data src p \<Longrightarrow> mounts_data src (add_env e p)"
  "mounts_data src p \<Longrightarrow> mounts_data src (add_mount m p)"
  "mounts_data src p \<Longrightarrow> mounts_data src (set_annotation k s p)"
  "mounts_data src p \<Longrightarrow> v_name v \<noteq> HumioDataVolumeName \<Longrightarrow> mounts_data src (add_volume v p)"
  by (simp_all add: mounts_data_def data_volumes_def add_env_def add_mount_def add_volume_def set_annotation_def)

lemma mounts_data_blocks [data_intros]:
  "mounts_data src p \<Longrightarrow> mounts_data src (add_env_from L att h p)"
  "mounts_data src p \<Longrightarrow> mounts_data src (add_saml h p)"
  "mounts_data src p \<Longrightarrow> mounts_data src (add_bootstrap_token att p)"
  "mounts_data src p \<Longrightarrow> mounts_data src (add_view_group_permissions h p)"
  "mounts_data src p \<Longrightarrow> mounts_data src (add_role_permissions h p)"
  "mounts_data src p \<Longrightarrow> mounts_data src (add_tls L n h p)"
  by (auto simp: add_env_from_def add_saml_def add_bootstrap_token_def add_view_group_permissions_def
      add_role_permissions_def add_permissions_file_def add_tls_def Let_def config_map_volume_def
      HumioDataVolumeName_def intro!: data_intros split: option.split)

lemma mounts_data_tracked [data_intros]:
  "mounts_data src p \<Longrightarrow> mounts_data src (fst (add_init_container L att (p, h)))"
  "mounts_data src p \<Longrightarrow> mounts_data src (fst (add_extra_kafka L (p, h)))"
  by (auto simp: add_init_container_def add_extra_kafka_def Let_def HumioDataVolumeName_def config_map_volume_def
      split: prod.split intro!: data_intros) (simp add: mounts_data_def data_volumes_def)

lemma mounts_data_base: "mounts_data (pa_data_volume_source att) (fst (base_pod L n att h))"
  by (auto simp: base_pod_def Let_def mounts_data_def data_volumes_def add_volume_def HumioDataVolumeName_def
      split: prod.split)

lemma mounts_data_configured: "mounts_data (pa_data_volume_source att) (fst (configured_pod L n att h))"
proof -
  obtain p1 h1 where 1: "base_pod L n att h = (p1, h1)" by fastforce
  let ?p2 = "add_saml h1 (add_env_from L att h1 p1)" and ?src = "pa_data_volume_source att"
  obtain p3 h3 where 3: "add_init_container L att (?p2, h1) = (p3, h3)" by fastforce
  obtain p5 h5 where 5: "add_extra_kafka L (add_bootstrap_token att p3, h3) = (p5, h5)" by fastforce
  have "mounts_data ?src p1" using mounts_data_base [of att L n h] 1 by simp
  then have "mounts_data ?src ?p2" by (intro data_intros)
  then have "mounts_data ?src p3" using mounts_data_tracked(1) [of ?src ?p2 L att h1] 3 by simp
  then have "mounts_data ?src p5"
    using mounts_data_tracked(2) [OF mounts_data_blocks(3), of ?src p3 L att h3] 5 by simp
  then show ?thesis by (simp add: configured_pod_def 1 3 5 data_intros)
qed

lemma mounts_data_add_sidecars: "add_sidecars ss p = Inr q \<Longrightarrow> mounts_data src p \<Longrightarrow> mounts_data src q"
proof (induction ss arbitrary: p)
  case (Cons c ss)
  have "mounts_data src (p\<lparr>p_spec := (p_spec p)\<lparr>ps_containers := ps_containers (p_spec p) @ [c]\<rparr>\<rparr>)"
    using Cons.prems(2) by (simp add: mounts_data_def data_volumes_def)
  with Cons show ?case by (auto split: if_splits)
qed simp

lemma mounts_data_add_extra_mounts: "add_extra_mounts ms p = Inr q \<Longrightarrow> mounts_data src p \<Longrightarrow> mounts_data src q"
  by (induction ms arbitrary: p) (auto intro: data_intros split: option.splits)

lemma mounts_data_add_extra_volumes:
  "add_extra_volumes vs p = Inr q \<Longrightarrow> mounts_data src p \<Longrightarrow> mounts_data src q"
proof (induction vs arbitrary: p)
  case (Cons v vs)
  have "\<lparr>v_name = HumioDataVolumeName, v_source = src\<rparr> \<in> set (data_volumes p)"
    using Cons.prems(2) by (simp add: mounts_data_def)
  then have "\<exists>e\<in>set (ps_volumes (p_spec p)). v_name e = HumioDataVolumeName"
    by (intro bexI [of _ "\<lparr>v_name = HumioDataVolumeName, v_source = src\<rparr>"]) (simp_all add: data_volumes_def)
  moreover have free: "\<not> list_ex (\<lambda>e. v_name e = v_name v) (ps_volumes (p_spec p))"
    using Cons.prems(1) by (auto split: if_splits)
  ultimately have "v_name v \<noteq> HumioDataVolumeName" by (auto simp: list_ex_iff)
  with Cons free show ?case by (auto intro: data_intros)
qed simp

lemma mounts_data_finish: "finish_pod L att h p = Inr q \<Longrightarrow> mounts_data src p \<Longrightarrow> mounts_data src q"
  by (auto simp: finish_pod_def Let_def ConstructContainerArgs_def split: sum.splits if_splits
      intro!: data_intros) (auto simp: mounts_data_def data_volumes_def)

lemma ConstructPod_mounts_data:
  assumes "ConstructPod L n att h = (Inr p, h1)"
  shows "mounts_data (pa_data_volume_source att) p"
proof -
  obtain p0 where "fst (constructBasePod L n att h) = Inr p0"
    and p: "\<exists>a c. p = set_annotation PodOperatorManagedFieldsHashAnnotation c (set_annotation PodHashAnnotation a p0)"
    using assms by (auto simp: ConstructPod_def Let_def bind_result_Inr split: prod.splits sum.splits)
  then have "mounts_data (pa_data_volume_source att) p0"
    using mounts_data_configured [of att L n h]
    by (auto simp: constructBasePod_def Let_def bind_result_Inr split: prod.splits
        elim!: mounts_data_finish intro!: mounts_data_blocks(6)
        dest!: mounts_data_add_sidecars mounts_data_add_extra_mounts mounts_data_add_extra_volumes)
  with p show ?thesis by (auto intro: data_intros)
qed

lemma mounts_data_claims:
  "mounts_data src pd \<Longrightarrow> claims_in_use [pd] = (case vs_pvc src of None \<Rightarrow> [] | Some n \<Rightarrow> [n])"
  by (simp add: claims_of_data_volumes mounts_data_def)

section \<open>Created pods take fresh claims\<close>


lemma adds_only_fold_step:
  "(\<And>x b. adds_only P (f x b)) \<Longrightarrow> adds_only P (fold_step f xs b)"
  by (induction xs arbitrary: b) (auto intro: trace_intros)

lemma adds_only_filter_step: "(\<And>x. adds_only P (f x)) \<Longrightarrow> adds_only P (filter_step f xs)"
  by (induction xs) (auto intro!: trace_intros)

lemma pvcList_quiet: "adds_only P (pvcList K hnp)"
  unfolding pvcList_def FilterSchedulablePVCs_def pvc_schedulable_def
  by (intro trace_intros adds_only_filter_step)

lemma getEnvVarSource_quiet: "adds_only P (getEnvVarSource K hnp)"
  unfolding getEnvVarSource_def add_source_def read_source_def
  by (intro trace_intros adds_only_fold_step)

lemma getInitServiceAccountSecretName_quiet: "adds_only P (getInitServiceAccountSecretName K hnp)"
  unfolding getInitServiceAccountSecretName_def
  by (intro trace_intros)

lemma newPodAttachments_quiet: "adds_only P (newPodAttachments K hnp pods inUse)"
  unfolding newPodAttachments_def Let_def
  by (intro trace_intros pvcList_quiet getEnvVarSource_quiet getInitServiceAccountSecretName_quiet)

lemma newPodAttachments_claim:
  assumes run: "may_return (newPodAttachments K hnp pods inUse) (att, inUse')" and "PVCsEnabled hnp"
  obtains claim where "vs_pvc (pa_data_volume_source att) = Some claim" and "claim \<notin> inUse"
    and "claim \<notin> set (claims_in_use pods)" and "inUse \<subseteq> inUse'" and "claim \<in> inUse'"
proof -
  obtain pvcs r u where find: "findAvailableVolumeSourceForPod hnp pods pvcs (Some inUse) = (r, u)"
    and vol: "\<exists>src. r = Inr src \<and> pa_data_volume_source att = src
        \<and> inUse' = (case vs_pvc src of None \<Rightarrow> the u | Some claim \<Rightarrow> insert claim (the u))"
    using run unfolding newPodAttachments_def Let_def
    by (auto split: prod.splits sum.splits option.splits if_splits dest!: may_return_and_then)
  have ex: "\<exists>src. r = Inr src" using vol by blast
  have "\<exists>claim. r = Inr (empty_volume_source\<lparr>vs_pvc := Some claim\<rparr>)
      \<and> u = Some (inUse \<union> set (claims_in_use pods)) \<and> claim \<notin> inUse \<union> set (claims_in_use pods)"
    using find assms(2) ex
    by (auto simp: findAvailableVolumeSourceForPod_def FindNextAvailablePvc_def Let_def
        GetDataVolumePersistentVolumeClaimSpecTemplate_def find_Some_iff split: if_splits option.splits)
  then show thesis using vol by (auto intro!: that)
qed

text \<open>Pods with one claim each, all different and none of \<open>inUse\<close>.\<close>

definition fresh_claims :: "string set \<Rightarrow> pod list \<Rightarrow> bool" where
  "fresh_claims inUse new \<longleftrightarrow> distinct (claims_in_use new) \<and> length (claims_in_use new) = length new
     \<and> set (claims_in_use new) \<inter> inUse = {}"

lemma fresh_claims_Nil [simp]: "fresh_claims inUse []"
  by (simp add: fresh_claims_def claims_in_use_def)

lemma fresh_claims_Cons:
  assumes "claims_in_use [pd] = [claim]" and "claim \<notin> inUse" and "claim \<in> inUse'" and "inUse \<subseteq> inUse'"
    and "fresh_claims inUse' new"
  shows "fresh_claims inUse (pd # new)"
  using assms claims_in_use_append [of "[pd]" new] by (auto simp: fresh_claims_def)

lemma findHumioNodeNameAndCertHash_quiet: "adds_only P (findHumioNodeNameAndCertHash L K hnp new)"
proof -
  have "adds_only P (first_free_certificate K hnp new n cs)" for n cs
    by (induction cs) (auto intro!: trace_intros split: sum.split)
  then show ?thesis unfolding findHumioNodeNameAndCertHash_def by (intro trace_intros)
qed

lemma getDesiredBootstrapTokenHash_quiet: "adds_only P (getDesiredBootstrapTokenHash L K)"
  unfolding getDesiredBootstrapTokenHash_def
  by (intro trace_intros)

lemma mounts_data_created_pod: "mounts_data src pd \<Longrightarrow> mounts_data src (created_pod L hnp nh pd)"
  by (simp add: created_pod_def Let_def mounts_data_def data_volumes_def)

lemma createPod_emits:
  "emits (\<lambda>cs. cs = [] \<or> (\<exists>pd. cs = [CreatePod pd] \<and> mounts_data (pa_data_volume_source att) pd))
     (createPod L K hnp att new)"
proof -
  let ?Q = "\<lambda>cs. cs = [] \<or> (\<exists>pd. cs = [CreatePod pd] \<and> mounts_data (pa_data_volume_source att) pd)"
  have build: "emits ?Q (case ConstructPod L n (att\<lparr>pa_bootstrap := b\<rparr>) hnp of
       (Inl err, hnp') \<Rightarrow> exit_with (Wrap ''unable to construct pod'' (Some err))
     | (Inr pd, hnp') \<Rightarrow> and_then (act (CreatePod (created_pod L hnp' nh pd)) (k_create_pod K (created_pod L hnp' nh pd)))
                           (\<lambda>_. ret (created_pod L hnp' nh pd, hnp')))" for n b nh
  proof (cases "ConstructPod L n (att\<lparr>pa_bootstrap := b\<rparr>) hnp")
    case (Pair r h)
    show ?thesis
    proof (cases r)
      case (Inl e)
      with Pair show ?thesis by (simp add: emits_simple)
    next
      case (Inr pd)
      then have "mounts_data (pa_data_volume_source att) (created_pod L h nh pd)"
        using ConstructPod_mounts_data [of L n "att\<lparr>pa_bootstrap := b\<rparr>" hnp pd h] Pair
        by (simp add: mounts_data_created_pod)
      with Pair Inr show ?thesis
        by (auto intro!: emits_and_then [where Q = ?Q and R = "\<lambda>cs. cs = []"] emits_simple)
    qed
  qed
  have quiet: "emits (\<lambda>cs. cs = []) (log_error m (findHumioNodeNameAndCertHash L K hnp new))"
    "emits (\<lambda>cs. cs = []) (log_error m (getDesiredBootstrapTokenHash L K :: ('a st, go_error, string) step))" for m
    unfolding emits_nothing
    by (intro trace_intros findHumioNodeNameAndCertHash_quiet getDesiredBootstrapTokenHash_quiet)+
  show ?thesis
    unfolding createPod_def Let_def
    by (rule emits_and_then [where Q = "\<lambda>cs. cs = []" and R = ?Q, OF quiet(1)],
        rule emits_and_then [where Q = "\<lambda>cs. cs = []" and R = ?Q, OF quiet(2)]) (use build in auto)
qed

lemma createPod_same: "may_return (createPod L K hnp att new) (pd, hnp') \<Longrightarrow> same_pool hnp hnp'"
  unfolding createPod_def Let_def
  by (auto dest!: may_return_and_then split: prod.splits sum.splits)
    (metis ConstructPod_same snd_conv)

text \<open>The calls of the loop: creations of pods with claims that are new.\<close>

definition creates_fresh :: "nat \<Rightarrow> string set \<Rightarrow> api_call list \<Rightarrow> bool" where
  "creates_fresh n inUse cs \<longleftrightarrow>
     (\<exists>new. cs = map CreatePod new \<and> length new \<le> n \<and> fresh_claims inUse new)"

lemma creates_fresh_Nil [simp]: "creates_fresh n inUse []"
  unfolding creates_fresh_def by (rule exI [of _ "[]"]) simp

lemma creates_fresh_Cons:
  assumes "creates_fresh n inUse' cs" and "mounts_data src pd" and "vs_pvc src = Some claim"
    and "claim \<notin> inUse" and "claim \<in> inUse'" and "inUse \<subseteq> inUse'"
  shows "creates_fresh (Suc n) inUse (CreatePod pd # cs)"
proof -
  obtain new where "cs = map CreatePod new" "length new \<le> n" "fresh_claims inUse' new"
    using assms(1) by (auto simp: creates_fresh_def)
  moreover have "claims_in_use [pd] = [claim]" using mounts_data_claims [OF assms(2)] assms(3) by simp
  ultimately show ?thesis
    using fresh_claims_Cons [of pd claim inUse inUse' new] assms(4-6)
    unfolding creates_fresh_def by (intro exI [of _ "pd # new"]) simp
qed

lemma creates_fresh_mono:
  "creates_fresh n inUse' cs \<Longrightarrow> n \<le> m \<Longrightarrow> inUse \<subseteq> inUse' \<Longrightarrow> creates_fresh m inUse cs"
  unfolding creates_fresh_def fresh_claims_def
  by (elim exE conjE, rule_tac x = new in exI) auto

lemma create_pods_fresh:
  assumes "PVCsEnabled hnp"
  shows "emits (creates_fresh n (inUse \<union> set (claims_in_use pods))) (create_pods L K pods n expected inUse hnp)"
  using assms
proof (induction n arbitrary: expected inUse hnp)
  case 0
  show ?case by (simp add: emits_simple)
next
  case (Suc n)
  let ?used = "\<lambda>inUse. inUse \<union> set (claims_in_use pods)"
  let ?T = "creates_fresh (Suc n) (?used inUse)"
  have rest: "emits (creates_fresh (Suc n) (?used inUse))
      (and_then (on_error (createPod L K hnp att expected) (\<lambda>err. exit_with (g err))) (\<lambda>(pd, hnp).
        create_pods L K pods n (expected @ [pd]) inUse' hnp))"
    if att: "may_return (newPodAttachments K hnp pods inUse) (att, inUse')" for att inUse' g
  proof -
    obtain claim where claim: "vs_pvc (pa_data_volume_source att) = Some claim" "claim \<notin> ?used inUse"
        "?used inUse \<subseteq> ?used inUse'" "claim \<in> ?used inUse'"
      using newPodAttachments_claim [OF att Suc.prems] by (metis Un_iff Un_mono order_refl)
    show ?thesis
    proof (rule emits_and_then_returned [where R = "\<lambda>_. creates_fresh n (?used inUse')",
        OF emits_on_error_exit [OF createPod_emits]])
      fix a
      assume "may_return (on_error (createPod L K hnp att expected) (\<lambda>err. exit_with (g err))) a"
      then have "same_pool hnp (snd a)"
        using createPod_same [of L K hnp att expected "fst a" "snd a"]
        by (simp add: may_return_on_error_exit)
      then have "PVCsEnabled (snd a)" using Suc.prems by (auto simp: same_pool_def pool_simps)
      then show "emits (creates_fresh n (?used inUse'))
          (case a of (pd, hnp) \<Rightarrow> create_pods L K pods n (expected @ [pd]) inUse' hnp)"
        using Suc.IH by (simp add: split_beta)
    next
      fix cs
      assume "cs = [] \<or> (\<exists>pd. cs = [CreatePod pd] \<and> mounts_data (pa_data_volume_source att) pd)"
      then show "creates_fresh (Suc n) (?used inUse) cs"
        using creates_fresh_Cons [OF creates_fresh_Nil _ claim(1) claim(2) claim(4) claim(3)] by auto
    next
      fix a cs ds
      assume "cs = [] \<or> (\<exists>pd. cs = [CreatePod pd] \<and> mounts_data (pa_data_volume_source att) pd)"
        and "creates_fresh n (?used inUse') ds"
      then show "creates_fresh (Suc n) (?used inUse) (cs @ ds)" (is ?goal)
      proof (elim disjE exE conjE)
        assume "cs = []"
        then show ?goal using creates_fresh_mono [OF \<open>creates_fresh n (?used inUse') ds\<close> _ claim(3)] by simp
      next
        fix pd
        assume "cs = [CreatePod pd]" and "mounts_data (pa_data_volume_source att) pd"
        then show ?goal
          using creates_fresh_Cons [OF \<open>creates_fresh n (?used inUse') ds\<close> _ claim(1) claim(2) claim(4) claim(3)]
          by simp
      qed
    qed
  qed
  have quiet: "emits (\<lambda>cs. cs = []) (on_error (newPodAttachments K hnp pods inUse) (\<lambda>err. exit_with (g err)))" for g :: "go_error \<Rightarrow> handler_result"
    unfolding emits_nothing by (intro trace_intros newPodAttachments_quiet)
  show ?case
    unfolding create_pods.simps
  proof (rule emits_and_then_returned [OF quiet, where R = "\<lambda>_. ?T"])
    fix a
    assume "may_return (on_error (newPodAttachments K hnp pods inUse) (\<lambda>err.
       exit_with (requeue_in (5 * second), Some (Wrap ''failed to get pod attachments'' (Some err))))) a"
    then have "may_return (newPodAttachments K hnp pods inUse) (fst a, snd a)"
      by (simp add: may_return_on_error_exit)
    then show "emits ?T (case a of (attachments, inUse) \<Rightarrow>
        and_then (on_error (createPod L K hnp attachments expected) (\<lambda>err.
          exit_with (requeue_in (5 * second), Some (Wrap ''unable to create pod'' (Some err))))) (\<lambda>(pd, hnp).
        create_pods L K pods n (expected @ [pd]) inUse hnp))"
      unfolding split_beta by (rule rest [unfolded split_beta])
  qed auto
qed

lemma waitForNewPods_quiet: "adds_only P (waitForNewPods K hnp previous expected)"
proof -
  have "adds_only P (waitForNewPods_loop K hnp n e i)" for n e i
  proof (induction i)
    case (Suc i)
    show ?case unfolding waitForNewPods_loop.simps by (intro trace_intros Suc)
  qed (simp add: adds_only_simple)
  then show ?thesis unfolding waitForNewPods_def by (cases expected) (auto intro: adds_only_simple)
qed

text \<open>
  Claim C6. With persistent claims, \<open>ensurePodsExist\<close> creates pods and nothing else, at most as
  many as are missing, and every pod it creates mounts one claim as its data volume, a claim no
  listed pod mounts and no other pod created by the same call: two LogScale pods never share a
  data volume because of the operator.
\<close>

theorem new_pods_take_fresh_claims:
  assumes "PVCsEnabled hnp"
    and "fst (k_list_pods K (GetNamespace hnp) (GetNodePoolLabels hnp) (server s)) = Inr pods"
  shows "\<exists>new. calls (snd (ensurePodsExist L K hnp s)) = calls s @ map CreatePod new
      \<and> length new \<le> nat (GetNodeCount hnp - int (length pods))
      \<and> length (claims_in_use new) = length new \<and> distinct (claims_in_use new)
      \<and> set (claims_in_use new) \<inter> set (claims_in_use pods) = {}"
proof -
  let ?n = "nat (GetNodeCount hnp - int (length pods))"
  let ?Q = "creates_fresh ?n (set (claims_in_use pods))"
  let ?rest = "\<lambda>pods. if int (length pods) < GetNodeCount hnp
     then and_then (create_pods L K pods (nat (GetNodeCount hnp - int (length pods))) [] {} hnp) (\<lambda>(expectedPodsList, hnp).
          and_then (on_error (waitForNewPods K hnp pods expectedPodsList) (\<lambda>err.
            exit_with (empty_result, Some (Wrap ''failed to validate new pod'' (Some err))))) (\<lambda>_.
          exit_with (requeue_now, None)))
     else ret hnp"
  have create: "emits ?Q (create_pods L K pods ?n [] {} hnp)"
    using create_pods_fresh [OF assms(1), of ?n "{}" pods] by simp
  have "emits ?Q (?rest pods)"
  proof (cases "int (length pods) < GetNodeCount hnp")
    case True
    show ?thesis
      unfolding if_P [OF True]
      by (rule emits_and_then [OF create, where R = "\<lambda>cs. cs = []"])
        (auto simp: emits_nothing split_beta intro!: trace_intros waitForNewPods_quiet)
  qed (simp add: emits_simple)
  then obtain cs where "calls (snd (?rest pods (snd (query (k_list_pods K (GetNamespace hnp) (GetNodePoolLabels hnp)) s))))
      = calls s @ cs" "?Q cs"
    by (rule emitsE [where s = "snd (query (k_list_pods K (GetNamespace hnp) (GetNodePoolLabels hnp)) s)"])
      (simp add: query_def)
  moreover have "ensurePodsExist L K hnp s =
      ?rest pods (snd (query (k_list_pods K (GetNamespace hnp) (GetNodePoolLabels hnp)) s))"
    using assms(2) by (simp add: ensurePodsExist_def and_then_def on_error_def query_def)
  ultimately show ?thesis
    unfolding creates_fresh_def fresh_claims_def by auto
qed

lemma new_pods_take_fresh_claims_witness:
  "let hnp = empty_pool\<lparr>np_spec := empty_node_spec\<lparr>ns_pvc_spec_template := KObj [(''spec'', KObj [])], ns_node_count := 2\<rparr>\<rparr>
   in \<exists>new. calls (snd (ensurePodsExist plain_lib mem_kube hnp (mem_state empty_world))) = map CreatePod new
        \<and> length new \<le> 2"
proof -
  let ?hnp = "empty_pool\<lparr>np_spec := empty_node_spec\<lparr>ns_pvc_spec_template := KObj [(''spec'', KObj [])], ns_node_count := 2\<rparr>\<rparr>"
  have "PVCsEnabled ?hnp" "GetNodeCount ?hnp = 2"
    by (simp_all add: PVCsEnabled_def GetNodeCount_def)
  moreover have "fst (k_list_pods mem_kube (GetNamespace ?hnp) (GetNodePoolLabels ?hnp) (server (mem_state empty_world))) = Inr []"
    by (simp add: mem_kube_def mem_state_def empty_world_def)
  ultimately show ?thesis
    using new_pods_take_fresh_claims [of ?hnp mem_kube "mem_state empty_world" "[]" plain_lib]
    by (auto simp: mem_state_def)
qed

end
