(* ===== verification/Rolling_Update.thy ===== *)
theory Rolling_Update
  imports Pod_Creation
begin

text \<open>
  The replacement of outdated pods: \<open>constructPodAttachments\<close> and \<open>ensureMismatchedPodsAreDeleted\<close> of
  internal/controller/humiocluster_controller.go, one definition per block of the latter, in the
  order of the code. Every \<open>return\<close> of a block is an exit with its result. The caller goes on with
  the reconciliation when a handler returns neither a result nor an error, which
  \<open>unless_done\<close> writes down.
\<close>

section \<open>Results of a handler, as its caller takes them\<close>

definition unless_done :: "('s, handler_result, unit) step \<Rightarrow> ('s, handler_result, unit) step" where
  "unless_done m s =
     (case m s of
        (Inl r, s') \<Rightarrow> if fst r \<noteq> empty_result \<or> snd r \<noteq> None then (Inl r, s') else (Inr (), s')
      | (Inr u, s') \<Rightarrow> (Inr (), s'))"

text \<open>\<open>return r.updateStatus(ctx, r.Status(), hc, options)\<close>\<close>

definition return_status :: "'w kube \<Rightarrow> 'w retrier \<Rightarrow> status_option list \<Rightarrow> ('w st, handler_result, 'a) step" where
  "return_status K R opts = and_then (observe (updateStatus K R opts)) exit_with"

text \<open>\<open>r.updateStatus(...withNodePoolState(state, ...))\<close> for the pool as it is.\<close>

definition pool_state_options :: "node_pool \<Rightarrow> string \<Rightarrow> string \<Rightarrow> status_option list" where
  "pool_state_options hnp state zone =
     withNodePoolState state (GetNodePoolName hnp) (GetDesiredPodRevision hnp) (GetDesiredPodHash hnp)
       (GetDesiredBootstrapTokenHash hnp) zone statusOptions"

section \<open>constructPodAttachments\<close>

definition constructPodAttachments ::
  "lib \<Rightarrow> 'w kube \<Rightarrow> 'w retrier \<Rightarrow> node_pool \<Rightarrow> ('w st, handler_result, pod_attachments) step" where
  "constructPodAttachments L K R hnp =
     (let dataVolumeSource = (if DataVolumePersistentVolumeClaimSpecTemplateIsSetByUser hnp
            then GetDataVolumePersistentVolumeClaimSpecTemplate hnp [] else empty_volume_source)
      in and_then (on_error (getEnvVarSource K hnp) (\<lambda>err.
           and_then (observe (updateStatus K R
             (withState StateConfigError (withMessage
               (error_message (Wrap ''got error when getting pod envVarSource'' (Some err))) statusOptions))))
           (\<lambda>(result, _). exit_with (result, Some err)))) (\<lambda>envVarSourceData.
         and_then get_hc (\<lambda>hc.
         and_then (on_error (ListHumioBootstrapTokens K (hc_namespace hc)
                     (LabelsForHumioBootstrapToken (hc_name hc))) (\<lambda>err.
           exit_with (empty_result, Some (Wrap ''failed to get bootstrap token'' (Some err))))) (\<lambda>tokens.
         let attachments = (\<lambda>bootstrap.
               \<lparr>pa_data_volume_source = dataVolumeSource, pa_init_service_account_secret_name = [],
                pa_env_var_source_data = envVarSourceData, pa_bootstrap = bootstrap\<rparr>);
             no_token = \<lparr>bts_hash = [], bts_secret_reference = None\<rparr>
         in case tokens of
              [] \<Rightarrow> ret (attachments no_token)
            | token # rest \<Rightarrow>
                if bt_state token = HumioBootstrapTokenStateReady
                then and_then (on_error (getDesiredBootstrapTokenHash L K) (\<lambda>err.
                       exit_with (empty_result, Some (Wrap ''unable to find bootstrap token secret'' (Some err))))) (\<lambda>hash.
                     ret (attachments \<lparr>bts_hash = hash, bts_secret_reference = bt_hashed_ref token\<rparr>))
                else ret (attachments no_token)))))"

section \<open>The blocks of ensureMismatchedPodsAreDeleted\<close>

text \<open>When changes are detected, the state becomes \<open>Upgrading\<close> or \<open>Restarting\<close>.\<close>

definition change_state ::
  "'w kube \<Rightarrow> 'w retrier \<Rightarrow> node_pool \<Rightarrow> string \<Rightarrow> ('w st, handler_result, unit) step" where
  "change_state K R hnp state =
     and_then (observe (updateStatus K R (pool_state_options hnp state []))) (\<lambda>(result, err).
     exit_with (if err \<noteq> None then (result, err) else (requeue_now, None)))"

definition mark_difference ::
  "'w kube \<Rightarrow> 'w retrier \<Rightarrow> node_pool \<Rightarrow> lifecycle_state \<Rightarrow> string \<Rightarrow> ('w st, handler_result, unit) step" where
  "mark_difference K R hnp ls state =
     (if state = StateRunning \<or> state = StateConfigError
      then if FoundVersionDifference ls then change_state K R hnp StateUpgrading
           else if FoundConfigurationDifference ls then change_state K R hnp StateRestarting
           else ret ()
      else ret ())"

definition no_more_changes :: "node_pool \<Rightarrow> pods_status \<Rightarrow> lifecycle_state \<Rightarrow> bool" where
  "no_more_changes hnp pst ls \<longleftrightarrow>
     GetState hnp \<noteq> StateRunning
     \<and> podRevisionCountMatchesNodeCountAndAllPodsHaveRevision pst (GetDesiredPodRevision hnp)
     \<and> pst_not_ready_count pst = 0 \<and> \<not> waitingOnPods pst
     \<and> \<not> FoundConfigurationDifference ls \<and> \<not> FoundVersionDifference ls"

definition back_to_running ::
  "'w kube \<Rightarrow> 'w retrier \<Rightarrow> node_pool \<Rightarrow> pods_status \<Rightarrow> lifecycle_state \<Rightarrow> ('w st, handler_result, unit) step" where
  "back_to_running K R hnp pst ls =
     (if no_more_changes hnp pst ls
      then and_then (observe (updateStatus K R (pool_state_options hnp StateRunning []))) (\<lambda>(_, err).
           exit_with (requeue_now, err))
      else ret ())"

text \<open>The hash the pool should have, and the revision that belongs to it.\<close>

definition desired_pod_hash :: "lib \<Rightarrow> node_pool \<Rightarrow> pod \<Rightarrow> go_error + string" where
  "desired_pod_hash L hnp desiredPod =
     PodHashMinusManagedFields L (NewPodHasher (Some (sanitizePod L hnp desiredPod))
       (Some (empty_pod\<lparr>p_spec := np_tracker hnp\<rparr>)))"

definition save_revision ::
  "lib \<Rightarrow> 'w kube \<Rightarrow> 'w retrier \<Rightarrow> node_pool \<Rightarrow> pod \<Rightarrow> string \<Rightarrow> ('w st, handler_result, unit) step" where
  "save_revision L K R hnp desiredPod state =
     (case p_annotations desiredPod BootstrapTokenHashAnnotation of
        None \<Rightarrow> exit_with (empty_result, Some (Msg (''desiredPod does not have the mandatory annotation ''
                  @ BootstrapTokenHashAnnotation)))
      | Some desiredBootstrapTokenHash \<Rightarrow>
          (case desired_pod_hash L hnp desiredPod of
             Inl e \<Rightarrow> exit_with (empty_result, Some (Msg (''could not calculate pod hash for pod ''
                        @ p_name desiredPod)))
           | Inr desiredPodHash \<Rightarrow>
               if (GetDesiredPodRevision hnp = 0 \<or> state = StateUpgrading \<or> state = StateRestarting)
                  \<and> (desiredPodHash \<noteq> GetDesiredPodHash hnp
                     \<or> desiredBootstrapTokenHash \<noteq> GetDesiredBootstrapTokenHash hnp)
               then and_then (observe (updateStatus K R (withNodePoolState state (GetNodePoolName hnp)
                        (GetDesiredPodRevision hnp + 1) desiredPodHash desiredBootstrapTokenHash [] statusOptions)))
                      (\<lambda>(_, err). exit_with (requeue_now, err))
               else ret ()))"

text \<open>Evicted pods and pods whose claim's node is gone are deleted one at a time, first of all.\<close>

definition could_not_delete :: "pod \<Rightarrow> go_error \<Rightarrow> status_option list" where
  "could_not_delete pd err =
     withMessage (error_message (Wrap (''could not delete pod '' @ p_name pd) (Some err))) statusOptions"

definition delete_pod :: "'w kube \<Rightarrow> 'w retrier \<Rightarrow> pod \<Rightarrow> ('w st, handler_result, unit) step" where
  "delete_pod K R pd =
     on_error (act (DeletePod pd) (k_delete_pod K pd)) (\<lambda>err. return_status K R (could_not_delete pd err))"

definition delete_evicted ::
  "'w kube \<Rightarrow> 'w retrier \<Rightarrow> pods_status \<Rightarrow> ('w st, handler_result, unit) step" where
  "delete_evicted K R pst =
     (case pst_evicted pst of
        [] \<Rightarrow> ret ()
      | pd # rest \<Rightarrow> and_then (delete_pod K R pd) (\<lambda>_. exit_with (requeue_in (second + 1), None)))"

text \<open>
  With zone awareness, a zone is pinned until every pod in it has been replaced; then it is
  cleared.
\<close>

definition zone_aware :: "lib \<Rightarrow> node_pool \<Rightarrow> bool" where
  "zone_aware L hnp \<longleftrightarrow> the (us_enable_zone_awareness (update_strategy_of hnp)) \<and> \<not> use_envtest L"

fun pin_zone ::
  "'w kube \<Rightarrow> 'w retrier \<Rightarrow> node_pool \<Rightarrow> pod list \<Rightarrow> ('w st, handler_result, unit) step" where
  "pin_zone K R hnp [] = ret ()"
| "pin_zone K R hnp (pd # rest) =
     and_then (observe (GetZoneForNodeName K (ps_node_name (p_spec pd)))) (\<lambda>zone.
     if zone \<noteq> [] then return_status K R (pool_state_options hnp (GetState hnp) zone)
     else pin_zone K R hnp rest)"

definition wrong_pods :: "node_pool \<Rightarrow> pod list \<Rightarrow> pod list" where
  "wrong_pods hnp ps =
     FilterPodsExcludePodsWithPodRevisionOrPodHash ps (GetDesiredPodRevision hnp) (GetDesiredPodHash hnp)"

definition maintain_zone ::
  "lib \<Rightarrow> 'w kube \<Rightarrow> 'w retrier \<Rightarrow> node_pool \<Rightarrow> pod list \<Rightarrow> ('w st, handler_result, unit) step" where
  "maintain_zone L K R hnp allPods =
     (if zone_aware L hnp
      then if GetZoneUnderMaintenance hnp = []
           then pin_zone K R hnp (FilterPodsExcludePodsWithEmptyNodeName (wrong_pods hnp allPods))
           else
             and_then (on_error (FilterPodsByZoneName K (GetZoneUnderMaintenance hnp) allPods) (\<lambda>err.
               exit_with (empty_result, Some (Wrap ''got error filtering pods by zone name'' (Some err))))) (\<lambda>inZone.
             if wrong_pods hnp inZone = []
             then return_status K R (pool_state_options hnp (GetState hnp) [])
             else ret ())
      else ret ())"

text \<open>Pods are deleted up to the budget.\<close>

definition waitingOnPodsMessage :: string where
  "waitingOnPodsMessage = ''waiting for pods to become ready''"

definition delete_within_budget ::
  "lib \<Rightarrow> 'w kube \<Rightarrow> 'w retrier \<Rightarrow> node_pool \<Rightarrow> pods_status \<Rightarrow> pod list \<Rightarrow> ('w st, handler_result, unit) step" where
  "delete_within_budget L K R hnp pst podsForDeletion =
     for_each (\<lambda>pd.
       and_then (if zone_aware L hnp
                 then ignoring (GetZoneForNodeName K (ps_node_name (p_spec pd))) else ret ()) (\<lambda>_.
       delete_pod K R pd))
     (take (nat (scaledMaxUnavailableMinusNotReadyDueToMinReadySeconds pst)) podsForDeletion)"

definition delete_outdated ::
  "lib \<Rightarrow> 'w kube \<Rightarrow> 'w retrier \<Rightarrow> node_pool \<Rightarrow> pods_status \<Rightarrow> lifecycle_state \<Rightarrow> string
     \<Rightarrow> ('w st, handler_result, unit) step" where
  "delete_outdated L K R hnp pst ls state =
     (if ADifferenceWasDetectedAndManualDeletionsNotEnabled ls
      then if (state = StateRestarting \<or> state = StateUpgrading) \<and> waitingOnPods pst \<and> ShouldRollingRestart ls
           then return_status K R (withMessage waitingOnPodsMessage statusOptions)
           else delete_within_budget L K R hnp pst (ls_to_replace ls)
      else ret ())"

definition requeue_if_replacing_all :: "lifecycle_state \<Rightarrow> string \<Rightarrow> ('s, handler_result, unit) step" where
  "requeue_if_replacing_all ls state =
     (if state = StateUpgrading \<and> ADifferenceWasDetectedAndManualDeletionsNotEnabled ls
         \<and> \<not> ShouldRollingRestart ls
      then exit_with (requeue_in (second + 1), None)
      else ret ())"

definition replace_pods ::
  "lib \<Rightarrow> 'w kube \<Rightarrow> 'w retrier \<Rightarrow> node_pool \<Rightarrow> pods_status \<Rightarrow> pod list \<Rightarrow> lifecycle_state \<Rightarrow> pod
     \<Rightarrow> ('w st, handler_result, unit) step" where
  "replace_pods L K R hnp pst allPods ls desiredPod =
     and_then get_hc (\<lambda>hc.
     let state = st_state (hc_status hc) in
     and_then (mark_difference K R hnp ls state) (\<lambda>_.
     and_then (back_to_running K R hnp pst ls) (\<lambda>_.
     and_then (save_revision L K R hnp desiredPod state) (\<lambda>_.
     and_then (delete_evicted K R pst) (\<lambda>_.
     and_then (maintain_zone L K R hnp allPods) (\<lambda>_.
     and_then (delete_outdated L K R hnp pst ls state) (\<lambda>_.
     requeue_if_replacing_all ls state)))))))"

definition ensureMismatchedPodsAreDeleted ::
  "lib \<Rightarrow> 'w kube \<Rightarrow> 'w retrier \<Rightarrow> node_pool \<Rightarrow> ('w st, handler_result, node_pool) step" where
  "ensureMismatchedPodsAreDeleted L K R hnp =
     and_then (constructPodAttachments L K R hnp) (\<lambda>attachments.
     and_then (on_error (query (k_list_pods K (GetNamespace hnp) (GetNodePoolLabels hnp))) (\<lambda>err.
       exit_with (empty_result, Some (Wrap ''failed to list pods'' (Some err))))) (\<lambda>listed.
     and_then (on_error (getPodsStatus L K hnp listed) (\<lambda>err.
       exit_with (empty_result, Some (Wrap ''failed to get pod status'' (Some err))))) (\<lambda>(pst, allPods).
     let bad = haveUnschedulablePodsOrPodsWithBadStatusConditions pst;
         podList = (if bad then pst_bad_status pst else allPods)
     in and_then (on_error (getPodDesiredLifecycleState L K hnp podList attachments
                    (foundEvictedPodsOrPodsWithOrpahanedPVCs pst \<or> bad)) (\<lambda>err.
          exit_with (empty_result, Some (Wrap ''got error when getting pod desired lifecycle'' (Some err)))))
        (\<lambda>((ls, desiredPod), hnp).
        and_then (unless_done (replace_pods L K R hnp pst allPods ls desiredPod)) (\<lambda>_. ret hnp)))))"

section \<open>The calls the handler may make\<close>

text \<open>
  A pod is replaced only when it is not being deleted already and it must be reclaimed, or its
  strategy allows it and it differs critically from the pod the pool now describes.
\<close>

definition desired_pod :: "lib \<Rightarrow> node_pool \<Rightarrow> pod \<Rightarrow> bool" where
  "desired_pod L hnp d \<longleftrightarrow>
     (\<exists>att q h. ConstructPod L [] att hnp = (Inr q, h)
        \<and> (d = q \<or> d = set_annotation BootstrapTokenHashAnnotation (bts_hash (pa_bootstrap att)) q))"

definition replaceable :: "lib \<Rightarrow> node_pool \<Rightarrow> pod \<Rightarrow> bool" where
  "replaceable L hnp pd \<longleftrightarrow> live pd
     \<and> (to_reclaim pd \<or> us_type (update_strategy_of hnp) \<noteq> OnDelete \<and> (\<exists>d. desired_pod L hnp d \<and> outdated d pd))"

definition keeps_revision :: "node_pool \<Rightarrow> node_pool_status \<Rightarrow> bool" where
  "keeps_revision hnp e \<longleftrightarrow>
     nst_desired_pod_revision e = GetDesiredPodRevision hnp \<and> nst_desired_pod_hash e = GetDesiredPodHash hnp
     \<and> nst_desired_bootstrap_token_hash e = GetDesiredBootstrapTokenHash hnp"

definition next_revision :: "node_pool \<Rightarrow> node_pool_status \<Rightarrow> bool" where
  "next_revision hnp e \<longleftrightarrow>
     nst_desired_pod_revision e = GetDesiredPodRevision hnp + 1
     \<and> (nst_desired_pod_hash e \<noteq> GetDesiredPodHash hnp
        \<or> nst_desired_bootstrap_token_hash e \<noteq> GetDesiredBootstrapTokenHash hnp)"

definition pools_of :: "humio_cluster \<Rightarrow> string \<rightharpoonup> node_pool_status" where
  "pools_of hc = pool_view (st_node_pool_status (hc_status hc))"

definition rollout_write :: "node_pool \<Rightarrow> humio_cluster \<Rightarrow> bool" where
  "rollout_write hnp hc' \<longleftrightarrow>
     (\<exists>hc. pools_of hc' = pools_of hc
       \<or> (\<exists>e. pools_of hc' = (pools_of hc)(GetNodePoolName hnp \<mapsto> e) \<and> nst_name e = GetNodePoolName hnp
              \<and> (keeps_revision hnp e \<or> next_revision hnp e)))"

definition rollout_call :: "lib \<Rightarrow> node_pool \<Rightarrow> api_call \<Rightarrow> bool" where
  "rollout_call L hnp call \<longleftrightarrow>
     (case call of UpdateStatus hc' \<Rightarrow> rollout_write hnp hc' | DeletePod pd \<Rightarrow> replaceable L hnp pd | _ \<Rightarrow> False)"

lemma rollout_call_simps [simp]:
  "rollout_call L hnp (UpdateStatus hc') = rollout_write hnp hc'"
  "rollout_call L hnp (DeletePod pd) = replaceable L hnp pd"
  by (simp_all add: rollout_call_def)

lemma same_pool_status [simp]:
  "GetDesiredPodRevision (h\<lparr>np_tracker := t\<rparr>) = GetDesiredPodRevision h"
  "GetDesiredPodHash (h\<lparr>np_tracker := t\<rparr>) = GetDesiredPodHash h"
  "GetDesiredBootstrapTokenHash (h\<lparr>np_tracker := t\<rparr>) = GetDesiredBootstrapTokenHash h"
  "GetState (h\<lparr>np_tracker := t\<rparr>) = GetState h"
  "GetZoneUnderMaintenance (h\<lparr>np_tracker := t\<rparr>) = GetZoneUnderMaintenance h"
  by (simp_all add: GetDesiredPodRevision_def GetDesiredPodHash_def GetDesiredBootstrapTokenHash_def
      GetState_def GetZoneUnderMaintenance_def)

lemma rollout_write_entry:
  "pools_of hc' = (pools_of hc)(GetNodePoolName hnp \<mapsto> e) \<Longrightarrow> nst_name e = GetNodePoolName hnp \<Longrightarrow>
   keeps_revision hnp e \<or> next_revision hnp e \<Longrightarrow> rollout_write hnp hc'"
  unfolding rollout_write_def by blast

lemma rollout_write_same: "pools_of hc' = pools_of hc \<Longrightarrow> rollout_write hnp hc'"
  unfolding rollout_write_def by blast

lemma pool_options_same [simp]:
  "pool_state_options (h\<lparr>np_tracker := t\<rparr>) = pool_state_options h"
  by (simp add: pool_state_options_def fun_eq_iff)

lemmas same_pool_reads = pool_options_same same_pool_status accessors_same_pool(1)

text \<open>Every status write of the handler is one of these.\<close>

lemma write_message: "writes_applied (withMessage m statusOptions) c \<Longrightarrow> rollout_call L hnp c"
  unfolding writes_applied_def
  by (elim exE) (simp add: rollout_write_same pools_of_def status_builders apply_all_def apply_message_def)

lemma write_config_error:
  "writes_applied (withState StateConfigError (withMessage m statusOptions)) c \<Longrightarrow> rollout_call L hnp c"
  unfolding writes_applied_def
  by (elim exE) (simp add: rollout_write_same pools_of_def status_builders apply_all_def apply_message_def
      apply_state_def empty_state_option_def)

lemma pools_of_withNodePoolState:
  "GetNodePoolName hnp \<noteq> [] \<Longrightarrow>
   pools_of (apply_all apply_option (withNodePoolState st (GetNodePoolName hnp) rv h tok z statusOptions) hc) =
     (pools_of hc)(GetNodePoolName hnp \<mapsto>
        \<lparr>nst_name = GetNodePoolName hnp, nst_state = st, nst_zone_under_maintenance = z,
         nst_desired_pod_revision = rv, nst_desired_pod_hash = h, nst_desired_bootstrap_token_hash = tok\<rparr>)"
  by (simp add: pools_of_def status_builders apply_all_def apply_state_def
      put_pool_status_view pool_status_of_option_def)

lemma write_pool_state:
  "GetNodePoolName hnp \<noteq> [] \<Longrightarrow> writes_applied (pool_state_options hnp st z) c \<Longrightarrow> rollout_call L hnp c"
  unfolding writes_applied_def pool_state_options_def
  by (elim exE) (simp add: rollout_write_entry [OF pools_of_withNodePoolState] keeps_revision_def)

lemma write_revision:
  "GetNodePoolName hnp \<noteq> [] \<Longrightarrow> h \<noteq> GetDesiredPodHash hnp \<or> tok \<noteq> GetDesiredBootstrapTokenHash hnp \<Longrightarrow>
   writes_applied (withNodePoolState st (GetNodePoolName hnp) (GetDesiredPodRevision hnp + 1) h tok [] statusOptions) c \<Longrightarrow>
   rollout_call L hnp c"
  unfolding writes_applied_def
  by (elim exE) (simp add: rollout_write_entry [OF pools_of_withNodePoolState] next_revision_def)

section \<open>The calls of each block\<close>

lemma adds_only_unless_done: "adds_only P m \<Longrightarrow> adds_only P (unless_done m)"
  by (auto simp: adds_only_def emits_def unless_done_def split: prod.split sum.split) (metis snd_conv)+

lemma status_adds:
  "retries R \<Longrightarrow> (\<And>c. writes_applied opts c \<Longrightarrow> P c) \<Longrightarrow> adds_only P (observe (updateStatus K R opts))"
  by (rule adds_only_observe) (rule adds_only_weaken [OF updateStatus_writes])

lemma return_status_adds:
  "retries R \<Longrightarrow> (\<And>c. writes_applied opts c \<Longrightarrow> P c) \<Longrightarrow> adds_only P (return_status K R opts)"
  unfolding return_status_def by (intro trace_intros status_adds)

lemmas rollout_writes = status_adds [OF _ write_message] return_status_adds [OF _ write_message]
  status_adds [OF _ write_config_error]
  status_adds [OF _ write_pool_state] return_status_adds [OF _ write_pool_state]
  status_adds [OF _ write_revision]

lemma attachments_adds:
  assumes "retries R"
  shows "adds_only (rollout_call L hnp) (constructPodAttachments L K R hnp)"
  unfolding constructPodAttachments_def Let_def
  by (intro rollout_writes trace_intros getEnvVarSource_quiet getDesiredBootstrapTokenHash_quiet assms)

lemma mark_difference_adds:
  assumes "retries R" and "GetNodePoolName hnp \<noteq> []"
  shows "adds_only (rollout_call L hnp) (mark_difference K R (hnp\<lparr>np_tracker := t\<rparr>) ls state)"
  unfolding mark_difference_def change_state_def same_pool_reads by (intro rollout_writes trace_intros assms)

lemma back_to_running_adds:
  assumes "retries R" and "GetNodePoolName hnp \<noteq> []"
  shows "adds_only (rollout_call L hnp) (back_to_running K R (hnp\<lparr>np_tracker := t\<rparr>) pst ls)"
  unfolding back_to_running_def same_pool_reads by (intro rollout_writes trace_intros assms)

lemma save_revision_adds:
  assumes "retries R" and "GetNodePoolName hnp \<noteq> []"
  shows "adds_only (rollout_call L hnp) (save_revision L K R (hnp\<lparr>np_tracker := t\<rparr>) d state)"
  unfolding save_revision_def same_pool_reads by (intro rollout_writes trace_intros assms) (elim conjE)

lemma delete_pod_adds:
  assumes "retries R" and "replaceable L hnp pd"
  shows "adds_only (rollout_call L hnp) (delete_pod K R pd)"
  unfolding delete_pod_def could_not_delete_def
  by (intro rollout_writes trace_intros assms(1)) (simp add: assms(2))

lemma delete_evicted_adds:
  assumes "retries R" and "\<And>pd. pd \<in> set (pst_evicted pst) \<Longrightarrow> replaceable L hnp pd"
  shows "adds_only (rollout_call L hnp) (delete_evicted K R pst)"
  unfolding delete_evicted_def by (intro delete_pod_adds trace_intros assms) simp

lemma GetZone_quiet: "adds_only P (GetZoneForNodeName K n)"
  by (auto simp: adds_only_def emits_def)

lemma FilterPodsByZoneName_quiet: "adds_only P (FilterPodsByZoneName K z qs)"
proof (induction qs)
  case (Cons q qs)
  show ?case unfolding FilterPodsByZoneName.simps by (intro trace_intros GetZone_quiet Cons)
qed (simp add: adds_only_simple)

lemma maintain_zone_adds:
  assumes "retries R" and "GetNodePoolName hnp \<noteq> []"
  shows "adds_only (rollout_call L hnp) (maintain_zone L K R (hnp\<lparr>np_tracker := t\<rparr>) ps)"
proof -
  have pin: "adds_only (rollout_call L hnp) (pin_zone K R (hnp\<lparr>np_tracker := t\<rparr>) qs)" for qs
  proof (induction qs)
    case (Cons q qs)
    show ?case unfolding pin_zone.simps same_pool_reads by (intro rollout_writes trace_intros GetZone_quiet Cons assms)
  qed (simp add: adds_only_simple)
  show ?thesis
    unfolding maintain_zone_def same_pool_reads by (intro rollout_writes trace_intros pin FilterPodsByZoneName_quiet assms)
qed

lemma delete_outdated_adds:
  assumes "retries R"
    and "\<And>pd. ADifferenceWasDetectedAndManualDeletionsNotEnabled ls \<Longrightarrow> pd \<in> set (ls_to_replace ls) \<Longrightarrow>
           replaceable L hnp pd"
  shows "adds_only (rollout_call L hnp) (delete_outdated L K R g pst ls state)"
  unfolding delete_outdated_def delete_within_budget_def
  by (intro rollout_writes delete_pod_adds trace_intros GetZone_quiet assms) (auto dest: in_set_takeD)

section \<open>What the blocks work on\<close>

lemma getPodDesired_desired:
  assumes "getPodDesiredLifecycleState L K hnp ps att bypass s = (Inr ((ls, d), h), s')"
  shows "desired_pod L hnp d" and "same_pool hnp h"
proof -
  obtain r g where c: "ConstructPod L [] att hnp = (r, g)" by fastforce
  obtain q where r: "r = Inr q" using assms
    by (cases r) (simp_all add: getPodDesiredLifecycleState_def c exit_with_def)
  then have "h = g" and d: "d = (if bts_secret_reference (pa_bootstrap att) \<noteq> None
      then set_annotation BootstrapTokenHashAnnotation (bts_hash (pa_bootstrap att)) q else q)"
    using assms by (auto simp: getPodDesiredLifecycleState_def c Let_def and_then_Inr ret_def)
  then show "desired_pod L hnp d" "same_pool hnp h"
    using c r ConstructPod_same [of hnp L "[]" att] unfolding desired_pod_def by (auto split: if_splits)
qed

lemma getPodsStatus_reclaim:
  assumes "getPodsStatus L K hnp ps s = (Inr (pst, ordered), s')" and "pd \<in> set (pst_evicted pst)"
  shows "live pd \<and> to_reclaim pd"
  by (rule getPodsStatus_walked [OF assms(1)]) (use assms(2) in \<open>auto simp: walked_def\<close>)

lemma lifecycle_replaceable:
  assumes run: "getPodDesiredLifecycleState L K hnp ps att bypass s = (Inr ((ls, d), h), s')"
    and "ADifferenceWasDetectedAndManualDeletionsNotEnabled ls" and "pd \<in> set (ls_to_replace ls)"
  shows "replaceable L hnp pd"
proof -
  have ls: "lifecycle_of L bypass h d ps ls s'" using lifecycle_run(1) [OF run] .
  obtain t where h: "h = hnp\<lparr>np_tracker := t\<rparr>" using getPodDesired_desired(2) [OF run] by (auto simp: same_pool_def)
  have "outdated d pd" using ls assms(3) by (auto simp: lifecycle_of_def split: if_splits)
  moreover have "us_type (update_strategy_of hnp) \<noteq> OnDelete"
    using assms(2) ls h
    by (auto simp: ADifferenceWasDetectedAndManualDeletionsNotEnabled_def lifecycle_of_def pool_simps)
  ultimately show ?thesis
    using getPodDesired_desired(1) [OF run] unfolding replaceable_def outdated_def by blast
qed

lemma lifecycle_quiet: "adds_only P (getPodDesiredLifecycleState L K hnp ps att b)"
proof -
  have "adds_only P (consider_pod L K b h d pd st)" for h d pd st
    unfolding consider_pod_def Let_def by (intro trace_intros GetZone_quiet)
  then show ?thesis
    unfolding getPodDesiredLifecycleState_def Let_def by (intro trace_intros adds_only_fold_step)
qed

lemma isPvcOrphaned_quiet: "adds_only P (isPvcOrphaned K hnp c)"
proof -
  have gone: "adds_only P (node_is_gone K n)" for n
    by (auto simp: adds_only_def emits_def)
  have "adds_only P (orphaned_by_status K name l)" for name l
  proof (induction l)
    case (Cons ps l)
    show ?case unfolding orphaned_by_status.simps by (intro trace_intros gone Cons)
  qed (simp add: adds_only_simple)
  then show ?thesis unfolding isPvcOrphaned_by_status by (intro trace_intros)
qed

lemma calls_quiet: "adds_only (\<lambda>_. False) m \<Longrightarrow> m s = (r, s') \<Longrightarrow> calls s' = calls s"
  unfolding emits_nothing [symmetric] emits_def by (metis append_Nil2 snd_conv)

lemma isPodAttachedToOrphanedPvc_quiet: "adds_only P (isPodAttachedToOrphanedPvc K hnp pd)"
  unfolding adds_only_def emits_def
  by (auto simp: isPodAttachedToOrphanedPvc_def dest!: calls_quiet [OF pvcList_quiet] calls_quiet [OF isPvcOrphaned_quiet]
      split: prod.split sum.split)

lemma getPodsStatus_quiet: "adds_only P (getPodsStatus L K hnp ps)"
proof -
  have orphaned: "adds_only P (isPodAttachedToOrphanedPvc K hnp pd)" for pd
    by (rule isPodAttachedToOrphanedPvc_quiet)
  have "adds_only P (process_condition K pd c st)" for pd c st
    unfolding process_condition_def remainingMinReadyWaitTime_def Let_def by (intro trace_intros)
  then have "adds_only P (process_pod K hnp pd st)" for pd st
    unfolding process_pod_def check_pending_def Let_def
    by (intro trace_intros adds_only_fold_step orphaned)
  then show ?thesis
    unfolding getPodsStatus_def Let_def by (intro trace_intros adds_only_fold_step)
qed

lemma rollout_adds:
  assumes "retries R" and "GetNodePoolName hnp \<noteq> []"
  shows "adds_only (rollout_call L hnp) (ensureMismatchedPodsAreDeleted L K R hnp)"
proof -
  have blocks: "adds_only (rollout_call L hnp) (replace_pods L K R h pst allPods ls d)"
    if h: "same_pool hnp h" and ev: "\<And>pd. pd \<in> set (pst_evicted pst) \<Longrightarrow> live pd \<and> to_reclaim pd"
      and old: "\<And>pd. ADifferenceWasDetectedAndManualDeletionsNotEnabled ls \<Longrightarrow> pd \<in> set (ls_to_replace ls) \<Longrightarrow>
             replaceable L hnp pd" for h pst allPods ls d
  proof -
    obtain t where t: "h = hnp\<lparr>np_tracker := t\<rparr>" using h by (auto simp: same_pool_def)
    have ev': "pd \<in> set (pst_evicted pst) \<Longrightarrow> replaceable L hnp pd" for pd using ev by (auto simp: replaceable_def)
    show ?thesis
      unfolding replace_pods_def Let_def requeue_if_replacing_all_def t
      by (intro trace_intros mark_difference_adds back_to_running_adds save_revision_adds delete_evicted_adds
          maintain_zone_adds delete_outdated_adds assms ev' old)
  qed
  show ?thesis
    unfolding ensureMismatchedPodsAreDeleted_def Let_def
  proof (rule adds_only_and_then [OF attachments_adds [OF assms(1)]], rule adds_only_and_then,
      goal_cases list status)
    case list
    show ?case by (intro trace_intros)
  next
    case (status att listed)
    show ?case
    proof (rule adds_only_and_then_returned, goal_cases quiet rest)
      case quiet
      show ?case by (intro trace_intros getPodsStatus_quiet)
    next
      case (rest x)
      obtain pst allPods where x: "x = (pst, allPods)" by fastforce
      have returned: "may_return (getPodsStatus L K hnp listed) (pst, allPods)"
        using rest by (simp add: x may_return_on_error_exit)
      have ev: "pd \<in> set (pst_evicted pst) \<Longrightarrow> live pd \<and> to_reclaim pd" for pd
        using returned getPodsStatus_reclaim unfolding may_return_def by blast
      show ?case
        unfolding x prod.case
      proof (rule adds_only_and_then_returned, goal_cases quiet rest)
        case quiet
        show ?case by (intro trace_intros lifecycle_quiet)
      next
        case (rest y)
        obtain ls d h where y: "y = ((ls, d), h)" by (metis surj_pair)
        obtain ps b where "may_return (getPodDesiredLifecycleState L K hnp ps att b) ((ls, d), h)"
          using rest by (auto simp: y may_return_on_error_exit)
        then obtain t t' where run: "getPodDesiredLifecycleState L K hnp ps att b t = (Inr ((ls, d), h), t')"
          by (auto simp: may_return_def)
        note same = getPodDesired_desired(2) [OF run] and old = lifecycle_replaceable [OF run]
        show ?case
          unfolding y prod.case by (intro trace_intros adds_only_unless_done blocks ev same old)
      qed
    qed
  qed
qed



section \<open>The budget\<close>

definition is_deletion :: "api_call \<Rightarrow> bool" where
  "is_deletion c \<longleftrightarrow> (\<exists>pd. c = DeletePod pd)"

definition unavailable_budget :: "lib \<Rightarrow> node_pool \<Rightarrow> nat" where
  "unavailable_budget L hnp =
     (case x_scaled_value L (the (us_max_unavailable (update_strategy_of hnp))) (GetNodeCount hnp) False of
        Inl e \<Rightarrow> 0 | Inr m \<Rightarrow> nat (max m 1))"

abbreviation "deletes_at_most n \<equiv> at_most n is_deletion"

lemma writes_delete_nothing: "retries R \<Longrightarrow> deletes_at_most 0 (updateStatus K R opts)"
  by (rule at_most_0, rule updateStatus_adds) (simp_all add: is_deletion_def)

lemma at_most_for_each: "(\<And>x. at_most 1 P (f x)) \<Longrightarrow> at_most (length xs) P (for_each f xs)"
proof (induction xs)
  case Nil
  show ?case by (simp add: for_each_Nil at_most_def emits_simple)
next
  case (Cons x xs)
  show ?case unfolding for_each_Cons using at_most_and_then [of 1 P "f x" "length xs"] Cons by simp
qed

lemma at_most_never_returns:
  "at_most n P m \<Longrightarrow> (\<And>a. \<not> may_return m a) \<Longrightarrow> at_most n P (and_then m f)"
  unfolding at_most_def by (rule emits_and_then_returned [where R = "\<lambda>_ _. True"]) auto

lemma return_status_deletes_nothing: "retries R \<Longrightarrow> deletes_at_most 0 (return_status K R opts)"
  by (rule at_most_0, rule return_status_adds) (auto simp: writes_applied_def is_deletion_def)

lemma delete_pod_once: "retries R \<Longrightarrow> deletes_at_most 1 (delete_pod K R pd)"
  unfolding delete_pod_def
  using at_most_on_error [OF at_most_act return_status_deletes_nothing] by simp

lemma delete_evicted_at_most: "retries R \<Longrightarrow> deletes_at_most (if pst_evicted pst = [] then 0 else 1) (delete_evicted K R pst)"
  unfolding delete_evicted_def
  by (cases "pst_evicted pst")
    (auto simp: at_most_0 adds_only_simple
      intro: at_most_and_then [OF delete_pod_once, where n = 0, simplified])

lemma delete_evicted_exits: "pst_evicted pst \<noteq> [] \<Longrightarrow> \<not> may_return (delete_evicted K R pst) a"
  by (cases "pst_evicted pst") (auto simp: delete_evicted_def dest!: may_return_and_then)

lemma delete_outdated_at_most:
  assumes "retries R"
  shows "deletes_at_most (nat (scaledMaxUnavailableMinusNotReadyDueToMinReadySeconds pst))
           (delete_outdated L K R hnp pst ls state)"
proof -
  let ?n = "nat (scaledMaxUnavailableMinusNotReadyDueToMinReadySeconds pst)"
  have one: "deletes_at_most 1 (and_then (if zone_aware L hnp
       then ignoring (GetZoneForNodeName K n) else ret ()) (\<lambda>_. delete_pod K R pd))" for n pd
    by (rule at_most_mono [OF at_most_and_then [OF at_most_0 delete_pod_once [OF assms]]])
      (auto intro!: adds_only_if adds_only_ignoring GetZone_quiet adds_only_simple)
  have within: "deletes_at_most ?n (delete_within_budget L K R hnp pst qs)" for qs
    unfolding delete_within_budget_def
    by (rule at_most_mono [OF at_most_for_each [OF one]]) simp
  show ?thesis
    unfolding delete_outdated_def
    by (intro at_most_if within at_most_mono [OF return_status_deletes_nothing [OF assms]] at_most_mono [OF at_most_0])
      (simp_all add: adds_only_simple)
qed

text \<open>The blocks before the deletions only write the status.\<close>

lemma blocks_write:
  assumes "retries R" and "\<And>hc. P (UpdateStatus hc)"
  shows "adds_only P (constructPodAttachments L K R hnp)" "adds_only P (mark_difference K R hnp ls state)"
    "adds_only P (back_to_running K R hnp pst ls)" "adds_only P (save_revision L K R hnp d state)"
    "adds_only P (maintain_zone L K R hnp ps)" "adds_only P (requeue_if_replacing_all ls state)"
proof -
  have pin: "adds_only P (pin_zone K R hnp qs)" for qs
  proof (induction qs)
    case (Cons q qs)
    show ?case unfolding pin_zone.simps return_status_def by (intro trace_intros GetZone_quiet Cons assms)
  qed (simp add: adds_only_simple)
  show "adds_only P (maintain_zone L K R hnp ps)"
    unfolding maintain_zone_def return_status_def by (intro trace_intros pin FilterPodsByZoneName_quiet assms)
  show "adds_only P (constructPodAttachments L K R hnp)"
    unfolding constructPodAttachments_def Let_def
    by (intro trace_intros getEnvVarSource_quiet getDesiredBootstrapTokenHash_quiet assms)
qed (unfold mark_difference_def change_state_def back_to_running_def save_revision_def requeue_if_replacing_all_def,
  (intro trace_intros assms)+)

lemma replace_pods_at_most:
  assumes "retries R"
    and "1 \<le> n" and "nat (scaledMaxUnavailableMinusNotReadyDueToMinReadySeconds pst) \<le> n"
  shows "deletes_at_most n (replace_pods L K R hnp pst allPods ls d)"
proof -
  have none: "adds_only (\<lambda>c. \<not> is_deletion c) m \<Longrightarrow> (\<And>a. deletes_at_most n (f a)) \<Longrightarrow> deletes_at_most n (and_then m f)"
    for m :: "('a st, 'r, 'x) step" and f :: "'x \<Rightarrow> ('a st, 'r, 'y) step"
    using at_most_and_then [OF at_most_0, of is_deletion m n f] by simp
  note writes = blocks_write [OF assms(1), where P = "\<lambda>c. \<not> is_deletion c"]
  have not: "\<not> is_deletion (UpdateStatus hc)" for hc by (simp add: is_deletion_def)
  have evict: "deletes_at_most n (and_then (delete_evicted K R pst) (\<lambda>_.
     and_then (maintain_zone L K R hnp allPods) (\<lambda>_.
     and_then (delete_outdated L K R hnp pst ls state) (\<lambda>_. requeue_if_replacing_all ls state))))" for state
  proof (cases "pst_evicted pst = []")
    case True
    have "deletes_at_most n (delete_outdated L K R hnp pst ls state)"
      using delete_outdated_at_most [OF assms(1)] assms(3) by (rule at_most_mono)
    then have tail: "deletes_at_most n (and_then (delete_outdated L K R hnp pst ls state) (\<lambda>_. requeue_if_replacing_all ls state))"
      using at_most_and_then [where n = 0] at_most_0 [OF writes(6) [OF not]] by fastforce
    have "deletes_at_most n (and_then (maintain_zone L K R hnp allPods) (\<lambda>_.
        and_then (delete_outdated L K R hnp pst ls state) (\<lambda>_. requeue_if_replacing_all ls state)))"
      by (rule none [OF writes(5) [OF not]]) (rule tail)
    then show ?thesis
      by (rule none [rotated]) (simp add: delete_evicted_def True adds_only_simple)
  next
    case False
    then show ?thesis
      using delete_evicted_at_most [OF assms(1), of pst K] assms(2)
      by (intro at_most_never_returns delete_evicted_exits) (auto elim: at_most_mono)
  qed
  show ?thesis
    unfolding replace_pods_def Let_def by (intro none writes not evict) (simp add: adds_only_simple)
qed

lemma at_most_unless_done: "at_most n P m \<Longrightarrow> at_most n P (unless_done m)"
  by (auto simp: at_most_def emits_def unless_done_def split: prod.split sum.split) (metis snd_conv)+

text \<open>
  Claim C3. One reconciliation deletes at most as many pods of a pool as \<open>maxUnavailable\<close> allows,
  scaled by the node count and at least one; a pool with a \<open>maxUnavailable\<close> that cannot be scaled
  loses no pod.
\<close>

theorem rollout_within_budget:
  assumes "retries R"
  shows "\<exists>cs. calls (snd (ensureMismatchedPodsAreDeleted L K R hnp s)) = calls s @ cs
           \<and> length (filter is_deletion cs) \<le> unavailable_budget L hnp"
proof -
  let ?n = "unavailable_budget L hnp" and ?P = "\<lambda>c. \<not> is_deletion c"
  have none: "adds_only ?P m \<Longrightarrow> (\<And>a. may_return m a \<Longrightarrow> deletes_at_most n (f a)) \<Longrightarrow> deletes_at_most n (and_then m f)"
    for n and m :: "('a st, 'r, 'x) step" and f :: "'x \<Rightarrow> ('a st, 'r, 'y) step"
    unfolding adds_only_def at_most_def
    by (rule emits_and_then_returned [where Q = "list_all ?P"]) (auto simp: list_all_iff filter_empty_conv)
  have budget: "1 \<le> ?n \<and> nat (scaledMaxUnavailableMinusNotReadyDueToMinReadySeconds pst) \<le> ?n"
    if "getPodsStatus L K hnp ps t = (Inr (pst, allPods), t')" for ps pst allPods t t'
    by (rule getPodsStatus_walked [OF that])
       (auto simp: unavailable_budget_def scaledMaxUnavailableMinusNotReadyDueToMinReadySeconds_def walked_def)
  have "deletes_at_most ?n (ensureMismatchedPodsAreDeleted L K R hnp)"
    unfolding ensureMismatchedPodsAreDeleted_def Let_def
  proof (rule none [OF blocks_write(1) [OF assms]], simp add: is_deletion_def, rule none, goal_cases list status)
    case list
    show ?case by (intro trace_intros)
  next
    case (status att listed)
    show ?case
    proof (rule none, goal_cases quiet rest)
      case quiet
      show ?case by (intro trace_intros getPodsStatus_quiet)
    next
      case (rest x)
      obtain pst allPods where x: "x = (pst, allPods)" by fastforce
      have "may_return (getPodsStatus L K hnp listed) (pst, allPods)"
        using rest by (simp add: x may_return_on_error_exit)
      then have "1 \<le> ?n \<and> nat (scaledMaxUnavailableMinusNotReadyDueToMinReadySeconds pst) \<le> ?n"
        using budget by (auto simp: may_return_def)
      then have replace: "deletes_at_most ?n (replace_pods L K R h pst allPods ls d)" for h ls d
        using replace_pods_at_most [OF assms] by blast
      have "deletes_at_most ?n (and_then (unless_done (replace_pods L K R h pst allPods ls d)) (\<lambda>_. ret h))" for h ls d
        by (rule at_most_mono [OF at_most_and_then [OF at_most_unless_done [OF replace] at_most_0]])
          (simp_all add: adds_only_simple)
      then show ?case
        unfolding x prod.case by (intro none) (auto intro!: trace_intros lifecycle_quiet split: prod.split)
    qed
  qed
  then show ?thesis by (simp add: at_most_def emits_def)
qed

lemma rollout_within_budget_witness:
  "\<exists>cs. calls (snd (ensureMismatchedPodsAreDeleted plain_lib mem_kube (retry_steps 4) empty_pool
        (mem_state (empty_world\<lparr>w_pods := [sample_pod ''a'', sample_pod ''b'']\<rparr>)))) = cs
     \<and> length (filter is_deletion cs) \<le> 1"
proof -
  have "unavailable_budget plain_lib empty_pool = 1"
    by (simp add: unavailable_budget_def plain_lib_def GetUpdateStrategy_def empty_pool_def empty_node_spec_def)
  then show ?thesis
    using rollout_within_budget [OF retries_retry_steps, of plain_lib mem_kube 4 empty_pool
        "mem_state (empty_world\<lparr>w_pods := [sample_pod ''a'', sample_pod ''b'']\<rparr>)"]
    by (simp add: mem_state_def)
qed

end
