(* ===== verification/Downscaling.thy ===== *)
theory Downscaling
  imports Rolling_Update
begin

text \<open>
  Removal of LogScale nodes from a pool that has more pods than it should: \<open>processDownscaling\<close> of
  internal/controller/humiocluster_controller.go with the functions it calls, and the helpers of
  internal/controller/utils.go. The GraphQL API is the outside world. A pod reached here was selected
  by its labels and carries annotations, so assigning to its maps does not panic.

  Go iterates over a map in any order: \<open>GetKeyWithHighestValue\<close> takes the keys in the order of the
  iteration, which the parameter \<open>visit\<close> chooses.
\<close>

section \<open>Helpers\<close>

fun highest_loop :: "('k \<Rightarrow> int) \<Rightarrow> 'k list \<Rightarrow> 'k \<Rightarrow> 'k" where
  "highest_loop v [] maxKey = maxKey"
| "highest_loop v (k # ks) maxKey = highest_loop v ks (if v k > v maxKey then k else maxKey)"

definition GetKeyWithHighestValue :: "('k \<Rightarrow> int) \<Rightarrow> 'k list \<Rightarrow> go_error + 'k" where
  "GetKeyWithHighestValue v keys =
     (case keys of [] \<Rightarrow> Inl (Msg ''map is empty'') | k # ks \<Rightarrow> Inr (highest_loop v ks k))"

definition GetPodNameFromNodeUri :: "lib \<Rightarrow> string \<Rightarrow> go_error + string" where
  "GetPodNameFromNodeUri L uri =
     (case x_url_hostname L uri of
        Inl err \<Rightarrow> Inl err
      | Inr hostname \<Rightarrow> Inr (hd (split_on (CHR ''.'') hostname)))"

definition RemoveIntFromSlice :: "int list \<Rightarrow> int \<Rightarrow> int list" where
  "RemoveIntFromSlice slice v = filter (\<lambda>x. x \<noteq> v) slice"

section \<open>Pods and LogScale nodes\<close>

text \<open>The map from pod names to vhosts; a missing key reads as 0.\<close>

definition match_host :: "lib \<Rightarrow> pod \<Rightarrow> cluster_node \<Rightarrow> (string \<rightharpoonup> int) \<Rightarrow> (string \<rightharpoonup> int)" where
  "match_host L pd n m =
     (if cn_is_available n \<and> GetPodNameFromNodeUri L (cn_uri n) = Inr (p_name pd)
      then m(p_name pd \<mapsto> cn_id n) else m)"

definition matchPodsToHosts :: "lib \<Rightarrow> pod list \<Rightarrow> cluster_node list \<Rightarrow> (string \<rightharpoonup> int)" where
  "matchPodsToHosts L podsInNodePool clusterNodes =
     fold (\<lambda>pd. fold (match_host L pd) clusterNodes) podsInNodePool Map.empty"

definition vhost_of :: "(string \<rightharpoonup> int) \<Rightarrow> pod \<Rightarrow> int" where
  "vhost_of m pd = (case m (p_name pd) of Some v \<Rightarrow> v | None \<Rightarrow> 0)"

definition getZoneFromPodNode :: "'w kube \<Rightarrow> pod \<Rightarrow> ('w st, go_error, string) step" where
  "getZoneFromPodNode K pd =
     (if ps_node_name (p_spec pd) = []
      then exit_with (Msg ''pod node name is empty. Cannot properly compute Zone distribution for pods'')
      else and_then (log_error (''could not get Node for pod '' @ p_name pd @ ''.'')
                       (query (k_get_node K (ps_node_name (p_spec pd))))) (\<lambda>n.
           ret (map_get (node_labels n) zone_label)))"

text \<open>
  \<open>Inl\<close> of the loop is the early \<open>return "", err\<close>, with an error or, for a node without a zone,
  with none.
\<close>

fun zones_of_pods :: "'w kube \<Rightarrow> pod list \<Rightarrow> ('w st, go_error option, string list) step" where
  "zones_of_pods K [] = ret []"
| "zones_of_pods K (pd # rest) =
     and_then (on_error (getZoneFromPodNode K pd) (\<lambda>err. exit_with (Some err))) (\<lambda>zone.
     if zone = [] then exit_with None
     else and_then (zones_of_pods K rest) (\<lambda>zones. ret (zone # zones)))"

definition getZoneForPodRemoval ::
  "'w kube \<Rightarrow> (string list \<Rightarrow> string list) \<Rightarrow> pod list \<Rightarrow> ('w st, go_error, string) step" where
  "getZoneForPodRemoval K visit podsInNodePool s =
     (case zones_of_pods K podsInNodePool s of
        (Inl None, s') \<Rightarrow> (Inr [], s')
      | (Inl (Some err), s') \<Rightarrow> (Inl err, s')
      | (Inr zones, s') \<Rightarrow>
          (case GetKeyWithHighestValue (\<lambda>z. int (count_list zones z)) (visit (remdups zones)) of
             Inl err \<Rightarrow> (Inl (Msg ''could compute find zone for pod removal''), s')
           | Inr zone \<Rightarrow> (Inr zone, s')))"

section \<open>The state of an eviction\<close>

definition getClusterNodesStatus :: "'w kube \<Rightarrow> ('w st, go_error, node_eviction list) step" where
  "getClusterNodesStatus K = log_error ''failed to get eviction status'' (query (k_humio_eviction_status K))"

text \<open>\<open>*node.GetIsBeingEvicted()\<close> dereferences a pointer that may be nil.\<close>

fun scan_evicted :: "node_eviction list \<Rightarrow> int \<Rightarrow> go_error + bool" where
  "scan_evicted [] vhost = Inr False"
| "scan_evicted (n # ns) vhost =
     (if nev_id n = vhost
      then (case nev_is_being_evicted n of
              None \<Rightarrow> Inl (Panic ''nil pointer dereference'')
            | Some b \<Rightarrow> if b then Inr True else scan_evicted ns vhost)
      else scan_evicted ns vhost)"

fun wait_evicted :: "'w kube \<Rightarrow> node_eviction list \<Rightarrow> int \<Rightarrow> nat \<Rightarrow> ('w st, go_error, bool) step" where
  "wait_evicted K nodesStatus vhost 0 = ret False"
| "wait_evicted K nodesStatus vhost (Suc i) =
     (case scan_evicted nodesStatus vhost of
        Inl p \<Rightarrow> exit_with p
      | Inr True \<Rightarrow> ret True
      | Inr False \<Rightarrow> and_then (pick (\<lambda>w. ((), k_sleep K second w))) (\<lambda>_. wait_evicted K nodesStatus vhost i))"

definition marked_pod :: "pod \<Rightarrow> int \<Rightarrow> pod" where
  "marked_pod pd vhost =
     set_annotation LogScaleClusterVhost (itoa vhost)
       (pd\<lparr>p_labels := (p_labels pd)(PodMarkedForDataEviction \<mapsto> true_str)\<rparr>)"

definition updateEvictionStatus ::
  "'w kube \<Rightarrow> node_eviction list \<Rightarrow> pod \<Rightarrow> int \<Rightarrow> ('w st, go_error, bool) step" where
  "updateEvictionStatus K nodesStatus pd vhost =
     and_then (wait_evicted K nodesStatus vhost waitForPodTimeoutSeconds) (\<lambda>isBeingEvicted.
     if \<not> isBeingEvicted then ret False
     else and_then (log_error (''failed to annotated pod '' @ p_name pd @ '' as '' @ CHR 0x27 # ''marked for data eviction'' @ [CHR 0x27])
                     (act (UpdatePod (marked_pod pd vhost)) (k_update_pod K (marked_pod pd vhost)))) (\<lambda>_.
          ret True))"

definition isNodeRegistered :: "node_eviction list \<Rightarrow> int \<Rightarrow> bool" where
  "isNodeRegistered nodesStatus vhost \<longleftrightarrow> list_ex (\<lambda>n. nev_id n = vhost) nodesStatus"

definition isEvictedNodeAlive :: "node_eviction list \<Rightarrow> int \<Rightarrow> bool" where
  "isEvictedNodeAlive nodesStatus vhost \<longleftrightarrow>
     \<not> list_ex (\<lambda>i. list_ex (\<lambda>n. nev_id n = vhost \<and> \<not> rr_is_alive (nev_reasons n)) nodesStatus)
         [0..<waitForPodTimeoutSeconds]"

definition data_is_elsewhere :: "removal_reasons \<Rightarrow> bool" where
  "data_is_elsewhere r \<longleftrightarrow> \<not> rr_leads_digest r \<and> \<not> rr_under_replicated r \<and> \<not> rr_only_on_this_node r"

definition checkEvictionStatusForPodUsingClusterRefresh ::
  "'w kube \<Rightarrow> int \<Rightarrow> ('w st, go_error, bool) step" where
  "checkEvictionStatusForPodUsingClusterRefresh K vhost =
     and_then (log_error ''could not get cluster nodes status.'' (query (k_humio_refresh_stats K vhost))) (\<lambda>r.
     ret (data_is_elsewhere r))"

fun any_node_safe :: "'w kube \<Rightarrow> int \<Rightarrow> node_eviction list \<Rightarrow> ('w st, go_error, bool) step" where
  "any_node_safe K vhost [] = ret False"
| "any_node_safe K vhost (n # ns) =
     (if nev_id n = vhost \<and> data_is_elsewhere (nev_reasons n)
      then and_then (observe (checkEvictionStatusForPodUsingClusterRefresh K vhost)) (\<lambda>ok.
           if ok = Inr True then ret True else any_node_safe K vhost ns)
      else any_node_safe K vhost ns)"

fun check_eviction_loop :: "'w kube \<Rightarrow> int \<Rightarrow> nat \<Rightarrow> ('w st, go_error, bool) step" where
  "check_eviction_loop K vhost 0 = ret False"
| "check_eviction_loop K vhost (Suc i) =
     and_then (log_error ''could not get cluster nodes status.'' (getClusterNodesStatus K)) (\<lambda>nodesStatus.
     and_then (any_node_safe K vhost nodesStatus) (\<lambda>ok.
     if ok then ret True else check_eviction_loop K vhost i))"

definition checkEvictionStatusForPod :: "'w kube \<Rightarrow> int \<Rightarrow> ('w st, go_error, bool) step" where
  "checkEvictionStatusForPod K vhost = check_eviction_loop K vhost waitForPodTimeoutSeconds"

section \<open>Marking and unregistering\<close>

definition set_evicted_ids :: "int list \<Rightarrow> humio_cluster \<Rightarrow> humio_cluster" where
  "set_evicted_ids ids hc = hc\<lparr>hc_status := (hc_status hc)\<lparr>st_evicted_node_ids := ids\<rparr>\<rparr>"

text \<open>\<open>hc.Status.EvictedNodeIds = ...; r.Status().Update(ctx, hc)\<close>\<close>

definition write_evicted_ids ::
  "'w kube \<Rightarrow> (int list \<Rightarrow> int list) \<Rightarrow> ('w st, go_error, unit) step" where
  "write_evicted_ids K f =
     and_then get_hc (\<lambda>hc.
     and_then (set_hc (set_evicted_ids (f (st_evicted_node_ids (hc_status hc))) hc)) (\<lambda>_.
     write_status K))"

definition unregisterNode :: "'w kube \<Rightarrow> int \<Rightarrow> ('w st, go_error, bool) step" where
  "unregisterNode K vhost =
     and_then (log_error ''failed to get cluster nodes using GraphQL'' (getClusterNodesStatus K)) (\<lambda>nodesStatus.
     if \<not> isNodeRegistered nodesStatus vhost
     then and_then (write_evicted_ids K (\<lambda>ids. RemoveIntFromSlice ids vhost)) (\<lambda>_. ret True)
     else if \<not> isEvictedNodeAlive nodesStatus vhost
     then and_then (log_error (''failed to unregister vhost '' @ itoa vhost)
                     (act (Unregister vhost) (k_humio_unregister K vhost False))) (\<lambda>nodes.
          if vhost \<in> set nodes then ret False
          else and_then (write_evicted_ids K (\<lambda>ids. RemoveIntFromSlice ids vhost)) (\<lambda>_. ret True))
     else ret True)"

definition getPodsNotMarkedForEviction :: "'w kube \<Rightarrow> node_pool \<Rightarrow> ('w st, go_error, pod list) step" where
  "getPodsNotMarkedForEviction K hnp =
     and_then (log_error ''failed to list pods.'' (query (k_list_pods K (GetNamespace hnp) (GetNodePoolLabels hnp)))) (\<lambda>pods.
     ret (filter (\<lambda>pd. p_labels pd PodMarkedForDataEviction \<noteq> Some true_str) pods))"

definition handleUnmarkedEvictions :: "lib \<Rightarrow> 'w kube \<Rightarrow> pod list \<Rightarrow> ('w st, go_error, unit) step" where
  "handleUnmarkedEvictions L K podsInNodePool =
     and_then (log_error ''failed to get humio cluster through the GraphQL API.'' (query (k_humio_nodes K))) (\<lambda>nodes.
     let podNameToNodeIdMap = matchPodsToHosts L podsInNodePool nodes in
     and_then (log_error ''failed to get cluster nodes using GraphQL.'' (getClusterNodesStatus K)) (\<lambda>nodesStatus.
     for_each (\<lambda>pd.
       if ps_node_name (p_spec pd) = [] then ret ()
       else
         let vhost = vhost_of podNameToNodeIdMap pd in
         and_then (log_error (''failed to update eviction status for vhost '' @ itoa vhost)
                    (updateEvictionStatus K nodesStatus pd vhost)) (\<lambda>marked. ret ()))
       podsInNodePool))"

text \<open>
  Only one pod is marked. The error after the loop wraps the \<open>err\<close> of \<open>getZoneForPodRemoval\<close>, which
  is nil there.
\<close>

fun mark_first ::
  "'w kube \<Rightarrow> (string \<rightharpoonup> int) \<Rightarrow> string \<Rightarrow> string \<Rightarrow> pod list \<Rightarrow> ('w st, go_error, unit) step" where
  "mark_first K hosts podRemovalZone nodePoolName [] =
     exit_with (Wrap (''No pod was found to be eligible for eviction in this node pool '' @ nodePoolName) None)"
| "mark_first K hosts podRemovalZone nodePoolName (pd # rest) =
     and_then (observe (getZoneFromPodNode K pd)) (\<lambda>zone.
     if zone \<noteq> Inr podRemovalZone then mark_first K hosts podRemovalZone nodePoolName rest
     else if ps_node_name (p_spec pd) = [] then mark_first K hosts podRemovalZone nodePoolName rest
     else
       let vhost = vhost_of hosts pd in
       and_then (log_error (''failed to set data eviction for vhost '' @ itoa vhost)
                  (act (SetEvicted vhost True) (k_humio_set_evicted K vhost True))) (\<lambda>_.
       and_then (log_error ''failed to get cluster nodes using GraphQL'' (getClusterNodesStatus K)) (\<lambda>nodesStatus.
       and_then (log_error (''failed to update eviction status for vhost '' @ itoa vhost)
                  (updateEvictionStatus K nodesStatus pd vhost)) (\<lambda>marked. ret ()))))"

definition markPodForEviction ::
  "lib \<Rightarrow> 'w kube \<Rightarrow> (string list \<Rightarrow> string list) \<Rightarrow> pod list \<Rightarrow> string \<Rightarrow> ('w st, go_error, unit) step" where
  "markPodForEviction L K visit podsInNodePool nodePoolName =
     and_then get_hc (\<lambda>hc.
     and_then (log_error ''could not create a cluster config for the http client.''
                (NewCluster L K (hc_name hc) [] (hc_namespace hc) (use_cert_manager L) True False)) (\<lambda>_.
     and_then (log_error ''failed to get humio cluster through the GraphQL API.'' (query (k_humio_nodes K))) (\<lambda>nodes.
     and_then (log_error ''failed to get pod removal zone'' (getZoneForPodRemoval K visit podsInNodePool)) (\<lambda>zone.
     mark_first K (matchPodsToHosts L podsInNodePool nodes) zone nodePoolName podsInNodePool))))"

section \<open>processDownscaling\<close>

text \<open>One pod that is marked; the accumulator is \<open>successfullyUnregistered\<close>.\<close>

definition remove_marked_pod :: "'w kube \<Rightarrow> pod \<Rightarrow> bool \<Rightarrow> ('w st, go_error, bool) step" where
  "remove_marked_pod K pd successfullyUnregistered =
     (let vhostStr = map_get (p_annotations pd) LogScaleClusterVhost in
      case atoi vhostStr of
        None \<Rightarrow> exit_with (Wrap (''could not parse vhost from annotation '' @ vhostStr) (Some (Msg ''strconv.Atoi'')))
      | Some vhost \<Rightarrow>
          and_then (checkEvictionStatusForPod K vhost) (\<lambda>nodeCanBeSafelyUnregistered.
          if nodeCanBeSafelyUnregistered
          then
            and_then get_hc (\<lambda>hc.
            and_then (if vhost \<in> set (st_evicted_node_ids (hc_status hc)) then ret ()
                      else write_evicted_ids K (\<lambda>ids. ids @ [vhost])) (\<lambda>_.
            and_then (log_error (''failed to delete pod '' @ p_name pd @ '' for vhost '' @ itoa vhost @ ''!'')
                       (act (DeletePod pd) (k_delete_pod K pd))) (\<lambda>_.
            unregisterNode K vhost)))
          else ret successfullyUnregistered))"

definition as_result :: "('s, go_error, 'a) step \<Rightarrow> ('s, handler_result, 'a) step" where
  "as_result m = on_error m (\<lambda>err. exit_with (empty_result, Some err))"

definition processDownscaling ::
  "lib \<Rightarrow> 'w kube \<Rightarrow> (string list \<Rightarrow> string list) \<Rightarrow> node_pool \<Rightarrow> ('w st, handler_result, unit) step" where
  "processDownscaling L K visit hnp =
     and_then get_hc (\<lambda>hc.
     and_then (as_result (log_error ''could not create a cluster config for the http client.''
                (NewCluster L K (hc_name hc) [] (hc_namespace hc) (use_cert_manager L) True False))) (\<lambda>_.
     and_then (as_result (log_error ''failed to list pods not marked for eviction.''
                (getPodsNotMarkedForEviction K hnp))) (\<lambda>podsNotMarked.
     and_then (as_result (log_error ''could not process active evictions.''
                (handleUnmarkedEvictions L K podsNotMarked))) (\<lambda>_.
     and_then get_hc (\<lambda>hc.
     and_then (as_result (for_each (\<lambda>vhost. and_then (unregisterNode K vhost) (\<lambda>_. ret ()))
                (st_evicted_node_ids (hc_status hc)))) (\<lambda>_.
     and_then (as_result (log_error ''failed to list pods marked for eviction.''
                (query (k_list_pods K (GetNamespace hnp)
                  ((GetNodePoolLabels hnp)(PodMarkedForDataEviction \<mapsto> true_str)))))) (\<lambda>podsMarked.
     and_then (as_result (if int (length podsNotMarked) > GetNodeCount hnp \<and> podsMarked = []
                then markPodForEviction L K visit podsNotMarked (GetNodePoolName hnp) else ret ())) (\<lambda>_.
     if podsMarked = [] then ret ()
     else
       and_then (as_result (fold_step (remove_marked_pod K) podsMarked False)) (\<lambda>successfullyUnregistered.
       if \<not> successfullyUnregistered then exit_with (requeue_in (60 * second), None) else ret ())))))))))"

section \<open>What the GraphQL API must have said\<close>

definition reported :: "'w kube \<Rightarrow> (node_eviction \<Rightarrow> bool) \<Rightarrow> bool" where
  "reported K P \<longleftrightarrow> (\<exists>w ns. fst (k_humio_eviction_status K w) = Inr ns \<and> list_ex P ns)"

definition data_safe :: "'w kube \<Rightarrow> int \<Rightarrow> bool" where
  "data_safe K v \<longleftrightarrow> reported K (\<lambda>n. nev_id n = v \<and> data_is_elsewhere (nev_reasons n))
     \<and> (\<exists>w r. fst (k_humio_refresh_stats K v w) = Inr r \<and> data_is_elsewhere r)"

definition reported_dead :: "'w kube \<Rightarrow> int \<Rightarrow> bool" where
  "reported_dead K v \<longleftrightarrow> reported K (\<lambda>n. nev_id n = v \<and> \<not> rr_is_alive (nev_reasons n))"

definition reported_evicting :: "'w kube \<Rightarrow> int \<Rightarrow> bool" where
  "reported_evicting K v \<longleftrightarrow> reported K (\<lambda>n. nev_id n = v \<and> nev_is_being_evicted n = Some True)"

definition downscale_call :: "'w kube \<Rightarrow> api_call \<Rightarrow> bool" where
  "downscale_call K call \<longleftrightarrow>
     (case call of
        DeletePod pd \<Rightarrow>
          (case atoi (map_get (p_annotations pd) LogScaleClusterVhost) of None \<Rightarrow> False | Some v \<Rightarrow> data_safe K v)
      | Unregister v \<Rightarrow> reported_dead K v
      | UpdatePod pd \<Rightarrow> \<exists>p v. pd = marked_pod p v \<and> reported_evicting K v
      | SetEvicted v b \<Rightarrow> b
      | UpdateStatus hc \<Rightarrow> True
      | _ \<Rightarrow> False)"

lemma downscale_call_simps [simp]:
  "downscale_call K (UpdateStatus hc)" "downscale_call K (SetEvicted v True)"
  "downscale_call K (Unregister v) = reported_dead K v"
  by (simp_all add: downscale_call_def)

lemma downscale_call_marking: "reported_evicting K v \<Longrightarrow> downscale_call K (UpdatePod (marked_pod p v))"
  unfolding downscale_call_def by auto

lemma nodes_status_returned: "may_return (getClusterNodesStatus K) ns \<Longrightarrow> list_ex P ns \<Longrightarrow> reported K P"
  by (auto simp: getClusterNodesStatus_def may_return_log_error reported_def)
     (auto simp: may_return_def query_def)

lemma nodes_status_quiet: "adds_only P (getClusterNodesStatus K)"
  unfolding getClusterNodesStatus_def by (intro trace_intros)

lemma any_node_safe_returned:
  "may_return (any_node_safe K v ns) True \<Longrightarrow>
   list_ex (\<lambda>n. nev_id n = v \<and> data_is_elsewhere (nev_reasons n)) ns
   \<and> (\<exists>w r. fst (k_humio_refresh_stats K v w) = Inr r \<and> data_is_elsewhere r)"
proof (induction ns)
  case (Cons n ns)
  have refresh: "\<exists>w r. fst (k_humio_refresh_stats K v w) = Inr r \<and> data_is_elsewhere r"
    if "may_return (observe (checkEvictionStatusForPodUsingClusterRefresh K v)) (Inr True)"
    using that
    by (auto simp: may_return_def observe_def checkEvictionStatusForPodUsingClusterRefresh_def log_error_def and_then_def
        on_error_def exit_with_def ret_def query_def split: prod.splits sum.splits)
  show ?case
    using Cons.prems Cons.IH refresh by (auto split: if_splits dest!: may_return_and_then)
qed simp

lemma check_eviction_returned: "may_return (checkEvictionStatusForPod K v) True \<Longrightarrow> data_safe K v"
proof -
  have "may_return (check_eviction_loop K v i) True \<Longrightarrow> data_safe K v" for i
  proof (induction i)
    case (Suc i)
    then show ?case
      by (auto split: if_splits dest!: may_return_and_then any_node_safe_returned
          simp: may_return_log_error data_safe_def intro: nodes_status_returned)
  qed simp
  then show "may_return (checkEvictionStatusForPod K v) True \<Longrightarrow> data_safe K v"
    by (simp add: checkEvictionStatusForPod_def)
qed

lemma check_eviction_quiet: "adds_only P (checkEvictionStatusForPod K v)"
proof -
  have nodes: "adds_only P (any_node_safe K v ns)" for ns
  proof (induction ns)
    case (Cons n ns)
    show ?case
      unfolding any_node_safe.simps checkEvictionStatusForPodUsingClusterRefresh_def by (intro trace_intros Cons)
  qed (simp add: adds_only_simple)
  have "adds_only P (check_eviction_loop K v i)" for i
  proof (induction i)
    case (Suc i)
    show ?case unfolding check_eviction_loop.simps by (intro trace_intros nodes nodes_status_quiet Suc)
  qed (simp add: adds_only_simple)
  then show ?thesis by (simp add: checkEvictionStatusForPod_def)
qed

lemma wait_evicted_quiet: "adds_only P (wait_evicted K ns v i)"
proof (induction i)
  case (Suc i)
  show ?case
    using Suc by (auto simp: adds_only_simple intro!: adds_only_and_then split: sum.split bool.split)
qed (simp add: adds_only_simple)

lemma scan_evicted_True: "scan_evicted ns v = Inr True \<Longrightarrow> list_ex (\<lambda>n. nev_id n = v \<and> nev_is_being_evicted n = Some True) ns"
  by (induction ns) (auto split: if_splits option.splits)

lemma wait_evicted_returned: "may_return (wait_evicted K ns v i) True \<Longrightarrow> scan_evicted ns v = Inr True"
  by (induction i) (auto split: sum.splits bool.splits dest!: may_return_and_then)

lemma updateEvictionStatus_adds:
  assumes "list_ex (\<lambda>n. nev_id n = v \<and> nev_is_being_evicted n = Some True) ns \<Longrightarrow> reported_evicting K v"
  shows "adds_only (downscale_call K) (updateEvictionStatus K ns pd v)"
  unfolding updateEvictionStatus_def
  by (rule adds_only_and_then_returned [OF wait_evicted_quiet])
    (auto intro!: trace_intros downscale_call_marking dest!: wait_evicted_returned scan_evicted_True assms)

lemma write_ids_adds: "(\<And>hc. P (UpdateStatus hc)) \<Longrightarrow> adds_only P (write_evicted_ids K f)"
  unfolding write_evicted_ids_def write_status_def by (intro trace_intros)

lemma unregister_adds: "adds_only (downscale_call K) (unregisterNode K v)"
  unfolding unregisterNode_def
proof (rule adds_only_and_then_returned, goal_cases quiet rest)
  case quiet
  show ?case by (intro trace_intros nodes_status_quiet)
next
  case (rest ns)
  then have "may_return (getClusterNodesStatus K) ns" by (simp add: may_return_log_error)
  then have "\<not> isEvictedNodeAlive ns v \<Longrightarrow> reported_dead K v"
    unfolding reported_dead_def
    by (rule nodes_status_returned) (auto simp: isEvictedNodeAlive_def list_ex_iff)
  then show ?case by (auto intro!: trace_intros write_ids_adds)
qed

lemma remove_marked_adds: "adds_only (downscale_call K) (remove_marked_pod K pd b)"
proof -
  have safe: "adds_only (downscale_call K) (and_then (checkEvictionStatusForPod K v) (\<lambda>ok.
          if ok
          then
            and_then get_hc (\<lambda>hc.
            and_then (if v \<in> set (st_evicted_node_ids (hc_status hc)) then ret ()
                      else write_evicted_ids K (\<lambda>ids. ids @ [v])) (\<lambda>_.
            and_then (log_error m (act (DeletePod pd) (k_delete_pod K pd))) (\<lambda>_. unregisterNode K v)))
          else ret b))" if v: "atoi (map_get (p_annotations pd) LogScaleClusterVhost) = Some v" for v m
  proof (rule adds_only_and_then_returned [OF check_eviction_quiet])
    fix ok
    assume "may_return (checkEvictionStatusForPod K v) ok"
    then have "ok \<Longrightarrow> data_safe K v" using check_eviction_returned by simp
    then have "ok \<Longrightarrow> downscale_call K (DeletePod pd)" by (simp add: downscale_call_def v)
    then show "adds_only (downscale_call K) (if ok
          then
            and_then get_hc (\<lambda>hc.
            and_then (if v \<in> set (st_evicted_node_ids (hc_status hc)) then ret ()
                      else write_evicted_ids K (\<lambda>ids. ids @ [v])) (\<lambda>_.
            and_then (log_error m (act (DeletePod pd) (k_delete_pod K pd))) (\<lambda>_. unregisterNode K v)))
          else ret b)"
      by (intro trace_intros write_ids_adds unregister_adds) simp_all
  qed
  show ?thesis
    unfolding remove_marked_pod_def Let_def by (intro safe trace_intros)
qed

lemma handle_unmarked_adds: "adds_only (downscale_call K) (handleUnmarkedEvictions L K pods)"
  unfolding handleUnmarkedEvictions_def Let_def
proof (rule adds_only_and_then, goal_cases nodes rest)
  case nodes
  show ?case by (intro trace_intros)
next
  case (rest ns)
  show ?case
  proof (rule adds_only_and_then_returned, goal_cases quiet rest)
    case quiet
    show ?case by (intro trace_intros nodes_status_quiet)
  next
    case (rest st)
    then have "may_return (getClusterNodesStatus K) st" by (simp add: may_return_log_error)
    then have "list_ex (\<lambda>n. nev_id n = v \<and> nev_is_being_evicted n = Some True) st \<Longrightarrow> reported_evicting K v" for v
      unfolding reported_evicting_def by (rule nodes_status_returned)
    then show ?case by (intro trace_intros updateEvictionStatus_adds)
  qed
qed

lemma getZoneFromPodNode_quiet: "adds_only P (getZoneFromPodNode K pd)"
  unfolding getZoneFromPodNode_def by (intro trace_intros)

lemma getZoneForPodRemoval_quiet: "adds_only P (getZoneForPodRemoval K visit pods)"
proof -
  have z: "adds_only Q (zones_of_pods K ps)" for Q ps
  proof (induction ps)
    case (Cons p ps)
    show ?case unfolding zones_of_pods.simps by (intro trace_intros getZoneFromPodNode_quiet Cons)
  qed (simp add: adds_only_simple)
  show ?thesis
    unfolding adds_only_def emits_def
    by (auto simp: getZoneForPodRemoval_def dest!: calls_quiet [OF z] split: prod.split sum.split option.split)
qed

lemma mark_first_adds: "adds_only (downscale_call K) (mark_first K hosts z name pods)"
proof (induction pods)
  case (Cons pd rest)
  have update: "adds_only (downscale_call K) (and_then (log_error m (getClusterNodesStatus K)) (\<lambda>st.
     and_then (log_error m' (updateEvictionStatus K st pd v)) (\<lambda>marked. ret ())))" for m m' v
  proof (rule adds_only_and_then_returned, goal_cases quiet rest)
    case quiet
    show ?case by (intro trace_intros nodes_status_quiet)
  next
    case (rest st)
    then have "may_return (getClusterNodesStatus K) st" by (simp add: may_return_log_error)
    then have "list_ex (\<lambda>n. nev_id n = v \<and> nev_is_being_evicted n = Some True) st \<Longrightarrow> reported_evicting K v"
      unfolding reported_evicting_def by (rule nodes_status_returned)
    then show ?case by (intro trace_intros updateEvictionStatus_adds)
  qed
  show ?case
    unfolding mark_first.simps Let_def
    by (intro trace_intros getZoneFromPodNode_quiet Cons update) simp
qed (simp add: adds_only_simple)

lemma adds_only_as_result: "adds_only P m \<Longrightarrow> adds_only P (as_result m)"
  unfolding as_result_def by (intro trace_intros)

lemma downscaling_adds: "adds_only (downscale_call K) (processDownscaling L K visit hnp)"
  unfolding processDownscaling_def markPodForEviction_def getPodsNotMarkedForEviction_def
  by (intro adds_only_as_result trace_intros handle_unmarked_adds unregister_adds mark_first_adds
      getZoneForPodRemoval_quiet adds_only_fold_step remove_marked_adds)

text \<open>
  Claim C4. Data survives downscaling. The mutating calls of \<open>processDownscaling\<close> are status writes,
  eviction requests, marks on pods, deletions of pods and unregistrations of nodes. A pod is deleted
  only when its vhost annotation is a number and the cluster has answered, in its node list and
  again in a refreshed statistic of that node, that the node leads no digest, holds no
  under-replicated data and no data that exists only there; a node is unregistered only when the
  cluster has answered that it is not alive; a pod is marked only with a node the cluster has
  answered to be evicting.
\<close>

theorem downscaling_keeps_data:
  "\<exists>cs. calls (snd (processDownscaling L K visit hnp s)) = calls s @ cs \<and> list_all (downscale_call K) cs"
  using downscaling_adds [of K L visit hnp] by (simp add: adds_only_def emits_def)

section \<open>One node at a time\<close>

definition is_eviction :: "api_call \<Rightarrow> bool" where
  "is_eviction c \<longleftrightarrow> (\<exists>v b. c = SetEvicted v b)"

definition one_eviction :: "api_call list \<Rightarrow> bool" where
  "one_eviction cs \<longleftrightarrow> length (filter is_eviction cs) \<le> 1
     \<and> (filter is_eviction cs = [] \<or> filter is_deletion cs = [])"

definition neither :: "api_call \<Rightarrow> bool" where
  "neither c \<longleftrightarrow> \<not> is_eviction c \<and> \<not> is_deletion c"

lemma neither_simps [simp]: "neither (UpdateStatus hc)" "neither (Unregister v)" "neither (UpdatePod p)"
  by (simp_all add: neither_def is_eviction_def is_deletion_def)

lemma neither_filters:
  "list_all neither cs \<Longrightarrow> filter is_eviction cs = [] \<and> filter is_deletion cs = []"
  by (auto simp: list_all_iff neither_def filter_empty_conv)

lemma one_eviction_after: "adds_only neither m \<Longrightarrow> (\<And>a. emits one_eviction (f a)) \<Longrightarrow> emits one_eviction (and_then m f)"
  unfolding adds_only_def
  by (rule emits_and_then [where Q = "list_all neither" and R = one_eviction])
    (auto simp: one_eviction_def neither_filters)

lemma updateEvictionStatus_neither: "adds_only neither (updateEvictionStatus K ns pd v)"
  unfolding updateEvictionStatus_def by (intro trace_intros wait_evicted_quiet) simp

lemma unregister_neither: "adds_only neither (unregisterNode K v)"
  unfolding unregisterNode_def by (intro trace_intros nodes_status_quiet write_ids_adds) simp_all

definition evicts_once :: "api_call list \<Rightarrow> bool" where
  "evicts_once cs \<longleftrightarrow> length (filter is_eviction cs) \<le> 1 \<and> filter is_deletion cs = []"

lemma evicts_once_after: "adds_only neither m \<Longrightarrow> (\<And>a. emits evicts_once (f a)) \<Longrightarrow> emits evicts_once (and_then m f)"
  unfolding adds_only_def
  by (rule emits_and_then [where Q = "list_all neither" and R = evicts_once])
    (auto simp: evicts_once_def neither_filters)

lemma evicts_once_if: "(b \<Longrightarrow> emits Q m) \<Longrightarrow> (\<not> b \<Longrightarrow> emits Q n) \<Longrightarrow> emits Q (if b then m else n)"
  by simp

lemma mark_first_once: "emits evicts_once (mark_first K hosts z name pods)"
proof (induction pods)
  case Nil
  show ?case by (simp add: emits_simple evicts_once_def)
next
  case (Cons pd rest)
  have rest: "adds_only neither (and_then (log_error m (getClusterNodesStatus K)) (\<lambda>st.
     and_then (log_error m' (updateEvictionStatus K st pd v)) (\<lambda>marked. ret ())))" for m m' v
    by (intro trace_intros nodes_status_quiet updateEvictionStatus_neither)
  have evict: "emits evicts_once (and_then (log_error m0 (act (SetEvicted v True) g)) (\<lambda>_.
     and_then (log_error m (getClusterNodesStatus K)) (\<lambda>st.
     and_then (log_error m' (updateEvictionStatus K st pd v)) (\<lambda>marked. ret ()))))"
    for m0 m m' v and g :: "'a \<Rightarrow> (go_error + unit) \<times> 'a"
    unfolding log_error_def [of m0]
    by (rule emits_and_then [where Q = "\<lambda>cs. cs = [SetEvicted v True]" and R = "list_all neither"])
      (auto intro!: emits_on_error_exit emits_simple rest [unfolded adds_only_def]
        simp: neither_filters is_eviction_def is_deletion_def evicts_once_def)
  show ?case
    unfolding mark_first.simps Let_def
    by (intro evicts_once_after evicts_once_if adds_only_observe getZoneFromPodNode_quiet evict Cons)
qed

lemma emits_as_result: "emits Q m \<Longrightarrow> emits Q (as_result m)"
  unfolding as_result_def by (rule emits_on_error_exit)

lemma remove_marked_no_eviction: "adds_only (\<lambda>c. \<not> is_eviction c) (remove_marked_pod K pd b)"
proof -
  have "adds_only (\<lambda>c. \<not> is_eviction c) (unregisterNode K v)" for v
    using unregister_neither by (rule adds_only_weaken) (simp add: neither_def)
  then show ?thesis
    unfolding remove_marked_pod_def Let_def
    by (intro trace_intros check_eviction_quiet write_ids_adds) (simp_all add: is_eviction_def)
qed

text \<open>
  Claim C5. Nodes leave one at a time: one run of \<open>processDownscaling\<close> requests at most one eviction,
  and a run that requests one deletes no pod.
\<close>

theorem one_eviction_at_a_time:
  "\<exists>cs. calls (snd (processDownscaling L K visit hnp s)) = calls s @ cs
      \<and> length (filter is_eviction cs) \<le> 1
      \<and> (filter is_eviction cs = [] \<or> filter is_deletion cs = [])"
proof -
  have unmarked: "adds_only neither (handleUnmarkedEvictions L K pods)" for pods
    unfolding handleUnmarkedEvictions_def Let_def
    by (intro trace_intros nodes_status_quiet updateEvictionStatus_neither)
  have mark: "emits evicts_once (as_result (if b then markPodForEviction L K visit ps name else ret ()))" for b ps name
    unfolding markPodForEviction_def
    by (intro emits_as_result evicts_once_if evicts_once_after mark_first_once trace_intros getZoneForPodRemoval_quiet)
      (simp add: emits_simple evicts_once_def)
  have last: "emits one_eviction
     (and_then (as_result (if c \<and> marked = [] then markPodForEviction L K visit ps name else ret ())) (\<lambda>_.
      if marked = [] then ret ()
      else and_then (as_result (fold_step (remove_marked_pod K) marked False)) (\<lambda>ok.
           if \<not> ok then exit_with (requeue_in (60 * second), None) else ret ())))" for c marked ps name
  proof (cases "marked = []")
    case True
    show ?thesis
      by (rule emits_and_then [OF mark, where R = "\<lambda>cs. cs = []"])
        (auto simp: True emits_simple one_eviction_def evicts_once_def)
  next
    case False
    have "adds_only (\<lambda>c. \<not> is_eviction c) (and_then (as_result (if c \<and> marked = []
        then markPodForEviction L K visit ps name else ret ())) (\<lambda>_.
      if marked = [] then ret ()
      else and_then (as_result (fold_step (remove_marked_pod K) marked False)) (\<lambda>ok.
           if \<not> ok then exit_with (requeue_in (60 * second), None) else ret ())))"
      using False
      by (simp, intro adds_only_as_result trace_intros adds_only_fold_step remove_marked_no_eviction)
    then show ?thesis
      unfolding adds_only_def by (rule emits_mono) (auto simp: one_eviction_def list_all_iff filter_empty_conv)
  qed
  have "emits one_eviction (processDownscaling L K visit hnp)"
    unfolding processDownscaling_def getPodsNotMarkedForEviction_def
    by (intro one_eviction_after last adds_only_as_result trace_intros unmarked unregister_neither)
  then show ?thesis by (simp add: one_eviction_def emits_def)
qed

section \<open>Which node leaves\<close>

lemma highest_loop_max:
  "highest_loop v ks m \<in> insert m (set ks) \<and> (\<forall>k\<in>insert m (set ks). v k \<le> v (highest_loop v ks m))"
proof (induction ks arbitrary: m)
  case (Cons k ks)
  show ?case using Cons [of "if v k > v m then k else m"] by (auto split: if_splits)
qed simp

lemma GetKeyWithHighestValue_max:
  "GetKeyWithHighestValue v keys = Inr k \<Longrightarrow> k \<in> set keys \<and> (\<forall>l\<in>set keys. v l \<le> v k)"
  using highest_loop_max [of v "tl keys" "hd keys"]
  by (auto simp: GetKeyWithHighestValue_def split: list.splits)

text \<open>
  The zone a pod is removed from is a fullest one: when \<open>getZoneForPodRemoval\<close> answers with
  a zone, in whatever order Go visits the map, every pod has a zone, some pod is in that zone, and no
  zone has more pods.
\<close>

lemma removal_zone_is_fullest:
  assumes "\<And>zs. set (visit zs) = set zs"
    and "getZoneForPodRemoval K visit pods s = (Inr z, s')" and "z \<noteq> []"
  shows "\<exists>zones. zones_of_pods K pods s = (Inr zones, s') \<and> length zones = length pods \<and> [] \<notin> set zones
           \<and> z \<in> set zones \<and> list_all (\<lambda>y. count_list zones y \<le> count_list zones z) zones"
proof -
  have zones: "length zs = length ps \<and> [] \<notin> set zs" if "zones_of_pods K ps t = (Inr zs, t')" for ps zs t t'
    using that
    by (induction ps arbitrary: zs t) (auto simp: and_then_Inr ret_def exit_with_def split: if_splits)
  obtain zs where zs: "zones_of_pods K pods s = (Inr zs, s')"
    and key: "GetKeyWithHighestValue (\<lambda>z. int (count_list zs z)) (visit (remdups zs)) = Inr z"
    using assms(2,3)
    by (auto simp: getZoneForPodRemoval_def split: prod.splits sum.splits option.splits)
  show ?thesis
    using GetKeyWithHighestValue_max [OF key] zones [OF zs] zs by (auto simp: assms(1) list_all_iff)
qed

lemma removal_zone_is_fullest_witness:
  "let nodes = [(''n1'', \<lparr>node_labels = [zone_label \<mapsto> ''z1''], node_unschedulable = False\<rparr>)]
   in fst (getZoneForPodRemoval mem_kube rev [sample_pod ''a''] (mem_state (empty_world\<lparr>w_nodes := nodes\<rparr>))) = Inr ''z1''"
proof -
  let ?nodes = "[(''n1'', \<lparr>node_labels = [zone_label \<mapsto> ''z1''], node_unschedulable = False\<rparr>)]"
  let ?s = "mem_state (empty_world\<lparr>w_nodes := ?nodes\<rparr>)"
  obtain z s' where run: "getZoneForPodRemoval mem_kube rev [sample_pod ''a''] ?s = (Inr z, s')" and "z \<noteq> []"
    and zones: "zones_of_pods mem_kube [sample_pod ''a''] ?s = (Inr [''z1''], s')"
    by (simp add: getZoneForPodRemoval_def getZoneFromPodNode_def and_then_def on_error_def log_error_def
        query_def mem_kube_def mem_state_def empty_world_def ret_def GetKeyWithHighestValue_def)
  have "z = ''z1''" using removal_zone_is_fullest [OF _ run \<open>z \<noteq> []\<close>] zones by auto
  with run show ?thesis by (simp add: Let_def)
qed

lemma unmatched_vhost:
  assumes "\<forall>n\<in>set nodes. cn_is_available n \<longrightarrow> GetPodNameFromNodeUri L (cn_uri n) \<noteq> Inr (p_name pd)"
  shows "vhost_of (matchPodsToHosts L pods nodes) pd = 0"
proof -
  have inner: "fold (match_host L q) ns m (p_name pd) = m (p_name pd)" if "set ns \<subseteq> set nodes" for q ns m
    using that
  proof (induction ns arbitrary: m)
    case (Cons n ns)
    then have "match_host L q n m (p_name pd) = m (p_name pd)" using assms by (auto simp: match_host_def)
    with Cons show ?case by simp
  qed simp
  have "fold (\<lambda>q. fold (match_host L q) nodes) ps m (p_name pd) = m (p_name pd)" for ps m
    by (induction ps arbitrary: m) (simp_all add: inner)
  then show ?thesis by (simp add: matchPodsToHosts_def vhost_of_def)
qed

text \<open>
  A pod that no available LogScale node names is taken for node 0: if it is the pod chosen
  for removal, node 0 is asked to evict its data, whatever runs there.
\<close>

lemma unmatched_pod_evicts_node_zero:
  assumes "succeeds (NewCluster L K (hc_name (hc_obj s)) [] (hc_namespace (hc_obj s)) (use_cert_manager L) True False)"
    and "\<And>w. fst (k_humio_nodes K w) = Inr nodes"
    and "\<And>w. fst (k_get_node K (ps_node_name (p_spec pd)) w) = Inr nd"
    and "ps_node_name (p_spec pd) \<noteq> []" and "\<And>z. visit [z] = [z]"
    and "\<forall>n\<in>set nodes. cn_is_available n \<longrightarrow> GetPodNameFromNodeUri L (cn_uri n) \<noteq> Inr (p_name pd)"
  shows "SetEvicted 0 True \<in> set (calls (snd (markPodForEviction L K visit [pd] name s)))"
proof -
  have zone: "getZoneFromPodNode K pd t = (Inr (map_get (node_labels nd) zone_label),
      t\<lparr>server := snd (k_get_node K (ps_node_name (p_spec pd)) (server t))\<rparr>)" for t
    using assms(3,4) by (simp add: getZoneFromPodNode_def and_then_def log_error_def on_error_def query_def ret_def)
  have removal: "\<exists>t'. getZoneForPodRemoval K visit [pd] t = (Inr (map_get (node_labels nd) zone_label), t')" for t
    using assms(5)
    by (auto simp: getZoneForPodRemoval_def zone and_then_def on_error_def ret_def exit_with_def
        GetKeyWithHighestValue_def)
  have keeps: "SetEvicted 0 True \<in> set (calls (snd (and_then m f t)))"
    if "SetEvicted 0 True \<in> set (calls (snd (m t)))" and "\<And>a. adds_only (\<lambda>_. True) (f a)"
    for m :: "('a st, go_error, 'x) step" and f :: "'x \<Rightarrow> ('a st, go_error, unit) step" and t
  proof -
    note more = that(2)
    obtain r t1 where m: "m t = (r, t1)" by fastforce
    show ?thesis
    proof (cases r)
      case (Inr a)
      obtain cs where "calls (snd (f a t1)) = calls t1 @ cs"
        using more [of a] unfolding adds_only_def by (rule emitsE)
      with Inr m that(1) show ?thesis by (simp add: and_then_def)
    qed (use m that(1) in \<open>simp add: and_then_def\<close>)
  qed
  have act: "SetEvicted 0 True \<in> set (calls (snd (log_error m (act (SetEvicted 0 True) g) t)))"
    for m and g :: "'a \<Rightarrow> (go_error + unit) \<times> 'a" and t
    by (auto simp: log_error_def on_error_def act_def exit_with_def split: prod.split sum.split)
  have rest: "adds_only (\<lambda>_. True) (and_then (log_error m (getClusterNodesStatus K)) (\<lambda>st.
     and_then (log_error m' (updateEvictionStatus K st pd 0)) (\<lambda>marked. ret ())))" for m m'
    by (intro trace_intros nodes_status_quiet adds_only_weaken [OF updateEvictionStatus_neither] TrueI)
  have evict: "SetEvicted 0 True \<in> set (calls (snd (mark_first K (matchPodsToHosts L [pd] nodes)
      (map_get (node_labels nd) zone_label) name [pd] t)))" for t
    using assms(4) keeps [OF act rest]
    by (simp add: and_then_def [of "observe m" for m] observe_def zone unmatched_vhost [OF assms(6)] Let_def)
  obtain config t0 where t0: "NewCluster L K (hc_name (hc_obj s)) [] (hc_namespace (hc_obj s)) (use_cert_manager L) True False s
      = (Inr config, t0)"
    using assms(1) by (rule succeedsE)
  define t1 where "t1 = t0\<lparr>server := snd (k_humio_nodes K (server t0))\<rparr>"
  obtain t2 where t2: "getZoneForPodRemoval K visit [pd] t1 = (Inr (map_get (node_labels nd) zone_label), t2)"
    using removal by blast
  have "markPodForEviction L K visit [pd] name s =
      mark_first K (matchPodsToHosts L [pd] nodes) (map_get (node_labels nd) zone_label) name [pd] t2"
    using t2 assms(1,2)
    by (simp add: markPodForEviction_def and_then_def get_hc_def log_error_def on_error_def t0 query_def [of "k_humio_nodes K"]
        t1_def)
  then show ?thesis using evict by simp
qed

lemma unmatched_pod_evicts_node_zero_witness:
  "let nodes = [(''n1'', \<lparr>node_labels = [zone_label \<mapsto> ''z1''], node_unschedulable = False\<rparr>)]
   in SetEvicted 0 True \<in> set (calls (snd (markPodForEviction plain_lib
        (mem_kube\<lparr>k_get_node := \<lambda>n w. (Inr (snd (hd nodes)), w)\<rparr>
                 \<lparr>k_get_object := \<lambda>k n ns w. (Inr zero_object, w)\<rparr>
                 \<lparr>k_humio_nodes := \<lambda>w. (Inr [\<lparr>cn_id = 7, cn_uri = ''other.svc'', cn_is_available = True\<rparr>], w)\<rparr>)
        rev [sample_pod ''a''] ''c'' (mem_state empty_world))))"
  unfolding Let_def
proof (rule unmatched_pod_evicts_node_zero, goal_cases client nodes node name visit unmatched)
  case client
  show ?case by (intro NewCluster_succeeds) (simp_all add: mem_kube_def mem_state_def empty_world_def empty_cluster_def)
qed (auto simp: mem_kube_def GetPodNameFromNodeUri_def plain_lib_def)

end
