(* ===== verification/Cluster_Resources.thy ===== *)
theory Cluster_Resources
  imports Downscaling
begin

text \<open>
  The objects of a cluster beside its pods, claims and certificates: the config maps, ingresses,
  services, service accounts and roles that internal/controller/humiocluster_controller.go ensures.
  \<open>SetControllerReference\<close>, logs and metrics are left out.
\<close>

section \<open>Reading, creating, updating\<close>

definition get_object :: "'w kube \<Rightarrow> object_kind \<Rightarrow> string \<Rightarrow> string \<Rightarrow> ('w st, go_error, k8s_object) step" where
  "get_object K kind name namespace = query (k_get_object K kind name namespace)"

definition create_object :: "'w kube \<Rightarrow> object_kind \<Rightarrow> k8s_object \<Rightarrow> ('w st, go_error, unit) step" where
  "create_object K kind ob = act (CreateObject kind ob) (k_create_object K kind ob)"

definition update_object :: "'w kube \<Rightarrow> object_kind \<Rightarrow> k8s_object \<Rightarrow> ('w st, go_error, unit) step" where
  "update_object K kind ob = act (UpdateObject kind ob) (k_update_object K kind ob)"

definition delete_object :: "'w kube \<Rightarrow> object_kind \<Rightarrow> k8s_object \<Rightarrow> ('w st, go_error, unit) step" where
  "delete_object K kind ob = act (DeleteObject kind ob) (k_delete_object K kind ob)"

text \<open>\<open>existing, err := Get(...)\<close> whose error is tested later: a failed read leaves the zero object.\<close>

definition object_read :: "go_error + k8s_object \<Rightarrow> k8s_object" where
  "object_read r = (case r of Inr ob \<Rightarrow> ob | Inl _ \<Rightarrow> zero_object)"

definition read_not_found :: "go_error + k8s_object \<Rightarrow> bool" where
  "read_not_found r = (case r of Inl err \<Rightarrow> is_not_found err | Inr _ \<Rightarrow> False)"

section \<open>Config maps\<close>

text \<open>
  The three functions differ in their messages, and in whether the message is logged; the error
  returned is the same.
\<close>

definition ensure_config_map :: "'w kube \<Rightarrow> string \<Rightarrow> k8s_object \<Rightarrow> ('w st, go_error, unit) step" where
  "ensure_config_map K what desiredConfigMap =
     and_then (observe (get_object K ConfigMapKind (ko_name desiredConfigMap) (ko_namespace desiredConfigMap))) (\<lambda>r.
     case r of
       Inl err \<Rightarrow>
         if is_not_found err
         then log_error (''unable to create '' @ what @ '' configmap'')
                (create_object K ConfigMapKind desiredConfigMap)
         else exit_with (Wrap (''unable to fetch '' @ what @ '' configmap'') (Some err))
     | Inr existingConfigMap \<Rightarrow>
         if ko_data existingConfigMap \<noteq> ko_data desiredConfigMap
         then log_error (''unable to update '' @ what @ '' configmap'')
                (update_object K ConfigMapKind (existingConfigMap\<lparr>ko_data := ko_data desiredConfigMap\<rparr>))
         else ret ())"

definition ensureExtraKafkaConfigsConfigMap ::
  "lib \<Rightarrow> 'w kube \<Rightarrow> node_pool \<Rightarrow> ('w st, go_error, node_pool) step" where
  "ensureExtraKafkaConfigsConfigMap L K hnp =
     (let (use, hnp) = ShouldUseExtraKafkaConfigsFile L hnp in
      if \<not> use then ret hnp
      else
        and_then (ensure_config_map K ''extra kafka configs''
          (ConstructExtraKafkaConfigsConfigMap (GetExtraKafkaConfigsConfigMapName hnp) ExtraKafkaPropertiesFilename
             (GetExtraKafkaConfigs hnp) (GetClusterName hnp) (GetNamespace hnp))) (\<lambda>_.
        ret hnp))"

definition ensureViewGroupPermissionsConfigMap :: "'w kube \<Rightarrow> node_pool \<Rightarrow> ('w st, go_error, unit) step" where
  "ensureViewGroupPermissionsConfigMap K hnp =
     (let viewGroupPermissionsConfigMapData = GetViewGroupPermissions hnp in
      if viewGroupPermissionsConfigMapData = [] then ret ()
      else
        and_then get_hc (\<lambda>hc.
        ensure_config_map K ''view group permissions''
          (ConstructViewGroupPermissionsConfigMap (GetViewGroupPermissionsConfigMapName hnp)
             ViewGroupPermissionsFilename viewGroupPermissionsConfigMapData (hc_name hc) (hc_namespace hc))))"

definition ensureRolePermissionsConfigMap :: "'w kube \<Rightarrow> node_pool \<Rightarrow> ('w st, go_error, unit) step" where
  "ensureRolePermissionsConfigMap K hnp =
     (let rolePermissionsConfigMapData = GetRolePermissions hnp in
      if rolePermissionsConfigMapData = [] then ret ()
      else
        and_then get_hc (\<lambda>hc.
        ensure_config_map K ''role permissions''
          (ConstructRolePermissionsConfigMap (GetRolePermissionsConfigMapName hnp)
             RolePermissionsFilename rolePermissionsConfigMapData (hc_name hc) (hc_namespace hc))))"

text \<open>
  \<open>humioVersion.SemVer().String()\<close>, an argument of the log line, dereferences a nil version when the
  image has none. Nothing else of the function is more than a log line.
\<close>

definition logExtraKafkaConfigsDeprecationInfo ::
  "lib \<Rightarrow> node_pool \<Rightarrow> ('w st, go_error, node_pool) step" where
  "logExtraKafkaConfigsDeprecationInfo L hnp =
     (if GetExtraKafkaConfigs hnp = [] then ret hnp
      else
        let (img, hnp) = GetImage L hnp;
            humioVersion = HumioVersionFromString L img
        in if hv_at_least_ok L humioVersion HumioVersionExtraKafkaConfigsRemoved
              \<or> hv_at_least_ok L humioVersion HumioVersionExtraKafkaConfigsDeprecated
           then (case hv_semver humioVersion of
                   None \<Rightarrow> exit_with (Panic ''nil pointer dereference'')
                 | Some v \<Rightarrow> ret hnp)
           else ret hnp)"

definition setImageFromSource :: "'w kube \<Rightarrow> node_pool \<Rightarrow> ('w st, go_error, node_pool) step" where
  "setImageFromSource K hnp =
     (case ns_image_source (np_spec hnp) of
        None \<Rightarrow> ret hnp
      | Some ref \<Rightarrow>
          and_then (log_error ''failed to set imageFromSource''
                     (get_object K ConfigMapKind (sks_name ref) (GetNamespace hnp))) (\<lambda>configMap.
          case ko_data configMap (sks_key ref) of
            Some imageValue \<Rightarrow> ret (SetImage imageValue hnp)
          | None \<Rightarrow> exit_with (Wrap (''imageSource was set but key '' @ sks_key ref @ '' was not found for configmap ''
                      @ sks_name ref @ '' in namespace '' @ GetNamespace hnp) None)))"

section \<open>Ingresses\<close>

definition ensureNoIngressesIfIngressNotEnabled :: "'w kube \<Rightarrow> ('w st, go_error, unit) step" where
  "ensureNoIngressesIfIngressNotEnabled K =
     and_then get_hc (\<lambda>hc.
     if ing_enabled (hcs_ingress (hc_spec hc)) then ret ()
     else
       and_then (log_error ''could not list ingress''
                  (query (k_list_objects K IngressKind (hc_namespace hc) (LabelsForHumio (hc_name hc))))) (\<lambda>found.
       for_each (\<lambda>ingress.
         if ko_deletion_timestamp ingress = None
         then log_error ''could not delete ingress'' (delete_object K IngressKind ingress)
         else ret ()) found))"

text \<open>The host name of the specification, or the one its secret holds.\<close>

definition hostname_of ::
  "'w kube \<Rightarrow> string \<Rightarrow> string \<Rightarrow> string \<Rightarrow> secret_key_selector option \<Rightarrow> ('w st, go_error, string) step" where
  "hostname_of K field namespace hostname source =
     (case source of
        None \<Rightarrow> ret hostname
      | Some ref \<Rightarrow>
          if hostname \<noteq> []
          then exit_with (Msg (''conflicting fields: both '' @ field @ '' and '' @ field @ ''Source.secretKeyRef are defined''))
          else
            and_then (on_error (get_object K SecretKind (sks_name ref) namespace) (\<lambda>err.
              if is_not_found err
              then exit_with (Msg (field @ ''Source.secretKeyRef was set but no secret exists by name ''
                     @ sks_name ref @ '' in namespace '' @ namespace))
              else exit_with (Msg (''unable to get secret with name '' @ sks_name ref @ '' in namespace '' @ namespace)))) (\<lambda>sec.
            case ko_data sec (sks_key ref) of
              None \<Rightarrow> exit_with (Msg (field @ ''Source.secretKeyRef was found but it does not contain the key '' @ sks_key ref))
            | Some h \<Rightarrow> ret h))"

definition getHumioHostnames :: "'w kube \<Rightarrow> ('w st, go_error, string \<times> string) step" where
  "getHumioHostnames K =
     and_then get_hc (\<lambda>hc.
     and_then (hostname_of K ''hostname'' (hc_namespace hc) (hcs_hostname (hc_spec hc)) (hcs_hostname_source (hc_spec hc))) (\<lambda>hostname.
     and_then (hostname_of K ''esHostname'' (hc_namespace hc) (hcs_es_hostname (hc_spec hc)) (hcs_es_hostname_source (hc_spec hc))) (\<lambda>esHostname.
     if hostname = [] \<and> esHostname = []
     then exit_with (Msg ''one of the following must be set to enable ingress: hostname, esHostname, hostnameSource, esHostnameSource'')
     else ret (hostname, esHostname))))"

definition ensure_one_ingress :: "'w kube \<Rightarrow> string \<Rightarrow> k8s_object \<Rightarrow> ('w st, go_error, unit) step" where
  "ensure_one_ingress K namespace desiredIngress =
     (let createIngress = list_ex (\<lambda>rule. ir_host rule \<noteq> []) (ko_rules desiredIngress) in
      and_then (observe (get_object K IngressKind (ko_name desiredIngress) namespace)) (\<lambda>r.
      let existingIngress = object_read r in
      if read_not_found r
      then if createIngress
           then log_error ''unable to create ingress'' (create_object K IngressKind desiredIngress)
           else ret ()
      else if \<not> createIngress
      then log_error ''unable to delete ingress object'' (delete_object K IngressKind existingIngress)
      else
        case ingressesMatch existingIngress desiredIngress of
          Inl err \<Rightarrow> exit_with err
        | Inr (matches, existingIngress) \<Rightarrow>
            if matches then ret ()
            else log_error ''could not update ingress'' (update_object K IngressKind
                   (existingIngress\<lparr>ko_annotations := ko_annotations desiredIngress,
                      ko_labels := ko_labels desiredIngress, ko_rules := ko_rules desiredIngress,
                      ko_tls := ko_tls desiredIngress, ko_spec := ko_spec desiredIngress\<rparr>))))"

definition ensureNginxIngress :: "lib \<Rightarrow> 'w kube \<Rightarrow> ('w st, go_error, unit) step" where
  "ensureNginxIngress L K =
     and_then (log_error ''could not get hostnames for ingress resources'' (getHumioHostnames K)) (\<lambda>(hostname, esHostname).
     and_then get_hc (\<lambda>hc.
     for_each (ensure_one_ingress K (hc_namespace hc))
       [ConstructGeneralIngress L hc hostname, ConstructStreamingQueryIngress L hc hostname,
        ConstructIngestIngress L hc hostname, ConstructESIngestIngress L hc esHostname]))"

definition ensureIngress :: "lib \<Rightarrow> 'w kube \<Rightarrow> ('w st, go_error, unit) step" where
  "ensureIngress L K =
     and_then get_hc (\<lambda>hc.
     let ing = hcs_ingress (hc_spec hc) in
     if \<not> ing_enabled ing then ret ()
     else if hcs_node_pools (hc_spec hc) \<noteq> []
     then exit_with (Msg ''ingress only supported if pods belong to HumioCluster.Spec.NodeCount'')
     else if ing_controller ing = []
     then exit_with (Wrap ''could not ensure ingress'' (Some (Msg ''ingress enabled but no controller specified'')))
     else if ing_controller ing = ''nginx''
     then log_error ''could not ensure nginx ingress'' (ensureNginxIngress L K)
     else exit_with (Wrap ''could not ensure ingress''
            (Some (Msg (''ingress controller '' @ CHR 0x27 # ing_controller ing @ CHR 0x27 # '' not supported'')))))"

section \<open>Services\<close>

text \<open>Only \<open>NotFound\<close> is looked at: any other error goes on with the zero service.\<close>

definition ensure_service :: "'w kube \<Rightarrow> string \<Rightarrow> k8s_object \<Rightarrow> ('w st, go_error, unit) step" where
  "ensure_service K createMsg service =
     and_then (observe (get_object K ServiceKind (ko_name service) (ko_namespace service))) (\<lambda>r.
     let existingService = object_read r in
     if read_not_found r then log_error createMsg (create_object K ServiceKind service)
     else if \<not> servicesMatch existingService service
     then log_error (''could not update service '' @ ko_name service)
            (update_object K ServiceKind (updateService existingService service))
     else ret ())"

definition ensureService :: "'w kube \<Rightarrow> node_pool \<Rightarrow> ('w st, go_error, unit) step" where
  "ensureService K hnp = ensure_service K ''unable to create service for HumioCluster'' (ConstructService hnp)"

definition ensureHeadlessServiceExists :: "'w kube \<Rightarrow> ('w st, go_error, unit) step" where
  "ensureHeadlessServiceExists K =
     and_then get_hc (\<lambda>hc.
     ensure_service K ''unable to create headless service for HumioCluster'' (constructHeadlessService hc))"

definition ensureInternalServiceExists :: "'w kube \<Rightarrow> ('w st, go_error, unit) step" where
  "ensureInternalServiceExists K =
     and_then get_hc (\<lambda>hc.
     ensure_service K ''unable to create internal service for HumioCluster'' (constructInternalService hc))"

definition cleanupUnusedService :: "'w kube \<Rightarrow> node_pool \<Rightarrow> ('w st, go_error, unit) step" where
  "cleanupUnusedService K hnp =
     and_then (observe (get_object K ServiceKind (GetServiceName hnp) (GetNamespace hnp))) (\<lambda>r.
     case r of
       Inl err \<Rightarrow> if is_not_found err then ret ()
                  else exit_with (Wrap ''could not get node pool service'' (Some err))
     | Inr existingService \<Rightarrow>
         log_error ''unable to delete node pool service'' (delete_object K ServiceKind existingService))"

section \<open>What the steps write\<close>

lemma object_calls [trace_intros]:
  "adds_only P (get_object K k n ns)"
  "P (CreateObject k ob) \<Longrightarrow> adds_only P (create_object K k ob)"
  "P (UpdateObject k ob) \<Longrightarrow> adds_only P (update_object K k ob)"
  "P (DeleteObject k ob) \<Longrightarrow> adds_only P (delete_object K k ob)"
  unfolding get_object_def create_object_def update_object_def delete_object_def
  by (intro trace_intros; assumption)+

section \<open>Objects settle\<close>

text \<open>
  What is assumed of the API server when nobody else writes: a read changes nothing and answers with the
  object of that name, and what was written is read back, but for the fields the server fills in.
\<close>

definition kept :: "k8s_object \<Rightarrow> k8s_object \<Rightarrow> bool" where
  "kept ob ob' \<longleftrightarrow> ko_labels ob' = ko_labels ob \<and> ko_annotations ob' = ko_annotations ob
     \<and> ko_data ob' = ko_data ob \<and> ko_selector ob' = ko_selector ob
     \<and> ko_publish_not_ready ob' = ko_publish_not_ready ob"

definition stores :: "'w kube \<Rightarrow> object_kind \<Rightarrow> k8s_object \<Rightarrow> 'w \<Rightarrow> bool" where
  "stores K kind ob w \<longleftrightarrow>
     (\<exists>ob'. fst (k_get_object K kind (ko_name ob) (ko_namespace ob) w) = Inr ob' \<and> kept ob ob')"

definition honest_store :: "'w kube \<Rightarrow> bool" where
  "honest_store K \<longleftrightarrow>
     (\<forall>k n ns w. snd (k_get_object K k n ns w) = w) \<and>
     (\<forall>k n ns w ob. fst (k_get_object K k n ns w) = Inr ob \<longrightarrow> ko_name ob = n \<and> ko_namespace ob = ns) \<and>
     (\<forall>k ob w. fst (k_create_object K k ob w) = Inr () \<longrightarrow> stores K k ob (snd (k_create_object K k ob w))) \<and>
     (\<forall>k ob w. fst (k_update_object K k ob w) = Inr () \<longrightarrow> stores K k ob (snd (k_update_object K k ob w)))"

lemma honest_read:
  assumes "honest_store K"
  shows "get_object K k n ns s = (fst (k_get_object K k n ns (server s)), s)"
  using assms by (simp add: honest_store_def get_object_def query_def)

lemma honest_name: "honest_store K \<Longrightarrow> fst (k_get_object K k n ns w) = Inr ob \<Longrightarrow> ko_name ob = n \<and> ko_namespace ob = ns"
  by (simp add: honest_store_def)

lemma honest_create: "honest_store K \<Longrightarrow> create_object K k ob s = (Inr (), s') \<Longrightarrow> stores K k ob (server s')"
  by (auto simp: honest_store_def create_object_def act_def)

lemma honest_update: "honest_store K \<Longrightarrow> update_object K k ob s = (Inr (), s') \<Longrightarrow> stores K k ob (server s')"
  by (auto simp: honest_store_def update_object_def act_def)

text \<open>
  A kind of object with a test for a difference and a way to take over the desired values. Its laws make
  a write final: what was written passes the test.
\<close>

locale ensured_object =
  fixes matches :: "k8s_object \<Rightarrow> k8s_object \<Rightarrow> bool"
    and adopt :: "k8s_object \<Rightarrow> k8s_object \<Rightarrow> k8s_object"
  assumes adopted: "matches (adopt e d) d"
    and desired: "matches d d"
    and same_object: "ko_name (adopt e d) = ko_name e" "ko_namespace (adopt e d) = ko_namespace e"
    and kept_matches: "kept e e' \<Longrightarrow> matches e d \<Longrightarrow> matches e' d"
begin

definition settled :: "'w kube \<Rightarrow> object_kind \<Rightarrow> k8s_object \<Rightarrow> 'w \<Rightarrow> bool" where
  "settled K kind d w \<longleftrightarrow>
     (\<exists>ob. fst (k_get_object K kind (ko_name d) (ko_namespace d) w) = Inr ob \<and> matches ob d)"

lemma created_settled:
  "honest_store K \<Longrightarrow> create_object K kind d s = (Inr (), s') \<Longrightarrow> settled K kind d (server s')"
  using honest_create kept_matches desired by (fastforce simp: settled_def stores_def)

lemma adopted_settled:
  assumes "honest_store K" and "update_object K kind (adopt e d) s = (Inr (), s')"
    and "ko_name e = ko_name d" and "ko_namespace e = ko_namespace d"
  shows "settled K kind d (server s')"
  using honest_update [OF assms(1,2)] kept_matches adopted [of e d] assms(3,4)
  by (fastforce simp: settled_def stores_def same_object)

end

interpretation services: ensured_object servicesMatch updateService
  by unfold_locales (auto simp: servicesMatch_def updateService_def kept_def split: if_splits)

interpretation config_maps: ensured_object "\<lambda>e d. ko_data e = ko_data d" "\<lambda>e d. e\<lparr>ko_data := ko_data d\<rparr>"
  by unfold_locales (auto simp: kept_def)

lemma log_error_Inr: "log_error msg m s = (Inr a, s') \<longleftrightarrow> m s = (Inr a, s')"
  by (auto simp: log_error_def on_error_Inr exit_with_def)

text \<open>
  Claim C17. A service settles: on a server that stores what it accepts and that nobody else writes to,
  once \<open>ensure_service\<close> has returned without an error the next run writes nothing and changes nothing,
  provided the first read gave the service or said it does not exist.
\<close>

theorem services_settle:
  assumes "honest_store K" and "ensure_service K msg service s = (Inr (), s')"
    and "\<And>err. fst (k_get_object K ServiceKind (ko_name service) (ko_namespace service) (server s)) = Inl err
           \<Longrightarrow> is_not_found err"
  shows "ensure_service K msg' service s' = (Inr (), s')"
proof -
  let ?r = "fst (k_get_object K ServiceKind (ko_name service) (ko_namespace service) (server s))"
  note run = assms(2) [unfolded ensure_service_def, simplified and_then_def observe_def honest_read [OF assms(1)], simplified]
  have "services.settled K ServiceKind service (server s')"
  proof (cases ?r)
    case (Inl err)
    then have "create_object K ServiceKind service s = (Inr (), s')"
      using run assms(3) by (simp add: read_not_found_def Let_def log_error_Inr)
    then show ?thesis by (rule services.created_settled [OF assms(1)])
  next
    case (Inr ob)
    show ?thesis
    proof (cases "servicesMatch ob service")
      case True
      then have "s' = s" using run Inr by (simp add: read_not_found_def object_read_def Let_def ret_def)
      with True Inr show ?thesis by (simp add: services.settled_def)
    next
      case False
      then have "update_object K ServiceKind (updateService ob service) s = (Inr (), s')"
        using run Inr by (simp add: read_not_found_def object_read_def Let_def log_error_Inr)
      then show ?thesis
        by (rule services.adopted_settled [OF assms(1)]) (simp_all add: honest_name [OF assms(1) Inr])
    qed
  qed
  then show ?thesis
    by (auto simp: services.settled_def ensure_service_def and_then_def observe_def honest_read [OF assms(1)]
        read_not_found_def object_read_def Let_def ret_def)
qed

lemma honest_mem_kube: "honest_store mem_kube"
proof -
  have found: "find P (map (\<lambda>e. if P e then x else e) es) = (if find P es = None then None else Some x)" if "P x"
    for P x and es :: "(object_kind \<times> k8s_object) list"
    using that by (induction es) auto
  have append: "find P (es @ [x]) = (case find P es of None \<Rightarrow> if P x then Some x else None | Some y \<Rightarrow> Some y)"
    for P x and es :: "(object_kind \<times> k8s_object) list"
    by (induction es) auto
  have self: "is_object k (ko_name ob) (ko_namespace ob) (k, ob)" for k ob by (simp add: is_object_def)
  show ?thesis
    unfolding honest_store_def
  proof (intro conjI allI impI)
    fix k n ns w ob
    assume "fst (k_get_object mem_kube k n ns w) = Inr ob"
    then show "ko_name ob = n" "ko_namespace ob = ns"
      by (auto simp: mem_kube_def is_object_def split: option.splits dest!: find_Some_first)
  next
    fix k ob w
    assume "fst (k_create_object mem_kube k ob w) = Inr ()"
    then show "stores mem_kube k ob (snd (k_create_object mem_kube k ob w))"
      by (auto simp: mem_kube_def stores_def kept_def append is_object_def split: if_splits)
  next
    fix k ob w
    assume "fst (k_update_object mem_kube k ob w) = Inr ()"
    then show "stores mem_kube k ob (snd (k_update_object mem_kube k ob w))"
      by (auto simp: mem_kube_def stores_def kept_def found self split: if_splits)
  qed (simp add: mem_kube_def)
qed

lemma services_settle_witness:
  "let s = mem_state empty_world; (r, s') = ensure_service mem_kube ''m'' (ConstructService empty_pool) s
   in r = Inr () \<and> ensure_service mem_kube ''m'' (ConstructService empty_pool) s' = (Inr (), s')"
proof -
  let ?s = "mem_state empty_world"
  obtain r s' where run: "ensure_service mem_kube ''m'' (ConstructService empty_pool) ?s = (r, s')" by fastforce
  have missing: "fst (k_get_object mem_kube ServiceKind n ns (server ?s)) = Inl (NotFound n)" for n ns
    by (simp add: mem_kube_def mem_state_def empty_world_def)
  then have "r = Inr ()"
    using run by (auto simp: ensure_service_def and_then_def observe_def get_object_def query_def read_not_found_def Let_def
        log_error_def on_error_def create_object_def act_def mem_kube_def mem_state_def empty_world_def)
  moreover have "ensure_service mem_kube ''m'' (ConstructService empty_pool) s' = (Inr (), s')"
    by (rule services_settle [OF honest_mem_kube run [unfolded \<open>r = Inr ()\<close>]]) (simp add: missing)
  ultimately show ?thesis using run by (simp add: Let_def)
qed

lemma labels_seen: "dom m \<noteq> {} \<Longrightarrow> MapToSortedString m \<noteq> MapToSortedString Map.empty"
proof -
  assume m: "dom m \<noteq> {}"
  have eq: "CHR ''='' \<in> set (join_with sep xs)" if "xs \<noteq> []" "\<forall>x\<in>set xs. CHR ''='' \<in> set x" for sep and xs :: "string list"
    using that by (induction xs rule: list_nonempty_induct) (auto simp: neq_Nil_conv)
  show ?thesis
  proof (cases "entries m = []")
    case True
    then show ?thesis using m by (simp add: MapToSortedString_def entries_def)
  next
    case False
    have "\<forall>x\<in>set (entries m). CHR ''='' \<in> set x" by (auto simp: entries_def)
    then have "CHR ''='' \<in> set (MapToSortedString m)" using eq [OF False] m by (simp add: MapToSortedString_def entries_def)
    then show ?thesis by (auto simp: MapToSortedString_def)
  qed
qed

text \<open>
  A read that fails is taken for an empty service: when the API server answers the read with an
  error other than \<open>NotFound\<close>, the operator sends an update of an object without a name.
\<close>

lemma failed_read_updates_nameless_service:
  assumes "fst (k_get_object K ServiceKind (GetNodePoolName hnp) (GetNamespace hnp) (server s)) = Inl err"
    and "\<not> is_not_found err"
  shows "\<exists>ob. calls (snd (ensureService K hnp s)) = calls s @ [UpdateObject ServiceKind ob] \<and> ko_name ob = []"
proof -
  have "dom (ko_labels (ConstructService hnp)) \<noteq> {}"
    by (auto simp: ConstructService_def mergeHumioServiceLabels_def LabelsForHumio_def)
  then have "\<not> servicesMatch zero_object (ConstructService hnp)"
    using labels_seen [of "ko_labels (ConstructService hnp)"] by (auto simp: servicesMatch_def zero_object_def)
  then show ?thesis
    using assms
    by (auto simp: ensureService_def ensure_service_def and_then_def observe_def get_object_def query_def
        ConstructService_def object_read_def read_not_found_def Let_def log_error_def on_error_def
        update_object_def act_def updateService_def zero_object_def exit_with_def split: sum.split)
qed

lemma failed_read_updates_nameless_service_witness:
  "let K = mem_kube\<lparr>k_get_object := \<lambda>k n ns w. (Inl (ApiError ''timeout''), w)\<rparr>
   in \<exists>ob. calls (snd (ensureService K empty_pool (mem_state empty_world))) = [UpdateObject ServiceKind ob] \<and> ko_name ob = []"
  using failed_read_updates_nameless_service [of "mem_kube\<lparr>k_get_object := \<lambda>k n ns w. (Inl (ApiError ''timeout''), w)\<rparr>"
      empty_pool "mem_state empty_world" "ApiError ''timeout''"]
  by (simp add: Let_def mem_state_def)

end
