(* ===== verification/Cluster_Access.thy ===== *)
theory Cluster_Access
  imports Cluster_Resources
begin

text \<open>
  Service accounts, their secrets and the roles of the init container, the labels of objects older than
  node pools, and the annotations of the service account of a pool:
  internal/controller/humiocluster_controller.go and humiocluster_secrets.go.
\<close>

section \<open>Service accounts\<close>

definition serviceAccountExists :: "'w kube \<Rightarrow> string \<Rightarrow> string \<Rightarrow> ('w st, go_error, bool) step" where
  "serviceAccountExists K namespace serviceAccountName =
     and_then (observe (get_object K ServiceAccountKind serviceAccountName namespace)) (\<lambda>r.
     case r of
       Inl err \<Rightarrow> if is_not_found err then ret False else exit_with err
     | Inr _ \<Rightarrow> ret True)"

definition quoted :: "string \<Rightarrow> string" where
  "quoted s = CHR 0x22 # s @ [CHR 0x22]"

definition ensureServiceAccountExists ::
  "'w kube \<Rightarrow> node_pool \<Rightarrow> string \<Rightarrow> smap \<Rightarrow> ('w st, go_error, unit) step" where
  "ensureServiceAccountExists K hnp serviceAccountName annotations =
     and_then (log_error (''could not check existence of service account '' @ quoted serviceAccountName)
                (serviceAccountExists K (GetNamespace hnp) serviceAccountName)) (\<lambda>exists.
     if exists then ret ()
     else log_error (''unable to create service account '' @ serviceAccountName)
            (create_object K ServiceAccountKind
               (ConstructServiceAccount serviceAccountName (GetNamespace hnp) annotations (GetNodePoolLabels hnp))))"

definition waitForSecretTimeoutSeconds :: nat where "waitForSecretTimeoutSeconds = 30"

fun wait_new_secret :: "'w kube \<Rightarrow> node_pool \<Rightarrow> nat \<Rightarrow> string \<Rightarrow> nat \<Rightarrow> ('w st, go_error, unit) step" where
  "wait_new_secret K hnp expectedSecretCount expectedSecretName 0 =
     exit_with (Msg ''timed out waiting to validate new secret was created'')"
| "wait_new_secret K hnp expectedSecretCount expectedSecretName (Suc i) =
     and_then (log_error ''unable to list secrets''
                (query (k_list_objects K SecretKind (GetNamespace hnp) (GetLabelsForSecret hnp expectedSecretName)))) (\<lambda>found.
     if length found \<ge> expectedSecretCount then ret ()
     else and_then (pick (\<lambda>w. ((), k_sleep K second w))) (\<lambda>_.
          wait_new_secret K hnp expectedSecretCount expectedSecretName i))"

definition waitForNewSecret ::
  "'w kube \<Rightarrow> node_pool \<Rightarrow> k8s_object list \<Rightarrow> string \<Rightarrow> ('w st, go_error, unit) step" where
  "waitForNewSecret K hnp previousSecretList expectedSecretName =
     wait_new_secret K hnp (length previousSecretList + 1) expectedSecretName waitForSecretTimeoutSeconds"

definition ensureServiceAccountSecretExists ::
  "'w kube \<Rightarrow> node_pool \<Rightarrow> string \<Rightarrow> string \<Rightarrow> ('w st, go_error, unit) step" where
  "ensureServiceAccountSecretExists K hnp secretName serviceAccountName =
     and_then (log_error (''could not check existence of service account '' @ quoted serviceAccountName)
                (serviceAccountExists K (GetNamespace hnp) serviceAccountName)) (\<lambda>exists.
     if \<not> exists
     then exit_with (Wrap (''service account '' @ quoted serviceAccountName
            @ '' must exist before the service account secret can be created'') None)
     else
       and_then (log_error ''unable to list secrets''
                  (query (k_list_objects K SecretKind (GetNamespace hnp) (GetLabelsForSecret hnp secretName)))) (\<lambda>found.
       if found \<noteq> [] then ret ()
       else
         and_then (pick (k_random_string K)) (\<lambda>random.
         let sec = ConstructServiceAccountSecret (GetClusterName hnp) (GetNamespace hnp) secretName serviceAccountName random in
         and_then (log_error (''unable to create service account secret '' @ ko_name sec)
                    (create_object K SecretKind sec)) (\<lambda>_.
         log_error ''failed to validate new secret'' (waitForNewSecret K hnp found secretName)))))"

text \<open>
  \<open>validateUserDefinedServiceAccountsExists\<close>: \<open>HumioServiceAccountName\<close> and \<open>InitServiceAccountName\<close>
  of the cluster, where they are set.
\<close>

definition validate_account :: "'w kube \<Rightarrow> string \<Rightarrow> string \<Rightarrow> ('w st, go_error, unit) step" where
  "validate_account K name namespace =
     (if name = [] then ret ()
      else
        and_then (on_error (get_object K ServiceAccountKind name namespace) (\<lambda>err.
          if is_not_found err then exit_with (Wrap ''not all referenced service accounts exists'' (Some err))
          else exit_with (Wrap ''could not get service accounts'' (Some err)))) (\<lambda>_.
        ret ()))"

definition validateUserDefinedServiceAccountsExists :: "'w kube \<Rightarrow> ('w st, go_error, unit) step" where
  "validateUserDefinedServiceAccountsExists K =
     and_then get_hc (\<lambda>hc.
     and_then (validate_account K (ns_humio_service_account_name (hcs_node (hc_spec hc))) (hc_namespace hc)) (\<lambda>_.
     validate_account K (ns_init_service_account_name (hcs_node (hc_spec hc))) (hc_namespace hc)))"

section \<open>Permissions\<close>

definition InitContainerDisabled :: "node_pool \<Rightarrow> bool" where
  "InitContainerDisabled hnp \<longleftrightarrow> ns_disable_init_container (np_spec hnp)"

definition ensureHumioPodPermissions :: "'w kube \<Rightarrow> node_pool \<Rightarrow> ('w st, go_error, unit) step" where
  "ensureHumioPodPermissions K hnp =
     (if HumioServiceAccountIsSetByUser hnp then ret ()
      else log_error ''unable to ensure humio service account exists''
             (ensureServiceAccountExists K hnp (GetHumioServiceAccountName hnp) (GetHumioServiceAccountAnnotations hnp)))"

text \<open>The roles: an error of the read that is not \<open>NotFound\<close> is dropped.\<close>

definition ensure_role :: "'w kube \<Rightarrow> object_kind \<Rightarrow> string \<Rightarrow> k8s_object \<Rightarrow> ('w st, go_error, unit) step" where
  "ensure_role K kind createMsg role =
     and_then (observe (get_object K kind (ko_name role) [])) (\<lambda>r.
     if read_not_found r then log_error createMsg (create_object K kind role) else ret ())"

definition ensureInitClusterRole :: "'w kube \<Rightarrow> node_pool \<Rightarrow> ('w st, go_error, unit) step" where
  "ensureInitClusterRole K hnp =
     ensure_role K ClusterRoleKind ''unable to create init cluster role''
       (ConstructInitClusterRole (GetInitClusterRoleName hnp) (GetNodePoolLabels hnp))"

definition ensureInitClusterRoleBinding :: "'w kube \<Rightarrow> node_pool \<Rightarrow> ('w st, go_error, unit) step" where
  "ensureInitClusterRoleBinding K hnp =
     ensure_role K ClusterRoleBindingKind ''unable to create init cluster role binding''
       (ConstructClusterRoleBinding (GetInitClusterRoleBindingName hnp) (GetInitClusterRoleName hnp)
          (GetNamespace hnp) (GetInitServiceAccountName hnp) (GetNodePoolLabels hnp))"

definition ensureInitContainerPermissions :: "'w kube \<Rightarrow> node_pool \<Rightarrow> ('w st, go_error, unit) step" where
  "ensureInitContainerPermissions K hnp =
     (let secretExists = log_error ''unable to ensure init service account secret exists for HumioCluster''
            (ensureServiceAccountSecretExists K hnp (GetInitServiceAccountSecretName hnp) (GetInitServiceAccountName hnp))
      in if InitContainerDisabled hnp then ret ()
         else if InitServiceAccountIsSetByUser hnp then secretExists
         else
           and_then (log_error ''unable to ensure init service account exists''
                      (ensureServiceAccountExists K hnp (GetInitServiceAccountName hnp) Map.empty)) (\<lambda>_.
           and_then secretExists (\<lambda>_.
           and_then (log_error ''unable to ensure init cluster role exists'' (ensureInitClusterRole K hnp)) (\<lambda>_.
           log_error ''unable to ensure init cluster role binding exists'' (ensureInitClusterRoleBinding K hnp)))))"

text \<open>The answer says whether the pods have to be restarted.\<close>

definition ensureHumioServiceAccountAnnotations :: "'w kube \<Rightarrow> node_pool \<Rightarrow> ('w st, go_error, bool) step" where
  "ensureHumioServiceAccountAnnotations K hnp =
     (if HumioServiceAccountIsSetByUser hnp then ret False
      else
        let serviceAccountName = GetHumioServiceAccountName hnp;
            annotations = GetHumioServiceAccountAnnotations hnp
        in and_then (observe (get_object K ServiceAccountKind serviceAccountName (GetNamespace hnp))) (\<lambda>r.
           case r of
             Inl err \<Rightarrow> if is_not_found err then ret False
                        else exit_with (Wrap (''failed to get service account '' @ serviceAccountName) (Some err))
           | Inr existing \<Rightarrow>
               let serviceAccount = ConstructServiceAccount serviceAccountName (GetNamespace hnp) annotations (GetNodePoolLabels hnp)
               in if MapToSortedString annotations \<noteq> MapToSortedString (ko_annotations existing)
                  then and_then (log_error (''could not update service account '' @ ko_name existing)
                         (update_object K ServiceAccountKind (existing\<lparr>ko_annotations := ko_annotations serviceAccount\<rparr>))) (\<lambda>_.
                       ret True)
                  else ret False))"

section \<open>Labels of objects older than node pools\<close>

text \<open>
  The table of resources of \<open>ensureNodePoolSpecificResourcesHaveLabelWithNodePoolName\<close>, one entry after
  the other. Pods, claims and the other objects have their own calls of the client.
\<close>

definition label_pods :: "'w kube \<Rightarrow> node_pool \<Rightarrow> ('w st, go_error, unit) step" where
  "label_pods K hnp =
     and_then (log_error ''unable to list resources'' (query (k_list_pods K (GetNamespace hnp) (GetCommonClusterLabels hnp)))) (\<lambda>pods.
     for_each (\<lambda>pd.
       if p_labels pd NodePoolLabelName = None
       then let pd = pd\<lparr>p_labels := GetPodLabels hnp\<rparr> in
            log_error ''unable to update pod'' (act (UpdatePod pd) (k_update_pod K pd))
       else ret ()) pods)"

definition label_object :: "'w kube \<Rightarrow> object_kind \<Rightarrow> node_pool \<Rightarrow> string \<Rightarrow> k8s_object \<Rightarrow> ('w st, go_error, unit) step" where
  "label_object K kind hnp errMsg ob =
     (if ko_labels ob NodePoolLabelName = None
      then log_error errMsg (update_object K kind (ob\<lparr>ko_labels := GetNodePoolLabels hnp\<rparr>))
      else ret ())"

definition label_certificates :: "lib \<Rightarrow> 'w kube \<Rightarrow> node_pool \<Rightarrow> ('w st, go_error, unit) step" where
  "label_certificates L K hnp =
     (if \<not> TLSEnabled L hnp then ret ()
      else
        and_then (log_error ''unable to list resources''
                   (query (k_list_objects K CertificateKind (GetNamespace hnp) (GetCommonClusterLabels hnp)))) (\<lambda>certs.
        for_each (label_object K CertificateKind hnp ''unable to update certificate'') certs))"

definition label_pvcs :: "'w kube \<Rightarrow> node_pool \<Rightarrow> ('w st, go_error, unit) step" where
  "label_pvcs K hnp =
     (if \<not> PVCsEnabled hnp then ret ()
      else
        and_then (log_error ''unable to list resources'' (query (k_list_pvcs K (GetNamespace hnp) (GetCommonClusterLabels hnp)))) (\<lambda>pvcs.
        for_each (\<lambda>p.
          if pvc_labels p NodePoolLabelName = None
          then let p = p\<lparr>pvc_labels := GetNodePoolLabels hnp\<rparr> in
               log_error ''unable to update PVC'' (act (UpdatePvc p) (k_update_pvc K p))
          else ret ()) pvcs))"

definition label_single ::
  "'w kube \<Rightarrow> object_kind \<Rightarrow> string \<Rightarrow> string \<Rightarrow> node_pool \<Rightarrow> string \<Rightarrow> ('w st, go_error, unit) step" where
  "label_single K kind name namespace hnp errMsg =
     and_then (observe (get_object K kind name namespace)) (\<lambda>r.
     case r of
       Inl err \<Rightarrow> if \<not> is_not_found err then exit_with (Wrap ''unable to get resource'' (Some err)) else ret ()
     | Inr ob \<Rightarrow> label_object K kind hnp errMsg ob)"

definition ensureNodePoolSpecificResourcesHaveLabelWithNodePoolName ::
  "lib \<Rightarrow> 'w kube \<Rightarrow> node_pool \<Rightarrow> ('w st, go_error, unit) step" where
  "ensureNodePoolSpecificResourcesHaveLabelWithNodePoolName L K hnp =
     (let unless = (\<lambda>b m. if b then ret () else m) in
      and_then (label_pods K hnp) (\<lambda>_.
      and_then (label_certificates L K hnp) (\<lambda>_.
      and_then (label_pvcs K hnp) (\<lambda>_.
      and_then (unless (HumioServiceAccountIsSetByUser hnp)
        (label_single K ServiceAccountKind (GetHumioServiceAccountName hnp) (GetNamespace hnp) hnp
           ''unable to update Humio service account'')) (\<lambda>_.
      and_then (unless (InitServiceAccountIsSetByUser hnp)
        (label_single K ServiceAccountKind (GetInitServiceAccountName hnp) (GetNamespace hnp) hnp
           ''unable to update init service account'')) (\<lambda>_.
      and_then (unless (InitServiceAccountIsSetByUser hnp)
        (label_single K ClusterRoleKind (GetInitClusterRoleName hnp) [] hnp ''unable to update init cluster role'')) (\<lambda>_.
      unless (InitServiceAccountIsSetByUser hnp)
        (label_single K ClusterRoleBindingKind (GetInitClusterRoleBindingName hnp) [] hnp
           ''unable to update init cluster role binding''))))))))"

end
