(* ===== verification/Cluster_Tls.thy ===== *)
theory Cluster_Tls
  imports Cluster_Access
begin

text \<open>
  TLS of a cluster: the CA issuer, the CA secret, the keystore passphrase, the certificates of the nodes,
  and the removal of what is no longer used. internal/controller/humiocluster_tls.go and
  humiocluster_controller.go. The generation of the key pair is the call \<open>k_generate_ca\<close>.
\<close>

section \<open>Issuer and CA\<close>

text \<open>The names are constants of cert-manager and of the Kubernetes API.\<close>

definition IssuerConditionReady :: string where "IssuerConditionReady = ''Ready''"
definition TLSCertKey :: string where "TLSCertKey = ''tls.crt''"
definition TLSPrivateKeyKey :: string where "TLSPrivateKeyKey = ''tls.key''"
definition SecretTypeOpaque :: string where "SecretTypeOpaque = ''Opaque''"
definition SecretTypeTLS :: string where "SecretTypeTLS = ''kubernetes.io/tls''"
definition CommonNameAnnotationKey :: string where "CommonNameAnnotationKey = ''cert-manager.io/common-name''"
definition IssuerKindAnnotationKey :: string where "IssuerKindAnnotationKey = ''cert-manager.io/issuer-kind''"
definition IssuerNameAnnotationKey :: string where "IssuerNameAnnotationKey = ''cert-manager.io/issuer-name''"
definition IssuerKindName :: string where "IssuerKindName = ''Issuer''"

definition validCASecret :: "'w kube \<Rightarrow> string \<Rightarrow> string \<Rightarrow> ('w st, go_error, bool) step" where
  "validCASecret K namespace secretName =
     and_then (get_object K SecretKind secretName namespace) (\<lambda>sec.
     case find (\<lambda>key. ko_data sec key = None) [TLSCertKey, TLSPrivateKeyKey] of
       Some key \<Rightarrow> exit_with (Msg (''did not find key '' @ key @ '' in secret '' @ secretName))
     | None \<Rightarrow> ret True)"

definition validCAIssuer :: "'w kube \<Rightarrow> string \<Rightarrow> string \<Rightarrow> ('w st, go_error, bool) step" where
  "validCAIssuer K namespace issuerName =
     and_then (get_object K IssuerKind issuerName namespace) (\<lambda>issuer.
     ret (list_ex (\<lambda>(typ, status). typ = IssuerConditionReady \<and> status = ConditionTrue) (ko_conditions issuer)))"

definition ensureValidCAIssuer :: "lib \<Rightarrow> 'w kube \<Rightarrow> ('w st, go_error, unit) step" where
  "ensureValidCAIssuer L K =
     and_then get_hc (\<lambda>hc.
     if \<not> ClusterTLSEnabled L hc then ret ()
     else
       and_then (observe (validCAIssuer K (hc_namespace hc) (hc_name hc))) (\<lambda>valid.
       and_then (case valid of
           Inl err \<Rightarrow> if \<not> is_not_found err then exit_with (Wrap ''could not validate CA Issuer'' (Some err)) else ret ()
         | Inr _ \<Rightarrow> ret ()) (\<lambda>_.
       if valid = Inr True then ret ()
       else
         and_then (observe (get_object K IssuerKind (hc_name hc) (hc_namespace hc))) (\<lambda>r.
         case r of
           Inl err \<Rightarrow>
             if is_not_found err
             then log_error ''could not create CA Issuer'' (create_object K IssuerKind (constructCAIssuer hc))
             else exit_with (Wrap ''ccould not get CA Issuer'' (Some err))
         | Inr _ \<Rightarrow> ret ()))))"

text \<open>\<open>fmt.Errorf("... err=%v", err)\<close> keeps only the text of the error.\<close>

definition ensureValidCASecret :: "lib \<Rightarrow> 'w kube \<Rightarrow> ('w st, go_error, unit) step" where
  "ensureValidCASecret L K =
     and_then get_hc (\<lambda>hc.
     if \<not> ClusterTLSEnabled L hc then ret ()
     else
       and_then (observe (validCASecret K (hc_namespace hc) (getCASecretName hc))) (\<lambda>valid.
       case valid of
         Inr _ \<Rightarrow> ret ()
       | Inl err \<Rightarrow>
           if useExistingCA hc
           then exit_with (Wrap ''specified CA secret invalid''
                  (Some (Msg (''configured to use existing CA secret, but the CA secret is invalid or got error when validating, err=''
                    @ error_message err))))
           else if \<not> is_not_found err then exit_with (Wrap ''could not validate CA secret'' (Some err))
           else
             and_then (log_error ''could not generate new CA certificate'' (query (k_generate_ca K))) (\<lambda>(cert, key).
             log_error ''could not create secret with CA''
               (create_object K SecretKind (ConstructSecret (hc_name hc) (hc_namespace hc) (getCASecretName hc)
                  [TLSCertKey \<mapsto> cert, TLSPrivateKeyKey \<mapsto> key] Map.empty Map.empty)))))"

definition ensureHumioClusterKeystoreSecret :: "lib \<Rightarrow> 'w kube \<Rightarrow> ('w st, go_error, unit) step" where
  "ensureHumioClusterKeystoreSecret L K =
     and_then get_hc (\<lambda>hc.
     if \<not> ClusterTLSEnabled L hc then ret ()
     else
       let name = hc_name hc @ ''-keystore-passphrase'' in
       and_then (observe (get_object K SecretKind name (hc_namespace hc))) (\<lambda>r.
       case r of
         Inr _ \<Rightarrow> ret ()
       | Inl err \<Rightarrow>
           if is_not_found err
           then and_then (pick (k_random_string K)) (\<lambda>randomPass.
                log_error ''could not create secret''
                  (create_object K SecretKind (ConstructSecret (hc_name hc) (hc_namespace hc) name
                     [''passphrase'' \<mapsto> randomPass] Map.empty Map.empty)))
           else exit_with (Wrap ''could not get secret'' (Some err))))"

definition ensureHumioClusterCACertBundle :: "lib \<Rightarrow> 'w kube \<Rightarrow> ('w st, go_error, unit) step" where
  "ensureHumioClusterCACertBundle L K =
     and_then get_hc (\<lambda>hc.
     if \<not> ClusterTLSEnabled L hc then ret ()
     else
       and_then (observe (get_object K CertificateKind (hc_name hc) (hc_namespace hc))) (\<lambda>r.
       case r of
         Inr _ \<Rightarrow> ret ()
       | Inl err \<Rightarrow>
           if is_not_found err
           then log_error ''could not create certificate''
                  (create_object K CertificateKind (constructClusterCACertificateBundle hc))
           else exit_with (Wrap ''could not get certificate'' (Some err))))"

section \<open>Certificates of the nodes\<close>

text \<open>
  One certificate: it is replaced when its hash is not the desired one; otherwise the status of the
  cluster is written, as the code has it.
\<close>

definition desired_certificate :: "lib \<Rightarrow> node_pool \<Rightarrow> k8s_object \<Rightarrow> k8s_object" where
  "desired_certificate L hnp currentCertificate =
     (ConstructNodeCertificate hnp (last (split_on (CHR ''-'') (ko_name currentCertificate))))
       \<lparr>ko_annotations := [CertificateHashAnnotation \<mapsto> GetDesiredCertHash L hnp]\<rparr>"

definition update_certificate :: "lib \<Rightarrow> 'w kube \<Rightarrow> node_pool \<Rightarrow> k8s_object \<Rightarrow> 'w st \<Rightarrow> (go_error + unit) \<times> 'w st" where
  "update_certificate L K hnp cert =
     and_then (get_object K CertificateKind (ko_name cert) (ko_namespace cert)) (\<lambda>currentCertificate.
     if map_get (ko_annotations currentCertificate) CertificateHashAnnotation \<noteq> GetDesiredCertHash L hnp
     then update_object K CertificateKind (desired_certificate L hnp currentCertificate)
     else write_status K)"

fun update_certificates ::
  "lib \<Rightarrow> 'w kube \<Rightarrow> 'w retrier \<Rightarrow> node_pool \<Rightarrow> k8s_object list \<Rightarrow> nat \<Rightarrow> ('w st, go_error, nat) step" where
  "update_certificates L K R hnp [] count = ret count"
| "update_certificates L K R hnp (cert # certs) count =
     (if has_prefix (ko_name cert) (GetNodePoolName hnp @ ''-core'')
      then and_then (observe (R (update_certificate L K hnp cert))) (\<lambda>r.
           case r of
             Inl err \<Rightarrow>
               if \<not> is_not_found err then exit_with (Wrap ''failed to update resource status'' (Some err))
               else update_certificates L K R hnp certs (Suc count)
           | Inr _ \<Rightarrow> update_certificates L K R hnp certs (Suc count))
      else update_certificates L K R hnp certs count)"

definition updateNodeCertificates ::
  "lib \<Rightarrow> 'w kube \<Rightarrow> 'w retrier \<Rightarrow> node_pool \<Rightarrow> ('w st, go_error, nat) step" where
  "updateNodeCertificates L K R hnp =
     and_then (query (k_list_objects K CertificateKind (GetNamespace hnp) (GetNodePoolLabels hnp))) (\<lambda>certificates.
     update_certificates L K R hnp certificates 0)"

definition waitForNodeCertificateTimeoutSeconds :: nat where "waitForNodeCertificateTimeoutSeconds = 30"

fun wait_node_certificate ::
  "lib \<Rightarrow> 'w kube \<Rightarrow> 'w retrier \<Rightarrow> node_pool \<Rightarrow> nat \<Rightarrow> nat \<Rightarrow> ('w st, go_error, unit) step" where
  "wait_node_certificate L K R hnp expectedCertCount 0 =
     exit_with (Msg ''timed out waiting to validate new pod certificate was created'')"
| "wait_node_certificate L K R hnp expectedCertCount (Suc i) =
     and_then (updateNodeCertificates L K R hnp) (\<lambda>existingNodeCertCount.
     if existingNodeCertCount \<ge> expectedCertCount then ret ()
     else and_then (pick (\<lambda>w. ((), k_sleep K second w))) (\<lambda>_.
          wait_node_certificate L K R hnp expectedCertCount i))"

definition waitForNewNodeCertificate ::
  "lib \<Rightarrow> 'w kube \<Rightarrow> 'w retrier \<Rightarrow> node_pool \<Rightarrow> nat \<Rightarrow> ('w st, go_error, unit) step" where
  "waitForNewNodeCertificate L K R hnp expectedCertCount =
     wait_node_certificate L K R hnp expectedCertCount waitForNodeCertificateTimeoutSeconds"

text \<open>Every round of the loop waits for one certificate more than there were at the start.\<close>

definition create_node_certificate ::
  "lib \<Rightarrow> 'w kube \<Rightarrow> 'w retrier \<Rightarrow> node_pool \<Rightarrow> nat \<Rightarrow> ('w st, go_error, unit) step" where
  "create_node_certificate L K R hnp existingNodeCertCount =
     and_then (pick (k_random_string K)) (\<lambda>random.
     let certificate = (ConstructNodeCertificate hnp random)
           \<lparr>ko_annotations := [CertificateHashAnnotation \<mapsto> GetDesiredCertHash L hnp]\<rparr> in
     and_then (log_error ''could create node certificate'' (create_object K CertificateKind certificate)) (\<lambda>_.
     log_error ''new node certificate not ready as expected''
       (waitForNewNodeCertificate L K R hnp (existingNodeCertCount + 1))))"

definition ensureHumioNodeCertificates ::
  "lib \<Rightarrow> 'w kube \<Rightarrow> 'w retrier \<Rightarrow> node_pool \<Rightarrow> ('w st, go_error, unit) step" where
  "ensureHumioNodeCertificates L K R hnp =
     (if \<not> TLSEnabled L hnp then ret ()
      else
        and_then (log_error ''failed to get node certificate count'' (updateNodeCertificates L K R hnp)) (\<lambda>existing.
        for_each (\<lambda>i. create_node_certificate L K R hnp existing) [int existing..GetNodeCount hnp - 1]))"

section \<open>Removing what is not used\<close>

definition tlsCertSecretInUse :: "'w kube \<Rightarrow> string \<Rightarrow> string \<Rightarrow> ('w st, go_error, bool) step" where
  "tlsCertSecretInUse K secretNamespace secretName =
     and_then (observe (query (k_get_pod K secretName secretNamespace))) (\<lambda>r.
     case r of
       Inl err \<Rightarrow> if is_not_found err then ret False else exit_with err
     | Inr _ \<Rightarrow> ret True)"

text \<open>The cluster-wide object is unused when TLS is switched off explicitly, a node's when its pod is gone.\<close>

definition tls_object_in_use :: "'w kube \<Rightarrow> string \<Rightarrow> humio_cluster \<Rightarrow> k8s_object \<Rightarrow> ('w st, go_error, bool) step" where
  "tls_object_in_use K errMsg hc ob =
     (if \<not> has_prefix (ko_name ob) (hc_name hc @ ''-core-'')
      then ret (case hcs_tls (hc_spec hc) of
                  None \<Rightarrow> True
                | Some t \<Rightarrow> (case tls_enabled_flag t of None \<Rightarrow> True | Some b \<Rightarrow> b))
      else log_error errMsg (tlsCertSecretInUse K (ko_namespace ob) (ko_name ob)))"

definition issued_by_cluster :: "humio_cluster \<Rightarrow> k8s_object \<Rightarrow> bool" where
  "issued_by_cluster hc sec \<longleftrightarrow>
     ko_annotations sec CommonNameAnnotationKey = Some []
     \<and> ko_annotations sec IssuerKindAnnotationKey = Some IssuerKindName
     \<and> ko_annotations sec IssuerNameAnnotationKey = Some (hc_name hc)
     \<and> ko_type sec = SecretTypeTLS"

definition leftover_keypair :: "lib \<Rightarrow> humio_cluster \<Rightarrow> k8s_object \<Rightarrow> bool" where
  "leftover_keypair L hc sec \<longleftrightarrow>
     \<not> ClusterTLSEnabled L hc \<and> ko_type sec = SecretTypeOpaque
     \<and> (ko_name sec = hc_name hc @ ''-ca-keypair'' \<or> ko_name sec = hc_name hc @ ''-keystore-passphrase'')"

text \<open>The loops stop after the first object they delete because it is not in use.\<close>

fun clean_tls_secrets :: "lib \<Rightarrow> 'w kube \<Rightarrow> humio_cluster \<Rightarrow> k8s_object list \<Rightarrow> ('w st, go_error, unit) step" where
  "clean_tls_secrets L K hc [] = ret ()"
| "clean_tls_secrets L K hc (sec # secrets) =
     and_then (if leftover_keypair L hc sec
               then log_error ''could not delete TLS secret'' (delete_object K SecretKind sec) else ret ()) (\<lambda>_.
     if \<not> issued_by_cluster hc sec \<or> ko_deletion_timestamp sec \<noteq> None then clean_tls_secrets L K hc secrets
     else
       and_then (tls_object_in_use K ''unable to determine if secret is in use'' hc sec) (\<lambda>inUse.
       if \<not> inUse then log_error (''could not delete secret '' @ ko_name sec) (delete_object K SecretKind sec)
       else clean_tls_secrets L K hc secrets))"

definition cleanupUnusedTLSSecrets :: "lib \<Rightarrow> 'w kube \<Rightarrow> ('w st, go_error, unit) step" where
  "cleanupUnusedTLSSecrets L K =
     and_then get_hc (\<lambda>hc.
     if \<not> use_cert_manager L then ret ()
     else
       and_then (log_error ''unable to list secrets'' (query (k_list_objects K SecretKind (hc_namespace hc) Map.empty))) (\<lambda>found.
       clean_tls_secrets L K hc found))"

fun clean_tls_certificates :: "'w kube \<Rightarrow> humio_cluster \<Rightarrow> k8s_object list \<Rightarrow> ('w st, go_error, unit) step" where
  "clean_tls_certificates K hc [] = ret ()"
| "clean_tls_certificates K hc (cert # certs) =
     (if ko_deletion_timestamp cert \<noteq> None then clean_tls_certificates K hc certs
      else case ko_owner_kinds cert of
        [] \<Rightarrow> clean_tls_certificates K hc certs
      | kind # _ \<Rightarrow>
          if kind \<noteq> ''HumioCluster'' then clean_tls_certificates K hc certs
          else
            and_then (tls_object_in_use K ''unable to determine if certificate is in use'' hc cert) (\<lambda>inUse.
            if \<not> inUse then log_error (''could not delete certificate '' @ ko_name cert) (delete_object K CertificateKind cert)
            else clean_tls_certificates K hc certs))"

definition cleanupUnusedTLSCertificates :: "lib \<Rightarrow> 'w kube \<Rightarrow> ('w st, go_error, unit) step" where
  "cleanupUnusedTLSCertificates L K =
     and_then get_hc (\<lambda>hc.
     if \<not> use_cert_manager L then ret ()
     else
       and_then (log_error ''unable to list certificates''
                  (query (k_list_objects K CertificateKind (hc_namespace hc) (LabelsForHumio (hc_name hc))))) (\<lambda>found.
       clean_tls_certificates K hc found))"

definition cleanupUnusedCAIssuer :: "lib \<Rightarrow> 'w kube \<Rightarrow> ('w st, go_error, unit) step" where
  "cleanupUnusedCAIssuer L K =
     and_then get_hc (\<lambda>hc.
     if ClusterTLSEnabled L hc then ret ()
     else if \<not> use_cert_manager L then ret ()
     else
       and_then (observe (get_object K IssuerKind (hc_name hc) (hc_namespace hc))) (\<lambda>r.
       case r of
         Inl err \<Rightarrow> if is_not_found err then ret () else exit_with (Wrap ''could not get CA Issuer'' (Some err))
       | Inr existing \<Rightarrow> log_error ''unable to delete CA Issuer'' (delete_object K IssuerKind existing)))"

section \<open>Certificates keep their names\<close>

lemma last_split_on: "c \<notin> set b \<Longrightarrow> last (split_on c (a @ c # b)) = b"
proof (induction a)
  case Nil
  then show ?case by (simp add: split_on_absent)
next
  case (Cons x a)
  have "split_on c (a @ c # b) \<noteq> [y]" for y
    using arg_cong [of "split_on c (a @ c # b)" "[y]" "join_with [c]"] by (induction a arbitrary: y) (auto split: list.split)
  with Cons show ?case by (auto split: list.split)
qed

text \<open>
  A certificate is updated in place: the certificate written for one the operator named, with a
  suffix that has no hyphen, is the one the operator would create under that name, with the desired hash;
  so a second pass finds the hash it wants.
\<close>

lemma certificate_update_in_place:
  assumes "CHR ''-'' \<notin> set suffix" and "ko_name current = ko_name (ConstructNodeCertificate hnp suffix)"
  shows "desired_certificate L hnp current = (ConstructNodeCertificate hnp suffix)
           \<lparr>ko_annotations := [CertificateHashAnnotation \<mapsto> GetDesiredCertHash L hnp]\<rparr>
       \<and> ko_name (desired_certificate L hnp current) = ko_name current"
proof -
  have "last (split_on (CHR ''-'') (ko_name current)) = suffix"
    using last_split_on [OF assms(1), of "GetNodePoolName hnp @ ''-core''"]
    by (simp add: assms(2) ConstructNodeCertificate_def Let_def)
  then show ?thesis using assms(2) by (simp add: desired_certificate_def)
qed

lemma certificate_update_in_place_witness:
  "ko_name (desired_certificate plain_lib empty_pool (ConstructNodeCertificate empty_pool ''abc''))
     = ko_name (ConstructNodeCertificate empty_pool ''abc'')"
  using certificate_update_in_place [of "''abc''" "ConstructNodeCertificate empty_pool ''abc''" empty_pool plain_lib]
  by simp

section \<open>What the cleanup deletes\<close>

text \<open>The API server answered that there is no pod of this name.\<close>

definition pod_reported_missing :: "'w kube \<Rightarrow> string \<Rightarrow> string \<Rightarrow> bool" where
  "pod_reported_missing K name namespace \<longleftrightarrow> (\<exists>w err. fst (k_get_pod K name namespace w) = Inl err \<and> is_not_found err)"

definition tls_switched_off :: "humio_cluster \<Rightarrow> bool" where
  "tls_switched_off hc \<longleftrightarrow> (\<exists>t. hcs_tls (hc_spec hc) = Some t \<and> tls_enabled_flag t = Some False)"

definition tls_unused :: "'w kube \<Rightarrow> humio_cluster \<Rightarrow> k8s_object \<Rightarrow> bool" where
  "tls_unused K hc ob \<longleftrightarrow> ko_deletion_timestamp ob = None \<and>
     (if has_prefix (ko_name ob) (hc_name hc @ ''-core-'') then pod_reported_missing K (ko_name ob) (ko_namespace ob)
      else tls_switched_off hc)"

definition tls_cleanup_call :: "lib \<Rightarrow> 'w kube \<Rightarrow> humio_cluster \<Rightarrow> api_call \<Rightarrow> bool" where
  "tls_cleanup_call L K hc call \<longleftrightarrow>
     (\<exists>ob. (call = DeleteObject SecretKind ob \<and> (leftover_keypair L hc ob \<or> issued_by_cluster hc ob \<and> tls_unused K hc ob))
         \<or> (call = DeleteObject CertificateKind ob \<and> (\<exists>ks. ko_owner_kinds ob = ''HumioCluster'' # ks) \<and> tls_unused K hc ob)
         \<or> (call = DeleteObject IssuerKind ob \<and> \<not> ClusterTLSEnabled L hc))"

lemma tlsCertSecretInUse_False: "may_return (tlsCertSecretInUse K ns n) False \<Longrightarrow> pod_reported_missing K n ns"
proof -
  assume "may_return (tlsCertSecretInUse K ns n) False"
  then obtain s s' where run: "tlsCertSecretInUse K ns n s = (Inr False, s')" by (auto simp: may_return_def)
  show ?thesis
  proof (cases "fst (k_get_pod K n ns (server s))")
    case (Inl err)
    then have "is_not_found err"
      using run by (auto simp: tlsCertSecretInUse_def and_then_def observe_def query_def ret_def exit_with_def split: if_splits)
    with Inl show ?thesis by (auto simp: pod_reported_missing_def)
  qed (use run in \<open>simp add: tlsCertSecretInUse_def and_then_def observe_def query_def ret_def\<close>)
qed

lemma in_use_False:
  "may_return (tls_object_in_use K m hc ob) False \<Longrightarrow> ko_deletion_timestamp ob = None \<Longrightarrow> tls_unused K hc ob"
  by (auto simp: tls_object_in_use_def tls_unused_def tls_switched_off_def may_return_log_error
      dest: tlsCertSecretInUse_False split: if_splits option.splits)

lemma in_use_quiet: "adds_only P (tls_object_in_use K m hc ob)"
  unfolding tls_object_in_use_def tlsCertSecretInUse_def by (intro trace_intros)

lemma clean_secrets_adds: "adds_only (tls_cleanup_call L K hc) (clean_tls_secrets L K hc secrets)"
proof (induction secrets)
  case (Cons sec secrets)
  have rest: "adds_only (tls_cleanup_call L K hc)
      (and_then (tls_object_in_use K m hc sec) (\<lambda>inUse.
       if \<not> inUse then log_error m' (delete_object K SecretKind sec) else clean_tls_secrets L K hc secrets))"
    if "issued_by_cluster hc sec" "ko_deletion_timestamp sec = None" for m m'
    using that
    by (intro adds_only_and_then_returned in_use_quiet)
      (auto intro!: trace_intros Cons dest!: in_use_False simp: tls_cleanup_call_def)
  show ?case
    unfolding clean_tls_secrets.simps
    by (intro trace_intros Cons rest) (auto simp: tls_cleanup_call_def)
qed (simp add: adds_only_simple)

lemma clean_certificates_adds: "adds_only (tls_cleanup_call L K hc) (clean_tls_certificates K hc certs)"
proof (induction certs)
  case (Cons cert certs)
  have rest: "adds_only (tls_cleanup_call L K hc)
      (and_then (tls_object_in_use K m hc cert) (\<lambda>inUse.
       if \<not> inUse then log_error m' (delete_object K CertificateKind cert) else clean_tls_certificates K hc certs))"
    if "ko_owner_kinds cert = ''HumioCluster'' # ks" "ko_deletion_timestamp cert = None" for m m' ks
    using that
    by (intro adds_only_and_then_returned in_use_quiet)
      (auto intro!: trace_intros Cons dest!: in_use_False simp: tls_cleanup_call_def)
  show ?case
    unfolding clean_tls_certificates.simps
    by (auto intro!: trace_intros Cons rest split: list.split)
qed (simp add: adds_only_simple)

text \<open>
  Claim C19. The cleanup of TLS deletes only what is not in use: the generated key pair and passphrase of
  a cluster without TLS, its issuer, and secrets and certificates of the cluster that are either
  cluster-wide while TLS is switched off, or of a node whose pod the API server said does not exist.
\<close>

theorem tls_cleanup_deletes_only_unused:
  assumes "run \<in> {cleanupUnusedTLSSecrets L K, cleanupUnusedTLSCertificates L K, cleanupUnusedCAIssuer L K}"
  shows "\<exists>cs. calls (snd (run s)) = calls s @ cs \<and> list_all (tls_cleanup_call L K (hc_obj s)) cs"
proof -
  have runs: "\<exists>cs. calls (snd (m s)) = calls s @ cs \<and> list_all (tls_cleanup_call L K (hc_obj s)) cs"
    if "adds_only (tls_cleanup_call L K (hc_obj s)) m" for m :: "'a st \<Rightarrow> (go_error + unit) \<times> 'a st"
    using that by (simp add: adds_only_def emits_def)
  have start: "and_then get_hc f s = f (hc_obj s) s" for f :: "humio_cluster \<Rightarrow> ('a st, go_error, unit) step"
    by (simp add: and_then_def get_hc_def)
  from assms consider "run = cleanupUnusedTLSSecrets L K" | "run = cleanupUnusedTLSCertificates L K"
    | "run = cleanupUnusedCAIssuer L K" by blast
  then show ?thesis
  proof cases
    case 1
    show ?thesis
      unfolding 1 cleanupUnusedTLSSecrets_def start
      by (rule runs) (intro trace_intros clean_secrets_adds)
  next
    case 2
    show ?thesis
      unfolding 2 cleanupUnusedTLSCertificates_def start
      by (rule runs) (intro trace_intros clean_certificates_adds)
  next
    case 3
    show ?thesis
      unfolding 3 cleanupUnusedCAIssuer_def start
      by (rule runs) (intro trace_intros, auto simp: tls_cleanup_call_def)
  qed
qed

lemma tls_cleanup_deletes_only_unused_witness:
  "\<exists>cs. calls (snd (cleanupUnusedTLSSecrets plain_lib mem_kube (mem_state empty_world))) = cs
      \<and> list_all (tls_cleanup_call plain_lib mem_kube empty_cluster) cs"
  using tls_cleanup_deletes_only_unused [of "cleanupUnusedTLSSecrets plain_lib mem_kube" plain_lib mem_kube "mem_state empty_world"]
  by (simp add: mem_state_def empty_world_def)

section \<open>The CA\<close>

definition new_ca :: "'w kube \<Rightarrow> humio_cluster \<Rightarrow> api_call \<Rightarrow> bool" where
  "new_ca K hc call \<longleftrightarrow> (\<exists>cert key. call = CreateObject SecretKind
       (ConstructSecret (hc_name hc) (hc_namespace hc) (getCASecretName hc)
          [TLSCertKey \<mapsto> cert, TLSPrivateKeyKey \<mapsto> key] Map.empty Map.empty)
     \<and> (\<exists>w. fst (k_generate_ca K w) = Inr (cert, key)))"

text \<open>
  A CA is never replaced: \<open>ensureValidCASecret\<close> writes at most one secret, a new one with the key
  pair just generated, and only when TLS is on, the user did not name a CA secret, and the API server said
  that the secret does not exist.
\<close>

lemma ca_never_replaced:
  "\<exists>cs. calls (snd (ensureValidCASecret L K s)) = calls s @ cs \<and> length cs \<le> 1 \<and> list_all (new_ca K (hc_obj s)) cs
      \<and> (cs = [] \<or> ClusterTLSEnabled L (hc_obj s) \<and> \<not> useExistingCA (hc_obj s)
           \<and> (\<exists>err. fst (k_get_object K SecretKind (getCASecretName (hc_obj s)) (hc_namespace (hc_obj s)) (server s)) = Inl err
                \<and> is_not_found err))"
  by (auto simp: ensureValidCASecret_def and_then_def get_hc_def ret_def observe_def validCASecret_def get_object_def
      query_def exit_with_def log_error_def on_error_def create_object_def act_def new_ca_def
      split: sum.split option.split prod.split if_splits)

end
