(* ===== verification/Humio_Access.thy ===== *)
theory Humio_Access
  imports Cluster_Tls
begin

text \<open>
  The license and the API token of the operator: internal/controller/humiocluster_permission_tokens.go,
  \<open>ensureLicenseIsValid\<close>, \<open>getDesiredLicenseString\<close> and \<open>ensureLicenseAndAdminToken\<close> of
  humiocluster_controller.go, and internal/humio/license.go, where the signed token that is a license is
  read by \<open>x_license_uid\<close>.
\<close>

section \<open>defer\<close>

text \<open>
  \<open>defer d()\<close> after which the rest of the function is \<open>m\<close>: \<open>d\<close> runs when \<open>m\<close> has its result, which
  stays the result.
\<close>

definition deferred :: "('s \<Rightarrow> 'x \<times> 's) \<Rightarrow> ('s \<Rightarrow> 'y \<times> 's) \<Rightarrow> 's \<Rightarrow> 'y \<times> 's" where
  "deferred d m s = (fst (m s), snd (d (snd (m s))))"

lemma adds_only_deferred [trace_intros]: "adds_only P d \<Longrightarrow> adds_only P m \<Longrightarrow> adds_only P (deferred d m)"
proof -
  assume d: "adds_only P d" and m: "adds_only P m"
  show ?thesis
    unfolding adds_only_def
  proof (rule emitsI)
    fix s
    obtain cs where "calls (snd (m s)) = calls s @ cs" "list_all P cs"
      using m unfolding adds_only_def by (rule emitsE)
    moreover obtain ds where "calls (snd (d (snd (m s)))) = calls (snd (m s)) @ ds" "list_all P ds"
      using d unfolding adds_only_def by (rule emitsE)
    ultimately show "\<exists>cs. calls (snd (deferred d m s)) = calls s @ cs \<and> list_all P cs"
      by (simp add: deferred_def)
  qed
qed

section \<open>The license\<close>

definition GetLicenseUIDFromLicenseString :: "lib \<Rightarrow> string \<Rightarrow> go_error + string" where
  "GetLicenseUIDFromLicenseString L licenseString =
     (case x_license_uid L licenseString of
        Inl err \<Rightarrow> Inl (Wrap ''error when parsing license'' (Some err))
      | Inr uid \<Rightarrow>
          if uid = [] then Inl (Msg ''error when parsing license, license was valid jwt string but missing uid'')
          else Inr uid)"

definition licenseSecretKeyRefOrDefault :: "humio_cluster \<Rightarrow> secret_key_selector option" where
  "licenseSecretKeyRefOrDefault hc = hcs_license (hc_spec hc)"

definition ensureLicenseIsValid :: "lib \<Rightarrow> 'w kube \<Rightarrow> ('w st, go_error, unit) step" where
  "ensureLicenseIsValid L K =
     and_then get_hc (\<lambda>hc.
     case licenseSecretKeyRefOrDefault hc of
       None \<Rightarrow> exit_with (Msg ''no license secret key selector provided'')
     | Some selector \<Rightarrow>
         and_then (get_object K SecretKind (sks_name selector) (hc_namespace hc)) (\<lambda>licenseSecret.
         case ko_data licenseSecret (sks_key selector) of
           None \<Rightarrow> exit_with (Wrap (''key '' @ sks_key selector @ '' does not exist for secret '' @ sks_name selector)
                     (Some (Msg ''could not read the license'')))
         | Some licenseStr \<Rightarrow>
             (case GetLicenseUIDFromLicenseString L licenseStr of
                Inl err \<Rightarrow> exit_with (Wrap ''unable to parse license'' (Some err))
              | Inr _ \<Rightarrow> ret ())))"

text \<open>A key that is missing is reported with the nil error of the read before it.\<close>

definition getDesiredLicenseString :: "'w kube \<Rightarrow> 'w retrier \<Rightarrow> ('w st, go_error, string) step" where
  "getDesiredLicenseString K R =
     and_then get_hc (\<lambda>hc.
     case licenseSecretKeyRefOrDefault hc of
       None \<Rightarrow> exit_with (Msg ''no license secret key selector provided'')
     | Some selector \<Rightarrow>
         and_then (log_error ''could not get license''
                    (get_object K SecretKind (sks_name selector) (hc_namespace hc))) (\<lambda>licenseSecret.
         case ko_data licenseSecret (sks_key selector) of
           None \<Rightarrow> exit_with (Wrap ''could not get license'' None)
         | Some licenseStr \<Rightarrow>
             and_then (if st_state (hc_status hc) = StateConfigError
                       then ignoring (updateStatus K R (withState StateRunning statusOptions)) else ret ()) (\<lambda>_.
             ret licenseStr)))"

section \<open>The admin user and its token\<close>

definition createAndGetAdminAccountUserID :: "'w kube \<Rightarrow> string \<Rightarrow> ('w st, go_error, string) step" where
  "createAndGetAdminAccountUserID K username =
     and_then (observe (query (k_humio_user_id K username))) (\<lambda>current.
     case current of
       Inl err \<Rightarrow>
         if is_entity_not_found err
         then and_then (act (AddUser username) (k_humio_add_user K username True)) (\<lambda>newUserID.
              if newUserID \<noteq> [] then ret newUserID else exit_with err)
         else exit_with err
     | Inr currentUserID \<Rightarrow>
         if currentUserID \<noteq> [] then ret currentUserID else exit_with (Msg ''could not obtain user ID''))"

definition adminSecretName :: "humio_cluster \<Rightarrow> string" where
  "adminSecretName hc = hc_name hc @ ''-'' @ ServiceTokenSecretNameSuffix"

definition admin_client :: "lib \<Rightarrow> 'w kube \<Rightarrow> humio_cluster \<Rightarrow> ('w st, go_error, humio_config) step" where
  "admin_client L K hc = NewCluster L K (hc_name hc) [] (hc_namespace hc) (use_cert_manager L) True False"

definition validateAdminSecretContent :: "lib \<Rightarrow> 'w kube \<Rightarrow> ('w st, go_error, unit) step" where
  "validateAdminSecretContent L K =
     and_then get_hc (\<lambda>hc.
     and_then (log_error ''got err while trying to get existing secret from k8s''
                (get_object K SecretKind (adminSecretName hc) (hc_namespace hc))) (\<lambda>sec.
     case ko_data sec ''token'' of
       None \<Rightarrow> exit_with (Msg (''unable to validate if kubernetes secret '' @ adminSecretName hc
                 @ '' holds a valid humio API token''))
     | Some token \<Rightarrow>
         and_then (log_error ''got err while trying to authenticate using apiToken'' (admin_client L K hc)) (\<lambda>config.
         and_then (if cfg_token config \<noteq> token
                   then and_then (log_error ''got err while trying to authenticate using apiToken'' (admin_client L K hc))
                          (\<lambda>_. ret ())
                   else ret ()) (\<lambda>_.
         and_then (log_error ''got err while trying to use apiToken'' (query (k_humio_nodes K))) (\<lambda>_.
         ret ())))))"

text \<open>\<open>StringData\<close> is compared, which the API server does not return.\<close>

definition ensureAdminSecretContent :: "'w kube \<Rightarrow> string \<Rightarrow> ('w st, go_error, unit) step" where
  "ensureAdminSecretContent K desiredAPIToken =
     and_then get_hc (\<lambda>hc.
     and_then (observe (get_object K SecretKind (adminSecretName hc) (hc_namespace hc))) (\<lambda>r.
     case r of
       Inl err \<Rightarrow>
         if is_not_found err
         then log_error ''unable to create secret'' (create_object K SecretKind
                (zero_object\<lparr>ko_name := adminSecretName hc, ko_namespace := hc_namespace hc,
                   ko_labels := LabelsForHumio (hc_name hc), ko_string_data := [''token'' \<mapsto> desiredAPIToken],
                   ko_type := SecretTypeOpaque\<rparr>))
         else exit_with (Wrap ''unable to get secret'' (Some err))
     | Inr adminSecret \<Rightarrow>
         if map_get (ko_string_data adminSecret) ''token'' \<noteq> desiredAPIToken
         then log_error ''unable to update secret''
                (update_object K SecretKind (adminSecret\<lparr>ko_string_data := [''token'' \<mapsto> desiredAPIToken]\<rparr>))
         else ret ()))"

definition createPersonalAPIToken :: "lib \<Rightarrow> 'w kube \<Rightarrow> string \<Rightarrow> ('w st, go_error, unit) step" where
  "createPersonalAPIToken L K username =
     and_then (on_error (createAndGetAdminAccountUserID K username) (\<lambda>err.
       exit_with (Msg (''got err trying to obtain user ID of admin user: '' @ error_message err)))) (\<lambda>userID.
     and_then (observe (validateAdminSecretContent L K)) (\<lambda>valid.
     if valid = Inr () then ret ()
     else
       and_then (log_error (''failed to rotate api key for userID '' @ userID)
                  (act (RotateToken userID) (k_humio_rotate_token K userID))) (\<lambda>apiToken.
       log_error ''unable to ensure admin secret'' (ensureAdminSecretContent K apiToken))))"

section \<open>License and token\<close>

definition report_config_error :: "'w kube \<Rightarrow> 'w retrier \<Rightarrow> ('w st, go_error, 'a) step \<Rightarrow> ('w st, handler_result, 'a) step" where
  "report_config_error K R m =
     on_error m (\<lambda>err.
       and_then (ignoring (updateStatus K R (withState StateConfigError (withMessage (error_message err) statusOptions)))) (\<lambda>_.
       exit_with (empty_result, Some err)))"

definition save_license :: "'w kube \<Rightarrow> 'w retrier \<Rightarrow> string \<Rightarrow> string \<Rightarrow> ('w st, go_error, unit) step" where
  "save_license K R licenseUID licenseExpiry =
     (if licenseUID \<noteq> []
      then ignoring (updateStatus K R (withLicense \<lparr>hls_type = ''onprem'', hls_expiration = licenseExpiry\<rparr> statusOptions))
      else ret ())"

definition ensureLicenseAndAdminToken ::
  "lib \<Rightarrow> 'w kube \<Rightarrow> 'w retrier \<Rightarrow> ('w st, handler_result, unit) step" where
  "ensureLicenseAndAdminToken L K R =
     and_then get_hc (\<lambda>hc.
     and_then (as_result (NewCluster L K (hc_name hc) [] (hc_namespace hc) (use_cert_manager L) False False)) (\<lambda>_.
     and_then (report_config_error K R (getDesiredLicenseString K R)) (\<lambda>desiredLicenseString.
     and_then (report_config_error K R (\<lambda>s. (GetLicenseUIDFromLicenseString L desiredLicenseString, s))) (\<lambda>desiredLicenseUID.
     and_then (observe (query (k_license_installed K))) (\<lambda>installed.
     case installed of
       Inl getErr \<Rightarrow>
         if is_entity_not_found getErr
         then and_then (as_result (log_error ''could not install initial license''
                (act (InstallLicense desiredLicenseString) (k_install_license K desiredLicenseString)))) (\<lambda>_.
              exit_with (requeue_now, None))
         else exit_with (empty_result, Some (Wrap ''failed to get license'' (Some getErr)))
     | Inr (licenseUID, licenseExpiry) \<Rightarrow>
         deferred (save_license K R licenseUID licenseExpiry)
           (and_then get_hc (\<lambda>hc.
            and_then (as_result (log_error ''could not authenticate with bootstrap token''
                       (NewCluster L K (hc_name hc) [] (hc_namespace hc) (use_cert_manager L) False True))) (\<lambda>_.
            and_then (as_result (log_error ''unable to create permission tokens''
                       (createPersonalAPIToken L K ''admin''))) (\<lambda>_.
            and_then (as_result (admin_client L K hc)) (\<lambda>_.
            if licenseUID \<noteq> desiredLicenseUID
            then and_then (as_result (log_error ''could not install license''
                   (act (InstallLicense desiredLicenseString) (k_install_license K desiredLicenseString)))) (\<lambda>_.
                 exit_with (requeue_now, None))
            else ret ()))))))))))"

section \<open>When a license is installed\<close>

definition license_call :: "lib \<Rightarrow> 'w kube \<Rightarrow> api_call \<Rightarrow> bool" where
  "license_call L K c \<longleftrightarrow>
     (case c of
        InstallLicense lic \<Rightarrow>
          (\<exists>uid. GetLicenseUIDFromLicenseString L lic = Inr uid
             \<and> (\<exists>w. case fst (k_license_installed K w) of
                     Inl err \<Rightarrow> is_entity_not_found err | Inr (installed, _) \<Rightarrow> installed \<noteq> uid))
      | AddUser u \<Rightarrow> u = ''admin'' \<and> (\<exists>w err. fst (k_humio_user_id K u w) = Inl err \<and> is_entity_not_found err)
      | RotateToken u \<Rightarrow> True
      | UpdateStatus hc \<Rightarrow> True
      | CreateObject kind ob \<Rightarrow> kind = SecretKind
      | UpdateObject kind ob \<Rightarrow> kind = SecretKind
      | _ \<Rightarrow> False)"

lemma license_call_simps [simp]:
  "license_call L K (UpdateStatus hc)" "license_call L K (RotateToken u)"
  "license_call L K (CreateObject SecretKind ob)" "license_call L K (UpdateObject SecretKind ob)"
  by (simp_all add: license_call_def)

lemma adds_only_at: "adds_only P (\<lambda>s. (r, s))"
  by (simp add: adds_only_def emits_def)

lemma query_returned: "may_return (observe (query f)) (Inl e) \<Longrightarrow> \<exists>w. fst (f w) = Inl e"
  "may_return (observe (query f)) (Inr a) \<Longrightarrow> \<exists>w. fst (f w) = Inr a"
  by (auto simp: may_return_def observe_def query_def)

lemma create_user_adds: "adds_only (license_call L K) (createAndGetAdminAccountUserID K ''admin'')"
proof -
  have allowed: "license_call L K (AddUser ''admin'')"
    if "may_return (observe (query (k_humio_user_id K ''admin''))) (Inl err)" "is_entity_not_found err" for err
    using query_returned(1) [OF that(1)] that(2) by (auto simp: license_call_def)
  show ?thesis
    unfolding createAndGetAdminAccountUserID_def
    by (intro adds_only_and_then_returned [OF adds_only_observe] trace_intros) (use allowed in blast)
qed

lemma admin_client_quiet: "adds_only P (admin_client L K hc)"
  unfolding admin_client_def by (intro trace_intros)

lemma personal_token_adds: "adds_only (license_call L K) (createPersonalAPIToken L K ''admin'')"
  unfolding createPersonalAPIToken_def validateAdminSecretContent_def ensureAdminSecretContent_def
  by (intro create_user_adds trace_intros admin_client_quiet) simp_all

lemma status_writes_license: "retries R \<Longrightarrow> adds_only (license_call L K) (updateStatus K R opts)"
  by (rule updateStatus_adds) simp_all

lemma license_adds:
  assumes "retries R"
  shows "adds_only (license_call L K) (ensureLicenseAndAdminToken L K R)"
proof -
  let ?P = "license_call L K"
  have report: "adds_only ?P m \<Longrightarrow> adds_only ?P (report_config_error K R m)" for m :: "('a st, go_error, string) step"
    unfolding report_config_error_def by (intro trace_intros status_writes_license assms)
  have desired: "adds_only ?P (getDesiredLicenseString K R)"
    unfolding getDesiredLicenseString_def by (intro trace_intros status_writes_license assms)
  have parsed: "GetLicenseUIDFromLicenseString L lic = Inr uid"
    if "may_return (report_config_error K R (\<lambda>s. (GetLicenseUIDFromLicenseString L lic, s))) uid" for lic uid
    using that by (auto simp: may_return_def report_config_error_def on_error_Inr and_then_Inr exit_with_def)
  have first: "?P (InstallLicense lic)"
    if "GetLicenseUIDFromLicenseString L lic = Inr uid" "fst (k_license_installed K w) = Inl err"
      "is_entity_not_found err" for lic uid err w
    using that by (auto simp: license_call_def intro!: exI [of _ w])
  have other: "?P (InstallLicense lic)"
    if "GetLicenseUIDFromLicenseString L lic = Inr uid" "fst (k_license_installed K w) = Inr (installed, e)"
      "installed \<noteq> uid" for lic uid installed e w
    using that by (auto simp: license_call_def intro!: exI [of _ w])
  show ?thesis
    unfolding ensureLicenseAndAdminToken_def
  proof (intro adds_only_and_then [OF adds_only_simple(5)] adds_only_and_then [OF adds_only_as_result]
      adds_only_and_then [OF report [OF desired]] adds_only_and_then_returned [OF report [OF adds_only_at]]
      NewCluster_quiet, drule parsed, rule adds_only_and_then_returned, goal_cases read rest)
    case read
    show ?case by (intro trace_intros)
  next
    case (rest hc cfg lic uid r)
    show ?case
    proof (cases r)
      case (Inl err)
      obtain w where w: "fst (k_license_installed K w) = Inl err"
        using query_returned(1) [OF rest(2) [unfolded Inl]] by blast
      then show ?thesis
        unfolding Inl sum.case by (intro adds_only_as_result trace_intros first [OF rest(1) w])
    next
      case (Inr i)
      obtain installed expiry where i: "i = (installed, expiry)" by fastforce
      obtain w where w: "fst (k_license_installed K w) = Inr (installed, expiry)"
        using query_returned(2) [OF rest(2) [unfolded Inr i]] by blast
      have "adds_only ?P (save_license K R installed expiry)"
        unfolding save_license_def by (intro trace_intros status_writes_license assms)
      then show ?thesis
        unfolding Inr i sum.case prod.case
        by (intro adds_only_as_result trace_intros personal_token_adds admin_client_quiet other [OF rest(1) w])
    qed
  qed
qed

text \<open>
  Claim C18. When the license step writes. \<open>ensureLicenseAndAdminToken\<close> installs a license only when it
  parses and the cluster has just answered that it has none, or one with another UID; it adds only the
  user \<open>admin\<close>, and only when the cluster has just answered that there is no such user; everything else it
  writes is the status of the cluster, the rotation of the token, and the secret that holds it.
\<close>

theorem license_installed_only_when_it_differs:
  assumes "retries R"
  shows "\<exists>cs. calls (snd (ensureLicenseAndAdminToken L K R s)) = calls s @ cs \<and> list_all (license_call L K) cs"
  using license_adds [OF assms] by (simp add: adds_only_def emits_def)

lemma license_installed_only_when_it_differs_witness:
  "\<exists>cs. calls (snd (ensureLicenseAndAdminToken plain_lib mem_kube (retry_steps 4) (mem_state empty_world))) = cs
     \<and> list_all (license_call plain_lib mem_kube) cs"
  using license_installed_only_when_it_differs [OF retries_retry_steps, of plain_lib mem_kube 4 "mem_state empty_world"]
  by (auto simp: mem_state_def)

end
