(* ===== verification/Cluster_Extras.thy ===== *)
theory Cluster_Extras
  imports Humio_Access
begin

text \<open>
  Disruption budgets and the telemetry resource of a cluster, at the end of
  internal/controller/humiocluster_controller.go. \<open>controllerutil.CreateOrUpdate\<close> of controller-runtime is
  the parameter \<open>CU\<close>.
\<close>

section \<open>Disruption budgets\<close>

type_synonym 'w creator =
  "object_kind \<Rightarrow> k8s_object \<Rightarrow> (k8s_object \<Rightarrow> k8s_object) \<Rightarrow> ('w st, go_error, unit) step"

text \<open>
  Its documented behaviour: an object that does not exist is created, after the mutation function; one that
  exists is read into the argument, mutated, and written if that changed it.
\<close>

definition creates_or_updates :: "'w kube \<Rightarrow> 'w creator \<Rightarrow> bool" where
  "creates_or_updates K CU \<longleftrightarrow> (\<forall>kind ob f s.
     CU kind ob f s =
       (case get_object K kind (ko_name ob) (ko_namespace ob) s of
          (Inl err, s') \<Rightarrow> if is_not_found err then create_object K kind (f ob) s' else (Inl err, s')
        | (Inr existing, s') \<Rightarrow> if f existing = existing then (Inr (), s') else update_object K kind (f existing) s'))"

definition of_int_or_string :: "int_or_string \<Rightarrow> kvalue" where
  "of_int_or_string v = (case v of IntVal i \<Rightarrow> KInt i | StrVal s \<Rightarrow> KStr s)"

definition constructPDB :: "humio_cluster \<Rightarrow> node_pool \<Rightarrow> pdb_spec \<Rightarrow> k8s_object" where
  "constructPDB hc hnp pdbSpec = zero_object\<lparr>
     ko_name := GetPodDisruptionBudgetName hnp, ko_namespace := hc_namespace hc, ko_labels := GetNodePoolLabels hnp,
     ko_selector := MatchingLabelsForHumioNodePool (hc_name hc) (GetNodePoolName hnp),
     ko_spec := KObj [(''minAvailable'', of_int_or_string
       (case pdb_min_available pdbSpec of Some v \<Rightarrow> v | None \<Rightarrow> IntVal 1))]\<rparr>"

definition createOrUpdatePDB :: "'w creator \<Rightarrow> k8s_object \<Rightarrow> ('w st, go_error, unit) step" where
  "createOrUpdatePDB CU desiredPDB =
     log_error (''failed to create or update PDB '' @ ko_namespace desiredPDB @ ''/'' @ ko_name desiredPDB)
       (CU PodDisruptionBudgetKind desiredPDB (\<lambda>pdb. pdb))"

definition reconcileSinglePDB :: "'w kube \<Rightarrow> 'w creator \<Rightarrow> node_pool \<Rightarrow> ('w st, go_error, unit) step" where
  "reconcileSinglePDB K CU hnp =
     and_then get_hc (\<lambda>hc.
     let pdbName = GetPodDisruptionBudgetName hnp in
     case GetPodDisruptionBudget hnp of
       None \<Rightarrow>
         and_then (observe (get_object K PodDisruptionBudgetKind pdbName (hc_namespace hc))) (\<lambda>r.
         case r of
           Inr currentPDB \<Rightarrow>
             log_error (''failed to delete orphaned PDB '' @ hc_namespace hc @ ''/'' @ pdbName)
               (delete_object K PodDisruptionBudgetKind currentPDB)
         | Inl err \<Rightarrow>
             if \<not> is_not_found err
             then exit_with (Wrap (''failed to get PDB '' @ hc_namespace hc @ ''/'' @ pdbName) (Some err))
             else ret ())
     | Some pdbSpec \<Rightarrow>
         and_then (log_error ''failed to list pods''
                    (query (k_list_pods K (hc_namespace hc) (LabelsForHumio (hc_name hc))))) (\<lambda>pods.
         if pods = [] then ret () else createOrUpdatePDB CU (constructPDB hc hnp pdbSpec)))"

section \<open>Telemetry\<close>

definition HumioTelemetryStateEnabled :: string where "HumioTelemetryStateEnabled = ''Enabled''"
definition HumioTelemetryStateConfigError :: string where "HumioTelemetryStateConfigError = ''ConfigError''"

definition telemetryName :: "humio_cluster \<Rightarrow> string" where
  "telemetryName hc = hc_name hc @ ''-telemetry''"

text \<open>\<open>hc.Status.TelemetryStatus = t; return reconcile.Result{Requeue: true}, r.Status().Update(ctx, hc)\<close>\<close>

definition save_telemetry :: "'w kube \<Rightarrow> telemetry_status option \<Rightarrow> ('w st, handler_result, unit) step" where
  "save_telemetry K t =
     and_then get_hc (\<lambda>hc.
     and_then (set_hc (update_hc_status (\<lambda>st. st\<lparr>st_telemetry := t\<rparr>) hc)) (\<lambda>_.
     and_then (observe (write_status K)) (\<lambda>r.
     exit_with (requeue_now, case r of Inl err \<Rightarrow> Some err | Inr _ \<Rightarrow> None))))"

definition cleanupTelemetryResource :: "'w kube \<Rightarrow> ('w st, handler_result, unit) step" where
  "cleanupTelemetryResource K =
     and_then get_hc (\<lambda>hc.
     and_then (observe (query (k_get_telemetry K (telemetryName hc) (hc_namespace hc)))) (\<lambda>r.
     case r of
       Inl err \<Rightarrow>
         if is_not_found err
         then if st_telemetry (hc_status hc) \<noteq> None then save_telemetry K None else ret ()
         else exit_with (empty_result, Some (Wrap ''failed to get telemetry resource'' (Some err)))
     | Inr ht \<Rightarrow>
         and_then (observe (act (DeleteTelemetry ht) (k_delete_telemetry K ht))) (\<lambda>d.
         case d of
           Inl err \<Rightarrow>
             if \<not> is_not_found err
             then exit_with (empty_result, Some (Wrap ''failed to delete telemetry resource'' (Some err)))
             else save_telemetry K None
         | Inr _ \<Rightarrow> save_telemetry K None)))"

definition validateTelemetryConfiguration :: "humio_cluster \<Rightarrow> go_error option" where
  "validateTelemetryConfiguration hc =
     (case hcs_telemetry (hc_spec hc) of
        None \<Rightarrow> Some (Msg ''telemetryConfig is required when telemetryEnabled is true'')
      | Some config \<Rightarrow>
          (case tlc_url config of
             None \<Rightarrow> Some (Msg ''telemetryConfig.remoteReport is required'')
           | Some (url, token) \<Rightarrow>
               if url = [] then Some (Msg ''telemetryConfig.remoteReport.url is required'')
               else if token = None then Some (Msg ''telemetryConfig.remoteReport.token.secretKeyRef is required'')
               else if tlc_cluster_identifier config = []
               then Some (Msg ''telemetryConfig.clusterIdentifier is required'')
               else if tlc_collections config = []
               then Some (Msg ''telemetryConfig.collections must contain at least one collection'')
               else None))"

definition new_telemetry :: "humio_cluster \<Rightarrow> telemetry_config \<Rightarrow> string \<Rightarrow> secret_key_selector option \<Rightarrow> humio_telemetry" where
  "new_telemetry hc config url token =
     \<lparr>ht_name = telemetryName hc, ht_namespace = hc_namespace hc,
      ht_labels = [''humio.com/managed-by'' \<mapsto> ''humio-operator'', ''humio.com/cluster'' \<mapsto> hc_name hc],
      ht_cluster_identifier = tlc_cluster_identifier config, ht_managed_cluster_name = hc_name hc,
      ht_url = url, ht_token = token, ht_collections = tlc_collections config, ht_state = [],
      ht_last_collection_time = None, ht_last_export_time = None, ht_collection_errors = [], ht_export_errors = []\<rparr>"

definition createTelemetryResource ::
  "'w kube \<Rightarrow> telemetry_config \<Rightarrow> string \<Rightarrow> secret_key_selector option \<Rightarrow> ('w st, handler_result, unit) step" where
  "createTelemetryResource K config url token =
     and_then get_hc (\<lambda>hc.
     let ht = new_telemetry hc config url token in
     and_then (as_result (log_error ''failed to create telemetry resource''
                (act (CreateTelemetry ht) (k_create_telemetry K ht)))) (\<lambda>_.
     save_telemetry K (Some
       \<lparr>ts_state = HumioTelemetryStateEnabled, ts_last_collection_time = None, ts_last_export_time = None,
        ts_collection_errors = [], ts_export_errors = [], ts_resource_name = telemetryName hc\<rparr>)))"

text \<open>
  \<open>update_telemetry\<close> is the resource after the comparisons, with whether one of them found a difference; the
  collections are written whenever anything is.
\<close>

definition update_telemetry ::
  "telemetry_config \<Rightarrow> string \<Rightarrow> secret_key_selector option \<Rightarrow> humio_telemetry \<Rightarrow> bool \<times> humio_telemetry" where
  "update_telemetry config url token ht =
     (let (u1, ht) = (if ht_cluster_identifier ht \<noteq> tlc_cluster_identifier config
                      then (True, ht\<lparr>ht_cluster_identifier := tlc_cluster_identifier config\<rparr>) else (False, ht));
          (u2, ht) = (if ht_url ht \<noteq> url then (True, ht\<lparr>ht_url := url\<rparr>) else (u1, ht));
          (u3, ht) = (if ht_token ht = None \<or> token = None \<or> ht_token ht \<noteq> token
                      then (True, ht\<lparr>ht_token := token\<rparr>) else (u2, ht));
          u4 = (if length (ht_collections ht) \<noteq> length (tlc_collections config) then True
                else if list_ex (\<lambda>(a, b). tc_interval a \<noteq> tc_interval b \<or> tc_include a \<noteq> tc_include b)
                          (zip (ht_collections ht) (tlc_collections config)) then True
                else u3)
      in (u4, if u4 then ht\<lparr>ht_collections := tlc_collections config\<rparr> else ht))"

definition updateTelemetryResource ::
  "'w kube \<Rightarrow> telemetry_config \<Rightarrow> string \<Rightarrow> secret_key_selector option \<Rightarrow> humio_telemetry
     \<Rightarrow> ('w st, handler_result, unit) step" where
  "updateTelemetryResource K config url token ht =
     (let (needsUpdate, ht) = update_telemetry config url token ht in
      if needsUpdate
      then and_then (as_result (log_error ''failed to update telemetry resource''
             (act (UpdateTelemetry ht) (k_update_telemetry K ht)))) (\<lambda>_.
           exit_with (requeue_now, None))
      else
        and_then get_hc (\<lambda>hc.
        let differs = (case st_telemetry (hc_status hc) of
                         None \<Rightarrow> True
                       | Some t \<Rightarrow> ts_resource_name t \<noteq> ht_name ht \<or> ts_state t \<noteq> ht_state ht)
        in if differs
           then save_telemetry K (Some
             \<lparr>ts_state = ht_state ht, ts_last_collection_time = ht_last_collection_time ht,
              ts_last_export_time = ht_last_export_time ht, ts_collection_errors = ht_collection_errors ht,
              ts_export_errors = ht_export_errors ht, ts_resource_name = ht_name ht\<rparr>)
           else ret ()))"

definition telemetry_error_of :: "go_error \<Rightarrow> time \<Rightarrow> telemetry_error" where
  "telemetry_error_of err now = \<lparr>te_type = ''configuration'',
     te_message = ''Telemetry configuration error: '' @ error_message err, te_timestamp = now\<rparr>"

definition createOrUpdateTelemetryResource ::
  "'w kube \<Rightarrow> telemetry_config \<Rightarrow> ('w st, handler_result, unit) step" where
  "createOrUpdateTelemetryResource K config =
     and_then get_hc (\<lambda>hc.
     case validateTelemetryConfiguration hc of
       Some err \<Rightarrow>
         and_then (pick (k_now K)) (\<lambda>now.
         save_telemetry K (Some
           \<lparr>ts_state = HumioTelemetryStateConfigError, ts_last_collection_time = None, ts_last_export_time = None,
            ts_collection_errors = [], ts_export_errors = [telemetry_error_of err now], ts_resource_name = telemetryName hc\<rparr>))
     | None \<Rightarrow>
         (case tlc_url config of
            None \<Rightarrow> exit_with (empty_result, Some (Panic ''nil pointer dereference''))
          | Some (url, token) \<Rightarrow>
              and_then (observe (query (k_get_telemetry K (telemetryName hc) (hc_namespace hc)))) (\<lambda>r.
              case r of
                Inl err \<Rightarrow>
                  if \<not> is_not_found err
                  then exit_with (empty_result, Some (Wrap ''failed to get telemetry resource'' (Some err)))
                  else createTelemetryResource K config url token
              | Inr ht \<Rightarrow> updateTelemetryResource K config url token ht)))"

definition ensureTelemetryResource :: "'w kube \<Rightarrow> ('w st, handler_result, unit) step" where
  "ensureTelemetryResource K =
     and_then get_hc (\<lambda>hc.
     case hcs_telemetry (hc_spec hc) of
       None \<Rightarrow> cleanupTelemetryResource K
     | Some config \<Rightarrow> createOrUpdateTelemetryResource K config)"

section \<open>What they write\<close>

lemma creator_adds:
  assumes "creates_or_updates K CU" and "\<And>ob. P (CreateObject kind ob)" and "\<And>ob. P (UpdateObject kind ob)"
  shows "adds_only P (CU kind ob f)"
proof -
  let ?m = "and_then (observe (get_object K kind (ko_name ob) (ko_namespace ob))) (\<lambda>r.
     case r of Inl err \<Rightarrow> if is_not_found err then create_object K kind (f ob) else exit_with err
     | Inr existing \<Rightarrow> if f existing = existing then ret () else update_object K kind (f existing))"
  have "CU kind ob f = ?m"
    using assms(1)
    by (auto simp: creates_or_updates_def fun_eq_iff step_defs observe_def split: prod.split sum.split)
  moreover have "adds_only P ?m"
    by (intro trace_intros assms(2,3))
  ultimately show ?thesis by simp
qed

text \<open>
  A disruption budget is never updated. The mutation function of \<open>createOrUpdatePDB\<close> changes
  nothing, so when the budget of a pool exists, \<open>reconcileSinglePDB\<close> makes no mutating call, whatever the
  specification now asks for.
\<close>

lemma pdb_never_updated:
  assumes "creates_or_updates K CU" and "GetPodDisruptionBudget hnp = Some spec"
    and exists: "\<And>w. \<exists>ob. fst (k_get_object K PodDisruptionBudgetKind (GetPodDisruptionBudgetName hnp) (hc_namespace (hc_obj s)) w) = Inr ob"
  shows "calls (snd (reconcileSinglePDB K CU hnp s)) = calls s"
proof -
  let ?pdb = "constructPDB (hc_obj s) hnp spec"
  have quiet: "calls (snd (createOrUpdatePDB CU ?pdb t)) = calls t" for t
  proof -
    obtain ob where "fst (k_get_object K PodDisruptionBudgetKind (GetPodDisruptionBudgetName hnp) (hc_namespace (hc_obj s)) (server t)) = Inr ob"
      using exists by blast
    then show ?thesis
      using assms(1)
      by (simp add: createOrUpdatePDB_def log_error_def on_error_def creates_or_updates_def get_object_def query_def
          constructPDB_def)
  qed
  show ?thesis
    using assms(2) quiet
    by (simp add: reconcileSinglePDB_def and_then_def get_hc_def Let_def log_error_def on_error_def query_def exit_with_def
        ret_def split: prod.split sum.split)
qed

definition update_or_create :: "'w kube \<Rightarrow> 'w creator" where
  "update_or_create K kind ob f s =
     (case get_object K kind (ko_name ob) (ko_namespace ob) s of
        (Inl err, s') \<Rightarrow> if is_not_found err then create_object K kind (f ob) s' else (Inl err, s')
      | (Inr existing, s') \<Rightarrow> if f existing = existing then (Inr (), s') else update_object K kind (f existing) s')"

lemma creates_or_updates_update_or_create: "creates_or_updates K (update_or_create K)"
  by (simp add: creates_or_updates_def update_or_create_def)

definition budget_of_five :: pdb_spec where
  "budget_of_five = \<lparr>pdb_min_available = Some (IntVal 5), pdb_max_unavailable = None,
     pdb_unhealthy_pod_eviction_policy = None, pdb_enabled = True\<rparr>"

lemma pdb_never_updated_witness:
  "calls (snd (reconcileSinglePDB (mem_kube\<lparr>k_get_object := \<lambda>k n ns w. (Inr zero_object, w)\<rparr>)
       (update_or_create (mem_kube\<lparr>k_get_object := \<lambda>k n ns w. (Inr zero_object, w)\<rparr>))
       (empty_pool\<lparr>np_pod_disruption_budget := Some budget_of_five\<rparr>)
       (mem_state empty_world))) = []"
proof -
  let ?K = "mem_kube\<lparr>k_get_object := \<lambda>k n ns w. (Inr zero_object, w)\<rparr>"
  let ?p = "empty_pool\<lparr>np_pod_disruption_budget := Some budget_of_five\<rparr>"
  show ?thesis
    using pdb_never_updated [OF creates_or_updates_update_or_create [of ?K], of ?p _ "mem_state empty_world"]
    by (simp add: GetPodDisruptionBudget_def mem_state_def empty_pool_def empty_node_spec_def)
qed

end
