(* ===== verification/Cluster_Reconcile.thy ===== *)
theory Cluster_Reconcile
  imports Cluster_Extras
begin

text \<open>
  \<open>Reconcile\<close> of internal/controller/humiocluster_controller.go: the validation of the specification,
  the order of the handlers, the early returns and the deferred status writes. The node pools are
  pointers in the code, so a handler that fills the tracker of a pool hands the pool on.
\<close>

section \<open>Node pools\<close>

fun map_pools :: "(node_pool \<Rightarrow> ('s, 'r, node_pool) step) \<Rightarrow> node_pool list \<Rightarrow> ('s, 'r, node_pool list) step" where
  "map_pools f [] = ret []"
| "map_pools f (p # ps) = and_then (f p) (\<lambda>p. and_then (map_pools f ps) (\<lambda>ps. ret (p # ps)))"

text \<open>A loop over \<open>humioNodePools.Filter(NodePoolFilterHasNode)\<close>.\<close>

definition pools_with_nodes :: "(node_pool \<Rightarrow> ('s, 'r, node_pool) step) \<Rightarrow> node_pool list \<Rightarrow> ('s, 'r, node_pool list) step" where
  "pools_with_nodes f = map_pools (\<lambda>p. if NodePoolFilterHasNode p then f p else ret p)"

text \<open>A handler that leaves the pool as it is.\<close>

definition keep_pool_of :: "(node_pool \<Rightarrow> ('s, 'r, unit) step) \<Rightarrow> node_pool \<Rightarrow> ('s, 'r, node_pool) step" where
  "keep_pool_of f hnp = and_then (f hnp) (\<lambda>_. ret hnp)"

definition currentlyConfiguredNodePoolsInMaintenance :: "humio_cluster \<Rightarrow> node_pool list \<Rightarrow> node_pool list" where
  "currentlyConfiguredNodePoolsInMaintenance hc hnps =
     concat (map (\<lambda>pool.
       map (\<lambda>_. pool) (filter (\<lambda>poolStatus. nst_name poolStatus = GetNodePoolName pool \<and> nst_state poolStatus \<noteq> StateRunning)
                         (st_node_pool_status (hc_status hc)))) hnps)"

definition nodePoolAllowsMaintenanceOperations :: "humio_cluster \<Rightarrow> node_pool \<Rightarrow> node_pool list \<Rightarrow> bool" where
  "nodePoolAllowsMaintenanceOperations hc hnp hnps \<longleftrightarrow>
     (let poolsInMaintenance = currentlyConfiguredNodePoolsInMaintenance hc hnps in
      poolsInMaintenance = [] \<or> list_ex (\<lambda>p. GetNodePoolName hnp = GetNodePoolName p) poolsInMaintenance)"

definition if_allowed ::
  "node_pool list \<Rightarrow> (node_pool \<Rightarrow> ('w st, 'r, node_pool) step) \<Rightarrow> node_pool \<Rightarrow> ('w st, 'r, node_pool) step" where
  "if_allowed hnps f hnp =
     and_then get_hc (\<lambda>hc. if nodePoolAllowsMaintenanceOperations hc hnp hnps then f hnp else ret hnp)"

text \<open>The index of the first status entry of a pool that is not configured or has no nodes.\<close>

definition hasNoUnusedNodePoolStatus :: "humio_cluster \<Rightarrow> node_pool list \<Rightarrow> nat option" where
  "hasNoUnusedNodePoolStatus hc hnps =
     (let status = st_node_pool_status (hc_status hc) in
      find (\<lambda>idx. \<not> list_ex (\<lambda>pool. nst_name (status ! idx) = GetNodePoolName pool \<and> GetNodeCount pool > 0) hnps)
        [0..<length status])"

definition cleanupUnusedNodePoolStatus :: "nat \<Rightarrow> humio_cluster \<Rightarrow> humio_cluster" where
  "cleanupUnusedNodePoolStatus idx hc =
     update_hc_status (\<lambda>t. t\<lparr>st_node_pool_status :=
       take idx (st_node_pool_status t) @ drop (idx + 1) (st_node_pool_status t)\<rparr>) hc"

section \<open>Reporting errors\<close>

text \<open>A panic writes no status: the controller runtime recovers it and takes it for the error of the reconciliation.\<close>

definition unless_panic :: "(go_error \<Rightarrow> ('s, handler_result, 'a) step) \<Rightarrow> go_error \<Rightarrow> ('s, handler_result, 'a) step" where
  "unless_panic h err = (if is_panic err then exit_with (empty_result, Some err) else h err)"

text \<open>\<open>if err := f(); err != nil { return r.updateStatus(..., statusOptions().withMessage(err.Error())) }\<close>\<close>

definition report_message :: "'w kube \<Rightarrow> 'w retrier \<Rightarrow> ('w st, go_error, 'a) step \<Rightarrow> ('w st, handler_result, 'a) step" where
  "report_message K R m = on_error m (unless_panic (\<lambda>err. return_status K R (withMessage (error_message err) statusOptions)))"

text \<open>\<open>if err != nil { _, _ = r.updateStatus(...withMessage(err.Error())) }; return result, err\<close>\<close>

definition note_error :: "'w kube \<Rightarrow> 'w retrier \<Rightarrow> ('w st, handler_result, 'a) step \<Rightarrow> ('w st, handler_result, 'a) step" where
  "note_error K R m s =
     (case m s of
        (Inl (result, Some err), s') \<Rightarrow>
          (Inl (result, Some err),
           if is_panic err then s'
           else snd (updateStatus K R (withMessage (error_message err) statusOptions) s'))
      | out \<Rightarrow> out)"

definition report_invalid ::
  "'w kube \<Rightarrow> 'w retrier \<Rightarrow> ('w st, go_error, 'a) step \<Rightarrow> ('w st, handler_result, 'a) step" where
  "report_invalid K R m =
     on_error m (unless_panic (\<lambda>err.
       return_status K R (withState StateConfigError (withMessage (error_message err) statusOptions))))"

definition report_invalid_pool ::
  "'w kube \<Rightarrow> 'w retrier \<Rightarrow> node_pool \<Rightarrow> ('w st, go_error, 'a) step \<Rightarrow> ('w st, handler_result, 'a) step" where
  "report_invalid_pool K R pool m =
     on_error m (unless_panic (\<lambda>err. return_status K R
       (withNodePoolState StateConfigError (GetNodePoolName pool) (GetDesiredPodRevision pool) (GetDesiredPodHash pool)
          (GetDesiredBootstrapTokenHash pool) (GetZoneUnderMaintenance pool)
          (withMessage (error_message err) statusOptions))))"

section \<open>Validation\<close>

definition ensureValidHumioVersion :: "lib \<Rightarrow> node_pool \<Rightarrow> ('w st, go_error, node_pool) step" where
  "ensureValidHumioVersion L hnp =
     (let (img, hnp) = GetImage L hnp;
          hv = HumioVersionFromString L img
      in if hv_at_least_ok L hv HumioVersionMinimumSupported then ret hnp
         else case hv_string hv of
           Inl p \<Rightarrow> exit_with p
         | Inr v \<Rightarrow> exit_with (Wrap (''Humio version must be at least '' @ HumioVersionMinimumSupported)
                      (Some (Msg (''unsupported Humio version: '' @ v)))))"

definition errInvalidStorageConfiguration :: go_error where
  "errInvalidStorageConfiguration =
     Msg ''exactly one of dataVolumeSource and dataVolumePersistentVolumeClaimSpecTemplate must be set''"

definition ensureValidStorageConfiguration :: "node_pool \<Rightarrow> ('w st, go_error, unit) step" where
  "ensureValidStorageConfiguration hnp =
     (let no_source = GetDataVolumeSource hnp = empty_volume_source;
          no_template = ns_pvc_spec_template (np_spec hnp) = KObj []
      in if GetNodeCount hnp \<le> 0 then ret ()
         else if no_source \<and> no_template
         then exit_with (Wrap ''no storage configuration provided'' (Some errInvalidStorageConfiguration))
         else if \<not> no_source \<and> \<not> no_template
         then exit_with (Wrap ''conflicting storage configuration provided'' (Some errInvalidStorageConfiguration))
         else ret ())"

definition empty_attachments :: pod_attachments where
  "empty_attachments = \<lparr>pa_data_volume_source = empty_volume_source, pa_init_service_account_secret_name = [],
     pa_env_var_source_data = None, pa_bootstrap = \<lparr>bts_hash = [], bts_secret_reference = None\<rparr>\<rparr>"

definition validateInitialPodSpec :: "lib \<Rightarrow> node_pool \<Rightarrow> ('w st, go_error, node_pool) step" where
  "validateInitialPodSpec L hnp =
     (case ConstructPod L [] empty_attachments hnp of
        (Inl err, hnp) \<Rightarrow> exit_with (Wrap ''failed to validate pod spec'' (Some err))
      | (Inr _, hnp) \<Rightarrow> ret hnp)"

definition validateNodeCount :: "humio_cluster \<Rightarrow> node_pool list \<Rightarrow> ('w st, go_error, unit) step" where
  "validateNodeCount hc hnps =
     (if sum_list (map GetNodeCount hnps) < GetTargetReplicationFactor (NewHumioNodeManagerFromHumioCluster hc)
      then exit_with (Wrap ''node count must be equal to or greater than the target replication factor''
             (Some (Msg ''nodeCount is too low'')))
      else ret ())"

definition verify_pool :: "lib \<Rightarrow> 'w kube \<Rightarrow> 'w retrier \<Rightarrow> node_pool \<Rightarrow> ('w st, handler_result, node_pool) step" where
  "verify_pool L K R pool =
     and_then (report_invalid_pool K R pool (setImageFromSource K pool)) (\<lambda>pool.
     and_then (report_invalid_pool K R pool (ensureValidHumioVersion L pool)) (\<lambda>pool.
     and_then (report_invalid_pool K R pool (ensureValidStorageConfiguration pool)) (\<lambda>_.
     ret pool)))"

definition verifyHumioClusterConfigurationIsValid ::
  "lib \<Rightarrow> 'w kube \<Rightarrow> 'w retrier \<Rightarrow> node_pool list \<Rightarrow> ('w st, handler_result, node_pool list) step" where
  "verifyHumioClusterConfigurationIsValid L K R pools =
     and_then (pools_with_nodes (verify_pool L K R) pools) (\<lambda>pools.
     and_then (for_each (report_invalid K R)
       [ensureLicenseIsValid L K, ensureValidCASecret L K, ensureHeadlessServiceExists K,
        ensureInternalServiceExists K, validateUserDefinedServiceAccountsExists K]) (\<lambda>_.
     and_then (case filter NodePoolFilterHasNode pools of
         [] \<Rightarrow> ret ()
       | first # _ \<Rightarrow> report_invalid K R (ensureNodePoolSpecificResourcesHaveLabelWithNodePoolName L K first)) (\<lambda>_.
     and_then get_hc (\<lambda>hc.
     and_then (report_invalid K R (validateNodeCount hc pools)) (\<lambda>_.
     map_pools (\<lambda>pool. report_invalid_pool K R pool (validateInitialPodSpec L pool)) pools)))))"

definition ensureHumioClusterBootstrapToken :: "'w kube \<Rightarrow> ('w st, handler_result, unit) step" where
  "ensureHumioClusterBootstrapToken K =
     and_then get_hc (\<lambda>hc.
     and_then (as_result (log_error ''could not list HumioBootstrapToken''
                (ListHumioBootstrapTokens K (hc_namespace hc) (LabelsForHumioBootstrapToken (hc_name hc))))) (\<lambda>hbtList.
     case hbtList of
       hbt # _ \<Rightarrow> if bt_state hbt = HumioBootstrapTokenStateReady then ret ()
                  else exit_with (requeue_in (5 * second), None)
     | [] \<Rightarrow>
         and_then (as_result (log_error ''could not create bootstrap token resource''
                    (act CreateBootstrapToken (k_create_bootstrap_token K (hc_name hc) (hc_namespace hc))))) (\<lambda>_.
         exit_with (requeue_now, None))))"

section \<open>Status of the pods\<close>

definition pod_node_name :: "humio_cluster \<Rightarrow> node_pool \<Rightarrow> pod \<Rightarrow> string" where
  "pod_node_name hc pool pd =
     (if p_phase pd \<noteq> ''Running'' \<and> PVCsEnabled pool \<and> GetDataVolumePersistentVolumeClaimPolicy pool = OnNodeDelete
      then foldl (\<lambda>nodeName c. if hps_pod_name c = p_name pd \<and> hps_node_name c \<noteq> [] then hps_node_name c else nodeName)
             (ps_node_name (p_spec pd)) (st_pod_status (hc_status hc))
      else ps_node_name (p_spec pd))"

definition pod_pvc_name :: "node_pool \<Rightarrow> pod \<Rightarrow> string" where
  "pod_pvc_name pool pd =
     (if PVCsEnabled pool
      then foldl (\<lambda>pvcName v. if v_name v = HumioDataVolumeName
                              then (case vs_pvc (v_source v) of Some c \<Rightarrow> c | None \<Rightarrow> pvcName) else pvcName)
             [] (ps_volumes (p_spec pd))
      else [])"

definition pod_status_entry :: "humio_cluster \<Rightarrow> node_pool \<Rightarrow> pod \<Rightarrow> humio_pod_status" where
  "pod_status_entry hc pool pd =
     \<lparr>hps_pod_name = p_name pd, hps_pvc_name = pod_pvc_name pool pd, hps_node_name = pod_node_name hc pool pd\<rparr>"

text \<open>The list read so far is returned beside an error.\<close>

fun pod_status_loop ::
  "'w kube \<Rightarrow> humio_cluster \<Rightarrow> node_pool list \<Rightarrow> humio_pod_status list
     \<Rightarrow> ('w st, 'r, humio_pod_status list \<times> go_error option) step" where
  "pod_status_loop K hc [] podStatusList = ret (sort_key hps_pod_name podStatusList, None)"
| "pod_status_loop K hc (pool # pools) podStatusList =
     and_then (observe (query (k_list_pods K (GetNamespace pool) (GetNodePoolLabels pool)))) (\<lambda>r.
     case r of
       Inl err \<Rightarrow> ret (podStatusList, Some (Wrap ''unable to get pod status'' (Some err)))
     | Inr pods \<Rightarrow> pod_status_loop K hc pools (podStatusList @ map (pod_status_entry hc pool) pods))"

definition getPodStatusList ::
  "'w kube \<Rightarrow> node_pool list \<Rightarrow> ('w st, 'r, humio_pod_status list \<times> go_error option) step" where
  "getPodStatusList K hnps = and_then get_hc (\<lambda>hc. pod_status_loop K hc hnps [])"

definition nodePoolPodsReady :: "lib \<Rightarrow> 'w kube \<Rightarrow> node_pool \<Rightarrow> ('w st, go_error, bool) step" where
  "nodePoolPodsReady L K hnp =
     and_then (log_error ''failed to list pods'' (query (k_list_pods K (GetNamespace hnp) (GetNodePoolLabels hnp)))) (\<lambda>pods.
     and_then (log_error ''failed to get pod status'' (getPodsStatus L K hnp pods)) (\<lambda>(podsStatus, _).
     ret (\<not> waitingOnPods podsStatus)))"

section \<open>Cleaning up\<close>

definition delete_config_map :: "'w kube \<Rightarrow> 'w retrier \<Rightarrow> k8s_object \<Rightarrow> ('w st, handler_result, unit) step" where
  "delete_config_map K R ob = report_message K R (delete_object K ConfigMapKind ob)"

definition cleanup_pool :: "'w kube \<Rightarrow> 'w retrier \<Rightarrow> node_pool \<Rightarrow> ('w st, handler_result, unit) step" where
  "cleanup_pool K R hnp =
     and_then (report_message K R (ensureOrphanedPvcsAreDeleted K hnp)) (\<lambda>_.
     if GetExtraKafkaConfigs hnp \<noteq> [] then ret ()
     else
       and_then get_hc (\<lambda>hc.
       and_then (observe (get_object K ConfigMapKind (GetExtraKafkaConfigsConfigMapName hnp) (hc_namespace hc))) (\<lambda>r.
       case r of Inl _ \<Rightarrow> ret () | Inr ob \<Rightarrow> delete_config_map K R ob)))"

text \<open>The config map all pools share: the loop ends with the first deletion.\<close>

fun cleanup_shared ::
  "'w kube \<Rightarrow> 'w retrier \<Rightarrow> (node_pool \<Rightarrow> string) \<Rightarrow> (node_pool \<Rightarrow> string) \<Rightarrow> node_pool list
     \<Rightarrow> ('w st, handler_result, unit) step" where
  "cleanup_shared K R contents name [] = ret ()"
| "cleanup_shared K R contents name (hnp # hnps) =
     (if contents hnp \<noteq> [] then cleanup_shared K R contents name hnps
      else
        and_then get_hc (\<lambda>hc.
        and_then (observe (get_object K ConfigMapKind (name hnp) (hc_namespace hc))) (\<lambda>r.
        case r of Inl _ \<Rightarrow> cleanup_shared K R contents name hnps | Inr ob \<Rightarrow> delete_config_map K R ob)))"

definition cleanupUnusedResources ::
  "lib \<Rightarrow> 'w kube \<Rightarrow> 'w retrier \<Rightarrow> node_pool list \<Rightarrow> ('w st, handler_result, unit) step" where
  "cleanupUnusedResources L K R hnps =
     and_then (for_each (cleanup_pool K R) hnps) (\<lambda>_.
     and_then (cleanup_shared K R GetViewGroupPermissions GetViewGroupPermissionsConfigMapName hnps) (\<lambda>_.
     and_then (cleanup_shared K R GetRolePermissions GetRolePermissionsConfigMapName hnps) (\<lambda>_.
     and_then (for_each (\<lambda>p. report_message K R (cleanupUnusedService K p)) (filter NodePoolFilterDoesNotHaveNodes hnps)) (\<lambda>_.
     for_each (report_message K R)
       [cleanupUnusedTLSCertificates L K, cleanupUnusedTLSSecrets L K, cleanupUnusedCAIssuer L K]))))"

section \<open>Reconcile\<close>

text \<open>The deferred status writes; they read the cluster when they run.\<close>

definition write_generation :: "'w kube \<Rightarrow> 'w retrier \<Rightarrow> ('w st, unit, unit) step" where
  "write_generation K R =
     and_then get_hc (\<lambda>hc. ignoring (updateStatus K R (withObservedGeneration (hc_generation hc) statusOptions)))"

definition write_pod_status :: "'w kube \<Rightarrow> 'w retrier \<Rightarrow> node_pool list \<Rightarrow> ('w st, unit, unit) step" where
  "write_pod_status K R pools =
     and_then (getPodStatusList K (filter NodePoolFilterHasNode pools)) (\<lambda>(podStatusList, _).
     ignoring (updateStatus K R
       (withNodeCount (int (length podStatusList)) (withPods podStatusList statusOptions))))"

definition write_version :: "'w kube \<Rightarrow> 'w retrier \<Rightarrow> ('w st, unit, unit) step" where
  "write_version K R =
     and_then get_hc (\<lambda>hc.
     if st_state (hc_status hc) = StateRunning
     then and_then (observe (query (k_humio_version K))) (\<lambda>r.
          case r of
            Inl _ \<Rightarrow> ret ()
          | Inr version \<Rightarrow> ignoring (updateStatus K R (withVersion version statusOptions)))
     else ret ())"

definition check_duplicates :: "'w kube \<Rightarrow> 'w retrier \<Rightarrow> ('w st, handler_result, unit) step" where
  "check_duplicates K R =
     and_then get_hc (\<lambda>hc.
     let duplicateEnvVars = findDuplicateEnvVars (ns_environment_variables (hcs_node (hc_spec hc))) in
     if duplicateEnvVars = Map.empty then ret ()
     else return_status K R (withState StateConfigError
            (withMessage (GetDuplicateEnvVarsErrorMessage duplicateEnvVars) statusOptions)))"

definition start_running :: "'w kube \<Rightarrow> 'w retrier \<Rightarrow> ('w st, handler_result, unit) step" where
  "start_running K R =
     and_then get_hc (\<lambda>hc.
     if st_state (hc_status hc) = []
     then as_result (log_error ''unable to set cluster state'' (setState K R StateRunning))
     else ret ())"

definition drop_unused_pool_status :: "'w kube \<Rightarrow> 'w retrier \<Rightarrow> node_pool list \<Rightarrow> ('w st, handler_result, unit) step" where
  "drop_unused_pool_status K R pools =
     and_then get_hc (\<lambda>hc.
     case hasNoUnusedNodePoolStatus hc pools of
       None \<Rightarrow> ret ()
     | Some idx \<Rightarrow>
         and_then (set_hc (cleanupUnusedNodePoolStatus idx hc)) (\<lambda>_.
         and_then get_hc (\<lambda>hc.
         and_then (observe (updateStatus K R
                     (withNodePoolStatusList (st_node_pool_status (hc_status hc)) statusOptions))) (\<lambda>(result, err).
         case err of
           None \<Rightarrow> ret ()
         | Some err \<Rightarrow> exit_with (result, Some (Wrap ''unable to set cluster state'' (Some err)))))))"

definition cluster_objects :: "lib \<Rightarrow> 'w kube \<Rightarrow> 'w retrier \<Rightarrow> ('w st, handler_result, unit) step" where
  "cluster_objects L K R =
     for_each (report_message K R)
       [ensureValidCAIssuer L K, ensureHumioClusterCACertBundle L K, ensureHumioClusterKeystoreSecret L K,
        ensureNoIngressesIfIngressNotEnabled K, ensureIngress L K]"

definition pool_objects :: "lib \<Rightarrow> 'w kube \<Rightarrow> 'w retrier \<Rightarrow> 'w creator \<Rightarrow> node_pool \<Rightarrow> ('w st, handler_result, node_pool) step" where
  "pool_objects L K R CU pool =
     and_then (for_each (report_message K R)
       [ensureService K pool, ensureHumioPodPermissions K pool, ensureInitContainerPermissions K pool,
        ensureHumioNodeCertificates L K R pool]) (\<lambda>_.
     and_then (report_message K R (ensureExtraKafkaConfigsConfigMap L K pool)) (\<lambda>pool.
     and_then (report_message K R (logExtraKafkaConfigsDeprecationInfo L pool)) (\<lambda>pool.
     and_then (for_each (report_message K R)
       [ensureViewGroupPermissionsConfigMap K pool, ensureRolePermissionsConfigMap K pool,
        reconcileSinglePDB K CU pool]) (\<lambda>_.
     ret pool))))"

text \<open>
  The service account loop: an error of the handler leaves the reconciliation as well, and only the
  error of the status write is returned.
\<close>

definition restart_on_annotations :: "'w kube \<Rightarrow> 'w retrier \<Rightarrow> node_pool \<Rightarrow> ('w st, handler_result, unit) step" where
  "restart_on_annotations K R pool =
     and_then (observe (ensureHumioServiceAccountAnnotations K pool)) (\<lambda>r.
     if r = Inr False then ret ()
     else
       and_then get_hc (\<lambda>hc.
       let desiredPodRevision = (if r = Inr True then GetDesiredPodRevision pool + 1 else GetDesiredPodRevision pool) in
       and_then (observe (updateStatus K R (withNodePoolState (st_state (hc_status hc)) (GetNodePoolName pool)
                   desiredPodRevision (GetDesiredPodHash pool) (GetDesiredBootstrapTokenHash pool) [] statusOptions)))
         (\<lambda>(_, err). exit_with (requeue_now, err))))"

definition pool_claims :: "'w kube \<Rightarrow> 'w retrier \<Rightarrow> node_pool \<Rightarrow> ('w st, handler_result, unit) step" where
  "pool_claims K R pool =
     on_error (ensurePersistentVolumeClaimsExist K pool) (\<lambda>err.
       and_then get_hc (\<lambda>hc.
       let opts = (if st_state (hc_status hc) \<noteq> StateRestarting \<and> st_state (hc_status hc) \<noteq> StateUpgrading
                   then pool_state_options pool StatePending (GetZoneUnderMaintenance pool) else statusOptions)
       in return_status K R (withMessage (error_message err) opts)))"

definition wait_for_pods :: "lib \<Rightarrow> 'w kube \<Rightarrow> 'w retrier \<Rightarrow> node_pool \<Rightarrow> ('w st, handler_result, unit) step" where
  "wait_for_pods L K R pool =
     and_then (observe (nodePoolPodsReady L K pool)) (\<lambda>r.
     if r = Inr True then ret ()
     else
       and_then get_hc (\<lambda>hc.
       return_status K R
         (withMessage (case r of Inl err \<Rightarrow> error_message err | Inr _ \<Rightarrow> waitingOnPodsMessage)
           (withState (st_state (hc_status hc)) statusOptions))))"

text \<open>
  Any outcome of \<open>ensureLicenseAndAdminToken\<close> but an empty result without an error ends the
  reconciliation for 15 seconds, without an error.
\<close>

definition wait_for_license ::
  "lib \<Rightarrow> 'w kube \<Rightarrow> 'w retrier \<Rightarrow> node_pool list \<Rightarrow> ('w st, handler_result, unit) step" where
  "wait_for_license L K R pools =
     and_then get_hc (\<lambda>hc.
     if currentlyConfiguredNodePoolsInMaintenance hc (filter NodePoolFilterHasNode pools) \<noteq> [] then ret ()
     else
       and_then (observe (unless_done (ensureLicenseAndAdminToken L K R))) (\<lambda>r.
       case r of
         Inr _ \<Rightarrow> ret ()
       | Inl (_, err) \<Rightarrow>
           and_then (case err of
               None \<Rightarrow> ret ()
             | Some err \<Rightarrow> ignoring (updateStatus K R (withMessage
                 (error_message (Wrap ''unable to ensure license is installed and admin token is created'' (Some err)))
                 statusOptions))) (\<lambda>_.
           exit_with (requeue_in (15 * second), None))))"

definition downscale_pool ::
  "lib \<Rightarrow> 'w kube \<Rightarrow> 'w retrier \<Rightarrow> (string list \<Rightarrow> string list) \<Rightarrow> node_pool list \<Rightarrow> node_pool
     \<Rightarrow> ('w st, handler_result, node_pool) step" where
  "downscale_pool L K R visit pools pool =
     (let (enabled, pool) = IsDownscalingFeatureEnabled L pool in
      if enabled
      then if_allowed pools (keep_pool_of (\<lambda>pool. unless_done (note_error K R (processDownscaling L K visit pool)))) pool
      else ret pool)"

text \<open>An error of the telemetry handler without a requeue is only logged.\<close>

definition manage_telemetry :: "'w kube \<Rightarrow> ('w st, handler_result, unit) step" where
  "manage_telemetry K =
     and_then (observe (ensureTelemetryResource K)) (\<lambda>r.
     case r of
       Inl (result, _) \<Rightarrow> if result \<noteq> empty_result then exit_with (result, None) else ret ()
     | Inr _ \<Rightarrow> ret ())"

definition finish_reconcile ::
  "lib \<Rightarrow> 'w kube \<Rightarrow> 'w retrier \<Rightarrow> (string list \<Rightarrow> string list) \<Rightarrow> duration \<Rightarrow> node_pool list
     \<Rightarrow> ('w st, handler_result, unit) step" where
  "finish_reconcile L K R visit requeuePeriod pools =
     deferred (write_version K R)
       (and_then (pools_with_nodes (downscale_pool L K R visit pools) pools) (\<lambda>pools.
        and_then (unless_done (cleanupUnusedResources L K R pools)) (\<lambda>_.
        and_then (manage_telemetry K) (\<lambda>_.
        and_then get_hc (\<lambda>hc.
        return_status K R
          (withMessage [] (withRequeuePeriod requeuePeriod (withState (st_state (hc_status hc)) statusOptions))))))))"

definition connect :: "lib \<Rightarrow> 'w kube \<Rightarrow> 'w retrier \<Rightarrow> ('w st, handler_result, humio_config) step" where
  "connect L K R =
     and_then get_hc (\<lambda>hc.
     on_error (NewCluster L K (hc_name hc) [] (hc_namespace hc) (use_cert_manager L) True False) (\<lambda>err.
       return_status K R (withState StateConfigError
         (withMessage (error_message (Wrap ''unable to obtain humio client config'' (Some err))) statusOptions))))"

text \<open>From the removal of unused node pool states to the end, after which the pod states are written.\<close>

definition reconcile_pools ::
  "lib \<Rightarrow> 'w kube \<Rightarrow> 'w retrier \<Rightarrow> 'w creator \<Rightarrow> (string list \<Rightarrow> string list) \<Rightarrow> duration \<Rightarrow> node_pool list
     \<Rightarrow> ('w st, handler_result, unit) step" where
  "reconcile_pools L K R CU visit requeuePeriod pools =
     and_then (drop_unused_pool_status K R pools) (\<lambda>_.
     and_then (map_pools (if_allowed pools (ensureMismatchedPodsAreDeleted L K R)) pools) (\<lambda>pools.
     and_then (cluster_objects L K R) (\<lambda>_.
     and_then (pools_with_nodes (pool_objects L K R CU) pools) (\<lambda>pools.
     and_then (pools_with_nodes (keep_pool_of (restart_on_annotations K R)) pools) (\<lambda>pools.
     and_then (pools_with_nodes (keep_pool_of (pool_claims K R)) pools) (\<lambda>pools.
     and_then (pools_with_nodes (if_allowed pools (\<lambda>pool. note_error K R (ensurePodsExist L K pool))) pools) (\<lambda>pools.
     and_then (pools_with_nodes (if_allowed pools
       (keep_pool_of (\<lambda>pool. note_error K R (ensurePodsPatchedWithManagedFields K pool)))) pools) (\<lambda>pools.
     and_then (pools_with_nodes (keep_pool_of (wait_for_pods L K R)) pools) (\<lambda>pools.
     and_then (wait_for_license L K R pools) (\<lambda>_.
     and_then (connect L K R) (\<lambda>_.
     finish_reconcile L K R visit requeuePeriod pools)))))))))))"

definition reconcile_cluster ::
  "lib \<Rightarrow> 'w kube \<Rightarrow> 'w retrier \<Rightarrow> 'w creator \<Rightarrow> (string list \<Rightarrow> string list) \<Rightarrow> duration
     \<Rightarrow> ('w st, handler_result, unit) step" where
  "reconcile_cluster L K R CU visit requeuePeriod =
     and_then get_hc (\<lambda>hc.
     let pools = getHumioNodePoolManagers hc in
     deferred (write_generation K R)
       (and_then (check_duplicates K R) (\<lambda>_.
        and_then (verifyHumioClusterConfigurationIsValid L K R pools) (\<lambda>pools.
        and_then (start_running K R) (\<lambda>_.
        and_then (note_error K R (ensureHumioClusterBootstrapToken K)) (\<lambda>_.
        deferred (write_pod_status K R pools)
          (reconcile_pools L K R CU visit requeuePeriod pools)))))))"

definition Reconcile ::
  "lib \<Rightarrow> 'w kube \<Rightarrow> 'w retrier \<Rightarrow> 'w creator \<Rightarrow> (string list \<Rightarrow> string list) \<Rightarrow> duration
     \<Rightarrow> string \<Rightarrow> string \<Rightarrow> string \<Rightarrow> 'w st \<Rightarrow> handler_result \<times> 'w st" where
  "Reconcile L K R CU visit requeuePeriod onlyNamespace ns name s =
     (if onlyNamespace \<noteq> [] \<and> onlyNamespace \<noteq> ns then ((empty_result, None), s)
      else
        case query (k_get_cluster K name ns) s of
          (Inl err, s) \<Rightarrow> ((empty_result, if is_not_found err then None else Some err), s)
        | (Inr hc, s) \<Rightarrow>
            (case reconcile_cluster L K R CU visit requeuePeriod (s\<lparr>hc_obj := hc\<rparr>) of
               (Inl outcome, s) \<Rightarrow> (outcome, s)
             | (Inr _, s) \<Rightarrow> ((empty_result, None), s)))"

end
