(* ===== verification/Reconcile_Safety.thy ===== *)
theory Reconcile_Safety
  imports Cluster_Reconcile
begin

text \<open>
  What a whole reconciliation of a cluster may destroy. The handlers are composed as \<open>Reconcile\<close> composes
  them: the lemmas of the rollout, the downscaling, the orphaned claims and the license are put together, and
  every other handler is shown to leave pods, claims, nodes and licenses alone.
\<close>

section \<open>The pools of a cluster\<close>

text \<open>A pool of the cluster, but for its image, which may come from a config map, and its tracker.\<close>

definition configured :: "humio_cluster \<Rightarrow> node_pool \<Rightarrow> bool" where
  "configured hc q \<longleftrightarrow> (\<exists>p\<in>set (getHumioNodePoolManagers hc).
     \<exists>img t. q = p\<lparr>np_spec := (np_spec p)\<lparr>ns_image := img\<rparr>, np_tracker := t\<rparr>)"

lemma configured_manager: "p \<in> set (getHumioNodePoolManagers hc) \<Longrightarrow> configured hc p"
  unfolding configured_def
  by (rule bexI [of _ p], rule exI [of _ "ns_image (np_spec p)"], rule exI [of _ "np_tracker p"]) simp_all

lemma configured_same: "configured hc p \<Longrightarrow> same_pool p q \<Longrightarrow> configured hc q"
  unfolding configured_def same_pool_def
proof (elim bexE exE)
  fix p' i t t'
  assume "p' \<in> set (getHumioNodePoolManagers hc)" "p = p'\<lparr>np_spec := np_spec p'\<lparr>ns_image := i\<rparr>, np_tracker := t\<rparr>"
    "q = p\<lparr>np_tracker := t'\<rparr>"
  then show "\<exists>p'\<in>set (getHumioNodePoolManagers hc). \<exists>i t. q = p'\<lparr>np_spec := np_spec p'\<lparr>ns_image := i\<rparr>, np_tracker := t\<rparr>"
    by (intro bexI [of _ p'] exI [of _ i] exI [of _ t']) simp_all
qed

lemma configured_SetImage: "configured hc p \<Longrightarrow> configured hc (SetImage img p)"
  unfolding configured_def SetImage_def
proof (elim bexE exE)
  fix p' i t
  assume "p' \<in> set (getHumioNodePoolManagers hc)" and p: "p = p'\<lparr>np_spec := np_spec p'\<lparr>ns_image := i\<rparr>, np_tracker := t\<rparr>"
  then show "\<exists>p'\<in>set (getHumioNodePoolManagers hc). \<exists>i t.
      p\<lparr>np_spec := np_spec p\<lparr>ns_image := img\<rparr>\<rparr> = p'\<lparr>np_spec := np_spec p'\<lparr>ns_image := i\<rparr>, np_tracker := t\<rparr>"
    by (intro bexI [of _ p'] exI [of _ img] exI [of _ t]) simp_all
qed

lemma configured_name: "configured hc p \<Longrightarrow> hc_name hc \<noteq> [] \<Longrightarrow> GetNodePoolName p \<noteq> []"
  by (auto simp: configured_def getHumioNodePoolManagers_def NewHumioNodeManagerFromHumioCluster_def
      NewHumioNodeManagerFromHumioNodePool_def pool_from_def Let_def GetNodePoolName_def GetClusterName_def)

section \<open>Loops over pools\<close>

lemma map_pools_returns:
  "may_return (map_pools f ps) qs \<Longrightarrow> (\<And>p q. Q p \<Longrightarrow> may_return (f p) q \<Longrightarrow> Q q) \<Longrightarrow> list_all Q ps \<Longrightarrow> list_all Q qs"
  by (induction ps arbitrary: qs) (force dest!: may_return_and_then)+

lemma map_pools_adds:
  assumes "\<And>p. Q p \<Longrightarrow> adds_only P (f p)" and "list_all Q ps"
  shows "adds_only P (map_pools f ps)"
  using assms(2)
proof (induction ps)
  case (Cons p ps)
  then show ?case unfolding map_pools.simps by (intro trace_intros assms(1)) simp_all
qed (simp add: adds_only_simple)

lemma pools_with_nodes_adds:
  assumes "\<And>p. Q p \<Longrightarrow> adds_only P (f p)" and "list_all Q ps"
  shows "adds_only P (pools_with_nodes f ps)"
  unfolding pools_with_nodes_def by (rule map_pools_adds [OF _ assms(2)]) (intro trace_intros assms(1))

lemma pools_with_nodes_returns:
  assumes "may_return (pools_with_nodes f ps) qs" and "\<And>p q. Q p \<Longrightarrow> may_return (f p) q \<Longrightarrow> Q q" and "list_all Q ps"
  shows "list_all Q qs"
  using assms(1) unfolding pools_with_nodes_def
  by (rule map_pools_returns) (use assms(2,3) in \<open>auto split: if_splits\<close>)

text \<open>The rules the reconciliation uses: a loop over configured pools, then the rest with configured pools.\<close>

lemma pools_then_adds:
  assumes "\<And>p. Q p \<Longrightarrow> adds_only P (f p)" and "\<And>p q. Q p \<Longrightarrow> may_return (f p) q \<Longrightarrow> Q q" and "list_all Q ps"
    and rest: "\<And>qs. list_all Q qs \<Longrightarrow> adds_only P (g qs)"
  shows "adds_only P (and_then (pools_with_nodes f ps) g)"
proof (rule adds_only_and_then_returned)
  show "adds_only P (pools_with_nodes f ps)" using assms(1,3) by (rule pools_with_nodes_adds)
  fix qs
  assume "may_return (pools_with_nodes f ps) qs"
  then have "list_all Q qs" by (rule pools_with_nodes_returns) (fact assms)+
  then show "adds_only P (g qs)" by (rule rest)
qed

lemma map_then_adds:
  assumes "\<And>p. Q p \<Longrightarrow> adds_only P (f p)" and "\<And>p q. Q p \<Longrightarrow> may_return (f p) q \<Longrightarrow> Q q" and "list_all Q ps"
    and rest: "\<And>qs. list_all Q qs \<Longrightarrow> adds_only P (g qs)"
  shows "adds_only P (and_then (map_pools f ps) g)"
proof (rule adds_only_and_then_returned)
  show "adds_only P (map_pools f ps)" using assms(1,3) by (rule map_pools_adds)
  fix qs
  assume "may_return (map_pools f ps) qs"
  then have "list_all Q qs" by (rule map_pools_returns) (fact assms)+
  then show "adds_only P (g qs)" by (rule rest)
qed

lemma keep_pool_of_returns: "may_return (keep_pool_of f p) q \<Longrightarrow> q = p"
  by (auto simp: keep_pool_of_def dest!: may_return_and_then)

lemma if_allowed_returns: "may_return (if_allowed hnps f p) q \<Longrightarrow> may_return (f p) q \<or> q = p"
  by (auto simp: if_allowed_def dest!: may_return_and_then split: if_splits)

lemma note_error_returns: "may_return (note_error K R m) q \<Longrightarrow> may_return m q"
  unfolding may_return_def note_error_def
proof (elim exE)
  fix s s'
  assume run: "(case m s of
         (Inl (result, Some err), s') \<Rightarrow>
           (Inl (result, Some err), if is_panic err then s'
            else snd (updateStatus K R (withMessage (error_message err) statusOptions) s'))
       | out \<Rightarrow> out) = (Inr q, s')"
  obtain r t where "m s = (r, t)" by fastforce
  with run have "r = Inr q" by (auto split: sum.splits prod.splits option.splits)
  with \<open>m s = (r, t)\<close> show "\<exists>s s'. m s = (Inr q, s')" by blast
qed

lemma returns_unless_error:
  "may_return (report_message K R m) a \<Longrightarrow> may_return m a"
  "may_return (report_invalid K R m) a \<Longrightarrow> may_return m a"
  "may_return (report_invalid_pool K R p m) a \<Longrightarrow> may_return m a"
  by (auto simp: report_message_def report_invalid_def report_invalid_pool_def may_return_def on_error_Inr
      unless_panic_def return_status_def exit_with_def and_then_Inr split: if_splits)

section \<open>Handlers that leave workloads alone\<close>

definition harmless :: "api_call \<Rightarrow> bool" where
  "harmless c \<longleftrightarrow> (case c of DeletePod _ \<Rightarrow> False | CreatePod _ \<Rightarrow> False | DeletePvc _ \<Rightarrow> False | SetEvicted _ _ \<Rightarrow> False
     | Unregister _ \<Rightarrow> False | InstallLicense _ \<Rightarrow> False | AddUser _ \<Rightarrow> False | RotateToken _ \<Rightarrow> False | _ \<Rightarrow> True)"

lemma harmless_simps [simp]:
  "harmless (UpdateStatus hc)" "harmless (UpdatePod pd)" "harmless (PatchPod n sp)" "harmless (CreatePvc n)"
  "harmless (UpdatePvc c)" "harmless CreateBootstrapToken" "harmless (CreateObject k ob)"
  "harmless (UpdateObject k ob)" "harmless (DeleteObject k ob)" "harmless (CreateTelemetry t)"
  "harmless (UpdateTelemetry t)" "harmless (DeleteTelemetry t)"
  by (simp_all add: harmless_def)

named_theorems harmless_intros \<open>handlers that make harmless calls only\<close>

lemma write_status_harmless [harmless_intros]: "adds_only harmless (write_status K)"
  unfolding write_status_def by (intro trace_intros) simp

lemma updateStatus_harmless [harmless_intros]: "retries R \<Longrightarrow> adds_only harmless (updateStatus K R opts)"
  by (rule updateStatus_adds) simp_all

lemma return_status_harmless [harmless_intros]: "retries R \<Longrightarrow> adds_only harmless (return_status K R opts)"
  unfolding return_status_def by (intro trace_intros harmless_intros)

lemma objects_harmless [harmless_intros]:
  "adds_only harmless (create_object K k ob)" "adds_only harmless (update_object K k ob)"
  "adds_only harmless (delete_object K k ob)"
  by (intro trace_intros; simp)+

lemma setState_harmless [harmless_intros]:
  assumes "retries R"
  shows "adds_only harmless (setState K R state)"
proof -
  have "adds_only harmless (set_state_attempt K state)"
    unfolding set_state_attempt_def getLatestHumioCluster_def by (intro trace_intros harmless_intros)
  then show ?thesis
    unfolding setState_def setStateOptimistically_def
    by (intro trace_intros harmless_intros adds_only_retry [OF assms])
qed

lemma image_source_harmless [harmless_intros]: "adds_only harmless (setImageFromSource K p)"
  unfolding setImageFromSource_def by (intro trace_intros)

lemma validation_harmless [harmless_intros]:
  "adds_only harmless (ensureValidHumioVersion L p)" "adds_only harmless (ensureValidStorageConfiguration p)"
  "adds_only harmless (validateInitialPodSpec L p)" "adds_only harmless (validateNodeCount hc ps)"
  "adds_only harmless (ensureLicenseIsValid L K)" "adds_only harmless (validateUserDefinedServiceAccountsExists K)"
  unfolding ensureValidHumioVersion_def ensureValidStorageConfiguration_def validateInitialPodSpec_def validateNodeCount_def
    ensureLicenseIsValid_def validateUserDefinedServiceAccountsExists_def validate_account_def Let_def
  by (intro trace_intros)+

lemma config_map_harmless [harmless_intros]: "adds_only harmless (ensure_config_map K what ob)"
  unfolding ensure_config_map_def by (intro trace_intros harmless_intros)

lemma config_maps_harmless [harmless_intros]:
  "adds_only harmless (ensureExtraKafkaConfigsConfigMap L K p)" "adds_only harmless (ensureViewGroupPermissionsConfigMap K p)"
  "adds_only harmless (ensureRolePermissionsConfigMap K p)" "adds_only harmless (logExtraKafkaConfigsDeprecationInfo L p)"
  unfolding ensureExtraKafkaConfigsConfigMap_def ensureViewGroupPermissionsConfigMap_def ensureRolePermissionsConfigMap_def
    logExtraKafkaConfigsDeprecationInfo_def Let_def
  by (intro trace_intros harmless_intros)+

lemma ingress_harmless [harmless_intros]:
  "adds_only harmless (ensureNoIngressesIfIngressNotEnabled K)" "adds_only harmless (ensureIngress L K)"
proof -
  have "adds_only harmless (hostname_of K field ns h src)" for field ns h src
    unfolding hostname_of_def by (intro trace_intros)
  then have names: "adds_only harmless (getHumioHostnames K)"
    unfolding getHumioHostnames_def by (intro trace_intros)
  have "adds_only harmless (ensure_one_ingress K ns ob)" for ns ob
    unfolding ensure_one_ingress_def Let_def by (intro trace_intros harmless_intros)
  then show "adds_only harmless (ensureIngress L K)"
    unfolding ensureIngress_def ensureNginxIngress_def Let_def by (intro trace_intros harmless_intros names)
  show "adds_only harmless (ensureNoIngressesIfIngressNotEnabled K)"
    unfolding ensureNoIngressesIfIngressNotEnabled_def by (intro trace_intros harmless_intros)
qed

lemma services_harmless [harmless_intros]:
  "adds_only harmless (ensureService K p)" "adds_only harmless (ensureHeadlessServiceExists K)"
  "adds_only harmless (ensureInternalServiceExists K)" "adds_only harmless (cleanupUnusedService K p)"
  unfolding ensureService_def ensureHeadlessServiceExists_def ensureInternalServiceExists_def cleanupUnusedService_def
    ensure_service_def Let_def
  by (intro trace_intros harmless_intros)+

lemma account_harmless [harmless_intros]:
  "adds_only harmless (ensureServiceAccountExists K p n a)" "adds_only harmless (ensureServiceAccountSecretExists K p sec n)"
proof -
  have ex: "adds_only harmless (serviceAccountExists K ns n)" for ns n
    unfolding serviceAccountExists_def by (intro trace_intros)
  show "adds_only harmless (ensureServiceAccountExists K p n a)"
    unfolding ensureServiceAccountExists_def by (intro trace_intros harmless_intros ex)
  have "adds_only harmless (wait_new_secret K p c n i)" for c n i
    by (induction i) (auto intro!: trace_intros)
  then show "adds_only harmless (ensureServiceAccountSecretExists K p sec n)"
    unfolding ensureServiceAccountSecretExists_def waitForNewSecret_def Let_def by (intro trace_intros harmless_intros ex)
qed

lemma permissions_harmless [harmless_intros]:
  "adds_only harmless (ensureHumioPodPermissions K p)" "adds_only harmless (ensureInitContainerPermissions K p)"
  "adds_only harmless (ensureHumioServiceAccountAnnotations K p)"
  unfolding ensureHumioPodPermissions_def ensureInitContainerPermissions_def ensureInitClusterRole_def
    ensureInitClusterRoleBinding_def ensure_role_def ensureHumioServiceAccountAnnotations_def Let_def
  by (intro trace_intros harmless_intros)+

lemma labels_harmless [harmless_intros]: "adds_only harmless (ensureNodePoolSpecificResourcesHaveLabelWithNodePoolName L K p)"
proof -
  have ob: "adds_only harmless (label_object K kind p m ob)" for kind m ob
    unfolding label_object_def by (intro trace_intros harmless_intros)
  then have "adds_only harmless (label_single K kind n ns p m)" for kind n ns m
    unfolding label_single_def by (intro trace_intros)
  moreover have "adds_only harmless (label_pods K p)" "adds_only harmless (label_pvcs K p)"
    "adds_only harmless (label_certificates L K p)"
    unfolding label_pods_def label_pvcs_def label_certificates_def Let_def by (intro trace_intros ob; simp)+
  ultimately show ?thesis
    unfolding ensureNodePoolSpecificResourcesHaveLabelWithNodePoolName_def Let_def by (intro trace_intros)
qed

lemma tls_harmless [harmless_intros]:
  "adds_only harmless (ensureValidCAIssuer L K)" "adds_only harmless (ensureValidCASecret L K)"
  "adds_only harmless (ensureHumioClusterKeystoreSecret L K)" "adds_only harmless (ensureHumioClusterCACertBundle L K)"
  unfolding ensureValidCAIssuer_def ensureValidCASecret_def ensureHumioClusterKeystoreSecret_def
    ensureHumioClusterCACertBundle_def validCAIssuer_def validCASecret_def Let_def
  by (intro trace_intros harmless_intros)+

lemma certificates_harmless [harmless_intros]:
  assumes "retries R"
  shows "adds_only harmless (ensureHumioNodeCertificates L K R p)"
proof -
  have one: "adds_only harmless (update_certificate L K p c)" for c
    unfolding update_certificate_def by (intro trace_intros harmless_intros)
  have "adds_only harmless (update_certificates L K R p cs n)" for cs n
  proof (induction cs arbitrary: n)
    case (Cons c cs)
    show ?case unfolding update_certificates.simps by (intro trace_intros adds_only_retry [OF assms] one Cons)
  qed (simp add: adds_only_simple)
  then have count: "adds_only harmless (updateNodeCertificates L K R p)"
    unfolding updateNodeCertificates_def by (intro trace_intros)
  have "adds_only harmless (wait_node_certificate L K R p n i)" for n i
    by (induction i) (auto intro!: trace_intros count)
  then show ?thesis
    unfolding ensureHumioNodeCertificates_def create_node_certificate_def waitForNewNodeCertificate_def Let_def
    by (intro trace_intros harmless_intros count)
qed

lemma tls_cleanup_harmless [harmless_intros]:
  "adds_only harmless (cleanupUnusedTLSSecrets L K)" "adds_only harmless (cleanupUnusedTLSCertificates L K)"
  "adds_only harmless (cleanupUnusedCAIssuer L K)"
proof -
  have "adds_only harmless (clean_tls_secrets L K hc obs)" for hc obs
    by (induction obs) (auto intro!: trace_intros harmless_intros in_use_quiet)
  then show "adds_only harmless (cleanupUnusedTLSSecrets L K)"
    unfolding cleanupUnusedTLSSecrets_def by (intro trace_intros)
  have "adds_only harmless (clean_tls_certificates K hc obs)" for hc obs
    by (induction obs) (auto intro!: trace_intros harmless_intros in_use_quiet)
  then show "adds_only harmless (cleanupUnusedTLSCertificates L K)"
    unfolding cleanupUnusedTLSCertificates_def by (intro trace_intros)
  show "adds_only harmless (cleanupUnusedCAIssuer L K)"
    unfolding cleanupUnusedCAIssuer_def by (intro trace_intros harmless_intros)
qed

lemma claims_harmless [harmless_intros]: "adds_only harmless (ensurePersistentVolumeClaimsExist K p)"
proof -
  have "adds_only harmless (waitForNewPvc_loop K p n i)" for n i
    by (induction i) (auto intro!: trace_intros)
  then show ?thesis
    unfolding ensurePersistentVolumeClaimsExist_def waitForNewPvc_def constructPersistentVolumeClaim_name_def
      FilterSchedulablePVCs_def pvc_schedulable_def
    by (intro trace_intros adds_only_filter_step) simp
qed

lemma budget_harmless [harmless_intros]:
  assumes "creates_or_updates K CU"
  shows "adds_only harmless (reconcileSinglePDB K CU p)"
proof -
  have "adds_only harmless (CU PodDisruptionBudgetKind ob f)" for ob f
    using assms by (rule creator_adds) simp_all
  then show ?thesis
    unfolding reconcileSinglePDB_def createOrUpdatePDB_def Let_def
    by (intro trace_intros harmless_intros(1) objects_harmless)
qed

lemma telemetry_harmless [harmless_intros]: "adds_only harmless (ensureTelemetryResource K)"
proof -
  have "adds_only harmless (save_telemetry K t)" for t
    unfolding save_telemetry_def by (intro trace_intros harmless_intros)
  then show ?thesis
    unfolding ensureTelemetryResource_def cleanupTelemetryResource_def createOrUpdateTelemetryResource_def
      createTelemetryResource_def updateTelemetryResource_def Let_def split_beta
    by (intro adds_only_as_result trace_intros) simp_all
qed

lemma bootstrap_harmless [harmless_intros]: "adds_only harmless (ensureHumioClusterBootstrapToken K)"
  unfolding ensureHumioClusterBootstrapToken_def by (intro adds_only_as_result trace_intros) simp

lemma patch_harmless [harmless_intros]: "adds_only harmless (ensurePodsPatchedWithManagedFields K p)"
proof -
  have "adds_only harmless (patch_first K p pods)" for pods
    by (induction pods) (auto intro!: trace_intros)
  then show ?thesis
    unfolding ensurePodsPatchedWithManagedFields_def by (intro trace_intros)
qed

lemma pods_ready_harmless [harmless_intros]: "adds_only harmless (nodePoolPodsReady L K p)"
  unfolding nodePoolPodsReady_def by (intro trace_intros getPodsStatus_quiet)

lemma pod_status_harmless [harmless_intros]: "adds_only harmless (getPodStatusList K ps)"
proof -
  have "adds_only harmless (pod_status_loop K hc ps l)" for hc l
    by (induction ps arbitrary: l) (auto intro!: trace_intros split: sum.split)
  then show ?thesis unfolding getPodStatusList_def by (intro trace_intros)
qed

section \<open>Justified calls\<close>

text \<open>
  A pod is deleted by the rollout of a configured pool, or by the downscaling once its data is elsewhere; a
  claim is deleted when the cluster lost its node and a configured pool allows it; a LogScale node is
  unregistered when it is reported dead; a license is installed and a user added when they are missing.
\<close>

definition justified :: "lib \<Rightarrow> 'w kube \<Rightarrow> humio_cluster \<Rightarrow> api_call \<Rightarrow> bool" where
  "justified L K hc c \<longleftrightarrow>
     (case c of
        DeletePod pd \<Rightarrow> (\<exists>p. configured hc p \<and> replaceable L p pd) \<or> downscale_call K c
      | DeletePvc v \<Rightarrow> (\<exists>p. configured hc p \<and> OkToDeletePvc p) \<and> (\<exists>now. deletes_lost_claim K now c)
      | Unregister v \<Rightarrow> reported_dead K v
      | InstallLicense _ \<Rightarrow> license_call L K c
      | AddUser _ \<Rightarrow> license_call L K c
      | _ \<Rightarrow> True)"

lemma justified_simps [simp]:
  "justified L K hc (UpdateStatus hc')" "justified L K hc (CreatePod pd)" "justified L K hc (DeleteObject k ob)"
  by (simp_all add: justified_def)

lemma justified_cases:
  "harmless c \<Longrightarrow> justified L K hc c"
  "downscale_call K c \<Longrightarrow> justified L K hc c"
  "license_call L K c \<Longrightarrow> justified L K hc c"
  "configured hc p \<Longrightarrow> rollout_call L p c \<Longrightarrow> justified L K hc c"
  by (cases c; simp add: justified_def harmless_def downscale_call_def license_call_def rollout_call_def; blast)+

lemma justified_if:
  "adds_only harmless m \<Longrightarrow> adds_only (justified L K hc) m"
  "adds_only (downscale_call K) m \<Longrightarrow> adds_only (justified L K hc) m"
  "adds_only (license_call L K) m \<Longrightarrow> adds_only (justified L K hc) m"
  "configured hc p \<Longrightarrow> adds_only (rollout_call L p) m \<Longrightarrow> adds_only (justified L K hc) m"
  by (erule adds_only_weaken; rule justified_cases; assumption)+

lemma orphaned_justified:
  fixes K :: "'w kube"
  assumes "configured hc p"
  shows "adds_only (justified L K hc) (ensureOrphanedPvcsAreDeleted K p)"
  unfolding adds_only_def
proof (rule emitsI)
  fix s :: "'w st"
  have "adds_from (hc_is (hc_obj s)) (\<lambda>c. OkToDeletePvc p \<and> deletes_lost_claim K (hc_obj s) c) (ensureOrphanedPvcsAreDeleted K p)"
    by (rule orphaned_adds_from)
  then obtain cs where "calls (snd (ensureOrphanedPvcsAreDeleted K p s)) = calls s @ cs"
    and all: "list_all (\<lambda>c. OkToDeletePvc p \<and> deletes_lost_claim K (hc_obj s) c) cs"
    by (auto simp: adds_from_def hc_is_def)
  moreover have "OkToDeletePvc p \<and> deletes_lost_claim K (hc_obj s) c \<Longrightarrow> justified L K hc c" for c
    using assms by (auto simp: justified_def deletes_lost_claim_def)
  ultimately show "\<exists>cs. calls (snd (ensureOrphanedPvcsAreDeleted K p s)) = calls s @ cs \<and> list_all (justified L K hc) cs"
    by (auto simp: list_all_iff)
qed

lemma note_error_adds:
  assumes "retries R" and "\<And>hc. P (UpdateStatus hc)" and "adds_only P m"
  shows "adds_only P (note_error K R m)"
proof -
  let ?n = "\<lambda>r. case r of
      Inl (result, Some err) \<Rightarrow>
        and_then (if is_panic err then ret () else ignoring (updateStatus K R (withMessage (error_message err) statusOptions)))
          (\<lambda>_. exit_with (result, Some err))
    | Inl (result, None) \<Rightarrow> exit_with (result, None) | Inr a \<Rightarrow> ret a"
  have "note_error K R m = and_then (observe m) ?n"
    by (auto simp: fun_eq_iff note_error_def observe_def step_defs ignoring_def split: prod.split sum.split option.split)
  moreover have "adds_only P (and_then (observe m) ?n)"
    by (intro trace_intros updateStatus_adds assms)
  ultimately show ?thesis by simp
qed

lemma report_adds:
  assumes "retries R" and "\<And>hc. P (UpdateStatus hc)" and "adds_only P m"
  shows "adds_only P (report_message K R m)" "adds_only P (report_invalid K R m)"
    "adds_only P (report_invalid_pool K R p m)"
  unfolding report_message_def report_invalid_def report_invalid_pool_def unless_panic_def return_status_def
  by (intro trace_intros updateStatus_adds assms)+

lemma pods_exist_justified: "adds_only (justified L K hc) (ensurePodsExist L K p)"
proof -
  have one: "adds_only (justified L K hc) (createPod L K h att new)" for h att new
    using createPod_emits [of att L K h new] unfolding adds_only_def by (rule emits_mono) auto
  have "adds_only (justified L K hc) (create_pods L K pods n new inUse h)" for pods n new inUse h
    by (induction n arbitrary: new inUse h) (auto intro!: trace_intros newPodAttachments_quiet one)
  then show ?thesis
    unfolding ensurePodsExist_def by (intro trace_intros waitForNewPods_quiet)
qed

lemma cleanup_justified:
  assumes "retries R" and pools: "list_all (configured hc) ps"
  shows "adds_only (justified L K hc) (cleanupUnusedResources L K R ps)"
proof -
  let ?P = "justified L K hc"
  note report = report_adds(1) [OF assms(1), where P = ?P, OF justified_simps(1)]
  have "adds_only ?P (delete_object K ConfigMapKind ob)" for ob
    by (intro trace_intros) simp
  then have delete: "adds_only ?P (delete_config_map K R ob)" for ob
    unfolding delete_config_map_def by (rule report)
  have pool: "adds_only ?P (cleanup_pool K R p)" if "p \<in> set ps" for p
    unfolding cleanup_pool_def
    by (intro trace_intros report orphaned_justified delete) (use pools that in \<open>simp add: list_all_iff\<close>)
  have shared: "adds_only ?P (cleanup_shared K R f g qs)" for f g qs
  proof (induction qs)
    case (Cons q qs)
    show ?case unfolding cleanup_shared.simps by (intro trace_intros delete Cons)
  qed (simp add: adds_only_simple)
  have service: "adds_only ?P (report_message K R (cleanupUnusedService K p))" for p
    by (intro report justified_if(1) services_harmless)
  have tls: "adds_only ?P (report_message K R m)"
    if "m \<in> set [cleanupUnusedTLSCertificates L K, cleanupUnusedTLSSecrets L K, cleanupUnusedCAIssuer L K]" for m
    by (intro report justified_if(1)) (use that in \<open>auto intro: tls_cleanup_harmless\<close>)
  show ?thesis
    unfolding cleanupUnusedResources_def by (intro trace_intros pool shared service tls)
qed

section \<open>What the handlers make of a pool\<close>

lemma GetImage_configured: "configured hc p \<Longrightarrow> configured hc (snd (GetImage L p))"
  by (rule configured_same [OF _ GetImage_same])

lemma verify_pool_configured:
  assumes "configured hc p" and "may_return (verify_pool L K R p) q"
  shows "configured hc q"
proof -
  obtain p1 p2 where 1: "may_return (report_invalid_pool K R p (setImageFromSource K p)) p1"
    and 2: "may_return (report_invalid_pool K R p1 (ensureValidHumioVersion L p1)) p2" and q: "q = p2"
    using assms(2) by (auto simp: verify_pool_def dest!: may_return_and_then)
  have "configured hc p1"
    using returns_unless_error(3) [OF 1] assms(1)
    by (auto simp: setImageFromSource_def configured_SetImage split: option.splits dest!: may_return_and_then)
  then have "configured hc (snd (GetImage L p1))" by (rule GetImage_configured)
  then show ?thesis
    using returns_unless_error(3) [OF 2] q
    by (auto simp: ensureValidHumioVersion_def split_beta Let_def split: if_splits sum.splits)
qed

lemma initial_spec_configured:
  assumes "configured hc p" and "may_return (report_invalid_pool K R p' (validateInitialPodSpec L p)) q"
  shows "configured hc q"
  using configured_same [OF assms(1) ConstructPod_same [of p L "[]" empty_attachments]]
    returns_unless_error(3) [OF assms(2)]
  by (auto simp: validateInitialPodSpec_def split: prod.splits sum.splits)

lemma rollout_configured:
  assumes "configured hc p" and "may_return (ensureMismatchedPodsAreDeleted L K R p) q"
  shows "configured hc q"
proof -
  obtain ls d ps att b where "may_return (getPodDesiredLifecycleState L K p ps att b) ((ls, d), q)"
    using assms(2)
    by (auto simp: ensureMismatchedPodsAreDeleted_def may_return_on_error_exit Let_def dest!: may_return_and_then)
  then have "same_pool p q" using getPodDesired_desired(2) by (auto simp: may_return_def)
  with assms(1) show ?thesis by (rule configured_same)
qed

lemma kafka_configured: "configured hc p \<Longrightarrow> configured hc (snd (ShouldUseExtraKafkaConfigsFile L p))"
  using GetImage_configured [of hc p L] by (simp add: ShouldUseExtraKafkaConfigsFile_def split_beta Let_def)

lemma pool_objects_configured:
  assumes "configured hc p" and "may_return (pool_objects L K R CU p) q"
  shows "configured hc q"
proof -
  obtain p1 where 1: "may_return (report_message K R (ensureExtraKafkaConfigsConfigMap L K p)) p1"
    and 2: "may_return (report_message K R (logExtraKafkaConfigsDeprecationInfo L p1)) q"
    using assms(2) by (auto simp: pool_objects_def dest!: may_return_and_then)
  have p1: "configured hc p1"
    using returns_unless_error(1) [OF 1] kafka_configured [OF assms(1), of L] assms(1)
    by (auto simp: ensureExtraKafkaConfigsConfigMap_def split_beta Let_def split: if_splits dest!: may_return_and_then)
  show ?thesis
    using returns_unless_error(1) [OF 2] GetImage_configured [OF p1, of L] p1
    by (auto simp: logExtraKafkaConfigsDeprecationInfo_def split_beta Let_def split: if_splits option.splits)
qed

lemma pods_exist_configured: "may_return (ensurePodsExist L K p) q \<Longrightarrow> q = p"
  by (auto simp: ensurePodsExist_def split_beta split: if_splits dest!: may_return_and_then)

lemma downscale_configured:
  "configured hc p \<Longrightarrow> may_return (downscale_pool L K R visit ps p) q \<Longrightarrow> configured hc q"
  using GetImage_configured [of hc p L]
  by (auto simp: downscale_pool_def IsDownscalingFeatureEnabled_def split_beta Let_def split: if_splits
      dest!: if_allowed_returns keep_pool_of_returns)

lemma keep_pool_configured: "configured hc p \<Longrightarrow> may_return (keep_pool_of f p) q \<Longrightarrow> configured hc q"
  by (auto dest: keep_pool_of_returns)

lemma allowed_configured:
  assumes "configured hc p" and "may_return (if_allowed qs f p) q" and "may_return (f p) q \<Longrightarrow> configured hc q"
  shows "configured hc q"
  using if_allowed_returns [OF assms(2)] assms(1,3) by auto

lemma patched_configured:
  "configured hc p \<Longrightarrow> may_return (if_allowed qs (keep_pool_of f) p) q \<Longrightarrow> configured hc q"
  by (rule allowed_configured, assumption+) (rule keep_pool_configured)

lemma exist_configured:
  assumes "configured hc p" and "may_return (if_allowed qs (\<lambda>p. note_error K R (ensurePodsExist L K p)) p) q"
  shows "configured hc q"
proof (rule allowed_configured [OF assms])
  assume "may_return (note_error K R (ensurePodsExist L K p)) q"
  then have "q = p" by (rule pods_exist_configured [OF note_error_returns])
  with assms(1) show "configured hc q" by simp
qed

lemma rolled_configured:
  "configured hc p \<Longrightarrow> may_return (if_allowed qs (ensureMismatchedPodsAreDeleted L K R) p) q \<Longrightarrow> configured hc q"
  by (rule allowed_configured, assumption+) (rule rollout_configured)

section \<open>The composition\<close>

lemma allowed_adds: "adds_only P (f p) \<Longrightarrow> adds_only P (if_allowed hnps f p)"
  unfolding if_allowed_def by (intro trace_intros)

lemma keep_adds: "adds_only P (f p) \<Longrightarrow> adds_only P (keep_pool_of f p)"
  unfolding keep_pool_of_def by (intro trace_intros)

lemma verification_justified:
  assumes "retries R" and "list_all (configured hc) ps"
    and "\<And>qs. list_all (configured hc) qs \<Longrightarrow> adds_only (justified L K hc) (g qs)"
  shows "adds_only (justified L K hc) (and_then (verifyHumioClusterConfigurationIsValid L K R ps) g)"
proof -
  let ?P = "justified L K hc"
  note report = report_adds(2,3) [OF assms(1), where P = ?P, OF justified_simps(1)]
  have pool: "adds_only ?P (verify_pool L K R p)" for p
    unfolding verify_pool_def
    by (intro trace_intros report justified_if(1) image_source_harmless validation_harmless)
  have checks: "adds_only ?P (report_invalid K R m)"
    if "m \<in> set [ensureLicenseIsValid L K, ensureValidCASecret L K, ensureHeadlessServiceExists K,
        ensureInternalServiceExists K, validateUserDefinedServiceAccountsExists K]" for m
    by (intro report justified_if(1)) (use that in \<open>auto intro: validation_harmless tls_harmless services_harmless\<close>)
  have specs: "adds_only ?P (report_invalid_pool K R p (validateInitialPodSpec L p))" for p
    by (intro report justified_if(1) validation_harmless)
  have assoc: "and_then (and_then m f) h = and_then m (\<lambda>a. and_then (f a) h)"
    for m :: "('a st, handler_result, 'x) step" and f :: "'x \<Rightarrow> ('a st, handler_result, 'y) step"
      and h :: "'y \<Rightarrow> ('a st, handler_result, 'z) step"
    by (auto simp: and_then_def fun_eq_iff split: prod.split sum.split)
  show ?thesis
    unfolding verifyHumioClusterConfigurationIsValid_def assoc
  proof (rule pools_then_adds [where Q = "configured hc", OF pool _ assms(2)], goal_cases ret rest)
    case (ret p q)
    then show ?case by (rule verify_pool_configured)
  next
    case (rest qs)
    have last: "adds_only ?P (and_then (map_pools (\<lambda>p. report_invalid_pool K R p (validateInitialPodSpec L p)) qs) g)"
      by (rule map_then_adds [where Q = "configured hc", OF specs initial_spec_configured rest assms(3)])
    show ?case
      by (intro trace_intros checks report justified_if(1) labels_harmless validation_harmless last)
  qed
qed

lemma license_justified:
  assumes "retries R"
  shows "adds_only (justified L K hc) (wait_for_license L K R ps)"
proof -
  have "adds_only (justified L K hc) (unless_done (ensureLicenseAndAdminToken L K R))"
    by (intro adds_only_unless_done justified_if(3) license_adds assms)
  then show ?thesis
    unfolding wait_for_license_def by (intro trace_intros updateStatus_adds assms) simp_all
qed

lemma finish_justified:
  assumes "retries R" and "list_all (configured hc) ps"
  shows "adds_only (justified L K hc) (finish_reconcile L K R visit period ps)"
proof -
  let ?P = "justified L K hc"
  have version: "adds_only ?P (write_version K R)"
    unfolding write_version_def by (intro trace_intros updateStatus_adds assms) simp
  have pool: "adds_only ?P (downscale_pool L K R visit ps p)" for p
    unfolding downscale_pool_def split_beta Let_def
    by (intro trace_intros allowed_adds keep_adds adds_only_unless_done note_error_adds assms justified_if(2)
        downscaling_adds) simp
  have telemetry: "adds_only ?P (manage_telemetry K)"
    unfolding manage_telemetry_def by (intro trace_intros justified_if(1) [OF telemetry_harmless])
  show ?thesis
    unfolding finish_reconcile_def
  proof (rule adds_only_deferred [OF version], rule pools_then_adds [where Q = "configured hc", OF pool _ assms(2)],
      goal_cases ret rest)
    case (ret p q)
    then show ?case by (rule downscale_configured)
  next
    case (rest qs)
    show ?case
      by (intro trace_intros adds_only_unless_done cleanup_justified telemetry justified_if(1)
          [OF return_status_harmless] assms(1) rest)
  qed
qed

lemma pools_justified:
  assumes R: "retries R" and CU: "creates_or_updates K CU" and name: "hc_name hc \<noteq> []" and pools: "list_all (configured hc) ps"
  shows "adds_only (justified L K hc) (reconcile_pools L K R CU visit period ps)"
proof -
  let ?P = "justified L K hc" and ?Q = "configured hc"
  note report = report_adds(1) [OF R, where P = ?P, OF justified_simps(1)]
  note note_error = note_error_adds [OF R, where P = ?P, OF justified_simps(1)]
  note quiet = justified_if(1)
  have unused: "adds_only ?P (drop_unused_pool_status K R ps)"
    unfolding drop_unused_pool_status_def by (intro quiet trace_intros updateStatus_harmless R)
  have rollout: "adds_only ?P (if_allowed ps (ensureMismatchedPodsAreDeleted L K R) p)" if "?Q p" for p
    by (intro allowed_adds justified_if(4) [OF that] rollout_adds R configured_name [OF that name])
  have shared: "adds_only ?P (cluster_objects L K R)"
    unfolding cluster_objects_def
    by (intro trace_intros report quiet) (auto intro: tls_harmless ingress_harmless)
  have objs: "adds_only ?P (pool_objects L K R CU p)" for p
  proof -
    have "adds_only harmless m" if "m \<in> set [ensureService K p, ensureHumioPodPermissions K p, ensureInitContainerPermissions K p,
        ensureHumioNodeCertificates L K R p]" for m
      using that by (auto intro: services_harmless permissions_harmless certificates_harmless R)
    moreover have "adds_only harmless m" if "m \<in> set [ensureViewGroupPermissionsConfigMap K q, ensureRolePermissionsConfigMap K q,
        reconcileSinglePDB K CU q]" for m q
      using that by (auto intro: config_maps_harmless budget_harmless CU)
    ultimately show ?thesis
      unfolding pool_objects_def by (intro trace_intros report quiet config_maps_harmless)
  qed
  have accounts: "adds_only ?P (keep_pool_of (restart_on_annotations K R) p)" for p
    unfolding restart_on_annotations_def Let_def
    by (intro quiet keep_adds trace_intros permissions_harmless updateStatus_harmless R)
  have claims: "adds_only ?P (keep_pool_of (pool_claims K R) p)" for p
    unfolding pool_claims_def Let_def
    by (intro quiet keep_adds trace_intros claims_harmless return_status_harmless R)
  have exist: "adds_only ?P (if_allowed qs (\<lambda>p. note_error K R (ensurePodsExist L K p)) p)" for qs p
    by (intro allowed_adds note_error pods_exist_justified)
  have patched: "adds_only ?P (if_allowed qs (keep_pool_of (\<lambda>p. note_error K R (ensurePodsPatchedWithManagedFields K p))) p)" for qs p
    by (intro allowed_adds keep_adds note_error quiet patch_harmless)
  have ready: "adds_only ?P (keep_pool_of (wait_for_pods L K R) p)" for p
    unfolding wait_for_pods_def
    by (intro quiet keep_adds trace_intros pods_ready_harmless return_status_harmless R)
  have client: "adds_only ?P (connect L K R)"
    unfolding connect_def by (intro quiet trace_intros return_status_harmless R)
  note same = keep_pool_configured
  note step = pools_then_adds [where P = ?P and Q = ?Q]
  let ?ready = "\<lambda>qs. and_then (pools_with_nodes (keep_pool_of (wait_for_pods L K R)) qs) (\<lambda>qs.
     and_then (wait_for_license L K R qs) (\<lambda>_.
     and_then (connect L K R) (\<lambda>_.
     finish_reconcile L K R visit period qs)))"
  let ?patched = "\<lambda>qs. and_then (pools_with_nodes (if_allowed qs
     (keep_pool_of (\<lambda>p. note_error K R (ensurePodsPatchedWithManagedFields K p)))) qs) ?ready"
  let ?exist = "\<lambda>qs. and_then (pools_with_nodes (if_allowed qs (\<lambda>p. note_error K R (ensurePodsExist L K p))) qs) ?patched"
  let ?claims = "\<lambda>qs. and_then (pools_with_nodes (keep_pool_of (pool_claims K R)) qs) ?exist"
  let ?accounts = "\<lambda>qs. and_then (pools_with_nodes (keep_pool_of (restart_on_annotations K R)) qs) ?claims"
  let ?objects = "\<lambda>qs. and_then (cluster_objects L K R) (\<lambda>_. and_then (pools_with_nodes (pool_objects L K R CU) qs) ?accounts)"
  have 1: "adds_only ?P (?ready qs)" if "list_all ?Q qs" for qs
  proof (rule step [OF ready same that], assumption+)
    fix qs
    assume "list_all ?Q qs"
    then show "adds_only ?P (and_then (wait_for_license L K R qs) (\<lambda>_. and_then (connect L K R) (\<lambda>_.
       finish_reconcile L K R visit period qs)))"
      by (intro adds_only_and_then license_justified client finish_justified R)
  qed
  have 2: "adds_only ?P (?patched qs)" if "list_all ?Q qs" for qs
    by (rule step [OF patched patched_configured that 1])
  have 3: "adds_only ?P (?exist qs)" if "list_all ?Q qs" for qs
    by (rule step [OF exist exist_configured that 2])
  have 4: "adds_only ?P (?claims qs)" if "list_all ?Q qs" for qs
    by (rule step [OF claims same that 3])
  have 5: "adds_only ?P (?accounts qs)" if "list_all ?Q qs" for qs
    by (rule step [OF accounts same that 4])
  have 6: "adds_only ?P (?objects qs)" if "list_all ?Q qs" for qs
    by (rule adds_only_and_then [OF shared step [OF objs pool_objects_configured that 5]])
  show ?thesis
    unfolding reconcile_pools_def
    by (rule adds_only_and_then [OF unused], rule map_then_adds [where Q = ?Q and P = ?P, OF rollout rolled_configured pools 6])
qed



section \<open>Maintenance\<close>

definition in_maintenance :: "humio_cluster \<Rightarrow> node_pool \<Rightarrow> bool" where
  "in_maintenance hc p \<longleftrightarrow>
     list_ex (\<lambda>e. nst_name e = GetNodePoolName p \<and> nst_state e \<noteq> StateRunning) (st_node_pool_status (hc_status hc))"

lemma pools_in_maintenance:
  "set (currentlyConfiguredNodePoolsInMaintenance hc ps) = {p \<in> set ps. in_maintenance hc p}"
  by (auto simp: currentlyConfiguredNodePoolsInMaintenance_def in_maintenance_def list_ex_iff)

text \<open>
  Maintenance takes turns. A configured pool may be worked on exactly when it is in maintenance
  itself or no configured pool is: while one pool is upgrading, restarting, pending or misconfigured, the pods
  of the pools that are running are neither replaced, created, patched nor evicted.
\<close>

lemma maintenance_takes_turns:
  assumes "p \<in> set ps"
  shows "nodePoolAllowsMaintenanceOperations hc p ps \<longleftrightarrow> in_maintenance hc p \<or> \<not> list_ex (in_maintenance hc) ps"
proof -
  let ?busy = "currentlyConfiguredNodePoolsInMaintenance hc ps"
  have same_name: "in_maintenance hc p" if "in_maintenance hc q" "GetNodePoolName p = GetNodePoolName q" for q
    using that by (simp add: in_maintenance_def)
  have "list_ex (\<lambda>q. GetNodePoolName p = GetNodePoolName q) ?busy \<longleftrightarrow> in_maintenance hc p"
    using assms same_name by (auto simp: list_ex_iff pools_in_maintenance)
  moreover have "?busy = [] \<longleftrightarrow> \<not> list_ex (in_maintenance hc) ps"
    using pools_in_maintenance [of hc ps] by (auto simp: list_ex_iff set_empty [symmetric] simp del: set_empty)
  ultimately show ?thesis by (auto simp: nodePoolAllowsMaintenanceOperations_def Let_def)
qed

lemma maintenance_takes_turns_witness:
  "\<not> nodePoolAllowsMaintenanceOperations
       (empty_cluster\<lparr>hc_status := empty_status\<lparr>st_node_pool_status :=
          [\<lparr>nst_name = ''c-b'', nst_state = StateUpgrading, nst_zone_under_maintenance = [],
            nst_desired_pod_revision = 1, nst_desired_pod_hash = [], nst_desired_bootstrap_token_hash = []\<rparr>]\<rparr>\<rparr>)
       (empty_pool\<lparr>np_cluster_name := ''c'', np_node_pool_name := ''a''\<rparr>)
       [empty_pool\<lparr>np_cluster_name := ''c'', np_node_pool_name := ''a''\<rparr>,
        empty_pool\<lparr>np_cluster_name := ''c'', np_node_pool_name := ''b''\<rparr>]"
  by (subst maintenance_takes_turns)
    (simp_all add: in_maintenance_def GetNodePoolName_def GetClusterName_def StateUpgrading_def StateRunning_def)

end
