(* ===== verification/Resource_Api.thy ===== *)
theory Resource_Api
  imports Reconcile_Safety
begin

text \<open>
  What the controllers of the LogScale entities (parsers, repositories, views, alerts, users, roles, ...)
  share: the custom resource, the calls to the API server and to LogScale, the state of one reconciliation,
  and the helpers of internal/helpers/helpers.go they use. internal/controller/common.go names the finalizer.

  The custom resources of these kinds differ in their \<open>Spec\<close>, the type parameter of \<open>resource\<close>; the
  fields every one of them has are the record's. A slice whose being nil can be observed is an \<open>option\<close>.
\<close>

section \<open>Slices\<close>

type_synonym 'a slice = "'a list option"   \<comment> \<open>\<open>None\<close> is the nil slice\<close>

definition elements :: "'a slice \<Rightarrow> 'a list" where
  "elements x = (case x of None \<Rightarrow> [] | Some l \<Rightarrow> l)"

definition made :: "'a list \<Rightarrow> 'a slice" where   \<comment> \<open>a slice built with \<open>make\<close> or a literal\<close>
  "made l = Some l"

lemma elements_simps [simp]: "elements None = []" "elements (Some l) = l" "elements (made l) = l"
  by (simp_all add: elements_def made_def)

text \<open>\<open>sort.Strings\<close>, in place; a nil slice stays nil.\<close>

definition sort_strings :: "string slice \<Rightarrow> string slice" where
  "sort_strings x = map_option sort x"

lemma sort_strings_simps [simp]:
  "sort_strings None = None" "sort_strings (Some l) = Some (sort l)"
  "sort_strings (sort_strings x) = sort_strings x"
  by (simp_all add: sort_strings_def option.map_comp comp_def sorted_sort_id)

lemma sort_strings_None [simp]: "sort_strings x = None \<longleftrightarrow> x = None"
  by (cases x) (simp_all add: sort_strings_def)

section \<open>Helpers\<close>

definition ContainsElement :: "string list \<Rightarrow> string \<Rightarrow> bool" where
  "ContainsElement list s = (s \<in> set list)"

text \<open>
  \<open>RemoveElement\<close> ranges over the slice it was given while it rebuilds \<open>list\<close> in the same array: \<open>arr\<close> is
  the array, \<open>len\<close> the length of \<open>list\<close>, \<open>i\<close> the index, \<open>n\<close> what is left to visit. \<open>list[i+1:]\<close> panics when
  \<open>i+1\<close> exceeds \<open>len\<close>.
\<close>

fun remove_from :: "string list \<Rightarrow> nat \<Rightarrow> nat \<Rightarrow> nat \<Rightarrow> string \<Rightarrow> go_error + string list" where
  "remove_from arr len i 0 s = Inr (take len arr)"
| "remove_from arr len i (Suc n) s =
     (if arr ! i = s
      then if Suc i \<le> len
           then remove_from (take i arr @ drop (Suc i) (take len arr) @ drop (len - 1) arr) (len - 1) (Suc i) n s
           else Inl (Panic ''runtime error: slice bounds out of range'')
      else remove_from arr len (Suc i) n s)"

definition RemoveElement :: "string list \<Rightarrow> string \<Rightarrow> go_error + string list" where
  "RemoveElement list s = remove_from list (length list) 0 (length list) s"

definition BoolTrue :: "bool option \<Rightarrow> bool" where
  "BoolTrue val = (val = None \<or> val = Some True)"

definition BoolFalse :: "bool option \<Rightarrow> bool" where
  "BoolFalse val = (case val of None \<Rightarrow> False | Some b \<Rightarrow> b)"

definition EmptySliceIfNil :: "string slice \<Rightarrow> string slice" where
  "EmptySliceIfNil slice = (if slice = None then Some [] else slice)"

definition Int32PtrToFloat64Ptr :: "int option \<Rightarrow> int option" where   \<comment> \<open>an \<open>int32\<close> is a \<open>float64\<close> exactly\<close>
  "Int32PtrToFloat64Ptr val = val"

lemma remove_from_absent:
  assumes "i + n = length arr" and "s \<notin> set (drop i arr)"
  shows "remove_from arr len i n s = Inr (take len arr)"
  using assms
proof (induction n arbitrary: i)
  case 0
  then show ?case by simp
next
  case (Suc n)
  then have i: "i < length arr" by simp
  then have "drop i arr = arr ! i # drop (Suc i) arr" by (simp add: Cons_nth_drop_Suc)
  with Suc show ?case by auto
qed

text \<open>An element that occurs at most once is removed.\<close>

lemma remove_from_once:
  assumes "i + n = length arr" and "distinct (drop i arr)" and "s \<in> set (drop i arr)"
  shows "remove_from arr (length arr) i n s = Inr (take i arr @ remove1 s (drop i arr))"
  using assms
proof (induction n arbitrary: i)
  case 0
  then show ?case by simp
next
  case (Suc n)
  then have i: "i < length arr" by simp
  then have d: "drop i arr = arr ! i # drop (Suc i) arr" by (simp add: Cons_nth_drop_Suc)
  show ?case
  proof (cases "arr ! i = s")
    case True
    let ?arr = "take i arr @ drop (Suc i) arr @ drop (length arr - 1) arr"
    have absent: "s \<notin> set (drop (Suc i) arr)" using Suc.prems(2) d True by simp
    have "remove_from ?arr (length arr - 1) (Suc i) n s = Inr (take (length arr - 1) ?arr)"
    proof (cases n)
      case 0
      then show ?thesis by simp
    next
      case (Suc m)
      with Suc.prems(1) have "Suc i \<le> length arr - 1" by simp
      then have "set (drop (length arr - 1) arr) \<subseteq> set (drop (Suc i) arr)"
        by (rule set_drop_subset_set_drop)
      with absent have "s \<notin> set (drop (Suc i) arr @ drop (length arr - 1) arr)" by auto
      moreover have "drop (Suc i) ?arr = drop (Suc 0) (drop (Suc i) arr @ drop (length arr - 1) arr)"
        using i by (simp del: append_assoc)
      ultimately have "s \<notin> set (drop (Suc i) ?arr)" by (metis in_set_dropD)
      then show ?thesis using Suc.prems(1) i by (intro remove_from_absent) simp_all
    qed
    moreover have "take (length arr - 1) ?arr = take i arr @ drop (Suc i) arr"
      using i by simp
    ultimately show ?thesis using True i d by simp
  next
    case False
    have "remove_from arr (length arr) (Suc i) n s
            = Inr (take (Suc i) arr @ remove1 s (drop (Suc i) arr))"
      using Suc False d by (intro Suc.IH) simp_all
    then show ?thesis using False d i by (simp add: take_Suc_conv_app_nth)
  qed
qed

lemma RemoveElement_once: "distinct list \<Longrightarrow> RemoveElement list s = Inr (remove1 s list)"
  using remove_from_absent [of 0 "length list" list s "length list"]
    remove_from_once [of 0 "length list" list s]
  by (cases "s \<in> set list") (simp_all add: RemoveElement_def remove1_idem)

lemma RemoveElement_twice: "RemoveElement [s, s] s = Inl (Panic ''runtime error: slice bounds out of range'')"
  by (simp add: RemoveElement_def numeral_2_eq_2)

section \<open>Resources\<close>

definition HumioFinalizer :: string where "HumioFinalizer = ''core.humio.com/finalizer''"

record 'spec resource =
  rs_namespace :: string
  rs_name :: string
  rs_deleted :: bool                 \<comment> \<open>\<open>DeletionTimestamp\<close> is set\<close>
  rs_finalizers :: "string list"
  rs_managed_cluster :: string       \<comment> \<open>\<open>Spec.ManagedClusterName\<close>\<close>
  rs_external_cluster :: string      \<comment> \<open>\<open>Spec.ExternalClusterName\<close>\<close>
  rs_spec :: 'spec                   \<comment> \<open>the rest of \<open>Spec\<close>\<close>
  rs_state :: string                 \<comment> \<open>\<open>Status.State\<close>\<close>
  rs_id :: string                    \<comment> \<open>\<open>Status.ID\<close> or \<open>Status.HumioID\<close> of the kinds that have one\<close>

definition ResourceStateUnknown :: string where "ResourceStateUnknown = ''Unknown''"
definition ResourceStateExists :: string where "ResourceStateExists = ''Exists''"
definition ResourceStateNotFound :: string where "ResourceStateNotFound = ''NotFound''"
definition ResourceStateConfigError :: string where "ResourceStateConfigError = ''ConfigError''"

text \<open>
  The calls that concern one kind of resource. The API server answers a write with the object as stored,
  which replaces the caller's. A call to LogScale goes through the HTTP client of a configuration.
\<close>

record ('spec, 'w) resource_api =
  ra_get :: "string \<Rightarrow> string \<Rightarrow> 'w \<Rightarrow> (go_error + 'spec resource) \<times> 'w"
  ra_update :: "'spec resource \<Rightarrow> 'w \<Rightarrow> (go_error + 'spec resource) \<times> 'w"
  ra_update_status :: "'spec resource \<Rightarrow> 'w \<Rightarrow> (go_error + 'spec resource) \<times> 'w"

record ('spec, 'e, 'w) entity_api =
  ea_get :: "humio_config \<Rightarrow> 'spec resource \<Rightarrow> 'w \<Rightarrow> (go_error + 'e) \<times> 'w"
  ea_add :: "humio_config \<Rightarrow> 'spec resource \<Rightarrow> 'w \<Rightarrow> (go_error + unit) \<times> 'w"
  ea_update :: "humio_config \<Rightarrow> 'spec resource \<Rightarrow> 'w \<Rightarrow> (go_error + unit) \<times> 'w"
  ea_delete :: "humio_config \<Rightarrow> 'spec resource \<Rightarrow> 'w \<Rightarrow> (go_error + unit) \<times> 'w"

text \<open>
  The state of one reconciliation: the outside world with the calls of the helpers that also serve the
  cluster controller, the object the pointer refers to, and the ghost field \<open>rlog\<close>, what was asked of
  LogScale and of the API server about this resource, lookups with their outcome.
\<close>

datatype 'spec resource_call =
    Looked_up "go_error option"
  | Added "'spec resource"
  | Updated "'spec resource"
  | Removed "'spec resource"
  | Wrote "'spec resource"
  | Wrote_status "'spec resource"

record ('w, 'spec) rst =
  base :: "'w st"
  robj :: "'spec resource"
  rlog :: "'spec resource_call list"

definition outcome :: "go_error + 'a \<Rightarrow> go_error option" where
  "outcome r = (case r of Inl e \<Rightarrow> Some e | Inr _ \<Rightarrow> None)"

lemma outcome_simps [simp]: "outcome (Inl e) = Some e" "outcome (Inr a) = None"
  by (simp_all add: outcome_def)

definition on_base :: "('w st \<Rightarrow> 'x \<times> 'w st) \<Rightarrow> ('w, 'spec) rst \<Rightarrow> 'x \<times> ('w, 'spec) rst" where
  "on_base m s = (fst (m (base s)), s\<lparr>base := snd (m (base s))\<rparr>)"

definition on_server :: "('w \<Rightarrow> 'x \<times> 'w) \<Rightarrow> ('w, 'spec) rst \<Rightarrow> 'x \<times> ('w, 'spec) rst" where
  "on_server f s = (fst (f (server (base s))), s\<lparr>base := (base s)\<lparr>server := snd (f (server (base s)))\<rparr>\<rparr>)"

definition note_call :: "'spec resource_call \<Rightarrow> ('w, 'spec) rst \<Rightarrow> ('w, 'spec) rst" where
  "note_call c s = s\<lparr>rlog := rlog s @ [c]\<rparr>"

definition get_obj :: "(('w, 'spec) rst, 'r, 'spec resource) step" where
  "get_obj s = (Inr (robj s), s)"

definition set_obj :: "'spec resource \<Rightarrow> (('w, 'spec) rst, 'r, unit) step" where
  "set_obj r s = (Inr (), s\<lparr>robj := r\<rparr>)"

text \<open>\<open>r.Update(ctx, obj)\<close> and \<open>r.Status().Update(ctx, obj)\<close>.\<close>

definition write_with ::
  "('spec resource \<Rightarrow> 'spec resource_call) \<Rightarrow> ('spec resource \<Rightarrow> 'w \<Rightarrow> (go_error + 'spec resource) \<times> 'w)
   \<Rightarrow> (('w, 'spec) rst, go_error, unit) step" where
  "write_with c f s =
     (case on_server (f (robj s)) (note_call (c (robj s)) s) of
        (Inl err, s') \<Rightarrow> (Inl err, s')
      | (Inr r, s') \<Rightarrow> (Inr (), s'\<lparr>robj := r\<rparr>))"

definition update_resource :: "('spec, 'w) resource_api \<Rightarrow> (('w, 'spec) rst, go_error, unit) step" where
  "update_resource A = write_with Wrote (ra_update A)"

definition update_resource_status :: "('spec, 'w) resource_api \<Rightarrow> (('w, 'spec) rst, go_error, unit) step" where
  "update_resource_status A = write_with Wrote_status (ra_update_status A)"

text \<open>The four operations of LogScale on the entity of the resource.\<close>

definition look_up :: "('spec, 'e, 'w) entity_api \<Rightarrow> humio_config \<Rightarrow> (('w, 'spec) rst, go_error, 'e) step" where
  "look_up E cfg s =
     (case on_server (ea_get E cfg (robj s)) s of (r, s') \<Rightarrow> (r, note_call (Looked_up (outcome r)) s'))"

definition call_entity ::
  "('spec resource \<Rightarrow> 'spec resource_call) \<Rightarrow> ('spec resource \<Rightarrow> 'w \<Rightarrow> (go_error + 'a) \<times> 'w)
   \<Rightarrow> (('w, 'spec) rst, go_error, 'a) step" where
  "call_entity c f s = on_server (f (robj s)) (note_call (c (robj s)) s)"

definition add_entity :: "('spec, 'e, 'w) entity_api \<Rightarrow> humio_config \<Rightarrow> (('w, 'spec) rst, go_error, unit) step" where
  "add_entity E cfg = call_entity Added (ea_add E cfg)"

definition update_entity :: "('spec, 'e, 'w) entity_api \<Rightarrow> humio_config \<Rightarrow> (('w, 'spec) rst, go_error, unit) step" where
  "update_entity E cfg = call_entity Updated (ea_update E cfg)"

definition delete_entity :: "('spec, 'e, 'w) entity_api \<Rightarrow> humio_config \<Rightarrow> (('w, 'spec) rst, go_error, unit) step" where
  "delete_entity E cfg = call_entity Removed (ea_delete E cfg)"

lemma rst_frame [simp]:
  "robj (note_call c s) = robj s" "base (note_call c s) = base s" "rlog (note_call c s) = rlog s @ [c]"
  "robj (snd (on_server f s)) = robj s" "rlog (snd (on_server f s)) = rlog s"
  "robj (snd (on_base m s)) = robj s" "rlog (snd (on_base m s)) = rlog s"
  by (simp_all add: note_call_def on_server_def on_base_def)

end
