(* ===== verification/Resource_Reconcile.thy ===== *)
theory Resource_Reconcile
  imports Resource_Api
begin

text \<open>
  The phases of a reconciliation of a LogScale entity, and the three ways the controllers compose them.
  The \<open>Reconcile\<close> functions of internal/controller are copies of one another that differ in their messages,
  in what they compare, in whether the finalizer is added in the same run or ends it, and in whether the
  state is recorded before or after deletion is handled. The parameter \<open>kd\<close> holds the messages and the comparison of a kind.

  The second half states the protocol every one of them keeps with LogScale, for any API server and any LogScale.
\<close>

section \<open>Phases\<close>

record ('spec, 'e) kind =
  kd_state_error :: string              \<comment> \<open>when the state \<open>ConfigError\<close> could not be written\<close>
  kd_config_requeue :: duration         \<comment> \<open>\<open>RequeueAfter\<close> when there is no client\<close>
  kd_delete_error :: string
  kd_finalizer_error :: "string option" \<comment> \<open>\<open>addFinalizer\<close> wraps the error, or it is returned as it is\<close>
  kd_get_error :: string
  kd_add_error :: string
  kd_update_error :: string
  kd_unknown_state :: string            \<comment> \<open>the state when the lookup fails otherwise\<close>
  kd_compare :: "'spec resource \<Rightarrow> 'e \<Rightarrow> bool \<times> 'spec resource"
    \<comment> \<open>whether LogScale has what is expected, and the resource with the slices the comparison sorted in place\<close>

text \<open>The handler returns with its last value or earlier.\<close>

definition returned :: "('s, 'r, 'r) step \<Rightarrow> 's \<Rightarrow> 'r \<times> 's" where
  "returned m s = (case m s of (Inl r, s') \<Rightarrow> (r, s') | (Inr r, s') \<Rightarrow> (r, s'))"

definition watched :: "string \<Rightarrow> string \<Rightarrow> ('s, handler_result, unit) step" where
  "watched onlyNamespace ns =
     (if onlyNamespace \<noteq> [] \<and> onlyNamespace \<noteq> ns then exit_with (empty_result, None) else ret ())"

definition fetch_object ::
  "('spec, 'w) resource_api \<Rightarrow> string \<Rightarrow> string \<Rightarrow> (('w, 'spec) rst, handler_result, unit) step" where
  "fetch_object A ns name =
     and_then (observe (on_server (ra_get A ns name))) (\<lambda>x.
     case x of
       Inl err \<Rightarrow> exit_with (empty_result, if is_not_found err then None else Some err)
     | Inr r \<Rightarrow> set_obj r)"

definition set_state :: "('spec, 'w) resource_api \<Rightarrow> string \<Rightarrow> (('w, 'spec) rst, go_error, unit) step" where
  "set_state A state =
     and_then get_obj (\<lambda>r.
     if rs_state r = state then ret ()
     else and_then (set_obj (r\<lparr>rs_state := state\<rparr>)) (\<lambda>_. update_resource_status A))"

definition cluster_of ::
  "lib \<Rightarrow> 'w kube \<Rightarrow> 'spec resource \<Rightarrow> (('w, 'spec) rst, go_error, humio_config) step" where
  "cluster_of L K r =
     on_base (NewCluster L K (rs_managed_cluster r) (rs_external_cluster r) (rs_namespace r) (use_cert_manager L) True False)"

definition client_for ::
  "lib \<Rightarrow> 'w kube \<Rightarrow> ('spec, 'w) resource_api \<Rightarrow> ('spec, 'e) kind
   \<Rightarrow> (('w, 'spec) rst, handler_result, humio_config) step" where
  "client_for L K A kd =
     and_then get_obj (\<lambda>r.
     on_error (cluster_of L K r) (\<lambda>err.
       and_then (as_result (log_error (kd_state_error kd) (set_state A ResourceStateConfigError))) (\<lambda>_.
       exit_with (requeue_in (kd_config_requeue kd), Some (Wrap ''unable to obtain humio client config'' (Some err))))))"

definition finalize ::
  "lib \<Rightarrow> 'w kube \<Rightarrow> ('spec, 'e, 'w) entity_api \<Rightarrow> humio_config \<Rightarrow> (('w, 'spec) rst, go_error, unit) step" where
  "finalize L K E cfg =
     and_then get_obj (\<lambda>r.
     and_then (observe (cluster_of L K r)) (\<lambda>x.
     case x of
       Inl err \<Rightarrow> if is_not_found err then ret () else exit_with err
     | Inr _ \<Rightarrow> delete_entity E cfg))"

definition remove_finalizer ::
  "('spec, 'w) resource_api \<Rightarrow> (('w, 'spec) rst, handler_result, 'a) step" where
  "remove_finalizer A =
     and_then get_obj (\<lambda>r.
     case RemoveElement (rs_finalizers r) HumioFinalizer of
       Inl p \<Rightarrow> exit_with (empty_result, Some p)
     | Inr fs \<Rightarrow>
         and_then (set_obj (r\<lparr>rs_finalizers := fs\<rparr>)) (\<lambda>_.
         and_then (as_result (update_resource A)) (\<lambda>_.
         exit_with (requeue_now, None))))"

definition handle_deletion ::
  "('spec, 'w) resource_api \<Rightarrow> ('spec, 'e, 'w) entity_api \<Rightarrow> ('spec, 'e) kind \<Rightarrow> humio_config
   \<Rightarrow> (('w, 'spec) rst, go_error, unit) step \<Rightarrow> (('w, 'spec) rst, handler_result, unit) step" where
  "handle_deletion A E kd cfg del =
     and_then get_obj (\<lambda>r.
     if \<not> rs_deleted r then ret ()
     else if \<not> ContainsElement (rs_finalizers r) HumioFinalizer then exit_with (empty_result, None)
     else
       and_then (observe (look_up E cfg)) (\<lambda>x.
       if (\<exists>err. x = Inl err \<and> is_entity_not_found err) then remove_finalizer A
       else and_then (as_result (log_error (kd_delete_error kd) del)) (\<lambda>_.
            exit_with (requeue_now, None))))"

text \<open>Whether a finalizer was added.\<close>

definition add_finalizer ::
  "('spec, 'w) resource_api \<Rightarrow> ('spec, 'e) kind \<Rightarrow> (('w, 'spec) rst, handler_result, bool) step" where
  "add_finalizer A kd =
     and_then get_obj (\<lambda>r.
     if ContainsElement (rs_finalizers r) HumioFinalizer then ret False
     else
       and_then (set_obj (r\<lparr>rs_finalizers := rs_finalizers r @ [HumioFinalizer]\<rparr>)) (\<lambda>_.
       and_then (as_result (case kd_finalizer_error kd of
                              None \<Rightarrow> update_resource A
                            | Some msg \<Rightarrow> log_error msg (update_resource A))) (\<lambda>_.
       ret True)))"

text \<open>The deferred function that records what a last lookup says.\<close>

definition record_state ::
  "('spec, 'w) resource_api \<Rightarrow> ('spec, 'e, 'w) entity_api \<Rightarrow> ('spec, 'e) kind \<Rightarrow> humio_config
   \<Rightarrow> (('w, 'spec) rst, handler_result, unit) step" where
  "record_state A E kd cfg =
     and_then (observe (look_up E cfg)) (\<lambda>x.
     ignoring (set_state A
       (case x of
          Inl err \<Rightarrow> if is_entity_not_found err then ResourceStateNotFound else kd_unknown_state kd
        | Inr _ \<Rightarrow> ResourceStateExists)))"

definition compare_with ::
  "('spec, 'e) kind \<Rightarrow> 'e \<Rightarrow> (('w, 'spec) rst, 'r, bool) step" where
  "compare_with kd cur =
     and_then get_obj (\<lambda>r.
     and_then (set_obj (snd (kd_compare kd r cur))) (\<lambda>_.
     ret (fst (kd_compare kd r cur))))"

definition create_or_update ::
  "('spec, 'e, 'w) entity_api \<Rightarrow> ('spec, 'e) kind \<Rightarrow> humio_config
   \<Rightarrow> (('w, 'spec) rst, handler_result, unit) step \<Rightarrow> (('w, 'spec) rst, handler_result, unit) step" where
  "create_or_update E kd cfg validate =
     and_then (observe (look_up E cfg)) (\<lambda>x.
     case x of
       Inl err \<Rightarrow>
         if is_entity_not_found err
         then and_then (as_result (log_error (kd_add_error kd) (add_entity E cfg))) (\<lambda>_.
              exit_with (requeue_now, None))
         else exit_with (empty_result, Some (Wrap (kd_get_error kd) (Some err)))
     | Inr cur \<Rightarrow>
         and_then validate (\<lambda>_.
         and_then (compare_with kd cur) (\<lambda>asExpected.
         if asExpected then ret ()
         else as_result (log_error (kd_update_error kd) (update_entity E cfg)))))"

section \<open>The three compositions\<close>

text \<open>
  Parsers, repositories, ingest tokens, users, groups and permission roles: deletion first, the finalizer
  added on the way, and the state recorded from there on. \<open>del\<close> deletes the entity, \<open>finish\<close> is what follows an update.
\<close>

definition reconcile_eager ::
  "lib \<Rightarrow> 'w kube \<Rightarrow> ('spec, 'w) resource_api \<Rightarrow> ('spec, 'e, 'w) entity_api \<Rightarrow> ('spec, 'e) kind
   \<Rightarrow> (humio_config \<Rightarrow> (('w, 'spec) rst, go_error, unit) step)
   \<Rightarrow> (humio_config \<Rightarrow> (('w, 'spec) rst, handler_result, unit) step)
   \<Rightarrow> duration \<Rightarrow> string \<Rightarrow> string \<Rightarrow> string \<Rightarrow> ('w, 'spec) rst \<Rightarrow> handler_result \<times> ('w, 'spec) rst" where
  "reconcile_eager L K A E kd del finish requeuePeriod onlyNamespace ns name =
     returned
       (and_then (watched onlyNamespace ns) (\<lambda>_.
        and_then (fetch_object A ns name) (\<lambda>_.
        and_then (client_for L K A kd) (\<lambda>cfg.
        and_then (handle_deletion A E kd cfg (del cfg)) (\<lambda>_.
        and_then (add_finalizer A kd) (\<lambda>_.
        deferred (record_state A E kd cfg)
          (and_then (create_or_update E kd cfg (ret ())) (\<lambda>_.
           and_then (finish cfg) (\<lambda>_.
           ret (requeue_in requeuePeriod, None))))))))))"

text \<open>Views: adding the finalizer ends the run.\<close>

definition reconcile_stepwise ::
  "lib \<Rightarrow> 'w kube \<Rightarrow> ('spec, 'w) resource_api \<Rightarrow> ('spec, 'e, 'w) entity_api \<Rightarrow> ('spec, 'e) kind
   \<Rightarrow> duration \<Rightarrow> string \<Rightarrow> string \<Rightarrow> string \<Rightarrow> ('w, 'spec) rst \<Rightarrow> handler_result \<times> ('w, 'spec) rst" where
  "reconcile_stepwise L K A E kd requeuePeriod onlyNamespace ns name =
     returned
       (and_then (watched onlyNamespace ns) (\<lambda>_.
        and_then (fetch_object A ns name) (\<lambda>_.
        and_then (client_for L K A kd) (\<lambda>cfg.
        and_then (handle_deletion A E kd cfg (delete_entity E cfg)) (\<lambda>_.
        and_then (add_finalizer A kd) (\<lambda>added.
        if added then exit_with (requeue_now, None)
        else
          deferred (record_state A E kd cfg)
            (and_then (create_or_update E kd cfg (ret ())) (\<lambda>_.
             ret (requeue_in requeuePeriod, None)))))))))"

text \<open>
  Alerts, scheduled searches and actions: the state is recorded whatever happens after the client was
  obtained. \<open>check\<close> is what is verified of the resource before LogScale is asked, \<open>validate\<close> before it is compared.
\<close>

definition reconcile_recorded ::
  "lib \<Rightarrow> 'w kube \<Rightarrow> ('spec, 'w) resource_api \<Rightarrow> ('spec, 'e, 'w) entity_api \<Rightarrow> ('spec, 'e) kind
   \<Rightarrow> (('w, 'spec) rst, handler_result, unit) step
   \<Rightarrow> (humio_config \<Rightarrow> (('w, 'spec) rst, handler_result, unit) step)
   \<Rightarrow> duration \<Rightarrow> string \<Rightarrow> string \<Rightarrow> string \<Rightarrow> ('w, 'spec) rst \<Rightarrow> handler_result \<times> ('w, 'spec) rst" where
  "reconcile_recorded L K A E kd check validate requeuePeriod onlyNamespace ns name =
     returned
       (and_then (watched onlyNamespace ns) (\<lambda>_.
        and_then (fetch_object A ns name) (\<lambda>_.
        and_then (client_for L K A kd) (\<lambda>cfg.
        deferred (record_state A E kd cfg)
          (and_then (handle_deletion A E kd cfg (delete_entity E cfg)) (\<lambda>_.
           and_then (add_finalizer A kd) (\<lambda>added.
           if added then exit_with (requeue_now, None)
           else
             and_then check (\<lambda>_.
             and_then (create_or_update E kd cfg (validate cfg)) (\<lambda>_.
             ret (requeue_in requeuePeriod, None))))))))))"

section \<open>What a run asks of LogScale\<close>

text \<open>\<open>logs Q m\<close>: what \<open>m\<close> appends to the log satisfies \<open>Q\<close>, from any state.\<close>

definition logs ::
  "('spec resource_call list \<Rightarrow> bool) \<Rightarrow> (('w, 'spec) rst \<Rightarrow> 'x \<times> ('w, 'spec) rst) \<Rightarrow> bool" where
  "logs Q m \<longleftrightarrow> (\<forall>s. \<exists>cs. rlog (snd (m s)) = rlog s @ cs \<and> Q cs)"

text \<open>
  The protocol of a run on a resource that was (\<open>d\<close>) or was not marked for deletion when it was read.
  \<open>p\<close> is the call before. An entity is added only right after a lookup that did not find it, updated only right
  after one that did, and neither on a resource being deleted; it is removed only for a resource that is
  being deleted and still carries the finalizer, right after a lookup that did not fail with "not found";
  and the finalizer is given up only right after LogScale said the entity does not exist.
\<close>

fun permitted :: "bool \<Rightarrow> 'spec resource_call option \<Rightarrow> 'spec resource_call \<Rightarrow> bool" where
  "permitted d p (Looked_up _) = True"
| "permitted d p (Wrote_status _) = True"
| "permitted d p (Added r) = (\<not> d \<and> (\<exists>e. p = Some (Looked_up (Some e)) \<and> is_entity_not_found e))"
| "permitted d p (Updated r) = (\<not> d \<and> p = Some (Looked_up None))"
| "permitted d p (Removed r) = (d \<and> (\<exists>q. p = Some (Looked_up q) \<and> (\<forall>e. q = Some e \<longrightarrow> \<not> is_entity_not_found e)))"
| "permitted d p (Wrote r) =
     (HumioFinalizer \<in> set (rs_finalizers r)
      \<or> d \<and> (\<exists>e. p = Some (Looked_up (Some e)) \<and> is_entity_not_found e))"

fun obeys :: "bool \<Rightarrow> 'spec resource_call option \<Rightarrow> 'spec resource_call list \<Rightarrow> bool" where
  "obeys d p [] = True"
| "obeys d p (c # cs) = (permitted d p c \<and> obeys d (Some c) cs)"

lemma permitted_after: "permitted d None c \<Longrightarrow> permitted d p c"
  by (cases c) auto

lemma obeys_after: "obeys d None cs \<Longrightarrow> obeys d p cs"
  by (cases cs) (auto intro: permitted_after)

lemma obeys_append: "obeys d p cs \<Longrightarrow> obeys d None ds \<Longrightarrow> obeys d p (cs @ ds)"
  by (induction cs arbitrary: p) (auto intro: obeys_after)

abbreviation keeps_protocol :: "bool \<Rightarrow> (('w, 'spec) rst \<Rightarrow> 'x \<times> ('w, 'spec) rst) \<Rightarrow> bool" where
  "keeps_protocol d \<equiv> logs (obeys d None)"

text \<open>The combinators, for the protocol.\<close>

named_theorems protocol_intros \<open>steps that keep the protocol\<close>

lemma logsI: "(\<And>s. \<exists>cs. rlog (snd (m s)) = rlog s @ cs \<and> Q cs) \<Longrightarrow> logs Q m"
  by (simp add: logs_def)

lemma keeps_protocol_silent: "(\<And>s. rlog (snd (m s)) = rlog s) \<Longrightarrow> keeps_protocol d m"
  by (rule logsI) simp

lemma keeps_protocol_simple [protocol_intros]:
  "keeps_protocol d (ret a)" "keeps_protocol d (exit_with r)" "keeps_protocol d get_obj"
  "keeps_protocol d (set_obj x)" "keeps_protocol d (on_base m)" "keeps_protocol d (on_server f)"
  by (rule keeps_protocol_silent;
      simp add: ret_def exit_with_def get_obj_def set_obj_def on_base_def on_server_def)+

lemma keeps_protocol_and_then [protocol_intros]:
  assumes "keeps_protocol d m" and "\<And>a. keeps_protocol d (f a)"
  shows "keeps_protocol d (and_then m f)"
proof (rule logsI)
  fix s
  obtain r s' where m: "m s = (r, s')" by (cases "m s")
  obtain cs where cs: "rlog s' = rlog s @ cs" "obeys d None cs"
    using assms(1) m unfolding logs_def by (metis snd_conv)
  show "\<exists>cs. rlog (snd (and_then m f s)) = rlog s @ cs \<and> obeys d None cs"
  proof (cases r)
    case (Inl e)
    with m cs show ?thesis by (simp add: and_then_def)
  next
    case (Inr a)
    obtain ds where "rlog (snd (f a s')) = rlog s' @ ds" "obeys d None ds"
      using assms(2) unfolding logs_def by blast
    with Inr m cs show ?thesis by (auto simp: and_then_def intro: obeys_append)
  qed
qed

lemma keeps_protocol_on_error [protocol_intros]:
  assumes "keeps_protocol d m" and "\<And>e. keeps_protocol d (h e)"
  shows "keeps_protocol d (on_error m h)"
proof (rule logsI)
  fix s
  obtain r s' where m: "m s = (r, s')" by (cases "m s")
  obtain cs where cs: "rlog s' = rlog s @ cs" "obeys d None cs"
    using assms(1) m unfolding logs_def by (metis snd_conv)
  show "\<exists>cs. rlog (snd (on_error m h s)) = rlog s @ cs \<and> obeys d None cs"
  proof (cases r)
    case (Inr a)
    with m cs show ?thesis by (simp add: on_error_def)
  next
    case (Inl e)
    obtain ds where "rlog (snd (h e s')) = rlog s' @ ds" "obeys d None ds"
      using assms(2) unfolding logs_def by blast
    with Inl m cs show ?thesis by (auto simp: on_error_def intro: obeys_append)
  qed
qed

lemma keeps_protocol_frame [protocol_intros]:
  "keeps_protocol d m \<Longrightarrow> keeps_protocol d (observe m)"
  "keeps_protocol d m \<Longrightarrow> keeps_protocol d (ignoring m)"
  by (simp_all add: logs_def observe_def ignoring_def)

lemma keeps_protocol_errors [protocol_intros]:
  "keeps_protocol d m \<Longrightarrow> keeps_protocol d (log_error msg m)"
  "keeps_protocol d m \<Longrightarrow> keeps_protocol d (as_result m)"
  unfolding log_error_def as_result_def by (intro protocol_intros; simp)+

lemma deferred_logs:
  assumes "keeps_protocol d e" and "\<exists>cs. rlog (snd (m s)) = rlog s @ cs \<and> obeys d None cs"
  shows "\<exists>cs. rlog (snd (deferred e m s)) = rlog s @ cs \<and> obeys d None cs"
proof -
  obtain cs where cs: "rlog (snd (m s)) = rlog s @ cs" "obeys d None cs" using assms(2) by blast
  obtain ds where "rlog (snd (e (snd (m s)))) = rlog (snd (m s)) @ ds" "obeys d None ds"
    using assms(1) unfolding logs_def by blast
  with cs show ?thesis by (auto simp: deferred_def intro: obeys_append)
qed

lemma keeps_protocol_deferred [protocol_intros]:
  "keeps_protocol d e \<Longrightarrow> keeps_protocol d m \<Longrightarrow> keeps_protocol d (deferred e m)"
  by (rule logsI, rule deferred_logs) (auto simp: logs_def)

lemma keeps_protocol_branch [protocol_intros]:
  "(b \<Longrightarrow> keeps_protocol d m) \<Longrightarrow> (\<not> b \<Longrightarrow> keeps_protocol d n) \<Longrightarrow> keeps_protocol d (if b then m else n)"
  "(\<And>a. x = Inl a \<Longrightarrow> keeps_protocol d (f1 a)) \<Longrightarrow> (\<And>b. x = Inr b \<Longrightarrow> keeps_protocol d (f2 b)) \<Longrightarrow>
   keeps_protocol d (case x of Inl a \<Rightarrow> f1 a | Inr b \<Rightarrow> f2 b)"
  "(y = None \<Longrightarrow> keeps_protocol d g1) \<Longrightarrow> (\<And>b. y = Some b \<Longrightarrow> keeps_protocol d (g2 b)) \<Longrightarrow>
   keeps_protocol d (case y of None \<Rightarrow> g1 | Some b \<Rightarrow> g2 b)"
  by (simp_all split: sum.split option.split)

lemma keeps_protocol_look_up [protocol_intros]: "keeps_protocol d (look_up E cfg)"
  by (rule logsI) (simp add: look_up_def on_server_def note_call_def)

lemma keeps_protocol_status [protocol_intros]: "keeps_protocol d (update_resource_status A)"
  by (rule logsI)
    (simp add: update_resource_status_def write_with_def on_server_def note_call_def split: sum.split)

lemma keeps_protocol_set_state [protocol_intros]: "keeps_protocol d (set_state A state)"
  unfolding set_state_def by (intro protocol_intros)

lemma keeps_protocol_client_for [protocol_intros]: "keeps_protocol d (client_for L K A kd)"
  unfolding client_for_def cluster_of_def by (intro protocol_intros)

lemma keeps_protocol_record_state [protocol_intros]: "keeps_protocol d (record_state A E kd cfg)"
  unfolding record_state_def by (intro protocol_intros)

lemma keeps_protocol_watched [protocol_intros]: "keeps_protocol d (watched only ns)"
  unfolding watched_def by (intro protocol_intros)


text \<open>Steps that log nothing, and what may follow a call.\<close>

definition silent :: "(('w, 'spec) rst \<Rightarrow> 'x \<times> ('w, 'spec) rst) \<Rightarrow> bool" where
  "silent m \<longleftrightarrow> (\<forall>s. rlog (snd (m s)) = rlog s)"

named_theorems silent_intros \<open>steps that log nothing\<close>

lemma silent_simple [silent_intros]:
  "silent (ret a)" "silent (exit_with r)" "silent get_obj" "silent (set_obj x)" "silent (on_base m)" "silent (on_server f)"
  by (simp_all add: silent_def ret_def exit_with_def get_obj_def set_obj_def on_base_def on_server_def)

lemma silent_and_then [silent_intros]: "silent m \<Longrightarrow> (\<And>a. silent (f a)) \<Longrightarrow> silent (and_then m f)"
  by (simp add: silent_def and_then_def split: prod.split sum.split) (metis snd_conv)

lemma silent_on_error [silent_intros]: "silent m \<Longrightarrow> (\<And>e. silent (h e)) \<Longrightarrow> silent (on_error m h)"
  by (simp add: silent_def on_error_def split: prod.split sum.split) (metis snd_conv)

lemma silent_frame [silent_intros]:
  "silent m \<Longrightarrow> silent (observe m)" "silent m \<Longrightarrow> silent (ignoring m)"
  by (simp_all add: silent_def observe_def ignoring_def)

lemma silent_errors [silent_intros]:
  "silent m \<Longrightarrow> silent (log_error msg m)" "silent m \<Longrightarrow> silent (as_result m)"
  unfolding log_error_def as_result_def by (intro silent_intros; simp)+

lemma silent_branch [silent_intros]:
  "(b \<Longrightarrow> silent m) \<Longrightarrow> (\<not> b \<Longrightarrow> silent n) \<Longrightarrow> silent (if b then m else n)"
  "(\<And>a. x = Inl a \<Longrightarrow> silent (f1 a)) \<Longrightarrow> (\<And>b. x = Inr b \<Longrightarrow> silent (f2 b)) \<Longrightarrow>
   silent (case x of Inl a \<Rightarrow> f1 a | Inr b \<Rightarrow> f2 b)"
  "(y = None \<Longrightarrow> silent g1) \<Longrightarrow> (\<And>b. y = Some b \<Longrightarrow> silent (g2 b)) \<Longrightarrow>
   silent (case y of None \<Rightarrow> g1 | Some b \<Rightarrow> g2 b)"
  by (simp_all split: sum.split option.split)

lemma silent_compare_with [silent_intros]: "silent (compare_with kd cur)"
  unfolding compare_with_def by (intro silent_intros)

lemma silent_keeps_protocol: "silent m \<Longrightarrow> keeps_protocol d m"
  by (simp add: silent_def logs_def)

lemma logs_silent_then:
  assumes "silent m" and "\<And>a. logs Q (f a)" and "Q []"
  shows "logs Q (and_then m f)"
proof (rule logsI)
  fix s
  have "rlog (snd (m s)) = rlog s" using assms(1) by (simp add: silent_def)
  then show "\<exists>cs. rlog (snd (and_then m f s)) = rlog s @ cs \<and> Q cs"
    using assms(2,3) by (cases "m s") (simp add: and_then_def logs_def split: sum.split, metis)
qed

lemma logs_then_silent:
  assumes "logs Q m" and "\<And>a. silent (f a)"
  shows "logs Q (and_then m f)"
proof (rule logsI)
  fix s
  obtain cs where cs: "rlog (snd (m s)) = rlog s @ cs" "Q cs" using assms(1) unfolding logs_def by blast
  show "\<exists>cs. rlog (snd (and_then m f s)) = rlog s @ cs \<and> Q cs"
    using cs assms(2) by (cases "m s") (auto simp: and_then_def silent_def split: sum.split)
qed

lemma logs_errors:
  "logs Q m \<Longrightarrow> logs Q (log_error msg m)" "logs Q m \<Longrightarrow> logs Q (as_result m)"
  by (auto simp: logs_def log_error_def as_result_def on_error_def exit_with_def split: prod.split sum.split)
    (metis snd_conv)+

lemma logs_call_entity: "Q [c r] \<Longrightarrow> (\<And>r. Q [c r]) \<Longrightarrow> logs Q (call_entity c f)"
  by (rule logsI) (simp add: call_entity_def on_server_def note_call_def)

lemma logs_look_up_then:
  assumes "\<And>x. logs (obeys d (Some (Looked_up (outcome x)))) (f x)"
  shows "keeps_protocol d (and_then (observe (look_up E cfg)) f)"
proof (rule logsI)
  fix s
  obtain x s1 where look: "look_up E cfg s = (x, s1)" by fastforce
  then have log: "rlog s1 = rlog s @ [Looked_up (outcome x)]"
    by (auto simp: look_up_def on_server_def note_call_def)
  obtain cs where "rlog (snd (f x s1)) = rlog s1 @ cs" "obeys d (Some (Looked_up (outcome x))) cs"
    using assms unfolding logs_def by blast
  with look log show "\<exists>cs. rlog (snd (and_then (observe (look_up E cfg)) f s)) = rlog s @ cs \<and> obeys d None cs"
    by (simp add: and_then_def observe_def)
qed

section \<open>The phases keep the protocol\<close>

lemma keeps_protocol_add_finalizer [protocol_intros]: "keeps_protocol d (add_finalizer A kd)"
proof (rule logsI)
  fix s
  have wrote: "rlog s' = rlog s @ [Wrote (robj s)]" if "update_resource A s = (x, s')" for s s' x
    using that by (auto simp: update_resource_def write_with_def on_server_def note_call_def split: sum.splits)
  show "\<exists>cs. rlog (snd (add_finalizer A kd s)) = rlog s @ cs \<and> obeys d None cs"
    by (cases "update_resource A (s\<lparr>robj := (robj s)\<lparr>rs_finalizers := rs_finalizers (robj s) @ [HumioFinalizer]\<rparr>\<rparr>)")
      (auto simp: add_finalizer_def ContainsElement_def and_then_def get_obj_def set_obj_def ret_def
        as_result_def log_error_def on_error_def exit_with_def
        dest!: wrote split: option.split prod.split sum.split)
qed

lemma keeps_protocol_create_or_update:
  assumes "silent validate"
  shows "keeps_protocol False (create_or_update E kd cfg validate)"
  unfolding create_or_update_def
proof (rule logs_look_up_then, goal_cases)
  case (1 x)
  show ?case
  proof (cases x)
    case (Inl err)
    have "logs (obeys False (Some (Looked_up (Some err)))) (add_entity E cfg)" if "is_entity_not_found err"
      using that unfolding add_entity_def by (intro logs_call_entity) auto
    then show ?thesis
      unfolding Inl by (auto intro!: logs_then_silent logs_errors silent_intros)
        (simp add: logs_def exit_with_def)
  next
    case (Inr cur)
    have "logs (obeys False (Some (Looked_up None))) (update_entity E cfg)"
      unfolding update_entity_def by (intro logs_call_entity) auto
    moreover have "logs (obeys False (Some (Looked_up None))) (ret ())"
      by (simp add: logs_def ret_def)
    ultimately show ?thesis
      unfolding Inr by (auto intro!: logs_silent_then assms silent_compare_with logs_errors)
  qed
qed


text \<open>A way to delete the entity, run right after a lookup that was not answered "not found".\<close>

definition deletes :: "(('w, 'spec) rst, go_error, unit) step \<Rightarrow> bool" where
  "deletes del \<longleftrightarrow>
     (\<forall>q. (\<forall>e. q = Some e \<longrightarrow> \<not> is_entity_not_found e) \<longrightarrow> logs (obeys True (Some (Looked_up q))) del)"

lemma deletes_delete_entity: "deletes (delete_entity E cfg)"
  unfolding deletes_def delete_entity_def by (auto intro!: logs_call_entity)

lemma deletes_finalize: "deletes (finalize L K E cfg)"
proof -
  have stop: "logs (obeys True p) (exit_with e)" "logs (obeys True p) (ret a)" for p e a
    by (simp_all add: logs_def exit_with_def ret_def)
  show ?thesis
    using deletes_delete_entity [of E cfg] unfolding deletes_def finalize_def cluster_of_def
    by (auto intro!: logs_silent_then silent_intros stop split: sum.split)
qed

lemma logs_remove_finalizer:
  assumes "is_entity_not_found err"
  shows "logs (obeys True (Some (Looked_up (Some err)))) (remove_finalizer A)"
proof -
  have wrote: "logs (obeys True (Some (Looked_up (Some err)))) (update_resource A)"
    using assms by (intro logsI)
      (simp add: update_resource_def write_with_def on_server_def note_call_def split: sum.split)
  have stop: "logs (obeys True p) (exit_with e)" for p e
    by (simp add: logs_def exit_with_def)
  show ?thesis
    unfolding remove_finalizer_def
  proof (rule logs_silent_then [OF silent_simple(3)])
    fix r
    show "logs (obeys True (Some (Looked_up (Some err))))
       (case RemoveElement (rs_finalizers r) HumioFinalizer of
          Inl p \<Rightarrow> exit_with (empty_result, Some p)
        | Inr fs \<Rightarrow> and_then (set_obj (r\<lparr>rs_finalizers := fs\<rparr>)) (\<lambda>_.
            and_then (as_result (update_resource A)) (\<lambda>_. exit_with (requeue_now, None))))"
      by (auto intro!: logs_silent_then [OF silent_simple(4)] logs_then_silent [OF logs_errors(2) [OF wrote]]
          silent_intros stop split: sum.split)
  qed simp
qed

lemma keeps_protocol_handle_deletion:
  assumes "deletes del"
  shows "keeps_protocol True (handle_deletion A E kd cfg del)"
proof -
  have decide: "logs (obeys True (Some (Looked_up (outcome x))))
      (if \<exists>err. x = Inl err \<and> is_entity_not_found err then remove_finalizer A
       else and_then (as_result (log_error (kd_delete_error kd) del)) (\<lambda>_. exit_with (requeue_now, None)))" for x :: "go_error + 'e"
  proof (cases "\<exists>err. x = Inl err \<and> is_entity_not_found err")
    case True
    then show ?thesis by (auto intro: logs_remove_finalizer)
  next
    case False
    then have "logs (obeys True (Some (Looked_up (outcome x)))) del"
      using assms unfolding deletes_def by (cases x) simp_all
    then show ?thesis
      unfolding if_not_P [OF False] by (intro logs_then_silent logs_errors silent_intros)
  qed
  show ?thesis
    unfolding handle_deletion_def
    by (intro protocol_intros logs_look_up_then decide)
qed

text \<open>On a resource that is being deleted the run ends there; otherwise nothing happens.\<close>

lemma handle_deletion_ends:
  assumes "rs_deleted (robj s)"
  shows "\<exists>r s'. handle_deletion A E kd cfg del s = (Inl r, s')"
proof -
  have "\<exists>r s'. remove_finalizer A t = (Inl r, s')" for t
    by (auto simp: remove_finalizer_def and_then_def get_obj_def exit_with_def set_obj_def
        split: sum.split prod.split)
  then show ?thesis
    using assms
    by (auto simp: handle_deletion_def and_then_def get_obj_def exit_with_def observe_def split: sum.split prod.split)
qed

lemma handle_deletion_skipped:
  "\<not> rs_deleted (robj s) \<Longrightarrow> handle_deletion A E kd cfg del s = (Inr (), s)"
  by (simp add: handle_deletion_def and_then_def get_obj_def ret_def)

lemma deletion_then:
  assumes "deletes del" and "\<And>u. keeps_protocol False (f u)"
  shows "\<exists>cs. rlog (snd (and_then (handle_deletion A E kd cfg del) f s)) = rlog s @ cs
              \<and> obeys (rs_deleted (robj s)) None cs"
proof (cases "rs_deleted (robj s)")
  case True
  obtain cs where "rlog (snd (handle_deletion A E kd cfg del s)) = rlog s @ cs" "obeys True None cs"
    using keeps_protocol_handle_deletion [OF assms(1)] unfolding logs_def by blast
  then show ?thesis
    using handle_deletion_ends [OF True, of A E kd cfg del] True by (auto simp: and_then_def)
next
  case False
  then show ?thesis
    using assms(2) by (simp add: and_then_def handle_deletion_skipped logs_def)
qed

section \<open>The runs keep the protocol\<close>

text \<open>Whether the resource was marked for deletion when it was read.\<close>

definition read_as_deleted :: "('spec, 'w) resource_api \<Rightarrow> string \<Rightarrow> string \<Rightarrow> ('w, 'spec) rst \<Rightarrow> bool" where
  "read_as_deleted A ns name s =
     (case fst (ra_get A ns name (server (base s))) of Inl _ \<Rightarrow> False | Inr r \<Rightarrow> rs_deleted r)"

definition protocol_run ::
  "('spec, 'w) resource_api \<Rightarrow> string \<Rightarrow> string
   \<Rightarrow> (('w, 'spec) rst \<Rightarrow> handler_result \<times> ('w, 'spec) rst) \<Rightarrow> ('w, 'spec) rst \<Rightarrow> bool" where
  "protocol_run A ns name m s \<longleftrightarrow>
     (\<exists>cs. rlog (snd (m s)) = rlog s @ cs \<and> obeys (read_as_deleted A ns name s) None cs)"

lemma protocol_runI:
  assumes "\<And>cfg s. \<exists>cs. rlog (snd (f cfg s)) = rlog s @ cs \<and> obeys (rs_deleted (robj s)) None cs"
  shows "protocol_run A ns name
           (returned (and_then (watched only ns) (\<lambda>_. and_then (fetch_object A ns name) (\<lambda>_.
             and_then (client_for L K A kd) f)))) s"
proof (cases "only \<noteq> [] \<and> only \<noteq> ns")
  case True
  then show ?thesis by (auto simp: protocol_run_def returned_def and_then_def watched_def exit_with_def)
next
  case False
  then have watch: "watched only ns s = (Inr (), s)"
    by (auto simp: watched_def ret_def)
  let ?w = "ra_get A ns name (server (base s))"
  show ?thesis
  proof (cases "fst ?w")
    case (Inl err)
    then show ?thesis
      by (auto simp: protocol_run_def returned_def and_then_def watch fetch_object_def observe_def
          on_server_def exit_with_def)
  next
    case (Inr r)
    let ?s = "s\<lparr>base := (base s)\<lparr>server := snd ?w\<rparr>, robj := r\<rparr>"
    have fetch: "fetch_object A ns name s = (Inr (), ?s)"
      using Inr by (simp add: fetch_object_def and_then_def observe_def on_server_def set_obj_def)
    have marked: "read_as_deleted A ns name s = rs_deleted r" using Inr by (simp add: read_as_deleted_def)
    obtain x s1 where client: "client_for L K A kd ?s = (x, s1)" by fastforce
    have "\<exists>cs. rlog (snd (client_for L K A kd ?s)) = rlog ?s @ cs \<and> obeys (rs_deleted r) None cs"
      using keeps_protocol_client_for [of "rs_deleted r" L K A kd] unfolding logs_def by blast
    with client obtain cs where cs: "rlog s1 = rlog s @ cs" "obeys (rs_deleted r) None cs" by auto
    show ?thesis
    proof (cases x)
      case (Inl e)
      then show ?thesis
        using cs marked client by (auto simp: protocol_run_def returned_def and_then_def watch fetch)
    next
      case (Inr cfg)
      have "robj s1 = r"
        using client Inr
        by (auto simp: client_for_def and_then_def on_error_def get_obj_def cluster_of_def on_base_def exit_with_def
            split: prod.splits sum.splits)
      then obtain ds where "rlog (snd (f cfg s1)) = rlog s1 @ ds" "obeys (rs_deleted r) None ds"
        using assms by metis
      then show ?thesis
        using cs marked client Inr
        by (auto simp: protocol_run_def returned_def and_then_def watch fetch
            intro: obeys_append split: prod.splits sum.splits)
    qed
  qed
qed

lemma eager_keeps_protocol:
  assumes "\<And>cfg. deletes (del cfg)" and "\<And>cfg. keeps_protocol False (finish cfg)"
  shows "protocol_run A ns name (reconcile_eager L K A E kd del finish period only ns name) s"
  unfolding reconcile_eager_def
proof (rule protocol_runI, rule deletion_then [OF assms(1)])
  fix cfg u
  show "keeps_protocol False
     (and_then (add_finalizer A kd) (\<lambda>_. deferred (record_state A E kd cfg)
        (and_then (create_or_update E kd cfg (ret ())) (\<lambda>_. and_then (finish cfg) (\<lambda>_. ret (requeue_in period, None))))))"
    by (intro protocol_intros keeps_protocol_create_or_update silent_intros assms)
qed

lemma stepwise_keeps_protocol:
  "protocol_run A ns name (reconcile_stepwise L K A E kd period only ns name) s"
  unfolding reconcile_stepwise_def
proof (rule protocol_runI, rule deletion_then [OF deletes_delete_entity])
  fix cfg u
  show "keeps_protocol False
     (and_then (add_finalizer A kd) (\<lambda>added. if added then exit_with (requeue_now, None)
        else deferred (record_state A E kd cfg)
          (and_then (create_or_update E kd cfg (ret ())) (\<lambda>_. ret (requeue_in period, None)))))"
    by (intro protocol_intros keeps_protocol_create_or_update silent_intros)
qed

lemma recorded_keeps_protocol:
  assumes "keeps_protocol False check" and "\<And>cfg. silent (validate cfg)"
  shows "protocol_run A ns name (reconcile_recorded L K A E kd check validate period only ns name) s"
  unfolding reconcile_recorded_def
proof (rule protocol_runI)
  fix cfg s
  show "\<exists>cs. rlog (snd (deferred (record_state A E kd cfg)
          (and_then (handle_deletion A E kd cfg (delete_entity E cfg)) (\<lambda>_.
           and_then (add_finalizer A kd) (\<lambda>added.
           if added then exit_with (requeue_now, None)
           else and_then check (\<lambda>_. and_then (create_or_update E kd cfg (validate cfg)) (\<lambda>_.
                ret (requeue_in period, None)))))) s)) = rlog s @ cs \<and> obeys (rs_deleted (robj s)) None cs"
    by (intro deferred_logs deletion_then protocol_intros deletes_delete_entity
        keeps_protocol_create_or_update silent_intros assms)
qed

end
