(* ===== verification/Scheduled_Search.thy ===== *)
theory Scheduled_Search
  imports Resource_Reconcile "HOL-Library.Word"
begin

text \<open>
  The two versions of the scheduled search resource and the conversion between them:
  api/v1alpha1/humioscheduledsearch_types.go. The older version writes the interval of a search as texts
  such as "24h" and "now", the newer one as seconds. An \<open>int64\<close> is a 64-bit word; its products wrap.
\<close>

type_synonym int64 = "64 word"

section \<open>Times\<close>

definition HumioScheduledSearchTimeNow :: string where "HumioScheduledSearchTimeNow = ''now''"

text \<open>What a unit of a time text multiplies with.\<close>

definition unit_seconds :: "string \<Rightarrow> int64 option" where
  "unit_seconds unit =
     (if unit \<in> {''s'', ''sec'', ''second'', ''seconds''} then Some 1
      else if unit \<in> {''m'', ''min'', ''minute'', ''minutes''} then Some 60
      else if unit \<in> {''h'', ''hour'', ''hours''} then Some 3600
      else if unit \<in> {''d'', ''day'', ''days''} then Some 86400
      else if unit \<in> {''w'', ''week'', ''weeks''} then Some 604800
      else if unit \<in> {''y'', ''year'', ''years''} then Some 31536000
      else None)"

text \<open>\<open>fmt.Sscanf\<close> with \<open>%d\<close> into an \<open>int64\<close> fails when the digits exceed its range, as \<open>atoi\<close> does.\<close>

definition ParseTimeStringToSeconds :: "string \<Rightarrow> go_error + int64" where
  "ParseTimeStringToSeconds timeStr =
     (if timeStr = HumioScheduledSearchTimeNow then Inr 0
      else if length timeStr < 2 then Inl (Msg (''invalid time string: '' @ timeStr))
      else
        let digits = takeWhile is_digit timeStr;
            unit = dropWhile is_digit timeStr
        in if digits = [] then Inl (Msg (''invalid time string: '' @ timeStr))
           else case atoi digits of
                  None \<Rightarrow> Inl (Msg (''invalid number in time string: '' @ timeStr))
                | Some value \<Rightarrow>
                    (case unit_seconds unit of
                       None \<Rightarrow> Inl (Msg (''unknown time unit: '' @ unit))
                     | Some n \<Rightarrow> Inr (word_of_int value * n)))"

text \<open>The first unit of the table that divides the time names it; seconds always do.\<close>

definition time_units :: "(string \<times> int) list" where
  "time_units = [(''d'', 86400), (''h'', 3600), (''m'', 60), (''s'', 1)]"

definition ParseSecondsToString :: "int64 \<Rightarrow> go_error + string" where
  "ParseSecondsToString timeSeconds =
     (if sint timeSeconds \<le> 0 then Inr HumioScheduledSearchTimeNow
      else
        case filter (\<lambda>(name, duration). duration \<le> sint timeSeconds \<and> sint timeSeconds mod duration = 0) time_units of
          (name, duration) # _ \<Rightarrow> Inr (itoa (sint timeSeconds div duration) @ name)
        | [] \<Rightarrow> Inr (itoa (sint timeSeconds) @ ''s''))"

lemma takeWhile_itoa: "0 \<le> n \<Longrightarrow> u \<noteq> [] \<Longrightarrow> \<not> is_digit (hd u) \<Longrightarrow> takeWhile is_digit (itoa n @ u) = itoa n"
  using digits_of_digits [of "nat n"]
  by (cases u) (auto simp: itoa_def list_all_iff takeWhile_append)

lemma dropWhile_itoa: "0 \<le> n \<Longrightarrow> u \<noteq> [] \<Longrightarrow> \<not> is_digit (hd u) \<Longrightarrow> dropWhile is_digit (itoa n @ u) = u"
  using digits_of_digits [of "nat n"]
  by (cases u) (auto simp: itoa_def list_all_iff dropWhile_append)

text \<open>A number with a unit is read as the product.\<close>

lemma parse_number_unit:
  assumes "0 \<le> n" and "n < 2 ^ 63" and "unit_seconds u = Some d"
    and "u \<noteq> []" and "\<not> is_digit (hd u)" and "u \<noteq> ''now''"
  shows "ParseTimeStringToSeconds (itoa n @ u) = Inr (word_of_int n * d)"
proof -
  have digits: "itoa n \<noteq> []" using assms(1) by (simp add: itoa_def digits_of_nonempty)
  have "is_digit (hd (itoa n @ u))"
    using assms(1) digits_of_nonempty [of "nat n"] hd_digits_of [of "nat n"] by (simp add: itoa_def)
  then have "itoa n @ u \<noteq> HumioScheduledSearchTimeNow"
    by (auto simp: HumioScheduledSearchTimeNow_def is_digit_def)
  moreover have "\<not> length (itoa n @ u) < 2"
    using digits assms(4) by (cases "itoa n"; cases u) auto
  moreover have "atoi (itoa n) = Some n" using assms(1,2) by (intro atoi_itoa) simp_all
  ultimately show ?thesis
    using assms digits by (simp add: ParseTimeStringToSeconds_def takeWhile_itoa dropWhile_itoa)
qed

lemma unit_facts:
  "unit_seconds ''d'' = Some 86400" "unit_seconds ''h'' = Some 3600" "unit_seconds ''m'' = Some 60" "unit_seconds ''s'' = Some 1"
  "unit_seconds ''w'' = Some 604800" "unit_seconds ''y'' = Some 31536000"
  by (simp_all add: unit_seconds_def)

lemma time_unit_cases:
  assumes "0 < n"
  obtains name duration where "(name, duration) \<in> set time_units" and "n mod duration = 0" and "0 < duration"
    and "filter (\<lambda>(name, duration). duration \<le> n \<and> n mod duration = 0) time_units \<noteq> []"
    and "hd (filter (\<lambda>(name, duration). duration \<le> n \<and> n mod duration = 0) time_units) = (name, duration)"
proof -
  let ?fs = "filter (\<lambda>(name, duration). duration \<le> n \<and> n mod duration = 0) time_units"
  have "(''s'', 1) \<in> set ?fs" using assms by (simp add: time_units_def)
  then have ne: "?fs \<noteq> []" by (metis empty_iff empty_set)
  obtain name duration where h: "hd ?fs = (name, duration)" by fastforce
  have "hd ?fs \<in> set ?fs" using ne by (rule hd_in_set)
  then have mem: "(name, duration) \<in> set ?fs" unfolding h .
  show thesis
  proof (rule that [OF _ _ _ ne h])
    show "(name, duration) \<in> set time_units" "n mod duration = 0" using mem by simp_all
    then show "0 < duration" by (auto simp: time_units_def)
  qed
qed

lemma unit_table:
  assumes "(name, duration) \<in> set (time_units @ [(''w'', 604800), (''y'', 31536000)])"
  shows "unit_seconds name = Some (word_of_int duration)" and "name \<noteq> []" and "\<not> is_digit (hd name)" and "name \<noteq> ''now''"
    and "0 < duration"
  using assms by (auto simp: time_units_def unit_facts is_digit_def)

lemma sint_small: "0 \<le> n \<Longrightarrow> n < 2 ^ 63 \<Longrightarrow> sint (word_of_int n :: int64) = n"
  by (simp add: sint_sbintrunc' signed_take_bit_int_eq_self)

lemma sint_range: "- (2 ^ 63) \<le> sint (t :: int64)" "sint (t :: int64) < 2 ^ 63"
  using sint_greater_eq [of t] sint_lt [of t] by simp_all

lemma time_text_roundtrip_aux:
  "\<exists>text. ParseSecondsToString t = Inr text
     \<and> ParseTimeStringToSeconds text = Inr (if sint t \<le> 0 then 0 else t)"
proof (cases "sint t \<le> 0")
  case True
  then show ?thesis by (simp add: ParseSecondsToString_def ParseTimeStringToSeconds_def)
next
  case False
  then have pos: "0 < sint t" by simp
  obtain name duration where u: "(name, duration) \<in> set time_units" "sint t mod duration = 0" "0 < duration"
    and f: "filter (\<lambda>(name, duration). duration \<le> sint t \<and> sint t mod duration = 0) time_units \<noteq> []"
      "hd (filter (\<lambda>(name, duration). duration \<le> sint t \<and> sint t mod duration = 0) time_units) = (name, duration)"
    using time_unit_cases [OF pos] by blast
  have written: "ParseSecondsToString t = Inr (itoa (sint t div duration) @ name)"
    using f False
    by (cases "filter (\<lambda>(name, duration). duration \<le> sint t \<and> sint t mod duration = 0) time_units")
      (auto simp: ParseSecondsToString_def)
  have q: "0 \<le> sint t div duration" using pos u(3) by (simp add: pos_imp_zdiv_nonneg_iff)
  have "sint t div duration \<le> sint t" using pos u(3) by (simp add: zdiv_mono2 [of "sint t" 1 duration, simplified])
  then have small: "sint t div duration < 2 ^ 63" using sint_range(2) [of t] by linarith
  have product: "word_of_int (sint t div duration) * word_of_int duration = t"
  proof -
    have "word_of_int (sint t div duration) * word_of_int duration = (word_of_int (sint t div duration * duration) :: int64)"
      by (rule wi_hom_mult)
    also have "sint t div duration * duration = sint t" using div_mult_mod_eq [of "sint t" duration] u(2) by linarith
    also have "word_of_int (sint t) = t" by simp
    finally show ?thesis .
  qed
  have mem: "(name, duration) \<in> set (time_units @ [(''w'', 604800), (''y'', 31536000)])"
    using u(1) by simp
  have "ParseTimeStringToSeconds (itoa (sint t div duration) @ name) = Inr (word_of_int (sint t div duration) * word_of_int duration)"
    by (rule parse_number_unit [OF q small unit_table(1-4) [OF mem]])
  then have "ParseTimeStringToSeconds (itoa (sint t div duration) @ name) = Inr t" unfolding product .
  then show ?thesis unfolding written by (simp add: False)
qed


text \<open>
  A time written by the operator is read back. The text of a number of seconds parses, and to
  that number, for every \<open>int64\<close>; what is not positive is written "now", which is read as zero.
\<close>

lemma time_text_roundtrip:
  "\<exists>text. ParseSecondsToString t = Inr text
     \<and> ParseTimeStringToSeconds text = Inr (if sint t \<le> 0 then 0 else t)"
  by (rule time_text_roundtrip_aux)

text \<open>The other way round: a text is normalised to another one of the same length of time.\<close>

lemma time_text_normalised:
  assumes "ParseTimeStringToSeconds text = Inr t" and "0 \<le> sint t"
  shows "\<exists>text'. ParseSecondsToString t = Inr text' \<and> ParseTimeStringToSeconds text' = Inr t"
proof (cases "sint t = 0")
  case True
  then have "t = 0" by (metis signed_0 signed_word_eqI)
  then show ?thesis by (simp add: ParseSecondsToString_def ParseTimeStringToSeconds_def)
next
  case False
  then show ?thesis using time_text_roundtrip_aux [of t] assms(2) by auto
qed

section \<open>The two versions\<close>

text \<open>
  The labels and annotations of the object, where a nil map and an empty one are the same to every reader;
  the original specification is kept as JSON, which \<open>json\<close> produces or fails to.
\<close>

record search_v1 =
  s1_labels :: smap
  s1_annotations :: smap
  s1_managed :: string
  s1_external :: string
  s1_name :: string
  s1_view_name :: string
  s1_query_string :: string
  s1_description :: string
  s1_query_start :: string
  s1_query_end :: string
  s1_schedule :: string
  s1_time_zone :: string
  s1_backfill_limit :: int
  s1_enabled :: bool
  s1_actions :: "string slice"
  s1_search_labels :: "string slice"
  s1_state :: string

record search_v2 =
  s2_labels :: smap
  s2_annotations :: smap
  s2_managed :: string
  s2_external :: string
  s2_name :: string
  s2_view_name :: string
  s2_query_string :: string
  s2_description :: string
  s2_max_wait_time_seconds :: int64
  s2_query_timestamp_type :: string
  s2_search_interval_seconds :: int64
  s2_search_interval_offset_seconds :: "int64 option"
  s2_schedule :: string
  s2_time_zone :: string
  s2_backfill_limit :: "int option"
  s2_enabled :: bool
  s2_actions :: "string slice"
  s2_search_labels :: "string slice"
  s2_state :: string

definition QueryTimestampTypeEventtimestamp :: string where
  "QueryTimestampTypeEventtimestamp = ''EventTimestamp''"

definition original_spec_annotation :: string where
  "original_spec_annotation = ''humio.com/original-v1alpha1-spec''"
definition conversion_time_label :: string where "conversion_time_label = ''humio.com/conversion-time''"

text \<open>\<open>dst\<close> is the empty object of the caller; \<open>MaxWaitTimeSeconds\<close> stays as it was in it.\<close>

definition ConvertTo ::
  "(search_v1 \<Rightarrow> go_error + string) \<Rightarrow> string \<Rightarrow> search_v1 \<Rightarrow> go_error + search_v2" where
  "ConvertTo json unix_time src =
     (case json src of
        Inl err \<Rightarrow> Inl (Msg (''failed to marshal original v1alpha1 spec for preservation: '' @ error_message err))
      | Inr specJson \<Rightarrow>
          (case ParseTimeStringToSeconds (s1_query_start src) of
             Inl err \<Rightarrow> Inl (Wrap (''could not convert src.Spec.QueryStart to seconds, value received '' @ CHR 0x27 # s1_query_start src @ [CHR 0x27]) (Some err))
           | Inr start \<Rightarrow>
               (case ParseTimeStringToSeconds (s1_query_end src) of
                  Inl err \<Rightarrow> Inl (Wrap (''could not convert src.Spec.QueryEnd to seconds, value received '' @ CHR 0x27 # s1_query_end src @ [CHR 0x27]) (Some err))
                | Inr till \<Rightarrow> Inr
                    \<lparr>s2_labels = (s1_labels src)(conversion_time_label \<mapsto> unix_time),
                     s2_annotations = (s1_annotations src)(original_spec_annotation \<mapsto> specJson),
                     s2_managed = s1_managed src, s2_external = s1_external src, s2_name = s1_name src,
                     s2_view_name = s1_view_name src, s2_query_string = s1_query_string src,
                     s2_description = s1_description src, s2_max_wait_time_seconds = 0,
                     s2_query_timestamp_type = QueryTimestampTypeEventtimestamp,
                     s2_search_interval_seconds = start, s2_search_interval_offset_seconds = Some till,
                     s2_schedule = s1_schedule src, s2_time_zone = s1_time_zone src,
                     s2_backfill_limit = Some (s1_backfill_limit src), s2_enabled = s1_enabled src,
                     s2_actions = s1_actions src, s2_search_labels = s1_search_labels src,
                     s2_state = s1_state src\<rparr>)))"

definition ConvertFrom :: "search_v2 \<Rightarrow> go_error + search_v1" where
  "ConvertFrom src =
     (case ParseSecondsToString (s2_search_interval_seconds src) of
        Inl err \<Rightarrow> Inl (Wrap ''failed to convert SearchIntervalSeconds'' (Some err))
      | Inr start \<Rightarrow>
          (case (case s2_search_interval_offset_seconds src of
                   Some offset \<Rightarrow> if 0 < sint offset then ParseSecondsToString offset
                                  else Inr HumioScheduledSearchTimeNow
                 | None \<Rightarrow> Inr HumioScheduledSearchTimeNow) of
             Inl err \<Rightarrow> Inl (Wrap ''failed to convert SearchIntervalOffsetSeconds'' (Some err))
           | Inr till \<Rightarrow> Inr
               \<lparr>s1_labels = s2_labels src, s1_annotations = s2_annotations src,
                s1_managed = s2_managed src, s1_external = s2_external src, s1_name = s2_name src,
                s1_view_name = s2_view_name src, s1_query_string = s2_query_string src,
                s1_description = s2_description src, s1_query_start = start, s1_query_end = till,
                s1_schedule = s2_schedule src, s1_time_zone = s2_time_zone src,
                s1_backfill_limit = (case s2_backfill_limit src of None \<Rightarrow> 0 | Some b \<Rightarrow> b),
                s1_enabled = s2_enabled src, s1_actions = s2_actions src,
                s1_search_labels = s2_search_labels src, s1_state = s2_state src\<rparr>))"


text \<open>Formatting never fails, so neither does this conversion.\<close>

lemma ParseSecondsToString_total: "\<exists>text. ParseSecondsToString t = Inr text"
  using time_text_roundtrip_aux by blast

lemma ConvertFrom_total: "\<exists>dst. ConvertFrom src = Inr dst"
proof -
  obtain a where a: "ParseSecondsToString (s2_search_interval_seconds src) = Inr a"
    using ParseSecondsToString_total by blast
  obtain f where f: "\<And>offset. ParseSecondsToString offset = Inr (f offset)"
    using ParseSecondsToString_total by metis
  show ?thesis by (auto simp: ConvertFrom_def a f split: option.split)
qed

text \<open>
  Claim C20. An older object survives the newer version. Converted to v1beta1 and back, a scheduled search of v1alpha1 is
  the object it was, but for the annotation and the label the conversion leaves and for the
  spelling of its two times, which name the same number of seconds, as long as the times did not
  overflow when they were read.
\<close>

theorem search_conversion_roundtrip:
  assumes "ConvertTo json unix_time src = Inr dst"
    and "0 \<le> sint (s2_search_interval_seconds dst)"
    and "\<forall>e. s2_search_interval_offset_seconds dst = Some e \<longrightarrow> 0 \<le> sint e"
  shows "\<exists>start till. ConvertFrom dst =
           Inr (src\<lparr>s1_labels := s2_labels dst, s1_annotations := s2_annotations dst,
                    s1_query_start := start, s1_query_end := till\<rparr>)
         \<and> ParseTimeStringToSeconds start = ParseTimeStringToSeconds (s1_query_start src)
         \<and> ParseTimeStringToSeconds till = ParseTimeStringToSeconds (s1_query_end src)"
proof -
  obtain spec a e where parsed: "json src = Inr spec" "ParseTimeStringToSeconds (s1_query_start src) = Inr a"
      "ParseTimeStringToSeconds (s1_query_end src) = Inr e"
    using assms(1) by (auto simp: ConvertTo_def split: sum.splits)
  have dst: "s2_search_interval_seconds dst = a" "s2_search_interval_offset_seconds dst = Some e"
    using assms(1) parsed by (auto simp: ConvertTo_def)
  obtain start where start: "ParseSecondsToString a = Inr start" "ParseTimeStringToSeconds start = Inr a"
    using time_text_normalised [OF parsed(2)] assms(2) dst by auto
  obtain till where till: "ParseSecondsToString e = Inr till" "ParseTimeStringToSeconds till = Inr e"
    using time_text_normalised [OF parsed(3)] assms(3) dst by auto
  have "sint e \<le> 0 \<Longrightarrow> e = 0" using assms(3) dst by (metis dual_order.antisym signed_eq_0_iff)
  then have now: "(if 0 < sint e then ParseSecondsToString e else Inr HumioScheduledSearchTimeNow) = Inr till"
    using till(1) by (auto simp: ParseSecondsToString_def)
  have fields: "s2_managed dst = s1_managed src" "s2_external dst = s1_external src" "s2_name dst = s1_name src"
      "s2_view_name dst = s1_view_name src" "s2_query_string dst = s1_query_string src"
      "s2_description dst = s1_description src" "s2_schedule dst = s1_schedule src"
      "s2_time_zone dst = s1_time_zone src" "s2_backfill_limit dst = Some (s1_backfill_limit src)"
      "s2_enabled dst = s1_enabled src" "s2_actions dst = s1_actions src"
      "s2_search_labels dst = s1_search_labels src" "s2_state dst = s1_state src"
    using assms(1) parsed by (auto simp: ConvertTo_def)
  have "ConvertFrom dst = Inr (src\<lparr>s1_labels := s2_labels dst, s1_annotations := s2_annotations dst,
                    s1_query_start := start, s1_query_end := till\<rparr>)"
    by (simp add: ConvertFrom_def dst start(1) now fields)
  then show ?thesis
    using start(2) till(2) parsed by (intro exI [of _ start] exI [of _ till]) simp
qed

text \<open>
  When a time is read exactly. A text of digits and a unit that is read at all is read as the
  product of the two exactly when the product fits an \<open>int64\<close>; otherwise the multiplication wraps and no error is reported.
\<close>

lemma time_text_exact:
  assumes "0 \<le> v" and "v < 2 ^ 63" and "(u, d) \<in> set (time_units @ [(''w'', 604800), (''y'', 31536000)])"
  shows "\<exists>t. ParseTimeStringToSeconds (itoa v @ u) = Inr t \<and> (sint t = v * d \<longleftrightarrow> v * d < 2 ^ 63)"
proof -
  note u = unit_table [OF assms(3)]
  have read: "ParseTimeStringToSeconds (itoa v @ u) = Inr (word_of_int v * word_of_int d)"
    by (rule parse_number_unit [OF assms(1,2) u(1-4)])
  have prod: "word_of_int v * word_of_int d = (word_of_int (v * d) :: int64)" by (rule wi_hom_mult)
  have "sint (word_of_int (v * d) :: int64) = v * d \<longleftrightarrow> v * d < 2 ^ 63"
  proof
    assume "sint (word_of_int (v * d) :: int64) = v * d"
    then show "v * d < 2 ^ 63" using sint_range(2) [of "word_of_int (v * d)"] by simp
  next
    assume "v * d < 2 ^ 63"
    moreover have "0 \<le> v * d" using assms(1) u(5) by simp
    ultimately show "sint (word_of_int (v * d) :: int64) = v * d"
      by (intro sint_small)
  qed
  then show ?thesis unfolding read prod by simp
qed


text \<open>A day too many for an \<open>int64\<close> of seconds.\<close>

lemma time_text_exact_witness:
  "\<exists>t. ParseTimeStringToSeconds (itoa 106751991167301 @ ''d'') = Inr t \<and> sint t \<noteq> 106751991167301 * 86400"
  using time_text_exact [of 106751991167301 "''d''" 86400] by (auto simp: time_units_def)

definition plain_search :: search_v1 where
  "plain_search = \<lparr>s1_labels = Map.empty, s1_annotations = Map.empty, s1_managed = ''c'', s1_external = [],
     s1_name = ''s'', s1_view_name = ''v'', s1_query_string = ''*'', s1_description = [],
     s1_query_start = ''24h'', s1_query_end = ''now'', s1_schedule = ''@daily'', s1_time_zone = ''UTC'',
     s1_backfill_limit = 0, s1_enabled = True, s1_actions = Some [], s1_search_labels = None, s1_state = []\<rparr>"

lemma plain_search_start: "ParseTimeStringToSeconds ''24h'' = Inr 86400"
proof -
  have "itoa 24 = ''24''" by code_simp
  then show ?thesis
    using parse_number_unit [of 24 "''h''" 3600] by (simp add: unit_facts is_digit_def)
qed

lemma search_conversion_roundtrip_witness:
  "\<exists>dst start till. ConvertTo (\<lambda>_. Inr ''{}'') ''0'' plain_search = Inr dst
     \<and> ConvertFrom dst = Inr (plain_search\<lparr>s1_labels := s2_labels dst, s1_annotations := s2_annotations dst,
                    s1_query_start := start, s1_query_end := till\<rparr>)"
proof -
  have now: "ParseTimeStringToSeconds ''now'' = Inr 0"
    by (simp add: ParseTimeStringToSeconds_def HumioScheduledSearchTimeNow_def)
  obtain dst where dst: "ConvertTo (\<lambda>_. Inr ''{}'') ''0'' plain_search = Inr dst"
      "s2_search_interval_seconds dst = 86400" "s2_search_interval_offset_seconds dst = Some 0"
    by (simp add: ConvertTo_def plain_search_def plain_search_start now)
  show ?thesis using search_conversion_roundtrip [OF dst(1)] dst by auto
qed

section \<open>Which API a reconciliation uses\<close>

text \<open>
  internal/controller/humioscheduledsearch_controller.go: clusters before 1.180.0 are served through the
  older API when the resource converts. The details of the older API are brought into the form of the newer one.
\<close>

definition HumioScheduledSearchV1alpha1DeprecatedInVersion :: string where
  "HumioScheduledSearchV1alpha1DeprecatedInVersion = ''1.180.0''"

datatype query_ownership = OrganizationOwnership | UserOwnership

definition QueryOwnershipIsOrganizationOwnership :: "query_ownership option \<Rightarrow> bool" where
  "QueryOwnershipIsOrganizationOwnership v = (v = Some OrganizationOwnership)"

record search_details_v1 =
  d1_id :: string
  d1_name :: string
  d1_description :: "string option"
  d1_query_string :: string
  d1_start :: string
  d1_end :: string
  d1_time_zone :: string
  d1_schedule :: string
  d1_backfill_limit :: int
  d1_enabled :: bool
  d1_labels :: "string slice"
  d1_actions :: "string list"          \<comment> \<open>their names\<close>
  d1_ownership :: "query_ownership option"

record search_details_v2 =
  d2_id :: string
  d2_name :: string
  d2_description :: "string option"
  d2_query_string :: string
  d2_search_interval_seconds :: int64
  d2_search_interval_offset_seconds :: "int64 option"
  d2_max_wait_time_seconds :: "int64 option"
  d2_time_zone :: string
  d2_schedule :: string
  d2_backfill_limit :: "int option"
  d2_enabled :: bool
  d2_labels :: "string slice"
  d2_actions :: "string list"
  d2_ownership :: "query_ownership option"
  d2_query_timestamp_type :: string

definition seconds_or_zero :: "string \<Rightarrow> int64" where
  "seconds_or_zero text = (case ParseTimeStringToSeconds text of Inl _ \<Rightarrow> 0 | Inr t \<Rightarrow> t)"

definition details_of_v1 :: "search_details_v1 \<Rightarrow> search_details_v2" where
  "details_of_v1 r =
     \<lparr>d2_id = d1_id r, d2_name = d1_name r, d2_description = d1_description r,
      d2_query_string = d1_query_string r, d2_search_interval_seconds = seconds_or_zero (d1_start r),
      d2_search_interval_offset_seconds = Some (seconds_or_zero (d1_end r)), d2_max_wait_time_seconds = None,
      d2_time_zone = d1_time_zone r, d2_schedule = d1_schedule r,
      d2_backfill_limit = Some (d1_backfill_limit r), d2_enabled = d1_enabled r, d2_labels = d1_labels r,
      d2_actions = d1_actions r, d2_ownership = d1_ownership r, d2_query_timestamp_type = ''EventTimestamp''\<rparr>"

definition convertToV1Alpha1 :: "search_v2 \<Rightarrow> search_v1 option" where
  "convertToV1Alpha1 hss = (case ConvertFrom hss of Inl _ \<Rightarrow> None | Inr v1 \<Rightarrow> Some v1)"

text \<open>
  \<open>scheduledSearchAlreadyAsExpectedV2\<close>: whether there is no difference, and the resource with its slices sorted.
  A nil \<open>Labels\<close> is compared as an empty slice; \<open>Actions\<close> is not.
\<close>

definition scheduledSearchAlreadyAsExpectedV2 :: "search_v2 \<Rightarrow> search_details_v2 \<Rightarrow> bool \<times> search_v2" where
  "scheduledSearchAlreadyAsExpectedV2 cr gql =
     (d2_description gql = Some (s2_description cr)
      \<and> sort_strings (d2_labels gql) = sort_strings (EmptySliceIfNil (s2_search_labels cr))
      \<and> made (sort (d2_actions gql)) = sort_strings (s2_actions cr)
      \<and> d2_time_zone gql = s2_time_zone cr
      \<and> d2_query_string gql = s2_query_string cr
      \<and> d2_schedule gql = s2_schedule cr
      \<and> d2_enabled gql = s2_enabled cr
      \<and> QueryOwnershipIsOrganizationOwnership (d2_ownership gql)
      \<and> d2_backfill_limit gql = s2_backfill_limit cr
      \<and> (case d2_max_wait_time_seconds gql of None \<Rightarrow> 0 | Some n \<Rightarrow> n) = s2_max_wait_time_seconds cr
      \<and> d2_query_timestamp_type gql = s2_query_timestamp_type cr
      \<and> d2_search_interval_seconds gql = s2_search_interval_seconds cr
      \<and> d2_search_interval_offset_seconds gql = s2_search_interval_offset_seconds cr,
      cr\<lparr>s2_search_labels := sort_strings (s2_search_labels cr), s2_actions := sort_strings (s2_actions cr)\<rparr>)"

text \<open>
  What the older API cannot express is never settled. \<open>convertToV1Alpha1\<close> never refuses a resource, so on a
  cluster that has only the older API every search goes through it; whatever that API answers then, the comparison
  asks for an update if the search has a maximum wait, a timestamp type other than "EventTimestamp", no offset,
  or no backfill limit.
\<close>

lemma older_api_never_settles:
  "(\<exists>v1. convertToV1Alpha1 hss = Some v1)
   \<and> (fst (scheduledSearchAlreadyAsExpectedV2 hss (details_of_v1 r)) \<longrightarrow>
        s2_max_wait_time_seconds hss = 0 \<and> s2_query_timestamp_type hss = QueryTimestampTypeEventtimestamp
        \<and> s2_search_interval_offset_seconds hss \<noteq> None \<and> s2_backfill_limit hss \<noteq> None)"
proof -
  obtain v1 where "ConvertFrom hss = Inr v1" using ConvertFrom_total by blast
  then show ?thesis
    by (simp add: convertToV1Alpha1_def scheduledSearchAlreadyAsExpectedV2_def details_of_v1_def
        QueryTimestampTypeEventtimestamp_def) metis
qed

definition settled_search :: search_v2 where
  "settled_search = \<lparr>s2_labels = Map.empty, s2_annotations = Map.empty, s2_managed = ''c'', s2_external = [],
     s2_name = ''s'', s2_view_name = ''v'', s2_query_string = ''*'', s2_description = [],
     s2_max_wait_time_seconds = 0, s2_query_timestamp_type = QueryTimestampTypeEventtimestamp,
     s2_search_interval_seconds = 86400, s2_search_interval_offset_seconds = Some 0,
     s2_schedule = ''@daily'', s2_time_zone = ''UTC'', s2_backfill_limit = Some 0,
     s2_enabled = True, s2_actions = Some [], s2_search_labels = None, s2_state = []\<rparr>"

definition settled_details :: search_details_v1 where
  "settled_details = \<lparr>d1_id = ''i'', d1_name = ''s'', d1_description = Some [], d1_query_string = ''*'',
     d1_start = ''24h'', d1_end = ''now'', d1_time_zone = ''UTC'', d1_schedule = ''@daily'', d1_backfill_limit = 0,
     d1_enabled = True, d1_labels = Some [], d1_actions = [], d1_ownership = Some OrganizationOwnership\<rparr>"

lemma older_api_never_settles_witness:
  "fst (scheduledSearchAlreadyAsExpectedV2 settled_search (details_of_v1 settled_details))
   \<and> s2_max_wait_time_seconds settled_search = 0"
proof -
  have "ParseTimeStringToSeconds ''now'' = Inr 0"
    by (simp add: ParseTimeStringToSeconds_def HumioScheduledSearchTimeNow_def)
  then have "fst (scheduledSearchAlreadyAsExpectedV2 settled_search (details_of_v1 settled_details))"
    by (simp add: scheduledSearchAlreadyAsExpectedV2_def details_of_v1_def settled_search_def settled_details_def
        seconds_or_zero_def plain_search_start QueryTimestampTypeEventtimestamp_def
        QueryOwnershipIsOrganizationOwnership_def EmptySliceIfNil_def made_def)
  then show ?thesis using older_api_never_settles [of settled_search settled_details] by blast
qed

end
