(* ===== verification/Entities.thy ===== *)
theory Entities
  imports Scheduled_Search Complex_Main "HOL-Library.Product_Lexorder" "HOL-Library.Multiset"
begin

text \<open>
  The specifications of the custom resources (api/v1alpha1), what LogScale answers about the entity of each
  (the detail types of internal/api/humiographql), and the \<open>...AlreadyAsExpected\<close> functions of
  internal/controller that compare the two. Of the map of differences such a function returns, the model keeps whether it
  is empty; the texts go to the log. The functions sort slices in place, so each also gives the resource it
  leaves behind. \<open>cmp.Diff\<close> tells a nil slice from an empty one, and so do the models.
\<close>

section \<open>Parsers\<close>

record parser_spec =
  ps_name :: string
  ps_parser_script :: string
  ps_repository_name :: string
  ps_tag_fields :: "string slice"
  ps_test_data :: "string slice"

record parser_test_case =
  tc_raw_string :: string
  tc_output_assertions :: "string slice"

record parser_details =
  pd_id :: string
  pd_name :: string
  pd_script :: string
  pd_fields_to_tag :: "string slice"
  pd_test_cases :: "parser_test_case slice"

definition TestDataToParserDetailsTestCasesParserTestCase :: "string slice \<Rightarrow> parser_test_case slice" where
  "TestDataToParserDetailsTestCasesParserTestCase data =
     made (map (\<lambda>d. \<lparr>tc_raw_string = d, tc_output_assertions = made []\<rparr>) (elements data))"

definition parserAlreadyAsExpected ::
  "parser_spec resource \<Rightarrow> parser_details \<Rightarrow> bool \<times> parser_spec resource" where
  "parserAlreadyAsExpected cr gql =
     (let spec = rs_spec cr in
      (pd_script gql = ps_parser_script spec
       \<and> sort_strings (pd_fields_to_tag gql) = sort_strings (ps_tag_fields spec)
       \<and> pd_test_cases gql = TestDataToParserDetailsTestCasesParserTestCase (ps_test_data spec),
       cr\<lparr>rs_spec := spec\<lparr>ps_tag_fields := sort_strings (ps_tag_fields spec)\<rparr>\<rparr>))"

section \<open>Repositories\<close>

text \<open>A retention is an \<open>int32\<close>; LogScale answers a \<open>float64\<close>, of which only whole values are compared equal.\<close>

record retention =
  rt_ingest_size_in_gb :: "int option"
  rt_storage_size_in_gb :: "int option"
  rt_time_in_days :: "int option"

record repository_spec =
  rp_name :: string
  rp_description :: string
  rp_retention :: retention
  rp_allow_data_deletion :: bool
  rp_automatic_search :: "bool option"

record repository_details =
  rd_id :: string
  rd_name :: string
  rd_description :: "string option"
  rd_time_based_retention :: "rat option"
  rd_ingest_size_based_retention :: "rat option"
  rd_storage_size_based_retention :: "rat option"
  rd_automatic_search :: bool

definition float_of :: "int option \<Rightarrow> rat option" where
  "float_of val = map_option of_int (Int32PtrToFloat64Ptr val)"

definition repositoryAlreadyAsExpected ::
  "repository_spec resource \<Rightarrow> repository_details \<Rightarrow> bool \<times> repository_spec resource" where
  "repositoryAlreadyAsExpected cr gql =
     (let spec = rs_spec cr in
      (rd_description gql = Some (rp_description spec)
       \<and> rd_time_based_retention gql = float_of (rt_time_in_days (rp_retention spec))
       \<and> rd_ingest_size_based_retention gql = float_of (rt_ingest_size_in_gb (rp_retention spec))
       \<and> rd_storage_size_based_retention gql = float_of (rt_storage_size_in_gb (rp_retention spec))
       \<and> rd_automatic_search gql = BoolTrue (rp_automatic_search spec),
       cr))"

section \<open>Ingest tokens\<close>

record ingest_token_spec =
  it_name :: string
  it_parser_name :: "string option"
  it_repository_name :: string
  it_token_secret_name :: string
  it_token_secret_labels :: smap
  it_token_secret_annotations :: smap

record ingest_token_details =
  itd_name :: string
  itd_token :: string
  itd_parser :: "string option"   \<comment> \<open>the name of the parser, or no parser\<close>

definition ingestTokenAlreadyAsExpected ::
  "ingest_token_spec resource \<Rightarrow> ingest_token_details \<Rightarrow> bool \<times> ingest_token_spec resource" where
  "ingestTokenAlreadyAsExpected cr gql =
     ((case (itd_parser gql, it_parser_name (rs_spec cr)) of
         (None, Some _) \<Rightarrow> False
       | (Some _, None) \<Rightarrow> False
       | (Some p, Some q) \<Rightarrow> p = q
       | (None, None) \<Rightarrow> True),
      cr)"

section \<open>Views\<close>

record view_connection =
  vc_repository_name :: string
  vc_filter :: string

record view_spec =
  vw_name :: string
  vw_description :: string
  vw_connections :: "view_connection list"
  vw_automatic_search :: "bool option"

record view_details =
  vd_id :: string
  vd_name :: string
  vd_is_federated :: bool
  vd_description :: "string option"
  vd_automatic_search :: bool
  vd_connections :: "view_connection slice"

definition GetViewConnections :: "view_spec \<Rightarrow> view_connection slice" where
  "GetViewConnections spec = made (vw_connections spec)"

text \<open>
  \<open>sort.SliceStable\<close> of up to twenty elements, one block of its insertion sort: each element moves down
  for as long as \<open>before\<close> holds between it and the one before it. For a strict weak order this is the stable sort
  of a slice of any length.
\<close>

fun move_down :: "('a \<Rightarrow> 'a \<Rightarrow> bool) \<Rightarrow> 'a \<Rightarrow> 'a list \<Rightarrow> 'a list" where
  "move_down before x [] = [x]"
| "move_down before x (p # ps) = (if before x p then p # move_down before x ps else x # p # ps)"

definition slice_stable :: "('a \<Rightarrow> 'a \<Rightarrow> bool) \<Rightarrow> 'a list \<Rightarrow> 'a list" where
  "slice_stable before xs = rev (fold (move_down before) xs [])"

definition sortConnections :: "view_connection slice \<Rightarrow> view_connection slice" where
  "sortConnections cs = map_option (slice_stable (\<lambda>a b.
     vc_repository_name b < vc_repository_name a \<or> vc_filter b < vc_filter a)) cs"

definition viewAlreadyAsExpected :: "view_spec resource \<Rightarrow> view_details \<Rightarrow> bool \<times> view_spec resource" where
  "viewAlreadyAsExpected cr gql =
     (let spec = rs_spec cr in
      (sortConnections (vd_connections gql) = sortConnections (GetViewConnections spec)
       \<and> vd_description gql = Some (vw_description spec)
       \<and> vd_automatic_search gql = BoolTrue (vw_automatic_search spec),
       cr))"

section \<open>Users and groups\<close>

record user_spec =
  us_user_name :: string
  us_is_root :: "bool option"

record user_details =
  ud_id :: string
  ud_username :: string
  ud_is_root :: bool

definition userAlreadyAsExpected :: "user_spec resource \<Rightarrow> user_details \<Rightarrow> bool \<times> user_spec resource" where
  "userAlreadyAsExpected cr gql = (ud_is_root gql = BoolFalse (us_is_root (rs_spec cr)), cr)"

record group_spec =
  gs_name :: string
  gs_external_mapping_name :: "string option"

record group_details =
  gd_id :: string
  gd_display_name :: string
  gd_lookup_name :: "string option"

definition groupAlreadyAsExpected :: "group_spec resource \<Rightarrow> group_details \<Rightarrow> bool \<times> group_spec resource" where
  "groupAlreadyAsExpected cr gql = (gd_lookup_name gql = gs_external_mapping_name (rs_spec cr), cr)"

section \<open>Permission roles\<close>

text \<open>A group of a role with the search domains the role is assigned in for it.\<close>

record role_group =
  rg_id :: string
  rg_display_name :: string
  rg_search_domains :: "string list"

record role_details =
  ro_id :: string
  ro_display_name :: string
  ro_view_permissions :: "string slice"
  ro_organization_permissions :: "string slice"
  ro_system_permissions :: "string slice"
  ro_groups :: "role_group slice"

record role_spec =    \<comment> \<open>of system and of organization permission roles\<close>
  rl_name :: string
  rl_permissions :: "string slice"
  rl_role_assignment_group_names :: "string slice"

definition roleAlreadyAsExpected ::
  "(role_details \<Rightarrow> string slice) \<Rightarrow> role_spec resource \<Rightarrow> role_details \<Rightarrow> bool \<times> role_spec resource" where
  "roleAlreadyAsExpected permissions cr gql =
     (let spec = rs_spec cr in
      (ro_display_name gql = rl_name spec
       \<and> made (sort (elements (permissions gql))) = sort_strings (rl_permissions spec)
       \<and> made (sort (map rg_display_name (elements (ro_groups gql)))) = sort_strings (rl_role_assignment_group_names spec),
       cr\<lparr>rs_spec := spec\<lparr>rl_permissions := sort_strings (rl_permissions spec),
                          rl_role_assignment_group_names := sort_strings (rl_role_assignment_group_names spec)\<rparr>\<rparr>))"

definition systemPermissionRoleAlreadyAsExpected ::
  "role_spec resource \<Rightarrow> role_details \<Rightarrow> bool \<times> role_spec resource" where
  "systemPermissionRoleAlreadyAsExpected = roleAlreadyAsExpected ro_system_permissions"

definition organizationPermissionRoleAlreadyAsExpected ::
  "role_spec resource \<Rightarrow> role_details \<Rightarrow> bool \<times> role_spec resource" where
  "organizationPermissionRoleAlreadyAsExpected = roleAlreadyAsExpected ro_organization_permissions"

text \<open>An assignment is the pair of its repository or view and its group, the order \<open>sort.Slice\<close> is given.\<close>

record view_role_spec =
  vr_name :: string
  vr_permissions :: "string slice"
  vr_role_assignments :: "(string \<times> string) slice"

definition role_assignments_of :: "role_details \<Rightarrow> (string \<times> string) slice" where
  "role_assignments_of gql =
     made (concat (map (\<lambda>g. map (\<lambda>d. (d, rg_display_name g)) (rg_search_domains g)) (elements (ro_groups gql))))"

definition viewPermissionRoleAlreadyAsExpected ::
  "view_role_spec resource \<Rightarrow> role_details \<Rightarrow> bool \<times> view_role_spec resource" where
  "viewPermissionRoleAlreadyAsExpected cr gql =
     (let spec = rs_spec cr in
      (ro_display_name gql = vr_name spec
       \<and> made (sort (elements (ro_view_permissions gql))) = sort_strings (vr_permissions spec)
       \<and> map_option sort (role_assignments_of gql) = map_option sort (vr_role_assignments spec),
       cr\<lparr>rs_spec := spec\<lparr>vr_permissions := sort_strings (vr_permissions spec),
                          vr_role_assignments := map_option sort (vr_role_assignments spec)\<rparr>\<rparr>))"

section \<open>Alerts\<close>

text \<open>The actions of an alert, by type and name.\<close>

record shared_action =
  sa_typename :: string
  sa_name :: string

definition GetActionNames :: "shared_action slice \<Rightarrow> string slice" where
  "GetActionNames o' = made (map sa_name (elements o'))"

definition ActionNamesToEmailActions :: "string slice \<Rightarrow> shared_action slice" where
  "ActionNamesToEmailActions o' =
     made (map (\<lambda>n. \<lparr>sa_typename = ''EmailAction'', sa_name = n\<rparr>) (elements o'))"

record alert_spec =
  al_name :: string
  al_view_name :: string
  al_query_string :: string      \<comment> \<open>\<open>Query.QueryString\<close>\<close>
  al_query_start :: string       \<comment> \<open>\<open>Query.Start\<close>\<close>
  al_description :: string
  al_throttle_time_millis :: int
  al_throttle_field :: "string option"
  al_silenced :: bool
  al_actions :: "string slice"
  al_labels :: "string slice"

record alert_details =
  ad_id :: string
  ad_name :: string
  ad_query_string :: string
  ad_query_start :: string
  ad_throttle_field :: "string option"
  ad_description :: "string option"
  ad_throttle_time_millis :: int
  ad_enabled :: bool
  ad_actions :: "shared_action slice"
  ad_labels :: "string slice"
  ad_ownership :: "query_ownership option"

definition alertAlreadyAsExpected :: "alert_spec resource \<Rightarrow> alert_details \<Rightarrow> bool \<times> alert_spec resource" where
  "alertAlreadyAsExpected cr gql =
     (let spec = rs_spec cr in
      (ad_description gql = Some (al_description spec)
       \<and> sort_strings (ad_labels gql) = sort_strings (al_labels spec)
       \<and> ad_throttle_field gql = al_throttle_field spec
       \<and> ad_throttle_time_millis gql = al_throttle_time_millis spec
       \<and> sort_strings (GetActionNames (ad_actions gql)) = sort_strings (al_actions spec)
       \<and> ad_query_string gql = al_query_string spec
       \<and> ad_query_start gql = al_query_start spec
       \<and> ad_enabled gql = (\<not> al_silenced spec)
       \<and> QueryOwnershipIsOrganizationOwnership (ad_ownership gql),
       cr\<lparr>rs_spec := spec\<lparr>al_labels := sort_strings (al_labels spec),
                          al_actions := sort_strings (al_actions spec)\<rparr>\<rparr>))"

record filter_alert_spec =
  fa_name :: string
  fa_view_name :: string
  fa_query_string :: string
  fa_description :: string
  fa_throttle_time_seconds :: int
  fa_throttle_field :: "string option"
  fa_enabled :: bool
  fa_actions :: "string slice"
  fa_labels :: "string slice"

record filter_alert_details =
  fd_id :: string
  fd_name :: string
  fd_description :: "string option"
  fd_query_string :: string
  fd_throttle_time_seconds :: "int option"
  fd_throttle_field :: "string option"
  fd_labels :: "string slice"
  fd_enabled :: bool
  fd_actions :: "shared_action slice"
  fd_ownership :: "query_ownership option"

definition filterAlertAlreadyAsExpected ::
  "filter_alert_spec resource \<Rightarrow> filter_alert_details \<Rightarrow> bool \<times> filter_alert_spec resource" where
  "filterAlertAlreadyAsExpected cr gql =
     (let spec = rs_spec cr in
      (fd_description gql = Some (fa_description spec)
       \<and> sort_strings (fd_labels gql) = sort_strings (fa_labels spec)
       \<and> fd_throttle_field gql = fa_throttle_field spec
       \<and> fd_throttle_time_seconds gql = Some (fa_throttle_time_seconds spec)
       \<and> sort_strings (GetActionNames (fd_actions gql)) = sort_strings (fa_actions spec)
       \<and> fd_query_string gql = fa_query_string spec
       \<and> fd_enabled gql = fa_enabled spec
       \<and> QueryOwnershipIsOrganizationOwnership (fd_ownership gql),
       cr\<lparr>rs_spec := spec\<lparr>fa_labels := sort_strings (fa_labels spec),
                          fa_actions := sort_strings (fa_actions spec)\<rparr>\<rparr>))"

record aggregate_alert_spec =
  ag_name :: string
  ag_view_name :: string
  ag_query_string :: string
  ag_query_timestamp_type :: string
  ag_description :: string
  ag_search_interval_seconds :: int
  ag_throttle_time_seconds :: int
  ag_throttle_field :: "string option"
  ag_trigger_mode :: string
  ag_enabled :: bool
  ag_actions :: "string slice"
  ag_labels :: "string slice"

record aggregate_alert_details =
  gad_id :: string
  gad_name :: string
  gad_description :: "string option"
  gad_query_string :: string
  gad_search_interval_seconds :: int
  gad_throttle_time_seconds :: int
  gad_throttle_field :: "string option"
  gad_labels :: "string slice"
  gad_enabled :: bool
  gad_trigger_mode :: string
  gad_query_timestamp_type :: string
  gad_actions :: "shared_action slice"
  gad_ownership :: "query_ownership option"

definition aggregateAlertAlreadyAsExpected ::
  "aggregate_alert_spec resource \<Rightarrow> aggregate_alert_details \<Rightarrow> bool \<times> aggregate_alert_spec resource" where
  "aggregateAlertAlreadyAsExpected cr gql =
     (let spec = rs_spec cr in
      (gad_description gql = Some (ag_description spec)
       \<and> sort_strings (gad_labels gql) = sort_strings (ag_labels spec)
       \<and> gad_throttle_field gql = ag_throttle_field spec
       \<and> gad_throttle_time_seconds gql = ag_throttle_time_seconds spec
       \<and> sort_strings (GetActionNames (gad_actions gql)) = sort_strings (ag_actions spec)
       \<and> gad_query_timestamp_type gql = ag_query_timestamp_type spec
       \<and> gad_query_string gql = ag_query_string spec
       \<and> gad_trigger_mode gql = ag_trigger_mode spec
       \<and> gad_search_interval_seconds gql = ag_search_interval_seconds spec
       \<and> gad_enabled gql = ag_enabled spec
       \<and> QueryOwnershipIsOrganizationOwnership (gad_ownership gql),
       cr\<lparr>rs_spec := spec\<lparr>ag_labels := sort_strings (ag_labels spec),
                          ag_actions := sort_strings (ag_actions spec)\<rparr>\<rparr>))"

section \<open>IP filters and feature flags\<close>

record firewall_rule =
  fr_action :: string
  fr_address :: string

record ip_filter_spec =
  ipf_name :: string
  ipf_rules :: "firewall_rule list"

record ip_filter_details =
  ifd_id :: string
  ifd_name :: string
  ifd_ip_filter :: string

definition FirewallRulesToString :: "firewall_rule list \<Rightarrow> string \<Rightarrow> string" where
  "FirewallRulesToString rules separator =
     (if rules = [] then []
      else join_with separator (map (\<lambda>rule. fr_action rule @ '' '' @ fr_address rule) rules))"

definition ipFilterAlreadyAsExpected ::
  "ip_filter_spec resource \<Rightarrow> ip_filter_details \<Rightarrow> bool \<times> ip_filter_spec resource" where
  "ipFilterAlreadyAsExpected cr gql =
     (ifd_ip_filter gql = FirewallRulesToString (ipf_rules (rs_spec cr)) [CHR 0x0A], cr)"

record feature_flag_spec =
  ff_name :: string

section \<open>What the comparisons decide\<close>

text \<open>Slices sorted before they are compared are compared as multisets, a nil slice as different from an empty one.\<close>

lemma sort_eq_iff_mset: "sort xs = sort ys \<longleftrightarrow> mset xs = mset ys"
  by (metis mset_sort properties_for_sort sorted_sort)

lemma sort_strings_eq:
  "sort_strings a = sort_strings b \<longleftrightarrow> (a = None \<longleftrightarrow> b = None) \<and> mset (elements a) = mset (elements b)"
  by (cases a; cases b) (simp_all add: sort_eq_iff_mset)

lemma made_sort_eq:
  "made (sort l) = sort_strings b \<longleftrightarrow> b \<noteq> None \<and> mset l = mset (elements b)"
  by (cases b) (simp_all add: sort_eq_iff_mset made_def)

lemma made_eq: "made l = b \<longleftrightarrow> b \<noteq> None \<and> l = elements b"
  by (cases b) (simp_all add: made_def)


text \<open>
  The order \<open>sortConnections\<close> sorts by is not one: of two connections each may come before the other,
  and then the result depends on the order they came in.
\<close>

lemma sortConnections_depends_on_order:
  assumes "vc_repository_name a < vc_repository_name b" and "vc_filter b < vc_filter a"
  shows "sortConnections (Some [a, b]) = Some [b, a]" and "sortConnections (Some [b, a]) = Some [a, b]"
  using assms by (simp_all add: sortConnections_def slice_stable_def)

end
