(* ===== verification/Actions.thy ===== *)
theory Actions
  imports Entities "HOL-Library.AList"
begin

text \<open>
  Actions: the properties of \<open>HumioActionSpec\<close> (api/v1alpha1/humioaction_types.go), the translation
  \<open>ActionFromActionCR\<close> of internal/humio/action_transform.go into the eight kinds of actions LogScale knows,
  the caches of resolved secrets (internal/kubernetes/humioaction_secret_helpers.go), and the resolution of secrets and
  the comparison of internal/controller/humioaction_controller.go.

  A Go map whose entries are visited is the list of its entries, one per key; \<open>visit\<close> is the order of
  one visit, which Go chooses anew each time. \<open>parse_uri\<close> gives the text of the error of \<open>url.ParseRequestURI\<close>, if any.
\<close>

section \<open>Specification\<close>

type_synonym entries = "(string \<times> string) list"   \<comment> \<open>a Go map from strings to strings\<close>
type_synonym var_source = "secret_key_selector option"   \<comment> \<open>\<open>VarSource.SecretKeyRef\<close>\<close>

record webhook_properties =
  wp_body_template :: string
  wp_headers :: entries
  wp_secret_headers :: "(string \<times> var_source) list"
  wp_method :: string
  wp_url :: string
  wp_url_source :: var_source
  wp_ignore_ssl :: bool
  wp_use_proxy :: bool

record email_properties =
  ep_body_template :: string
  ep_subject_template :: string
  ep_recipients :: "string slice"
  ep_use_proxy :: bool

record repository_properties =
  hp_ingest_token :: string
  hp_ingest_token_source :: var_source

record ops_genie_properties =
  op_api_url :: string
  op_genie_key :: string
  op_genie_key_source :: var_source
  op_use_proxy :: bool

record pager_duty_properties =
  pp_routing_key :: string
  pp_routing_key_source :: var_source
  pp_severity :: string
  pp_use_proxy :: bool

record slack_properties =
  sp_fields :: "entries option"   \<comment> \<open>a nil map is \<open>None\<close>\<close>
  sp_url :: string
  sp_url_source :: var_source
  sp_use_proxy :: bool

record slack_post_message_properties =
  mp_api_token :: string
  mp_api_token_source :: var_source
  mp_channels :: "string slice"
  mp_fields :: "entries option"
  mp_use_proxy :: bool

record victor_ops_properties =
  vp_message_type :: string
  vp_notify_url :: string
  vp_notify_url_source :: var_source
  vp_use_proxy :: bool

record action_spec =
  an_name :: string
  an_view_name :: string
  an_email :: "email_properties option"
  an_humio_repository :: "repository_properties option"
  an_ops_genie :: "ops_genie_properties option"
  an_pager_duty :: "pager_duty_properties option"
  an_slack :: "slack_properties option"
  an_slack_post_message :: "slack_post_message_properties option"
  an_victor_ops :: "victor_ops_properties option"
  an_webhook :: "webhook_properties option"

section \<open>What LogScale knows of an action\<close>

datatype action_details =
    ActionDetailsEmailAction (action_id: string) (action_name: string) (recipients: "string slice")
      (subject_template: "string option") (email_body_template: "string option") (use_proxy: bool)
  | ActionDetailsHumioRepoAction (action_id: string) (action_name: string) (ingest_token: string)
  | ActionDetailsOpsGenieAction (action_id: string) (action_name: string) (api_url: string) (genie_key: string) (use_proxy: bool)
  | ActionDetailsPagerDutyAction (action_id: string) (action_name: string) (severity: string) (routing_key: string) (use_proxy: bool)
  | ActionDetailsSlackAction (action_id: string) (action_name: string) (url: string) (fields: "(string \<times> string) slice") (use_proxy: bool)
  | ActionDetailsSlackPostMessageAction (action_id: string) (action_name: string) (api_token: string) (channels: "string slice")
      (fields: "(string \<times> string) slice") (use_proxy: bool)
  | ActionDetailsVictorOpsAction (action_id: string) (action_name: string) (message_type: string) (notify_url: string) (use_proxy: bool)
  | ActionDetailsWebhookAction (action_id: string) (action_name: string) (http_method: string) (url: string)
      (headers: "(string \<times> string) slice") (webhook_body_template: string) (ignore_ssl: bool) (use_proxy: bool)

section \<open>The caches of resolved secrets\<close>

record secret_cache =
  ha_secrets :: smap
  ha_webhook_headers :: "string \<rightharpoonup> entries"

definition cache_key :: "action_spec resource \<Rightarrow> string" where
  "cache_key hn = rs_namespace hn @ '' '' @ rs_name hn"

definition GetSecretForHa :: "secret_cache \<Rightarrow> action_spec resource \<Rightarrow> string \<times> bool" where
  "GetSecretForHa c hn = (case ha_secrets c (cache_key hn) of Some secret \<Rightarrow> (secret, True) | None \<Rightarrow> ([], False))"

definition StoreSingleSecretForHa :: "action_spec resource \<Rightarrow> string \<Rightarrow> secret_cache \<Rightarrow> secret_cache" where
  "StoreSingleSecretForHa hn token c = c\<lparr>ha_secrets := (ha_secrets c)(cache_key hn \<mapsto> token)\<rparr>"

definition GetFullSetOfMergedWebhookheaders :: "secret_cache \<Rightarrow> action_spec resource \<Rightarrow> entries \<times> bool" where
  "GetFullSetOfMergedWebhookheaders c hn =
     (case ha_webhook_headers c (cache_key hn) of Some hs \<Rightarrow> (hs, True) | None \<Rightarrow> ([], False))"

text \<open>A nil map of headers is an empty one here: merging into it gives the resolved headers.\<close>

definition StoreFullSetOfMergedWebhookActionHeaders ::
  "action_spec resource \<Rightarrow> webhook_properties \<Rightarrow> entries \<Rightarrow> secret_cache \<Rightarrow> secret_cache" where
  "StoreFullSetOfMergedWebhookActionHeaders hn wp resolvedSecretHeaders c =
     c\<lparr>ha_webhook_headers := (ha_webhook_headers c)(cache_key hn \<mapsto>
         (if resolvedSecretHeaders = [] then wp_headers wp
          else if wp_headers wp = [] then resolvedSecretHeaders
          else fold (\<lambda>(k, v). AList.update k v) resolvedSecretHeaders (wp_headers wp)))\<rparr>"

section \<open>From the resource to an action\<close>

definition stringInList :: "string \<Rightarrow> string list \<Rightarrow> bool" where
  "stringInList s l = (s \<in> set l)"

definition ifErrors :: "string \<Rightarrow> string list \<Rightarrow> go_error option" where
  "ifErrors actionType errorList =
     (if errorList = [] then None
      else Some (Msg (actionType @ '' failed due to errors: '' @ join_with '', '' errorList)))"

definition unless_errors :: "string \<Rightarrow> string list \<Rightarrow> action_details \<Rightarrow> go_error + action_details" where
  "unless_errors actionType errorList action =
     (case ifErrors actionType errorList of Some err \<Rightarrow> Inl err | None \<Rightarrow> Inr action)"

definition ActionTypeWebhook :: string where "ActionTypeWebhook = ''Webhook''"
definition ActionTypeSlack :: string where "ActionTypeSlack = ''Slack''"
definition ActionTypeSlackPostMessage :: string where "ActionTypeSlackPostMessage = ''SlackPostMessage''"
definition ActionTypePagerDuty :: string where "ActionTypePagerDuty = ''PagerDuty''"
definition ActionTypeVictorOps :: string where "ActionTypeVictorOps = ''VictorOps''"
definition ActionTypeHumioRepo :: string where "ActionTypeHumioRepo = ''HumioRepo''"
definition ActionTypeEmail :: string where "ActionTypeEmail = ''Email''"
definition ActionTypeOpsGenie :: string where "ActionTypeOpsGenie = ''OpsGenie''"

definition getActionType :: "action_spec \<Rightarrow> go_error + string" where
  "getActionType ha =
     (let actionTypes =
            (if an_webhook ha \<noteq> None then [ActionTypeWebhook] else [])
            @ (if an_victor_ops ha \<noteq> None then [ActionTypeVictorOps] else [])
            @ (if an_pager_duty ha \<noteq> None then [ActionTypePagerDuty] else [])
            @ (if an_humio_repository ha \<noteq> None then [ActionTypeHumioRepo] else [])
            @ (if an_slack_post_message ha \<noteq> None then [ActionTypeSlackPostMessage] else [])
            @ (if an_slack ha \<noteq> None then [ActionTypeSlack] else [])
            @ (if an_ops_genie ha \<noteq> None then [ActionTypeOpsGenie] else [])
            @ (if an_email ha \<noteq> None then [ActionTypeEmail] else [])
      in if 1 < length actionTypes
         then Inl (Msg (''found properties for more than one action: '' @ join_with '', '' actionTypes))
         else case actionTypes of [] \<Rightarrow> Inl (Msg ''no properties specified for action'') | t # _ \<Rightarrow> Inr t)"

definition required :: "bool \<Rightarrow> string \<Rightarrow> string list" where
  "required missing property = (if missing then [''property '' @ property @ '' is required''] else [])"

definition supported :: "string \<Rightarrow> string \<Rightarrow> (string \<Rightarrow> string) \<Rightarrow> string list \<Rightarrow> string list" where
  "supported val unsupported normal accepted =
     (if val \<noteq> [] \<and> \<not> stringInList (normal val) accepted
      then [''unsupported '' @ unsupported @ '': '' @ CHR 0x22 # val @ [CHR 0x22] @ ''. must be one of: '' @ join_with '', '' accepted]
      else [])"

definition valid_uri :: "(string \<Rightarrow> string option) \<Rightarrow> string \<Rightarrow> string \<Rightarrow> string list" where
  "valid_uri parse_uri uri property =
     (case parse_uri uri of Some err \<Rightarrow> [''invalid url for '' @ property @ '': '' @ err] | None \<Rightarrow> [])"

definition or_secret :: "string \<Rightarrow> string \<Rightarrow> string" where
  "or_secret val secret = (if val \<noteq> [] then val else secret)"

definition emailAction :: "action_spec \<Rightarrow> email_properties \<Rightarrow> go_error + action_details" where
  "emailAction hn p =
     unless_errors ActionTypeEmail (required (elements (ep_recipients p) = []) ''emailProperties.recipients'')
       (ActionDetailsEmailAction [] (an_name hn) (ep_recipients p) (Some (ep_subject_template p))
          (Some (ep_body_template p)) (ep_use_proxy p))"

definition humioRepoAction :: "string \<times> bool \<Rightarrow> action_spec \<Rightarrow> repository_properties \<Rightarrow> go_error + action_details" where
  "humioRepoAction secret hn p =
     unless_errors ActionTypeHumioRepo
       (required (hp_ingest_token p = [] \<and> \<not> snd secret) ''humioRepositoryProperties.ingestToken'')
       (ActionDetailsHumioRepoAction [] (an_name hn) (or_secret (hp_ingest_token p) (fst secret)))"

definition opsGenieAction :: "string \<times> bool \<Rightarrow> action_spec \<Rightarrow> ops_genie_properties \<Rightarrow> go_error + action_details" where
  "opsGenieAction secret hn p =
     unless_errors ActionTypeOpsGenie
       (required (op_genie_key p = [] \<and> \<not> snd secret) ''opsGenieProperties.genieKey''
        @ required (op_api_url p = []) ''opsGenieProperties.apiUrl'')
       (ActionDetailsOpsGenieAction [] (an_name hn) (op_api_url p) (or_secret (op_genie_key p) (fst secret)) (op_use_proxy p))"

definition pagerDutyAction :: "string \<times> bool \<Rightarrow> action_spec \<Rightarrow> pager_duty_properties \<Rightarrow> go_error + action_details" where
  "pagerDutyAction secret hn p =
     unless_errors ActionTypePagerDuty
       (required (pp_routing_key p = [] \<and> \<not> snd secret) ''pagerDutyProperties.routingKey''
        @ required (pp_severity p = []) ''pagerDutyProperties.severity''
        @ supported (pp_severity p) ''severity for pagerDutyProperties'' to_lower [''critical'', ''error'', ''warning'', ''info''])
       (ActionDetailsPagerDutyAction [] (an_name hn) (to_lower (pp_severity p))
          (or_secret (pp_routing_key p) (fst secret)) (pp_use_proxy p))"

text \<open>Fields appended to a nil slice: without fields the slice stays nil.\<close>

definition slack_fields :: "(entries \<Rightarrow> entries) \<Rightarrow> entries option \<Rightarrow> (string \<times> string) slice" where
  "slack_fields visit fs =
     (case fs of None \<Rightarrow> None | Some es \<Rightarrow> if visit es = [] then None else Some (visit es))"

definition slackAction ::
  "(entries \<Rightarrow> entries) \<Rightarrow> (string \<Rightarrow> string option) \<Rightarrow> string \<times> bool \<Rightarrow> action_spec \<Rightarrow> slack_properties \<Rightarrow> go_error + action_details" where
  "slackAction visit parse_uri secret hn p =
     (let uri = or_secret (sp_url p) (fst secret) in
      unless_errors ActionTypeSlack
        (required (sp_url p = [] \<and> \<not> snd secret) ''slackProperties.url''
         @ required (sp_fields p = None) ''slackProperties.fields''
         @ valid_uri parse_uri uri ''slackProperties.url'')
        (ActionDetailsSlackAction [] (an_name hn) uri (slack_fields visit (sp_fields p)) (sp_use_proxy p)))"

definition slackPostMessageAction ::
  "(entries \<Rightarrow> entries) \<Rightarrow> string \<times> bool \<Rightarrow> action_spec \<Rightarrow> slack_post_message_properties \<Rightarrow> go_error + action_details" where
  "slackPostMessageAction visit secret hn p =
     unless_errors ActionTypeSlackPostMessage
       (required (mp_api_token p = [] \<and> \<not> snd secret) ''slackPostMessageProperties.apiToken''
        @ required (elements (mp_channels p) = []) ''slackPostMessageProperties.channels''
        @ required (mp_fields p = None) ''slackPostMessageProperties.fields'')
       (ActionDetailsSlackPostMessageAction [] (an_name hn) (or_secret (mp_api_token p) (fst secret)) (mp_channels p)
          (slack_fields visit (mp_fields p)) (mp_use_proxy p))"

definition victorOpsAction ::
  "(string \<Rightarrow> string option) \<Rightarrow> string \<times> bool \<Rightarrow> action_spec \<Rightarrow> victor_ops_properties \<Rightarrow> go_error + action_details" where
  "victorOpsAction parse_uri secret hn p =
     (let uri = or_secret (vp_notify_url p) (fst secret) in
      unless_errors ActionTypeVictorOps
        (required (vp_notify_url p = [] \<and> \<not> snd secret) ''victorOpsProperties.notifyUrl''
         @ required (vp_message_type p = []) ''victorOpsProperties.messageType''
         @ supported (vp_message_type p) ''messageType for victorOpsProperties'' to_lower
             [''critical'', ''warning'', ''acknowledgement'', ''info'', ''recovery'']
         @ valid_uri parse_uri uri ''victorOpsProperties.notifyUrl'')
        (ActionDetailsVictorOpsAction [] (an_name hn) (to_lower (vp_message_type p)) uri (vp_use_proxy p)))"

definition to_upper :: "string \<Rightarrow> string" where   \<comment> \<open>\<open>strings.ToUpper\<close>, for ASCII letters\<close>
  "to_upper s = map (\<lambda>c. if CHR ''a'' \<le> c \<and> c \<le> CHR ''z'' then char_of (of_char c - 32 :: nat) else c) s"

text \<open>\<open>IgnoreSSL\<close> of the properties is not read.\<close>

definition webhookAction ::
  "(entries \<Rightarrow> entries) \<Rightarrow> (string \<Rightarrow> string option) \<Rightarrow> string \<times> bool \<Rightarrow> entries \<times> bool
   \<Rightarrow> action_spec \<Rightarrow> webhook_properties \<Rightarrow> go_error + action_details" where
  "webhookAction visit parse_uri secret allHeaders hn p =
     (let uri = or_secret (wp_url p) (fst secret) in
      unless_errors ActionTypeWebhook
        (required (wp_url p = [] \<and> \<not> snd secret) ''webhookProperties.url''
         @ required (wp_body_template p = []) ''webhookProperties.bodyTemplate''
         @ required (wp_method p = []) ''webhookProperties.method''
         @ supported (wp_method p) ''method for webhookProperties'' to_upper [''GET'', ''POST'', ''PUT'']
         @ valid_uri parse_uri uri ''webhookProperties.url''
         @ (if length (fst allHeaders) \<noteq> length (wp_headers p) + length (wp_secret_headers p)
            then [''webhookProperties contains duplicate keys''] else []))
        (ActionDetailsWebhookAction [] (an_name hn) (to_upper (wp_method p)) uri
           (made (if snd allHeaders then visit (fst allHeaders) else [])) (wp_body_template p) False (wp_use_proxy p)))"

definition ActionFromActionCR ::
  "(entries \<Rightarrow> entries) \<Rightarrow> (string \<Rightarrow> string option) \<Rightarrow> secret_cache \<Rightarrow> action_spec resource \<Rightarrow> go_error + action_details" where
  "ActionFromActionCR visit parse_uri c ha =
     (let spec = rs_spec ha; secret = GetSecretForHa c ha in
      case getActionType spec of
        Inl err \<Rightarrow> Inl (Wrap ''could not find action type'' (Some err))
      | Inr t \<Rightarrow>
          (case (an_email spec, an_humio_repository spec, an_ops_genie spec, an_pager_duty spec) of
             (Some p, _, _, _) \<Rightarrow> emailAction spec p
           | (_, Some p, _, _) \<Rightarrow> humioRepoAction secret spec p
           | (_, _, Some p, _) \<Rightarrow> opsGenieAction secret spec p
           | (_, _, _, Some p) \<Rightarrow> pagerDutyAction secret spec p
           | _ \<Rightarrow>
          (case (an_slack spec, an_slack_post_message spec, an_victor_ops spec, an_webhook spec) of
             (Some p, _, _, _) \<Rightarrow> slackAction visit parse_uri secret spec p
           | (_, Some p, _, _) \<Rightarrow> slackPostMessageAction visit secret spec p
           | (_, _, Some p, _) \<Rightarrow> victorOpsAction parse_uri secret spec p
           | (_, _, _, Some p) \<Rightarrow> webhookAction visit parse_uri secret (GetFullSetOfMergedWebhookheaders c ha) spec p
           | _ \<Rightarrow> Inl (Msg (''invalid action type: '' @ t)))))"

end
