(* ===== verification/Multi_Cluster_Views.thy ===== *)
theory Multi_Cluster_Views
  imports Actions
begin

text \<open>
  Multi-cluster search views: \<open>HumioMultiClusterSearchViewSpec\<close> (api/v1alpha1), the connections LogScale
  answers, and what internal/controller/humiomulticlustersearchview_controller.go derives from both before it
  compares them. A connection of another type than local and remote is not sent to LogScale.
\<close>

definition HumioMultiClusterSearchViewConnectionTypeLocal :: string where
  "HumioMultiClusterSearchViewConnectionTypeLocal = ''Local''"
definition HumioMultiClusterSearchViewConnectionTypeRemote :: string where
  "HumioMultiClusterSearchViewConnectionTypeRemote = ''Remote''"

type_synonym tag = "string \<times> string"   \<comment> \<open>key and value\<close>

record mcs_connection =
  mc_cluster_identity :: string
  mc_filter :: string
  mc_tags :: "tag list"
  mc_type :: string
  mc_view_or_repo_name :: string
  mc_url :: string
  mc_api_token_source :: "secret_key_selector option option"   \<comment> \<open>\<open>APITokenSource\<close> and its \<open>SecretKeyRef\<close>\<close>

record mcs_view_spec =
  mv_name :: string
  mv_description :: string
  mv_connections :: "mcs_connection list"
  mv_automatic_search :: "bool option"

text \<open>\<open>ConnectionDetailsIncludingAPIToken\<close> of internal/humio/client.go: a connection and its token.\<close>

type_synonym connection_details = "mcs_connection \<times> string"

datatype cluster_connection =
    LocalClusterConnection (cc_cluster_id: string) (cc_id: string) (cc_query_prefix: string) (cc_tags: "tag slice")
      (cc_target_view_name: string)
  | RemoteClusterConnection (cc_cluster_id: string) (cc_id: string) (cc_query_prefix: string) (cc_tags: "tag slice")
      (cc_public_url: string)

record mcs_view_details =
  md_id :: string
  md_name :: string
  md_description :: "string option"
  md_automatic_search :: bool
  md_is_federated :: bool
  md_cluster_connections :: "cluster_connection list"

section \<open>Connections with their tokens\<close>

text \<open>A connection of neither type keeps the zero value; its identity is empty from then on.\<close>

definition no_connection :: mcs_connection where
  "no_connection = \<lparr>mc_cluster_identity = [], mc_filter = [], mc_tags = [], mc_type = [], mc_view_or_repo_name = [],
                    mc_url = [], mc_api_token_source = None\<rparr>"

definition remote_token ::
  "'w kube \<Rightarrow> string \<Rightarrow> mcs_connection \<Rightarrow> ('w st, go_error, connection_details) step" where
  "remote_token K namespace conn =
     (case mc_api_token_source conn of
        Some (Some r) \<Rightarrow>
          and_then (query (k_get_object K SecretKind (sks_name r) namespace)) (\<lambda>apiTokenSecret.
          case ko_data apiTokenSecret ''token'' of
            None \<Rightarrow> exit_with (Msg (''secret '' @ ko_name apiTokenSecret @ '' does not contain a key named ''
                      @ CHR 0x22 # ''token'' @ [CHR 0x22]))
          | Some remoteAPIToken \<Rightarrow> ret (conn, remoteAPIToken))
      | _ \<Rightarrow> exit_with (Panic ''nil pointer dereference''))"

definition getConnectionDetailsIncludingAPIToken ::
  "'w kube \<Rightarrow> string \<Rightarrow> mcs_view_spec \<Rightarrow> ('w st, go_error, connection_details list) step" where
  "getConnectionDetailsIncludingAPIToken K namespace spec =
     fold_step (\<lambda>conn details.
       if mc_type conn = HumioMultiClusterSearchViewConnectionTypeLocal then ret (details @ [(conn, [])])
       else if mc_type conn = HumioMultiClusterSearchViewConnectionTypeRemote
       then and_then (remote_token K namespace conn) (\<lambda>d. ret (details @ [d]))
       else ret (details @ [(no_connection, [])]))
     (mv_connections spec) []"

section \<open>Comparison\<close>

definition identity_hash :: "lib \<Rightarrow> connection_details \<Rightarrow> string" where
  "identity_hash L d = x_sha256 L (mc_url (fst d) @ ''|'' @ snd d)"

text \<open>The copy the expectation is built from: the tags of the resource are replaced by those of the operator.\<close>

definition with_identity_tags :: "lib \<Rightarrow> connection_details \<Rightarrow> mcs_connection \<Rightarrow> mcs_connection" where
  "with_identity_tags L d conn =
     \<lparr>mc_cluster_identity = mc_cluster_identity (fst d), mc_filter = mc_filter (fst d),
      mc_tags = stable_sort_desc fst
        ((''clusteridentity'', mc_cluster_identity (fst d))
         # (if mc_type conn = HumioMultiClusterSearchViewConnectionTypeRemote
            then [(''clusteridentityhash'', identity_hash L d)] else [])),
      mc_type = mc_type (fst d), mc_view_or_repo_name = mc_view_or_repo_name (fst d), mc_url = mc_url (fst d),
      mc_api_token_source = None\<rparr>"

definition customResourceWithClusterIdentityTags :: "lib \<Rightarrow> mcs_view_spec \<Rightarrow> connection_details list \<Rightarrow> mcs_view_spec" where
  "customResourceWithClusterIdentityTags L spec details =
     spec\<lparr>mv_connections := map2 (with_identity_tags L) details (mv_connections spec)
            @ drop (length details) (mv_connections spec)\<rparr>"

definition to_cluster_connection :: "mcs_connection \<Rightarrow> cluster_connection list" where
  "to_cluster_connection conn =
     (if mc_type conn = HumioMultiClusterSearchViewConnectionTypeLocal
      then [LocalClusterConnection (mc_cluster_identity conn) [] (mc_filter conn) (made (mc_tags conn)) (mc_view_or_repo_name conn)]
      else [])
     @ (if mc_type conn = HumioMultiClusterSearchViewConnectionTypeRemote
        then [RemoteClusterConnection (mc_cluster_identity conn) [] (mc_filter conn) (made (mc_tags conn)) (mc_url conn)]
        else [])"

definition convertHumioMultiClusterSearchViewToGraphQLClusterConnectionsVariant :: "mcs_view_spec \<Rightarrow> cluster_connection list" where
  "convertHumioMultiClusterSearchViewToGraphQLClusterConnectionsVariant spec =
     concat (map to_cluster_connection (mv_connections spec))"

fun sanitize_connection :: "cluster_connection \<Rightarrow> cluster_connection" where
  "sanitize_connection (LocalClusterConnection c i q ts v) =
     LocalClusterConnection c [] q (map_option (stable_sort_desc fst) ts) v"
| "sanitize_connection (RemoteClusterConnection c i q ts u) =
     RemoteClusterConnection c [] q (map_option (stable_sort_desc fst) ts) u"

definition sortAndSanitizeClusterConnections :: "cluster_connection list \<Rightarrow> cluster_connection list" where
  "sortAndSanitizeClusterConnections connections = stable_sort_desc cc_cluster_id (map sanitize_connection connections)"

definition mcsViewAlreadyAsExpected :: "mcs_view_spec \<Rightarrow> mcs_view_details \<Rightarrow> bool" where
  "mcsViewAlreadyAsExpected spec gql \<longleftrightarrow>
     sortAndSanitizeClusterConnections (md_cluster_connections gql)
       = sortAndSanitizeClusterConnections (convertHumioMultiClusterSearchViewToGraphQLClusterConnectionsVariant spec)
     \<and> md_description gql = Some (mv_description spec)
     \<and> md_automatic_search gql = BoolTrue (mv_automatic_search spec)"

section \<open>Tags of the resource\<close>

text \<open>Every expected connection carries the tags of the operator and no other.\<close>

lemma tags_with_identity:
  "set (mc_tags (with_identity_tags L d conn)) \<subseteq>
     {(''clusteridentity'', mc_cluster_identity (fst d)), (''clusteridentityhash'', identity_hash L d)}"
  by (auto simp: with_identity_tags_def)

lemma expected_tags:
  assumes "c \<in> set (convertHumioMultiClusterSearchViewToGraphQLClusterConnectionsVariant
                       (customResourceWithClusterIdentityTags L spec details))"
    and "length details = length (mv_connections spec)"
  shows "fst ` set (elements (cc_tags c)) \<subseteq> {''clusteridentity'', ''clusteridentityhash''}"
proof -
  obtain conn where conn: "conn \<in> set (map2 (with_identity_tags L) details (mv_connections spec))"
      "c \<in> set (to_cluster_connection conn)"
    using assms by (auto simp: convertHumioMultiClusterSearchViewToGraphQLClusterConnectionsVariant_def
        customResourceWithClusterIdentityTags_def)
  then obtain d k where "conn = with_identity_tags L d k" by auto
  then have "fst ` set (mc_tags conn) \<subseteq> {''clusteridentity'', ''clusteridentityhash''}"
    using tags_with_identity [of L d k] by auto
  moreover have "elements (cc_tags c) = mc_tags conn"
    using conn(2) by (auto simp: to_cluster_connection_def split: if_splits)
  ultimately show ?thesis by simp
qed

lemma sanitized_tags:
  "(\<exists>c \<in> set (sortAndSanitizeClusterConnections cs). t \<in> set (elements (cc_tags c)))
   \<longleftrightarrow> (\<exists>c \<in> set cs. t \<in> set (elements (cc_tags c)))"
proof -
  have same: "set (elements (cc_tags (sanitize_connection c))) = set (elements (cc_tags c))" for c
    by (cases c; cases "cc_tags c") auto
  show ?thesis by (auto simp: sortAndSanitizeClusterConnections_def same)
qed

text \<open>
  A tag of the resource is never accepted. A multi-cluster search view whose LogScale entity has a connection with a tag
  other than the operator's own two, as the client sends it for every tag the resource
  lists, is found different from what is expected, whatever the resource says: it is updated on
  every reconciliation.
\<close>

lemma user_tags_never_settle:
  assumes "length details = length (mv_connections spec)"
    and "c \<in> set (md_cluster_connections gql)" and "(k, v) \<in> set (elements (cc_tags c))"
    and "k \<notin> {''clusteridentity'', ''clusteridentityhash''}"
  shows "\<not> mcsViewAlreadyAsExpected (customResourceWithClusterIdentityTags L spec details) gql"
proof
  assume "mcsViewAlreadyAsExpected (customResourceWithClusterIdentityTags L spec details) gql"
  then have same: "sortAndSanitizeClusterConnections (md_cluster_connections gql)
      = sortAndSanitizeClusterConnections (convertHumioMultiClusterSearchViewToGraphQLClusterConnectionsVariant
          (customResourceWithClusterIdentityTags L spec details))"
    by (simp add: mcsViewAlreadyAsExpected_def)
  have "\<exists>c \<in> set (convertHumioMultiClusterSearchViewToGraphQLClusterConnectionsVariant
          (customResourceWithClusterIdentityTags L spec details)). (k, v) \<in> set (elements (cc_tags c))"
    using assms(2,3) sanitized_tags [of "md_cluster_connections gql" "(k, v)"]
    unfolding same sanitized_tags by blast
  then show False using expected_tags [OF _ assms(1)] assms(4) by force
qed

theorem user_tags_never_settle_witness:
  "\<not> mcsViewAlreadyAsExpected (customResourceWithClusterIdentityTags plain_lib
        \<lparr>mv_name = ''v'', mv_description = [], mv_connections =
           [no_connection\<lparr>mc_type := ''Local'', mc_cluster_identity := ''eu'', mc_tags := [(''team'', ''a'')]\<rparr>], mv_automatic_search = None\<rparr>
        [(no_connection\<lparr>mc_type := ''Local'', mc_cluster_identity := ''eu'', mc_tags := [(''team'', ''a'')]\<rparr>, [])])
      \<lparr>md_id = ''1'', md_name = ''v'', md_description = Some [], md_automatic_search = True, md_is_federated = True,
       md_cluster_connections = [LocalClusterConnection ''eu'' ''i'' [] (Some [(''clusteridentity'', ''eu''), (''team'', ''a'')]) []]\<rparr>"
  by (rule user_tags_never_settle [where c = "LocalClusterConnection ''eu'' ''i'' [] (Some [(''clusteridentity'', ''eu''), (''team'', ''a'')]) []"
        and k = "''team''" and v = "''a''"]) simp_all

end
