(* ===== verification/Client_Mock.thy ===== *)
theory Client_Mock
  imports Multi_Cluster_Views
begin

text \<open>
  The in-memory LogScale of internal/humio/client_mock.go: one map per kind of entity, whose keys are the
  cluster, the search domain and the name. It is the code's own statement of how an entity behaves under
  get, add, update and delete. Every operation takes the lock for its whole duration, so each is
  one step. \<open>kubernetes.RandomString()\<close> draws the next of a sequence of strings the model leaves open.

  This theory holds the store, what all kinds share, and search domains, parsers, ingest tokens, groups, users,
  licenses and packages; \<open>Mock_Entities\<close> holds the rest.
\<close>

section \<open>The store\<close>

type_synonym resource_key = "string \<times> string \<times> string"   \<comment> \<open>\<open>clusterName\<close>, \<open>searchDomainName\<close>, \<open>resourceName\<close>\<close>

record package_details =
  pk_name :: string
  pk_version :: string

record client_mock =
  cm_license_uid :: "resource_key \<rightharpoonup> string"
  cm_repository :: "resource_key \<rightharpoonup> repository_details"
  cm_view :: "resource_key \<rightharpoonup> view_details"
  cm_multi_cluster_search_view :: "resource_key \<rightharpoonup> mcs_view_details"
  cm_group :: "resource_key \<rightharpoonup> group_details"
  cm_ingest_token :: "resource_key \<rightharpoonup> ingest_token_details"
  cm_parser :: "resource_key \<rightharpoonup> parser_details"
  cm_action :: "resource_key \<rightharpoonup> action_details"
  cm_alert :: "resource_key \<rightharpoonup> alert_details"
  cm_filter_alert :: "resource_key \<rightharpoonup> filter_alert_details"
  cm_feature_flag :: "resource_key \<rightharpoonup> bool"
  cm_aggregate_alert :: "resource_key \<rightharpoonup> aggregate_alert_details"
  cm_scheduled_search :: "resource_key \<rightharpoonup> search_details_v1"
  cm_scheduled_search_v2 :: "resource_key \<rightharpoonup> search_details_v2"
  cm_user :: "resource_key \<rightharpoonup> user_details"
  cm_admin_user_id :: "resource_key \<rightharpoonup> string"
  cm_role :: "resource_key \<rightharpoonup> role_details"
  cm_ip_filter :: "resource_key \<rightharpoonup> ip_filter_details"
  cm_package :: "resource_key \<rightharpoonup> package_details"
  cm_random :: "nat \<Rightarrow> string"   \<comment> \<open>what \<open>kubernetes.RandomString()\<close> gives, in order\<close>
  cm_drawn :: nat                \<comment> \<open>how often it was called\<close>

definition NewMockClient :: "(nat \<Rightarrow> string) \<Rightarrow> client_mock" where
  "NewMockClient random = \<lparr>cm_license_uid = Map.empty, cm_repository = Map.empty, cm_view = Map.empty,
     cm_multi_cluster_search_view = Map.empty, cm_group = Map.empty, cm_ingest_token = Map.empty, cm_parser = Map.empty,
     cm_action = Map.empty, cm_alert = Map.empty, cm_filter_alert = Map.empty, cm_feature_flag = Map.empty,
     cm_aggregate_alert = Map.empty, cm_scheduled_search = Map.empty, cm_scheduled_search_v2 = Map.empty,
     cm_user = Map.empty, cm_admin_user_id = Map.empty, cm_role = Map.empty, cm_ip_filter = Map.empty,
     cm_package = Map.empty, cm_random = random, cm_drawn = 0\<rparr>"

text \<open>Licenses, and the repository to keep under every key, stay.\<close>

definition ClearHumioClientConnections :: "string \<Rightarrow> 'z client_mock_scheme \<Rightarrow> 'z client_mock_scheme" where
  "ClearHumioClientConnections repoNameToKeep m =
     m\<lparr>cm_repository := (\<lambda>k. if snd (snd k) = repoNameToKeep then cm_repository m k else None),
       cm_view := Map.empty, cm_multi_cluster_search_view := Map.empty, cm_group := Map.empty, cm_role := Map.empty,
       cm_ingest_token := Map.empty, cm_parser := Map.empty, cm_action := Map.empty, cm_alert := Map.empty,
       cm_filter_alert := Map.empty, cm_feature_flag := Map.empty, cm_aggregate_alert := Map.empty,
       cm_scheduled_search := Map.empty, cm_scheduled_search_v2 := Map.empty, cm_user := Map.empty,
       cm_admin_user_id := Map.empty, cm_ip_filter := Map.empty, cm_package := Map.empty\<rparr>"

section \<open>What all kinds share\<close>

text \<open>A map of the store, to be read and replaced.\<close>

record ('e, 'm) table =
  tb :: "'m \<Rightarrow> resource_key \<rightharpoonup> 'e"
  set_tb :: "(resource_key \<rightharpoonup> 'e) \<Rightarrow> 'm \<Rightarrow> 'm"

definition clusterName :: "'spec resource \<Rightarrow> string" where
  "clusterName r = rs_managed_cluster r @ rs_external_cluster r"

definition RandomString :: "('z client_mock_scheme, 'r, string) step" where
  "RandomString m = (Inr (cm_random m (cm_drawn m)), m\<lparr>cm_drawn := Suc (cm_drawn m)\<rparr>)"

definition searchDomainNameExists :: "'z client_mock_scheme \<Rightarrow> string \<Rightarrow> string \<Rightarrow> bool" where
  "searchDomainNameExists m cluster searchDomainName \<longleftrightarrow>
     cm_repository m (cluster, [], searchDomainName) \<noteq> None
     \<or> cm_view m (cluster, [], searchDomainName) \<noteq> None
     \<or> cm_multi_cluster_search_view m (cluster, [], searchDomainName) \<noteq> None"

text \<open>\<open>fmt.Errorf(text + " err=%w", ..., humioapi.EntityNotFound{})\<close>: the entity type and the key of the error are empty.\<close>

definition err_not_found :: "string \<Rightarrow> go_error" where
  "err_not_found txt = EntityNotFound (txt @ '', err= '' @ [CHR 0x22, CHR 0x22] @ '' not found'')"

definition quoted :: "string \<Rightarrow> string" where   \<comment> \<open>\<open>%q\<close> of a string without characters to escape\<close>
  "quoted s = CHR 0x22 # s @ [CHR 0x22]"

text \<open>The constructors of internal/api/error.go.\<close>

definition entity_missing :: "string \<Rightarrow> string \<Rightarrow> go_error" where
  "entity_missing entityType key = EntityNotFound (entityType @ '' '' @ quoted key @ '' not found'')"

definition find_in :: "('e, 'm) table \<Rightarrow> resource_key \<Rightarrow> go_error \<Rightarrow> ('m, go_error, 'e) step" where
  "find_in T k missing m = (case tb T m k of Some val \<Rightarrow> Inr val | None \<Rightarrow> Inl missing, m)"

definition store_at :: "('e, 'm) table \<Rightarrow> resource_key \<Rightarrow> 'e \<Rightarrow> ('m, 'r, unit) step" where
  "store_at T k val m = (Inr (), set_tb T ((tb T m)(k \<mapsto> val)) m)"

definition delete_at :: "('e, 'm) table \<Rightarrow> resource_key \<Rightarrow> ('m, 'r, unit) step" where
  "delete_at T k m = (Inr (), set_tb T ((tb T m)(k := None)) m)"

text \<open>\<open>build\<close> makes the entity after the check.\<close>

definition add_to ::
  "('e, 'm) table \<Rightarrow> resource_key \<Rightarrow> string \<Rightarrow> ('m, go_error, 'e) step \<Rightarrow> ('m, go_error, unit) step" where
  "add_to T k exists build m =
     (if tb T m k \<noteq> None then (Inl (Msg exists), m) else and_then build (store_at T k) m)"

definition change_in ::
  "('e, 'm) table \<Rightarrow> resource_key \<Rightarrow> go_error \<Rightarrow> ('e \<Rightarrow> ('m, go_error, 'e) step) \<Rightarrow> ('m, go_error, unit) step" where
  "change_in T k missing build m =
     (case tb T m k of None \<Rightarrow> (Inl missing, m) | Some current \<Rightarrow> and_then (build current) (store_at T k) m)"

text \<open>Entities of a search domain are only added to one that exists, search domains only under a new name.\<close>

definition in_domain ::
  "string \<Rightarrow> string \<Rightarrow> ('z client_mock_scheme, go_error, 'a) step \<Rightarrow> ('z client_mock_scheme, go_error, 'a) step" where
  "in_domain cluster domain f m =
     (if searchDomainNameExists m cluster domain then f m
      else (Inl (Msg ''search domain name does not exist''), m))"

definition as_new_domain ::
  "string \<Rightarrow> string \<Rightarrow> ('z client_mock_scheme, go_error, 'a) step \<Rightarrow> ('z client_mock_scheme, go_error, 'a) step" where
  "as_new_domain cluster domain f m =
     (if searchDomainNameExists m cluster domain then (Inl (Msg ''search domain name already in use''), m)
      else f m)"

section \<open>Ingest tokens\<close>

definition ingest_tokens :: "(ingest_token_details, 'z client_mock_scheme) table" where
  "ingest_tokens = \<lparr>tb = cm_ingest_token, set_tb = (\<lambda>x. cm_ingest_token_update (\<lambda>_. x))\<rparr>"

definition ingest_token_key :: "ingest_token_spec resource \<Rightarrow> resource_key" where
  "ingest_token_key hit = (clusterName hit, it_repository_name (rs_spec hit), it_name (rs_spec hit))"

definition ingest_token_entity :: "ingest_token_spec \<Rightarrow> string \<Rightarrow> ingest_token_details" where
  "ingest_token_entity spec token = \<lparr>itd_name = it_name spec, itd_token = token, itd_parser = it_parser_name spec\<rparr>"

definition AddIngestToken :: "ingest_token_spec resource \<Rightarrow> ('z client_mock_scheme, go_error, unit) step" where
  "AddIngestToken hit =
     in_domain (clusterName hit) (it_repository_name (rs_spec hit))
       (add_to ingest_tokens (ingest_token_key hit) (''ingest token already exists with name '' @ it_name (rs_spec hit))
         (and_then RandomString (\<lambda>token. ret (ingest_token_entity (rs_spec hit) token))))"

definition GetIngestToken :: "ingest_token_spec resource \<Rightarrow> ('z client_mock_scheme, go_error, ingest_token_details) step" where
  "GetIngestToken hit =
     find_in ingest_tokens (ingest_token_key hit)
       (err_not_found (''could not find ingest token in repository '' @ it_repository_name (rs_spec hit) @ '' with name '' @ it_name (rs_spec hit)))"

definition UpdateIngestToken :: "ingest_token_spec resource \<Rightarrow> ('z client_mock_scheme, go_error, unit) step" where
  "UpdateIngestToken hit =
     change_in ingest_tokens (ingest_token_key hit)
       (err_not_found (''ingest token not found with name '' @ it_name (rs_spec hit)))
       (\<lambda>current. ret (ingest_token_entity (rs_spec hit) (itd_token current)))"

definition DeleteIngestToken :: "ingest_token_spec resource \<Rightarrow> ('z client_mock_scheme, go_error, unit) step" where
  "DeleteIngestToken hit = delete_at ingest_tokens (ingest_token_key hit)"

section \<open>Parsers\<close>

definition parsers :: "(parser_details, 'z client_mock_scheme) table" where
  "parsers = \<lparr>tb = cm_parser, set_tb = (\<lambda>x. cm_parser_update (\<lambda>_. x))\<rparr>"

definition parser_key :: "parser_spec resource \<Rightarrow> resource_key" where
  "parser_key hp = (clusterName hp, ps_repository_name (rs_spec hp), ps_name (rs_spec hp))"

definition parser_entity :: "parser_spec \<Rightarrow> string \<Rightarrow> parser_details" where
  "parser_entity spec i =
     \<lparr>pd_id = i, pd_name = ps_name spec, pd_script = ps_parser_script spec, pd_fields_to_tag = ps_tag_fields spec,
      pd_test_cases = TestDataToParserDetailsTestCasesParserTestCase (ps_test_data spec)\<rparr>"

definition AddParser :: "parser_spec resource \<Rightarrow> ('z client_mock_scheme, go_error, unit) step" where
  "AddParser hp =
     in_domain (clusterName hp) (ps_repository_name (rs_spec hp))
       (add_to parsers (parser_key hp) (''parser already exists with name '' @ ps_name (rs_spec hp))
         (and_then RandomString (\<lambda>i. ret (parser_entity (rs_spec hp) i))))"

definition GetParser :: "parser_spec resource \<Rightarrow> ('z client_mock_scheme, go_error, parser_details) step" where
  "GetParser hp =
     find_in parsers (parser_key hp)
       (err_not_found (''could not find parser in repository '' @ ps_repository_name (rs_spec hp) @ '' with name '' @ ps_name (rs_spec hp)))"

definition UpdateParser :: "parser_spec resource \<Rightarrow> ('z client_mock_scheme, go_error, unit) step" where
  "UpdateParser hp =
     change_in parsers (parser_key hp) (err_not_found (''parser not found with name '' @ ps_name (rs_spec hp)))
       (\<lambda>current. ret (parser_entity (rs_spec hp) (pd_id current)))"

definition DeleteParser :: "parser_spec resource \<Rightarrow> ('z client_mock_scheme, go_error, unit) step" where
  "DeleteParser hp = delete_at parsers (parser_key hp)"

section \<open>Repositories\<close>

definition repositories :: "(repository_details, 'z client_mock_scheme) table" where
  "repositories = \<lparr>tb = cm_repository, set_tb = (\<lambda>x. cm_repository_update (\<lambda>_. x))\<rparr>"

definition repository_key :: "repository_spec resource \<Rightarrow> resource_key" where
  "repository_key hr = (clusterName hr, [], rp_name (rs_spec hr))"

text \<open>A retention that is not set is stored as zero.\<close>

definition stored_retention :: "int option \<Rightarrow> rat option" where
  "stored_retention val = Some (case val of None \<Rightarrow> 0 | Some n \<Rightarrow> of_int n)"

definition repository_entity :: "repository_spec \<Rightarrow> string \<Rightarrow> repository_details" where
  "repository_entity spec i =
     \<lparr>rd_id = i, rd_name = rp_name spec, rd_description = Some (rp_description spec),
      rd_time_based_retention = stored_retention (rt_time_in_days (rp_retention spec)),
      rd_ingest_size_based_retention = stored_retention (rt_ingest_size_in_gb (rp_retention spec)),
      rd_storage_size_based_retention = stored_retention (rt_storage_size_in_gb (rp_retention spec)),
      rd_automatic_search = BoolTrue (rp_automatic_search spec)\<rparr>"

definition AddRepository :: "repository_spec resource \<Rightarrow> ('z client_mock_scheme, go_error, unit) step" where
  "AddRepository hr =
     as_new_domain (clusterName hr) (rp_name (rs_spec hr))
       (and_then RandomString (\<lambda>i. store_at repositories (repository_key hr) (repository_entity (rs_spec hr) i)))"

definition GetRepository :: "repository_spec resource \<Rightarrow> ('z client_mock_scheme, go_error, repository_details) step" where
  "GetRepository hr =
     find_in repositories (repository_key hr) (err_not_found (''could not find repository with name '' @ rp_name (rs_spec hr)))"

definition UpdateRepository :: "repository_spec resource \<Rightarrow> ('z client_mock_scheme, go_error, unit) step" where
  "UpdateRepository hr =
     change_in repositories (repository_key hr) (err_not_found (''repository not found with name '' @ rp_name (rs_spec hr)))
       (\<lambda>current. ret (repository_entity (rs_spec hr) (rd_id current)))"

definition DeleteRepository :: "repository_spec resource \<Rightarrow> ('z client_mock_scheme, go_error, unit) step" where
  "DeleteRepository hr = delete_at repositories (repository_key hr)"

section \<open>Views\<close>

definition views :: "(view_details, 'z client_mock_scheme) table" where
  "views = \<lparr>tb = cm_view, set_tb = (\<lambda>x. cm_view_update (\<lambda>_. x))\<rparr>"

definition view_key :: "view_spec resource \<Rightarrow> resource_key" where
  "view_key hv = (clusterName hv, [], vw_name (rs_spec hv))"

definition view_entity :: "view_spec \<Rightarrow> string \<Rightarrow> bool \<Rightarrow> view_details" where
  "view_entity spec i federated =
     \<lparr>vd_id = i, vd_name = vw_name spec, vd_is_federated = federated, vd_description = Some (vw_description spec),
      vd_automatic_search = BoolTrue (vw_automatic_search spec), vd_connections = made (vw_connections spec)\<rparr>"

definition GetView :: "view_spec resource \<Rightarrow> bool \<Rightarrow> ('z client_mock_scheme, go_error, view_details) step" where
  "GetView hv includeFederated =
     find_in views (view_key hv) (err_not_found (''could not find view with name '' @ vw_name (rs_spec hv)))"

definition AddView :: "view_spec resource \<Rightarrow> ('z client_mock_scheme, go_error, unit) step" where
  "AddView hv =
     as_new_domain (clusterName hv) (vw_name (rs_spec hv)) (store_at views (view_key hv) (view_entity (rs_spec hv) (vw_name (rs_spec hv)) False))"

definition UpdateView :: "view_spec resource \<Rightarrow> ('z client_mock_scheme, go_error, unit) step" where
  "UpdateView hv =
     change_in views (view_key hv) (err_not_found (''view not found with name '' @ vw_name (rs_spec hv)))
       (\<lambda>current. ret (view_entity (rs_spec hv) (vd_id current) (vd_is_federated current)))"

definition DeleteView :: "view_spec resource \<Rightarrow> ('z client_mock_scheme, go_error, unit) step" where
  "DeleteView hv = delete_at views (view_key hv)"

section \<open>Multi-cluster search views\<close>

definition mcs_views :: "(mcs_view_details, 'z client_mock_scheme) table" where
  "mcs_views = \<lparr>tb = cm_multi_cluster_search_view, set_tb = (\<lambda>x. cm_multi_cluster_search_view_update (\<lambda>_. x))\<rparr>"

definition mcs_view_key :: "mcs_view_spec resource \<Rightarrow> resource_key" where
  "mcs_view_key hv = (clusterName hv, [], mv_name (rs_spec hv))"

text \<open>
  The connection of one entry. When a view is added, the tags of a remote connection are a slice of one element more than
  the resource has tags, too short for the two of the operator: writing the second one or the last one panics.
  A connection of neither type leaves its slot nil, which the comparison cannot look at.
\<close>

definition mcs_local :: "connection_details \<Rightarrow> string \<Rightarrow> cluster_connection" where
  "mcs_local d i =
     LocalClusterConnection (mc_cluster_identity (fst d)) i (mc_filter (fst d))
       (made ((''clusteridentity'', mc_cluster_identity (fst d)) # mc_tags (fst d))) (mc_view_or_repo_name (fst d))"

definition mcs_remote :: "lib \<Rightarrow> connection_details \<Rightarrow> string \<Rightarrow> cluster_connection" where
  "mcs_remote L d i =
     RemoteClusterConnection (mc_cluster_identity (fst d)) i (mc_filter (fst d))
       (made ((''clusteridentity'', mc_cluster_identity (fst d)) # (''clusteridentityhash'', identity_hash L d) # mc_tags (fst d)))
       (mc_url (fst d))"

definition nil_connection :: cluster_connection where
  "nil_connection = LocalClusterConnection [] [] [] None []"

definition mcs_entry :: "lib \<Rightarrow> bool \<Rightarrow> connection_details \<Rightarrow> ('z client_mock_scheme, go_error, cluster_connection) step" where
  "mcs_entry L adding d =
     (if mc_type (fst d) = HumioMultiClusterSearchViewConnectionTypeLocal
      then and_then RandomString (\<lambda>i. ret (mcs_local d i))
      else if mc_type (fst d) = HumioMultiClusterSearchViewConnectionTypeRemote
      then if adding then exit_with (Panic ''runtime error: index out of range'')
           else and_then RandomString (\<lambda>i. ret (mcs_remote L d i))
      else ret nil_connection)"

definition mcs_entries :: "lib \<Rightarrow> bool \<Rightarrow> connection_details list \<Rightarrow> ('z client_mock_scheme, go_error, cluster_connection list) step" where
  "mcs_entries L adding details =
     fold_step (\<lambda>d cs. and_then (mcs_entry L adding d) (\<lambda>c. ret (cs @ [c]))) details []"

definition mcs_view_entity :: "mcs_view_spec \<Rightarrow> string \<Rightarrow> bool \<Rightarrow> cluster_connection list \<Rightarrow> mcs_view_details" where
  "mcs_view_entity spec i federated connections =
     \<lparr>md_id = i, md_name = mv_name spec, md_description = Some (mv_description spec),
      md_automatic_search = BoolTrue (mv_automatic_search spec), md_is_federated = federated,
      md_cluster_connections = connections\<rparr>"

definition AddMultiClusterSearchView ::
  "lib \<Rightarrow> mcs_view_spec resource \<Rightarrow> connection_details list \<Rightarrow> ('z client_mock_scheme, go_error, unit) step" where
  "AddMultiClusterSearchView L hv details =
     as_new_domain (clusterName hv) (mv_name (rs_spec hv))
       (and_then (mcs_entries L True details) (\<lambda>connections.
        and_then RandomString (\<lambda>i.
        store_at mcs_views (mcs_view_key hv) (mcs_view_entity (rs_spec hv) i True connections))))"

definition GetMultiClusterSearchView :: "mcs_view_spec resource \<Rightarrow> ('z client_mock_scheme, go_error, mcs_view_details) step" where
  "GetMultiClusterSearchView hv =
     find_in mcs_views (mcs_view_key hv) (err_not_found (''could not find view with name '' @ mv_name (rs_spec hv)))"

definition UpdateMultiClusterSearchView ::
  "lib \<Rightarrow> mcs_view_spec resource \<Rightarrow> connection_details list \<Rightarrow> ('z client_mock_scheme, go_error, unit) step" where
  "UpdateMultiClusterSearchView L hv details =
     change_in mcs_views (mcs_view_key hv) (err_not_found (''view not found with name '' @ mv_name (rs_spec hv)))
       (\<lambda>current. and_then (mcs_entries L False details) (\<lambda>connections.
          ret (mcs_view_entity (rs_spec hv) (md_id current) (md_is_federated current) connections)))"

definition DeleteMultiClusterSearchView :: "mcs_view_spec resource \<Rightarrow> ('z client_mock_scheme, go_error, unit) step" where
  "DeleteMultiClusterSearchView hv = delete_at mcs_views (mcs_view_key hv)"

section \<open>Groups and users\<close>

definition groups :: "(group_details, 'z client_mock_scheme) table" where
  "groups = \<lparr>tb = cm_group, set_tb = (\<lambda>x. cm_group_update (\<lambda>_. x))\<rparr>"

definition group_key :: "group_spec resource \<Rightarrow> resource_key" where
  "group_key hg = (clusterName hg, [], gs_name (rs_spec hg))"

definition group_entity :: "group_spec \<Rightarrow> string \<Rightarrow> string option \<Rightarrow> group_details" where
  "group_entity spec i lookupName = \<lparr>gd_id = i, gd_display_name = gs_name spec, gd_lookup_name = lookupName\<rparr>"

definition AddGroup :: "group_spec resource \<Rightarrow> ('z client_mock_scheme, go_error, unit) step" where
  "AddGroup hg =
     add_to groups (group_key hg) (''group already exists with name '' @ gs_name (rs_spec hg))
       (and_then RandomString (\<lambda>i. ret (group_entity (rs_spec hg) i (gs_external_mapping_name (rs_spec hg)))))"

definition GetGroup :: "group_spec resource \<Rightarrow> ('z client_mock_scheme, go_error, group_details) step" where
  "GetGroup hg = find_in groups (group_key hg) (entity_missing ''group'' (gs_name (rs_spec hg)))"

definition UpdateGroup :: "group_spec resource \<Rightarrow> ('z client_mock_scheme, go_error, unit) step" where
  "UpdateGroup hg =
     change_in groups (group_key hg) (entity_missing ''group'' (gs_name (rs_spec hg)))
       (\<lambda>current. ret (group_entity (rs_spec hg) (gd_id current)
          (if gs_external_mapping_name (rs_spec hg) = Some [] then None else gs_external_mapping_name (rs_spec hg))))"

definition DeleteGroup :: "group_spec resource \<Rightarrow> ('z client_mock_scheme, go_error, unit) step" where
  "DeleteGroup hg = delete_at groups (group_key hg)"

definition users :: "(user_details, 'z client_mock_scheme) table" where
  "users = \<lparr>tb = cm_user, set_tb = (\<lambda>x. cm_user_update (\<lambda>_. x))\<rparr>"

definition user_key :: "user_spec resource \<Rightarrow> resource_key" where
  "user_key hu = (clusterName hu, [], us_user_name (rs_spec hu))"

definition user_not_found :: "user_spec resource \<Rightarrow> go_error" where
  "user_not_found hu = err_not_found (''could not find user with username '' @ quoted (us_user_name (rs_spec hu)))"

definition AddUser :: "user_spec resource \<Rightarrow> ('z client_mock_scheme, go_error, unit) step" where
  "AddUser hu =
     add_to users (user_key hu) (''user already exists with username '' @ quoted (us_user_name (rs_spec hu)))
       (and_then RandomString (\<lambda>i. ret
          \<lparr>ud_id = i, ud_username = us_user_name (rs_spec hu), ud_is_root = BoolFalse (us_is_root (rs_spec hu))\<rparr>))"

definition GetUser :: "user_spec resource \<Rightarrow> ('z client_mock_scheme, go_error, user_details) step" where
  "GetUser hu = find_in users (user_key hu) (user_not_found hu)"

definition UpdateUser :: "user_spec resource \<Rightarrow> ('z client_mock_scheme, go_error, unit) step" where
  "UpdateUser hu =
     change_in users (user_key hu) (user_not_found hu)
       (\<lambda>current. ret \<lparr>ud_id = ud_id current, ud_username = ud_username current, ud_is_root = BoolFalse (us_is_root (rs_spec hu))\<rparr>)"

definition DeleteUser :: "user_spec resource \<Rightarrow> ('z client_mock_scheme, go_error, unit) step" where
  "DeleteUser hu = delete_at users (user_key hu)"

section \<open>Licenses, the admin user and packages\<close>

definition request_key :: "string \<Rightarrow> string \<Rightarrow> resource_key" where
  "request_key namespace name = ([], [], namespace @ name)"

definition license_uids :: "(string, 'z client_mock_scheme) table" where
  "license_uids = \<lparr>tb = cm_license_uid, set_tb = (\<lambda>x. cm_license_uid_update (\<lambda>_. x))\<rparr>"

text \<open>The expiry is the time of the call and is left out.\<close>

definition GetLicenseUIDAndExpiry :: "string \<Rightarrow> string \<Rightarrow> ('z client_mock_scheme, go_error, string) step" where
  "GetLicenseUIDAndExpiry namespace name =
     find_in license_uids (request_key namespace name) (EntityNotFound ('' '' @ quoted [] @ '' not found''))"

definition InstallLicense :: "lib \<Rightarrow> string \<Rightarrow> string \<Rightarrow> string \<Rightarrow> ('z client_mock_scheme, go_error, unit) step" where
  "InstallLicense L namespace name licenseString =
     (case x_license_uid L licenseString of
        Inl err \<Rightarrow> exit_with (Wrap ''failed to parse license'' (Some err))
      | Inr licenseUID \<Rightarrow> store_at license_uids (request_key namespace name) licenseUID)"

definition admin_user_ids :: "(string, 'z client_mock_scheme) table" where
  "admin_user_ids = \<lparr>tb = cm_admin_user_id, set_tb = (\<lambda>x. cm_admin_user_id_update (\<lambda>_. x))\<rparr>"

definition GetUserIDForUsername :: "string \<Rightarrow> string \<Rightarrow> ('z client_mock_scheme, go_error, string) step" where
  "GetUserIDForUsername namespace name =
     find_in admin_user_ids (request_key namespace name) (EntityNotFound ('' '' @ quoted [] @ '' not found''))"

definition RotateUserApiTokenAndGet :: "string \<Rightarrow> string \<Rightarrow> ('z client_mock_scheme, go_error, string) step" where
  "RotateUserApiTokenAndGet namespace name =
     find_in admin_user_ids (request_key namespace name) (Msg ''could not find user'')"

definition AddUserAndGetUserID :: "string \<Rightarrow> string \<Rightarrow> ('z client_mock_scheme, go_error, string) step" where
  "AddUserAndGetUserID namespace name =
     and_then RandomString (\<lambda>i. and_then (store_at admin_user_ids (request_key namespace name) i) (\<lambda>_. ret i))"

record package_spec =
  hpk_package_name :: string
  hpk_package_version :: string

definition packages :: "(package_details, 'z client_mock_scheme) table" where
  "packages = \<lparr>tb = cm_package, set_tb = (\<lambda>x. cm_package_update (\<lambda>_. x))\<rparr>"

definition package_key :: "package_spec resource \<Rightarrow> string \<Rightarrow> resource_key" where
  "package_key hp viewName = (clusterName hp, viewName, hpk_package_name (rs_spec hp))"

definition InstallPackageFromZip :: "package_spec resource \<Rightarrow> string \<Rightarrow> ('z client_mock_scheme, go_error, unit) step" where
  "InstallPackageFromZip hp viewName =
     store_at packages (package_key hp viewName)
       \<lparr>pk_name = hpk_package_name (rs_spec hp), pk_version = hpk_package_version (rs_spec hp)\<rparr>"

definition UninstallPackage :: "package_spec resource \<Rightarrow> string \<Rightarrow> ('z client_mock_scheme, go_error, bool) step" where
  "UninstallPackage hp viewName m =
     (if tb packages m (package_key hp viewName) \<noteq> None
      then and_then (delete_at packages (package_key hp viewName)) (\<lambda>_. ret True) m
      else (Inl (Msg ''package is not installed''), m))"

definition CheckPackage :: "package_spec resource \<Rightarrow> string \<Rightarrow> ('z client_mock_scheme, go_error, package_details option) step" where
  "CheckPackage hp viewName m = (Inr (tb packages m (package_key hp viewName)), m)"

end
