(* ===== verification/Entity_Controllers.thy ===== *)
theory Entity_Controllers
  imports Client_Mock
begin

text \<open>
  The \<open>Reconcile\<close> functions of the LogScale entities, one per controller of internal/controller, as
  instances of the compositions of \<open>Resource_Reconcile\<close>: what a controller adds is its kind, the messages and the comparison
  it uses. \<open>A\<close> is the API server of the kind, \<open>E\<close> the operations of the client on its entity. IP filters and feature
  flags compose the phases in their own way, and so do multi-cluster search views.
\<close>

section \<open>Parsers, repositories, users and groups\<close>

definition parser_kind :: "(parser_spec, parser_details) kind" where
  "parser_kind = \<lparr>kd_state_error = ''unable to set cluster state'', kd_config_requeue = 5 * second,
     kd_delete_error = ''Finalizer method returned error'',
     kd_finalizer_error = Some ''Failed to update HumioParser with finalizer'',
     kd_get_error = ''could not check if parser exists'', kd_add_error = ''could not create parser'',
     kd_update_error = ''could not update parser'', kd_unknown_state = ResourceStateUnknown,
     kd_compare = parserAlreadyAsExpected\<rparr>"

definition HumioParserReconciler_Reconcile ::
  "lib \<Rightarrow> 'w kube \<Rightarrow> (parser_spec, 'w) resource_api \<Rightarrow> (parser_spec, parser_details, 'w) entity_api
   \<Rightarrow> duration \<Rightarrow> string \<Rightarrow> string \<Rightarrow> string \<Rightarrow> ('w, parser_spec) rst \<Rightarrow> handler_result \<times> ('w, parser_spec) rst" where
  "HumioParserReconciler_Reconcile L K A E =
     reconcile_eager L K A E parser_kind (finalize L K E) (\<lambda>_. ret ())"

definition repository_kind :: "(repository_spec, repository_details) kind" where
  "repository_kind = \<lparr>kd_state_error = ''unable to set cluster state'', kd_config_requeue = 5 * second,
     kd_delete_error = ''Finalizer method returned error'',
     kd_finalizer_error = Some ''Failed to update HumioRepository with finalizer'',
     kd_get_error = ''could not check if repository exists'', kd_add_error = ''could not create repository'',
     kd_update_error = ''could not update repository'', kd_unknown_state = ResourceStateUnknown,
     kd_compare = repositoryAlreadyAsExpected\<rparr>"

definition HumioRepositoryReconciler_Reconcile ::
  "lib \<Rightarrow> 'w kube \<Rightarrow> (repository_spec, 'w) resource_api \<Rightarrow> (repository_spec, repository_details, 'w) entity_api
   \<Rightarrow> duration \<Rightarrow> string \<Rightarrow> string \<Rightarrow> string \<Rightarrow> ('w, repository_spec) rst \<Rightarrow> handler_result \<times> ('w, repository_spec) rst" where
  "HumioRepositoryReconciler_Reconcile L K A E =
     reconcile_eager L K A E repository_kind (finalize L K E) (\<lambda>_. ret ())"

definition user_kind :: "(user_spec, user_details) kind" where
  "user_kind = \<lparr>kd_state_error = ''unable to set cluster state'', kd_config_requeue = 5 * second,
     kd_delete_error = ''Finalizer method returned error'',
     kd_finalizer_error = Some ''Failed to update HumioUser with finalizer'',
     kd_get_error = ''could not check if user exists'', kd_add_error = ''could not create user'',
     kd_update_error = ''could not update user'', kd_unknown_state = ResourceStateUnknown,
     kd_compare = userAlreadyAsExpected\<rparr>"

definition HumioUserReconciler_Reconcile ::
  "lib \<Rightarrow> 'w kube \<Rightarrow> (user_spec, 'w) resource_api \<Rightarrow> (user_spec, user_details, 'w) entity_api
   \<Rightarrow> duration \<Rightarrow> string \<Rightarrow> string \<Rightarrow> string \<Rightarrow> ('w, user_spec) rst \<Rightarrow> handler_result \<times> ('w, user_spec) rst" where
  "HumioUserReconciler_Reconcile L K A E =
     reconcile_eager L K A E user_kind (finalize L K E) (\<lambda>_. ret ())"

text \<open>Groups are deleted without looking at the cluster again, and an error of the write of the finalizer is not wrapped.\<close>

definition group_kind :: "(group_spec, group_details) kind" where
  "group_kind = \<lparr>kd_state_error = ''unable to set cluster state'', kd_config_requeue = 5 * second,
     kd_delete_error = ''Delete group returned error'', kd_finalizer_error = None,
     kd_get_error = ''could not check if group exists'', kd_add_error = ''could not create group'',
     kd_update_error = ''could not update group'', kd_unknown_state = ResourceStateUnknown,
     kd_compare = groupAlreadyAsExpected\<rparr>"

definition HumioGroupReconciler_Reconcile ::
  "lib \<Rightarrow> 'w kube \<Rightarrow> (group_spec, 'w) resource_api \<Rightarrow> (group_spec, group_details, 'w) entity_api
   \<Rightarrow> duration \<Rightarrow> string \<Rightarrow> string \<Rightarrow> string \<Rightarrow> ('w, group_spec) rst \<Rightarrow> handler_result \<times> ('w, group_spec) rst" where
  "HumioGroupReconciler_Reconcile L K A E =
     reconcile_eager L K A E group_kind (delete_entity E) (\<lambda>_. ret ())"

section \<open>Permission roles\<close>

definition system_role_kind :: "(role_spec, role_details) kind" where
  "system_role_kind = \<lparr>kd_state_error = ''unable to set cluster state'', kd_config_requeue = 5 * second,
     kd_delete_error = ''Finalizer method returned error'',
     kd_finalizer_error = Some ''Failed to update HumioSystemPermissionRole with finalizer'',
     kd_get_error = ''could not check if systemPermissionRole exists'', kd_add_error = ''could not create systemPermissionRole'',
     kd_update_error = ''could not update systemPermissionRole'', kd_unknown_state = ResourceStateUnknown,
     kd_compare = systemPermissionRoleAlreadyAsExpected\<rparr>"

definition HumioSystemPermissionRoleReconciler_Reconcile ::
  "lib \<Rightarrow> 'w kube \<Rightarrow> (role_spec, 'w) resource_api \<Rightarrow> (role_spec, role_details, 'w) entity_api
   \<Rightarrow> duration \<Rightarrow> string \<Rightarrow> string \<Rightarrow> string \<Rightarrow> ('w, role_spec) rst \<Rightarrow> handler_result \<times> ('w, role_spec) rst" where
  "HumioSystemPermissionRoleReconciler_Reconcile L K A E =
     reconcile_eager L K A E system_role_kind (finalize L K E) (\<lambda>_. ret ())"

definition organization_role_kind :: "(role_spec, role_details) kind" where
  "organization_role_kind = \<lparr>kd_state_error = ''unable to set cluster state'', kd_config_requeue = 5 * second,
     kd_delete_error = ''Finalizer method returned error'',
     kd_finalizer_error = Some ''Failed to update HumioOrganizationPermissionRole with finalizer'',
     kd_get_error = ''could not check if organizationPermissionRole exists'',
     kd_add_error = ''could not create organizationPermissionRole'',
     kd_update_error = ''could not update organizationPermissionRole'', kd_unknown_state = ResourceStateUnknown,
     kd_compare = organizationPermissionRoleAlreadyAsExpected\<rparr>"

definition HumioOrganizationPermissionRoleReconciler_Reconcile ::
  "lib \<Rightarrow> 'w kube \<Rightarrow> (role_spec, 'w) resource_api \<Rightarrow> (role_spec, role_details, 'w) entity_api
   \<Rightarrow> duration \<Rightarrow> string \<Rightarrow> string \<Rightarrow> string \<Rightarrow> ('w, role_spec) rst \<Rightarrow> handler_result \<times> ('w, role_spec) rst" where
  "HumioOrganizationPermissionRoleReconciler_Reconcile L K A E =
     reconcile_eager L K A E organization_role_kind (finalize L K E) (\<lambda>_. ret ())"

definition view_role_kind :: "(view_role_spec, role_details) kind" where
  "view_role_kind = \<lparr>kd_state_error = ''unable to set cluster state'', kd_config_requeue = 5 * second,
     kd_delete_error = ''Finalizer method returned error'',
     kd_finalizer_error = Some ''Failed to update HumioViewPermissionRole with finalizer'',
     kd_get_error = ''could not check if viewPermissionRole exists'', kd_add_error = ''could not create viewPermissionRole'',
     kd_update_error = ''could not update viewPermissionRole'', kd_unknown_state = ResourceStateUnknown,
     kd_compare = viewPermissionRoleAlreadyAsExpected\<rparr>"

definition HumioViewPermissionRoleReconciler_Reconcile ::
  "lib \<Rightarrow> 'w kube \<Rightarrow> (view_role_spec, 'w) resource_api \<Rightarrow> (view_role_spec, role_details, 'w) entity_api
   \<Rightarrow> duration \<Rightarrow> string \<Rightarrow> string \<Rightarrow> string \<Rightarrow> ('w, view_role_spec) rst \<Rightarrow> handler_result \<times> ('w, view_role_spec) rst" where
  "HumioViewPermissionRoleReconciler_Reconcile L K A E =
     reconcile_eager L K A E view_role_kind (finalize L K E) (\<lambda>_. ret ())"

section \<open>Ingest tokens\<close>

definition ingest_token_kind :: "(ingest_token_spec, ingest_token_details) kind" where
  "ingest_token_kind = \<lparr>kd_state_error = ''unable to set cluster state'', kd_config_requeue = 5 * second,
     kd_delete_error = ''Finalizer method returned error'',
     kd_finalizer_error = Some ''Failed to update HumioIngestToken with finalizer'',
     kd_get_error = ''could not check if ingest token exists'', kd_add_error = ''could not create ingest token'',
     kd_update_error = ''could not update ingest token'', kd_unknown_state = ResourceStateUnknown,
     kd_compare = ingestTokenAlreadyAsExpected\<rparr>"

definition cluster_name :: "'spec resource \<Rightarrow> string" where   \<comment> \<open>\<open>Cluster.Name()\<close>\<close>
  "cluster_name r = (if rs_managed_cluster r \<noteq> [] then rs_managed_cluster r else rs_external_cluster r)"

text \<open>An error of the read other than NotFound is dropped. Setting the owner reference succeeds.\<close>

definition ensureTokenSecretExists ::
  "'w kube \<Rightarrow> (ingest_token_spec, ingest_token_details, 'w) entity_api \<Rightarrow> humio_config
   \<Rightarrow> (('w, ingest_token_spec) rst, go_error, unit) step" where
  "ensureTokenSecretExists K E cfg =
     and_then get_obj (\<lambda>hit.
     if it_token_secret_name (rs_spec hit) = [] then ret ()
     else
       and_then (log_error ''failed to get ingest token'' (look_up E cfg)) (\<lambda>ingestToken.
       let desiredSecret = ConstructSecret (cluster_name hit) (rs_namespace hit) (it_token_secret_name (rs_spec hit))
             [''token'' \<mapsto> itd_token ingestToken] (it_token_secret_labels (rs_spec hit)) (it_token_secret_annotations (rs_spec hit))
       in and_then (observe (on_base (query (k_get_object K SecretKind (it_token_secret_name (rs_spec hit)) (rs_namespace hit))))) (\<lambda>x.
       case x of
         Inl err \<Rightarrow>
           if is_not_found err
           then log_error ''unable to create ingest token secret for HumioIngestToken''
                  (on_base (create_object K SecretKind desiredSecret))
           else ret ()
       | Inr existingSecret \<Rightarrow>
           if map_get (ko_data existingSecret) ''token'' \<noteq> map_get (ko_data desiredSecret) ''token''
              \<or> ko_labels existingSecret \<noteq> ko_labels desiredSecret
              \<or> ko_annotations existingSecret \<noteq> ko_annotations desiredSecret
           then log_error ''unable to update ingest token'' (on_base (update_object K SecretKind desiredSecret))
           else ret ())))"

definition HumioIngestTokenReconciler_Reconcile ::
  "lib \<Rightarrow> 'w kube \<Rightarrow> (ingest_token_spec, 'w) resource_api \<Rightarrow> (ingest_token_spec, ingest_token_details, 'w) entity_api
   \<Rightarrow> duration \<Rightarrow> string \<Rightarrow> string \<Rightarrow> string \<Rightarrow> ('w, ingest_token_spec) rst \<Rightarrow> handler_result \<times> ('w, ingest_token_spec) rst" where
  "HumioIngestTokenReconciler_Reconcile L K A E =
     reconcile_eager L K A E ingest_token_kind (finalize L K E)
       (\<lambda>cfg. as_result (log_error ''could not ensure token secret exists'' (ensureTokenSecretExists K E cfg)))"

section \<open>Views\<close>

definition view_kind :: "(view_spec, view_details) kind" where
  "view_kind = \<lparr>kd_state_error = ''unable to set cluster state'', kd_config_requeue = 5 * second,
     kd_delete_error = ''Delete view returned error'', kd_finalizer_error = None,
     kd_get_error = ''could not check if view exists'', kd_add_error = ''could not create view'',
     kd_update_error = ''could not update view'', kd_unknown_state = ResourceStateUnknown,
     kd_compare = viewAlreadyAsExpected\<rparr>"

definition HumioViewReconciler_Reconcile ::
  "lib \<Rightarrow> 'w kube \<Rightarrow> (view_spec, 'w) resource_api \<Rightarrow> (view_spec, view_details, 'w) entity_api
   \<Rightarrow> duration \<Rightarrow> string \<Rightarrow> string \<Rightarrow> string \<Rightarrow> ('w, view_spec) rst \<Rightarrow> handler_result \<times> ('w, view_spec) rst" where
  "HumioViewReconciler_Reconcile L K A E = reconcile_stepwise L K A E view_kind"

section \<open>Alerts\<close>

definition alert_kind :: "(alert_spec, alert_details) kind" where
  "alert_kind = \<lparr>kd_state_error = ''unable to set alert state'', kd_config_requeue = 5 * second,
     kd_delete_error = ''Delete alert returned error'', kd_finalizer_error = None,
     kd_get_error = ''could not check if alert exists'', kd_add_error = ''could not create alert'',
     kd_update_error = ''could not update alert'', kd_unknown_state = ResourceStateUnknown,
     kd_compare = alertAlreadyAsExpected\<rparr>"

definition HumioAlertReconciler_Reconcile ::
  "lib \<Rightarrow> 'w kube \<Rightarrow> (alert_spec, 'w) resource_api \<Rightarrow> (alert_spec, alert_details, 'w) entity_api
   \<Rightarrow> duration \<Rightarrow> string \<Rightarrow> string \<Rightarrow> string \<Rightarrow> ('w, alert_spec) rst \<Rightarrow> handler_result \<times> ('w, alert_spec) rst" where
  "HumioAlertReconciler_Reconcile L K A E = reconcile_recorded L K A E alert_kind (ret ()) (\<lambda>_. ret ())"

text \<open>
  A throttle time below a minute is refused: the state is set, and the run ends without an error and without
  a requeue. \<open>validate\<close> is \<open>ValidateActionsForFilterAlert\<close> of the client, and so on.
\<close>

definition throttle_check ::
  "('spec, 'w) resource_api \<Rightarrow> string \<Rightarrow> ('spec \<Rightarrow> int) \<Rightarrow> (('w, 'spec) rst, handler_result, unit) step" where
  "throttle_check A state_error throttle =
     and_then get_obj (\<lambda>r.
     if 0 < throttle (rs_spec r) \<and> throttle (rs_spec r) < 60
     then and_then (as_result (log_error state_error (set_state A ResourceStateConfigError))) (\<lambda>_.
          exit_with (empty_result, None))
     else ret ())"

definition validate_actions ::
  "string \<Rightarrow> (humio_config \<Rightarrow> 'spec resource \<Rightarrow> 'w \<Rightarrow> (go_error + unit) \<times> 'w) \<Rightarrow> humio_config
   \<Rightarrow> (('w, 'spec) rst, handler_result, unit) step" where
  "validate_actions msg validate cfg =
     and_then get_obj (\<lambda>r. as_result (log_error msg (on_server (validate cfg r))))"

definition filter_alert_kind :: "(filter_alert_spec, filter_alert_details) kind" where
  "filter_alert_kind = \<lparr>kd_state_error = ''unable to set filter alert state'', kd_config_requeue = 5 * second,
     kd_delete_error = ''Delete filter alert returned error'', kd_finalizer_error = None,
     kd_get_error = ''could not check if alert exists'', kd_add_error = ''could not create filter alert'',
     kd_update_error = ''could not update filter alert'', kd_unknown_state = ResourceStateUnknown,
     kd_compare = filterAlertAlreadyAsExpected\<rparr>"

definition HumioFilterAlertReconciler_Reconcile ::
  "lib \<Rightarrow> 'w kube \<Rightarrow> (filter_alert_spec, 'w) resource_api \<Rightarrow> (filter_alert_spec, filter_alert_details, 'w) entity_api
   \<Rightarrow> (humio_config \<Rightarrow> filter_alert_spec resource \<Rightarrow> 'w \<Rightarrow> (go_error + unit) \<times> 'w)
   \<Rightarrow> duration \<Rightarrow> string \<Rightarrow> string \<Rightarrow> string \<Rightarrow> ('w, filter_alert_spec) rst \<Rightarrow> handler_result \<times> ('w, filter_alert_spec) rst" where
  "HumioFilterAlertReconciler_Reconcile L K A E validate =
     reconcile_recorded L K A E filter_alert_kind
       (throttle_check A ''unable to set filter alert state'' fa_throttle_time_seconds)
       (validate_actions ''could not get action id mapping'' validate)"

definition aggregate_alert_kind :: "(aggregate_alert_spec, aggregate_alert_details) kind" where
  "aggregate_alert_kind = \<lparr>kd_state_error = ''unable to set scheduled search state'', kd_config_requeue = 5 * second,
     kd_delete_error = ''Delete aggregate alert returned error'', kd_finalizer_error = None,
     kd_get_error = ''could not check if aggregate alert exists'', kd_add_error = ''could not create aggregate alert'',
     kd_update_error = ''could not update aggregate alert'', kd_unknown_state = ResourceStateConfigError,
     kd_compare = aggregateAlertAlreadyAsExpected\<rparr>"

definition HumioAggregateAlertReconciler_Reconcile ::
  "lib \<Rightarrow> 'w kube \<Rightarrow> (aggregate_alert_spec, 'w) resource_api \<Rightarrow> (aggregate_alert_spec, aggregate_alert_details, 'w) entity_api
   \<Rightarrow> (humio_config \<Rightarrow> aggregate_alert_spec resource \<Rightarrow> 'w \<Rightarrow> (go_error + unit) \<times> 'w)
   \<Rightarrow> duration \<Rightarrow> string \<Rightarrow> string \<Rightarrow> string \<Rightarrow> ('w, aggregate_alert_spec) rst \<Rightarrow> handler_result \<times> ('w, aggregate_alert_spec) rst" where
  "HumioAggregateAlertReconciler_Reconcile L K A E validate =
     reconcile_recorded L K A E aggregate_alert_kind
       (throttle_check A ''unable to set alert state'' ag_throttle_time_seconds)
       (validate_actions ''could not validate actions for aggregate alert'' validate)"

end
