(* ===== verification/Search_Controller.thy ===== *)
theory Search_Controller
  imports Entity_Controllers
begin

text \<open>
  Scheduled searches (internal/controller/humioscheduledsearch_controller.go), which use the older or the newer API of
  LogScale depending on the version the cluster reports (internal/helpers/operator.go), and external
  clusters (humioexternalcluster_controller.go), whose reported version that decision needs.
\<close>

section \<open>The version of a cluster\<close>

definition GetClusterImageVersion :: "'w kube \<Rightarrow> string \<Rightarrow> string \<Rightarrow> string \<Rightarrow> ('w, go_error, string) step" where
  "GetClusterImageVersion K ns managedClusterName externalClusterName =
     and_then
       (if managedClusterName \<noteq> []
        then and_then (observe (k_get_cluster K managedClusterName ns)) (\<lambda>x.
             case x of
               Inl err \<Rightarrow> exit_with (Msg (''unable to find requested managedCluster '' @ managedClusterName @ '': '' @ error_message err))
             | Inr hc \<Rightarrow> ret (st_version (hc_status hc), managedClusterName))
        else and_then (observe (k_get_external_cluster K externalClusterName ns)) (\<lambda>x.
             case x of
               Inl err \<Rightarrow> exit_with (Msg (''unable to find requested externalCluster '' @ externalClusterName @ '': '' @ error_message err))
             | Inr ec \<Rightarrow> ret (ec_version ec, externalClusterName)))
       (\<lambda>(image, clusterName).
        if image = [] then exit_with (Msg (''version not available for cluster '' @ clusterName))
        else ret (split_on (CHR ''-'') image ! 0))"

text \<open>\<open>ge\<close> is the order of the semver library.\<close>

definition FeatureExists :: "lib \<Rightarrow> (semver \<Rightarrow> semver \<Rightarrow> bool) \<Rightarrow> string \<Rightarrow> string \<Rightarrow> go_error + bool" where
  "FeatureExists L ge clusterVersion minVersion =
     (case x_semver_parse L clusterVersion of
        None \<Rightarrow> Inl (Msg (''could not compute semver, currentVersion: '' @ clusterVersion))
      | Some currentVersion \<Rightarrow>
          (case x_semver_parse L minVersion of
             None \<Rightarrow> Inl (Msg (''could not compute semver, featureVersion: '' @ minVersion))
           | Some featureVersion \<Rightarrow> Inr (ge currentVersion featureVersion)))"

section \<open>The API a search is served through\<close>

record ('x, 'e, 'w) object_api =
  oa_get :: "humio_config \<Rightarrow> 'x \<Rightarrow> 'w \<Rightarrow> (go_error + 'e) \<times> 'w"
  oa_add :: "humio_config \<Rightarrow> 'x \<Rightarrow> 'w \<Rightarrow> (go_error + unit) \<times> 'w"
  oa_update :: "humio_config \<Rightarrow> 'x \<Rightarrow> 'w \<Rightarrow> (go_error + unit) \<times> 'w"
  oa_delete :: "humio_config \<Rightarrow> 'x \<Rightarrow> 'w \<Rightarrow> (go_error + unit) \<times> 'w"
  oa_validate :: "humio_config \<Rightarrow> 'x \<Rightarrow> 'w \<Rightarrow> (go_error + unit) \<times> 'w"

definition shouldUseV2API ::
  "lib \<Rightarrow> (semver \<Rightarrow> semver \<Rightarrow> bool) \<Rightarrow> 'w kube \<Rightarrow> search_v2 resource \<Rightarrow> ('w, go_error, bool) step" where
  "shouldUseV2API L ge K hss =
     and_then (log_error ''failed to get cluster version''
                (GetClusterImageVersion K (rs_namespace hss) (rs_managed_cluster hss) (rs_external_cluster hss))) (\<lambda>clusterVersion.
     case FeatureExists L ge clusterVersion HumioScheduledSearchV1alpha1DeprecatedInVersion of
       Inl err \<Rightarrow> exit_with (Wrap ''failed to compare versions'' (Some err))
     | Inr hasV2 \<Rightarrow> ret hasV2)"

text \<open>The older form of the resource, if that is the one to use.\<close>

definition determineAPIVersion ::
  "lib \<Rightarrow> (semver \<Rightarrow> semver \<Rightarrow> bool) \<Rightarrow> 'w kube \<Rightarrow> search_v2 resource \<Rightarrow> ('w, go_error, search_v1 option) step" where
  "determineAPIVersion L ge K hss =
     and_then (shouldUseV2API L ge K hss) (\<lambda>useV2.
     ret (if useV2 then None else convertToV1Alpha1 (rs_spec hss)))"

definition getScheduledSearchVersionAware ::
  "lib \<Rightarrow> (semver \<Rightarrow> semver \<Rightarrow> bool) \<Rightarrow> 'w kube \<Rightarrow> (search_v1, search_details_v1, 'w) object_api
   \<Rightarrow> (search_v2, search_details_v2, 'w) object_api \<Rightarrow> humio_config \<Rightarrow> search_v2 resource \<Rightarrow> ('w, go_error, search_details_v2) step" where
  "getScheduledSearchVersionAware L ge K V1 V2 cfg hss =
     and_then (determineAPIVersion L ge K hss) (\<lambda>v.
     case v of
       Some hssV1 \<Rightarrow> and_then (oa_get V1 cfg hssV1) (\<lambda>resultV1. ret (details_of_v1 resultV1))
     | None \<Rightarrow> oa_get V2 cfg (rs_spec hss))"

definition addScheduledSearchVersionAware ::
  "lib \<Rightarrow> (semver \<Rightarrow> semver \<Rightarrow> bool) \<Rightarrow> 'w kube \<Rightarrow> (search_v1, search_details_v1, 'w) object_api
   \<Rightarrow> (search_v2, search_details_v2, 'w) object_api \<Rightarrow> humio_config \<Rightarrow> search_v2 resource \<Rightarrow> ('w, go_error, unit) step" where
  "addScheduledSearchVersionAware L ge K V1 V2 cfg hss =
     and_then (determineAPIVersion L ge K hss) (\<lambda>v.
     case v of Some hssV1 \<Rightarrow> oa_add V1 cfg hssV1 | None \<Rightarrow> oa_add V2 cfg (rs_spec hss))"

definition updateScheduledSearchVersionAware ::
  "lib \<Rightarrow> (semver \<Rightarrow> semver \<Rightarrow> bool) \<Rightarrow> 'w kube \<Rightarrow> (search_v1, search_details_v1, 'w) object_api
   \<Rightarrow> (search_v2, search_details_v2, 'w) object_api \<Rightarrow> humio_config \<Rightarrow> search_v2 resource \<Rightarrow> ('w, go_error, unit) step" where
  "updateScheduledSearchVersionAware L ge K V1 V2 cfg hss =
     and_then (determineAPIVersion L ge K hss) (\<lambda>v.
     case v of Some hssV1 \<Rightarrow> oa_update V1 cfg hssV1 | None \<Rightarrow> oa_update V2 cfg (rs_spec hss))"

definition deleteScheduledSearchVersionAware ::
  "lib \<Rightarrow> (semver \<Rightarrow> semver \<Rightarrow> bool) \<Rightarrow> 'w kube \<Rightarrow> (search_v1, search_details_v1, 'w) object_api
   \<Rightarrow> (search_v2, search_details_v2, 'w) object_api \<Rightarrow> humio_config \<Rightarrow> search_v2 resource \<Rightarrow> ('w, go_error, unit) step" where
  "deleteScheduledSearchVersionAware L ge K V1 V2 cfg hss =
     and_then (determineAPIVersion L ge K hss) (\<lambda>v.
     case v of Some hssV1 \<Rightarrow> oa_delete V1 cfg hssV1 | None \<Rightarrow> oa_delete V2 cfg (rs_spec hss))"

definition validateActionsForScheduledSearchVersionAware ::
  "lib \<Rightarrow> (semver \<Rightarrow> semver \<Rightarrow> bool) \<Rightarrow> 'w kube \<Rightarrow> (search_v1, search_details_v1, 'w) object_api
   \<Rightarrow> (search_v2, search_details_v2, 'w) object_api \<Rightarrow> humio_config \<Rightarrow> search_v2 resource \<Rightarrow> ('w, go_error, unit) step" where
  "validateActionsForScheduledSearchVersionAware L ge K V1 V2 cfg hss =
     and_then (determineAPIVersion L ge K hss) (\<lambda>v.
     case v of Some hssV1 \<Rightarrow> oa_validate V1 cfg hssV1 | None \<Rightarrow> oa_validate V2 cfg (rs_spec hss))"

definition version_aware ::
  "lib \<Rightarrow> (semver \<Rightarrow> semver \<Rightarrow> bool) \<Rightarrow> 'w kube \<Rightarrow> (search_v1, search_details_v1, 'w) object_api
   \<Rightarrow> (search_v2, search_details_v2, 'w) object_api \<Rightarrow> (search_v2, search_details_v2, 'w) entity_api" where
  "version_aware L ge K V1 V2 =
     \<lparr>ea_get = getScheduledSearchVersionAware L ge K V1 V2, ea_add = addScheduledSearchVersionAware L ge K V1 V2,
      ea_update = updateScheduledSearchVersionAware L ge K V1 V2, ea_delete = deleteScheduledSearchVersionAware L ge K V1 V2\<rparr>"

section \<open>The reconciliation of a search\<close>

text \<open>\<open>setState\<close> reads the resource again before it writes the state; an error of that read is dropped.\<close>

definition refreshing :: "('spec, 'w) resource_api \<Rightarrow> ('spec, 'w) resource_api" where
  "refreshing A = A\<lparr>ra_update_status := (\<lambda>r w.
     case ra_get A (rs_namespace r) (rs_name r) w of
       (Inl _, w') \<Rightarrow> ra_update_status A r w'
     | (Inr fresh, w') \<Rightarrow> ra_update_status A (fresh\<lparr>rs_state := rs_state r\<rparr>) w')\<rparr>"

definition search_kind :: "(search_v2, search_details_v2) kind" where
  "search_kind = \<lparr>kd_state_error = ''unable to set scheduled search state'', kd_config_requeue = 0,
     kd_delete_error = ''Delete scheduled search returned error'', kd_finalizer_error = None,
     kd_get_error = ''could not check if scheduled search'', kd_add_error = ''could not create scheduled search'',
     kd_update_error = ''could not update scheduled search'', kd_unknown_state = ResourceStateUnknown,
     kd_compare = (\<lambda>r d. (fst (scheduledSearchAlreadyAsExpectedV2 (rs_spec r) d),
                          r\<lparr>rs_spec := snd (scheduledSearchAlreadyAsExpectedV2 (rs_spec r) d)\<rparr>))\<rparr>"

definition HumioScheduledSearchReconciler_Reconcile ::
  "lib \<Rightarrow> (semver \<Rightarrow> semver \<Rightarrow> bool) \<Rightarrow> 'w kube \<Rightarrow> (search_v2, 'w) resource_api
   \<Rightarrow> (search_v1, search_details_v1, 'w) object_api \<Rightarrow> (search_v2, search_details_v2, 'w) object_api
   \<Rightarrow> duration \<Rightarrow> string \<Rightarrow> string \<Rightarrow> string \<Rightarrow> ('w, search_v2) rst \<Rightarrow> handler_result \<times> ('w, search_v2) rst" where
  "HumioScheduledSearchReconciler_Reconcile L ge K A V1 V2 =
     reconcile_recorded L K (refreshing A) (version_aware L ge K V1 V2) search_kind (ret ())
       (validate_actions ''could not get action id mapping'' (validateActionsForScheduledSearchVersionAware L ge K V1 V2))"

section \<open>External clusters\<close>

definition HumioExternalClusterStateUnknown :: string where "HumioExternalClusterStateUnknown = ''Unknown''"
definition HumioExternalClusterStateReady :: string where "HumioExternalClusterStateReady = ''Ready''"

definition reload :: "('spec, 'w) resource_api \<Rightarrow> string \<Rightarrow> string \<Rightarrow> (('w, 'spec) rst, go_error, unit) step" where
  "reload A ns name = and_then (on_server (ra_get A ns name)) set_obj"

definition HumioExternalClusterReconciler_Reconcile ::
  "lib \<Rightarrow> 'w kube \<Rightarrow> (external_cluster, 'w) resource_api \<Rightarrow> (humio_config \<Rightarrow> 'w \<Rightarrow> (go_error + unit) \<times> 'w)
   \<Rightarrow> duration \<Rightarrow> string \<Rightarrow> string \<Rightarrow> string \<Rightarrow> ('w, external_cluster) rst \<Rightarrow> handler_result \<times> ('w, external_cluster) rst" where
  "HumioExternalClusterReconciler_Reconcile L K A testAPIToken requeuePeriod onlyNamespace ns name =
     (let set_to = (\<lambda>state. as_result (log_error ''unable to set cluster state'' (set_state A state)));
          refresh = as_result (log_error ''unable to get cluster state'' (reload A ns name))
      in returned
        (and_then (watched onlyNamespace ns) (\<lambda>_.
         and_then (fetch_object A ns name) (\<lambda>_.
         and_then get_obj (\<lambda>hec.
         and_then (if rs_state hec = [] then set_to HumioExternalClusterStateUnknown else ret ()) (\<lambda>_.
         and_then get_obj (\<lambda>hec.
         and_then (as_result (log_error ''unable to obtain humio client config'' (log_error ''unable to obtain humio client config''
                    (on_base (NewCluster L K [] (rs_name hec) (rs_namespace hec) (use_cert_manager L) True False))))) (\<lambda>cfg.
         and_then (observe (on_server (testAPIToken cfg))) (\<lambda>tested.
         and_then refresh (\<lambda>_.
         case tested of
           Inl err \<Rightarrow> and_then (set_to HumioExternalClusterStateUnknown) (\<lambda>_. exit_with (requeue_in (15 * second), None))
         | Inr _ \<Rightarrow> and_then (set_to HumioExternalClusterStateReady) (\<lambda>_. ret (requeue_in requeuePeriod, None))))))))))))"

section \<open>The version of an external cluster\<close>

text \<open>The object at hand and every status written satisfy \<open>P\<close>.\<close>

definition spec_is :: "('spec \<Rightarrow> bool) \<Rightarrow> ('w, 'spec) rst \<Rightarrow> bool" where
  "spec_is P s \<longleftrightarrow> P (rs_spec (robj s)) \<and> (\<forall>r. Wrote_status r \<in> set (rlog s) \<longrightarrow> P (rs_spec r))"

definition keeps_spec :: "('spec \<Rightarrow> bool) \<Rightarrow> (('w, 'spec) rst \<Rightarrow> 'x \<times> ('w, 'spec) rst) \<Rightarrow> bool" where
  "keeps_spec P m \<longleftrightarrow> (\<forall>s. spec_is P s \<longrightarrow> spec_is P (snd (m s)))"

named_theorems spec_intros \<open>steps that keep what is known of the specification\<close>

lemma keeps_spec_simple [spec_intros]:
  "keeps_spec P (ret a)" "keeps_spec P (exit_with r)" "keeps_spec P (on_base f)" "keeps_spec P get_obj"
  by (simp_all add: keeps_spec_def spec_is_def ret_def exit_with_def on_base_def get_obj_def)

lemma keeps_spec_and_then [spec_intros]:
  "keeps_spec P m \<Longrightarrow> (\<And>a. keeps_spec P (f a)) \<Longrightarrow> keeps_spec P (and_then m f)"
  by (simp add: keeps_spec_def and_then_def split: prod.split sum.split) (metis snd_conv)

lemma keeps_spec_on_error [spec_intros]:
  "keeps_spec P m \<Longrightarrow> (\<And>e. keeps_spec P (h e)) \<Longrightarrow> keeps_spec P (on_error m h)"
  by (simp add: keeps_spec_def on_error_def split: prod.split sum.split) (metis snd_conv)

lemma keeps_spec_frame [spec_intros]:
  "keeps_spec P m \<Longrightarrow> keeps_spec P (log_error msg m)" "keeps_spec P m \<Longrightarrow> keeps_spec P (as_result m)"
  unfolding log_error_def as_result_def by (intro spec_intros; simp)+

lemma keeps_spec_observe [spec_intros]: "keeps_spec P m \<Longrightarrow> keeps_spec P (observe m)"
  by (simp add: keeps_spec_def observe_def)

lemma snd_returned: "snd (returned m s) = snd (m s)"
  by (simp add: returned_def split: prod.split sum.split)

lemma keeps_spec_returned [spec_intros]: "keeps_spec P m \<Longrightarrow> keeps_spec P (returned m)"
  by (simp add: keeps_spec_def snd_returned)

lemma keeps_spec_branch [spec_intros]:
  "(b \<Longrightarrow> keeps_spec P m) \<Longrightarrow> (\<not> b \<Longrightarrow> keeps_spec P n) \<Longrightarrow> keeps_spec P (if b then m else n)"
  "(\<And>a. x = Inl a \<Longrightarrow> keeps_spec P (f1 a)) \<Longrightarrow> (\<And>b. x = Inr b \<Longrightarrow> keeps_spec P (f2 b)) \<Longrightarrow>
   keeps_spec P (case x of Inl a \<Rightarrow> f1 a | Inr b \<Rightarrow> f2 b)"
  by (simp_all split: sum.split)

lemma keeps_spec_server [spec_intros]: "keeps_spec P (on_server f)"
  by (simp add: keeps_spec_def spec_is_def on_server_def)

text \<open>An API server all of whose answers satisfy \<open>P\<close>.\<close>

definition answers :: "('spec \<Rightarrow> bool) \<Rightarrow> ('spec, 'w) resource_api \<Rightarrow> bool" where
  "answers P A \<longleftrightarrow>
     (\<forall>ns n w r. fst (ra_get A ns n w) = Inr r \<longrightarrow> P (rs_spec r))
     \<and> (\<forall>x w r. fst (ra_update_status A x w) = Inr r \<longrightarrow> P (rs_spec r))"

lemma keeps_spec_reload:
  assumes "answers P A"
  shows "keeps_spec P (reload A ns n)"
  using assms
  by (auto simp: keeps_spec_def reload_def and_then_def on_server_def set_obj_def spec_is_def answers_def split: sum.split)

lemma keeps_spec_fetch:
  assumes "answers P A"
  shows "keeps_spec P (fetch_object A ns n)"
  using assms
  by (auto simp: keeps_spec_def fetch_object_def and_then_def observe_def on_server_def exit_with_def set_obj_def
      spec_is_def answers_def split: sum.split)

lemma keeps_spec_set_state:
  assumes "answers P A"
  shows "keeps_spec P (set_state A state)"
  using assms
  by (auto simp: keeps_spec_def set_state_def and_then_def get_obj_def set_obj_def ret_def update_resource_status_def
      write_with_def on_server_def note_call_def spec_is_def answers_def split: sum.split)

text \<open>
  The reconciliation of an external cluster never records its version. Whatever it writes, in any run, is the object as
  the API server gave it but for the state, so a version the status does not have is never added to it:
  no other code writes that field.
\<close>

lemma external_cluster_keeps_version:
  assumes "answers (\<lambda>ec. ec_version ec = v) A"
    and "spec_is (\<lambda>ec. ec_version ec = v) s"
  shows "spec_is (\<lambda>ec. ec_version ec = v) (snd (HumioExternalClusterReconciler_Reconcile L K A test period only ns name s))"
proof -
  have "keeps_spec (\<lambda>ec. ec_version ec = v) (HumioExternalClusterReconciler_Reconcile L K A test period only ns name)"
    unfolding HumioExternalClusterReconciler_Reconcile_def watched_def Let_def
    by (intro spec_intros keeps_spec_fetch [OF assms(1)] keeps_spec_reload [OF assms(1)] keeps_spec_set_state [OF assms(1)])
  then show ?thesis using assms(2) by (simp add: keeps_spec_def)
qed

section \<open>Searches of an external cluster\<close>

lemma no_version:
  assumes "rs_managed_cluster hss = []"
    and "\<forall>ec. fst (k_get_external_cluster K (rs_external_cluster hss) (rs_namespace hss) w) = Inr ec \<longrightarrow> ec_version ec = []"
  shows "\<exists>e. \<not> is_entity_not_found e
           \<and> determineAPIVersion L ge K hss w = (Inl e, snd (k_get_external_cluster K (rs_external_cluster hss) (rs_namespace hss) w))"
  using assms
  by (cases "k_get_external_cluster K (rs_external_cluster hss) (rs_namespace hss) w"; cases "fst (k_get_external_cluster K (rs_external_cluster hss) (rs_namespace hss) w)")
    (auto simp: determineAPIVersion_def shouldUseV2API_def GetClusterImageVersion_def and_then_def observe_def
      log_error_def on_error_def exit_with_def ret_def)

text \<open>
  Claim C23. A scheduled search of an external cluster without a version is never served. Every one of the five operations
  of the controller fails, with an error that does not say "not found", and has asked nothing but the API
  server for the cluster: LogScale never hears of the search, and neither is the search removed when its resource is deleted.
\<close>

theorem external_searches_never_served:
  assumes "rs_managed_cluster hss = []"
    and "\<forall>ec. fst (k_get_external_cluster K (rs_external_cluster hss) (rs_namespace hss) w) = Inr ec \<longrightarrow> ec_version ec = []"
  shows "\<exists>e. \<not> is_entity_not_found e
     \<and> getScheduledSearchVersionAware L ge K V1 V2 cfg hss w = (Inl e, snd (k_get_external_cluster K (rs_external_cluster hss) (rs_namespace hss) w))
     \<and> addScheduledSearchVersionAware L ge K V1 V2 cfg hss w = (Inl e, snd (k_get_external_cluster K (rs_external_cluster hss) (rs_namespace hss) w))
     \<and> updateScheduledSearchVersionAware L ge K V1 V2 cfg hss w = (Inl e, snd (k_get_external_cluster K (rs_external_cluster hss) (rs_namespace hss) w))
     \<and> deleteScheduledSearchVersionAware L ge K V1 V2 cfg hss w = (Inl e, snd (k_get_external_cluster K (rs_external_cluster hss) (rs_namespace hss) w))
     \<and> validateActionsForScheduledSearchVersionAware L ge K V1 V2 cfg hss w = (Inl e, snd (k_get_external_cluster K (rs_external_cluster hss) (rs_namespace hss) w))"
proof -
  obtain e where "\<not> is_entity_not_found e"
      "determineAPIVersion L ge K hss w = (Inl e, snd (k_get_external_cluster K (rs_external_cluster hss) (rs_namespace hss) w))"
    using no_version [OF assms] by blast
  then show ?thesis
    by (simp add: getScheduledSearchVersionAware_def addScheduledSearchVersionAware_def updateScheduledSearchVersionAware_def
        deleteScheduledSearchVersionAware_def validateActionsForScheduledSearchVersionAware_def and_then_def)
qed

text \<open>An external cluster as the operator leaves it, and a search that names it.\<close>

definition unversioned_cluster :: external_cluster where
  "unversioned_cluster = \<lparr>ec_url = ''https://logs'', ec_api_token_secret_name = ''t'', ec_insecure = False,
     ec_ca_secret_name = [], ec_state = ''Ready'', ec_version = []\<rparr>"

definition external_kube :: "world kube" where
  "external_kube = mem_kube\<lparr>k_get_external_cluster := \<lambda>n ns w. (Inr unversioned_cluster, w)\<rparr>"

definition external_object :: "'spec \<Rightarrow> 'spec resource" where
  "external_object spec = \<lparr>rs_namespace = ''ns'', rs_name = ''s'', rs_deleted = False, rs_finalizers = [],
     rs_managed_cluster = [], rs_external_cluster = ''ext'', rs_spec = spec, rs_state = [], rs_id = []\<rparr>"

definition silent_api :: "('x, 'e, 'w) object_api" where
  "silent_api = \<lparr>oa_get = (\<lambda>_ _ w. (Inl (Msg []), w)), oa_add = (\<lambda>_ _ w. (Inr (), w)), oa_update = (\<lambda>_ _ w. (Inr (), w)),
     oa_delete = (\<lambda>_ _ w. (Inr (), w)), oa_validate = (\<lambda>_ _ w. (Inr (), w))\<rparr>"

definition no_config :: humio_config where
  "no_config = \<lparr>cfg_address = [], cfg_token = [], cfg_insecure = True, cfg_ca_certificate = []\<rparr>"

theorem external_searches_never_served_witness:
  "\<exists>e. addScheduledSearchVersionAware plain_lib (\<lambda>_ _. True) external_kube silent_api silent_api no_config (external_object settled_search) empty_world
       = (Inl e, empty_world)"
proof -
  have answer: "k_get_external_cluster external_kube n ns w = (Inr unversioned_cluster, w)" for n ns w
    by (simp add: external_kube_def)
  have "rs_managed_cluster (external_object settled_search) = []" "ec_version unversioned_cluster = []"
    by (simp_all add: external_object_def unversioned_cluster_def)
  then show ?thesis
    using external_searches_never_served [of "external_object settled_search" external_kube empty_world plain_lib
        "\<lambda>_ _. True" silent_api silent_api no_config]
    unfolding answer by auto
qed

definition one_cluster_api :: "(external_cluster, world) resource_api" where
  "one_cluster_api = \<lparr>ra_get = (\<lambda>_ _ w. (Inr (external_object unversioned_cluster), w)), ra_update = (\<lambda>r w. (Inr r, w)),
     ra_update_status = (\<lambda>r w. (Inr (external_object unversioned_cluster), w))\<rparr>"

theorem external_cluster_keeps_version_witness:
  "spec_is (\<lambda>ec. ec_version ec = [])
     (snd (HumioExternalClusterReconciler_Reconcile plain_lib external_kube one_cluster_api (\<lambda>_ w. (Inr (), w)) 0 [] ''ns'' ''s''
       \<lparr>base = \<lparr>server = empty_world, calls = [], zone_cache = Map.empty, hc_obj = empty_cluster\<rparr>,
        robj = external_object unversioned_cluster, rlog = []\<rparr>))"
  by (rule external_cluster_keeps_version)
    (simp_all add: answers_def one_cluster_api_def external_object_def unversioned_cluster_def spec_is_def)

end
