(* ===== verification/Mock_Entities.thy ===== *)
theory Mock_Entities
  imports Client_Mock
begin

text \<open>
  The rest of the in-memory LogScale of internal/humio/client_mock.go: permission roles, IP filters, alerts,
  scheduled searches, actions and feature flags. Roles are checked against the permissions of the GraphQL schema
  (internal/api/humiographql); all three kinds of roles share one map, so a role of one kind is
  found under its name by the others.
\<close>

section \<open>Permissions\<close>

definition AllSystemPermission :: "string list" where
  "AllSystemPermission =
  [''ReadHealthCheck'', ''ViewOrganizations'', ''ManageOrganizations'', ''ImportOrganization'',
   ''DeleteOrganizations'', ''ChangeSystemPermissions'', ''ManageCluster'', ''IngestAcrossAllReposWithinCluster'',
   ''DeleteHumioOwnedRepositoryOrView'', ''ChangeUsername'', ''ChangeFeatureFlags'', ''ChangeSubdomains'',
   ''ListSubdomains'', ''PatchGlobal'', ''ChangeBucketStorage'', ''ManageOrganizationLinks'']"

definition AllOrganizationPermission :: "string list" where
  "AllOrganizationPermission =
  [''ExportOrganization'', ''ChangeOrganizationPermissions'', ''ChangeIdentityProviders'', ''CreateRepository'',
   ''ManageUsers'', ''ViewUsage'', ''ChangeOrganizationSettings'', ''ChangeIPFilters'', ''ChangeSessions'',
   ''ChangeAllViewOrRepositoryPermissions'', ''IngestAcrossAllReposWithinOrganization'', ''DeleteAllRepositories'',
   ''DeleteAllViews'', ''ViewAllInternalNotifications'', ''ChangeFleetManagement'', ''ViewFleetManagement'',
   ''ChangeTriggersToRunAsOtherUsers'', ''MonitorQueries'', ''BlockQueries'', ''ChangeSecurityPolicies'',
   ''ChangeExternalFunctions'', ''ChangeFieldAliases'', ''ManageViewConnections'']"

definition AllPermission :: "string list" where
  "AllPermission =
  [''ChangeUserAccess'', ''ChangeTriggers'', ''CreateTriggers'', ''UpdateTriggers'', ''DeleteTriggers'',
   ''ChangeActions'', ''CreateActions'', ''UpdateActions'', ''DeleteActions'', ''ChangeDashboards'',
   ''CreateDashboards'', ''UpdateDashboards'', ''DeleteDashboards'', ''ChangeDashboardReadonlyToken'',
   ''ChangeFiles'', ''CreateFiles'', ''UpdateFiles'', ''DeleteFiles'', ''ChangeInteractions'', ''ChangeParsers'',
   ''ChangeSavedQueries'', ''CreateSavedQueries'', ''UpdateSavedQueries'', ''DeleteSavedQueries'', ''ConnectView'',
   ''ChangeArchivingSettings'', ''ChangeDataDeletionPermissions'', ''ChangeRetention'',
   ''ChangeDefaultSearchSettings'', ''ChangeS3ArchivingSettings'', ''DeleteDataSources'', ''DeleteRepositoryOrView'',
   ''DeleteEvents'', ''ReadAccess'', ''ChangeIngestTokens'', ''ChangePackages'',
   ''ChangeViewOrRepositoryDescription'', ''ChangeConnections'', ''EventForwarding'', ''QueryDashboard'',
   ''ChangeViewOrRepositoryPermissions'', ''ChangeFdrFeeds'', ''OrganizationOwnedQueries'',
   ''ReadExternalFunctions'', ''ChangeIngestFeeds'', ''ChangeScheduledReports'', ''CreateScheduledReports'',
   ''UpdateScheduledReports'', ''DeleteScheduledReports'']"

section \<open>Permission roles\<close>

definition roles :: "(role_details, 'z client_mock_scheme) table" where
  "roles = \<lparr>tb = cm_role, set_tb = (\<lambda>x. cm_role_update (\<lambda>_. x))\<rparr>"

definition role_key :: "role_spec resource \<Rightarrow> resource_key" where
  "role_key role = (clusterName role, [], rl_name (rs_spec role))"

definition view_role_key :: "view_role_spec resource \<Rightarrow> resource_key" where
  "view_role_key role = (clusterName role, [], vr_name (rs_spec role))"

text \<open>The first permission that is none of the schema is reported.\<close>

definition known_permissions :: "string list \<Rightarrow> string \<Rightarrow> string list \<Rightarrow> ('s, go_error, unit) step" where
  "known_permissions all type permissions =
     (case find (\<lambda>p. p \<notin> set all) permissions of
        None \<Rightarrow> ret ()
      | Some p \<Rightarrow> exit_with (Msg (''Expected type '' @ [CHR 0x27] @ type @ ''!'' @ [CHR 0x27] @ '', found '' @ [CHR 0x27] @ p @ [CHR 0x27]
          @ ''. Enum value '' @ [CHR 0x27] @ p @ [CHR 0x27] @ '' is undefined in enum type '' @ [CHR 0x27] @ type @ [CHR 0x27])))"

definition assigned_groups :: "string list \<Rightarrow> ('z client_mock_scheme, 'r, role_group list) step" where
  "assigned_groups names =
     fold_step (\<lambda>n gs. and_then RandomString (\<lambda>i. ret (gs @ [\<lparr>rg_id = i, rg_display_name = n, rg_search_domains = []\<rparr>]))) names []"

definition role_of :: "string \<Rightarrow> string \<Rightarrow> string slice \<Rightarrow> string slice \<Rightarrow> string slice \<Rightarrow> role_group slice \<Rightarrow> role_details" where
  "role_of i name view organization system gs =
     \<lparr>ro_id = i, ro_display_name = name, ro_view_permissions = view, ro_organization_permissions = organization,
      ro_system_permissions = system, ro_groups = gs\<rparr>"

definition system_role_entity :: "role_spec \<Rightarrow> ('z client_mock_scheme, go_error, string) step \<Rightarrow> ('z client_mock_scheme, go_error, role_details) step" where
  "system_role_entity spec identity =
     and_then (known_permissions AllSystemPermission ''SystemPermission'' (elements (rl_permissions spec))) (\<lambda>_.
     and_then (assigned_groups (elements (rl_role_assignment_group_names spec))) (\<lambda>gs.
     and_then identity (\<lambda>i.
     ret (role_of i (rl_name spec) (made []) None (made (elements (rl_permissions spec))) (made gs)))))"

definition AddSystemPermissionRole :: "role_spec resource \<Rightarrow> ('z client_mock_scheme, go_error, unit) step" where
  "AddSystemPermissionRole role =
     add_to roles (role_key role) (''role already exists with name '' @ rl_name (rs_spec role))
       (system_role_entity (rs_spec role) RandomString)"

definition GetSystemPermissionRole :: "role_spec resource \<Rightarrow> ('z client_mock_scheme, go_error, role_details) step" where
  "GetSystemPermissionRole role =
     find_in roles (role_key role) (entity_missing ''system-permission-role'' (rl_name (rs_spec role)))"

definition UpdateSystemPermissionRole :: "role_spec resource \<Rightarrow> ('z client_mock_scheme, go_error, unit) step" where
  "UpdateSystemPermissionRole role =
     change_in roles (role_key role) (entity_missing ''system-permission-role'' (rl_name (rs_spec role)))
       (\<lambda>current. system_role_entity (rs_spec role) (ret (ro_id current)))"

definition DeleteSystemPermissionRole :: "role_spec resource \<Rightarrow> ('z client_mock_scheme, go_error, unit) step" where
  "DeleteSystemPermissionRole role = delete_at roles (role_key role)"

definition organization_role_entity ::
  "role_spec \<Rightarrow> ('z client_mock_scheme, go_error, string) step \<Rightarrow> ('z client_mock_scheme, go_error, role_details) step" where
  "organization_role_entity spec identity =
     and_then (known_permissions AllOrganizationPermission ''OrganizationPermission'' (elements (rl_permissions spec))) (\<lambda>_.
     and_then (assigned_groups (elements (rl_role_assignment_group_names spec))) (\<lambda>gs.
     and_then identity (\<lambda>i.
     ret (role_of i (rl_name spec) (made []) (made (elements (rl_permissions spec))) None (made gs)))))"

definition AddOrganizationPermissionRole :: "role_spec resource \<Rightarrow> ('z client_mock_scheme, go_error, unit) step" where
  "AddOrganizationPermissionRole role =
     add_to roles (role_key role) (''role already exists with name '' @ rl_name (rs_spec role))
       (organization_role_entity (rs_spec role) RandomString)"

definition GetOrganizationPermissionRole :: "role_spec resource \<Rightarrow> ('z client_mock_scheme, go_error, role_details) step" where
  "GetOrganizationPermissionRole role =
     find_in roles (role_key role) (entity_missing ''organization-permission-role'' (rl_name (rs_spec role)))"

definition UpdateOrganizationPermissionRole :: "role_spec resource \<Rightarrow> ('z client_mock_scheme, go_error, unit) step" where
  "UpdateOrganizationPermissionRole role =
     change_in roles (role_key role) (entity_missing ''organization-permission-role'' (rl_name (rs_spec role)))
       (\<lambda>current. organization_role_entity (rs_spec role) (ret (ro_id current)))"

definition DeleteOrganizationPermissionRole :: "role_spec resource \<Rightarrow> ('z client_mock_scheme, go_error, unit) step" where
  "DeleteOrganizationPermissionRole role = delete_at roles (role_key role)"

text \<open>A view permission role is added without its assignments; an update assigns them.\<close>

definition AddViewPermissionRole :: "view_role_spec resource \<Rightarrow> ('z client_mock_scheme, go_error, unit) step" where
  "AddViewPermissionRole role =
     add_to roles (view_role_key role) (''role already exists with name '' @ vr_name (rs_spec role))
       (and_then (known_permissions AllPermission ''Permission'' (elements (vr_permissions (rs_spec role)))) (\<lambda>_.
        and_then RandomString (\<lambda>i.
        ret (role_of i (vr_name (rs_spec role)) (made (elements (vr_permissions (rs_spec role)))) None None None))))"

definition GetViewPermissionRole :: "view_role_spec resource \<Rightarrow> ('z client_mock_scheme, go_error, role_details) step" where
  "GetViewPermissionRole role =
     find_in roles (view_role_key role) (entity_missing ''view-permission-role'' (vr_name (rs_spec role)))"

definition assigned_views :: "(string \<times> string) list \<Rightarrow> ('z client_mock_scheme, 'r, role_group list) step" where
  "assigned_views assignments =
     fold_step (\<lambda>(view, group) gs.
       and_then RandomString (\<lambda>i. and_then RandomString (\<lambda>_.
       ret (gs @ [\<lparr>rg_id = i, rg_display_name = group, rg_search_domains = [view]\<rparr>])))) assignments []"

definition UpdateViewPermissionRole :: "view_role_spec resource \<Rightarrow> ('z client_mock_scheme, go_error, unit) step" where
  "UpdateViewPermissionRole role =
     change_in roles (view_role_key role) (entity_missing ''view-permission-role'' (vr_name (rs_spec role)))
       (\<lambda>current.
        and_then (known_permissions AllPermission ''Permission'' (elements (vr_permissions (rs_spec role)))) (\<lambda>_.
        and_then (assigned_views (elements (vr_role_assignments (rs_spec role)))) (\<lambda>gs.
        ret (role_of (ro_id current) (vr_name (rs_spec role)) (made (elements (vr_permissions (rs_spec role)))) None None (made gs)))))"

definition DeleteViewPermissionRole :: "view_role_spec resource \<Rightarrow> ('z client_mock_scheme, go_error, unit) step" where
  "DeleteViewPermissionRole role = delete_at roles (view_role_key role)"

section \<open>IP filters\<close>

definition ip_filters :: "(ip_filter_details, 'z client_mock_scheme) table" where
  "ip_filters = \<lparr>tb = cm_ip_filter, set_tb = (\<lambda>x. cm_ip_filter_update (\<lambda>_. x))\<rparr>"

definition ip_filter_key :: "ip_filter_spec resource \<Rightarrow> resource_key" where
  "ip_filter_key ipFilter = (clusterName ipFilter, [], ipf_name (rs_spec ipFilter))"

definition ip_filter_entity :: "ip_filter_spec \<Rightarrow> string \<Rightarrow> ip_filter_details" where
  "ip_filter_entity spec i =
     \<lparr>ifd_id = i, ifd_name = ipf_name spec, ifd_ip_filter = FirewallRulesToString (ipf_rules spec) [CHR 0x0A]\<rparr>"

definition AddIPFilter :: "ip_filter_spec resource \<Rightarrow> ('z client_mock_scheme, go_error, ip_filter_details) step" where
  "AddIPFilter ipFilter =
     and_then (add_to ip_filters (ip_filter_key ipFilter) (''IPFilter already exists with name '' @ ipf_name (rs_spec ipFilter))
                (ret (ip_filter_entity (rs_spec ipFilter) (ipf_name (rs_spec ipFilter))))) (\<lambda>_.
     ret (ip_filter_entity (rs_spec ipFilter) (ipf_name (rs_spec ipFilter))))"

definition GetIPFilter :: "ip_filter_spec resource \<Rightarrow> ('z client_mock_scheme, go_error, ip_filter_details) step" where
  "GetIPFilter ipFilter = find_in ip_filters (ip_filter_key ipFilter) (entity_missing ''ipfilter'' (ipf_name (rs_spec ipFilter)))"

definition UpdateIPFilter :: "ip_filter_spec resource \<Rightarrow> ('z client_mock_scheme, go_error, unit) step" where
  "UpdateIPFilter ipFilter =
     change_in ip_filters (ip_filter_key ipFilter) (entity_missing ''ipfilter'' (ipf_name (rs_spec ipFilter)))
       (\<lambda>current. ret (ip_filter_entity (rs_spec ipFilter) (ifd_id current)))"

definition DeleteIPFilter :: "ip_filter_spec resource \<Rightarrow> ('z client_mock_scheme, go_error, unit) step" where
  "DeleteIPFilter ipFilter = delete_at ip_filters (ip_filter_key ipFilter)"

section \<open>Alerts\<close>

definition alerts :: "(alert_details, 'z client_mock_scheme) table" where
  "alerts = \<lparr>tb = cm_alert, set_tb = (\<lambda>x. cm_alert_update (\<lambda>_. x))\<rparr>"

definition alert_key :: "alert_spec resource \<Rightarrow> resource_key" where
  "alert_key ha = (clusterName ha, al_view_name (rs_spec ha), al_name (rs_spec ha))"

definition alert_entity :: "alert_spec \<Rightarrow> string \<Rightarrow> alert_details" where
  "alert_entity spec i =
     \<lparr>ad_id = i, ad_name = al_name spec, ad_query_string = al_query_string spec, ad_query_start = al_query_start spec,
      ad_throttle_field = al_throttle_field spec, ad_description = Some (al_description spec),
      ad_throttle_time_millis = al_throttle_time_millis spec, ad_enabled = (\<not> al_silenced spec),
      ad_actions = ActionNamesToEmailActions (al_actions spec), ad_labels = al_labels spec,
      ad_ownership = Some OrganizationOwnership\<rparr>"

definition alert_not_found :: "alert_spec resource \<Rightarrow> string \<Rightarrow> go_error" where
  "alert_not_found ha what =
     err_not_found (''could not find '' @ what @ '' in view '' @ quoted (al_view_name (rs_spec ha)) @ '' with name '' @ quoted (al_name (rs_spec ha)))"

definition GetAlert :: "alert_spec resource \<Rightarrow> ('z client_mock_scheme, go_error, alert_details) step" where
  "GetAlert ha = find_in alerts (alert_key ha) (alert_not_found ha ''alert'')"

definition AddAlert :: "alert_spec resource \<Rightarrow> ('z client_mock_scheme, go_error, unit) step" where
  "AddAlert ha =
     in_domain (clusterName ha) (al_view_name (rs_spec ha))
       (add_to alerts (alert_key ha) (''alert already exists with name '' @ al_name (rs_spec ha))
         (and_then RandomString (\<lambda>i. ret (alert_entity (rs_spec ha) i))))"

definition UpdateAlert :: "alert_spec resource \<Rightarrow> ('z client_mock_scheme, go_error, unit) step" where
  "UpdateAlert ha =
     change_in alerts (alert_key ha) (err_not_found (''alert not found with name '' @ al_name (rs_spec ha)))
       (\<lambda>current. ret (alert_entity (rs_spec ha) (ad_id current)))"

definition DeleteAlert :: "alert_spec resource \<Rightarrow> ('z client_mock_scheme, go_error, unit) step" where
  "DeleteAlert ha = delete_at alerts (alert_key ha)"

text \<open>Filter alerts; \<open>int64(ThrottleTimeSeconds)\<close> is exact.\<close>

definition filter_alerts :: "(filter_alert_details, 'z client_mock_scheme) table" where
  "filter_alerts = \<lparr>tb = cm_filter_alert, set_tb = (\<lambda>x. cm_filter_alert_update (\<lambda>_. x))\<rparr>"

definition filter_alert_key :: "filter_alert_spec resource \<Rightarrow> resource_key" where
  "filter_alert_key hfa = (clusterName hfa, fa_view_name (rs_spec hfa), fa_name (rs_spec hfa))"

definition filter_alert_entity :: "filter_alert_spec \<Rightarrow> string \<Rightarrow> filter_alert_details" where
  "filter_alert_entity spec i =
     \<lparr>fd_id = i, fd_name = fa_name spec, fd_description = Some (fa_description spec), fd_query_string = fa_query_string spec,
      fd_throttle_time_seconds = Some (fa_throttle_time_seconds spec), fd_throttle_field = fa_throttle_field spec,
      fd_labels = fa_labels spec, fd_enabled = fa_enabled spec, fd_actions = ActionNamesToEmailActions (fa_actions spec),
      fd_ownership = Some OrganizationOwnership\<rparr>"

definition filter_alert_not_found :: "filter_alert_spec resource \<Rightarrow> string \<Rightarrow> go_error" where
  "filter_alert_not_found hfa what =
     err_not_found (''could not find '' @ what @ '' in view '' @ quoted (fa_view_name (rs_spec hfa)) @ '' with name '' @ quoted (fa_name (rs_spec hfa)))"

definition GetFilterAlert :: "filter_alert_spec resource \<Rightarrow> ('z client_mock_scheme, go_error, filter_alert_details) step" where
  "GetFilterAlert hfa = find_in filter_alerts (filter_alert_key hfa) (filter_alert_not_found hfa ''alert'')"

definition AddFilterAlert :: "filter_alert_spec resource \<Rightarrow> ('z client_mock_scheme, go_error, unit) step" where
  "AddFilterAlert hfa =
     in_domain (clusterName hfa) (fa_view_name (rs_spec hfa))
       (add_to filter_alerts (filter_alert_key hfa) (''filter alert already exists with name '' @ fa_name (rs_spec hfa))
         (and_then RandomString (\<lambda>i. ret (filter_alert_entity (rs_spec hfa) i))))"

definition UpdateFilterAlert :: "filter_alert_spec resource \<Rightarrow> ('z client_mock_scheme, go_error, unit) step" where
  "UpdateFilterAlert hfa =
     change_in filter_alerts (filter_alert_key hfa) (filter_alert_not_found hfa ''filter alert'')
       (\<lambda>current. ret (filter_alert_entity (rs_spec hfa) (fd_id current)))"

definition DeleteFilterAlert :: "filter_alert_spec resource \<Rightarrow> ('z client_mock_scheme, go_error, unit) step" where
  "DeleteFilterAlert hfa = delete_at filter_alerts (filter_alert_key hfa)"

text \<open>An aggregate alert is added whether or not its view exists.\<close>

definition aggregate_alerts :: "(aggregate_alert_details, 'z client_mock_scheme) table" where
  "aggregate_alerts = \<lparr>tb = cm_aggregate_alert, set_tb = (\<lambda>x. cm_aggregate_alert_update (\<lambda>_. x))\<rparr>"

definition aggregate_alert_key :: "aggregate_alert_spec resource \<Rightarrow> resource_key" where
  "aggregate_alert_key haa = (clusterName haa, ag_view_name (rs_spec haa), ag_name (rs_spec haa))"

definition aggregate_alert_entity :: "aggregate_alert_spec \<Rightarrow> string \<Rightarrow> aggregate_alert_details" where
  "aggregate_alert_entity spec i =
     \<lparr>gad_id = i, gad_name = ag_name spec, gad_description = Some (ag_description spec), gad_query_string = ag_query_string spec,
      gad_search_interval_seconds = ag_search_interval_seconds spec, gad_throttle_time_seconds = ag_throttle_time_seconds spec,
      gad_throttle_field = ag_throttle_field spec, gad_labels = ag_labels spec, gad_enabled = ag_enabled spec,
      gad_trigger_mode = ag_trigger_mode spec, gad_query_timestamp_type = ag_query_timestamp_type spec,
      gad_actions = ActionNamesToEmailActions (ag_actions spec), gad_ownership = Some OrganizationOwnership\<rparr>"

definition aggregate_alert_not_found :: "aggregate_alert_spec resource \<Rightarrow> string \<Rightarrow> go_error" where
  "aggregate_alert_not_found haa what =
     err_not_found (''could not find '' @ what @ '' in view '' @ quoted (ag_view_name (rs_spec haa)) @ '' with name '' @ quoted (ag_name (rs_spec haa)))"

definition GetAggregateAlert :: "aggregate_alert_spec resource \<Rightarrow> ('z client_mock_scheme, go_error, aggregate_alert_details) step" where
  "GetAggregateAlert haa = find_in aggregate_alerts (aggregate_alert_key haa) (aggregate_alert_not_found haa ''aggregate alert'')"

definition AddAggregateAlert :: "aggregate_alert_spec resource \<Rightarrow> ('z client_mock_scheme, go_error, unit) step" where
  "AddAggregateAlert haa =
     add_to aggregate_alerts (aggregate_alert_key haa) (''aggregate alert already exists with name '' @ ag_name (rs_spec haa))
         (and_then RandomString (\<lambda>i. ret (aggregate_alert_entity (rs_spec haa) i)))"

definition UpdateAggregateAlert :: "aggregate_alert_spec resource \<Rightarrow> ('z client_mock_scheme, go_error, unit) step" where
  "UpdateAggregateAlert haa =
     change_in aggregate_alerts (aggregate_alert_key haa) (aggregate_alert_not_found haa ''aggregate alert'')
       (\<lambda>current. ret (aggregate_alert_entity (rs_spec haa) (gad_id current)))"

definition DeleteAggregateAlert :: "aggregate_alert_spec resource \<Rightarrow> ('z client_mock_scheme, go_error, unit) step" where
  "DeleteAggregateAlert haa = delete_at aggregate_alerts (aggregate_alert_key haa)"

section \<open>Scheduled searches\<close>

text \<open>The two APIs keep their searches apart. Both take the resource in the form of their version.\<close>

definition scheduled_searches :: "(search_details_v1, 'z client_mock_scheme) table" where
  "scheduled_searches = \<lparr>tb = cm_scheduled_search, set_tb = (\<lambda>x. cm_scheduled_search_update (\<lambda>_. x))\<rparr>"

definition search_key_v1 :: "search_v1 \<Rightarrow> resource_key" where
  "search_key_v1 hss = (s1_managed hss @ s1_external hss, s1_view_name hss, s1_name hss)"

definition search_entity_v1 :: "search_v1 \<Rightarrow> string \<Rightarrow> search_details_v1" where
  "search_entity_v1 hss i =
     \<lparr>d1_id = i, d1_name = s1_name hss, d1_description = Some (s1_description hss), d1_query_string = s1_query_string hss,
      d1_start = s1_query_start hss, d1_end = s1_query_end hss, d1_time_zone = s1_time_zone hss, d1_schedule = s1_schedule hss,
      d1_backfill_limit = s1_backfill_limit hss, d1_enabled = s1_enabled hss, d1_labels = s1_search_labels hss,
      d1_actions = elements (s1_actions hss), d1_ownership = Some OrganizationOwnership\<rparr>"

definition search_not_found :: "string \<Rightarrow> string \<Rightarrow> go_error" where
  "search_not_found viewName name =
     err_not_found (''could not find scheduled search in view '' @ quoted viewName @ '' with name '' @ quoted name)"

definition AddScheduledSearch :: "search_v1 \<Rightarrow> ('z client_mock_scheme, go_error, unit) step" where
  "AddScheduledSearch hss =
     in_domain (s1_managed hss @ s1_external hss) (s1_view_name hss)
       (add_to scheduled_searches (search_key_v1 hss) (''scheduled search already exists with name '' @ s1_name hss)
         (and_then RandomString (\<lambda>i. ret (search_entity_v1 hss i))))"

definition GetScheduledSearch :: "search_v1 \<Rightarrow> ('z client_mock_scheme, go_error, search_details_v1) step" where
  "GetScheduledSearch hss =
     find_in scheduled_searches (search_key_v1 hss) (search_not_found (s1_view_name hss) (s1_name hss))"

definition UpdateScheduledSearch :: "search_v1 \<Rightarrow> ('z client_mock_scheme, go_error, unit) step" where
  "UpdateScheduledSearch hss =
     change_in scheduled_searches (search_key_v1 hss) (search_not_found (s1_view_name hss) (s1_name hss))
       (\<lambda>current. ret (search_entity_v1 hss (d1_id current)))"

definition DeleteScheduledSearch :: "search_v1 \<Rightarrow> ('z client_mock_scheme, go_error, unit) step" where
  "DeleteScheduledSearch hss = delete_at scheduled_searches (search_key_v1 hss)"

definition scheduled_searches_v2 :: "(search_details_v2, 'z client_mock_scheme) table" where
  "scheduled_searches_v2 = \<lparr>tb = cm_scheduled_search_v2, set_tb = (\<lambda>x. cm_scheduled_search_v2_update (\<lambda>_. x))\<rparr>"

definition search_key_v2 :: "search_v2 \<Rightarrow> resource_key" where
  "search_key_v2 hss = (s2_managed hss @ s2_external hss, s2_view_name hss, s2_name hss)"

definition search_entity_v2 :: "search_v2 \<Rightarrow> string \<Rightarrow> search_details_v2" where
  "search_entity_v2 hss i =
     \<lparr>d2_id = i, d2_name = s2_name hss, d2_description = Some (s2_description hss), d2_query_string = s2_query_string hss,
      d2_search_interval_seconds = s2_search_interval_seconds hss,
      d2_search_interval_offset_seconds = s2_search_interval_offset_seconds hss,
      d2_max_wait_time_seconds = Some (s2_max_wait_time_seconds hss), d2_time_zone = s2_time_zone hss,
      d2_schedule = s2_schedule hss, d2_backfill_limit = s2_backfill_limit hss, d2_enabled = s2_enabled hss,
      d2_labels = s2_search_labels hss, d2_actions = elements (s2_actions hss), d2_ownership = Some OrganizationOwnership,
      d2_query_timestamp_type = s2_query_timestamp_type hss\<rparr>"

definition AddScheduledSearchV2 :: "search_v2 \<Rightarrow> ('z client_mock_scheme, go_error, unit) step" where
  "AddScheduledSearchV2 hss =
     in_domain (s2_managed hss @ s2_external hss) (s2_view_name hss)
       (add_to scheduled_searches_v2 (search_key_v2 hss) (''scheduled search already exists with name '' @ s2_name hss)
         (and_then RandomString (\<lambda>i. ret (search_entity_v2 hss i))))"

definition GetScheduledSearchV2 :: "search_v2 \<Rightarrow> ('z client_mock_scheme, go_error, search_details_v2) step" where
  "GetScheduledSearchV2 hss =
     find_in scheduled_searches_v2 (search_key_v2 hss) (search_not_found (s2_view_name hss) (s2_name hss))"

definition UpdateScheduledSearchV2 :: "search_v2 \<Rightarrow> ('z client_mock_scheme, go_error, unit) step" where
  "UpdateScheduledSearchV2 hss =
     change_in scheduled_searches_v2 (search_key_v2 hss) (search_not_found (s2_view_name hss) (s2_name hss))
       (\<lambda>current. ret (search_entity_v2 hss (d2_id current)))"

definition DeleteScheduledSearchV2 :: "search_v2 \<Rightarrow> ('z client_mock_scheme, go_error, unit) step" where
  "DeleteScheduledSearchV2 hss = delete_at scheduled_searches_v2 (search_key_v2 hss)"

section \<open>Actions\<close>

definition action_table :: "(action_details, 'z client_mock_scheme) table" where
  "action_table = \<lparr>tb = cm_action, set_tb = (\<lambda>x. cm_action_update (\<lambda>_. x))\<rparr>"

definition action_key :: "action_spec resource \<Rightarrow> resource_key" where
  "action_key ha = (clusterName ha, an_view_name (rs_spec ha), an_name (rs_spec ha))"

definition action_not_found :: "action_spec resource \<Rightarrow> go_error" where
  "action_not_found ha =
     err_not_found (''could not find action in view '' @ quoted (an_view_name (rs_spec ha)) @ '' with name '' @ quoted (an_name (rs_spec ha)))"

text \<open>The copy the switch over the type makes: every field of the action, under the id of the store.\<close>

fun with_action_id :: "string \<Rightarrow> action_details \<Rightarrow> action_details" where
  "with_action_id i (ActionDetailsEmailAction _ n r s b u) = ActionDetailsEmailAction i n r s b u"
| "with_action_id i (ActionDetailsHumioRepoAction _ n t) = ActionDetailsHumioRepoAction i n t"
| "with_action_id i (ActionDetailsOpsGenieAction _ n a g u) = ActionDetailsOpsGenieAction i n a g u"
| "with_action_id i (ActionDetailsPagerDutyAction _ n s r u) = ActionDetailsPagerDutyAction i n s r u"
| "with_action_id i (ActionDetailsSlackAction _ n l f u) = ActionDetailsSlackAction i n l f u"
| "with_action_id i (ActionDetailsSlackPostMessageAction _ n t c f u) = ActionDetailsSlackPostMessageAction i n t c f u"
| "with_action_id i (ActionDetailsVictorOpsAction _ n m l u) = ActionDetailsVictorOpsAction i n m l u"
| "with_action_id i (ActionDetailsWebhookAction _ n m l h b g u) = ActionDetailsWebhookAction i n m l h b g u"

text \<open>\<open>resolved\<close> is what \<open>ActionFromActionCR\<close> gives for the resource when it is called.\<close>

definition AddAction :: "(go_error + action_details) \<Rightarrow> action_spec resource \<Rightarrow> ('z client_mock_scheme, go_error, unit) step" where
  "AddAction resolved ha =
     in_domain (clusterName ha) (an_view_name (rs_spec ha))
       (add_to action_table (action_key ha) (''action already exists with name '' @ an_name (rs_spec ha))
         (case resolved of
            Inl err \<Rightarrow> exit_with err
          | Inr action \<Rightarrow> and_then RandomString (\<lambda>i. ret (with_action_id i action))))"

definition GetAction :: "action_spec resource \<Rightarrow> ('z client_mock_scheme, go_error, action_details) step" where
  "GetAction ha = find_in action_table (action_key ha) (action_not_found ha)"

definition UpdateAction :: "(go_error + action_details) \<Rightarrow> action_spec resource \<Rightarrow> ('z client_mock_scheme, go_error, unit) step" where
  "UpdateAction resolved ha =
     change_in action_table (action_key ha) (action_not_found ha)
       (\<lambda>current. case resolved of
          Inl err \<Rightarrow> exit_with err
        | Inr action \<Rightarrow> ret (with_action_id (action_id current) action))"

definition DeleteAction :: "action_spec resource \<Rightarrow> ('z client_mock_scheme, go_error, unit) step" where
  "DeleteAction ha = delete_at action_table (action_key ha)"

section \<open>Feature flags\<close>

definition feature_flags :: "(bool, 'z client_mock_scheme) table" where
  "feature_flags = \<lparr>tb = cm_feature_flag, set_tb = (\<lambda>x. cm_feature_flag_update (\<lambda>_. x))\<rparr>"

definition GetFeatureFlags :: "('z client_mock_scheme, go_error, string list) step" where
  "GetFeatureFlags = ret [''ArrayFunctions'']"

definition EnableFeatureFlag :: "feature_flag_spec resource \<Rightarrow> ('z client_mock_scheme, go_error, unit) step" where
  "EnableFeatureFlag featureFlag = store_at feature_flags (clusterName featureFlag, [], ff_name (rs_spec featureFlag)) True"

text \<open>The one flag the store supports comes into being, disabled, when any flag is asked about.\<close>

definition IsFeatureFlagEnabled :: "feature_flag_spec resource \<Rightarrow> ('z client_mock_scheme, go_error, bool) step" where
  "IsFeatureFlagEnabled featureFlag m =
     (let supportedFlag = (clusterName featureFlag, [], ''ArrayFunctions'');
          m' = (if cm_feature_flag m supportedFlag = None then cm_feature_flag_update (\<lambda>f. f(supportedFlag \<mapsto> False)) m else m)
      in find_in feature_flags (clusterName featureFlag, [], ff_name (rs_spec featureFlag))
           (err_not_found (''could not find feature flag with name '' @ quoted (ff_name (rs_spec featureFlag)))) m')"

definition DisableFeatureFlag :: "feature_flag_spec resource \<Rightarrow> ('z client_mock_scheme, go_error, unit) step" where
  "DisableFeatureFlag featureFlag = store_at feature_flags (clusterName featureFlag, [], ff_name (rs_spec featureFlag)) False"

end
