(* ===== verification/Special_Controllers.thy ===== *)
theory Special_Controllers
  imports Search_Controller Mock_Entities
begin

text \<open>
  The controllers that compose the phases in their own way: IP filters (humioipfilter_controller.go, whose status also holds
  the ID of the filter), feature flags (humiofeatureflag_controller.go), multi-cluster search views
  (humiomulticlustersearchview_controller.go) and actions (humioaction_controller.go).
\<close>

section \<open>IP filters\<close>

definition set_state_and_id :: "('spec, 'w) resource_api \<Rightarrow> string \<Rightarrow> string \<Rightarrow> (('w, 'spec) rst, go_error, unit) step" where
  "set_state_and_id A state id' =
     and_then get_obj (\<lambda>r.
     if rs_state r = state \<and> rs_id r = id' then ret ()
     else and_then (set_obj (r\<lparr>rs_state := state, rs_id := id'\<rparr>)) (\<lambda>_. update_resource_status A))"

definition ip_filter_kind :: "(ip_filter_spec, ip_filter_details) kind" where
  "ip_filter_kind = \<lparr>kd_state_error = ''unable to set cluster state'', kd_config_requeue = 0,
     kd_delete_error = ''Finalizer method returned error'',
     kd_finalizer_error = Some ''Failed to update HumioIPFilter with finalizer'',
     kd_get_error = ''could not check if IPFilter exists'', kd_add_error = ''could not create IPFilter'',
     kd_update_error = ''could not update IPFilter'', kd_unknown_state = ResourceStateUnknown,
     kd_compare = ipFilterAlreadyAsExpected\<rparr>"

text \<open>Without an ID in the status nothing is deleted.\<close>

definition finalize_ip_filter ::
  "(ip_filter_spec, ip_filter_details, 'w) entity_api \<Rightarrow> humio_config \<Rightarrow> (('w, ip_filter_spec) rst, go_error, unit) step" where
  "finalize_ip_filter E cfg =
     and_then get_obj (\<lambda>hi.
     if rs_id hi = [] then ret ()
     else log_error ''error in finalize function call'' (delete_entity E cfg))"

definition record_ip_filter ::
  "(ip_filter_spec, 'w) resource_api \<Rightarrow> (ip_filter_spec, ip_filter_details, 'w) entity_api \<Rightarrow> humio_config
   \<Rightarrow> (('w, ip_filter_spec) rst, handler_result, unit) step" where
  "record_ip_filter A E cfg =
     and_then (observe (look_up E cfg)) (\<lambda>x.
     and_then get_obj (\<lambda>hi.
     ignoring (case x of
         Inl err \<Rightarrow> set_state_and_id A (if is_entity_not_found err then ResourceStateNotFound else ResourceStateUnknown) (rs_id hi)
       | Inr ipFilter \<Rightarrow> set_state_and_id A ResourceStateExists (ifd_id ipFilter))))"

text \<open>\<open>add\<close> answers the filter it created.\<close>

definition HumioIPFilterReconciler_Reconcile ::
  "lib \<Rightarrow> 'w kube \<Rightarrow> (ip_filter_spec, 'w) resource_api \<Rightarrow> (ip_filter_spec, ip_filter_details, 'w) entity_api
   \<Rightarrow> (humio_config \<Rightarrow> ip_filter_spec resource \<Rightarrow> 'w \<Rightarrow> (go_error + ip_filter_details) \<times> 'w)
   \<Rightarrow> duration \<Rightarrow> string \<Rightarrow> string \<Rightarrow> string \<Rightarrow> ('w, ip_filter_spec) rst \<Rightarrow> handler_result \<times> ('w, ip_filter_spec) rst" where
  "HumioIPFilterReconciler_Reconcile L K A E add requeuePeriod onlyNamespace ns name =
     returned
       (and_then (watched onlyNamespace ns) (\<lambda>_.
        and_then (fetch_object A ns name) (\<lambda>_.
        and_then get_obj (\<lambda>hi.
        and_then (on_error (cluster_of L K hi) (\<lambda>err.
          and_then (as_result (log_error ''unable to set cluster state'' (set_state_and_id A ResourceStateConfigError (rs_id hi)))) (\<lambda>_.
          exit_with (empty_result, Some (Wrap ''unable to obtain humio client config'' (Some err)))))) (\<lambda>cfg.
        and_then (handle_deletion A E ip_filter_kind cfg (finalize_ip_filter E cfg)) (\<lambda>_.
        and_then (add_finalizer A ip_filter_kind) (\<lambda>_.
        and_then (observe (look_up E cfg)) (\<lambda>x.
        and_then (case x of
          Inl err \<Rightarrow>
            if is_entity_not_found err
            then and_then (as_result (log_error ''could not create IPFilter'' (call_entity Added (add cfg)))) (\<lambda>ipFilterDetails.
                 and_then (as_result (log_error ''could not update IPFilter Status''
                            (set_state_and_id A ResourceStateExists (ifd_id ipFilterDetails)))) (\<lambda>_.
                 exit_with (requeue_now, None)))
            else exit_with (empty_result, Some (Wrap ''could not check if IPFilter exists'' (Some err)))
        | Inr cur \<Rightarrow>
            and_then (compare_with ip_filter_kind cur) (\<lambda>asExpected.
            if asExpected then ret () else as_result (log_error ''could not update IPFilter'' (update_entity E cfg)))) (\<lambda>_.
        and_then (record_ip_filter A E cfg) (\<lambda>_.
        ret (requeue_in requeuePeriod, None)))))))))))"

section \<open>Feature flags\<close>

record 'w flag_api =
  fl_names :: "humio_config \<Rightarrow> 'w \<Rightarrow> (go_error + string list) \<times> 'w"
  fl_is_enabled :: "humio_config \<Rightarrow> feature_flag_spec resource \<Rightarrow> 'w \<Rightarrow> (go_error + bool) \<times> 'w"
  fl_enable :: "humio_config \<Rightarrow> feature_flag_spec resource \<Rightarrow> 'w \<Rightarrow> (go_error + unit) \<times> 'w"
  fl_disable :: "humio_config \<Rightarrow> feature_flag_spec resource \<Rightarrow> 'w \<Rightarrow> (go_error + unit) \<times> 'w"

text \<open>In the log, a question is a lookup, enabling adds the flag and disabling removes it.\<close>

definition is_enabled :: "'w flag_api \<Rightarrow> humio_config \<Rightarrow> (('w, feature_flag_spec) rst, 'r, go_error + bool) step" where
  "is_enabled F cfg =
     observe (\<lambda>s. case on_server (fl_is_enabled F cfg (robj s)) s of (x, s') \<Rightarrow> (x, note_call (Looked_up (outcome x)) s'))"

definition enabled_of :: "go_error + bool \<Rightarrow> bool" where   \<comment> \<open>with an error the answer is false\<close>
  "enabled_of x = (case x of Inl _ \<Rightarrow> False | Inr b \<Rightarrow> b)"

definition missing_entity :: "go_error + 'a \<Rightarrow> bool" where
  "missing_entity x = (case x of Inl err \<Rightarrow> is_entity_not_found err | Inr _ \<Rightarrow> False)"

definition record_flag ::
  "(feature_flag_spec, 'w) resource_api \<Rightarrow> 'w flag_api \<Rightarrow> humio_config \<Rightarrow> (('w, feature_flag_spec) rst, handler_result, unit) step" where
  "record_flag A F cfg =
     and_then (is_enabled F cfg) (\<lambda>x.
     if missing_entity x then ignoring (set_state A ResourceStateNotFound)
     else if enabled_of x then ignoring (set_state A ResourceStateExists)
     else if outcome x \<noteq> None then ignoring (set_state A ResourceStateUnknown)
     else ret ())"

text \<open>The resource is read again before its finalizer is removed; when that fails the old copy is used.\<close>

definition delete_flag ::
  "(feature_flag_spec, 'w) resource_api \<Rightarrow> 'w flag_api \<Rightarrow> humio_config \<Rightarrow> string \<Rightarrow> string
   \<Rightarrow> (('w, feature_flag_spec) rst, handler_result, 'a) step" where
  "delete_flag A F cfg ns name =
     and_then (is_enabled F cfg) (\<lambda>x.
     and_then (observe (on_server (ra_get A ns name))) (\<lambda>obj.
     and_then (case obj of Inr r \<Rightarrow> set_obj r | Inl _ \<Rightarrow> ret ()) (\<lambda>_.
     if missing_entity obj \<or> \<not> enabled_of x \<or> missing_entity x then remove_finalizer A
     else and_then (as_result (log_error ''disable feature flag returned error'' (call_entity Removed (fl_disable F cfg)))) (\<lambda>_.
          exit_with (requeue_now, None)))))"

definition reconcile_flag ::
  "(feature_flag_spec, 'w) resource_api \<Rightarrow> 'w flag_api \<Rightarrow> humio_config \<Rightarrow> string \<Rightarrow> string \<Rightarrow> duration
   \<Rightarrow> (('w, feature_flag_spec) rst, handler_result, handler_result) step" where
  "reconcile_flag A F cfg ns name requeuePeriod =
     and_then get_obj (\<lambda>featureFlag.
     if rs_deleted featureFlag
     then if ContainsElement (rs_finalizers featureFlag) HumioFinalizer then delete_flag A F cfg ns name
          else exit_with (empty_result, None)
     else
       and_then (is_enabled F cfg) (\<lambda>x.
       case x of
         Inl err \<Rightarrow> exit_with (empty_result, Some (Wrap ''the specified feature flag does not exist'' (Some err)))
       | Inr enabled \<Rightarrow>
           and_then (if enabled then ret ()
                     else as_result (log_error ''could not enable feature flag'' (call_entity Added (fl_enable F cfg)))) (\<lambda>_.
           and_then get_obj (\<lambda>featureFlag.
           and_then (if ContainsElement (rs_finalizers featureFlag) HumioFinalizer then ret ()
                     else and_then (set_obj (featureFlag\<lparr>rs_finalizers := rs_finalizers featureFlag @ [HumioFinalizer]\<rparr>)) (\<lambda>_.
                          as_result (update_resource A))) (\<lambda>_.
           ret (requeue_in requeuePeriod, None))))))"

definition HumioFeatureFlagReconciler_Reconcile ::
  "lib \<Rightarrow> 'w kube \<Rightarrow> (feature_flag_spec, 'w) resource_api \<Rightarrow> 'w flag_api
   \<Rightarrow> duration \<Rightarrow> string \<Rightarrow> string \<Rightarrow> string \<Rightarrow> ('w, feature_flag_spec) rst \<Rightarrow> handler_result \<times> ('w, feature_flag_spec) rst" where
  "HumioFeatureFlagReconciler_Reconcile L K A F requeuePeriod onlyNamespace ns name =
     (let config_error = as_result (log_error ''unable to set feature flag state'' (set_state A ResourceStateConfigError))
      in returned
       (and_then (watched onlyNamespace ns) (\<lambda>_.
        and_then (fetch_object A ns name) (\<lambda>_.
        and_then get_obj (\<lambda>featureFlag.
        and_then (on_error (cluster_of L K featureFlag) (\<lambda>err. and_then config_error (\<lambda>_.
          exit_with (requeue_in (5 * second), Some (Wrap ''unable to obtain humio client config'' (Some err)))))) (\<lambda>cfg.
        and_then (observe (on_server (fl_names F cfg))) (\<lambda>x.
        let featureFlagNames = (case x of Inl _ \<Rightarrow> [] | Inr names \<Rightarrow> names)
        in if ff_name (rs_spec featureFlag) \<notin> set featureFlagNames
           then and_then config_error (\<lambda>_. exit_with (requeue_in (5 * second),
                  Some (Wrap (''feature flag with the specified name does not exist supported feature flags: ''
                              @ join_with '', '' featureFlagNames) (outcome x))))
           else deferred (record_flag A F cfg) (reconcile_flag A F cfg ns name requeuePeriod))))))))"

section \<open>Multi-cluster search views\<close>

definition contains_text :: "string \<Rightarrow> string \<Rightarrow> bool" where   \<comment> \<open>\<open>strings.Contains\<close>\<close>
  "contains_text s part = list_ex (\<lambda>i. take (length part) (drop i s) = part) [0 ..< Suc (length s)]"

definition mcs_view_kind :: "(mcs_view_spec, mcs_view_details) kind" where
  "mcs_view_kind = \<lparr>kd_state_error = ''unable to set cluster state'', kd_config_requeue = 5 * second,
     kd_delete_error = ''Delete view returned error'', kd_finalizer_error = None,
     kd_get_error = ''could not check if view exists'', kd_add_error = ''could not create view'',
     kd_update_error = ''could not update view'', kd_unknown_state = ResourceStateUnknown,
     kd_compare = (\<lambda>r d. (mcsViewAlreadyAsExpected (rs_spec r) d, r))\<rparr>"

text \<open>Adding the view, and what is made of the error of a cluster without the feature.\<close>

definition add_mcs_view ::
  "(mcs_view_spec, 'w) resource_api
   \<Rightarrow> (humio_config \<Rightarrow> connection_details list \<Rightarrow> mcs_view_spec resource \<Rightarrow> 'w \<Rightarrow> (go_error + unit) \<times> 'w)
   \<Rightarrow> humio_config \<Rightarrow> connection_details list \<Rightarrow> go_error \<Rightarrow> (('w, mcs_view_spec) rst, handler_result, 'a) step" where
  "add_mcs_view A add cfg details err =
     and_then (on_error (call_entity Added (add cfg details)) (\<lambda>addErr.
       and_then (if contains_text (error_message addErr) ''The feature MultiClusterSearch is not enabled''
                 then on_error (set_state A ResourceStateConfigError) (\<lambda>_. exit_with (empty_result, Some err))
                 else ret ()) (\<lambda>_.
       exit_with (empty_result, Some (Wrap ''could not create view'' (Some addErr)))))) (\<lambda>_.
     exit_with (requeue_now, None))"

definition HumioMultiClusterSearchViewReconciler_Reconcile ::
  "lib \<Rightarrow> 'w kube \<Rightarrow> (mcs_view_spec, 'w) resource_api \<Rightarrow> (mcs_view_spec, mcs_view_details, 'w) entity_api
   \<Rightarrow> (humio_config \<Rightarrow> connection_details list \<Rightarrow> mcs_view_spec resource \<Rightarrow> 'w \<Rightarrow> (go_error + unit) \<times> 'w)
   \<Rightarrow> (humio_config \<Rightarrow> connection_details list \<Rightarrow> mcs_view_spec resource \<Rightarrow> 'w \<Rightarrow> (go_error + unit) \<times> 'w)
   \<Rightarrow> duration \<Rightarrow> string \<Rightarrow> string \<Rightarrow> string \<Rightarrow> ('w, mcs_view_spec) rst \<Rightarrow> handler_result \<times> ('w, mcs_view_spec) rst" where
  "HumioMultiClusterSearchViewReconciler_Reconcile L K A E add update requeuePeriod onlyNamespace ns name =
     returned
       (and_then (watched onlyNamespace ns) (\<lambda>_.
        and_then (fetch_object A ns name) (\<lambda>_.
        and_then (client_for L K A mcs_view_kind) (\<lambda>cfg.
        and_then (handle_deletion A E mcs_view_kind cfg (delete_entity E cfg)) (\<lambda>_.
        and_then (add_finalizer A mcs_view_kind) (\<lambda>added.
        if added then exit_with (requeue_now, None)
        else deferred (record_state A E mcs_view_kind cfg)
          (and_then get_obj (\<lambda>hv.
           and_then (as_result (on_base (getConnectionDetailsIncludingAPIToken K (rs_namespace hv) (rs_spec hv)))) (\<lambda>details.
           and_then (observe (look_up E cfg)) (\<lambda>x.
           case x of
             Inl err \<Rightarrow>
               if is_entity_not_found err then add_mcs_view A add cfg details err
               else exit_with (empty_result, Some (Wrap ''could not check if view exists'' (Some err)))
           | Inr curView \<Rightarrow>
               and_then (if mcsViewAlreadyAsExpected (customResourceWithClusterIdentityTags L (rs_spec hv) details) curView then ret ()
                         else as_result (log_error ''could not update view'' (call_entity Updated (update cfg details)))) (\<lambda>_.
               ret (requeue_in requeuePeriod, None))))))))))))"

end
