(* ===== verification/Action_Controller.thy ===== *)
theory Action_Controller
  imports Special_Controllers
begin

text \<open>
  The controller of actions (internal/controller/humioaction_controller.go): it resolves the secrets an action refers to
  into the process-wide caches, validates the action, and compares it with what LogScale has. The world
  of this controller is the outside world together with the caches and with the orders in which Go visits maps.
\<close>

section \<open>The process\<close>

record 'v process =
  outside :: 'v
  secrets :: secret_cache
  visits :: "nat \<Rightarrow> entries \<Rightarrow> entries"   \<comment> \<open>the order of the n-th visit of a map\<close>
  visited :: nat

definition on_cache :: "(secret_cache \<Rightarrow> secret_cache) \<Rightarrow> (('v process, 'spec) rst, 'r, unit) step" where
  "on_cache f = on_server (\<lambda>p. (Inr (), p\<lparr>secrets := f (secrets p)\<rparr>))"

definition action_from_cr ::
  "(string \<Rightarrow> string option) \<Rightarrow> (('v process, action_spec) rst, go_error, action_details) step" where
  "action_from_cr parse_uri =
     and_then get_obj (\<lambda>ha.
     on_server (\<lambda>p. (ActionFromActionCR (visits p (visited p)) parse_uri (secrets p) ha, p\<lparr>visited := Suc (visited p)\<rparr>)))"

section \<open>Secrets\<close>

definition resolveField ::
  "'w kube \<Rightarrow> string \<Rightarrow> string \<Rightarrow> var_source \<Rightarrow> (('w, 'spec) rst, go_error, string) step" where
  "resolveField K namespace val ref =
     (if val \<noteq> [] then ret val
      else case ref of
        None \<Rightarrow> ret []
      | Some r \<Rightarrow>
          and_then (observe (on_base (query (k_get_object K SecretKind (sks_name r) namespace)))) (\<lambda>x.
          case x of
            Inl err \<Rightarrow>
              exit_with (Msg (if is_not_found err
                then ''secretKeyRef was set but no secret exists by name '' @ sks_name r @ '' in namespace '' @ namespace
                else ''unable to get secret with name '' @ sks_name r @ '' in namespace '' @ namespace))
          | Inr secret \<Rightarrow>
              (case ko_data secret (sks_key r) of
                 None \<Rightarrow> exit_with (Msg (''secretKeyRef was found but it does not contain the key '' @ sks_key r))
               | Some v \<Rightarrow> ret v)))"

text \<open>\<open>%v\<close>: the error keeps its text only.\<close>

definition resolve_for ::
  "'w kube \<Rightarrow> string \<Rightarrow> string \<Rightarrow> string \<Rightarrow> var_source \<Rightarrow> (('w, 'spec) rst, go_error, string) step" where
  "resolve_for K namespace property val ref =
     on_error (resolveField K namespace val ref) (\<lambda>err. exit_with (Msg (property @ ''.'' @ error_message err)))"

text \<open>The token of the last set of properties is the one stored, an empty one as well.\<close>

definition resolveSecrets :: "'v process kube \<Rightarrow> (('v process, action_spec) rst, go_error, unit) step" where
  "resolveSecrets K =
     and_then get_obj (\<lambda>ha.
     let spec = rs_spec ha; resolve = (\<lambda>property val ref. resolve_for K (rs_namespace ha) property val ref)
     in and_then (case an_slack_post_message spec of
          None \<Rightarrow> ret [] | Some p \<Rightarrow> resolve ''slackPostMessageProperties.apiTokenSource'' (mp_api_token p) (mp_api_token_source p)) (\<lambda>apiToken.
     and_then (case an_slack spec of
          None \<Rightarrow> ret apiToken | Some p \<Rightarrow> resolve ''slackProperties.urlSource'' (sp_url p) (sp_url_source p)) (\<lambda>apiToken.
     and_then (case an_ops_genie spec of
          None \<Rightarrow> ret apiToken | Some p \<Rightarrow> resolve ''opsGenieProperties.genieKeySource'' (op_genie_key p) (op_genie_key_source p)) (\<lambda>apiToken.
     and_then (case an_humio_repository spec of
          None \<Rightarrow> ret apiToken | Some p \<Rightarrow> resolve ''humioRepositoryProperties.ingestTokenSource'' (hp_ingest_token p) (hp_ingest_token_source p)) (\<lambda>apiToken.
     and_then (case an_pager_duty spec of
          None \<Rightarrow> ret apiToken | Some p \<Rightarrow> resolve ''pagerDutyProperties.routingKeySource'' (pp_routing_key p) (pp_routing_key_source p)) (\<lambda>apiToken.
     and_then (case an_victor_ops spec of
          None \<Rightarrow> ret apiToken | Some p \<Rightarrow> resolve ''victorOpsProperties.notifyUrlSource'' (vp_notify_url p) (vp_notify_url_source p)) (\<lambda>apiToken.
     and_then (case an_webhook spec of
          None \<Rightarrow> ret apiToken
        | Some p \<Rightarrow>
            and_then (resolve ''webhookProperties.UrlSource'' (wp_url p) (wp_url_source p)) (\<lambda>apiToken.
            and_then (fold_step (\<lambda>(headerName, headerValueSource) hs.
                        and_then (resolve ''webhookProperties.secretHeaders'' [] headerValueSource) (\<lambda>v.
                        ret (AList.update headerName v hs))) (wp_secret_headers p) []) (\<lambda>allWebhookActionHeaders.
            and_then (on_cache (StoreFullSetOfMergedWebhookActionHeaders ha p allWebhookActionHeaders)) (\<lambda>_.
            ret apiToken)))) (\<lambda>apiToken.
     on_cache (StoreSingleSecretForHa ha apiToken)))))))))"

section \<open>Comparison\<close>

definition isSecretField :: "string \<Rightarrow> bool" where
  "isSecretField fieldName =
     (fieldName \<in> {''apiToken'', ''genieKey'', ''headers'', ''ingestToken'', ''notifyUrl'', ''routingKey'', ''url''})"

text \<open>An entry of the map of differences: the field, and its text when that is not the difference itself.\<close>

definition compareField :: "string \<Rightarrow> 'a \<Rightarrow> 'a \<Rightarrow> (string \<times> string option) list" where
  "compareField fieldName current expected =
     (if current = expected then [] else [(fieldName, if isSecretField fieldName then Some ''<redacted>'' else None)])"

definition sortHeaders :: "(string \<times> string) slice \<Rightarrow> (string \<times> string) slice" where
  "sortHeaders hs = map_option (slice_stable (\<lambda>a b. fst b < fst a \<or> snd b < snd a)) hs"

definition wrong_type :: "(string \<times> string option) list" where   \<comment> \<open>the text names the two types\<close>
  "wrong_type = [(''wrongType'', None)]"

definition compareEmailAction ::
  "string \<Rightarrow> string slice \<Rightarrow> string option \<Rightarrow> string option \<Rightarrow> bool \<Rightarrow> action_details \<Rightarrow> (string \<times> string option) list" where
  "compareEmailAction n r s b u current =
     (case current of
        ActionDetailsEmailAction _ n' r' s' b' u' \<Rightarrow>
          compareField ''name'' n' n @ compareField ''recipients'' r' r @ compareField ''subjectTemplate'' s' s
          @ compareField ''bodyTemplate'' b' b @ compareField ''useProxy'' u' u
      | _ \<Rightarrow> wrong_type)"

definition compareHumioRepoAction ::
  "string \<Rightarrow> string \<Rightarrow> action_details \<Rightarrow> (string \<times> string option) list" where
  "compareHumioRepoAction n t current =
     (case current of
        ActionDetailsHumioRepoAction _ n' t' \<Rightarrow>
          compareField ''name'' n' n @ compareField ''ingestToken'' t' t
      | _ \<Rightarrow> wrong_type)"

definition compareOpsGenieAction ::
  "string \<Rightarrow> string \<Rightarrow> string \<Rightarrow> bool \<Rightarrow> action_details \<Rightarrow> (string \<times> string option) list" where
  "compareOpsGenieAction n a g u current =
     (case current of
        ActionDetailsOpsGenieAction _ n' a' g' u' \<Rightarrow>
          compareField ''name'' n' n @ compareField ''apiUrl'' a' a @ compareField ''genieKey'' g' g @ compareField ''useProxy'' u' u
      | _ \<Rightarrow> wrong_type)"

definition comparePagerDutyAction ::
  "string \<Rightarrow> string \<Rightarrow> string \<Rightarrow> bool \<Rightarrow> action_details \<Rightarrow> (string \<times> string option) list" where
  "comparePagerDutyAction n s r u current =
     (case current of
        ActionDetailsPagerDutyAction _ n' s' r' u' \<Rightarrow>
          compareField ''name'' n' n @ compareField ''routingKey'' r' r @ compareField ''severity'' s' s @ compareField ''useProxy'' u' u
      | _ \<Rightarrow> wrong_type)"

definition compareSlackAction ::
  "string \<Rightarrow> string \<Rightarrow> (string \<times> string) slice \<Rightarrow> bool \<Rightarrow> action_details \<Rightarrow> (string \<times> string option) list" where
  "compareSlackAction n l f u current =
     (case current of
        ActionDetailsSlackAction _ n' l' f' u' \<Rightarrow>
          compareField ''name'' n' n @ compareField ''fields'' f' f @ compareField ''url'' l' l @ compareField ''useProxy'' u' u
      | _ \<Rightarrow> wrong_type)"

definition compareSlackPostMessageAction ::
  "string \<Rightarrow> string \<Rightarrow> string slice \<Rightarrow> (string \<times> string) slice \<Rightarrow> bool \<Rightarrow> action_details \<Rightarrow> (string \<times> string option) list" where
  "compareSlackPostMessageAction n t c f u current =
     (case current of
        ActionDetailsSlackPostMessageAction _ n' t' c' f' u' \<Rightarrow>
          compareField ''name'' n' n @ compareField ''apiToken'' t' t @ compareField ''channels'' c' c @ compareField ''fields'' f' f
          @ compareField ''useProxy'' u' u
      | _ \<Rightarrow> wrong_type)"

definition compareVictorOpsAction ::
  "string \<Rightarrow> string \<Rightarrow> string \<Rightarrow> bool \<Rightarrow> action_details \<Rightarrow> (string \<times> string option) list" where
  "compareVictorOpsAction n m l u current =
     (case current of
        ActionDetailsVictorOpsAction _ n' m' l' u' \<Rightarrow>
          compareField ''name'' n' n @ compareField ''messageType'' m' m @ compareField ''notifyUrl'' l' l @ compareField ''useProxy'' u' u
      | _ \<Rightarrow> wrong_type)"

definition compareWebhookAction ::
  "string \<Rightarrow> string \<Rightarrow> string \<Rightarrow> (string \<times> string) slice \<Rightarrow> string \<Rightarrow> bool \<Rightarrow> bool \<Rightarrow> action_details \<Rightarrow> (string \<times> string option) list" where
  "compareWebhookAction n m l h b g u current =
     (case current of
        ActionDetailsWebhookAction _ n' m' l' h' b' g' u' \<Rightarrow>
          compareField ''method'' m' m @ compareField ''name'' n' n @ compareField ''bodyTemplate'' b' b
          @ compareField ''headers'' (sortHeaders h') (sortHeaders h) @ compareField ''url'' l' l @ compareField ''ignoreSSL'' g' g
          @ compareField ''useProxy'' u' u
      | _ \<Rightarrow> wrong_type)"

definition compareActions :: "action_details \<Rightarrow> action_details \<Rightarrow> (string \<times> string option) list" where
  "compareActions expectedAction currentAction =
     (case expectedAction of
        ActionDetailsEmailAction _ n r s b u \<Rightarrow> compareEmailAction n r s b u currentAction
      | ActionDetailsHumioRepoAction _ n t \<Rightarrow> compareHumioRepoAction n t currentAction
      | ActionDetailsOpsGenieAction _ n a g u \<Rightarrow> compareOpsGenieAction n a g u currentAction
      | ActionDetailsPagerDutyAction _ n s r u \<Rightarrow> comparePagerDutyAction n s r u currentAction
      | ActionDetailsSlackAction _ n l f u \<Rightarrow> compareSlackAction n l f u currentAction
      | ActionDetailsSlackPostMessageAction _ n t c f u \<Rightarrow> compareSlackPostMessageAction n t c f u currentAction
      | ActionDetailsVictorOpsAction _ n m l u \<Rightarrow> compareVictorOpsAction n m l u currentAction
      | ActionDetailsWebhookAction _ n m l h b g u \<Rightarrow> compareWebhookAction n m l h b g u currentAction)"

definition actionAlreadyAsExpected :: "action_details \<Rightarrow> action_details \<Rightarrow> bool" where
  "actionAlreadyAsExpected expectedAction currentAction = (compareActions expectedAction currentAction = [])"

section \<open>Reconciliation\<close>

definition action_kind :: "(action_spec, action_details) kind" where
  "action_kind = \<lparr>kd_state_error = ''unable to set action state'', kd_config_requeue = 5 * second,
     kd_delete_error = ''Delete Action returned error'', kd_finalizer_error = None,
     kd_get_error = ''could not check if action exists'', kd_add_error = ''could not create action'',
     kd_update_error = ''could not update action'', kd_unknown_state = ResourceStateUnknown,
     kd_compare = (\<lambda>r d. (False, r))\<rparr>"   \<comment> \<open>not used: an action is compared with its translation\<close>

definition validate_action ::
  "('v process kube) \<Rightarrow> (action_spec, 'v process) resource_api \<Rightarrow> (string \<Rightarrow> string option)
   \<Rightarrow> (('v process, action_spec) rst, handler_result, unit) step" where
  "validate_action K A parse_uri =
     and_then (as_result (log_error ''could not resolve secret references'' (resolveSecrets K))) (\<lambda>_.
     and_then (observe (action_from_cr parse_uri)) (\<lambda>x.
     case x of
       Inl validateErr \<Rightarrow>
         and_then (as_result (log_error ''unable to set action state'' (set_state A ResourceStateConfigError))) (\<lambda>_.
         exit_with (empty_result, Some validateErr))
     | Inr _ \<Rightarrow> ret ()))"

definition create_or_update_action ::
  "(action_spec, action_details, 'v process) entity_api \<Rightarrow> (string \<Rightarrow> string option) \<Rightarrow> humio_config
   \<Rightarrow> (('v process, action_spec) rst, handler_result, unit) step" where
  "create_or_update_action E parse_uri cfg =
     and_then (observe (look_up E cfg)) (\<lambda>x.
     case x of
       Inl err \<Rightarrow>
         if is_entity_not_found err
         then and_then (as_result (log_error ''could not create action'' (add_entity E cfg))) (\<lambda>_. exit_with (requeue_now, None))
         else exit_with (empty_result, Some (Wrap ''could not check if action exists'' (Some err)))
     | Inr curAction \<Rightarrow>
         and_then (as_result (log_error ''could not parse expected action'' (action_from_cr parse_uri))) (\<lambda>expectedAction.
         if actionAlreadyAsExpected expectedAction curAction then ret ()
         else as_result (log_error ''could not update action'' (update_entity E cfg))))"

definition HumioActionReconciler_Reconcile ::
  "lib \<Rightarrow> 'v process kube \<Rightarrow> (action_spec, 'v process) resource_api \<Rightarrow> (action_spec, action_details, 'v process) entity_api
   \<Rightarrow> (string \<Rightarrow> string option) \<Rightarrow> duration \<Rightarrow> string \<Rightarrow> string \<Rightarrow> string
   \<Rightarrow> ('v process, action_spec) rst \<Rightarrow> handler_result \<times> ('v process, action_spec) rst" where
  "HumioActionReconciler_Reconcile L K A E parse_uri requeuePeriod onlyNamespace ns name =
     returned
       (and_then (watched onlyNamespace ns) (\<lambda>_.
        and_then (fetch_object A ns name) (\<lambda>_.
        and_then (client_for L K A action_kind) (\<lambda>cfg.
        deferred (record_state A E action_kind cfg)
          (and_then (handle_deletion A E action_kind cfg (delete_entity E cfg)) (\<lambda>_.
           and_then (add_finalizer A action_kind) (\<lambda>added.
           if added then exit_with (requeue_now, None)
           else
             and_then (validate_action K A parse_uri) (\<lambda>_.
             and_then (create_or_update_action E parse_uri cfg) (\<lambda>_.
             ret (requeue_in requeuePeriod, None))))))))))"

section \<open>What the comparison decides\<close>

text \<open>An action without its id, its headers in the order they are compared in.\<close>

fun normal_action :: "action_details \<Rightarrow> action_details" where
  "normal_action (ActionDetailsWebhookAction i n m l h b g u) = ActionDetailsWebhookAction [] n m l (sortHeaders h) b g u"
| "normal_action a = with_action_id [] a"

lemma compareField_nil [simp]: "compareField f a b = [] \<longleftrightarrow> a = b"
  by (simp add: compareField_def)

lemmas compare_kind_defs = compareEmailAction_def compareHumioRepoAction_def compareOpsGenieAction_def comparePagerDutyAction_def
  compareSlackAction_def compareSlackPostMessageAction_def compareVictorOpsAction_def compareWebhookAction_def wrong_type_def


text \<open>Fields of a Slack action are compared in the order the map was visited in.\<close>

lemma slack_order_matters:
  assumes "visit es \<noteq> visit' es" and "visit es \<noteq> []" and "visit' es \<noteq> []"
  shows "\<not> actionAlreadyAsExpected (ActionDetailsSlackAction i n l (slack_fields visit (Some es)) u)
             (ActionDetailsSlackAction i n l (slack_fields visit' (Some es)) u)"
  using assms by (simp add: actionAlreadyAsExpected_def compareActions_def compare_kind_defs slack_fields_def)

section \<open>Settings that have no effect\<close>

text \<open>
  \<open>ignoreSSL\<close> of a webhook is ignored. The action sent to LogScale is the same whatever the resource sets,
  and it never ignores certificates.
\<close>

lemma ignore_ssl_is_ignored:
  "ActionFromActionCR visit parse_uri c (ha\<lparr>rs_spec := (rs_spec ha)\<lparr>an_webhook := Some (p\<lparr>wp_ignore_ssl := b\<rparr>)\<rparr>\<rparr>)
     = ActionFromActionCR visit parse_uri c (ha\<lparr>rs_spec := (rs_spec ha)\<lparr>an_webhook := Some (p\<lparr>wp_ignore_ssl := b'\<rparr>)\<rparr>\<rparr>)
   \<and> ActionFromActionCR visit parse_uri c (ha\<lparr>rs_spec := (rs_spec ha)\<lparr>an_webhook := Some p\<rparr>\<rparr>)
       \<noteq> Inr (ActionDetailsWebhookAction i n m l h t True u)"
  by (auto simp: ActionFromActionCR_def Let_def GetSecretForHa_def GetFullSetOfMergedWebhookheaders_def cache_key_def
      getActionType_def webhookAction_def unless_errors_def ifErrors_def emailAction_def humioRepoAction_def opsGenieAction_def
      pagerDutyAction_def slackAction_def slackPostMessageAction_def victorOpsAction_def split: option.splits if_splits)

section \<open>Secrets that are required\<close>

lemma resolved_repository:
  assumes "getActionType (rs_spec (robj s)) = Inr t" and "an_humio_repository (rs_spec (robj s)) = Some p"
    and "hp_ingest_token p = []" and "hp_ingest_token_source p = None"
  shows "\<exists>s'. resolveSecrets K s = (Inr (), s') \<and> robj s' = robj s
           \<and> GetSecretForHa (secrets (server (base s'))) (robj s) = ([], True)"
proof -
  have only: "an_slack_post_message (rs_spec (robj s)) = None" "an_slack (rs_spec (robj s)) = None"
      "an_ops_genie (rs_spec (robj s)) = None" "an_pager_duty (rs_spec (robj s)) = None"
      "an_victor_ops (rs_spec (robj s)) = None" "an_webhook (rs_spec (robj s)) = None"
    using assms(1,2) by (auto simp: getActionType_def Let_def split: if_splits)
  show ?thesis
    by (simp add: resolveSecrets_def only assms and_then_def get_obj_def ret_def resolve_for_def resolveField_def on_error_def
        on_cache_def on_server_def StoreSingleSecretForHa_def GetSecretForHa_def Let_def)
qed

text \<open>
  A secret that is required may be missing. Resolving the secrets of an action stores a token for it even
  when there is none, and validation takes any stored token for a given one: an action for a repository
  that names neither a token nor a secret passes, and is sent to LogScale with the empty token.
\<close>

lemma missing_secret_is_sent:
  assumes "getActionType (rs_spec (robj s)) = Inr t" and "an_humio_repository (rs_spec (robj s)) = Some p"
    and "hp_ingest_token p = []" and "hp_ingest_token_source p = None"
  shows "fst (and_then (resolveSecrets K) (\<lambda>_. action_from_cr parse_uri) s)
           = Inr (ActionDetailsHumioRepoAction [] (an_name (rs_spec (robj s))) [])"
proof -
  obtain s' where s': "resolveSecrets K s = (Inr (), s')" "robj s' = robj s"
      "GetSecretForHa (secrets (server (base s'))) (robj s) = ([], True)"
    using resolved_repository [OF assms] by blast
  have "an_email (rs_spec (robj s)) = None" "an_ops_genie (rs_spec (robj s)) = None"
    using assms(1,2) by (auto simp: getActionType_def Let_def split: if_splits)
  then have "ActionFromActionCR visit parse_uri (secrets (server (base s'))) (robj s)
      = Inr (ActionDetailsHumioRepoAction [] (an_name (rs_spec (robj s))) [])" for visit
    using assms s'(3)
    by (simp add: ActionFromActionCR_def Let_def humioRepoAction_def unless_errors_def ifErrors_def required_def or_secret_def)
  then show ?thesis
    using s' by (simp add: and_then_def action_from_cr_def get_obj_def on_server_def)
qed

definition repository_action :: action_spec where
  "repository_action = \<lparr>an_name = ''a'', an_view_name = ''v'', an_email = None,
     an_humio_repository = Some \<lparr>hp_ingest_token = [], hp_ingest_token_source = None\<rparr>, an_ops_genie = None,
     an_pager_duty = None, an_slack = None, an_slack_post_message = None, an_victor_ops = None, an_webhook = None\<rparr>"

definition plain_process :: "'v \<Rightarrow> 'v process" where
  "plain_process v = \<lparr>outside = v, secrets = \<lparr>ha_secrets = Map.empty, ha_webhook_headers = Map.empty\<rparr>, visits = (\<lambda>_ es. es), visited = 0\<rparr>"

definition repository_state :: "(unit process, action_spec) rst" where
  "repository_state = \<lparr>base = \<lparr>server = plain_process (), calls = [], zone_cache = Map.empty, hc_obj = empty_cluster\<rparr>,
     robj = external_object repository_action, rlog = []\<rparr>"

theorem missing_secret_is_sent_witness:
  "\<forall>K. fst (and_then (resolveSecrets K) (\<lambda>_. action_from_cr (\<lambda>_. None)) repository_state)
     = Inr (ActionDetailsHumioRepoAction [] ''a'' [])"
proof
  fix K
  have "rs_spec (robj repository_state) = repository_action" by (simp add: repository_state_def external_object_def)
  then show "fst (and_then (resolveSecrets K) (\<lambda>_. action_from_cr (\<lambda>_. None)) repository_state)
     = Inr (ActionDetailsHumioRepoAction [] ''a'' [])"
    using missing_secret_is_sent [of repository_state ActionTypeHumioRepo "\<lparr>hp_ingest_token = [], hp_ingest_token_source = None\<rparr>" K "\<lambda>_. None"]
    by (simp add: repository_action_def getActionType_def)
qed

end
