(* ===== verification/Entity_Protocol.thy ===== *)
theory Entity_Protocol
  imports Action_Controller
begin

text \<open>
  The controllers of LogScale entities keep the protocol of \<open>Resource_Reconcile\<close>. What remains to be shown of each
  is what its own steps log; the three compositions and the shared phases do the rest. Actions and
  multi-cluster search views are composed of the phases in their own way.
\<close>

section \<open>The steps of single controllers\<close>

lemma keeps_protocol_throttle_check: "keeps_protocol d (throttle_check A msg throttle)"
  unfolding throttle_check_def by (intro protocol_intros)

lemma keeps_protocol_token_secret: "keeps_protocol d (ensureTokenSecretExists K E cfg)"
  unfolding ensureTokenSecretExists_def Let_def by (intro protocol_intros)

lemma silent_validate_actions: "silent (validate_actions msg validate cfg)"
  unfolding validate_actions_def by (intro silent_intros)

lemma silent_fold_step [silent_intros]: "(\<And>x b. silent (f x b)) \<Longrightarrow> silent (fold_step f xs b)"
  by (induction xs arbitrary: b) (auto intro: silent_intros)

lemma silent_resolve_for [silent_intros]: "silent (resolve_for K ns property val ref)"
  unfolding resolve_for_def resolveField_def by (intro silent_intros)

lemma silent_resolveSecrets: "silent (resolveSecrets K)"
  unfolding resolveSecrets_def Let_def on_cache_def case_prod_beta by (intro silent_intros)

lemma silent_action_from_cr [silent_intros]: "silent (action_from_cr parse_uri)"
  unfolding action_from_cr_def by (intro silent_intros)

lemma keeps_protocol_validate_action [protocol_intros]: "keeps_protocol d (validate_action K A parse_uri)"
  unfolding validate_action_def
  by (intro protocol_intros silent_keeps_protocol [OF silent_resolveSecrets] silent_keeps_protocol [OF silent_action_from_cr])

text \<open>A call that the lookup before it permits, and what may follow it.\<close>

lemma logs_then:
  assumes "logs (obeys d p) m" and "\<And>a. keeps_protocol d (f a)"
  shows "logs (obeys d p) (and_then m f)"
proof (rule logsI)
  fix s
  obtain cs where cs: "rlog (snd (m s)) = rlog s @ cs" "obeys d p cs" using assms(1) unfolding logs_def by blast
  obtain x s' where m: "m s = (x, s')" by fastforce
  show "\<exists>cs. rlog (snd (and_then m f s)) = rlog s @ cs \<and> obeys d p cs"
  proof (cases x)
    case (Inl e)
    with m cs show ?thesis by (simp add: and_then_def)
  next
    case (Inr a)
    obtain ds where "rlog (snd (f a s')) = rlog s' @ ds" "obeys d None ds"
      using assms(2) unfolding logs_def by blast
    with Inr m cs show ?thesis by (auto simp: and_then_def intro: obeys_append)
  qed
qed

lemma logs_on_error:
  assumes "logs (obeys d p) m" and "\<And>e. keeps_protocol d (h e)"
  shows "logs (obeys d p) (on_error m h)"
proof (rule logsI)
  fix s
  obtain cs where cs: "rlog (snd (m s)) = rlog s @ cs" "obeys d p cs" using assms(1) unfolding logs_def by blast
  obtain x s' where m: "m s = (x, s')" by fastforce
  show "\<exists>cs. rlog (snd (on_error m h s)) = rlog s @ cs \<and> obeys d p cs"
  proof (cases x)
    case (Inr a)
    with m cs show ?thesis by (simp add: on_error_def)
  next
    case (Inl e)
    obtain ds where "rlog (snd (h e s')) = rlog s' @ ds" "obeys d None ds"
      using assms(2) unfolding logs_def by blast
    with Inl m cs show ?thesis by (auto simp: on_error_def intro: obeys_append)
  qed
qed

lemma logs_None: "keeps_protocol d m \<Longrightarrow> logs (obeys d p) m"
  unfolding logs_def by (blast intro: obeys_after)

lemma logs_permitted: "(\<And>r. permitted d p (c r)) \<Longrightarrow> logs (obeys d p) (call_entity c f)"
  by (rule logs_call_entity) auto

section \<open>Actions and multi-cluster search views\<close>

lemma keeps_protocol_create_or_update_action: "keeps_protocol False (create_or_update_action E parse_uri cfg)"
  unfolding create_or_update_action_def
proof (rule logs_look_up_then, goal_cases)
  case (1 x)
  show ?case
  proof (cases x)
    case (Inl err)
    have "logs (obeys False (Some (Looked_up (Some err))))
        (and_then (as_result (log_error ''could not create action'' (add_entity E cfg))) (\<lambda>_. exit_with (requeue_now, None)))"
      if "is_entity_not_found err"
      using that unfolding add_entity_def by (intro logs_then logs_errors logs_permitted protocol_intros) auto
    then show ?thesis unfolding Inl by (auto intro: logs_None protocol_intros)
  next
    case (Inr cur)
    show ?thesis
      unfolding Inr sum.case update_entity_def outcome_simps
      by (rule logs_silent_then) (auto intro!: silent_intros logs_errors logs_permitted logs_None [OF keeps_protocol_simple(1)])
  qed
qed

lemma permitted_add_mcs_view:
  assumes "is_entity_not_found err"
  shows "logs (obeys False (Some (Looked_up (Some err)))) (add_mcs_view A add cfg details err)"
  unfolding add_mcs_view_def
  by (intro logs_then logs_on_error logs_permitted protocol_intros) (use assms in simp)

lemma action_keeps_protocol:
  "protocol_run A ns name (HumioActionReconciler_Reconcile L K A E parse_uri period only ns name) s"
  unfolding HumioActionReconciler_Reconcile_def
proof (rule protocol_runI)
  fix cfg s
  show "\<exists>cs. rlog (snd (deferred (record_state A E action_kind cfg)
          (and_then (handle_deletion A E action_kind cfg (delete_entity E cfg)) (\<lambda>_.
           and_then (add_finalizer A action_kind) (\<lambda>added.
           if added then exit_with (requeue_now, None)
           else
             and_then (validate_action K A parse_uri) (\<lambda>_.
             and_then (create_or_update_action E parse_uri cfg) (\<lambda>_.
             ret (requeue_in period, None)))))) s)) = rlog s @ cs \<and> obeys (rs_deleted (robj s)) None cs"
    by (intro deferred_logs deletion_then protocol_intros deletes_delete_entity keeps_protocol_create_or_update_action)
qed

lemma mcs_view_keeps_protocol:
  "protocol_run A ns name (HumioMultiClusterSearchViewReconciler_Reconcile L K A E add update period only ns name) s"
  unfolding HumioMultiClusterSearchViewReconciler_Reconcile_def
proof (rule protocol_runI, rule deletion_then [OF deletes_delete_entity])
  fix cfg u
  have missing: "logs (obeys False (Some (Looked_up (Some err))))
      (if is_entity_not_found err then add_mcs_view A add cfg details err
       else exit_with (empty_result, Some (Wrap ''could not check if view exists'' (Some err))))" for details err
    by (auto intro: permitted_add_mcs_view logs_None protocol_intros)
  have found: "logs (obeys False (Some (Looked_up None)))
      (and_then (if mcsViewAlreadyAsExpected e curView then ret ()
                 else as_result (log_error ''could not update view'' (call_entity Updated (update cfg details)))) (\<lambda>_.
       ret (requeue_in period, None)))" for e curView details
    by (intro logs_then protocol_intros)
      (auto intro!: logs_errors logs_permitted logs_None [OF keeps_protocol_simple(1)])
  have look: "logs (obeys False (Some (Looked_up (outcome x))))
      (case x of
         Inl err \<Rightarrow>
           if is_entity_not_found err then add_mcs_view A add cfg details err
           else exit_with (empty_result, Some (Wrap ''could not check if view exists'' (Some err)))
       | Inr curView \<Rightarrow>
           and_then (if mcsViewAlreadyAsExpected (e hv details) curView then ret ()
                     else as_result (log_error ''could not update view'' (call_entity Updated (update cfg details)))) (\<lambda>_.
           ret (requeue_in period, None)))" for x details hv and e :: "mcs_view_spec resource \<Rightarrow> connection_details list \<Rightarrow> mcs_view_spec"
    by (cases x) (simp_all only: sum.case outcome_simps missing found)
  show "keeps_protocol False
     (and_then (add_finalizer A mcs_view_kind) (\<lambda>added.
        if added then exit_with (requeue_now, None)
        else deferred (record_state A E mcs_view_kind cfg)
          (and_then get_obj (\<lambda>hv.
           and_then (as_result (on_base (getConnectionDetailsIncludingAPIToken K (rs_namespace hv) (rs_spec hv)))) (\<lambda>details.
           and_then (observe (look_up E cfg)) (\<lambda>x.
           case x of
             Inl err \<Rightarrow>
               if is_entity_not_found err then add_mcs_view A add cfg details err
               else exit_with (empty_result, Some (Wrap ''could not check if view exists'' (Some err)))
           | Inr curView \<Rightarrow>
               and_then (if mcsViewAlreadyAsExpected (customResourceWithClusterIdentityTags L (rs_spec hv) details) curView then ret ()
                         else as_result (log_error ''could not update view'' (call_entity Updated (update cfg details)))) (\<lambda>_.
               ret (requeue_in period, None))))))))"
    by (intro protocol_intros logs_look_up_then look)
qed

end
