(* ===== verification/Entity_Contract.thy ===== *)
theory Entity_Contract
  imports Entity_Protocol
begin

text \<open>
  What makes the reconciliation of a LogScale entity end. The locale \<open>entity_contract\<close> is the contract of the four
  operations of a client on one kind of entity: what a lookup answers after an add, an update and a delete, and that the
  comparison of the kind accepts what the operations leave. From it the three compositions of
  \<open>Resource_Reconcile\<close> are shown to settle. The API server is any store that keeps objects.
\<close>

section \<open>The API server and the client\<close>

text \<open>
  The documented behaviour of the API server when nobody else writes: a read answers the stored object, a
  write replaces everything but the status and the deletion mark, a status write only the status, and an
  object being deleted goes with its last finalizer.
\<close>

definition as_updated :: "'spec resource \<Rightarrow> 'spec resource \<Rightarrow> 'spec resource" where
  "as_updated old r = r\<lparr>rs_deleted := rs_deleted old, rs_state := rs_state old, rs_id := rs_id old\<rparr>"

definition with_status :: "'spec resource \<Rightarrow> 'spec resource \<Rightarrow> 'spec resource" where
  "with_status old r = old\<lparr>rs_state := rs_state r, rs_id := rs_id r\<rparr>"

definition object_key :: "'spec resource \<Rightarrow> string \<times> string" where
  "object_key r = (rs_namespace r, rs_name r)"

definition keeps_objects ::
  "('spec, 'z) resource_api \<Rightarrow> ('z \<Rightarrow> string \<times> string \<rightharpoonup> 'spec resource) \<Rightarrow> bool" where
  "keeps_objects A stored \<longleftrightarrow>
     (\<forall>ns name z r. stored z (ns, name) = Some r \<longrightarrow> ra_get A ns name z = (Inr r, z))
     \<and> (\<forall>r z old. stored z (object_key r) = Some old \<longrightarrow>
          (\<exists>z'. ra_update A r z = (Inr (as_updated old r), z')
             \<and> stored z' = (stored z)(object_key r :=
                 (if rs_deleted old \<and> rs_finalizers r = [] then None else Some (as_updated old r)))))
     \<and> (\<forall>r z old. stored z (object_key r) = Some old \<longrightarrow>
          (\<exists>z'. ra_update_status A r z = (Inr (with_status old r), z')
             \<and> stored z' = (stored z)(object_key r \<mapsto> with_status old r)))"

text \<open>The API server is one part of the world, LogScale another.\<close>

definition beside :: "('w \<Rightarrow> 'z) \<Rightarrow> ('z \<Rightarrow> 'w \<Rightarrow> 'w) \<Rightarrow> ('spec, 'z) resource_api \<Rightarrow> ('spec, 'w) resource_api" where
  "beside api_of with_api A =
     \<lparr>ra_get = (\<lambda>ns name w. case ra_get A ns name (api_of w) of (x, z) \<Rightarrow> (x, with_api z w)),
      ra_update = (\<lambda>r w. case ra_update A r (api_of w) of (x, z) \<Rightarrow> (x, with_api z w)),
      ra_update_status = (\<lambda>r w. case ra_update_status A r (api_of w) of (x, z) \<Rightarrow> (x, with_api z w))\<rparr>"

text \<open>The cluster of a resource is there and gives the configuration \<open>cfg\<close>.\<close>

definition connects :: "lib \<Rightarrow> 'w kube \<Rightarrow> 'spec resource \<Rightarrow> humio_config \<Rightarrow> bool" where
  "connects L K r cfg \<longleftrightarrow> (\<forall>s :: ('w, 'spec) rst. cluster_of L K r s = (Inr cfg, s))"

text \<open>Resources that ask for the same: \<open>nf\<close> forgets the order of what the comparison sorts.\<close>

definition alike :: "('spec \<Rightarrow> 'spec) \<Rightarrow> 'spec resource \<Rightarrow> 'spec resource \<Rightarrow> bool" where
  "alike nf r r' \<longleftrightarrow>
     object_key r' = object_key r \<and> rs_managed_cluster r' = rs_managed_cluster r
     \<and> rs_external_cluster r' = rs_external_cluster r \<and> nf (rs_spec r') = nf (rs_spec r)"

lemma alike_refl [simp]: "alike nf r r"
  by (simp add: alike_def)

lemma alike_trans: "alike nf r r' \<Longrightarrow> alike nf r' r'' \<Longrightarrow> alike nf r r''"
  by (simp add: alike_def)

lemma alike_updates [simp]:
  "alike nf r (r'\<lparr>rs_state := st\<rparr>) = alike nf r r'" "alike nf r (r'\<lparr>rs_finalizers := fs\<rparr>) = alike nf r r'"
  "alike nf r (as_updated old r') = alike nf r r'" "alike nf r (with_status r' old) = alike nf r r'"
  by (simp_all add: alike_def object_key_def as_updated_def with_status_def)

lemma cluster_of_alike:
  "alike nf r r' \<Longrightarrow> connects L K r cfg \<Longrightarrow> cluster_of L K r' s = (Inr cfg, s)"
  by (simp add: connects_def alike_def object_key_def cluster_of_def)

section \<open>The contract\<close>

locale entity_contract =
  fixes api_of :: "'w \<Rightarrow> 'z" and with_api :: "'z \<Rightarrow> 'w \<Rightarrow> 'w"
    and E :: "('spec, 'e, 'w) entity_api" and kd :: "('spec, 'e) kind" and nf :: "'spec \<Rightarrow> 'spec"
    and held :: "'spec resource \<Rightarrow> 'w \<Rightarrow> 'e option" and fits :: "'spec resource \<Rightarrow> 'w \<Rightarrow> bool"
  assumes api_put: "api_of (with_api z w) = z" and api_same: "with_api (api_of w) w = w"
    and held_put: "held r (with_api z w) = held r w" and fits_put: "fits r (with_api z w) = fits r w"
    and held_alike: "alike nf r r' \<Longrightarrow> held r' w = held r w"
    and fits_alike: "alike nf r r' \<Longrightarrow> fits r' w = fits r w"
    and verdict_alike: "alike nf r r' \<Longrightarrow> fst (kd_compare kd r' e) = fst (kd_compare kd r e)"
    and compare_sorts: "\<exists>spec. snd (kd_compare kd r e) = r\<lparr>rs_spec := spec\<rparr> \<and> nf spec = nf (rs_spec r)"
    and get_present: "held r w = Some e \<Longrightarrow> ea_get E cfg r w = (Inr e, w)"
    and get_absent: "held r w = None \<Longrightarrow> \<exists>err. ea_get E cfg r w = (Inl err, w) \<and> is_entity_not_found err"
    and add_ok: "held r w = None \<Longrightarrow> fits r w \<Longrightarrow>
      \<exists>w' e. ea_add E cfg r w = (Inr (), w') \<and> held r w' = Some e \<and> fst (kd_compare kd r e)
             \<and> fits r w' \<and> api_of w' = api_of w"
    and update_ok: "held r w = Some e \<Longrightarrow> fits r w \<Longrightarrow>
      \<exists>w' e'. ea_update E cfg r w = (Inr (), w') \<and> held r w' = Some e' \<and> fst (kd_compare kd r e')
              \<and> fits r w' \<and> api_of w' = api_of w"
    and delete_ok: "held r w = Some e \<Longrightarrow>
      \<exists>w'. ea_delete E cfg r w = (Inr (), w') \<and> held r w' = None \<and> api_of w' = api_of w"

begin

text \<open>What is stored, and what the run holds in its hands, for the resource \<open>r0\<close>.\<close>

definition live :: "('z \<Rightarrow> string \<times> string \<rightharpoonup> 'spec resource) \<Rightarrow> 'spec resource \<Rightarrow> ('spec resource \<Rightarrow> bool) \<Rightarrow> ('w, 'spec) rst \<Rightarrow> bool" where
  "live stored r0 P s \<longleftrightarrow>
     (\<exists>r. stored (api_of (server (base s))) (object_key r0) = Some r \<and> alike nf r0 r \<and> \<not> rs_deleted r \<and> P r)
     \<and> fits r0 (server (base s))"

definition held_as_asked :: "'spec resource \<Rightarrow> ('w, 'spec) rst \<Rightarrow> bool" where
  "held_as_asked r0 s \<longleftrightarrow> (\<exists>e. held r0 (server (base s)) = Some e \<and> fst (kd_compare kd r0 e))"

definition in_hand :: "('z \<Rightarrow> string \<times> string \<rightharpoonup> 'spec resource) \<Rightarrow> 'spec resource \<Rightarrow> ('w, 'spec) rst \<Rightarrow> bool" where
  "in_hand stored r0 s \<longleftrightarrow>
     (\<exists>r. stored (api_of (server (base s))) (object_key r0) = Some r \<and> rs_state r = rs_state (robj s)
        \<and> rs_finalizers r = rs_finalizers (robj s) \<and> rs_deleted r = rs_deleted (robj s))
     \<and> alike nf r0 (robj s)"

abbreviation working where
  "working stored r0 P s \<equiv> live stored r0 P s \<and> in_hand stored r0 s"

definition settled :: "('z \<Rightarrow> string \<times> string \<rightharpoonup> 'spec resource) \<Rightarrow> 'spec resource \<Rightarrow> ('w, 'spec) rst \<Rightarrow> bool" where
  "settled stored r0 s \<longleftrightarrow>
     live stored r0 (\<lambda>r. HumioFinalizer \<in> set (rs_finalizers r) \<and> rs_state r = ResourceStateExists) s \<and> held_as_asked r0 s"

abbreviation A' where "A' A \<equiv> beside api_of with_api A"

lemma fetch_ok:
  assumes "keeps_objects A stored" and "live stored r0 P s"
  shows "\<exists>r. fetch_object (A' A) (rs_namespace r0) (rs_name r0) s = (Inr (), s\<lparr>robj := r\<rparr>) \<and> stored (api_of (server (base s))) (object_key r0) = Some r
             \<and> working stored r0 P (s\<lparr>robj := r\<rparr>)"
  using assms api_same [of "server (base s)"]
  by (auto simp: live_def in_hand_def fetch_object_def and_then_def observe_def on_server_def beside_def set_obj_def
      keeps_objects_def object_key_def alike_def)

lemma client_ok:
  assumes "connects L K r0 cfg" and "in_hand stored r0 s"
  shows "client_for L K A kd s = (Inr cfg, s)"
  using cluster_of_alike [OF _ assms(1), of nf "robj s"] assms(2)
  by (simp add: client_for_def and_then_def get_obj_def on_error_def in_hand_def)

lemma update_resource_ok:
  assumes "keeps_objects A stored" and "stored (api_of (server (base s))) (object_key (robj s)) = Some old"
  shows "\<exists>s' z'. update_resource (A' A) s = (Inr (), s') \<and> robj s' = as_updated old (robj s)
     \<and> server (base s') = with_api z' (server (base s)) \<and> rlog s' = rlog s @ [Wrote (robj s)]
     \<and> stored z' = (stored (api_of (server (base s))))(object_key (robj s) :=
          (if rs_deleted old \<and> rs_finalizers (robj s) = [] then None else Some (as_updated old (robj s))))"
proof -
  obtain z' where z': "ra_update A (robj s) (api_of (server (base s))) = (Inr (as_updated old (robj s)), z')"
    "stored z' = (stored (api_of (server (base s))))(object_key (robj s) :=
          (if rs_deleted old \<and> rs_finalizers (robj s) = [] then None else Some (as_updated old (robj s))))"
    using assms unfolding keeps_objects_def by blast
  show ?thesis
    by (rule exI [where x = "snd (update_resource (A' A) s)"], rule exI [where x = z'])
      (use z' in \<open>simp add: update_resource_def write_with_def on_server_def note_call_def beside_def\<close>)
qed

lemma update_status_ok:
  assumes "keeps_objects A stored" and "stored (api_of (server (base s))) (object_key (robj s)) = Some old"
  shows "\<exists>s' z'. update_resource_status (A' A) s = (Inr (), s') \<and> robj s' = with_status old (robj s)
     \<and> server (base s') = with_api z' (server (base s)) \<and> rlog s' = rlog s @ [Wrote_status (robj s)]
     \<and> stored z' = (stored (api_of (server (base s))))(object_key (robj s) \<mapsto> with_status old (robj s))"
proof -
  obtain z' where z': "ra_update_status A (robj s) (api_of (server (base s))) = (Inr (with_status old (robj s)), z')"
    "stored z' = (stored (api_of (server (base s))))(object_key (robj s) \<mapsto> with_status old (robj s))"
    using assms unfolding keeps_objects_def by blast
  show ?thesis
    by (rule exI [where x = "snd (update_resource_status (A' A) s)"], rule exI [where x = z'])
      (use z' in \<open>simp add: update_resource_status_def write_with_def on_server_def note_call_def beside_def\<close>)
qed

text \<open>Facts of a state with the resource in hand.\<close>

lemma workingE:
  assumes "working stored r0 P s"
  obtains r where "stored (api_of (server (base s))) (object_key r0) = Some r" "alike nf r0 r" "\<not> rs_deleted r" "P r"
    "fits r0 (server (base s))" "rs_state r = rs_state (robj s)" "rs_finalizers r = rs_finalizers (robj s)"
    "\<not> rs_deleted (robj s)" "alike nf r0 (robj s)" "object_key (robj s) = object_key r0"
  using assms by (auto simp: live_def in_hand_def alike_def)

lemma workingI:
  assumes "stored (api_of (server (base s))) (object_key r0) = Some r" "alike nf r0 r" "\<not> rs_deleted r" "P r"
    "fits r0 (server (base s))" "rs_state r = rs_state (robj s)" "rs_finalizers r = rs_finalizers (robj s)"
    "\<not> rs_deleted (robj s)" "alike nf r0 (robj s)"
  shows "working stored r0 P s"
  using assms by (auto simp: live_def in_hand_def)

lemma add_finalizer_ok:
  assumes "keeps_objects A stored" and work: "working stored r0 (\<lambda>_. True) s"
  shows "\<exists>s'. add_finalizer (A' A) kd s = (Inr (HumioFinalizer \<notin> set (rs_finalizers (robj s))), s')
     \<and> working stored r0 (\<lambda>r. HumioFinalizer \<in> set (rs_finalizers r)) s'
     \<and> held r0 (server (base s')) = held r0 (server (base s))"
proof (cases "HumioFinalizer \<in> set (rs_finalizers (robj s))")
  case True
  from work obtain r where r: "stored (api_of (server (base s))) (object_key r0) = Some r" "alike nf r0 r" "\<not> rs_deleted r"
    "fits r0 (server (base s))" "rs_state r = rs_state (robj s)" "rs_finalizers r = rs_finalizers (robj s)"
    "\<not> rs_deleted (robj s)" "alike nf r0 (robj s)" by (rule workingE)
  have "add_finalizer (A' A) kd s = (Inr False, s)"
    using True by (simp add: add_finalizer_def and_then_def get_obj_def ret_def ContainsElement_def)
  moreover have "working stored r0 (\<lambda>r. HumioFinalizer \<in> set (rs_finalizers r)) s"
    using r True by (auto simp: live_def in_hand_def)
  ultimately show ?thesis using True by simp
next
  case False
  let ?s = "s\<lparr>robj := (robj s)\<lparr>rs_finalizers := rs_finalizers (robj s) @ [HumioFinalizer]\<rparr>\<rparr>"
  from work obtain old where old: "stored (api_of (server (base s))) (object_key r0) = Some old" "alike nf r0 old" "\<not> rs_deleted old"
    "fits r0 (server (base s))" "rs_state old = rs_state (robj s)" "\<not> rs_deleted (robj s)" "alike nf r0 (robj s)"
    "object_key (robj s) = object_key r0" by (rule workingE)
  have key: "object_key (robj ?s) = object_key r0" using old(8) by (simp add: object_key_def)
  obtain s' z' where s': "update_resource (A' A) ?s = (Inr (), s')" "robj s' = as_updated old (robj ?s)"
    "server (base s') = with_api z' (server (base s))"
    "stored z' = (stored (api_of (server (base s))))(object_key r0 \<mapsto> as_updated old (robj ?s))"
    using update_resource_ok [OF assms(1), of ?s old] old(1,3) key by auto
  have "add_finalizer (A' A) kd s = (Inr True, s')"
    using False s'(1)
    by (simp add: add_finalizer_def and_then_def get_obj_def set_obj_def ret_def ContainsElement_def as_result_def
        log_error_def on_error_def split: option.split)
  moreover have "working stored r0 (\<lambda>r. HumioFinalizer \<in> set (rs_finalizers r)) s'"
    by (rule workingI [where r = "as_updated old (robj ?s)"])
      (use old s' in \<open>simp_all add: api_put fits_put\<close>, simp_all add: as_updated_def)
  ultimately show ?thesis using False s'(3) by (simp add: held_put)
qed

abbreviation final :: "'spec resource \<Rightarrow> bool" where
  "final r \<equiv> HumioFinalizer \<in> set (rs_finalizers r)"

lemma look_up_present:
  assumes "held r0 (server (base s)) = Some e" and "alike nf r0 (robj s)"
  shows "look_up E cfg s = (Inr e, note_call (Looked_up None) s)"
  using get_present [of "robj s" "server (base s)" e cfg] held_alike [OF assms(2)] assms(1)
  by (simp add: look_up_def on_server_def)

lemma look_up_absent:
  assumes "held r0 (server (base s)) = None" and "alike nf r0 (robj s)"
  shows "\<exists>err. look_up E cfg s = (Inl err, note_call (Looked_up (Some err)) s) \<and> is_entity_not_found err"
  using get_absent [of "robj s" "server (base s)" cfg] held_alike [OF assms(2)] assms(1)
  by (auto simp: look_up_def on_server_def)

lemma working_note [simp]:
  "live stored r0 P (note_call c s) = live stored r0 P s" "in_hand stored r0 (note_call c s) = in_hand stored r0 s"
  "held_as_asked r0 (note_call c s) = held_as_asked r0 s"
  by (simp_all add: live_def in_hand_def held_as_asked_def)

lemma set_state_ok:
  assumes "keeps_objects A stored" and work: "working stored r0 final s"
  shows "\<exists>s'. set_state (A' A) state s = (Inr (), s')
     \<and> working stored r0 (\<lambda>r. final r \<and> rs_state r = state) s'
     \<and> held r0 (server (base s')) = held r0 (server (base s)) \<and> (rs_state (robj s) = state \<longrightarrow> s' = s)"
proof (cases "rs_state (robj s) = state")
  case True
  then show ?thesis using work by (auto simp: set_state_def and_then_def get_obj_def ret_def live_def in_hand_def)
next
  case False
  let ?s = "s\<lparr>robj := (robj s)\<lparr>rs_state := state\<rparr>\<rparr>"
  from work obtain old where old: "stored (api_of (server (base s))) (object_key r0) = Some old" "alike nf r0 old" "\<not> rs_deleted old"
    "final old" "fits r0 (server (base s))" "rs_state old = rs_state (robj s)" "rs_finalizers old = rs_finalizers (robj s)"
    "\<not> rs_deleted (robj s)" "alike nf r0 (robj s)" "object_key (robj s) = object_key r0" by (rule workingE)
  have key: "object_key (robj ?s) = object_key r0" using old(10) by (simp add: object_key_def)
  obtain s' z' where s': "update_resource_status (A' A) ?s = (Inr (), s')" "robj s' = with_status old (robj ?s)"
    "server (base s') = with_api z' (server (base s))"
    "stored z' = (stored (api_of (server (base s))))(object_key r0 \<mapsto> with_status old (robj ?s))"
    using update_status_ok [OF assms(1), of ?s old] old(1) key by auto
  have like: "alike nf r0 (with_status old (robj ?s))" using old(2) by (simp add: alike_def object_key_def with_status_def)
  have "set_state (A' A) state s = (Inr (), s')"
    using False s'(1) by (simp add: set_state_def and_then_def get_obj_def set_obj_def)
  moreover have "working stored r0 (\<lambda>r. final r \<and> rs_state r = state) s'"
    by (rule workingI [where r = "with_status old (robj ?s)"])
      (use old s' like in \<open>simp_all add: api_put fits_put\<close>, simp_all add: with_status_def)
  ultimately show ?thesis using False s'(3) by (simp add: held_put)
qed

lemma record_state_ok:
  assumes "keeps_objects A stored" and work: "working stored r0 final s"
  shows "\<exists>s'. record_state (A' A) E kd cfg s = (Inr (), s') \<and> live stored r0 final s'
     \<and> held r0 (server (base s')) = held r0 (server (base s))
     \<and> (held r0 (server (base s)) \<noteq> None \<longrightarrow> live stored r0 (\<lambda>r. final r \<and> rs_state r = ResourceStateExists) s')"
proof -
  have like: "alike nf r0 (robj s)" using work by (simp add: in_hand_def)
  have set: "\<exists>s'. set_state (A' A) state (note_call c s) = (Inr (), s')
     \<and> working stored r0 (\<lambda>r. final r \<and> rs_state r = state) s' \<and> held r0 (server (base s')) = held r0 (server (base s))" for state c
    using set_state_ok [OF assms(1), of r0 "note_call c s" state] work by auto
  have weak: "live stored r0 final s'" if "working stored r0 (\<lambda>r. final r \<and> rs_state r = state) s'" for s' state
    using that by (auto simp: live_def)
  show ?thesis
  proof (cases "held r0 (server (base s))")
    case None
    obtain err where err: "look_up E cfg s = (Inl err, note_call (Looked_up (Some err)) s)" "is_entity_not_found err"
      using look_up_absent [OF None like] by blast
    then show ?thesis
      using set [of ResourceStateNotFound "Looked_up (Some err)"] None
      by (auto simp: record_state_def and_then_def observe_def ignoring_def intro: weak)
  next
    case (Some e)
    then show ?thesis
      using set [of ResourceStateExists "Looked_up None"] look_up_present [OF Some like]
      by (auto simp: record_state_def and_then_def observe_def ignoring_def intro: weak)
  qed
qed

text \<open>After a look and at most one write LogScale holds what the resource asks for.\<close>

lemma create_or_update_ok:
  assumes work: "working stored r0 final s" and valid: "\<And>t. validate t = (Inr (), t)"
  shows "\<exists>x s'. create_or_update E kd cfg validate s = (x, s') \<and> (x = Inl (requeue_now, None) \<or> x = Inr ())
     \<and> working stored r0 final s' \<and> held_as_asked r0 s'"
proof -
  from work have like: "alike nf r0 (robj s)" and fit: "fits (robj s) (server (base s))"
    by (auto simp: in_hand_def live_def fits_alike)
  have frame: "working stored r0 final s'"
    if "robj s' = robj s" "api_of (server (base s')) = api_of (server (base s))" "fits (robj s) (server (base s'))" for s'
    using work that fits_alike [OF like] by (simp add: live_def in_hand_def)
  have asked: "held_as_asked r0 s'"
    if "held (robj s) (server (base s')) = Some e" "fst (kd_compare kd (robj s) e)" for s' e
    using that held_alike [OF like] verdict_alike [OF like] by (simp add: held_as_asked_def)
  show ?thesis
  proof (cases "held r0 (server (base s))")
    case None
    obtain err where err: "look_up E cfg s = (Inl err, note_call (Looked_up (Some err)) s)" "is_entity_not_found err"
      using look_up_absent [OF None like] by blast
    obtain w' e where add: "ea_add E cfg (robj s) (server (base s)) = (Inr (), w')" "held (robj s) w' = Some e"
      "fst (kd_compare kd (robj s) e)" "fits (robj s) w'" "api_of w' = api_of (server (base s))"
      using add_ok [of "robj s" "server (base s)" cfg] None held_alike [OF like] fit by auto
    define s' where "s' = snd (add_entity E cfg (note_call (Looked_up (Some err)) s))"
    have s': "add_entity E cfg (note_call (Looked_up (Some err)) s) = (Inr (), s')" "robj s' = robj s" "server (base s') = w'"
      using add(1) by (simp_all add: s'_def add_entity_def call_entity_def on_server_def)
    have "create_or_update E kd cfg validate s = (Inl (requeue_now, None), s')"
      using err s'(1) by (simp add: create_or_update_def and_then_def observe_def as_result_def log_error_def on_error_def exit_with_def)
    then show ?thesis using frame [of s'] asked [of s' e] add s' by simp
  next
    case (Some e)
    obtain spec where spec: "snd (kd_compare kd (robj s) e) = (robj s)\<lparr>rs_spec := spec\<rparr>" "nf spec = nf (rs_spec (robj s))"
      using compare_sorts by blast
    define t where "t = (note_call (Looked_up None) s)\<lparr>robj := (robj s)\<lparr>rs_spec := spec\<rparr>\<rparr>"
    have like_t: "alike nf r0 (robj t)" and like_s: "alike nf (robj s) (robj t)"
      using like spec(2) by (simp_all add: t_def alike_def object_key_def)
    have work_t: "working stored r0 final t"
      using work like_t by (auto simp: t_def live_def in_hand_def)
    have run: "create_or_update E kd cfg validate s =
        (if fst (kd_compare kd (robj s) e) then (Inr (), t)
         else as_result (log_error (kd_update_error kd) (update_entity E cfg)) t)"
      using spec(1) look_up_present [OF Some like]
      by (simp add: create_or_update_def and_then_def observe_def valid compare_with_def get_obj_def set_obj_def ret_def t_def)
    show ?thesis
    proof (cases "fst (kd_compare kd (robj s) e)")
      case True
      then show ?thesis using run work_t asked [of t e] Some held_alike [OF like] by (simp add: t_def)
    next
      case False
      have held_t: "held (robj t) (server (base t)) = Some e"
        using Some held_alike [OF like_t, of "server (base s)"] by (simp add: t_def)
      have fit_t: "fits (robj t) (server (base t))"
        using work_t fits_alike [OF like_t] by (simp add: live_def)
      obtain w' e' where upd: "ea_update E cfg (robj t) (server (base t)) = (Inr (), w')" "held (robj t) w' = Some e'"
        "fst (kd_compare kd (robj t) e')" "fits (robj t) w'" "api_of w' = api_of (server (base t))"
        using update_ok [OF held_t fit_t, of cfg] by blast
      define s' where "s' = snd (update_entity E cfg t)"
      have s': "update_entity E cfg t = (Inr (), s')" "robj s' = robj t" "server (base s') = w'"
        using upd(1) by (simp_all add: s'_def update_entity_def call_entity_def on_server_def)
      have "create_or_update E kd cfg validate s = (Inr (), s')"
        using False run s'(1) by (simp add: as_result_def log_error_def on_error_def)
      moreover have "working stored r0 final s'"
        using work_t s' upd(4,5) fits_alike [OF like_t] by (simp add: live_def in_hand_def)
      moreover have "held_as_asked r0 s'"
        using s' upd(2,3) held_alike [OF like_t] verdict_alike [OF like_t] by (simp add: held_as_asked_def)
      ultimately show ?thesis by simp
    qed
  qed
qed

lemma body_ok:
  assumes "working stored r0 final s" and "\<And>t. validate t = (Inr (), t)" and "\<And>t. finish t = (Inr (), t)"
  shows "\<exists>x s'. and_then (create_or_update E kd cfg validate) (\<lambda>_. and_then finish (\<lambda>_. ret (requeue_in period, None))) s = (x, s')
     \<and> (x = Inl (requeue_now, None) \<or> x = Inr (requeue_in period, None)) \<and> working stored r0 final s' \<and> held_as_asked r0 s'"
proof -
  obtain x s' where "create_or_update E kd cfg validate s = (x, s')" "x = Inl (requeue_now, None) \<or> x = Inr ()"
    "working stored r0 final s'" "held_as_asked r0 s'"
    using create_or_update_ok [of stored r0 s validate cfg] assms(1,2) by blast
  then show ?thesis by (auto simp: and_then_def assms(3) ret_def)
qed

lemma recorded_after:
  assumes "keeps_objects A stored" and "m s = (x, s')" and "working stored r0 final s'" and "held_as_asked r0 s'"
  shows "\<exists>s''. deferred (record_state (A' A) E kd cfg) m s = (x, s'') \<and> settled stored r0 s''"
proof -
  obtain s'' where "record_state (A' A) E kd cfg s' = (Inr (), s'')" "held r0 (server (base s'')) = held r0 (server (base s'))"
    "live stored r0 (\<lambda>r. final r \<and> rs_state r = ResourceStateExists) s''"
    using record_state_ok [OF assms(1,3), of cfg] assms(4) by (auto simp: held_as_asked_def)
  then show ?thesis using assms(2,4) by (simp add: deferred_def settled_def held_as_asked_def)
qed

text \<open>A run up to the client, on a stored resource that is not being deleted.\<close>

abbreviation begin_run where
  "begin_run L K A only r0 f s \<equiv>
     returned (and_then (watched only (rs_namespace r0)) (\<lambda>_. and_then (fetch_object (A' A) (rs_namespace r0) (rs_name r0)) (\<lambda>_.
       and_then (client_for L K (A' A) kd) f))) s"

lemma begin_run_ok:
  assumes "keeps_objects A stored" and "connects L K r0 cfg" and "only = [] \<or> only = rs_namespace r0" and "live stored r0 P s"
  shows "\<exists>r. begin_run L K A only r0 f s = returned (f cfg) (s\<lparr>robj := r\<rparr>) \<and> working stored r0 P (s\<lparr>robj := r\<rparr>)
             \<and> stored (api_of (server (base s))) (object_key r0) = Some r"
proof -
  obtain r where r: "fetch_object (A' A) (rs_namespace r0) (rs_name r0) s = (Inr (), s\<lparr>robj := r\<rparr>)"
    "stored (api_of (server (base s))) (object_key r0) = Some r" "working stored r0 P (s\<lparr>robj := r\<rparr>)"
    using fetch_ok [OF assms(1,4)] by blast
  have "client_for L K (A' A) kd (s\<lparr>robj := r\<rparr>) = (Inr cfg, s\<lparr>robj := r\<rparr>)"
    using client_ok [OF assms(2)] r(3) by blast
  then show ?thesis
    using r assms(3) by (auto simp: returned_def and_then_def watched_def ret_def)
qed

lemma handle_deletion_live:
  "working stored r0 P s \<Longrightarrow> handle_deletion B E kd cfg del s = (Inr (), s)"
  by (erule workingE) (simp add: handle_deletion_skipped)

lemma and_then_run: "m s = (Inr a, s') \<Longrightarrow> f a s' = y \<Longrightarrow> and_then m f s = y"
  by (simp add: and_then_def)

lemma ret_run: "ret a t = (Inr a, t)"
  by (simp add: ret_def)

lemma and_then_ret: "and_then (ret a) f = f a"
  by (rule ext) (simp add: and_then_def ret_def)

lemma deferred_run: "m s = (x, s1) \<Longrightarrow> d s1 = (y, s2) \<Longrightarrow> deferred d m s = (x, s2)"
  by (simp add: deferred_def)

lemma returned_run: "m s = (x, s') \<Longrightarrow> returned m s = (case x of Inl y \<Rightarrow> y | Inr y \<Rightarrow> y, s')"
  by (simp add: returned_def split: sum.split)

text \<open>The run of a parser and its like.\<close>

lemma eager_settles:
  assumes "keeps_objects A stored" and "connects L K r0 cfg" and "only = [] \<or> only = rs_namespace r0"
    and "live stored r0 (\<lambda>_. True) s" and "\<And>t. finish cfg t = (Inr (), t)"
  shows "\<exists>x s'. reconcile_eager L K (A' A) E kd del finish period only (rs_namespace r0) (rs_name r0) s = (x, s')
     \<and> (x = (requeue_now, None) \<or> x = (requeue_in period, None)) \<and> settled stored r0 s'"
proof -
  let ?body = "and_then (create_or_update E kd cfg (ret ())) (\<lambda>_. and_then (finish cfg) (\<lambda>_. ret (requeue_in period, None :: go_error option)))"
  let ?f = "\<lambda>cfg. and_then (handle_deletion (A' A) E kd cfg (del cfg)) (\<lambda>_. and_then (add_finalizer (A' A) kd) (\<lambda>_.
      deferred (record_state (A' A) E kd cfg)
        (and_then (create_or_update E kd cfg (ret ())) (\<lambda>_. and_then (finish cfg) (\<lambda>_. ret (requeue_in period, None))))))"
  obtain r where run: "begin_run L K A only r0 ?f s = returned (?f cfg) (s\<lparr>robj := r\<rparr>)"
    and work: "working stored r0 (\<lambda>_. True) (s\<lparr>robj := r\<rparr>)"
    using begin_run_ok [OF assms(1-4)] by blast
  obtain s1 where fin: "add_finalizer (A' A) kd (s\<lparr>robj := r\<rparr>) = (Inr (HumioFinalizer \<notin> set (rs_finalizers r)), s1)"
    and work1: "working stored r0 final s1"
    using add_finalizer_ok [OF assms(1) work] by auto
  obtain x s2 where body: "?body s1 = (x, s2)" "x = Inl (requeue_now, None) \<or> x = Inr (requeue_in period, None)"
    and work2: "working stored r0 final s2" "held_as_asked r0 s2"
    using body_ok [OF work1, of "ret ()" "finish cfg" cfg period] assms(5) by (auto simp: ret_def)
  obtain s3 where rec: "deferred (record_state (A' A) E kd cfg) ?body s1 = (x, s3)" and ok: "settled stored r0 s3"
    using recorded_after [where m = ?body and s = s1, OF assms(1) body(1) work2] by blast
  have "?f cfg (s\<lparr>robj := r\<rparr>) = (x, s3)"
    by (rule and_then_run, rule handle_deletion_live [OF work], rule and_then_run, rule fin, rule rec)
  then have "returned (?f cfg) (s\<lparr>robj := r\<rparr>) = (case x of Inl y \<Rightarrow> y | Inr y \<Rightarrow> y, s3)"
    by (rule returned_run)
  then show ?thesis
    unfolding reconcile_eager_def run using ok body(2) by auto
qed

text \<open>The run of a view: a first run may only add the finalizer, and asks to be called again.\<close>

lemma stepwise_settles:
  assumes "keeps_objects A stored" and "connects L K r0 cfg" and "only = [] \<or> only = rs_namespace r0"
    and "live stored r0 (\<lambda>_. True) s"
  shows "\<exists>x s'. reconcile_stepwise L K (A' A) E kd period only (rs_namespace r0) (rs_name r0) s = (x, s')
     \<and> (x = (requeue_now, None) \<and> live stored r0 final s'
        \<or> (x = (requeue_now, None) \<or> x = (requeue_in period, None)) \<and> settled stored r0 s')
     \<and> (live stored r0 final s \<longrightarrow> settled stored r0 s')"
proof -
  let ?body = "and_then (create_or_update E kd cfg (ret ())) (\<lambda>_. ret (requeue_in period, None :: go_error option))"
  let ?f = "\<lambda>cfg. and_then (handle_deletion (A' A) E kd cfg (delete_entity E cfg)) (\<lambda>_. and_then (add_finalizer (A' A) kd) (\<lambda>added.
      if added then exit_with (requeue_now, None) else
      deferred (record_state (A' A) E kd cfg)
        (and_then (create_or_update E kd cfg (ret ())) (\<lambda>_. ret (requeue_in period, None)))))"
  obtain r where run: "begin_run L K A only r0 ?f s = returned (?f cfg) (s\<lparr>robj := r\<rparr>)"
    and work: "working stored r0 (\<lambda>_. True) (s\<lparr>robj := r\<rparr>)" and r: "stored (api_of (server (base s))) (object_key r0) = Some r"
    using begin_run_ok [OF assms(1-4)] by blast
  obtain s1 where fin: "add_finalizer (A' A) kd (s\<lparr>robj := r\<rparr>) = (Inr (HumioFinalizer \<notin> set (rs_finalizers r)), s1)"
    and work1: "working stored r0 final s1"
    using add_finalizer_ok [OF assms(1) work] by auto
  have first: "live stored r0 final s \<longleftrightarrow> HumioFinalizer \<in> set (rs_finalizers r)"
    using r work by (auto simp: live_def)
  obtain x s2 where body: "?body s1 = (x, s2)" "x = Inl (requeue_now, None) \<or> x = Inr (requeue_in period, None)"
    and work2: "working stored r0 final s2" "held_as_asked r0 s2"
    using body_ok [OF work1 ret_run ret_run, of cfg period] unfolding and_then_ret by blast
  obtain s3 where rec: "deferred (record_state (A' A) E kd cfg) ?body s1 = (x, s3)" and ok: "settled stored r0 s3"
    using recorded_after [where m = ?body and s = s1, OF assms(1) body(1) work2] by blast
  have "?f cfg (s\<lparr>robj := r\<rparr>) =
      (if HumioFinalizer \<notin> set (rs_finalizers r) then (Inl (requeue_now, None), s1) else (x, s3))"
    by (rule and_then_run, rule handle_deletion_live [OF work], rule and_then_run, rule fin)
      (auto simp: exit_with_def rec)
  then show ?thesis
    unfolding reconcile_stepwise_def run using ok body(2) first work1
    by (cases "HumioFinalizer \<in> set (rs_finalizers r)") (auto dest: returned_run)
qed

text \<open>The run of an alert: the state is recorded in any case.\<close>

lemma recorded_settles:
  assumes "keeps_objects A stored" and "connects L K r0 cfg" and "only = [] \<or> only = rs_namespace r0"
    and "live stored r0 (\<lambda>_. True) s"
    and check: "\<And>t. alike nf r0 (robj t) \<Longrightarrow> check t = (Inr (), t)" and valid: "\<And>t. validate cfg t = (Inr (), t)"
  shows "\<exists>x s'. reconcile_recorded L K (A' A) E kd check validate period only (rs_namespace r0) (rs_name r0) s = (x, s')
     \<and> (x = (requeue_now, None) \<and> live stored r0 final s'
        \<or> (x = (requeue_now, None) \<or> x = (requeue_in period, None)) \<and> settled stored r0 s')
     \<and> (live stored r0 final s \<longrightarrow> settled stored r0 s')"
proof -
  let ?body = "and_then (create_or_update E kd cfg (validate cfg)) (\<lambda>_. ret (requeue_in period, None :: go_error option))"
  let ?m = "\<lambda>cfg. and_then (handle_deletion (A' A) E kd cfg (delete_entity E cfg)) (\<lambda>_. and_then (add_finalizer (A' A) kd) (\<lambda>added.
      if added then exit_with (requeue_now, None) else and_then check (\<lambda>_.
      and_then (create_or_update E kd cfg (validate cfg)) (\<lambda>_. ret (requeue_in period, None)))))"
  let ?f = "\<lambda>cfg. deferred (record_state (A' A) E kd cfg) (?m cfg)"
  obtain r where run: "begin_run L K A only r0 ?f s = returned (?f cfg) (s\<lparr>robj := r\<rparr>)"
    and work: "working stored r0 (\<lambda>_. True) (s\<lparr>robj := r\<rparr>)" and r: "stored (api_of (server (base s))) (object_key r0) = Some r"
    using begin_run_ok [OF assms(1-4)] by blast
  obtain s1 where fin: "add_finalizer (A' A) kd (s\<lparr>robj := r\<rparr>) = (Inr (HumioFinalizer \<notin> set (rs_finalizers r)), s1)"
    and work1: "working stored r0 final s1"
    using add_finalizer_ok [OF assms(1) work] by auto
  have first: "live stored r0 final s \<longleftrightarrow> HumioFinalizer \<in> set (rs_finalizers r)"
    using r work by (auto simp: live_def)
  show ?thesis
  proof (cases "HumioFinalizer \<in> set (rs_finalizers r)")
    case False
    obtain s2 where "record_state (A' A) E kd cfg s1 = (Inr (), s2)" "live stored r0 final s2"
      using record_state_ok [OF assms(1) work1, of cfg] by blast
    moreover have "?m cfg (s\<lparr>robj := r\<rparr>) = (Inl (requeue_now, None), s1)"
      by (rule and_then_run, rule handle_deletion_live [OF work], rule and_then_run, rule fin)
        (simp add: exit_with_def False)
    ultimately have "?f cfg (s\<lparr>robj := r\<rparr>) = (Inl (requeue_now, None), s2)" by (blast intro: deferred_run)
    then show ?thesis
      unfolding reconcile_recorded_def run using first False \<open>live stored r0 final s2\<close> by (auto dest: returned_run)
  next
    case True
    have "alike nf r0 (robj s1)" using work1 by (simp add: in_hand_def)
    obtain x s2 where body: "?body s1 = (x, s2)" "x = Inl (requeue_now, None) \<or> x = Inr (requeue_in period, None)"
      and work2: "working stored r0 final s2" "held_as_asked r0 s2"
      using body_ok [OF work1 valid ret_run, of cfg period] unfolding and_then_ret by blast
    have "?m cfg (s\<lparr>robj := r\<rparr>) = (x, s2)"
      by (rule and_then_run, rule handle_deletion_live [OF work], rule and_then_run, rule fin)
        (use True in simp, rule and_then_run, rule check [OF \<open>alike nf r0 (robj s1)\<close>], rule body(1))
    then obtain s3 where "?f cfg (s\<lparr>robj := r\<rparr>) = (x, s3)" "settled stored r0 s3"
      using recorded_after [where m = "?m cfg" and s = "s\<lparr>robj := r\<rparr>", OF assms(1) _ work2, of x cfg] by blast
    then show ?thesis
      unfolding reconcile_recorded_def run using body(2) by (auto dest: returned_run)
  qed
qed

text \<open>A run on a settled resource looks twice and changes nothing.\<close>

lemma settledE:
  assumes "settled stored r0 s"
  obtains r e where "stored (api_of (server (base s))) (object_key r0) = Some r" "alike nf r0 r" "\<not> rs_deleted r" "final r"
    "rs_state r = ResourceStateExists" "held r0 (server (base s)) = Some e" "fst (kd_compare kd r0 e)"
    "live stored r0 (\<lambda>r. final r \<and> rs_state r = ResourceStateExists) s"
  using assms by (auto simp: settled_def live_def held_as_asked_def)

lemma idle_create_or_update:
  assumes "alike nf r0 (robj s)" and "held_as_asked r0 s" and "\<And>t. validate t = (Inr (), t)"
  shows "\<exists>t. create_or_update E kd cfg validate s = (Inr (), t) \<and> base t = base s \<and> rlog t = rlog s @ [Looked_up None]
     \<and> alike nf r0 (robj t) \<and> rs_state (robj t) = rs_state (robj s)"
proof -
  obtain e where e: "held r0 (server (base s)) = Some e" "fst (kd_compare kd r0 e)"
    using assms(2) by (auto simp: held_as_asked_def)
  obtain spec where spec: "snd (kd_compare kd (robj s) e) = (robj s)\<lparr>rs_spec := spec\<rparr>" "nf spec = nf (rs_spec (robj s))"
    using compare_sorts by blast
  have "create_or_update E kd cfg validate s = (Inr (), (note_call (Looked_up None) s)\<lparr>robj := (robj s)\<lparr>rs_spec := spec\<rparr>\<rparr>)"
    using e spec(1) look_up_present [OF e(1) assms(1)] verdict_alike [OF assms(1)]
    by (simp add: create_or_update_def and_then_def observe_def assms(3) compare_with_def get_obj_def set_obj_def ret_def)
  then show ?thesis using assms(1) spec(2) by (auto simp: alike_def object_key_def)
qed

lemma idle_record:
  assumes "m s = (x, t)" and "alike nf r0 (robj t)" and "rs_state (robj t) = ResourceStateExists" and "held_as_asked r0 t"
  shows "deferred (record_state (A' A) E kd cfg) m s = (x, note_call (Looked_up None) t)"
proof -
  obtain e where "held r0 (server (base t)) = Some e" using assms(4) by (auto simp: held_as_asked_def)
  then have "record_state (A' A) E kd cfg t = (Inr (), note_call (Looked_up None) t)"
    using look_up_present [OF _ assms(2)] assms(3)
    by (simp add: record_state_def and_then_def observe_def ignoring_def set_state_def get_obj_def ret_def)
  then show ?thesis using assms(1) by (rule deferred_run [rotated])
qed

lemma idle_finalizer: "final (robj s) \<Longrightarrow> add_finalizer B kd s = (Inr False, s)"
  by (simp add: add_finalizer_def and_then_def get_obj_def ret_def ContainsElement_def)

lemma idle_begin:
  assumes "keeps_objects A stored" and "connects L K r0 cfg" and "only = [] \<or> only = rs_namespace r0" and "settled stored r0 s"
  shows "\<exists>r. begin_run L K A only r0 f s = returned (f cfg) (s\<lparr>robj := r\<rparr>) \<and> alike nf r0 r \<and> \<not> rs_deleted r \<and> final r
     \<and> rs_state r = ResourceStateExists"
  using assms(4) by (rule settledE) (use begin_run_ok [OF assms(1-3)] in fastforce)

definition idle_run :: "duration \<Rightarrow> (('w, 'spec) rst \<Rightarrow> handler_result \<times> ('w, 'spec) rst) \<Rightarrow> ('w, 'spec) rst \<Rightarrow> bool" where
  "idle_run period m s \<longleftrightarrow>
     fst (m s) = (requeue_in period, None) \<and> base (snd (m s)) = base s \<and> rlog (snd (m s)) = rlog s @ [Looked_up None, Looked_up None]"

lemma settled_base: "base s' = base s \<Longrightarrow> settled stored r0 s' = settled stored r0 s"
  by (simp add: settled_def live_def held_as_asked_def)

lemma idle_body:
  assumes "alike nf r0 (robj s)" and "rs_state (robj s) = ResourceStateExists" and "settled stored r0 s"
    and "\<And>t. validate t = (Inr (), t)" and "\<And>t. finish t = (Inr (), t)"
  shows "\<exists>t. and_then (create_or_update E kd cfg validate) (\<lambda>_. and_then finish (\<lambda>_. ret (requeue_in period, None))) s
       = (Inr (requeue_in period, None), t) \<and> base t = base s \<and> rlog t = rlog s @ [Looked_up None]
     \<and> alike nf r0 (robj t) \<and> rs_state (robj t) = ResourceStateExists \<and> held_as_asked r0 t"
proof -
  have "held_as_asked r0 s" using assms(3) by (simp add: settled_def)
  then obtain t where "create_or_update E kd cfg validate s = (Inr (), t)" "base t = base s" "rlog t = rlog s @ [Looked_up None]"
     "alike nf r0 (robj t)" "rs_state (robj t) = rs_state (robj s)"
    using idle_create_or_update [OF assms(1) _ assms(4), of cfg] by blast
  then show ?thesis
    using assms(2) \<open>held_as_asked r0 s\<close> by (auto simp: and_then_def assms(5) ret_def held_as_asked_def)
qed

lemma eager_idle:
  assumes "keeps_objects A stored" and "connects L K r0 cfg" and "only = [] \<or> only = rs_namespace r0" and "settled stored r0 s"
    and "\<And>t. finish cfg t = (Inr (), t)"
  shows "idle_run period (reconcile_eager L K (A' A) E kd del finish period only (rs_namespace r0) (rs_name r0)) s"
proof -
  let ?body = "and_then (create_or_update E kd cfg (ret ())) (\<lambda>_. and_then (finish cfg) (\<lambda>_. ret (requeue_in period, None :: go_error option)))"
  let ?f = "\<lambda>cfg. and_then (handle_deletion (A' A) E kd cfg (del cfg)) (\<lambda>_. and_then (add_finalizer (A' A) kd) (\<lambda>_.
      deferred (record_state (A' A) E kd cfg)
        (and_then (create_or_update E kd cfg (ret ())) (\<lambda>_. and_then (finish cfg) (\<lambda>_. ret (requeue_in period, None :: go_error option))))))"
  obtain r where run: "begin_run L K A only r0 ?f s = returned (?f cfg) (s\<lparr>robj := r\<rparr>)"
    and r: "alike nf r0 r" "\<not> rs_deleted r" "final r" "rs_state r = ResourceStateExists"
    using idle_begin [OF assms(1-4)] by blast
  obtain t where body: "?body (s\<lparr>robj := r\<rparr>) = (Inr (requeue_in period, None), t)" "base t = base s" "rlog t = rlog s @ [Looked_up None]"
    and t: "alike nf r0 (robj t)" "rs_state (robj t) = ResourceStateExists" "held_as_asked r0 t"
    using idle_body [where ?r0.0 = r0 and stored = stored and s = "s\<lparr>robj := r\<rparr>" and cfg = cfg and period = period, OF _ _ _ ret_run assms(5)] r assms(4) settled_base [of "s\<lparr>robj := r\<rparr>" s]
    by auto
  note del = handle_deletion_skipped [where s = "s\<lparr>robj := r\<rparr>", simplified, OF r(2)]
  note fin = idle_finalizer [where s = "s\<lparr>robj := r\<rparr>", simplified, OF r(3)]
  have "?f cfg (s\<lparr>robj := r\<rparr>) = (Inr (requeue_in period, None), note_call (Looked_up None) t)"
    by (rule and_then_run, rule del, rule and_then_run, rule fin, rule idle_record, rule body(1), rule t(1), rule t(2), rule t(3))
  then show ?thesis
    unfolding idle_run_def reconcile_eager_def run using body(2,3) by (auto dest: returned_run)
qed

lemma stepwise_idle:
  assumes "keeps_objects A stored" and "connects L K r0 cfg" and "only = [] \<or> only = rs_namespace r0" and "settled stored r0 s"
  shows "idle_run period (reconcile_stepwise L K (A' A) E kd period only (rs_namespace r0) (rs_name r0)) s"
proof -
  let ?body = "and_then (create_or_update E kd cfg (ret ())) (\<lambda>_. ret (requeue_in period, None :: go_error option))"
  let ?f = "\<lambda>cfg. and_then (handle_deletion (A' A) E kd cfg (delete_entity E cfg)) (\<lambda>_. and_then (add_finalizer (A' A) kd) (\<lambda>added.
      if added then exit_with (requeue_now, None) else
      deferred (record_state (A' A) E kd cfg)
        (and_then (create_or_update E kd cfg (ret ())) (\<lambda>_. ret (requeue_in period, None :: go_error option)))))"
  obtain r where run: "begin_run L K A only r0 ?f s = returned (?f cfg) (s\<lparr>robj := r\<rparr>)"
    and r: "alike nf r0 r" "\<not> rs_deleted r" "final r" "rs_state r = ResourceStateExists"
    using idle_begin [OF assms(1-4)] by blast
  obtain t where body: "?body (s\<lparr>robj := r\<rparr>) = (Inr (requeue_in period, None), t)" "base t = base s" "rlog t = rlog s @ [Looked_up None]"
    and t: "alike nf r0 (robj t)" "rs_state (robj t) = ResourceStateExists" "held_as_asked r0 t"
    using idle_body [where ?r0.0 = r0 and stored = stored and s = "s\<lparr>robj := r\<rparr>" and cfg = cfg and period = period, OF _ _ _ ret_run ret_run]
      r assms(4) settled_base [of "s\<lparr>robj := r\<rparr>" s]
    unfolding and_then_ret by auto
  note del = handle_deletion_skipped [where s = "s\<lparr>robj := r\<rparr>", simplified, OF r(2)]
  note fin = idle_finalizer [where s = "s\<lparr>robj := r\<rparr>", simplified, OF r(3)]
  have "?f cfg (s\<lparr>robj := r\<rparr>) = (Inr (requeue_in period, None), note_call (Looked_up None) t)"
    by (rule and_then_run, rule del, rule and_then_run, rule fin, simp only: if_False, rule idle_record, rule body(1), rule t(1), rule t(2), rule t(3))
  then show ?thesis
    unfolding idle_run_def reconcile_stepwise_def run using body(2,3) by (auto dest: returned_run)
qed

lemma recorded_idle:
  assumes "keeps_objects A stored" and "connects L K r0 cfg" and "only = [] \<or> only = rs_namespace r0" and "settled stored r0 s"
    and check: "\<And>t. alike nf r0 (robj t) \<Longrightarrow> check t = (Inr (), t)" and valid: "\<And>t. validate cfg t = (Inr (), t)"
  shows "idle_run period (reconcile_recorded L K (A' A) E kd check validate period only (rs_namespace r0) (rs_name r0)) s"
proof -
  let ?body = "and_then (create_or_update E kd cfg (validate cfg)) (\<lambda>_. ret (requeue_in period, None :: go_error option))"
  let ?m = "\<lambda>cfg. and_then (handle_deletion (A' A) E kd cfg (delete_entity E cfg)) (\<lambda>_. and_then (add_finalizer (A' A) kd) (\<lambda>added.
      if added then exit_with (requeue_now, None) else and_then check (\<lambda>_.
      and_then (create_or_update E kd cfg (validate cfg)) (\<lambda>_. ret (requeue_in period, None :: go_error option)))))"
  let ?f = "\<lambda>cfg. deferred (record_state (A' A) E kd cfg) (?m cfg)"
  obtain r where run: "begin_run L K A only r0 ?f s = returned (?f cfg) (s\<lparr>robj := r\<rparr>)"
    and r: "alike nf r0 r" "\<not> rs_deleted r" "final r" "rs_state r = ResourceStateExists"
    using idle_begin [OF assms(1-4)] by blast
  obtain t where body: "?body (s\<lparr>robj := r\<rparr>) = (Inr (requeue_in period, None), t)" "base t = base s" "rlog t = rlog s @ [Looked_up None]"
    and t: "alike nf r0 (robj t)" "rs_state (robj t) = ResourceStateExists" "held_as_asked r0 t"
    using idle_body [where ?r0.0 = r0 and stored = stored and s = "s\<lparr>robj := r\<rparr>" and cfg = cfg and period = period, OF _ _ _ valid ret_run]
      r assms(4) settled_base [of "s\<lparr>robj := r\<rparr>" s]
    unfolding and_then_ret by auto
  note del = handle_deletion_skipped [where s = "s\<lparr>robj := r\<rparr>", simplified, OF r(2)]
  note fin = idle_finalizer [where s = "s\<lparr>robj := r\<rparr>", simplified, OF r(3)]
  have "?m cfg (s\<lparr>robj := r\<rparr>) = (Inr (requeue_in period, None), t)"
    by (rule and_then_run, rule del, rule and_then_run, rule fin, simp only: if_False, rule and_then_run, rule check, simp add: r, rule body(1))
  then have "?f cfg (s\<lparr>robj := r\<rparr>) = (Inr (requeue_in period, None), note_call (Looked_up None) t)"
    by (rule idle_record [where m = "?m cfg" and s = "s\<lparr>robj := r\<rparr>", OF _ t])
  then show ?thesis
    unfolding idle_run_def reconcile_recorded_def run using body(2,3) by (auto dest: returned_run)
qed

lemma settled_live: "settled stored r0 s \<Longrightarrow> live stored r0 final s" "live stored r0 final s \<Longrightarrow> live stored r0 (\<lambda>_. True) s"
  by (auto simp: settled_def live_def)

lemma settles_in_two_runs:
  assumes step: "\<And>s. live stored r0 (\<lambda>_. True) s \<Longrightarrow> \<exists>x s'. m s = (x, s')
     \<and> (x = (requeue_now, None) \<and> live stored r0 final s'
        \<or> (x = (requeue_now, None) \<or> x = (requeue_in period, None)) \<and> settled stored r0 s')
     \<and> (live stored r0 final s \<longrightarrow> settled stored r0 s')"
    and idle: "\<And>s. settled stored r0 s \<Longrightarrow> idle_run period m s" and start: "live stored r0 (\<lambda>_. True) s"
  shows "\<exists>x s1 y s2 s3. m s = (x, s1) \<and> snd x = None \<and> m s1 = (y, s2) \<and> snd y = None \<and> settled stored r0 s2
     \<and> m s2 = ((requeue_in period, None), s3) \<and> base s3 = base s2"
proof -
  obtain x s1 where one: "m s = (x, s1)" "snd x = None" "live stored r0 final s1"
    using step [OF start] settled_live(1) by fastforce
  obtain y s2 where two: "m s1 = (y, s2)" "snd y = None" "settled stored r0 s2"
    using step [OF settled_live(2) [OF one(3)]] one(3) by fastforce
  obtain z s3 where "m s2 = (z, s3)" by fastforce
  then show ?thesis using idle [OF two(3)] one two by (cases y) (auto simp: idle_run_def)
qed

text \<open>A resource being deleted: first the entity goes, then the finalizer and with it the object.\<close>

definition doomed :: "('z \<Rightarrow> string \<times> string \<rightharpoonup> 'spec resource) \<Rightarrow> 'spec resource \<Rightarrow> ('w, 'spec) rst \<Rightarrow> bool" where
  "doomed stored r0 s \<longleftrightarrow>
     (\<exists>r. stored (api_of (server (base s))) (object_key r0) = Some r \<and> alike nf r0 r \<and> rs_deleted r \<and> rs_finalizers r = [HumioFinalizer])"

lemma doomed_begin:
  assumes "keeps_objects A stored" and "connects L K r0 cfg" and "only = [] \<or> only = rs_namespace r0" and "doomed stored r0 s"
  shows "\<exists>r. begin_run L K A only r0 f s = returned (f cfg) (s\<lparr>robj := r\<rparr>) \<and> alike nf r0 r \<and> rs_deleted r
     \<and> rs_finalizers r = [HumioFinalizer] \<and> stored (api_of (server (base s))) (object_key r0) = Some r"
proof -
  obtain r where r: "stored (api_of (server (base s))) (object_key r0) = Some r" "alike nf r0 r" "rs_deleted r"
    "rs_finalizers r = [HumioFinalizer]" using assms(4) by (auto simp: doomed_def)
  have fetch: "fetch_object (A' A) (rs_namespace r0) (rs_name r0) s = (Inr (), s\<lparr>robj := r\<rparr>)"
    using assms(1) r(1) api_same [of "server (base s)"]
    by (auto simp: fetch_object_def and_then_def observe_def on_server_def beside_def set_obj_def keeps_objects_def object_key_def)
  have "client_for L K (A' A) kd (s\<lparr>robj := r\<rparr>) = (Inr cfg, s\<lparr>robj := r\<rparr>)"
    using cluster_of_alike [OF r(2) assms(2)] by (simp add: client_for_def and_then_def get_obj_def on_error_def)
  then show ?thesis
    using fetch r assms(3) by (auto simp: returned_def and_then_def watched_def ret_def)
qed

text \<open>The two ways to delete: \<open>finalize\<close>, which looks at the cluster again, and the call itself.\<close>

lemma delete_entity_ok:
  assumes "held r0 (server (base s)) = Some e" and "alike nf r0 (robj s)"
  shows "\<exists>s'. delete_entity E cfg s = (Inr (), s') \<and> robj s' = robj s \<and> held r0 (server (base s')) = None
     \<and> api_of (server (base s')) = api_of (server (base s))"
proof -
  obtain w' where w': "ea_delete E cfg (robj s) (server (base s)) = (Inr (), w')" "held (robj s) w' = None"
    "api_of w' = api_of (server (base s))"
    using delete_ok [of "robj s" "server (base s)" e cfg] assms held_alike by metis
  then show ?thesis
    using held_alike [OF assms(2)] by (simp add: delete_entity_def call_entity_def on_server_def)
qed

lemma finalize_is_delete:
  assumes "connects L K r0 cfg" and "alike nf r0 (robj s)"
  shows "finalize L K E cfg s = delete_entity E cfg s"
  using cluster_of_alike [OF assms(2,1)] by (simp add: finalize_def and_then_def get_obj_def observe_def)

lemma deletion_step:
  assumes "held r0 (server (base s)) = Some e" and "alike nf r0 (robj s)" and "rs_deleted (robj s)" and "final (robj s)"
    and del: "\<And>t. alike nf r0 (robj t) \<Longrightarrow> del t = delete_entity E cfg t"
  shows "\<exists>s'. handle_deletion B E kd cfg del s = (Inl (requeue_now, None), s') \<and> held r0 (server (base s')) = None
     \<and> api_of (server (base s')) = api_of (server (base s))"
proof -
  let ?t = "note_call (Looked_up None) s"
  obtain s' where "delete_entity E cfg ?t = (Inr (), s')" "held r0 (server (base s')) = None"
    "api_of (server (base s')) = api_of (server (base s))"
    using delete_entity_ok [of r0 ?t e cfg] assms(1,2) by auto
  then show ?thesis
    using assms(2-4) look_up_present [OF assms(1,2), of cfg] del [of ?t]
    by (simp add: handle_deletion_def and_then_def get_obj_def observe_def ContainsElement_def as_result_def log_error_def
        on_error_def exit_with_def)
qed

lemma release_step:
  assumes "keeps_objects A stored" and "held r0 (server (base s)) = None" and "alike nf r0 (robj s)" and "rs_deleted (robj s)"
    and "rs_finalizers (robj s) = [HumioFinalizer]" and old: "stored (api_of (server (base s))) (object_key r0) = Some (robj s)"
  shows "\<exists>s'. handle_deletion (A' A) E kd cfg del s = (Inl (requeue_now, None), s') \<and> held r0 (server (base s')) = None
     \<and> stored (api_of (server (base s'))) (object_key r0) = None"
proof -
  obtain err where err: "look_up E cfg s = (Inl err, note_call (Looked_up (Some err)) s)" "is_entity_not_found err"
    using look_up_absent [OF assms(2,3)] by blast
  let ?t = "(note_call (Looked_up (Some err)) s)\<lparr>robj := (robj s)\<lparr>rs_finalizers := []\<rparr>\<rparr>"
  have "object_key (robj ?t) = object_key r0" using assms(3) by (simp add: alike_def object_key_def)
  then obtain s' z' where s': "update_resource (A' A) ?t = (Inr (), s')" "server (base s') = with_api z' (server (base s))"
    "stored z' = (stored (api_of (server (base s))))(object_key r0 := None)"
    using update_resource_ok [OF assms(1), of ?t "robj s"] old assms(4) by auto
  have "RemoveElement [HumioFinalizer] HumioFinalizer = Inr []"
    by (simp add: RemoveElement_def numeral_2_eq_2)
  then have "handle_deletion (A' A) E kd cfg del s = (Inl (requeue_now, None), s')"
    using s'(1) err assms(4,5)
    by (simp add: handle_deletion_def and_then_def get_obj_def observe_def ContainsElement_def as_result_def remove_finalizer_def
        set_obj_def on_error_def exit_with_def)
  then show ?thesis using s'(2,3) assms(2) by (simp add: api_put held_put)
qed

lemma deletion_ends:
  assumes "keeps_objects A stored" and "connects L K r0 cfg" and "only = [] \<or> only = rs_namespace r0" and "doomed stored r0 s"
    and del: "\<And>t. alike nf r0 (robj t) \<Longrightarrow> del cfg t = delete_entity E cfg t"
  shows "\<exists>s'. begin_run L K A only r0 (\<lambda>cfg. and_then (handle_deletion (A' A) E kd cfg (del cfg)) (g cfg)) s = ((requeue_now, None), s')
     \<and> held r0 (server (base s')) = None
     \<and> (if held r0 (server (base s)) = None then stored (api_of (server (base s'))) (object_key r0) = None
        else doomed stored r0 s')"
proof -
  let ?f = "\<lambda>cfg. and_then (handle_deletion (A' A) E kd cfg (del cfg)) (g cfg)"
  obtain r where run: "begin_run L K A only r0 ?f s = returned (?f cfg) (s\<lparr>robj := r\<rparr>)" and r: "alike nf r0 r" "rs_deleted r"
     "rs_finalizers r = [HumioFinalizer]" "stored (api_of (server (base s))) (object_key r0) = Some r"
    using doomed_begin [OF assms(1-4)] by blast
  have ends: "begin_run L K A only r0 ?f s = ((requeue_now, None), s')"
    if "handle_deletion (A' A) E kd cfg (del cfg) (s\<lparr>robj := r\<rparr>) = (Inl (requeue_now, None), s')" for s'
    unfolding run using that by (simp add: returned_def and_then_def)
  show ?thesis
  proof (cases "held r0 (server (base s))")
    case None
    obtain s' where "handle_deletion (A' A) E kd cfg (del cfg) (s\<lparr>robj := r\<rparr>) = (Inl (requeue_now, None), s')"
      "held r0 (server (base s')) = None" "stored (api_of (server (base s'))) (object_key r0) = None"
      using release_step [OF assms(1), of r0 "s\<lparr>robj := r\<rparr>" cfg "del cfg"] None r by auto
    then show ?thesis using ends None by auto
  next
    case (Some e)
    obtain s' where s': "handle_deletion (A' A) E kd cfg (del cfg) (s\<lparr>robj := r\<rparr>) = (Inl (requeue_now, None), s')"
      "held r0 (server (base s')) = None" "api_of (server (base s')) = api_of (server (base s))"
      using deletion_step [of r0 "s\<lparr>robj := r\<rparr>" e "del cfg" cfg "A' A"] del Some r by auto
    then have "doomed stored r0 s'" using r by (auto simp: doomed_def)
    then show ?thesis using ends s' Some by auto
  qed
qed

end

end
