(* ===== verification/Entity_Settling.thy ===== *)
theory Entity_Settling
  imports Entity_Contract
begin

text \<open>
  The in-memory LogScale keeps the contract of \<open>Entity_Contract\<close> for parsers, users, groups, repositories, views and
  alerts, so their controllers settle. The API server stays a parameter.
\<close>

section \<open>The client beside an API server\<close>

definition mock_api :: "('spec, 'z) resource_api \<Rightarrow> ('spec, 'z client_mock_scheme) resource_api" where
  "mock_api = beside client_mock.more (\<lambda>z. client_mock.more_update (\<lambda>_. z))"

definition parser_client :: "(parser_spec, parser_details, 'z client_mock_scheme) entity_api" where
  "parser_client = \<lparr>ea_get = (\<lambda>_. GetParser), ea_add = (\<lambda>_. AddParser), ea_update = (\<lambda>_. UpdateParser), ea_delete = (\<lambda>_. DeleteParser)\<rparr>"

definition user_client :: "(user_spec, user_details, 'z client_mock_scheme) entity_api" where
  "user_client = \<lparr>ea_get = (\<lambda>_. GetUser), ea_add = (\<lambda>_. AddUser), ea_update = (\<lambda>_. UpdateUser), ea_delete = (\<lambda>_. DeleteUser)\<rparr>"

definition group_client :: "(group_spec, group_details, 'z client_mock_scheme) entity_api" where
  "group_client = \<lparr>ea_get = (\<lambda>_. GetGroup), ea_add = (\<lambda>_. AddGroup), ea_update = (\<lambda>_. UpdateGroup), ea_delete = (\<lambda>_. DeleteGroup)\<rparr>"

definition repository_client :: "(repository_spec, repository_details, 'z client_mock_scheme) entity_api" where
  "repository_client = \<lparr>ea_get = (\<lambda>_. GetRepository), ea_add = (\<lambda>_. AddRepository), ea_update = (\<lambda>_. UpdateRepository),
     ea_delete = (\<lambda>_. DeleteRepository)\<rparr>"

definition view_client :: "(view_spec, view_details, 'z client_mock_scheme) entity_api" where
  "view_client = \<lparr>ea_get = (\<lambda>_ hv. GetView hv False), ea_add = (\<lambda>_. AddView), ea_update = (\<lambda>_. UpdateView), ea_delete = (\<lambda>_. DeleteView)\<rparr>"

definition alert_client :: "(alert_spec, alert_details, 'z client_mock_scheme) entity_api" where
  "alert_client = \<lparr>ea_get = (\<lambda>_. GetAlert), ea_add = (\<lambda>_. AddAlert), ea_update = (\<lambda>_. UpdateAlert), ea_delete = (\<lambda>_. DeleteAlert)\<rparr>"

section \<open>The contract\<close>

named_theorems store_defs \<open>the operations of the store\<close>

lemmas shared_store_defs [store_defs] =
  find_in_def add_to_def change_in_def store_at_def delete_at_def in_domain_def as_new_domain_def RandomString_def and_then_def ret_def

lemma err_not_found_is [simp]: "is_entity_not_found (err_not_found txt)"
  by (simp add: err_not_found_def)

lemma entity_missing_is [simp]: "is_entity_not_found (entity_missing t k)"
  by (simp add: entity_missing_def)

lemma domain_of_more [simp]:
  "searchDomainNameExists (client_mock.more_update f w) c d = searchDomainNameExists w c d"
  by (simp add: searchDomainNameExists_def)

text \<open>Tag fields are compared, and left, in order.\<close>

definition parser_in_order :: "parser_spec \<Rightarrow> parser_spec" where
  "parser_in_order spec = spec\<lparr>ps_tag_fields := sort_strings (ps_tag_fields spec)\<rparr>"

lemma parser_in_order_eq [simp]:
  "parser_in_order a = parser_in_order b \<longleftrightarrow>
     ps_name a = ps_name b \<and> ps_repository_name a = ps_repository_name b \<and> ps_parser_script a = ps_parser_script b
     \<and> ps_test_data a = ps_test_data b \<and> sort_strings (ps_tag_fields a) = sort_strings (ps_tag_fields b)"
  by (cases a; cases b) (auto simp: parser_in_order_def)

definition parser_ready :: "parser_spec resource \<Rightarrow> 'z client_mock_scheme \<Rightarrow> bool" where
  "parser_ready r w = searchDomainNameExists w (clusterName r) (ps_repository_name (rs_spec r))"

interpretation parser_contract: entity_contract client_mock.more "\<lambda>z. client_mock.more_update (\<lambda>_. z)"
  parser_client parser_kind parser_in_order "\<lambda>r w. cm_parser w (parser_key r)" parser_ready
proof (unfold_locales, goal_cases)
  case (5 r r' w) then show ?case by (auto simp: alike_def parser_key_def clusterName_def)
next
  case (6 r r' w) then show ?case by (auto simp: alike_def parser_ready_def clusterName_def)
next
  case (7 r r' e) then show ?case
    by (auto simp: alike_def parser_kind_def parserAlreadyAsExpected_def Let_def)
next
  case (8 r e) then show ?case by (auto simp: parser_kind_def parserAlreadyAsExpected_def Let_def parser_in_order_def)
next
  case (11 r w cfg) then show ?case
    by (auto simp: parser_client_def AddParser_def store_defs parsers_def parser_ready_def parser_kind_def parserAlreadyAsExpected_def
        Let_def parser_entity_def searchDomainNameExists_def)
next
  case (12 r w e cfg) then show ?case
    by (auto simp: parser_client_def UpdateParser_def store_defs parsers_def parser_ready_def parser_kind_def parserAlreadyAsExpected_def
        Let_def parser_entity_def searchDomainNameExists_def)
qed (simp_all add: parser_ready_def parser_key_def parser_client_def GetParser_def DeleteParser_def store_defs parsers_def)

interpretation user_contract: entity_contract client_mock.more "\<lambda>z. client_mock.more_update (\<lambda>_. z)"
  user_client user_kind "\<lambda>spec. spec" "\<lambda>r w. cm_user w (user_key r)" "\<lambda>_ _. True"
  by unfold_locales
    (auto simp: alike_def user_key_def clusterName_def user_kind_def userAlreadyAsExpected_def user_client_def GetUser_def
      AddUser_def UpdateUser_def DeleteUser_def store_defs users_def user_not_found_def)

text \<open>An update with an empty mapping removes it, which the comparison does not accept.\<close>

definition group_ready :: "group_spec resource \<Rightarrow> 'z client_mock_scheme \<Rightarrow> bool" where
  "group_ready r w \<longleftrightarrow> gs_external_mapping_name (rs_spec r) \<noteq> Some []"

interpretation group_contract: entity_contract client_mock.more "\<lambda>z. client_mock.more_update (\<lambda>_. z)"
  group_client group_kind "\<lambda>spec. spec" "\<lambda>r w. cm_group w (group_key r)" group_ready
  by unfold_locales
    (auto simp: alike_def group_key_def clusterName_def group_kind_def groupAlreadyAsExpected_def group_client_def GetGroup_def
      AddGroup_def UpdateGroup_def DeleteGroup_def store_defs groups_def group_entity_def group_ready_def)

text \<open>A repository needs a name of its own and, in this store, every retention.\<close>

definition repository_ready :: "repository_spec resource \<Rightarrow> 'z client_mock_scheme \<Rightarrow> bool" where
  "repository_ready r w \<longleftrightarrow>
     cm_view w (repository_key r) = None \<and> cm_multi_cluster_search_view w (repository_key r) = None
     \<and> rt_time_in_days (rp_retention (rs_spec r)) \<noteq> None \<and> rt_ingest_size_in_gb (rp_retention (rs_spec r)) \<noteq> None
     \<and> rt_storage_size_in_gb (rp_retention (rs_spec r)) \<noteq> None"

interpretation repository_contract: entity_contract client_mock.more "\<lambda>z. client_mock.more_update (\<lambda>_. z)"
  repository_client repository_kind "\<lambda>spec. spec" "\<lambda>r w. cm_repository w (repository_key r)" repository_ready
  by unfold_locales
    (auto simp: alike_def repository_key_def clusterName_def repository_kind_def repositoryAlreadyAsExpected_def repository_client_def
      GetRepository_def AddRepository_def UpdateRepository_def DeleteRepository_def store_defs repositories_def
      repository_entity_def repository_ready_def searchDomainNameExists_def stored_retention_def float_of_def Int32PtrToFloat64Ptr_def Let_def)

definition view_ready :: "view_spec resource \<Rightarrow> 'z client_mock_scheme \<Rightarrow> bool" where
  "view_ready r w \<longleftrightarrow> cm_repository w (view_key r) = None \<and> cm_multi_cluster_search_view w (view_key r) = None"

interpretation view_contract: entity_contract client_mock.more "\<lambda>z. client_mock.more_update (\<lambda>_. z)"
  view_client view_kind "\<lambda>spec. spec" "\<lambda>r w. cm_view w (view_key r)" view_ready
  by unfold_locales
    (auto simp: alike_def view_key_def clusterName_def view_kind_def viewAlreadyAsExpected_def view_client_def
      GetView_def AddView_def UpdateView_def DeleteView_def store_defs views_def
      view_entity_def view_ready_def searchDomainNameExists_def GetViewConnections_def made_def Let_def)

definition alert_in_order :: "alert_spec \<Rightarrow> alert_spec" where
  "alert_in_order spec = spec\<lparr>al_labels := sort_strings (al_labels spec), al_actions := sort_strings (al_actions spec)\<rparr>"

lemma alert_in_order_eq [simp]:
  "alert_in_order a = alert_in_order b \<longleftrightarrow>
     al_name a = al_name b \<and> al_view_name a = al_view_name b \<and> al_query_string a = al_query_string b
     \<and> al_query_start a = al_query_start b \<and> al_description a = al_description b
     \<and> al_throttle_time_millis a = al_throttle_time_millis b \<and> al_throttle_field a = al_throttle_field b
     \<and> al_silenced a = al_silenced b \<and> sort_strings (al_labels a) = sort_strings (al_labels b)
     \<and> sort_strings (al_actions a) = sort_strings (al_actions b)"
  by (cases a; cases b) (auto simp: alert_in_order_def)

definition alert_ready :: "alert_spec resource \<Rightarrow> 'z client_mock_scheme \<Rightarrow> bool" where
  "alert_ready r w \<longleftrightarrow>
     searchDomainNameExists w (clusterName r) (al_view_name (rs_spec r)) \<and> al_actions (rs_spec r) \<noteq> None"

lemma action_names [simp]: "GetActionNames (ActionNamesToEmailActions xs) = made (elements xs)"
  by (simp add: GetActionNames_def ActionNamesToEmailActions_def comp_def)

lemma made_elements: "xs \<noteq> None \<Longrightarrow> made (elements xs) = xs"
  by (auto simp: made_def)

lemma sort_None: "sort_strings a = sort_strings b \<Longrightarrow> a = None \<longleftrightarrow> b = None"
  by (cases a; cases b) auto

interpretation alert_contract: entity_contract client_mock.more "\<lambda>z. client_mock.more_update (\<lambda>_. z)"
  alert_client alert_kind alert_in_order "\<lambda>r w. cm_alert w (alert_key r)" alert_ready
proof (unfold_locales, goal_cases)
  case (5 r r' w) then show ?case by (auto simp: alike_def alert_key_def clusterName_def)
next
  case (6 r r' w) then show ?case
    by (auto simp: alike_def alert_ready_def clusterName_def dest: sort_None)
next
  case (7 r r' e) then show ?case
    by (auto simp: alike_def alert_kind_def alertAlreadyAsExpected_def Let_def)
next
  case (8 r e) then show ?case by (auto simp: alert_kind_def alertAlreadyAsExpected_def Let_def)
next
  case (11 r w cfg) then show ?case
    by (auto simp: alert_client_def AddAlert_def store_defs alerts_def alert_ready_def alert_kind_def alertAlreadyAsExpected_def
        Let_def alert_entity_def searchDomainNameExists_def made_elements QueryOwnershipIsOrganizationOwnership_def)
next
  case (12 r w e cfg) then show ?case
    by (auto simp: alert_client_def UpdateAlert_def store_defs alerts_def alert_ready_def alert_kind_def alertAlreadyAsExpected_def
        Let_def alert_entity_def searchDomainNameExists_def made_elements QueryOwnershipIsOrganizationOwnership_def)
qed (simp_all add: alert_ready_def alert_key_def alert_client_def GetAlert_def DeleteAlert_def store_defs alerts_def alert_not_found_def)

section \<open>Controllers that settle\<close>

lemma parser_compare: "kd_compare parser_kind = parserAlreadyAsExpected"
  by (simp add: parser_kind_def)

lemma alert_compare: "kd_compare alert_kind = alertAlreadyAsExpected"
  by (simp add: alert_kind_def)


text \<open>
  Claim C26. A parser that is deleted goes, and nothing of it stays. Let the API server keep the objects it is given, the
  cluster of the resource be there, and the resource be marked as deleted with the operator's finalizer as its only one.
  Then one or two runs of its controller end the deletion: the first removes what LogScale holds, if anything, and the run that
  finds nothing there removes the finalizer, and with it the resource; each of these runs asks to be called again.
\<close>

theorem parser_deletion_ends:
  fixes A :: "(parser_spec, 'z) resource_api" and s :: "('z client_mock_scheme, parser_spec) rst"
  assumes "keeps_objects A stored" and "connects L K r cfg" and "only = [] \<or> only = rs_namespace r"
    and "stored (client_mock.more (server (base s))) (object_key r) = Some r" and "rs_deleted r"
    and "rs_finalizers r = [HumioFinalizer]"
  shows "\<exists>n s'. n \<in> {1, 2}
     \<and> ((snd \<circ> HumioParserReconciler_Reconcile L K (mock_api A) parser_client period only (rs_namespace r) (rs_name r)) ^^ n) s = s'
     \<and> cm_parser (server (base s')) (parser_key r) = None \<and> stored (client_mock.more (server (base s'))) (object_key r) = None"
proof -
  let ?run = "HumioParserReconciler_Reconcile L K (mock_api A) parser_client period only (rs_namespace r) (rs_name r)"
  have del: "finalize L K parser_client cfg t = delete_entity parser_client cfg t" if "alike parser_in_order r (robj t)"
    for t :: "('z client_mock_scheme, parser_spec) rst"
    by (rule parser_contract.finalize_is_delete [OF assms(2) that])
  have step: "\<exists>s'. ?run s = ((requeue_now, None), s') \<and> cm_parser (server (base s')) (parser_key r) = None
     \<and> (if cm_parser (server (base s)) (parser_key r) = None then stored (client_mock.more (server (base s'))) (object_key r) = None
        else parser_contract.doomed stored r s')" if "parser_contract.doomed stored r s" for s
    unfolding HumioParserReconciler_Reconcile_def mock_api_def reconcile_eager_def
    by (rule parser_contract.deletion_ends [where del = "finalize L K parser_client", OF assms(1-3) that del])
  have doomed: "parser_contract.doomed stored r s"
    using assms(4-6) by (simp add: parser_contract.doomed_def)
  obtain s1 where one: "?run s = ((requeue_now, None), s1)" "cm_parser (server (base s1)) (parser_key r) = None"
    "if cm_parser (server (base s)) (parser_key r) = None then stored (client_mock.more (server (base s1))) (object_key r) = None
     else parser_contract.doomed stored r s1"
    using step [OF doomed] by blast
  show ?thesis
  proof (cases "cm_parser (server (base s)) (parser_key r) = None")
    case True
    then show ?thesis using one by (intro exI [of _ 1] exI [of _ s1]) simp
  next
    case False
    then obtain s2 where "?run s1 = ((requeue_now, None), s2)" "cm_parser (server (base s2)) (parser_key r) = None"
      "stored (client_mock.more (server (base s2))) (object_key r) = None"
      using step [of s1] one by auto
    then show ?thesis using one(1) by (intro exI [of _ 2] exI [of _ s2]) (simp add: numeral_2_eq_2)
  qed
qed

text \<open>
  An alert is brought about in at most two runs. Let the API server keep the objects it is given, the cluster of
  the resource be there, the view of the alert exist and the alert name its actions. Then two runs of its controller end
  without an error, after them the resource has the finalizer and the state "Exists" and LogScale an alert that the
  comparison accepts, and a third run changes neither LogScale nor the API server.
\<close>

lemma alerts_settle:
  fixes A :: "(alert_spec, 'z) resource_api" and s :: "('z client_mock_scheme, alert_spec) rst"
  assumes "keeps_objects A stored" and "connects L K r cfg" and "only = [] \<or> only = rs_namespace r"
    and "stored (client_mock.more (server (base s))) (object_key r) = Some r" and "\<not> rs_deleted r"
    and "searchDomainNameExists (server (base s)) (clusterName r) (al_view_name (rs_spec r))" and "al_actions (rs_spec r) \<noteq> None"
  shows "\<exists>x s1 y s2 s3 r2 e.
       HumioAlertReconciler_Reconcile L K (mock_api A) alert_client period only (rs_namespace r) (rs_name r) s = (x, s1) \<and> snd x = None
     \<and> HumioAlertReconciler_Reconcile L K (mock_api A) alert_client period only (rs_namespace r) (rs_name r) s1 = (y, s2) \<and> snd y = None
     \<and> stored (client_mock.more (server (base s2))) (object_key r) = Some r2
     \<and> HumioFinalizer \<in> set (rs_finalizers r2) \<and> rs_state r2 = ResourceStateExists
     \<and> cm_alert (server (base s2)) (alert_key r) = Some e \<and> fst (alertAlreadyAsExpected r e)
     \<and> HumioAlertReconciler_Reconcile L K (mock_api A) alert_client period only (rs_namespace r) (rs_name r) s2
         = ((requeue_in period, None), s3)
     \<and> base s3 = base s2"
proof -
  let ?run = "HumioAlertReconciler_Reconcile L K (mock_api A) alert_client period only (rs_namespace r) (rs_name r)"
  have live: "alert_contract.live stored r (\<lambda>_. True) s"
    using assms(4-7) by (simp add: alert_contract.live_def alert_ready_def)
  have "\<exists>x s1 y s2 s3. ?run s = (x, s1) \<and> snd x = None \<and> ?run s1 = (y, s2) \<and> snd y = None
      \<and> alert_contract.settled stored r s2 \<and> ?run s2 = ((requeue_in period, None), s3) \<and> base s3 = base s2"
  proof (rule alert_contract.settles_in_two_runs [OF _ _ live], goal_cases)
    case (1 s)
    show ?case unfolding HumioAlertReconciler_Reconcile_def mock_api_def
      by (rule alert_contract.recorded_settles [OF assms(1-3) 1]) (simp_all add: ret_def)
  next
    case (2 s)
    show ?case unfolding HumioAlertReconciler_Reconcile_def mock_api_def
      by (rule alert_contract.recorded_idle [OF assms(1-3) 2]) (simp_all add: ret_def)
  qed
  then obtain x s1 y s2 s3 where runs: "?run s = (x, s1)" "snd x = None" "?run s1 = (y, s2)" "snd y = None"
      "?run s2 = ((requeue_in period, None), s3)" "base s3 = base s2"
    and settled: "alert_contract.settled stored r s2" by blast
  from settled obtain r2 e where
    "stored (client_mock.more (server (base s2))) (object_key r) = Some r2" "HumioFinalizer \<in> set (rs_finalizers r2)"
    "rs_state r2 = ResourceStateExists" "cm_alert (server (base s2)) (alert_key r) = Some e" "fst (alertAlreadyAsExpected r e)"
    by (auto simp: alert_contract.settled_def alert_contract.live_def alert_contract.held_as_asked_def alert_compare)
  with runs show ?thesis by blast
qed

text \<open>An API server that is a table of objects, a world whose reads are answered, and a LogScale with one repository.\<close>

definition table_api :: "('spec, string \<times> string \<rightharpoonup> 'spec resource) resource_api" where
  "table_api = \<lparr>
     ra_get = (\<lambda>ns name z. (case z (ns, name) of Some r \<Rightarrow> Inr r | None \<Rightarrow> Inl (NotFound name), z)),
     ra_update = (\<lambda>r z. case z (object_key r) of
         None \<Rightarrow> (Inl (NotFound (rs_name r)), z)
       | Some old \<Rightarrow> (Inr (as_updated old r), z(object_key r :=
            (if rs_deleted old \<and> rs_finalizers r = [] then None else Some (as_updated old r))))),
     ra_update_status = (\<lambda>r z. case z (object_key r) of
         None \<Rightarrow> (Inl (NotFound (rs_name r)), z)
       | Some old \<Rightarrow> (Inr (with_status old r), z(object_key r \<mapsto> with_status old r)))\<rparr>"

lemma table_keeps: "keeps_objects table_api (\<lambda>z. z)"
  by (auto simp: keeps_objects_def table_api_def)

definition unanswered :: "'w \<Rightarrow> (go_error + 'a) \<times> 'w" where
  "unanswered w = (Inl (Msg []), w)"

definition token_object :: k8s_object where
  "token_object = zero_object\<lparr>ko_data := [''token'' \<mapsto> ''abc'']\<rparr>"

definition answering_kube :: "'w kube" where
  "answering_kube = \<lparr>
     k_get_cluster = (\<lambda>_ _. unanswered), k_update_status = (\<lambda>_. unanswered),
     k_list_pods = (\<lambda>_ _. unanswered), k_create_pod = (\<lambda>_. unanswered),
     k_delete_pod = (\<lambda>_. unanswered), k_update_pod = (\<lambda>_. unanswered),
     k_patch_pod = (\<lambda>_ _ _. unanswered), k_get_node = (\<lambda>_. unanswered),
     k_list_pvcs = (\<lambda>_ _. unanswered), k_create_pvc = (\<lambda>_ _. unanswered),
     k_update_pvc = (\<lambda>_. unanswered), k_delete_pvc = (\<lambda>_. unanswered),
     k_get_pv = (\<lambda>_. unanswered), k_get_pod = (\<lambda>_ _. unanswered),
     k_get_object = (\<lambda>_ _ _ w. (Inr (token_object), w)),
     k_list_objects = (\<lambda>_ _ _. unanswered), k_create_object = (\<lambda>_ _. unanswered),
     k_update_object = (\<lambda>_ _. unanswered), k_delete_object = (\<lambda>_ _. unanswered),
     k_list_bootstrap_tokens = (\<lambda>_ _. unanswered), k_get_bootstrap_token = (\<lambda>_ _. unanswered),
     k_create_bootstrap_token = (\<lambda>_ _. unanswered), k_generate_ca = unanswered,
     k_random_string = Pair ''abcdef'', k_now = Pair 0, k_sleep = (\<lambda>_ w. w),
     k_get_external_cluster = (\<lambda>_ _ w. (Inr unversioned_cluster, w)),
     k_get_telemetry = (\<lambda>_ _. unanswered), k_create_telemetry = (\<lambda>_. unanswered),
     k_update_telemetry = (\<lambda>_. unanswered), k_delete_telemetry = (\<lambda>_. unanswered),
     k_humio_nodes = unanswered, k_humio_eviction_status = unanswered, k_humio_refresh_stats = (\<lambda>_. unanswered),
     k_humio_set_evicted = (\<lambda>_ _. unanswered), k_humio_unregister = (\<lambda>_ _. unanswered),
     k_humio_version = unanswered, k_humio_user_id = (\<lambda>_. unanswered),
     k_humio_add_user = (\<lambda>_ _. unanswered), k_humio_rotate_token = (\<lambda>_. unanswered),
     k_license_installed = unanswered, k_install_license = (\<lambda>_. unanswered)\<rparr>"

lemma answering [simp]:
  "k_get_external_cluster answering_kube n ns w = (Inr unversioned_cluster, w)"
  "k_get_object answering_kube kind n ns w = (Inr (token_object), w)"
  by (simp_all add: answering_kube_def)

lemma external_connects:
  "connects plain_lib answering_kube (external_object spec)
     \<lparr>cfg_address = ''https://logs'', cfg_token = ''abc'', cfg_insecure = False, cfg_ca_certificate = []\<rparr>"
  by (simp add: connects_def cluster_of_def on_base_def external_object_def NewCluster_def external_config_def and_then_def
      log_error_def on_error_def query_def unversioned_cluster_def plain_lib_def ret_def token_object_def map_get_def has_prefix_def)

definition one_repository :: "'z \<Rightarrow> 'z client_mock_scheme" where
  "one_repository z = client_mock.extend ((NewMockClient (\<lambda>i. ''id''))\<lparr>cm_repository := [(''ext'', [], ''repo'') \<mapsto>
     \<lparr>rd_id = ''1'', rd_name = ''repo'', rd_description = None, rd_time_based_retention = None, rd_ingest_size_based_retention = None,
      rd_storage_size_based_retention = None, rd_automatic_search = False\<rparr>]\<rparr>) z"

lemma one_repository_simps [simp]:
  "client_mock.more (one_repository z) = z" "searchDomainNameExists (one_repository z) ''ext'' ''repo''"
  by (simp_all add: one_repository_def client_mock.defs searchDomainNameExists_def NewMockClient_def)

definition sample_parser :: "parser_spec resource" where
  "sample_parser = external_object \<lparr>ps_name = ''p'', ps_parser_script = ''kvParse()'', ps_repository_name = ''repo'',
     ps_tag_fields = Some [''b'', ''a''], ps_test_data = None\<rparr>"

definition run_state :: "'w \<Rightarrow> 'spec resource \<Rightarrow> ('w, 'spec) rst" where
  "run_state w r = \<lparr>base = \<lparr>server = w, calls = [], zone_cache = Map.empty, hc_obj = empty_cluster\<rparr>, robj = r, rlog = []\<rparr>"


definition leaving_parser :: "parser_spec resource" where
  "leaving_parser = sample_parser\<lparr>rs_deleted := True, rs_finalizers := [HumioFinalizer]\<rparr>"

theorem parser_deletion_ends_witness:
  "\<exists>n s'. n \<in> {1, 2} \<and> ((snd \<circ> HumioParserReconciler_Reconcile plain_lib answering_kube (mock_api table_api) parser_client 15 [] ''ns'' ''s'') ^^ n)
        (run_state (one_repository [(''ns'', ''s'') \<mapsto> leaving_parser]) leaving_parser) = s'
     \<and> client_mock.more (server (base s')) (''ns'', ''s'') = None"
proof -
  let ?s = "run_state (one_repository [(''ns'', ''s'') \<mapsto> leaving_parser]) leaving_parser"
  have "connects plain_lib answering_kube leaving_parser
      \<lparr>cfg_address = ''https://logs'', cfg_token = ''abc'', cfg_insecure = False, cfg_ca_certificate = []\<rparr>"
    using external_connects [of "rs_spec sample_parser"]
    by (simp add: leaving_parser_def sample_parser_def external_object_def connects_def cluster_of_def)
  from parser_deletion_ends [OF table_keeps this, of "[]" ?s 15]
  show ?thesis
    by (simp add: leaving_parser_def sample_parser_def external_object_def run_state_def object_key_def) blast
qed

definition sample_alert :: "alert_spec resource" where
  "sample_alert = external_object \<lparr>al_name = ''a'', al_view_name = ''repo'', al_query_string = ''error'', al_query_start = ''1h'',
     al_description = [], al_throttle_time_millis = 60000, al_throttle_field = None, al_silenced = False,
     al_actions = Some [''mail''], al_labels = Some []\<rparr>"

theorem alerts_settle_witness:
  "\<exists>x s1 y s2 e. HumioAlertReconciler_Reconcile plain_lib answering_kube (mock_api table_api) alert_client 15 [] ''ns'' ''s''
       (run_state (one_repository [(''ns'', ''s'') \<mapsto> sample_alert]) sample_alert) = (x, s1)
     \<and> HumioAlertReconciler_Reconcile plain_lib answering_kube (mock_api table_api) alert_client 15 [] ''ns'' ''s'' s1 = (y, s2)
     \<and> cm_alert (server (base s2)) (alert_key sample_alert) = Some e \<and> fst (alertAlreadyAsExpected sample_alert e)"
proof -
  have "connects plain_lib answering_kube sample_alert
      \<lparr>cfg_address = ''https://logs'', cfg_token = ''abc'', cfg_insecure = False, cfg_ca_certificate = []\<rparr>"
    unfolding sample_alert_def by (rule external_connects)
  from alerts_settle [OF table_keeps this, of "[]" "run_state (one_repository [(''ns'', ''s'') \<mapsto> sample_alert]) sample_alert" 15]
  show ?thesis
    by (simp add: sample_alert_def external_object_def run_state_def object_key_def clusterName_def) blast
qed

end
