(* ===== verification/Token_Controllers.thy ===== *)
theory Token_Controllers
  imports Entity_Settling
begin

text \<open>
  Tokens of LogScale: system tokens (humiosystemtoken_controller.go), organization tokens
  (humioorganizationtoken_controller.go) and view tokens (humioviewtoken_controller.go), on what they share
  (common_tokens.go). A token has two halves: an entity of LogScale, and the Kubernetes secret that holds what LogScale
  gave out once, when the token was created or rotated. The three \<open>Reconcile\<close> functions are copies of one another; the
  parameter \<open>kd\<close> holds their messages, the permissions of the kind and the views of a view token.
\<close>

section \<open>Resources and tokens\<close>

record token_spec =
  tk_name :: string
  tk_ip_filter_name :: string
  tk_permissions :: "string slice"
  tk_expires_at :: "time option"
  tk_secret_name :: string
  tk_secret_labels :: smap
  tk_secret_annotations :: "smap option"   \<comment> \<open>\<open>None\<close> is the nil map\<close>

record view_token_spec = token_spec +
  tk_view_names :: "string list"

record token_details =
  tkd_id :: string
  tkd_name :: string
  tkd_expire_at :: "int option"            \<comment> \<open>milliseconds\<close>
  tkd_ip_filter :: "string option"         \<comment> \<open>\<open>IpFilterV2.Id\<close>\<close>
  tkd_permissions :: "string slice"

record view_token_details = token_details +
  tkd_views :: "string list"               \<comment> \<open>the identifiers of the views\<close>

section \<open>Permissions\<close>

definition EquivalentSpecificPermissions :: "string \<rightharpoonup> string list" where
  "EquivalentSpecificPermissions =
    [''ChangeFiles'' \<mapsto> [''CreateFiles'', ''UpdateFiles'', ''DeleteFiles''],
     ''ChangeDashboards'' \<mapsto> [''CreateDashboards'', ''UpdateDashboards'', ''DeleteDashboards''],
     ''ChangeSavedQueries'' \<mapsto> [''CreateSavedQueries'', ''UpdateSavedQueries'', ''DeleteSavedQueries''],
     ''ChangeScheduledReports'' \<mapsto> [''CreateScheduledReports'', ''UpdateScheduledReports'', ''DeleteScheduledReports''],
     ''ChangeTriggers'' \<mapsto> [''CreateTriggers'', ''UpdateTriggers'', ''DeleteTriggers''],
     ''ChangeActions'' \<mapsto> [''CreateActions'', ''UpdateActions'', ''DeleteActions'']]"

definition specific_permissions :: "string \<Rightarrow> string list" where
  "specific_permissions perm = (case EquivalentSpecificPermissions perm of None \<Rightarrow> [perm] | Some extPerms \<Rightarrow> extPerms)"

text \<open>
  The set \<open>FixPermissions\<close> returns the elements of, in the order of a map; every use sorts them, and so does the model.
  The loop itself, which changes the map it ranges over, is the relation \<open>ranges\<close> below.
\<close>

definition fixed_permissions :: "string list \<Rightarrow> string list" where
  "fixed_permissions permissions = concat (map specific_permissions (''OrganizationOwnedQueries'' # permissions))"

definition FixPermissions :: "string slice \<Rightarrow> string slice" where
  "FixPermissions permissions = Some (sort (remdups (fixed_permissions (elements permissions))))"

text \<open>
  One iteration of \<open>for perm := range permSet\<close>: Go visits an entry it has not reached (\<open>todo\<close>); of the entries created
  meanwhile (\<open>added\<close>) it may produce any (\<open>found\<close>), and it does not produce one that was removed.
\<close>

inductive ranges :: "string set \<times> string set \<Rightarrow> string set \<times> string set \<Rightarrow> bool" where
  listed: "perm \<in> todo \<Longrightarrow> EquivalentSpecificPermissions perm = Some extPerms \<Longrightarrow> found \<subseteq> set extPerms - permSet \<Longrightarrow>
     ranges (permSet, todo) (permSet \<union> set extPerms - {perm}, todo - {perm} \<union> found)"
| plain: "perm \<in> todo \<Longrightarrow> EquivalentSpecificPermissions perm = None \<Longrightarrow> ranges (permSet, todo) (permSet, todo - {perm})"

section \<open>The client\<close>

text \<open>
  The calls of the LogScale client, through the HTTP client of a configuration. \<open>tka_ip_filter\<close> and \<open>tka_view\<close> look up a
  filter and a view, federated ones included, by the names of the managed and the external cluster and their own, and
  answer an identifier. The views are looked up concurrently: \<open>tka_arrival\<close> is the order their results arrive in.
\<close>

record ('spec, 'e, 'w) token_api =
  tka_get :: "humio_config \<Rightarrow> 'spec resource \<Rightarrow> 'w \<Rightarrow> (go_error + 'e) \<times> 'w"
  tka_create :: "humio_config \<Rightarrow> string \<Rightarrow> string list \<Rightarrow> string list \<Rightarrow> 'spec resource \<Rightarrow> 'w \<Rightarrow> (go_error + string \<times> string) \<times> 'w"
  tka_update :: "humio_config \<Rightarrow> string list \<Rightarrow> 'spec resource \<Rightarrow> 'w \<Rightarrow> (go_error + unit) \<times> 'w"
  tka_delete :: "humio_config \<Rightarrow> 'spec resource \<Rightarrow> 'w \<Rightarrow> (go_error + unit) \<times> 'w"
  tka_rotate :: "humio_config \<Rightarrow> 'spec resource \<Rightarrow> 'w \<Rightarrow> (go_error + string \<times> string) \<times> 'w"
  tka_ip_filter :: "humio_config \<Rightarrow> string \<Rightarrow> string \<Rightarrow> string \<Rightarrow> 'w \<Rightarrow> (go_error + string) \<times> 'w"
  tka_view :: "humio_config \<Rightarrow> string \<Rightarrow> string \<Rightarrow> string \<Rightarrow> 'w \<Rightarrow> (go_error + string) \<times> 'w"
  tka_arrival :: "(string \<times> (go_error + string)) list \<Rightarrow> (string \<times> (go_error + string)) list"

record ('spec, 'e) token_kind =
  tkk_type :: string
  tkk_state_error :: "string option"   \<comment> \<open>a failed status write without a client ends the run, or is ignored\<close>
  tkk_finalize_error :: string
  tkk_secret_error :: string
  tkk_all_permissions :: "string list"
  tkk_views :: "'spec \<Rightarrow> string list option"
  tkk_held_views :: "'e \<Rightarrow> string list"
  tkk_compare :: "'spec resource \<Rightarrow> 'e \<Rightarrow> bool \<times> 'spec resource"

definition token_look_up :: "('spec, 'e, 'w) token_api \<Rightarrow> humio_config \<Rightarrow> (('w, 'spec) rst, 'r, go_error + 'e) step" where
  "token_look_up T cfg =
     observe (\<lambda>s. case on_server (tka_get T cfg (robj s)) s of (x, s') \<Rightarrow> (x, note_call (Looked_up (outcome x)) s'))"

section \<open>What the controllers share\<close>

text \<open>\<open>setState\<close> is \<open>set_state_and_id\<close>. The event of \<open>handleCriticalError\<close> is not modelled.\<close>

definition CriticalErrorRequeue :: duration where "CriticalErrorRequeue = 60 * second"

definition handleCriticalError ::
  "('spec, 'w) resource_api \<Rightarrow> duration \<Rightarrow> (('w, 'spec) rst, handler_result, 'a) step" where
  "handleCriticalError A criticalErrorRequeuePeriod =
     and_then get_obj (\<lambda>r.
     and_then (ignoring (set_state_and_id A ResourceStateConfigError (rs_id r))) (\<lambda>_.
     exit_with (requeue_in (if 0 < criticalErrorRequeuePeriod then criticalErrorRequeuePeriod else CriticalErrorRequeue), None)))"

definition token_addFinalizer :: "('x token_spec_scheme, 'w) resource_api \<Rightarrow> (('w, 'x token_spec_scheme) rst, go_error, unit) step" where
  "token_addFinalizer A =
     and_then get_obj (\<lambda>r.
     if ContainsElement (rs_finalizers r) HumioFinalizer then ret ()
     else and_then (set_obj (r\<lparr>rs_finalizers := rs_finalizers r @ [HumioFinalizer]\<rparr>)) (\<lambda>_.
          log_error (''failed to add Finalizer to Humio Token '' @ tk_name (rs_spec r)) (update_resource A)))"

definition token_secret :: "string \<Rightarrow> 'x token_spec_scheme resource \<Rightarrow> string \<Rightarrow> k8s_object" where
  "token_secret type r secretValue =
     (ConstructSecret (cluster_name r) (rs_namespace r) (tk_secret_name (rs_spec r))
        [''token'' \<mapsto> secretValue, ''resourceName'' \<mapsto> tk_name (rs_spec r), ''humioResourceID'' \<mapsto> rs_id r]
        (tk_secret_labels (rs_spec r)) (case tk_secret_annotations (rs_spec r) of None \<Rightarrow> Map.empty | Some m \<Rightarrow> m))
     \<lparr>ko_owner_kinds := [''Humio'' @ type], ko_finalizers := [HumioFinalizer]\<rparr>"

text \<open>An object read from the API server has nil where it has no annotations: an empty map is not sent.\<close>

definition annotations_read :: "k8s_object \<Rightarrow> smap option" where
  "annotations_read ob = (if ko_annotations ob = Map.empty then None else Some (ko_annotations ob))"

definition token_secret_matches :: "'x token_spec_scheme resource \<Rightarrow> k8s_object \<Rightarrow> k8s_object \<Rightarrow> bool" where
  "token_secret_matches r existingSecret desiredSecret \<longleftrightarrow>
     map_get (ko_data existingSecret) ''humioResourceID'' = map_get (ko_data desiredSecret) ''humioResourceID''
     \<and> map_get (ko_data existingSecret) ''token'' = map_get (ko_data desiredSecret) ''token''
     \<and> ko_labels existingSecret = ko_labels desiredSecret \<and> annotations_read existingSecret = tk_secret_annotations (rs_spec r)"

definition token_ensureTokenSecretExists ::
  "'w kube \<Rightarrow> string \<Rightarrow> k8s_object option \<Rightarrow> string \<Rightarrow> string \<Rightarrow> (('w, 'x token_spec_scheme) rst, go_error, unit) step" where
  "token_ensureTokenSecretExists K type existing tokenTypeName secret =
     and_then get_obj (\<lambda>r.
     if tk_secret_name (rs_spec r) = [] then exit_with (Msg (tokenTypeName @ ''.Spec.TokenSecretName is mandatory but missing''))
     else if rs_id r = [] then exit_with (Msg (tokenTypeName @ ''.Status.HumioID is mandatory but missing''))
     else
       let unable = ''unable to update '' @ tokenTypeName @ '' token secret'' in
       case existing of
         None \<Rightarrow>
           on_error (on_base (create_object K SecretKind (token_secret type r secret))) (\<lambda>err.
             exit_with (Wrap (''unable to create '' @ tokenTypeName @ '' token k8s secret: '' @ error_message err) (Some err)))
       | Some existingSecret \<Rightarrow>
           let desiredSecret = token_secret type r (if secret = [] then map_get (ko_data existingSecret) ''token'' else secret)
           in if map_get (ko_data existingSecret) ''resourceName'' \<noteq> tk_name (rs_spec r)
              then exit_with (Wrap unable (Some (Msg (''secret exists but has a different resource name: ''
                                @ map_get (ko_data existingSecret) ''resourceName''))))
              else if token_secret_matches r existingSecret desiredSecret then ret ()
              else log_error unable (on_base (update_object K SecretKind desiredSecret)))"

section \<open>Dependencies\<close>

definition listed_text :: "string list \<Rightarrow> string" where   \<comment> \<open>\<open>%v\<close> of a slice of strings\<close>
  "listed_text xs = ''['' @ join_with '' '' xs @ '']''"

definition validateExpireAt ::
  "'w kube \<Rightarrow> 'e option \<Rightarrow> (('w, 'x token_spec_scheme) rst, go_error, unit) step" where
  "validateExpireAt K current =
     and_then get_obj (\<lambda>r.
     case tk_expires_at (rs_spec r) of
       None \<Rightarrow> ret ()
     | Some expiresAt \<Rightarrow>
         if current \<noteq> None then ret ()
         else and_then (on_base (pick (k_now K))) (\<lambda>now.
              if expiresAt < now then exit_with (Msg ''ExpiresAt time must be in the future'') else ret ()))"

definition validatePermissions :: "string list \<Rightarrow> string slice \<Rightarrow> go_error + string list" where
  "validatePermissions all permissions =
     (let invalidPermissions = filter (\<lambda>p. p \<notin> set all) (elements permissions)
      in if invalidPermissions \<noteq> []
         then Inl (Msg (''one or more of the configured Permissions do not exist: '' @ listed_text invalidPermissions))
         else Inr (elements permissions))"

text \<open>A filter that is found must be the one the token has, if it has one.\<close>

definition validateIPFilter ::
  "('x token_spec_scheme, 'y token_details_scheme, 'w) token_api \<Rightarrow> humio_config \<Rightarrow> 'y token_details_scheme option
   \<Rightarrow> (('w, 'x token_spec_scheme) rst, go_error, string) step" where
  "validateIPFilter T cfg current =
     and_then get_obj (\<lambda>r.
     and_then (on_error (on_server (tka_ip_filter T cfg (rs_managed_cluster r) (rs_external_cluster r) (tk_ip_filter_name (rs_spec r))))
       (\<lambda>err. exit_with (Msg (''IPFilter with Spec.Name '' @ tk_ip_filter_name (rs_spec r) @ '' not found: '' @ error_message err)))) (\<lambda>i.
     case (case current of None \<Rightarrow> None | Some t \<Rightarrow> tkd_ip_filter t) of
       None \<Rightarrow> ret i
     | Some held \<Rightarrow>
         if i \<noteq> [] \<and> i \<noteq> held
         then exit_with (Msg (''external dependency ipFilter changed: current='' @ i @ '' vs desired='' @ held))
         else ret i))"

definition found_views :: "(string \<times> (go_error + string)) list \<Rightarrow> string list" where
  "found_views results = concat (map (\<lambda>(_, x). case x of Inl _ \<Rightarrow> [] | Inr i \<Rightarrow> [i]) results)"

definition missing_views :: "(string \<times> (go_error + string)) list \<Rightarrow> string list" where
  "missing_views results = concat (map (\<lambda>(name, x). case x of Inl _ \<Rightarrow> [name] | Inr _ \<Rightarrow> []) results)"

definition validateViews ::
  "('x token_spec_scheme, 'e, 'w) token_api \<Rightarrow> ('x token_spec_scheme, 'e) token_kind \<Rightarrow> humio_config \<Rightarrow> 'e option
   \<Rightarrow> string list \<Rightarrow> (('w, 'x token_spec_scheme) rst, go_error, string list) step" where
  "validateViews T kd cfg current viewNames =
     and_then get_obj (\<lambda>r.
     and_then (fold_step (\<lambda>name acc. and_then (observe (on_server (tka_view T cfg (rs_managed_cluster r) (rs_external_cluster r) name)))
                 (\<lambda>x. ret (acc @ [(name, x)]))) viewNames []) (\<lambda>looked.
     let results = tka_arrival T looked; foundIds = found_views results in
     if length foundIds \<noteq> length viewNames
     then exit_with (Msg (''one or more of the configured viewNames do not exist: '' @ listed_text (missing_views results)))
     else case current of
            None \<Rightarrow> ret foundIds
          | Some vt \<Rightarrow>
              let existingViewIds = sort (tkk_held_views kd vt) in
              if sort foundIds \<noteq> existingViewIds
              then exit_with (Msg (''view IDs have changed externally: expected '' @ listed_text (sort foundIds)
                                   @ '', found '' @ listed_text existingViewIds))
              else ret (sort foundIds)))"

record token_validation =
  tv_ip_filter_id :: string
  tv_view_ids :: "string list"
  tv_permissions :: "string list"

definition validateDependencies ::
  "'w kube \<Rightarrow> ('x token_spec_scheme, 'y token_details_scheme, 'w) token_api \<Rightarrow> ('x token_spec_scheme, 'y token_details_scheme) token_kind
   \<Rightarrow> humio_config \<Rightarrow> 'y token_details_scheme option \<Rightarrow> (('w, 'x token_spec_scheme) rst, go_error, token_validation) step" where
  "validateDependencies K T kd cfg current =
     and_then (log_error ''ExpireAt validation failed'' (validateExpireAt K current)) (\<lambda>_.
     and_then get_obj (\<lambda>r.
     case validatePermissions (tkk_all_permissions kd) (tk_permissions (rs_spec r)) of
       Inl err \<Rightarrow> exit_with (Wrap ''permissions validation failed'' (Some err))
     | Inr permissions \<Rightarrow>
         and_then (if tk_ip_filter_name (rs_spec r) = [] then ret []
                   else log_error ''ipFilterName validation failed'' (validateIPFilter T cfg current)) (\<lambda>ipFilterId.
         and_then (case tkk_views kd (rs_spec r) of
                     None \<Rightarrow> ret []
                   | Some viewNames \<Rightarrow> log_error ''viewsNames validation failed'' (validateViews T kd cfg current viewNames)) (\<lambda>viewIds.
         ret \<lparr>tv_ip_filter_id = ipFilterId, tv_view_ids = viewIds, tv_permissions = permissions\<rparr>))))"

section \<open>Reconciliation\<close>

definition token_finalize ::
  "'w kube \<Rightarrow> ('x token_spec_scheme, 'e, 'w) token_api \<Rightarrow> humio_config \<Rightarrow> (('w, 'x token_spec_scheme) rst, go_error, unit) step" where
  "token_finalize K T cfg =
     and_then get_obj (\<lambda>r.
     and_then (if rs_id r = [] then ret ()
               else log_error ''error in finalize function when trying to delete Humio Token'' (call_entity Removed (tka_delete T cfg))) (\<lambda>_.
     let secret = zero_object\<lparr>ko_name := tk_secret_name (rs_spec r), ko_namespace := rs_namespace r\<rparr> in
     and_then (log_error (''could not remove finalizer from associated k8s secret: '' @ ko_name secret)
                (on_base (update_object K SecretKind secret))) (\<lambda>_.
     ignoring (on_base (delete_object K SecretKind secret)))))"

definition ensureTokenSecret ::
  "'w kube \<Rightarrow> ('x token_spec_scheme, 'w) resource_api \<Rightarrow> ('x token_spec_scheme, 'e, 'w) token_api
   \<Rightarrow> ('x token_spec_scheme, 'e) token_kind \<Rightarrow> humio_config \<Rightarrow> (('w, 'x token_spec_scheme) rst, go_error, unit) step" where
  "ensureTokenSecret K A T kd cfg =
     and_then get_obj (\<lambda>r.
     and_then (observe (on_base (query (k_get_object K SecretKind (tk_secret_name (rs_spec r)) (rs_namespace r))))) (\<lambda>x.
     case x of
       Inl err \<Rightarrow>
         if is_not_found err
         then
           and_then (log_error (''could not rotate '' @ tkk_type kd)
             (on_base (act (RotateToken (tk_name (rs_spec r))) (tka_rotate T cfg r)))) (\<lambda>(tokenId, secret).
           and_then (log_error (''could not update '' @ tkk_type kd @ '' Status with tokenId'')
             (set_state_and_id A ResourceStateExists tokenId)) (\<lambda>_.
           log_error (''could not create k8s secret for '' @ tkk_type kd)
             (token_ensureTokenSecretExists K (tkk_type kd) None (tk_name (rs_spec r)) secret)))
         else exit_with err
     | Inr existingSecret \<Rightarrow>
         on_error (token_ensureTokenSecretExists K (tkk_type kd) (Some existingSecret) (tkk_type kd) []) (\<lambda>err.
           and_then (ignoring (set_state_and_id A ResourceStateConfigError (rs_id r))) (\<lambda>_.
           exit_with (Wrap (tkk_secret_error kd) (Some err))))))"

text \<open>Creating the token. The errors of the status write and of the secret are dropped: \<open>addErr\<close>, which is nil, is returned.\<close>

definition create_token ::
  "'w kube \<Rightarrow> ('x token_spec_scheme, 'w) resource_api \<Rightarrow> ('x token_spec_scheme, 'y token_details_scheme, 'w) token_api
   \<Rightarrow> ('x token_spec_scheme, 'y token_details_scheme) token_kind \<Rightarrow> duration \<Rightarrow> humio_config
   \<Rightarrow> (('w, 'x token_spec_scheme) rst, handler_result, 'a) step" where
  "create_token K A T kd criticalErrorRequeuePeriod cfg =
     and_then (on_error (validateDependencies K T kd cfg None) (\<lambda>_. handleCriticalError A criticalErrorRequeuePeriod)) (\<lambda>validation.
     and_then (as_result (log_error (''could not create '' @ tkk_type kd)
       (call_entity Added (tka_create T cfg (tv_ip_filter_id validation) (tv_view_ids validation) (tv_permissions validation))))) (\<lambda>(tokenId, secret).
     and_then (on_error (set_state_and_id A ResourceStateExists tokenId) (\<lambda>_.
       exit_with (empty_result, Some (Wrap ''could not set Status.HumioID'' None)))) (\<lambda>_.
     and_then get_obj (\<lambda>r.
     and_then (on_error (token_ensureTokenSecretExists K (tkk_type kd) None (tk_name (rs_spec r)) secret) (\<lambda>_.
       and_then (ignoring (set_state_and_id A ResourceStateConfigError tokenId)) (\<lambda>_.
       exit_with (empty_result, Some (Wrap (''could not create k8s secret for '' @ tkk_type kd) None))))) (\<lambda>_.
     exit_with (requeue_in (5 * second), None))))))"

definition delete_token ::
  "'w kube \<Rightarrow> ('x token_spec_scheme, 'w) resource_api \<Rightarrow> ('x token_spec_scheme, 'e, 'w) token_api
   \<Rightarrow> ('x token_spec_scheme, 'e) token_kind \<Rightarrow> humio_config \<Rightarrow> (('w, 'x token_spec_scheme) rst, handler_result, 'a) step" where
  "delete_token K A T kd cfg =
     and_then get_obj (\<lambda>r.
     if \<not> ContainsElement (rs_finalizers r) HumioFinalizer then exit_with (empty_result, None)
     else
       and_then (token_look_up T cfg) (\<lambda>x.
       if missing_entity x then remove_finalizer A
       else
         and_then (on_error (token_finalize K T cfg) (\<lambda>err.
           and_then (ignoring (set_state_and_id A ResourceStateUnknown (rs_id r))) (\<lambda>_.
           exit_with (empty_result, Some (Wrap (tkk_finalize_error kd) (Some err)))))) (\<lambda>_.
         exit_with (requeue_now, None))))"

text \<open>The end of a run: what LogScale says now, with its dependencies, is recorded.\<close>

definition record_token ::
  "'w kube \<Rightarrow> ('x token_spec_scheme, 'w) resource_api \<Rightarrow> ('x token_spec_scheme, 'y token_details_scheme, 'w) token_api
   \<Rightarrow> ('x token_spec_scheme, 'y token_details_scheme) token_kind \<Rightarrow> duration \<Rightarrow> humio_config
   \<Rightarrow> go_error + 'y token_details_scheme \<Rightarrow> (('w, 'x token_spec_scheme) rst, handler_result, unit) step" where
  "record_token K A T kd criticalErrorRequeuePeriod cfg x =
     and_then get_obj (\<lambda>r.
     case x of
       Inl err \<Rightarrow> ignoring (set_state_and_id A (if is_entity_not_found err then ResourceStateNotFound else ResourceStateUnknown) (rs_id r))
     | Inr token \<Rightarrow>
         and_then (on_error (validateDependencies K T kd cfg (Some token)) (\<lambda>_. handleCriticalError A criticalErrorRequeuePeriod)) (\<lambda>_.
         ignoring (set_state_and_id A ResourceStateExists (rs_id r))))"

definition update_token ::
  "'w kube \<Rightarrow> ('x token_spec_scheme, 'w) resource_api \<Rightarrow> ('x token_spec_scheme, 'y token_details_scheme, 'w) token_api
   \<Rightarrow> ('x token_spec_scheme, 'y token_details_scheme) token_kind \<Rightarrow> duration \<Rightarrow> humio_config
   \<Rightarrow> 'y token_details_scheme \<Rightarrow> (('w, 'x token_spec_scheme) rst, handler_result, bool) step" where
  "update_token K A T kd criticalErrorRequeuePeriod cfg current =
     and_then get_obj (\<lambda>r.
     and_then (set_obj (snd (tkk_compare kd r current))) (\<lambda>_.
     if fst (tkk_compare kd r current) then ret True
     else
       and_then (on_error (validateDependencies K T kd cfg (Some current)) (\<lambda>_. handleCriticalError A criticalErrorRequeuePeriod)) (\<lambda>validation.
       and_then (as_result (log_error (''could not update '' @ tkk_type kd)
         (call_entity Updated (tka_update T cfg (tv_permissions validation))))) (\<lambda>_.
       ret False))))"

definition reconcile_token ::
  "'w kube \<Rightarrow> ('x token_spec_scheme, 'w) resource_api \<Rightarrow> ('x token_spec_scheme, 'y token_details_scheme, 'w) token_api
   \<Rightarrow> ('x token_spec_scheme, 'y token_details_scheme) token_kind \<Rightarrow> duration \<Rightarrow> duration \<Rightarrow> humio_config
   \<Rightarrow> (('w, 'x token_spec_scheme) rst, handler_result, handler_result) step" where
  "reconcile_token K A T kd criticalErrorRequeuePeriod requeuePeriod cfg =
     and_then get_obj (\<lambda>r.
     if rs_deleted r then delete_token K A T kd cfg
     else
       and_then (as_result (token_addFinalizer A)) (\<lambda>_.
       and_then (token_look_up T cfg) (\<lambda>x.
       case x of
         Inl err \<Rightarrow>
           if is_entity_not_found err then create_token K A T kd criticalErrorRequeuePeriod cfg
           else exit_with (empty_result, Some (Wrap (''could not check if '' @ tkk_type kd @ '' exists'') (Some err)))
       | Inr current \<Rightarrow>
           and_then (update_token K A T kd criticalErrorRequeuePeriod cfg current) (\<lambda>asExpected.
           and_then (as_result (ensureTokenSecret K A T kd cfg)) (\<lambda>_.
           and_then (if asExpected then ret (Inr current) else token_look_up T cfg) (\<lambda>last.
           and_then (record_token K A T kd criticalErrorRequeuePeriod cfg last) (\<lambda>_.
           ret (requeue_in requeuePeriod, None))))))))"

text \<open>A resource that cannot be read ends the run without an error: the object is nil before the error is looked at.\<close>

definition fetch_token ::
  "('spec, 'w) resource_api \<Rightarrow> string \<Rightarrow> string \<Rightarrow> (('w, 'spec) rst, handler_result, unit) step" where
  "fetch_token A ns name =
     and_then (observe (on_server (ra_get A ns name))) (\<lambda>x.
     case x of Inl _ \<Rightarrow> exit_with (empty_result, None) | Inr r \<Rightarrow> set_obj r)"

definition token_client ::
  "lib \<Rightarrow> 'w kube \<Rightarrow> ('spec, 'w) resource_api \<Rightarrow> ('spec, 'e) token_kind \<Rightarrow> (('w, 'spec) rst, handler_result, humio_config) step" where
  "token_client L K A kd =
     and_then get_obj (\<lambda>r.
     on_error (cluster_of L K r) (\<lambda>err.
       let config_error = set_state_and_id A ResourceStateConfigError (rs_id r) in
       and_then (case tkk_state_error kd of
                   None \<Rightarrow> ignoring config_error
                 | Some msg \<Rightarrow> as_result (log_error msg config_error)) (\<lambda>_.
       exit_with (empty_result, Some (Wrap ''unable to obtain humio client config'' (Some err))))))"

definition token_Reconcile ::
  "('x token_spec_scheme, 'y token_details_scheme) token_kind \<Rightarrow> lib \<Rightarrow> 'w kube \<Rightarrow> ('x token_spec_scheme, 'w) resource_api
   \<Rightarrow> ('x token_spec_scheme, 'y token_details_scheme, 'w) token_api \<Rightarrow> duration \<Rightarrow> duration \<Rightarrow> string \<Rightarrow> string \<Rightarrow> string
   \<Rightarrow> ('w, 'x token_spec_scheme) rst \<Rightarrow> handler_result \<times> ('w, 'x token_spec_scheme) rst" where
  "token_Reconcile kd L K A T criticalErrorRequeuePeriod requeuePeriod onlyNamespace ns name =
     returned
       (and_then (watched onlyNamespace ns) (\<lambda>_.
        and_then (fetch_token A ns name) (\<lambda>_.
        and_then (token_client L K A kd) (\<lambda>cfg.
        reconcile_token K A T kd criticalErrorRequeuePeriod requeuePeriod cfg))))"

section \<open>The three kinds\<close>

text \<open>The comparison sorts the permissions of the resource in place; nil and empty differ.\<close>

definition permissions_as_expected ::
  "'x token_spec_scheme resource \<Rightarrow> 'y token_details_scheme \<Rightarrow> bool \<times> 'x token_spec_scheme resource" where
  "permissions_as_expected fromK8s fromGql =
     (let permsFromK8s = sort_strings (tk_permissions (rs_spec fromK8s))
      in (permsFromK8s = sort_strings (tkd_permissions fromGql), fromK8s\<lparr>rs_spec := (rs_spec fromK8s)\<lparr>tk_permissions := permsFromK8s\<rparr>\<rparr>))"

definition viewTokenAlreadyAsExpected ::
  "view_token_spec resource \<Rightarrow> view_token_details \<Rightarrow> bool \<times> view_token_spec resource" where
  "viewTokenAlreadyAsExpected fromK8s fromGql =
     (FixPermissions (tk_permissions (rs_spec fromK8s)) = FixPermissions (tkd_permissions fromGql), fromK8s)"

definition system_token_kind :: "(token_spec, token_details) token_kind" where
  "system_token_kind = \<lparr>tkk_type = ''SystemToken'', tkk_state_error = Some ''unable to set cluster state'',
     tkk_finalize_error = ''Finalize method returned an error'', tkk_secret_error = ''could not ensure SystemToken k8s secret exists'',
     tkk_all_permissions = AllSystemPermission, tkk_views = (\<lambda>_. None), tkk_held_views = (\<lambda>_. []),
     tkk_compare = permissions_as_expected\<rparr>"

definition organization_token_kind :: "(token_spec, token_details) token_kind" where
  "organization_token_kind = \<lparr>tkk_type = ''OrganizationToken'', tkk_state_error = Some ''unable to set cluster state'',
     tkk_finalize_error = ''finalize method returned an error'', tkk_secret_error = ''could not ensure OrganizationToken k8s secret exists'',
     tkk_all_permissions = AllOrganizationPermission, tkk_views = (\<lambda>_. None), tkk_held_views = (\<lambda>_. []),
     tkk_compare = permissions_as_expected\<rparr>"

definition view_token_kind :: "(view_token_spec, view_token_details) token_kind" where
  "view_token_kind = \<lparr>tkk_type = ''ViewToken'', tkk_state_error = None,
     tkk_finalize_error = ''finalize method returned an error'', tkk_secret_error = ''could not ensure updated k8s secret for ViewToken'',
     tkk_all_permissions = AllPermission, tkk_views = (\<lambda>spec. Some (tk_view_names spec)), tkk_held_views = tkd_views,
     tkk_compare = viewTokenAlreadyAsExpected\<rparr>"

definition HumioSystemTokenReconciler_Reconcile ::
  "lib \<Rightarrow> 'w kube \<Rightarrow> (token_spec, 'w) resource_api \<Rightarrow> (token_spec, token_details, 'w) token_api
   \<Rightarrow> duration \<Rightarrow> duration \<Rightarrow> string \<Rightarrow> string \<Rightarrow> string \<Rightarrow> ('w, token_spec) rst \<Rightarrow> handler_result \<times> ('w, token_spec) rst" where
  "HumioSystemTokenReconciler_Reconcile = token_Reconcile system_token_kind"

definition HumioOrganizationTokenReconciler_Reconcile ::
  "lib \<Rightarrow> 'w kube \<Rightarrow> (token_spec, 'w) resource_api \<Rightarrow> (token_spec, token_details, 'w) token_api
   \<Rightarrow> duration \<Rightarrow> duration \<Rightarrow> string \<Rightarrow> string \<Rightarrow> string \<Rightarrow> ('w, token_spec) rst \<Rightarrow> handler_result \<times> ('w, token_spec) rst" where
  "HumioOrganizationTokenReconciler_Reconcile = token_Reconcile organization_token_kind"

definition HumioViewTokenReconciler_Reconcile ::
  "lib \<Rightarrow> 'w kube \<Rightarrow> (view_token_spec, 'w) resource_api \<Rightarrow> (view_token_spec, view_token_details, 'w) token_api
   \<Rightarrow> duration \<Rightarrow> duration \<Rightarrow> string \<Rightarrow> string \<Rightarrow> string \<Rightarrow> ('w, view_token_spec) rst \<Rightarrow> handler_result \<times> ('w, view_token_spec) rst" where
  "HumioViewTokenReconciler_Reconcile = token_Reconcile view_token_kind"

end
