(* ===== verification/Token_Safety.thy ===== *)
theory Token_Safety
  imports Token_Controllers
begin

text \<open>
  What the token controllers do to Kubernetes secrets and to LogScale. Secrets are seen through the trace \<open>calls\<close> of the
  mutating calls, LogScale through the log \<open>rlog\<close>. \<open>asks P m\<close> says that every mutating call of \<open>m\<close> satisfies \<open>P\<close>.
\<close>

section \<open>The loop of FixPermissions\<close>

definition fix_set :: "string set \<Rightarrow> string set" where
  "fix_set S = (\<Union>perm\<in>S. set (specific_permissions perm))"

definition equivalents :: "(string \<times> string list) list" where
  "equivalents =
    [(''ChangeActions'', [''CreateActions'', ''UpdateActions'', ''DeleteActions'']),
     (''ChangeTriggers'', [''CreateTriggers'', ''UpdateTriggers'', ''DeleteTriggers'']),
     (''ChangeScheduledReports'', [''CreateScheduledReports'', ''UpdateScheduledReports'', ''DeleteScheduledReports'']),
     (''ChangeSavedQueries'', [''CreateSavedQueries'', ''UpdateSavedQueries'', ''DeleteSavedQueries'']),
     (''ChangeDashboards'', [''CreateDashboards'', ''UpdateDashboards'', ''DeleteDashboards'']),
     (''ChangeFiles'', [''CreateFiles'', ''UpdateFiles'', ''DeleteFiles''])]"

lemma equivalents_map_of: "EquivalentSpecificPermissions = map_of equivalents"
  by (simp only: EquivalentSpecificPermissions_def equivalents_def map_of.simps fst_conv snd_conv)

lemma equivalents_disjoint: "list_all (\<lambda>x. list_all (\<lambda>e. e \<notin> set (map fst equivalents)) (snd x)) equivalents"
  by (simp add: equivalents_def)

lemma equivalents_are_plain:
  assumes "EquivalentSpecificPermissions perm = Some extPerms" and "e \<in> set extPerms"
  shows "EquivalentSpecificPermissions e = None"
proof -
  have "(perm, extPerms) \<in> set equivalents" using assms(1) unfolding equivalents_map_of by (rule map_of_SomeD)
  then have "e \<notin> set (map fst equivalents)"
    using equivalents_disjoint assms(2) unfolding list_all_iff by (metis snd_conv)
  then show ?thesis by (simp add: equivalents_map_of map_of_eq_None_iff)
qed

lemma fix_set_plain: "(\<And>p. p \<in> S \<Longrightarrow> EquivalentSpecificPermissions p = None) \<Longrightarrow> fix_set S = S"
  by (auto simp: fix_set_def specific_permissions_def)

definition range_invariant :: "string set \<Rightarrow> string set \<times> string set \<Rightarrow> bool" where
  "range_invariant S x \<longleftrightarrow> finite (snd x) \<and> snd x \<subseteq> fst x \<and> fix_set (fst x) = fix_set S
     \<and> (\<forall>p\<in>fst x. EquivalentSpecificPermissions p \<noteq> None \<longrightarrow> p \<in> snd x)"

lemma fix_set_step:
  assumes "EquivalentSpecificPermissions perm = Some extPerms" and "perm \<in> permSet"
  shows "fix_set (permSet \<union> set extPerms - {perm}) = fix_set permSet"
proof -
  have out: "set (specific_permissions perm) = set extPerms" "perm \<notin> set extPerms"
    using assms(1) equivalents_are_plain [OF assms(1)] by (auto simp: specific_permissions_def)
  have "fix_set (set extPerms) = set extPerms"
    by (rule fix_set_plain) (rule equivalents_are_plain [OF assms(1)])
  then have exts: "(\<Union>p\<in>set extPerms. set (specific_permissions p)) = set extPerms" by (simp add: fix_set_def)
  have "permSet \<union> set extPerms - {perm} = (permSet - {perm}) \<union> set extPerms" using out(2) by blast
  then have "fix_set (permSet \<union> set extPerms - {perm}) = fix_set (permSet - {perm}) \<union> set extPerms"
    using exts by (simp add: fix_set_def)
  moreover have "fix_set permSet = fix_set (permSet - {perm}) \<union> set extPerms"
    using out(1) assms(2) unfolding fix_set_def by blast
  ultimately show ?thesis by simp
qed

lemma ranges_invariant: "ranges x y \<Longrightarrow> range_invariant S x \<Longrightarrow> range_invariant S y"
proof (induction rule: ranges.induct)
  case (listed perm todo extPerms found permSet)
  have keys: "\<forall>p\<in>set extPerms. EquivalentSpecificPermissions p = None"
    using equivalents_are_plain [OF listed(2)] by blast
  have inv: "finite todo" "todo \<subseteq> permSet" "fix_set permSet = fix_set S"
      "\<forall>p\<in>permSet. EquivalentSpecificPermissions p \<noteq> None \<longrightarrow> p \<in> todo"
    using listed(4) by (simp_all add: range_invariant_def)
  have "finite found" using listed(3) by (rule finite_subset) simp
  moreover have "perm \<notin> set extPerms" using keys listed(2) by auto
  moreover have "fix_set (permSet \<union> set extPerms - {perm}) = fix_set S"
    using fix_set_step [OF listed(2)] listed(1) inv by blast
  moreover have "todo - {perm} \<union> found \<subseteq> permSet \<union> set extPerms - {perm}"
    using \<open>perm \<notin> set extPerms\<close> inv(2) listed(3) by blast
  moreover have "\<forall>p\<in>permSet \<union> set extPerms - {perm}. EquivalentSpecificPermissions p \<noteq> None \<longrightarrow> p \<in> todo - {perm} \<union> found"
    using inv(4) keys by auto
  ultimately show ?case using inv(1) by (simp add: range_invariant_def)
next
  case (plain perm todo permSet)
  then show ?case unfolding range_invariant_def fst_conv snd_conv by blast
qed

text \<open>Listed permissions go from \<open>todo\<close> one by one; between two of them, plain ones do.\<close>

definition range_measure :: "(string set \<times> string set) rel" where
  "range_measure = measures [\<lambda>x. card (snd x \<inter> {p. EquivalentSpecificPermissions p \<noteq> None}), \<lambda>x. card (snd x)]"

lemma ranges_decrease:
  assumes "ranges x y" and "finite (snd x)"
  shows "(y, x) \<in> range_measure"
  using assms
proof (induction rule: ranges.induct)
  case (listed perm todo extPerms found permSet)
  let ?keys = "{p. EquivalentSpecificPermissions p \<noteq> None}"
  have "\<forall>p\<in>set extPerms. p \<notin> ?keys" using equivalents_are_plain [OF listed(2)] by simp
  then have "(todo - {perm} \<union> found) \<inter> ?keys = (todo \<inter> ?keys) - {perm}" using listed(3) by (intro equalityI subsetI) blast+
  moreover have "card ((todo \<inter> ?keys) - {perm}) < card (todo \<inter> ?keys)"
    by (rule card_Diff1_less) (use listed(1,2,4) in simp_all)
  ultimately show ?case by (simp add: range_measure_def del: not_None_eq)
next
  case (plain perm todo permSet)
  have "(todo - {perm}) \<inter> {p. EquivalentSpecificPermissions p \<noteq> None} = todo \<inter> {p. EquivalentSpecificPermissions p \<noteq> None}"
    using plain(2) by auto
  then show ?case using plain card_Diff1_less [of todo perm] by (simp add: range_measure_def)
qed

lemma ranges_continue: "todo \<noteq> {} \<Longrightarrow> \<exists>y. ranges (permSet, todo) y"
  by (cases "EquivalentSpecificPermissions (SOME p. p \<in> todo)")
    (metis ranges.plain some_in_eq, metis ranges.listed some_in_eq empty_subsetI)

lemma ranges_reach_end:
  assumes "range_invariant S x"
  shows "\<exists>P. ranges\<^sup>*\<^sup>* x (P, {})"
  using assms
proof (induction x rule: wf_induct [of range_measure])
  case 1
  show ?case by (simp add: range_measure_def)
next
  case (2 x)
  show ?case
  proof (cases "snd x = {}")
    case True
    then show ?thesis by (metis prod.collapse rtranclp.rtrancl_refl)
  next
    case False
    then obtain y where y: "ranges x y" using ranges_continue [of "snd x" "fst x"] by auto
    then have "(y, x) \<in> range_measure" using 2(2) by (intro ranges_decrease) (auto simp: range_invariant_def)
    then show ?thesis using 2 ranges_invariant [OF y] converse_rtranclp_into_rtranclp [of ranges, OF y] by blast
  qed
qed

lemma FixPermissions_set: "set (elements (FixPermissions permissions)) = fix_set (insert ''OrganizationOwnedQueries'' (set (elements permissions)))"
  by (simp add: FixPermissions_def fixed_permissions_def fix_set_def)

text \<open>
  Claim C40. The loop of \<open>FixPermissions\<close> ends, and what it computes does not depend on the order of the map. The loop removes and adds
  entries of the map it ranges over; Go visits the entries in any order and may or may not produce those that were added. From
  the permissions given and the one that is always added, no order of visits goes on for ever, and every one that is through
  leaves the same set, the one of \<open>FixPermissions\<close>.
\<close>

theorem FixPermissions_loop_ends:
  "(\<nexists>f. f 0 = (insert ''OrganizationOwnedQueries'' (set permissions), insert ''OrganizationOwnedQueries'' (set permissions))
       \<and> (\<forall>i. ranges (f i) (f (Suc i))))
   \<and> {permSet. ranges\<^sup>*\<^sup>* (insert ''OrganizationOwnedQueries'' (set permissions), insert ''OrganizationOwnedQueries'' (set permissions)) (permSet, {})}
       = {set (elements (FixPermissions (Some permissions)))}"
proof (rule conjI, rule notI)
  let ?S = "insert ''OrganizationOwnedQueries'' (set permissions)"
  have start: "range_invariant ?S (?S, ?S)" by (auto simp: range_invariant_def)
  assume "\<exists>f. f 0 = (?S, ?S) \<and> (\<forall>i. ranges (f i) (f (Suc i)))"
  then obtain f where f: "f 0 = (?S, ?S)" "\<And>i. ranges (f i) (f (Suc i))" by blast
  have "range_invariant ?S (f i)" for i
    using start f by (induction i) (auto intro: ranges_invariant)
  then have "(f (Suc i), f i) \<in> range_measure" for i
    using f(2) by (intro ranges_decrease) (auto simp: range_invariant_def)
  moreover have "wf range_measure" by (simp add: range_measure_def)
  ultimately show False using wf_iff_no_infinite_down_chain by blast
next
  let ?S = "insert ''OrganizationOwnedQueries'' (set permissions)"
  have start: "range_invariant ?S (?S, ?S)" by (auto simp: range_invariant_def)
  have "P = fix_set ?S" if "ranges\<^sup>*\<^sup>* (?S, ?S) (P, {})" for P
  proof -
    have "range_invariant ?S (P, {})"
      using that start by (induction rule: rtranclp_induct) (auto intro: ranges_invariant)
    then show ?thesis using fix_set_plain [of P] by (auto simp: range_invariant_def)
  qed
  with ranges_reach_end [OF start]
  show "{permSet. ranges\<^sup>*\<^sup>* (?S, ?S) (permSet, {})} = {set (elements (FixPermissions (Some permissions)))}"
    by (auto simp: FixPermissions_set)
qed

section \<open>Mutating calls of a reconciliation\<close>

definition asks :: "(api_call \<Rightarrow> bool) \<Rightarrow> (('w, 'spec) rst \<Rightarrow> 'x \<times> ('w, 'spec) rst) \<Rightarrow> bool" where
  "asks P m \<longleftrightarrow> (\<forall>s. \<exists>cs. calls (base (snd (m s))) = calls (base s) @ cs \<and> list_all P cs)"

named_theorems asks_intros \<open>the mutating calls of a step\<close>

lemma asks_at: "asks P m \<Longrightarrow> \<exists>cs. calls (base (snd (m s))) = calls (base s) @ cs \<and> list_all P cs"
  by (simp add: asks_def)

lemma asks_nothing: "(\<And>s. calls (base (snd (m s))) = calls (base s)) \<Longrightarrow> asks P m"
  by (simp add: asks_def)

lemma asks_simple [asks_intros]:
  "asks P (ret a)" "asks P (exit_with r)" "asks P get_obj" "asks P (set_obj x)" "asks P (on_server f)"
  "asks P (call_entity c g)" "asks P (update_resource A)" "asks P (update_resource_status A)" "asks P (token_look_up T cfg)"
  by (rule asks_nothing; simp add: ret_def exit_with_def get_obj_def set_obj_def on_server_def call_entity_def
      update_resource_def update_resource_status_def write_with_def note_call_def token_look_up_def observe_def split: sum.split)+

lemma asks_on_base [asks_intros]: "adds_only P m \<Longrightarrow> asks P (on_base m)"
  by (auto simp: asks_def adds_only_def emits_def on_base_def)

lemma asks_chain:
  assumes "\<exists>cs. calls (base s') = calls (base s) @ cs \<and> list_all P cs" and "asks P f"
  shows "\<exists>cs. calls (base (snd (f s'))) = calls (base s) @ cs \<and> list_all P cs"
  using assms unfolding asks_def by (metis append.assoc list_all_append)

lemma asks_and_then [asks_intros]: "asks P m \<Longrightarrow> (\<And>a. asks P (f a)) \<Longrightarrow> asks P (and_then m f)"
  unfolding asks_def [of P "and_then m f"]
proof (rule allI)
  fix s assume m: "asks P m" and f: "\<And>a. asks P (f a)"
  obtain x s' where run: "m s = (x, s')" by fastforce
  then have first: "\<exists>cs. calls (base s') = calls (base s) @ cs \<and> list_all P cs" using asks_at [OF m, of s] by simp
  show "\<exists>cs. calls (base (snd (and_then m f s))) = calls (base s) @ cs \<and> list_all P cs"
    using first asks_chain [OF first f] run by (cases x) (simp_all add: and_then_def)
qed

lemma asks_on_error [asks_intros]: "asks P m \<Longrightarrow> (\<And>e. asks P (h e)) \<Longrightarrow> asks P (on_error m h)"
  unfolding asks_def [of P "on_error m h"]
proof (rule allI)
  fix s assume m: "asks P m" and f: "\<And>a. asks P (h a)"
  obtain x s' where run: "m s = (x, s')" by fastforce
  then have first: "\<exists>cs. calls (base s') = calls (base s) @ cs \<and> list_all P cs" using asks_at [OF m, of s] by simp
  show "\<exists>cs. calls (base (snd (on_error m h s))) = calls (base s) @ cs \<and> list_all P cs"
    using first asks_chain [OF first f] run by (cases x) (simp_all add: on_error_def)
qed

lemma asks_frame [asks_intros]:
  "asks P m \<Longrightarrow> asks P (observe m)" "asks P m \<Longrightarrow> asks P (ignoring m)"
  "asks P n \<Longrightarrow> asks P (log_error msg n)" "asks P n \<Longrightarrow> asks P (as_result n)"
proof -
  show "asks P m \<Longrightarrow> asks P (observe m)" "asks P m \<Longrightarrow> asks P (ignoring m)"
    by (simp_all add: asks_def observe_def ignoring_def)
  show "asks P n \<Longrightarrow> asks P (log_error msg n)" "asks P n \<Longrightarrow> asks P (as_result n)"
    unfolding log_error_def as_result_def by (rule asks_on_error, assumption, rule asks_simple)+
qed

lemma asks_branch [asks_intros]:
  "(b \<Longrightarrow> asks P m) \<Longrightarrow> (\<not> b \<Longrightarrow> asks P n) \<Longrightarrow> asks P (if b then m else n)"
  "(\<And>a. x = Inl a \<Longrightarrow> asks P (f1 a)) \<Longrightarrow> (\<And>b. x = Inr b \<Longrightarrow> asks P (f2 b)) \<Longrightarrow> asks P (case x of Inl a \<Rightarrow> f1 a | Inr b \<Rightarrow> f2 b)"
  "(y = None \<Longrightarrow> asks P g1) \<Longrightarrow> (\<And>b. y = Some b \<Longrightarrow> asks P (g2 b)) \<Longrightarrow> asks P (case y of None \<Rightarrow> g1 | Some b \<Rightarrow> g2 b)"
  "(\<And>a b. z = (a, b) \<Longrightarrow> asks P (k a b)) \<Longrightarrow> asks P (case z of (a, b) \<Rightarrow> k a b)"
  by (simp_all split: sum.split option.split prod.split)

lemma asks_fold_step [asks_intros]: "(\<And>x b. asks P (f x b)) \<Longrightarrow> asks P (fold_step f xs b)"
  by (induction xs arbitrary: b) (auto intro: asks_intros)

text \<open>What follows a read whose answer is known.\<close>

lemma asks_read:
  assumes "asks P m" and "\<And>s. fst (m s) = x" and "asks P (f x)"
  shows "asks P (and_then (observe m) f)"
proof -
  have "and_then (observe m) f = and_then (observe m) (\<lambda>_. f x)"
    by (rule ext) (simp add: and_then_def observe_def assms(2))
  moreover have "asks P (and_then (observe m) (\<lambda>_. f x))"
    by (rule asks_and_then, rule asks_frame(1), rule assms(1), rule assms(3))
  ultimately show ?thesis by simp
qed

lemma asks_set_state_and_id [asks_intros]: "asks P (set_state_and_id A state i)"
  unfolding set_state_and_id_def by (intro asks_intros)

lemma asks_critical [asks_intros]: "asks P (handleCriticalError A period)"
  unfolding handleCriticalError_def by (intro asks_intros)

lemma asks_add_finalizer [asks_intros]: "asks P (token_addFinalizer A)"
  unfolding token_addFinalizer_def by (intro asks_intros)

lemma asks_validation [asks_intros]: "asks P (validateDependencies K T kd cfg current)"
  unfolding validateDependencies_def validateExpireAt_def validateIPFilter_def validateViews_def Let_def
  by (intro asks_intros trace_intros)

lemma asks_update_token [asks_intros]: "asks P (update_token K A T kd critical cfg current)"
  unfolding update_token_def by (intro asks_intros)

lemma asks_record_token [asks_intros]: "asks P (record_token K A T kd critical cfg x)"
  unfolding record_token_def by (intro asks_intros)

lemma asks_token_client: "asks P (token_client L K A kd)"
  unfolding token_client_def cluster_of_def Let_def by (intro asks_intros trace_intros)

text \<open>The frame of a run: the resource is the one read, and the client is made without a mutating call.\<close>

lemma token_client_keeps: "token_client L K A kd s = (Inr cfg, s') \<Longrightarrow> robj s' = robj s"
  by (auto simp: token_client_def and_then_def on_error_def get_obj_def cluster_of_def on_base_def exit_with_def Let_def
      split: prod.splits sum.splits)

lemma token_run_calls:
  assumes "fst (ra_get A ns name (server (base s))) = Inr r"
    and "\<And>cfg s'. robj s' = r \<Longrightarrow>
      \<exists>cs. calls (base (snd (reconcile_token K A T kd critical period cfg s'))) = calls (base s') @ cs \<and> list_all P cs"
  shows "\<exists>cs. calls (base (snd (token_Reconcile kd L K A T critical period only ns name s))) = calls (base s) @ cs \<and> list_all P cs"
proof (cases "only \<noteq> [] \<and> only \<noteq> ns")
  case True
  then show ?thesis by (auto simp: token_Reconcile_def returned_def and_then_def watched_def exit_with_def)
next
  case False
  let ?s = "s\<lparr>base := (base s)\<lparr>server := snd (ra_get A ns name (server (base s)))\<rparr>, robj := r\<rparr>"
  have start: "watched only ns s = (Inr (), s)" "fetch_token A ns name s = (Inr (), ?s)"
    using False assms(1) by (auto simp: watched_def ret_def fetch_token_def and_then_def observe_def on_server_def set_obj_def)
  obtain x s1 where client: "token_client L K A kd ?s = (x, s1)" by fastforce
  have calls1: "\<exists>cs. calls (base s1) = calls (base s) @ cs \<and> list_all P cs"
    using asks_at [of P "token_client L K A kd" ?s] asks_token_client [of P L K A kd] client by simp
  show ?thesis
  proof (cases x)
    case (Inl e)
    then show ?thesis using start client calls1 by (simp add: token_Reconcile_def returned_def and_then_def)
  next
    case (Inr cfg)
    have "robj s1 = r" using token_client_keeps client Inr by fastforce
    then obtain cs where "calls (base (snd (reconcile_token K A T kd critical period cfg s1))) = calls (base s1) @ cs" "list_all P cs"
      using assms(2) by blast
    then show ?thesis using start client calls1 Inr
      by (auto simp: token_Reconcile_def returned_def and_then_def split: prod.split sum.split)
  qed
qed

section \<open>The secret of a token\<close>

definition token_in :: "k8s_object \<Rightarrow> string" where
  "token_in ob = map_get (ko_data ob) ''token''"

text \<open>A write that leaves the token of the secret \<open>ob\<close> in place. Creating a secret that exists is refused by the API server.\<close>

definition keeps_token_of :: "k8s_object \<Rightarrow> api_call \<Rightarrow> bool" where
  "keeps_token_of ob c \<longleftrightarrow>
     (\<exists>new. c = CreateObject SecretKind new)
     \<or> (\<exists>new. c = UpdateObject SecretKind new \<and> token_in new = token_in ob
           \<and> map_get (ko_data ob) ''resourceName'' = map_get (ko_data new) ''resourceName'' \<and> HumioFinalizer \<in> set (ko_finalizers new))"

lemma token_secret_data [simp]:
  "map_get (ko_data (token_secret type r v)) ''token'' = v" "map_get (ko_data (token_secret type r v)) ''resourceName'' = tk_name (rs_spec r)"
  "ko_finalizers (token_secret type r v) = [HumioFinalizer]"
  by (simp_all add: token_secret_def ConstructSecret_def map_get_def)

lemma asks_existing:
  "asks (keeps_token_of ob) (token_ensureTokenSecretExists K type (Some ob) name [])"
  unfolding token_ensureTokenSecretExists_def create_object_def update_object_def Let_def
  by (intro asks_intros trace_intros) (auto simp: keeps_token_of_def token_in_def)

lemma asks_new: "asks (keeps_token_of ob) (token_ensureTokenSecretExists K type None name secret)"
  unfolding token_ensureTokenSecretExists_def create_object_def update_object_def Let_def
  by (intro asks_intros trace_intros) (auto simp: keeps_token_of_def)

lemma asks_create_token: "asks (keeps_token_of ob) (create_token K A T kd critical cfg)"
  unfolding create_token_def by (intro asks_intros asks_new)

lemma asks_ensureTokenSecret:
  assumes "\<And>n ns w. fst (k_get_object K SecretKind n ns w) = Inr ob"
  shows "asks (keeps_token_of ob) (ensureTokenSecret K A T kd cfg)"
  unfolding ensureTokenSecret_def
  by (rule asks_and_then, rule asks_simple, rule asks_read [where x = "Inr ob"])
    (auto intro!: asks_intros trace_intros asks_existing simp: on_base_def query_def assms)


text \<open>
  Claim C28. Deleting a token wipes and deletes the secret it names without looking at it. When the resource is being deleted
  with its finalizer, LogScale still has the token and deletes it, and the API server accepts the update, the run writes a
  secret without data under the name of the token's secret and deletes that secret, whatever the secret held and whichever
  resource it belonged to: no secret is read. The check for the name of the resource, made before every other update of an
  existing secret, is missing here.
\<close>

theorem deletion_wipes_any_secret:
  fixes s :: "('w, 'x token_spec_scheme) rst"
  assumes "connects L K r cfg" and "only = [] \<or> only = ns" and "fst (ra_get A ns name (server (base s))) = Inr r"
    and "rs_deleted r" and "HumioFinalizer \<in> set (rs_finalizers r)" and "rs_id r \<noteq> []"
    and "\<And>w. \<exists>e. fst (tka_get T cfg r w) = Inr e" and "\<And>w. fst (tka_delete T cfg r w) = Inr ()"
    and "\<And>ob w. fst (k_update_object K SecretKind ob w) = Inr ()"
  shows "\<exists>s' ob. token_Reconcile kd L K A T critical period only ns name s = ((requeue_now, None), s')
     \<and> calls (base s') = calls (base s) @ [UpdateObject SecretKind ob, DeleteObject SecretKind ob]
     \<and> ko_name ob = tk_secret_name (rs_spec r) \<and> ko_namespace ob = rs_namespace r \<and> ko_data ob = Map.empty"
proof -
  let ?s = "s\<lparr>base := (base s)\<lparr>server := snd (ra_get A ns name (server (base s)))\<rparr>, robj := r\<rparr>"
  have start: "watched only ns s = (Inr (), s)" "fetch_token A ns name s = (Inr (), ?s)"
    using assms(2,3) by (auto simp: watched_def ret_def fetch_token_def and_then_def observe_def on_server_def set_obj_def)
  have "token_client L K A kd ?s = (Inr cfg, ?s)"
    using assms(1) by (simp add: token_client_def and_then_def get_obj_def on_error_def connects_def)
  then have run: "token_Reconcile kd L K A T critical period only ns name s = returned (delete_token K A T kd cfg) ?s"
    using start assms(4) by (simp add: token_Reconcile_def returned_def and_then_def reconcile_token_def get_obj_def)
  obtain e where "fst (tka_get T cfg r (server (base ?s))) = Inr e" using assms(7) by blast
  then obtain s1 where look: "token_look_up T cfg ?s = (Inr (Inr e) :: handler_result + _, s1)" "robj s1 = r" "calls (base s1) = calls (base s)"
    by (auto simp: token_look_up_def observe_def on_server_def note_call_def split: prod.splits)
  obtain s2 where fin: "token_finalize K T cfg s1 = (Inr (), s2)"
    "calls (base s2) = calls (base s) @ (let ob = zero_object\<lparr>ko_name := tk_secret_name (rs_spec r), ko_namespace := rs_namespace r\<rparr>
       in [UpdateObject SecretKind ob, DeleteObject SecretKind ob])"
    using look(2,3) assms(6,8,9)
    by (simp add: token_finalize_def and_then_def get_obj_def log_error_def on_error_def call_entity_def on_server_def
        note_call_def on_base_def update_object_def delete_object_def act_def ignoring_def Let_def)
  have "returned (delete_token K A T kd cfg) ?s = ((requeue_now, None), s2)"
    using look(1) fin(1) assms(5)
    by (simp add: delete_token_def returned_def and_then_def get_obj_def ContainsElement_def missing_entity_def on_error_def exit_with_def)
  with run fin(2) show ?thesis by (simp add: Let_def zero_object_def)
qed

section \<open>The protocol\<close>

lemma logs_token_look_up_then:
  fixes f :: "go_error + 'e \<Rightarrow> (('w, 'spec) rst, 'r, 'a) step"
  assumes "\<And>x. logs (obeys d (Some (Looked_up (outcome x)))) (f x)"
  shows "keeps_protocol d (and_then (token_look_up T cfg) f)"
proof (rule logsI)
  fix s
  obtain x s1 where look: "token_look_up T cfg s = (Inr x :: 'r + _, s1)" by (auto simp: token_look_up_def observe_def)
  then have log: "rlog s1 = rlog s @ [Looked_up (outcome x)]"
    by (auto simp: token_look_up_def observe_def on_server_def note_call_def split: prod.splits)
  obtain cs where "rlog (snd (f x s1)) = rlog s1 @ cs" "obeys d (Some (Looked_up (outcome x))) cs"
    using assms unfolding logs_def by blast
  with look log show "\<exists>cs. rlog (snd (and_then (token_look_up T cfg) f s)) = rlog s @ cs \<and> obeys d None cs"
    by (simp add: and_then_def)
qed

lemma keeps_protocol_token_look_up [protocol_intros]: "keeps_protocol d (token_look_up T cfg)"
  by (rule logsI) (simp add: token_look_up_def observe_def on_server_def note_call_def split: prod.split)

lemma keeps_protocol_set_state_and_id [protocol_intros]: "keeps_protocol d (set_state_and_id A state i)"
  unfolding set_state_and_id_def by (intro protocol_intros)

lemma keeps_protocol_pair [protocol_intros]:
  "(\<And>a b. z = (a, b) \<Longrightarrow> keeps_protocol d (k a b)) \<Longrightarrow> keeps_protocol d (case z of (a, b) \<Rightarrow> k a b)"
  by (simp split: prod.split)

lemma silent_validateDependencies [silent_intros]: "silent (validateDependencies K T kd cfg current)"
  unfolding validateDependencies_def validateExpireAt_def validateIPFilter_def validateViews_def Let_def
  by (intro silent_intros)

lemmas keeps_protocol_validation [protocol_intros] = silent_keeps_protocol [OF silent_validateDependencies]

lemma keeps_protocol_token_steps [protocol_intros]:
  "keeps_protocol d (handleCriticalError A critical)" "keeps_protocol d (token_client L K A kd)"
  "keeps_protocol d (token_ensureTokenSecretExists K type ob name secret)" "keeps_protocol d (ensureTokenSecret K A T kd cfg)"
  "keeps_protocol d (record_token K A T kd' critical cfg x)"
  unfolding handleCriticalError_def token_client_def token_ensureTokenSecretExists_def ensureTokenSecret_def record_token_def
    cluster_of_def Let_def
  by (intro protocol_intros)+

text \<open>A check that logs nothing and ends the run when it fails.\<close>

lemma logs_guard:
  assumes "silent m" and "\<And>e s. \<exists>r t. h e s = (Inl r, t)" and "\<And>e. keeps_protocol d (h e)" and "\<And>a. logs (obeys d p) (f a)"
  shows "logs (obeys d p) (and_then (on_error m h) f)"
proof (rule logsI)
  fix s
  obtain x s1 where m: "m s = (x, s1)" by fastforce
  then have log: "rlog s1 = rlog s" using assms(1) unfolding silent_def by (metis snd_conv)
  show "\<exists>cs. rlog (snd (and_then (on_error m h) f s)) = rlog s @ cs \<and> obeys d p cs"
  proof (cases x)
    case (Inl e)
    obtain r t where "h e s1 = (Inl r, t)" using assms(2) by blast
    moreover obtain cs where "rlog (snd (h e s1)) = rlog s1 @ cs" "obeys d None cs" using assms(3) unfolding logs_def by blast
    ultimately show ?thesis using m Inl log by (auto simp: and_then_def on_error_def intro: obeys_after)
  next
    case (Inr a)
    obtain cs where "rlog (snd (f a s1)) = rlog s1 @ cs" "obeys d p cs" using assms(4) unfolding logs_def by blast
    then show ?thesis using m Inr log by (auto simp: and_then_def on_error_def)
  qed
qed

lemma critical_ends: "\<exists>a b t. handleCriticalError A critical s = (Inl (a, b), t)"
  by (simp add: handleCriticalError_def and_then_def get_obj_def ignoring_def exit_with_def)

lemma logs_create_token:
  assumes "is_entity_not_found err"
  shows "logs (obeys False (Some (Looked_up (Some err)))) (create_token K A T kd critical cfg)"
  unfolding create_token_def
  by (rule logs_guard)
    (auto intro!: silent_intros critical_ends protocol_intros logs_then logs_errors logs_permitted simp: assms)

lemma logs_update_token: "logs (obeys False (Some (Looked_up None))) (update_token K A T kd critical cfg current)"
proof -
  have stop: "logs (obeys d p) (ret a)" for d p a by (simp add: logs_def ret_def)
  have "logs (obeys False (Some (Looked_up None)))
     (and_then (on_error (validateDependencies K T kd cfg (Some current)) (\<lambda>_. handleCriticalError A critical)) (\<lambda>validation.
      and_then (as_result (log_error (''could not update '' @ tkk_type kd)
        (call_entity Updated (tka_update T cfg (tv_permissions validation))))) (\<lambda>_. ret False)))"
    by (rule logs_guard) (auto intro!: silent_intros critical_ends protocol_intros logs_then logs_errors logs_permitted)
  then show ?thesis
    unfolding update_token_def by (auto intro!: logs_silent_then silent_intros stop)
qed

lemma logs_token_finalize:
  assumes "\<And>e. q = Some e \<Longrightarrow> \<not> is_entity_not_found e"
  shows "logs (obeys True (Some (Looked_up q))) (token_finalize K T cfg)"
  unfolding token_finalize_def Let_def
  by (rule logs_silent_then)
    (auto intro!: silent_intros protocol_intros logs_then logs_errors logs_permitted logs_None [OF keeps_protocol_simple(1)] simp: assms)

lemma keeps_protocol_delete_token: "keeps_protocol True (delete_token K A T kd cfg)"
proof -
  have decide: "logs (obeys True (Some (Looked_up (outcome x))))
      (if missing_entity x then remove_finalizer A
       else and_then (on_error (token_finalize K T cfg) (h r)) (\<lambda>_. exit_with (requeue_now, None)))"
    if "\<And>e. keeps_protocol True (h r e)" for x :: "go_error + 'e" and r :: "'x token_spec_scheme resource" and h
    using that
    by (cases x) (auto simp: missing_entity_def intro!: logs_remove_finalizer logs_then logs_on_error logs_token_finalize protocol_intros)
  show ?thesis
    unfolding delete_token_def by (intro protocol_intros logs_token_look_up_then decide)
qed

lemma keeps_protocol_live_token:
  "keeps_protocol False
     (and_then (as_result (token_addFinalizer A)) (\<lambda>_. and_then (token_look_up T cfg) (\<lambda>x.
       case x of
         Inl err \<Rightarrow> if is_entity_not_found err then create_token K A T kd critical cfg
           else exit_with (empty_result, Some (Wrap (''could not check if '' @ tkk_type kd @ '' exists'') (Some err)))
       | Inr current \<Rightarrow>
           and_then (update_token K A T kd critical cfg current) (\<lambda>asExpected.
           and_then (as_result (ensureTokenSecret K A T kd cfg)) (\<lambda>_.
           and_then (if asExpected then ret (Inr current) else token_look_up T cfg) (\<lambda>last.
           and_then (record_token K A T kd critical cfg last) (\<lambda>_. ret (requeue_in period, None))))))))"
proof -
  have wrote: "keeps_protocol False (token_addFinalizer A)"
    unfolding token_addFinalizer_def
  proof (rule logsI)
    fix s
    have wrote: "rlog s' = rlog s @ [Wrote (robj s)]" if "update_resource A s = (x, s')" for s s' x
      using that by (auto simp: update_resource_def write_with_def on_server_def note_call_def split: sum.splits)
    show "\<exists>cs. rlog (snd (and_then get_obj (\<lambda>r.
       if ContainsElement (rs_finalizers r) HumioFinalizer then ret ()
       else and_then (set_obj (r\<lparr>rs_finalizers := rs_finalizers r @ [HumioFinalizer]\<rparr>)) (\<lambda>_.
          log_error (''failed to add Finalizer to Humio Token '' @ tk_name (rs_spec r)) (update_resource A))) s)) = rlog s @ cs
        \<and> obeys False None cs"
      by (cases "update_resource A (s\<lparr>robj := (robj s)\<lparr>rs_finalizers := rs_finalizers (robj s) @ [HumioFinalizer]\<rparr>\<rparr>)")
        (auto simp: ContainsElement_def and_then_def get_obj_def set_obj_def ret_def log_error_def on_error_def exit_with_def
          dest!: wrote split: prod.split sum.split)
  qed
  have look: "logs (obeys False (Some (Looked_up (outcome x))))
      (case x of
         Inl err \<Rightarrow> if is_entity_not_found err then create_token K A T kd critical cfg
           else exit_with (empty_result, Some (Wrap (''could not check if '' @ tkk_type kd @ '' exists'') (Some err)))
       | Inr current \<Rightarrow>
           and_then (update_token K A T kd critical cfg current) (\<lambda>asExpected.
           and_then (as_result (ensureTokenSecret K A T kd cfg)) (\<lambda>_.
           and_then (if asExpected then ret (Inr current) else token_look_up T cfg) (\<lambda>last.
           and_then (record_token K A T kd critical cfg last) (\<lambda>_. ret (requeue_in period, None))))))" for x
    by (cases x) (auto intro!: logs_create_token logs_then logs_update_token protocol_intros logs_None [OF keeps_protocol_simple(2)])
  show ?thesis by (intro keeps_protocol_and_then keeps_protocol_errors wrote logs_token_look_up_then look)
qed

lemma token_keeps_protocol:
  "protocol_run A ns name (token_Reconcile kd L K A T critical period only ns name) s"
proof (cases "only \<noteq> [] \<and> only \<noteq> ns")
  case True
  then show ?thesis by (auto simp: protocol_run_def token_Reconcile_def returned_def and_then_def watched_def exit_with_def)
next
  case False
  then have watch: "watched only ns s = (Inr (), s)" by (auto simp: watched_def ret_def)
  let ?w = "ra_get A ns name (server (base s))"
  show ?thesis
  proof (cases "fst ?w")
    case (Inl err)
    then show ?thesis
      by (auto simp: protocol_run_def token_Reconcile_def returned_def and_then_def watch fetch_token_def observe_def
          on_server_def exit_with_def)
  next
    case (Inr r)
    let ?s = "s\<lparr>base := (base s)\<lparr>server := snd ?w\<rparr>, robj := r\<rparr>"
    have fetch: "fetch_token A ns name s = (Inr (), ?s)"
      using Inr by (simp add: fetch_token_def and_then_def observe_def on_server_def set_obj_def)
    have marked: "read_as_deleted A ns name s = rs_deleted r" using Inr by (simp add: read_as_deleted_def)
    obtain x s1 where client: "token_client L K A kd ?s = (x, s1)" by fastforce
    have "\<exists>cs. rlog (snd (token_client L K A kd ?s)) = rlog ?s @ cs \<and> obeys (rs_deleted r) None cs"
      using keeps_protocol_token_steps(2) [of "rs_deleted r" L K A kd] unfolding logs_def by blast
    with client obtain cs where cs: "rlog s1 = rlog s @ cs" "obeys (rs_deleted r) None cs" by auto
    show ?thesis
    proof (cases x)
      case (Inl e)
      then show ?thesis
        using cs marked client by (auto simp: protocol_run_def token_Reconcile_def returned_def and_then_def watch fetch)
    next
      case (Inr cfg)
      then have "robj s1 = r" using token_client_keeps client by fastforce
      then have "\<exists>ds. rlog (snd (reconcile_token K A T kd critical period cfg s1)) = rlog s1 @ ds \<and> obeys (rs_deleted r) None ds"
        using keeps_protocol_delete_token [of K A T kd cfg] keeps_protocol_live_token [of A T cfg K kd critical period]
        by (cases "rs_deleted r") (auto simp: reconcile_token_def and_then_def get_obj_def logs_def)
      then show ?thesis
        using cs marked client Inr
        by (auto simp: protocol_run_def token_Reconcile_def returned_def and_then_def watch fetch
            intro: obeys_append split: prod.splits sum.splits)
    qed
  qed
qed

section \<open>Every controller\<close>

text \<open>
  Claim C24. No controller touches an entity it has not just looked up. In every run of the controllers of parsers, repositories,
  users, groups, permission roles, ingest tokens, views, alerts, scheduled searches, actions, multi-cluster search views
  and system, organization and view tokens,
  whatever the API server and LogScale answer, an entity is added only right after a lookup that did not find it and
  updated only right after one that did, both only for a resource that is not being deleted; it is removed only
  for a resource that is being deleted; and an object without the finalizer is written only right after LogScale said that
  the entity does not exist.
\<close>

theorem controllers_keep_protocol:
  "protocol_run A1 ns name (HumioParserReconciler_Reconcile L K A1 E1 period only ns name) s1
   \<and> protocol_run A2 ns name (HumioRepositoryReconciler_Reconcile L K A2 E2 period only ns name) s2
   \<and> protocol_run A3 ns name (HumioUserReconciler_Reconcile L K A3 E3 period only ns name) s3
   \<and> protocol_run A4 ns name (HumioGroupReconciler_Reconcile L K A4 E4 period only ns name) s4
   \<and> protocol_run A5 ns name (HumioSystemPermissionRoleReconciler_Reconcile L K A5 E5 period only ns name) s5
   \<and> protocol_run A5 ns name (HumioOrganizationPermissionRoleReconciler_Reconcile L K A5 E5 period only ns name) s5
   \<and> protocol_run A6 ns name (HumioViewPermissionRoleReconciler_Reconcile L K A6 E6 period only ns name) s6
   \<and> protocol_run A7 ns name (HumioIngestTokenReconciler_Reconcile L K A7 E7 period only ns name) s7
   \<and> protocol_run A8 ns name (HumioViewReconciler_Reconcile L K A8 E8 period only ns name) s8
   \<and> protocol_run A9 ns name (HumioAlertReconciler_Reconcile L K A9 E9 period only ns name) s9
   \<and> protocol_run A10 ns name (HumioFilterAlertReconciler_Reconcile L K A10 E10 validate10 period only ns name) s10
   \<and> protocol_run A11 ns name (HumioAggregateAlertReconciler_Reconcile L K A11 E11 validate11 period only ns name) s11
   \<and> protocol_run (refreshing A12) ns name (HumioScheduledSearchReconciler_Reconcile L ge K A12 V1 V2 period only ns name) s12
   \<and> protocol_run A13 ns name (HumioActionReconciler_Reconcile L K' A13 E13 parse_uri period only ns name) s13
   \<and> protocol_run A14 ns name (HumioMultiClusterSearchViewReconciler_Reconcile L K A14 E14 add update period only ns name) s14
   \<and> protocol_run A15 ns name (HumioSystemTokenReconciler_Reconcile L K A15 T15 critical period only ns name) s15
   \<and> protocol_run A15 ns name (HumioOrganizationTokenReconciler_Reconcile L K A15 T15 critical period only ns name) s15
   \<and> protocol_run A16 ns name (HumioViewTokenReconciler_Reconcile L K A16 T16 critical period only ns name) s16"
  unfolding HumioParserReconciler_Reconcile_def HumioRepositoryReconciler_Reconcile_def HumioUserReconciler_Reconcile_def
    HumioGroupReconciler_Reconcile_def HumioSystemPermissionRoleReconciler_Reconcile_def
    HumioOrganizationPermissionRoleReconciler_Reconcile_def HumioViewPermissionRoleReconciler_Reconcile_def
    HumioIngestTokenReconciler_Reconcile_def HumioViewReconciler_Reconcile_def HumioAlertReconciler_Reconcile_def
    HumioFilterAlertReconciler_Reconcile_def HumioAggregateAlertReconciler_Reconcile_def
    HumioScheduledSearchReconciler_Reconcile_def HumioSystemTokenReconciler_Reconcile_def
    HumioOrganizationTokenReconciler_Reconcile_def HumioViewTokenReconciler_Reconcile_def
  by (intro conjI eager_keeps_protocol stepwise_keeps_protocol recorded_keeps_protocol deletes_finalize deletes_delete_entity
      action_keeps_protocol mcs_view_keeps_protocol token_keeps_protocol keeps_protocol_throttle_check silent_validate_actions
      protocol_intros keeps_protocol_token_secret silent_intros)

section \<open>Witnesses\<close>

definition sample_token :: "token_spec resource" where
  "sample_token = (external_object \<lparr>tk_name = ''t'', tk_ip_filter_name = [], tk_permissions = Some [''ManageCluster''],
     tk_expires_at = None, tk_secret_name = ''secret-t'', tk_secret_labels = Map.empty, tk_secret_annotations = None\<rparr>)\<lparr>rs_id := ''1''\<rparr>"

definition leaving_token :: "token_spec resource" where
  "leaving_token = sample_token\<lparr>rs_deleted := True, rs_finalizers := [HumioFinalizer]\<rparr>"

text \<open>A LogScale that has the token, a world that answers every read of a secret, and one that accepts every update.\<close>

definition one_token_api :: "(token_spec, token_details, 'w) token_api" where
  "one_token_api = \<lparr>
     tka_get = (\<lambda>_ _ w. (Inr \<lparr>tkd_id = ''1'', tkd_name = ''t'', tkd_expire_at = None, tkd_ip_filter = None,
                              tkd_permissions = Some [''ManageCluster'']\<rparr>, w)),
     tka_create = (\<lambda>_ _ _ _ _ w. (Inr (''1'', ''1~x''), w)), tka_update = (\<lambda>_ _ _ w. (Inr (), w)), tka_delete = (\<lambda>_ _ w. (Inr (), w)),
     tka_rotate = (\<lambda>_ _ w. (Inr (''2'', ''2~x''), w)), tka_ip_filter = (\<lambda>_ _ _ _ w. (Inr [], w)),
     tka_view = (\<lambda>_ _ _ _ w. (Inr [], w)), tka_arrival = (\<lambda>xs. xs)\<rparr>"


definition accepting_kube :: "'w kube" where
  "accepting_kube = answering_kube\<lparr>k_update_object := \<lambda>_ _ w. (Inr (), w)\<rparr>"

theorem deletion_wipes_any_secret_witness:
  "\<exists>s' ob. HumioSystemTokenReconciler_Reconcile plain_lib accepting_kube table_api one_token_api 0 15 [] ''ns'' ''s''
       (run_state [(''ns'', ''s'') \<mapsto> leaving_token] leaving_token) = ((requeue_now, None), s')
     \<and> calls (base s') = [UpdateObject SecretKind ob, DeleteObject SecretKind ob] \<and> ko_name ob = ''secret-t'' \<and> ko_data ob = Map.empty"
proof -
  have fields: "rs_namespace leaving_token = ''ns''" "rs_name leaving_token = ''s''" "rs_deleted leaving_token"
    "rs_finalizers leaving_token = [HumioFinalizer]" "rs_id leaving_token = ''1''" "tk_secret_name (rs_spec leaving_token) = ''secret-t''"
    by (simp_all add: leaving_token_def sample_token_def external_object_def)
  have "connects plain_lib accepting_kube leaving_token
      \<lparr>cfg_address = ''https://logs'', cfg_token = ''abc'', cfg_insecure = False, cfg_ca_certificate = []\<rparr>"
    by (simp add: connects_def cluster_of_def on_base_def leaving_token_def sample_token_def external_object_def accepting_kube_def
        NewCluster_def external_config_def and_then_def log_error_def on_error_def query_def unversioned_cluster_def plain_lib_def
        ret_def token_object_def map_get_def has_prefix_def)
  then have "\<exists>s' ob. token_Reconcile system_token_kind plain_lib accepting_kube table_api one_token_api 0 15 [] ''ns'' ''s''
       (run_state [(''ns'', ''s'') \<mapsto> leaving_token] leaving_token) = ((requeue_now, None), s')
     \<and> calls (base s') = calls (base (run_state [(''ns'', ''s'') \<mapsto> leaving_token] leaving_token))
         @ [UpdateObject SecretKind ob, DeleteObject SecretKind ob]
     \<and> ko_name ob = tk_secret_name (rs_spec leaving_token) \<and> ko_namespace ob = rs_namespace leaving_token \<and> ko_data ob = Map.empty"
    by (rule deletion_wipes_any_secret) (simp_all add: fields table_api_def run_state_def one_token_api_def accepting_kube_def)
  then show ?thesis by (auto simp: HumioSystemTokenReconciler_Reconcile_def run_state_def fields)
qed

end
