(* ===== verification/Mock_Tokens.thy ===== *)
theory Mock_Tokens
  imports Token_Safety
begin

text \<open>
  The tokens of the in-memory LogScale of internal/humio/client_mock.go: three more tables of \<open>ClientMock\<close>, which extend the
  record of \<open>Client_Mock\<close>. The half of a token that is given out once is not stored.
\<close>

record token_mock = client_mock +
  cm_view_token :: "resource_key \<rightharpoonup> view_token_details"
  cm_system_token :: "resource_key \<rightharpoonup> token_details"
  cm_organization_token :: "resource_key \<rightharpoonup> token_details"

text \<open>Organization tokens are not cleared.\<close>

definition clear_tokens :: "'z token_mock_scheme \<Rightarrow> 'z token_mock_scheme" where
  "clear_tokens m = m\<lparr>cm_view_token := Map.empty, cm_system_token := Map.empty\<rparr>"

definition view_tokens :: "(view_token_details, 'z token_mock_scheme) table" where
  "view_tokens = \<lparr>tb = cm_view_token, set_tb = (\<lambda>x. cm_view_token_update (\<lambda>_. x))\<rparr>"

definition system_tokens :: "(token_details, 'z token_mock_scheme) table" where
  "system_tokens = \<lparr>tb = cm_system_token, set_tb = (\<lambda>x. cm_system_token_update (\<lambda>_. x))\<rparr>"

definition organization_tokens :: "(token_details, 'z token_mock_scheme) table" where
  "organization_tokens = \<lparr>tb = cm_organization_token, set_tb = (\<lambda>x. cm_organization_token_update (\<lambda>_. x))\<rparr>"

definition token_key :: "'x token_spec_scheme resource \<Rightarrow> resource_key" where
  "token_key r = (clusterName r, [], tk_name (rs_spec r))"

section \<open>Identifiers and secrets\<close>

text \<open>Two random strings joined by a tilde; the identifier is what stands before the first one.\<close>

definition before_tilde :: "string \<Rightarrow> string" where
  "before_tilde value = takeWhile (\<lambda>c. c \<noteq> CHR 0x7E) value"

definition new_secret :: "('z client_mock_scheme, 'r, string) step" where
  "new_secret = and_then RandomString (\<lambda>a. and_then RandomString (\<lambda>b. ret (a @ CHR 0x7E # b)))"

definition expiry_millis :: "'x token_spec_scheme \<Rightarrow> int option" where   \<comment> \<open>\<open>UnixMilli\<close>\<close>
  "expiry_millis spec = map_option (\<lambda>t. t div 1000000) (tk_expires_at spec)"

section \<open>What the kinds share\<close>

text \<open>The permissions of the resource are stored, not those that were validated.\<close>

definition create_token_in ::
  "('e, 'z token_mock_scheme) table \<Rightarrow> string \<Rightarrow> 'x token_spec_scheme resource \<Rightarrow> (string \<Rightarrow> 'e)
   \<Rightarrow> ('z token_mock_scheme, go_error, string \<times> string) step" where
  "create_token_in T type r build m =
     (if tb T m (token_key r) \<noteq> None
      then (Inl (Msg (type @ '' already exists with name '' @ tk_name (rs_spec r))), m)
      else and_then new_secret (\<lambda>value.
           and_then (store_at T (token_key r) (build (before_tilde value))) (\<lambda>_. ret (before_tilde value, value))) m)"

text \<open>A token that is not there is made of zero values, and gets the new identifier.\<close>

definition rotate_token_in ::
  "('e, 'z token_mock_scheme) table \<Rightarrow> 'x token_spec_scheme resource \<Rightarrow> 'e \<Rightarrow> (string \<Rightarrow> 'e \<Rightarrow> 'e)
   \<Rightarrow> ('z token_mock_scheme, go_error, string \<times> string) step" where
  "rotate_token_in T r zero with_id =
     and_then RandomString (\<lambda>tokenId.
     and_then RandomString (\<lambda>b m.
     and_then (store_at T (token_key r) (with_id tokenId (case tb T m (token_key r) of None \<Rightarrow> zero | Some t \<Rightarrow> t)))
       (\<lambda>_. ret (tokenId, tokenId @ CHR 0x7E # b)) m))"

definition zero_token :: token_details where
  "zero_token = \<lparr>tkd_id = [], tkd_name = [], tkd_expire_at = None, tkd_ip_filter = None, tkd_permissions = None\<rparr>"

definition token_entity :: "token_spec \<Rightarrow> string \<Rightarrow> string \<Rightarrow> token_details" where
  "token_entity spec ipFilter i =
     \<lparr>tkd_id = i, tkd_name = tk_name spec, tkd_expire_at = expiry_millis spec, tkd_ip_filter = Some ipFilter,
      tkd_permissions = tk_permissions spec\<rparr>"

section \<open>View tokens\<close>

definition zero_view_token :: view_token_details where
  "zero_view_token = token_details.extend zero_token \<lparr>tkd_views = []\<rparr>"

text \<open>The views stand under their identifiers, as names too.\<close>

definition view_token_entity :: "view_token_spec \<Rightarrow> string \<Rightarrow> string list \<Rightarrow> string \<Rightarrow> view_token_details" where
  "view_token_entity spec ipFilter viewIds i =
     \<lparr>tkd_id = i, tkd_name = tk_name spec, tkd_expire_at = expiry_millis spec, tkd_ip_filter = Some ipFilter,
      tkd_permissions = FixPermissions (tk_permissions spec), tkd_views = viewIds\<rparr>"

definition CreateViewToken ::
  "string \<Rightarrow> string list \<Rightarrow> string list \<Rightarrow> view_token_spec resource \<Rightarrow> ('z token_mock_scheme, go_error, string \<times> string) step" where
  "CreateViewToken ipFilter viewIds permissions viewToken =
     create_token_in view_tokens ''ViewToken'' viewToken (view_token_entity (rs_spec viewToken) ipFilter viewIds)"

definition GetViewToken :: "view_token_spec resource \<Rightarrow> ('z token_mock_scheme, go_error, view_token_details) step" where
  "GetViewToken viewToken = find_in view_tokens (token_key viewToken) (entity_missing ''view-token'' (tk_name (rs_spec viewToken)))"

definition UpdateViewToken :: "string list \<Rightarrow> view_token_spec resource \<Rightarrow> ('z token_mock_scheme, go_error, unit) step" where
  "UpdateViewToken permissions viewToken =
     change_in view_tokens (token_key viewToken) (entity_missing ''view-token'' (tk_name (rs_spec viewToken)))
       (\<lambda>current. ret (current\<lparr>tkd_permissions := FixPermissions (made permissions)\<rparr>))"

definition DeleteViewToken :: "view_token_spec resource \<Rightarrow> ('z token_mock_scheme, go_error, unit) step" where
  "DeleteViewToken viewToken = delete_at view_tokens (token_key viewToken)"

definition RotateViewToken :: "view_token_spec resource \<Rightarrow> ('z token_mock_scheme, go_error, string \<times> string) step" where
  "RotateViewToken viewToken = rotate_token_in view_tokens viewToken zero_view_token (\<lambda>i t. t\<lparr>tkd_id := i\<rparr>)"

section \<open>System tokens\<close>

definition CreateSystemToken ::
  "string \<Rightarrow> string list \<Rightarrow> token_spec resource \<Rightarrow> ('z token_mock_scheme, go_error, string \<times> string) step" where
  "CreateSystemToken ipFilter permissions systemToken =
     create_token_in system_tokens ''SystemToken'' systemToken (token_entity (rs_spec systemToken) ipFilter)"

definition GetSystemToken :: "token_spec resource \<Rightarrow> ('z token_mock_scheme, go_error, token_details) step" where
  "GetSystemToken systemToken = find_in system_tokens (token_key systemToken) (entity_missing ''system-token'' (tk_name (rs_spec systemToken)))"

definition UpdateSystemToken :: "string list \<Rightarrow> token_spec resource \<Rightarrow> ('z token_mock_scheme, go_error, unit) step" where
  "UpdateSystemToken permissions systemToken =
     change_in system_tokens (token_key systemToken) (entity_missing ''system-token'' (tk_name (rs_spec systemToken)))
       (\<lambda>current. ret (current\<lparr>tkd_permissions := made permissions\<rparr>))"

definition DeleteSystemToken :: "token_spec resource \<Rightarrow> ('z token_mock_scheme, go_error, unit) step" where
  "DeleteSystemToken systemToken = delete_at system_tokens (token_key systemToken)"

definition RotateSystemToken :: "token_spec resource \<Rightarrow> ('z token_mock_scheme, go_error, string \<times> string) step" where
  "RotateSystemToken systemToken = rotate_token_in system_tokens systemToken zero_token (\<lambda>i t. t\<lparr>tkd_id := i\<rparr>)"

section \<open>Organization tokens\<close>

definition CreateOrganizationToken ::
  "string \<Rightarrow> string list \<Rightarrow> token_spec resource \<Rightarrow> ('z token_mock_scheme, go_error, string \<times> string) step" where
  "CreateOrganizationToken ipFilter permissions orgToken =
     create_token_in organization_tokens ''OrganizationToken'' orgToken (token_entity (rs_spec orgToken) ipFilter)"

definition GetOrganizationToken :: "token_spec resource \<Rightarrow> ('z token_mock_scheme, go_error, token_details) step" where
  "GetOrganizationToken orgToken =
     find_in organization_tokens (token_key orgToken) (entity_missing ''organization-token'' (tk_name (rs_spec orgToken)))"

definition UpdateOrganizationToken :: "string list \<Rightarrow> token_spec resource \<Rightarrow> ('z token_mock_scheme, go_error, unit) step" where
  "UpdateOrganizationToken permissions orgToken =
     change_in organization_tokens (token_key orgToken) (entity_missing ''organization-token'' (tk_name (rs_spec orgToken)))
       (\<lambda>current. ret (current\<lparr>tkd_permissions := made permissions\<rparr>))"

definition DeleteOrganizationToken :: "token_spec resource \<Rightarrow> ('z token_mock_scheme, go_error, unit) step" where
  "DeleteOrganizationToken orgToken = delete_at organization_tokens (token_key orgToken)"

definition RotateOrganizationToken :: "token_spec resource \<Rightarrow> ('z token_mock_scheme, go_error, string \<times> string) step" where
  "RotateOrganizationToken orgToken = rotate_token_in organization_tokens orgToken zero_token (\<lambda>i t. t\<lparr>tkd_id := i\<rparr>)"

section \<open>What the operations promise\<close>

text \<open>The secret that is given out begins with the identifier the token is stored under, when random strings have no tilde.\<close>

lemma before_tilde_secret: "CHR 0x7E \<notin> set a \<Longrightarrow> before_tilde (a @ CHR 0x7E # b) = a"
  by (induction a) (auto simp: before_tilde_def)

lemma created_system_token:
  assumes "CreateSystemToken ip perms r m = (Inr (i, secret), m')"
  shows "\<exists>e. GetSystemToken r m' = (Inr e, m') \<and> tkd_id e = i \<and> before_tilde secret = i \<and> fst (permissions_as_expected r e)"
  using assms
  by (auto simp: CreateSystemToken_def create_token_in_def and_then_def new_secret_def RandomString_def store_at_def ret_def
      GetSystemToken_def find_in_def system_tokens_def token_entity_def permissions_as_expected_def Let_def split: if_splits)

lemma fix_set_fixed: "EquivalentSpecificPermissions ooq = None \<Longrightarrow> fix_set (insert ooq (fix_set (insert ooq S))) = fix_set (insert ooq S)"
proof -
  assume ooq: "EquivalentSpecificPermissions ooq = None"
  have plain: "EquivalentSpecificPermissions p = None" if p: "p \<in> fix_set X" for p X
  proof -
    obtain q where q: "p \<in> set (specific_permissions q)" using p unfolding fix_set_def by blast
    then show ?thesis
      by (cases "EquivalentSpecificPermissions q") (simp_all add: specific_permissions_def equivalents_are_plain)
  qed
  have "insert ooq (fix_set (insert ooq S)) = fix_set (insert ooq S)"
    using ooq by (auto simp: fix_set_def specific_permissions_def)
  then show ?thesis using fix_set_plain [of "fix_set (insert ooq S)"] plain by metis
qed

lemma FixPermissions_by_set:
  "FixPermissions p = Some (sorted_list_of_set (fix_set (insert ''OrganizationOwnedQueries'' (set (elements p)))))"
proof -
  have "FixPermissions p = Some (sorted_list_of_set (set (elements (FixPermissions p))))"
    by (simp add: FixPermissions_def sorted_list_of_set_sort_remdups sorted_sort_id distinct_remdups_id)
  then show ?thesis by (simp only: FixPermissions_set)
qed

lemma FixPermissions_twice: "FixPermissions (FixPermissions p) = FixPermissions p"
proof -
  have "EquivalentSpecificPermissions ''OrganizationOwnedQueries'' = None"
    by (simp add: EquivalentSpecificPermissions_def)
  then show ?thesis
    unfolding FixPermissions_by_set [of "FixPermissions p"] FixPermissions_set by (simp add: fix_set_fixed FixPermissions_by_set)
qed

lemma created_view_token:
  assumes "CreateViewToken ip ids perms r m = (Inr (i, secret), m')"
  shows "\<exists>e. GetViewToken r m' = (Inr e, m') \<and> tkd_id e = i \<and> tkd_views e = ids \<and> fst (viewTokenAlreadyAsExpected r e)"
  using assms
  by (auto simp: CreateViewToken_def create_token_in_def and_then_def new_secret_def RandomString_def store_at_def ret_def
      GetViewToken_def find_in_def view_tokens_def view_token_entity_def viewTokenAlreadyAsExpected_def FixPermissions_twice
      Let_def split: if_splits)

lemma rotated_system_token:
  assumes "RotateSystemToken r m = (Inr (i, secret), m')" and "cm_system_token m (token_key r) = Some t"
  shows "cm_system_token m' (token_key r) = Some (t\<lparr>tkd_id := i\<rparr>)"
  using assms
  by (auto simp: RotateSystemToken_def rotate_token_in_def and_then_def RandomString_def store_at_def ret_def system_tokens_def)

end
