(* ===== verification/Bootstrap_Token.thy ===== *)
theory Bootstrap_Token
  imports Mock_Tokens
begin

text \<open>
  The bootstrap token of a cluster: humiobootstraptoken_controller.go and humiobootstraptoken_defaults.go. The controller keeps a
  secret with the token and its hash. When the hash is missing it starts a one-time pod, runs a script of LogScale in it and
  writes what the script prints into the secret.

  Running a command in a pod (\<open>execCommand\<close>, a call of the Kubernetes REST client), reading one pod and decoding JSON are the
  parameters \<open>onetime_api\<close>. The fields of the status of the resource stand next to those of its specification.
\<close>

section \<open>The resource\<close>

record bootstrap_object =
  bs_image :: string
  bs_image_pull_secrets :: "string list"
  bs_affinity :: "kvalue option"
  bs_tolerations :: "kvalue list option"
  bs_resources :: "kvalue option"
  bs_token_ref :: "secret_key_selector option"         \<comment> \<open>\<open>Spec.TokenSecret.SecretKeyRef\<close>\<close>
  bs_hashed_ref :: "secret_key_selector option"        \<comment> \<open>\<open>Spec.HashedTokenSecret.SecretKeyRef\<close>\<close>
  bss_token_ref :: "secret_key_selector option"        \<comment> \<open>\<open>Status.TokenSecretKeyRef.SecretKeyRef\<close>\<close>
  bss_hashed_ref :: "secret_key_selector option"       \<comment> \<open>\<open>Status.HashedTokenSecretKeyRef.SecretKeyRef\<close>\<close>
  bss_image :: string                                  \<comment> \<open>\<open>Status.BootstrapImage\<close>\<close>

record 'w onetime_api =
  ot_get_pod :: "string \<Rightarrow> string \<Rightarrow> 'w \<Rightarrow> (go_error + pod) \<times> 'w"
  ot_exec :: "pod \<Rightarrow> string list \<Rightarrow> 'w \<Rightarrow> (go_error + string) \<times> 'w"
  ot_decode :: "string \<Rightarrow> go_error + string \<times> string"  \<comment> \<open>\<open>json.Unmarshal\<close>: the fields \<open>secret\<close> and \<open>hashedToken\<close>\<close>

type_synonym 'w bootstrap_state = "('w, bootstrap_object) rst"

definition BootstrapTokenSecretHashedTokenName :: string where "BootstrapTokenSecretHashedTokenName = ''hashedToken''"
definition BootstrapTokenSecretSecretName :: string where "BootstrapTokenSecretSecretName = ''secret''"
definition bootstrapTokenSecretSuffix :: string where "bootstrapTokenSecretSuffix = ''bootstrap-token''"
definition bootstrapTokenPodNameSuffix :: string where "bootstrapTokenPodNameSuffix = ''bootstrap-token-onetime''"
definition HumioBootstrapTokenStateNotReady :: string where "HumioBootstrapTokenStateNotReady = ''NotReady''"

section \<open>Defaults\<close>

type_synonym bootstrap_config = "bootstrap_object resource \<times> humio_cluster option"   \<comment> \<open>the cluster is a pointer that may be nil\<close>

definition bootstrapTokenSecretName :: "bootstrap_object resource \<Rightarrow> string" where
  "bootstrapTokenSecretName hbt =
     (case bs_token_ref (rs_spec hbt) of Some r \<Rightarrow> sks_name r | None \<Rightarrow> rs_name hbt @ ''-'' @ bootstrapTokenSecretSuffix)"

definition bootstrap_validate :: "bootstrap_object resource \<Rightarrow> go_error option" where
  "bootstrap_validate hbt =
     (if (bs_token_ref (rs_spec hbt) = None) = (bs_hashed_ref (rs_spec hbt) = None) then None
      else Some (Msg ''must set both tokenSecret.secretKeyRef as well as hashedTokenSecret.secretKeyRef''))"

definition bootstrap_create :: "bootstrap_object resource \<Rightarrow> go_error + bool" where
  "bootstrap_create hbt =
     (case bootstrap_validate hbt of
        Some err \<Rightarrow> Inl err
      | None \<Rightarrow> Inr (bs_token_ref (rs_spec hbt) = None \<and> bs_hashed_ref (rs_spec hbt) = None))"

text \<open>The cluster is dereferenced before it is compared with nil.\<close>

definition nil_dereference :: go_error where
  "nil_dereference = Panic ''runtime error: invalid memory address or nil pointer dereference''"

definition first_pool :: "humio_cluster \<Rightarrow> humio_node_spec option" where
  "first_pool hc = (case hcs_node_pools (hc_spec hc) of [] \<Rightarrow> None | pool # _ \<Rightarrow> Some (nps_spec pool))"

definition bootstrap_image :: "lib \<Rightarrow> bootstrap_object resource \<Rightarrow> humio_cluster option \<Rightarrow> go_error + string" where
  "bootstrap_image L hbt cluster =
     (if bs_image (rs_spec hbt) \<noteq> [] then Inr (bs_image (rs_spec hbt))
      else case cluster of
             None \<Rightarrow> Inl nil_dereference
           | Some hc \<Rightarrow>
               if ns_image (hcs_node (hc_spec hc)) \<noteq> [] then Inr (ns_image (hcs_node (hc_spec hc)))
               else (case first_pool hc of
                       Some pool \<Rightarrow> if ns_image pool \<noteq> [] then Inr (ns_image pool) else Inr (DefaultHumioImageVersion L)
                     | None \<Rightarrow> Inr (DefaultHumioImageVersion L)))"

definition bootstrap_image_source :: "humio_cluster option \<Rightarrow> go_error + secret_key_selector option" where
  "bootstrap_image_source cluster =
     (case cluster of
        None \<Rightarrow> Inl nil_dereference
      | Some hc \<Rightarrow>
          if ns_image_source (hcs_node (hc_spec hc)) \<noteq> None then Inr (ns_image_source (hcs_node (hc_spec hc)))
          else Inr (case first_pool hc of Some pool \<Rightarrow> ns_image_source pool | None \<Rightarrow> None))"

definition bootstrap_image_pull_secrets :: "bootstrap_object resource \<Rightarrow> humio_cluster \<Rightarrow> string list" where
  "bootstrap_image_pull_secrets hbt hc =
     (if bs_image_pull_secrets (rs_spec hbt) \<noteq> [] then bs_image_pull_secrets (rs_spec hbt)
      else if ns_image_pull_secrets (hcs_node (hc_spec hc)) \<noteq> [] then ns_image_pull_secrets (hcs_node (hc_spec hc))
      else case first_pool hc of Some pool \<Rightarrow> ns_image_pull_secrets pool | None \<Rightarrow> [])"

definition no_attachments :: pod_attachments where   \<comment> \<open>\<open>&podAttachments{}\<close>\<close>
  "no_attachments = \<lparr>pa_data_volume_source = empty_volume_source, pa_init_service_account_secret_name = [],
     pa_env_var_source_data = None, pa_bootstrap = \<lparr>bts_hash = [], bts_secret_reference = None\<rparr>\<rparr>"

text \<open>The pod of the first pool that has nodes and whose pod can be constructed.\<close>

definition first_constructed :: "lib \<Rightarrow> humio_cluster \<Rightarrow> pod option" where
  "first_constructed L hc =
     (let pods = concat (map (\<lambda>hnp. if 0 < GetNodeCount hnp
                                   then (case fst (ConstructPod L [] no_attachments hnp) of Inl _ \<Rightarrow> [] | Inr pd \<Rightarrow> [pd]) else [])
                   (getHumioNodePoolManagers hc))
      in case pods of [] \<Rightarrow> None | pd # _ \<Rightarrow> Some pd)"

definition bootstrap_affinity :: "lib \<Rightarrow> bootstrap_object resource \<Rightarrow> humio_cluster \<Rightarrow> kvalue" where
  "bootstrap_affinity L hbt hc =
     (case bs_affinity (rs_spec hbt) of
        Some a \<Rightarrow> a
      | None \<Rightarrow> (case first_constructed L hc of Some pd \<Rightarrow> ps_affinity (p_spec pd) | None \<Rightarrow> KNil))"

definition bootstrap_tolerations :: "lib \<Rightarrow> bootstrap_object resource \<Rightarrow> humio_cluster \<Rightarrow> kvalue list" where
  "bootstrap_tolerations L hbt hc =
     (case bs_tolerations (rs_spec hbt) of
        Some ts \<Rightarrow> ts
      | None \<Rightarrow> (case first_constructed L hc of Some pd \<Rightarrow> ps_tolerations (p_spec pd) | None \<Rightarrow> []))"

definition bootstrap_resources :: "bootstrap_object resource \<Rightarrow> kvalue" where
  "bootstrap_resources hbt =
     (case bs_resources (rs_spec hbt) of
        Some r \<Rightarrow> r
      | None \<Rightarrow> KObj
          [(''limits'', KObj [(''cpu'', KStr ''100m''), (''memory'', KStr ''500Mi'')]),
           (''requests'', KObj [(''cpu'', KStr ''100m''), (''memory'', KStr ''50Mi'')])])"

definition bootstrap_PodName :: "bootstrap_object resource \<Rightarrow> string" where
  "bootstrap_PodName hbt = rs_name hbt @ ''-'' @ bootstrapTokenPodNameSuffix"

section \<open>The one-time pod\<close>

definition constructBootstrapPod ::
  "lib \<Rightarrow> 'w kube \<Rightarrow> bootstrap_object resource \<Rightarrow> humio_cluster option \<Rightarrow> ('w bootstrap_state, go_error, pod) step" where
  "constructBootstrapPod L K hbt cluster =
     (case (bootstrap_image_source cluster, cluster) of
        (Inr src, Some hc) \<Rightarrow>
          and_then (case src of
              None \<Rightarrow> (case bootstrap_image L hbt cluster of Inl err \<Rightarrow> exit_with err | Inr img \<Rightarrow> ret img)
            | Some ref \<Rightarrow>
                and_then (log_error ''failed to get imageFromSource'' (on_base (query (k_get_object K ConfigMapKind (sks_name ref) (rs_namespace hbt))))) (\<lambda>configMap.
                ret (map_get (ko_data configMap) (sks_key ref)))) (\<lambda>img.
          ret (empty_pod\<lparr>p_name := bootstrap_PodName hbt, p_namespace := rs_namespace hbt,
                p_spec := empty_pod_spec\<lparr>
                  ps_image_pull_secrets := bootstrap_image_pull_secrets hbt hc,
                  ps_affinity := bootstrap_affinity L hbt hc, ps_tolerations := bootstrap_tolerations L hbt hc,
                  ps_containers := [empty_container\<lparr>c_name := HumioContainerName, c_image := img, c_command := [''/bin/sleep'', ''900''],
                    c_env := [env_value ''HUMIO_LOG4J_CONFIGURATION'' ''log4j2-json-stdout.xml''],
                    c_resources := bootstrap_resources hbt, c_security_context := Some init_security_context\<rparr>]\<rparr>\<rparr>))
      | _ \<Rightarrow> exit_with nil_dereference)"

text \<open>A read of the cluster that fails otherwise leaves a zero cluster, one of the pod an empty pod.\<close>

definition zero_cluster :: humio_cluster where
  "zero_cluster = empty_cluster\<lparr>hc_name := [], hc_namespace := [], hc_generation := 0\<rparr>"

definition bootstrap_createPod ::
  "lib \<Rightarrow> 'w kube \<Rightarrow> 'w onetime_api \<Rightarrow> ('w bootstrap_state, go_error, pod) step" where
  "bootstrap_createPod L K P =
     and_then get_obj (\<lambda>hbt.
     and_then (observe (on_base (query (k_get_cluster K (rs_managed_cluster hbt) (rs_namespace hbt))))) (\<lambda>x.
     let humioCluster = (case x of Inr hc \<Rightarrow> Some hc | Inl err \<Rightarrow> if is_not_found err then None else Some zero_cluster) in
     and_then (log_error ''could not construct pod'' (constructBootstrapPod L K hbt humioCluster)) (\<lambda>pd.
     and_then (observe (on_base (query (ot_get_pod P (p_namespace pd) (p_name pd))))) (\<lambda>y.
     case y of
       Inr existingPod \<Rightarrow> ret existingPod
     | Inl err \<Rightarrow>
         if is_not_found err
         then and_then (log_error ''could not create pod'' (on_base (act (CreatePod pd) (k_create_pod K pd)))) (\<lambda>_. ret pd)
         else ret empty_pod))))"

definition bootstrap_deletePod ::
  "lib \<Rightarrow> 'w kube \<Rightarrow> 'w onetime_api \<Rightarrow> humio_cluster \<Rightarrow> ('w bootstrap_state, go_error, unit) step" where
  "bootstrap_deletePod L K P hc =
     and_then get_obj (\<lambda>hbt.
     and_then (log_error ''could not construct pod'' (constructBootstrapPod L K hbt (Some hc))) (\<lambda>pd.
     and_then (observe (on_base (query (ot_get_pod P (p_namespace pd) (p_name pd))))) (\<lambda>y.
     case y of
       Inl err \<Rightarrow> if is_not_found err then ret () else exit_with (Wrap ''could not delete pod'' (Some err))
     | Inr _ \<Rightarrow> log_error ''could not delete pod'' (on_base (act (DeletePod pd) (k_delete_pod K pd))))))"

text \<open>Ten attempts, a second apart; a failed read counts as one.\<close>

fun wait_for_onetime_pod :: "'w kube \<Rightarrow> 'w onetime_api \<Rightarrow> pod \<Rightarrow> nat \<Rightarrow> ('w bootstrap_state, 'r, pod option) step" where
  "wait_for_onetime_pod K P pd 0 = ret None"
| "wait_for_onetime_pod K P pd (Suc n) =
     and_then (observe (on_base (query (ot_get_pod P (p_namespace pd) (p_name pd))))) (\<lambda>x.
     case x of
       Inr foundPod \<Rightarrow>
         if p_phase foundPod = ''Running'' then ret (Some foundPod)
         else and_then (on_base (pick (\<lambda>w. ((), k_sleep K second w)))) (\<lambda>_. wait_for_onetime_pod K P pd n)
     | Inl _ \<Rightarrow> and_then (on_base (pick (\<lambda>w. ((), k_sleep K second w)))) (\<lambda>_. wait_for_onetime_pod K P pd n))"

section \<open>What the script prints\<close>

text \<open>The lines from one that is an opening brace to one that is a closing brace; the flag says whether lines are included.\<close>

definition json_line :: "string \<Rightarrow> bool \<times> string \<Rightarrow> bool \<times> string" where
  "json_line line = (\<lambda>(includeLine, jsonOutput).
     let includeLine = (includeLine \<or> line = ''{'');
         (includeLine, jsonOutput) = (if line = ''}'' then (False, jsonOutput @ ''}'') else (includeLine, jsonOutput))
     in (includeLine, if includeLine then jsonOutput @ line @ [CHR 0x0A] else jsonOutput))"

definition json_of_output :: "string \<Rightarrow> string" where
  "json_of_output output = snd (fold json_line (split_on (CHR 0x0A) output) (False, []))"

section \<open>The secret\<close>

definition getBootstrapTokenSecret :: "'w kube \<Rightarrow> ('w bootstrap_state, go_error, k8s_object) step" where
  "getBootstrapTokenSecret K =
     and_then get_obj (\<lambda>hbt. on_base (query (k_get_object K SecretKind (bootstrapTokenSecretName hbt) (rs_namespace hbt))))"

text \<open>A value of a secret the specification refers to. The error wrapped for a missing key is nil.\<close>

definition referred_value ::
  "'w kube \<Rightarrow> string \<Rightarrow> string \<Rightarrow> secret_key_selector \<Rightarrow> ('w bootstrap_state, go_error, string) step" where
  "referred_value K namespace read_name ref =
     and_then (log_error (''could not get secret '' @ read_name) (on_base (query (k_get_object K SecretKind read_name namespace)))) (\<lambda>secret.
     case ko_data secret (sks_key ref) of
       Some v \<Rightarrow> ret v
     | None \<Rightarrow> exit_with (Wrap (''could not get value from secret '' @ sks_name ref @ ''. secret does not contain value for key ''
                @ quoted (sks_key ref)) None))"

text \<open>The hash is looked for in the secret of the token, whose reference is dereferenced.\<close>

definition ensureBootstrapTokenSecret :: "'w kube \<Rightarrow> ('w bootstrap_state, go_error, unit) step" where
  "ensureBootstrapTokenSecret K =
     and_then get_obj (\<lambda>hbt.
     and_then (observe (getBootstrapTokenSecret K)) (\<lambda>x.
     case x of
       Inr _ \<Rightarrow> ret ()
     | Inl err \<Rightarrow>
         if \<not> is_not_found err then exit_with (Wrap ''could not get secret'' (Some err))
         else
           and_then (case bs_token_ref (rs_spec hbt) of
               None \<Rightarrow> ret Map.empty
             | Some ref \<Rightarrow>
                 and_then (referred_value K (rs_namespace hbt) (sks_name ref) ref) (\<lambda>v. ret [BootstrapTokenSecretSecretName \<mapsto> v])) (\<lambda>secretData.
           and_then (case bs_hashed_ref (rs_spec hbt) of
               None \<Rightarrow> ret secretData
             | Some ref \<Rightarrow>
                 (case bs_token_ref (rs_spec hbt) of
                    None \<Rightarrow> exit_with nil_dereference
                  | Some tokenRef \<Rightarrow>
                      and_then (referred_value K (rs_namespace hbt) (sks_name tokenRef) ref) (\<lambda>v.
                      ret (secretData(BootstrapTokenSecretHashedTokenName \<mapsto> v))))) (\<lambda>secretData.
           and_then (case bootstrap_validate hbt of
               Some err \<Rightarrow> exit_with (Wrap (''could not validate bootstrap config for '' @ rs_name hbt) (Some err)) | None \<Rightarrow> ret ()) (\<lambda>_.
           case bootstrap_create hbt of
             Inl err \<Rightarrow> exit_with (Wrap ''cannot create bootstrap token'' (Some err))
           | Inr okayToCreate \<Rightarrow>
               if okayToCreate
               then log_error ''could not create secret''
                      (on_base (create_object K SecretKind
                        ((ConstructSecret (rs_name hbt) (rs_namespace hbt) (bootstrapTokenSecretName hbt) secretData Map.empty Map.empty)
                          \<lparr>ko_owner_kinds := [''HumioBootstrapToken'']\<rparr>)))
               else ret ())))))"

definition updateStatusImage :: "(bootstrap_object, 'w) resource_api \<Rightarrow> string \<Rightarrow> ('w bootstrap_state, go_error, unit) step" where
  "updateStatusImage A img =
     and_then get_obj (\<lambda>hbt.
     and_then (set_obj (hbt\<lparr>rs_spec := (rs_spec hbt)\<lparr>bss_image := img\<rparr>\<rparr>)) (\<lambda>_. update_resource_status A))"

text \<open>Running the script in the pod and storing what it prints.\<close>

definition store_hashed_token ::
  "lib \<Rightarrow> 'w kube \<Rightarrow> (bootstrap_object, 'w) resource_api \<Rightarrow> 'w onetime_api \<Rightarrow> k8s_object \<Rightarrow> ('w bootstrap_state, go_error, unit) step" where
  "store_hashed_token L K A P bootstrapTokenSecret =
     (let commandArgs = [''env'', ''JVM_TMP_DIR=/tmp'', ''/app/humio/humio/bin/humio-token-hashing.sh'', ''--json'']
            @ (case ko_data bootstrapTokenSecret BootstrapTokenSecretSecretName of None \<Rightarrow> [] | Some t \<Rightarrow> [t]) in
      and_then (bootstrap_createPod L K P) (\<lambda>pd.
      and_then (wait_for_onetime_pod K P pd waitForPodTimeoutSeconds) (\<lambda>found.
      case found of
        None \<Rightarrow> exit_with (Wrap ''failed to start bootstrap token pod'' None)
      | Some foundPod \<Rightarrow>
          and_then (log_error ''failed to exec pod'' (on_base (query (ot_exec P foundPod commandArgs)))) (\<lambda>output.
          case ot_decode P (json_of_output output) of
            Inl err \<Rightarrow> exit_with (Wrap ''failed to read output from exec command: output omitted'' (Some err))
          | Inr (secret, hashedToken) \<Rightarrow>
              and_then (getBootstrapTokenSecret K) (\<lambda>updatedSecret.
              and_then (log_error ''failed to update secret with hashedToken data'' (on_base (update_object K SecretKind
                (updatedSecret\<lparr>ko_data := [BootstrapTokenSecretHashedTokenName \<mapsto> hashedToken, BootstrapTokenSecretSecretName \<mapsto> secret]\<rparr>)))) (\<lambda>_.
              case ps_containers (p_spec pd) of
                [] \<Rightarrow> exit_with (Panic ''runtime error: index out of range'')
              | c # _ \<Rightarrow> log_error ''failed to update bootstrap token image status'' (updateStatusImage A (c_image c))))))))"

definition ensureBootstrapTokenHashedToken ::
  "lib \<Rightarrow> 'w kube \<Rightarrow> (bootstrap_object, 'w) resource_api \<Rightarrow> 'w onetime_api \<Rightarrow> humio_cluster \<Rightarrow> ('w bootstrap_state, go_error, unit) step" where
  "ensureBootstrapTokenHashedToken L K A P hc =
     and_then (log_error ''could not get bootstrap token secret'' (getBootstrapTokenSecret K)) (\<lambda>bootstrapTokenSecret.
     deferred (bootstrap_deletePod L K P hc)
       (if ko_data bootstrapTokenSecret BootstrapTokenSecretHashedTokenName \<noteq> None then ret ()
        else store_hashed_token L K A P bootstrapTokenSecret))"

section \<open>Reconciliation\<close>

text \<open>The references in the status name the secret of the operator, whatever the specification refers to.\<close>

definition bootstrap_updateStatus :: "(bootstrap_object, 'w) resource_api \<Rightarrow> string \<Rightarrow> ('w bootstrap_state, go_error, unit) step" where
  "bootstrap_updateStatus A state =
     and_then get_obj (\<lambda>hbt.
     let name = rs_name hbt @ ''-'' @ bootstrapTokenSecretSuffix;
         spec = (if state = HumioBootstrapTokenStateReady
                 then (rs_spec hbt)\<lparr>bss_token_ref := Some \<lparr>sks_name = name, sks_key = BootstrapTokenSecretSecretName\<rparr>,
                                    bss_hashed_ref := Some \<lparr>sks_name = name, sks_key = BootstrapTokenSecretHashedTokenName\<rparr>\<rparr>
                 else rs_spec hbt)
     in and_then (set_obj (hbt\<lparr>rs_state := state, rs_spec := spec\<rparr>)) (\<lambda>_. update_resource_status A))"

definition not_ready_on_error ::
  "(bootstrap_object, 'w) resource_api \<Rightarrow> ('w bootstrap_state, go_error, unit) step \<Rightarrow> ('w bootstrap_state, handler_result, unit) step" where
  "not_ready_on_error A m =
     on_error m (\<lambda>err. and_then (ignoring (bootstrap_updateStatus A HumioBootstrapTokenStateNotReady)) (\<lambda>_.
       exit_with (empty_result, Some err)))"

definition HumioBootstrapTokenReconciler_Reconcile ::
  "lib \<Rightarrow> 'w kube \<Rightarrow> (bootstrap_object, 'w) resource_api \<Rightarrow> 'w onetime_api \<Rightarrow> duration \<Rightarrow> string \<Rightarrow> string \<Rightarrow> string
   \<Rightarrow> 'w bootstrap_state \<Rightarrow> handler_result \<times> 'w bootstrap_state" where
  "HumioBootstrapTokenReconciler_Reconcile L K A P requeuePeriod onlyNamespace ns name =
     returned
       (and_then (watched onlyNamespace ns) (\<lambda>_.
        and_then (fetch_object A ns name) (\<lambda>_.
        and_then get_obj (\<lambda>hbt.
        and_then (as_result (on_base (query (k_get_cluster K (rs_managed_cluster hbt) (rs_namespace hbt))))) (\<lambda>hc.
        and_then (not_ready_on_error A (ensureBootstrapTokenSecret K)) (\<lambda>_.
        and_then (not_ready_on_error A (ensureBootstrapTokenHashedToken L K A P hc)) (\<lambda>_.
        and_then (as_result (bootstrap_updateStatus A HumioBootstrapTokenStateReady)) (\<lambda>_.
        ret (requeue_in requeuePeriod, None)))))))))"

section \<open>What a run may change\<close>

lemma asks_deferred [asks_intros]: "asks P d \<Longrightarrow> asks P m \<Longrightarrow> asks P (deferred d m)"
  unfolding asks_def [of P "deferred d m"]
proof (rule allI)
  fix s assume d: "asks P d" and m: "asks P m"
  show "\<exists>cs. calls (base (snd (deferred d m s))) = calls (base s) @ cs \<and> list_all P cs"
    using asks_chain [OF asks_at [OF m] d, of s] by (simp add: deferred_def)
qed

lemma asks_returned: "asks P m \<Longrightarrow> asks P (returned m)"
proof -
  have "snd (returned m s) = snd (m s)" for s by (simp add: returned_def split: prod.split sum.split)
  then show "asks P m \<Longrightarrow> asks P (returned m)" by (simp add: asks_def)
qed

text \<open>What follows a step whose value is known.\<close>

lemma asks_known:
  assumes "asks P m" and "\<And>s. fst (m s) = Inr a" and "asks P (f a)"
  shows "asks P (and_then m f)"
proof -
  have "and_then m f = and_then m (\<lambda>_. f a)"
    by (rule ext) (use assms(2) in \<open>simp add: and_then_def split: prod.split sum.split, metis fst_conv sum.inject(2) sum.simps(4)\<close>)
  then show ?thesis using assms by (simp add: asks_intros)
qed

lemma asks_watch_fetch [asks_intros]: "asks P (watched only ns)" "asks P (fetch_object A ns name)"
  unfolding watched_def fetch_object_def by (intro asks_intros)+

lemma asks_bootstrap_updateStatus [asks_intros]: "asks P (bootstrap_updateStatus A state)"
  unfolding bootstrap_updateStatus_def Let_def by (intro asks_intros)

lemma asks_not_ready [asks_intros]: "asks P m \<Longrightarrow> asks P (not_ready_on_error A m)"
  unfolding not_ready_on_error_def by (intro asks_intros)

lemma asks_getBootstrapTokenSecret [asks_intros]: "asks P (getBootstrapTokenSecret K)"
  unfolding getBootstrapTokenSecret_def by (intro asks_intros trace_intros)

lemma asks_constructBootstrapPod [asks_intros]: "asks P (constructBootstrapPod L K hbt cluster)"
  unfolding constructBootstrapPod_def
  by (auto intro!: asks_intros trace_intros split: sum.split option.split prod.split)

text \<open>The one-time pod of some resource.\<close>

definition onetime_deletion :: "api_call \<Rightarrow> bool" where
  "onetime_deletion c \<longleftrightarrow> (\<exists>pd owner. c = DeletePod pd \<and> p_name pd = owner @ ''-bootstrap-token-onetime'')"

lemma constructed_name: "may_return (constructBootstrapPod L K hbt cluster) pd \<Longrightarrow> p_name pd = rs_name hbt @ ''-bootstrap-token-onetime''"
  by (auto simp: constructBootstrapPod_def bootstrap_PodName_def bootstrapTokenPodNameSuffix_def may_return_def and_then_Inr ret_def
      exit_with_def split: sum.splits option.splits)

lemma asks_and_then_returned:
  assumes "asks P m" and "\<And>a. may_return m a \<Longrightarrow> asks P (f a)"
  shows "asks P (and_then m f)"
  unfolding asks_def
proof (rule allI)
  fix s
  obtain x s' where run: "m s = (x, s')" by fastforce
  then have first: "\<exists>cs. calls (base s') = calls (base s) @ cs \<and> list_all P cs" using asks_at [OF assms(1), of s] by simp
  show "\<exists>cs. calls (base (snd (and_then m f s))) = calls (base s) @ cs \<and> list_all P cs"
  proof (cases x)
    case (Inl r)
    then show ?thesis using first run by (simp add: and_then_def)
  next
    case (Inr a)
    then have "may_return m a" using run by (auto intro: may_returnI)
    then show ?thesis using asks_chain [OF first assms(2)] run Inr by (simp add: and_then_def)
  qed
qed

lemma asks_deletePod: "asks onetime_deletion (bootstrap_deletePod L K P hc)"
  unfolding bootstrap_deletePod_def
  by (rule asks_and_then, rule asks_simple, rule asks_and_then_returned)
    (auto intro!: asks_intros trace_intros simp: may_return_log_error onetime_deletion_def dest: constructed_name)

lemma known_secret:
  assumes "\<And>n ns w. fst (k_get_object K SecretKind n ns w) = Inr ob"
  shows "fst (getBootstrapTokenSecret K s) = Inr ob"
  using assms by (simp add: getBootstrapTokenSecret_def and_then_def get_obj_def on_base_def query_def)


text \<open>Everything a run may ask of the API server.\<close>

fun bootstrap_change :: "api_call \<Rightarrow> bool" where
  "bootstrap_change (CreatePod pd) \<longleftrightarrow> (\<exists>owner. p_name pd = owner @ ''-bootstrap-token-onetime'')"
| "bootstrap_change (DeletePod pd) \<longleftrightarrow> (\<exists>owner. p_name pd = owner @ ''-bootstrap-token-onetime'')"
| "bootstrap_change (CreateObject kd ob) \<longleftrightarrow> kd = SecretKind \<and> ko_data ob = Map.empty"
| "bootstrap_change (UpdateObject kd ob) \<longleftrightarrow> kd = SecretKind \<and> dom (ko_data ob) = {''hashedToken'', ''secret''}"
| "bootstrap_change _ \<longleftrightarrow> False"

lemma asks_bootstrap_deletion: "asks bootstrap_change (bootstrap_deletePod L K P hc)"
  unfolding bootstrap_deletePod_def
  by (rule asks_and_then, rule asks_simple, rule asks_and_then_returned)
    (auto intro!: asks_intros trace_intros simp: may_return_log_error dest: constructed_name)

lemma asks_createPod: "asks bootstrap_change (bootstrap_createPod L K P)"
  unfolding bootstrap_createPod_def Let_def
  by (rule asks_and_then, rule asks_simple, rule asks_and_then, intro asks_intros trace_intros, rule asks_and_then_returned)
    (auto intro!: asks_intros trace_intros simp: may_return_log_error dest: constructed_name)

lemma asks_wait: "asks P (wait_for_onetime_pod K Q pd n)"
  by (induction n) (auto intro!: asks_intros trace_intros split: sum.split)

lemma asks_store: "asks bootstrap_change (store_hashed_token L K A P secret)"
  unfolding store_hashed_token_def updateStatusImage_def update_object_def Let_def
    BootstrapTokenSecretHashedTokenName_def BootstrapTokenSecretSecretName_def
  by (intro asks_intros asks_createPod asks_wait trace_intros) (auto intro!: asks_intros split: list.split)

text \<open>A secret is created only when the specification refers to none, so nothing is read into it.\<close>

lemma asks_secret: "asks bootstrap_change (ensureBootstrapTokenSecret K)"
proof -
  have referred: "asks Q (referred_value K' ns n ref)" for Q and K' :: "'w kube" and ns n ref
    unfolding referred_value_def by (intro asks_intros trace_intros)
  have unless: "\<not> okay" if "bootstrap_create hbt = Inr okay"
      and "\<not> (bs_token_ref (rs_spec hbt) = None \<and> bs_hashed_ref (rs_spec hbt) = None)" for hbt okay
    using that by (auto simp: bootstrap_create_def split: option.splits)
  have empty: "and_then (ret x) f = f x" for x and f :: "_ \<Rightarrow> ('w bootstrap_state, go_error, unit) step"
    by (rule ext) (simp add: and_then_def ret_def)
  show ?thesis
    unfolding ensureBootstrapTokenSecret_def create_object_def
  proof (rule asks_and_then, rule asks_simple, rule asks_and_then, intro asks_intros, goal_cases)
    case (1 hbt x)
    show ?case
    proof (cases "bs_token_ref (rs_spec hbt) = None \<and> bs_hashed_ref (rs_spec hbt) = None")
      case True
      then show ?thesis
        by (auto simp: empty ConstructSecret_def intro!: asks_intros trace_intros split: sum.split option.split)
    next
      case False
      then show ?thesis
        by (intro asks_intros referred) (use unless in blast)
    qed
  qed
qed


text \<open>An API server on which every secret has a hash, and a pod that prints nothing.\<close>

definition hashed_object :: k8s_object where
  "hashed_object = zero_object\<lparr>ko_data := [''hashedToken'' \<mapsto> ''P2HS20'', ''secret'' \<mapsto> ''abc'']\<rparr>"

definition hashed_kube :: "'w kube" where
  "hashed_kube = answering_kube\<lparr>k_get_object := (\<lambda>_ _ _ w. (Inr hashed_object, w)), k_get_cluster := (\<lambda>_ _ w. (Inr empty_cluster, w))\<rparr>"

definition silent_onetime :: "'w onetime_api" where
  "silent_onetime = \<lparr>ot_get_pod = (\<lambda>_ _ w. (Inr empty_pod, w)), ot_exec = (\<lambda>_ _ w. (Inr [], w)), ot_decode = (\<lambda>_. Inr ([], []))\<rparr>"

definition sample_bootstrap :: "bootstrap_object resource" where
  "sample_bootstrap = (external_object \<lparr>bs_image = [], bs_image_pull_secrets = [], bs_affinity = None, bs_tolerations = None,
     bs_resources = None, bs_token_ref = None, bs_hashed_ref = None, bss_token_ref = None, bss_hashed_ref = None, bss_image = []\<rparr>)
     \<lparr>rs_managed_cluster := ''c'', rs_external_cluster := []\<rparr>"


end
