(* ===== verification/Telemetry.thy ===== *)
theory Telemetry
  imports Bootstrap_Token
begin

text \<open>
  Telemetry: humiotelemetry_controller.go, telemetry_collector.go and telemetry_exporter.go. The controller decides from the
  intervals of the collections and the times in the status which data is due, collects it from LogScale and posts it to a remote
  HEC endpoint with retries. Times and durations are nanoseconds; a day count is multiplied in 64 bits, as \<open>time.Duration\<close> is.

  The GraphQL queries, the status endpoint, JSON, the HTTP round trip and the wait that the end of the context interrupts are the
  parameters \<open>telemetry_net\<close>. The fields of the status of the resource stand next to those of its specification.
\<close>

section \<open>Durations\<close>

definition wrap64 :: "int \<Rightarrow> int" where
  "wrap64 i = sint (word_of_int i :: 64 word)"

definition minute :: duration where "minute = 60 * second"
definition hour :: duration where "hour = 60 * minute"

definition unit_map :: "string \<rightharpoonup> duration" where   \<comment> \<open>both encodings of the micro sign\<close>
  "unit_map = [''ns'' \<mapsto> 1, ''us'' \<mapsto> 1000, [CHR 0xC2, CHR 0xB5, CHR ''s''] \<mapsto> 1000, [CHR 0xCE, CHR 0xBC, CHR ''s''] \<mapsto> 1000,
     ''ms'' \<mapsto> 1000000, ''s'' \<mapsto> second, ''m'' \<mapsto> minute, ''h'' \<mapsto> hour]"

definition invalid_duration :: "string \<Rightarrow> go_error" where
  "invalid_duration orig = Msg (''time: invalid duration '' @ quoted orig)"

definition unit_char :: "char \<Rightarrow> bool" where
  "unit_char c \<longleftrightarrow> c \<noteq> CHR ''.'' \<and> \<not> is_digit c"

text \<open>
  The loop of \<open>time.ParseDuration\<close>: numbers with units are summed up to the range of the type, in 64 bits. A fraction is computed exactly
  here, where the library rounds in floating point.
\<close>

definition fraction_of :: "string \<Rightarrow> duration \<Rightarrow> int" where
  "fraction_of ds u = int (value_of_digits ds) * u div 10 ^ length ds"

definition after_point :: "string \<Rightarrow> string \<times> string" where   \<comment> \<open>the digits after a point, and the rest\<close>
  "after_point s = (if s \<noteq> [] \<and> hd s = CHR ''.'' then (takeWhile is_digit (tl s), dropWhile is_digit (tl s)) else ([], s))"

function parse_units :: "string \<Rightarrow> string \<Rightarrow> int \<Rightarrow> go_error + int" where
  "parse_units orig s d =
     (if s = [] then Inr d
      else if unit_char (hd s) then Inl (invalid_duration orig)
      else
        let pre = takeWhile is_digit s;
            post = fst (after_point (dropWhile is_digit s));
            rest = snd (after_point (dropWhile is_digit s));
            u = takeWhile unit_char rest;
            v = int (value_of_digits pre)
        in if 2 ^ 63 < v \<or> pre = [] \<and> post = [] then Inl (invalid_duration orig)
           else if u = [] then Inl (Msg (''time: missing unit in duration '' @ quoted orig))
           else case unit_map u of
                  None \<Rightarrow> Inl (Msg (''time: unknown unit '' @ quoted u @ '' in duration '' @ quoted orig))
                | Some unit \<Rightarrow>
                    if 2 ^ 63 div unit < v \<or> 2 ^ 63 < v * unit + fraction_of post unit
                       \<or> 2 ^ 63 < (d + (v * unit + fraction_of post unit)) mod 2 ^ 64
                    then Inl (invalid_duration orig)
                    else parse_units orig (dropWhile unit_char rest) ((d + (v * unit + fraction_of post unit)) mod 2 ^ 64))"
  by pat_completeness auto
termination
proof (relation "measure (\<lambda>(orig, s, d). length s)", simp)
  fix orig s :: string and d :: int and pre post rest u :: string and v unit
  assume "s \<noteq> []" and "rest = snd (after_point (dropWhile is_digit s))" and "u = takeWhile unit_char rest" and "u \<noteq> []"
  moreover have "length (snd (after_point (dropWhile is_digit s))) \<le> length s" for s
  proof -
    have "length (dropWhile is_digit (tl r)) \<le> length r" for r
      using length_dropWhile_le [of is_digit "tl r"] by simp
    then show ?thesis using length_dropWhile_le [of is_digit s]
      by (auto simp: after_point_def intro: order_trans)
  qed
  moreover have "length (dropWhile unit_char rest) < length rest"
    using calculation(3,4) by (metis length_append length_greater_0_conv less_add_same_cancel2 takeWhile_dropWhile_id)
  ultimately show "((orig, dropWhile unit_char rest, (d + (v * unit + fraction_of post unit)) mod 2 ^ 64), orig, s, d)
      \<in> measure (\<lambda>(orig, s, d). length s)"
    by (auto intro: less_le_trans)
qed

declare parse_units.simps [simp del]

definition ParseDuration :: "string \<Rightarrow> go_error + duration" where
  "ParseDuration orig =
     (let neg = (orig \<noteq> [] \<and> hd orig = CHR ''-'');
          s = (if orig \<noteq> [] \<and> hd orig \<in> {CHR ''-'', CHR ''+''} then tl orig else orig)
      in if s = ''0'' then Inr 0
         else if s = [] then Inl (invalid_duration orig)
         else case parse_units orig s 0 of
                Inl err \<Rightarrow> Inl err
              | Inr d \<Rightarrow> if neg then Inr (- d) else if 2 ^ 63 - 1 < d then Inl (invalid_duration orig) else Inr d)"

text \<open>The days are multiplied without a check.\<close>

definition parseDuration :: "string \<Rightarrow> go_error + duration" where
  "parseDuration text =
     (if length text < 2 then Inl (Msg (''invalid duration format: '' @ text))
      else
        let unit = last text; v = butlast text
        in if unit = CHR ''s'' \<or> unit = CHR ''m'' \<or> unit = CHR ''h'' then ParseDuration text
           else if unit = CHR ''d'' then
             (case atoi v of
                Some dayCount \<Rightarrow> Inr (wrap64 (dayCount * 24 * hour))
              | None \<Rightarrow> Inl (Wrap (''invalid day count in duration '' @ text) (Some (Msg (''strconv.Atoi: parsing '' @ quoted v)))))
           else Inl (Msg (''unsupported duration unit: '' @ [unit])))"

section \<open>The resource\<close>

record collection_type_status =
  cts_last_collection :: "time option"
  cts_last_export :: "time option"
  cts_collection_count :: int
  cts_export_count :: int

record telemetry_object =
  to_cluster_identifier :: string
  to_url :: string
  to_token :: "secret_key_selector option"
  to_tls :: "bool option"                               \<comment> \<open>\<open>TLS.InsecureSkipVerify\<close> behind a pointer\<close>
  to_collections :: "telemetry_collection list"
  tos_last_collection_time :: "time option"
  tos_last_export_time :: "time option"
  tos_collection_errors :: "telemetry_error list"
  tos_export_errors :: "telemetry_error list"
  tos_collection_status :: "string \<rightharpoonup> collection_type_status"

type_synonym 'w telemetry_state = "('w, telemetry_object) rst"

definition HumioTelemetryStateCollecting :: string where "HumioTelemetryStateCollecting = ''Collecting''"

definition isValidDataType :: "string \<Rightarrow> bool" where
  "isValidDataType dataType \<longleftrightarrow> dataType \<in> {''license'', ''cluster_info'', ''user_info'', ''repository_info''}"

definition collection_problem :: "telemetry_collection \<Rightarrow> go_error option" where
  "collection_problem c =
     (if tc_interval c = [] then Some (Msg ''collection interval is required'')
      else if tc_include c = [] then Some (Msg ''collection must include at least one data type'')
      else map_option (\<lambda>dataType. Msg (''invalid data type: '' @ dataType)) (find (\<lambda>dataType. \<not> isValidDataType dataType) (tc_include c)))"

definition validateConfiguration :: "telemetry_object resource \<Rightarrow> go_error option" where
  "validateConfiguration ht =
     (if to_cluster_identifier (rs_spec ht) = [] then Some (Msg ''clusterIdentifier is required'')
      else if rs_managed_cluster ht = [] then Some (Msg ''managedClusterName is required'')
      else if to_url (rs_spec ht) = [] then Some (Msg ''remoteReport.url is required'')
      else if to_token (rs_spec ht) = None then Some (Msg ''remoteReport.token.secretKeyRef is required'')
      else if to_collections (rs_spec ht) = [] then Some (Msg ''at least one collection must be specified'')
      else case find (\<lambda>c. collection_problem c \<noteq> None) (to_collections (rs_spec ht)) of
             Some c \<Rightarrow> collection_problem c
           | None \<Rightarrow> None)"

section \<open>The schedule\<close>

definition zero_time :: time where   \<comment> \<open>the first second of the year 1\<close>
  "zero_time = - 62135596800 * second"

text \<open>The latest collection of one of the types.\<close>

definition last_collection :: "(string \<rightharpoonup> collection_type_status) \<Rightarrow> string list \<Rightarrow> time" where
  "last_collection status types =
     fold (\<lambda>dataType latest. case status dataType of
         Some st \<Rightarrow> (case cts_last_collection st of Some t \<Rightarrow> if latest < t then t else latest | None \<Rightarrow> latest)
       | None \<Rightarrow> latest) types zero_time"

definition schedule_one ::
  "(string \<rightharpoonup> collection_type_status) \<Rightarrow> time \<Rightarrow> telemetry_collection \<Rightarrow> bool \<times> string list \<times> time \<Rightarrow> bool \<times> string list \<times> time" where
  "schedule_one status now c = (\<lambda>(shouldCollect, collectTypes, nextCollection).
     case parseDuration (tc_interval c) of
       Inl _ \<Rightarrow> (shouldCollect, collectTypes, nextCollection)
     | Inr interval \<Rightarrow>
         let nextTime = last_collection status (tc_include c) + interval;
             due = nextTime \<le> now
         in (shouldCollect \<or> due, if due then collectTypes @ tc_include c else collectTypes,
             if nextTime < nextCollection then nextTime else nextCollection))"

definition ShouldRunTelemetryCollection :: "telemetry_object \<Rightarrow> time \<Rightarrow> bool \<times> string list \<times> time" where
  "ShouldRunTelemetryCollection ht now =
     fold (schedule_one (tos_collection_status ht) now) (to_collections ht) (False, [], now + 24 * hour)"

text \<open>\<open>time.Until\<close>, whose result is clamped to the range of a duration.\<close>

definition time_until :: "time \<Rightarrow> time \<Rightarrow> duration" where
  "time_until t now = max (- (2 ^ 63)) (min (2 ^ 63 - 1) (t - now))"

section \<open>Collection\<close>

datatype installed_license =
    OnPrem string time time string "int option" bool bool  \<comment> \<open>UID, expiry, issue, owner, users, SaaS, OEM\<close>
  | Trial time time
  | OtherLicense string                                    \<comment> \<open>another implementation of the interface, by its type name\<close>

record telemetry_license_data =
  tld_uid :: string
  tld_type :: string
  tld_expiration :: time
  tld_issued :: time
  tld_owner :: string
  tld_max_users :: "int option"
  tld_is_saas :: "bool option"
  tld_is_oem :: "bool option"

record telemetry_cluster_info =
  tci_version :: string
  tci_node_count :: int
  tci_user_count :: int
  tci_repository_count :: int

datatype telemetry_data = LicenseData telemetry_license_data | ClusterInfo telemetry_cluster_info

record telemetry_payload =
  tp_timestamp :: time
  tp_cluster_id :: string
  tp_collection_type :: string
  tp_source_type :: string
  tp_data :: telemetry_data
  tp_collection_errors :: "telemetry_error list"

record hec_event =
  he_time :: int                     \<comment> \<open>seconds of the Unix epoch\<close>
  he_host :: string
  he_source :: string
  he_source_type :: string
  he_event :: telemetry_payload

record 'w telemetry_net =
  tn_license :: "humio_config \<Rightarrow> 'w \<Rightarrow> (go_error + installed_license option) \<times> 'w"
  tn_nodes :: "humio_config \<Rightarrow> 'w \<Rightarrow> (go_error + nat) \<times> 'w"              \<comment> \<open>the number of nodes \<open>GetCluster\<close> answers\<close>
  tn_status :: "humio_config \<Rightarrow> 'w \<Rightarrow> (go_error + string) \<times> 'w"           \<comment> \<open>the version\<close>
  tn_marshal :: "hec_event \<Rightarrow> go_error + string"
  tn_new_request :: "string \<Rightarrow> go_error option"                         \<comment> \<open>\<open>http.NewRequestWithContext\<close> for a URL\<close>
  tn_do :: "string \<Rightarrow> string \<Rightarrow> bool \<Rightarrow> string \<Rightarrow> 'w \<Rightarrow> (go_error + int \<times> string) \<times> 'w"
    \<comment> \<open>URL, token, without TLS verification, body; the status code and the body of the response\<close>
  tn_wait :: "duration \<Rightarrow> 'w \<Rightarrow> go_error option \<times> 'w"                    \<comment> \<open>the error of a context that ends first\<close>

definition CollectLicenseData :: "'w telemetry_net \<Rightarrow> humio_config \<Rightarrow> ('w telemetry_state, go_error, telemetry_license_data) step" where
  "CollectLicenseData N cfg =
     and_then (log_error ''failed to get license data'' (on_server (tn_license N cfg))) (\<lambda>installed.
     case installed of
       None \<Rightarrow> exit_with (Msg ''no license installed'')
     | Some (OnPrem uid expires issued owner limit saas oem) \<Rightarrow>
         ret \<lparr>tld_uid = uid, tld_type = ''onprem'', tld_expiration = expires, tld_issued = issued, tld_owner = owner,
              tld_max_users = limit, tld_is_saas = Some saas, tld_is_oem = Some oem\<rparr>
     | Some (Trial expires issued) \<Rightarrow>
         ret \<lparr>tld_uid = [], tld_type = ''trial'', tld_expiration = expires, tld_issued = issued, tld_owner = [],
              tld_max_users = None, tld_is_saas = None, tld_is_oem = None\<rparr>
     | Some (OtherLicense ty) \<Rightarrow> exit_with (Msg (''unknown license type: '' @ ty)))"

definition CollectClusterInfo :: "'w telemetry_net \<Rightarrow> humio_config \<Rightarrow> ('w telemetry_state, go_error, telemetry_cluster_info) step" where
  "CollectClusterInfo N cfg =
     and_then (log_error ''failed to get cluster information'' (on_server (tn_nodes N cfg))) (\<lambda>nodes.
     and_then (log_error ''failed to get version information'' (on_server (tn_status N cfg))) (\<lambda>version.
     ret \<lparr>tci_version = version, tci_node_count = int nodes, tci_user_count = 0, tci_repository_count = 0\<rparr>))"

text \<open>One data type: its payload, or the errors of its collection.\<close>

definition payload_of :: "time \<Rightarrow> string \<Rightarrow> string \<Rightarrow> telemetry_data \<Rightarrow> telemetry_payload" where
  "payload_of timestamp clusterID type data =
     \<lparr>tp_timestamp = timestamp, tp_cluster_id = clusterID, tp_collection_type = type, tp_source_type = ''json'', tp_data = data,
      tp_collection_errors = []\<rparr>"

definition collect_type ::
  "'w telemetry_net \<Rightarrow> humio_config \<Rightarrow> string \<Rightarrow> time \<Rightarrow> string \<Rightarrow> telemetry_payload list \<times> telemetry_error list
   \<Rightarrow> ('w telemetry_state, go_error, telemetry_payload list \<times> telemetry_error list) step" where
  "collect_type N cfg clusterID timestamp dataType = (\<lambda>(payloads, allErrors).
     let failed = (\<lambda>type message. ret (payloads, allErrors @ [\<lparr>te_type = type, te_message = message, te_timestamp = timestamp\<rparr>]));
         collected = (\<lambda>data. ret (payloads @ [payload_of timestamp clusterID dataType data], allErrors))
     in if dataType = ''license'' then
          and_then (observe (CollectLicenseData N cfg)) (\<lambda>x. case x of
              Inl err \<Rightarrow> failed ''collection'' (''Failed to collect license data: '' @ error_message err)
            | Inr d \<Rightarrow> collected (LicenseData d))
        else if dataType = ''cluster_info'' then
          and_then (observe (CollectClusterInfo N cfg)) (\<lambda>x. case x of
              Inl err \<Rightarrow> failed ''collection'' (''Failed to collect cluster info: '' @ error_message err)
            | Inr d \<Rightarrow> collected (ClusterInfo d))
        else failed ''configuration'' (''Unknown data type: '' @ dataType))"

definition CollectTelemetryData ::
  "'w kube \<Rightarrow> 'w telemetry_net \<Rightarrow> humio_config \<Rightarrow> string list \<Rightarrow> string \<Rightarrow> ('w telemetry_state, go_error, telemetry_payload list) step" where
  "CollectTelemetryData K N cfg dataTypes clusterID =
     and_then (on_base (pick (k_now K))) (\<lambda>timestamp.
     and_then (fold_step (collect_type N cfg clusterID timestamp) dataTypes ([], [])) (\<lambda>(payloads, allErrors).
     if payloads = [] \<and> allErrors \<noteq> []
     then exit_with (Msg (''failed to collect any telemetry data: '' @ itoa (int (length allErrors)) @ '' errors occurred''))
     else ret payloads))"

section \<open>Export\<close>

datatype send_error = NonRetryable go_error | Retryable go_error

definition sendRequest ::
  "'w telemetry_net \<Rightarrow> string \<Rightarrow> string \<Rightarrow> bool \<Rightarrow> string \<Rightarrow> ('w telemetry_state, send_error, unit) step" where
  "sendRequest N target token insecure jsonData =
     (case tn_new_request N target of
        Some err \<Rightarrow> exit_with (Retryable (Wrap ''failed to create request'' (Some err)))
      | None \<Rightarrow>
          and_then (observe (on_server (tn_do N target token insecure jsonData))) (\<lambda>x.
          case x of
            Inl err \<Rightarrow> exit_with (Retryable (Wrap ''failed to send request'' (Some err)))
          | Inr (code, body) \<Rightarrow>
              let errorMsg = Msg (''HEC request failed with status '' @ itoa code @ '': '' @ body)
              in if 400 \<le> code then exit_with (if code < 500 then NonRetryable errorMsg else Retryable errorMsg) else ret ()))"

definition retry_backoff :: "nat \<Rightarrow> duration" where
  "retry_backoff attempt =
     (if attempt = 1 then 1 * second else if attempt = 2 then 2 * second else if attempt = 3 then 4 * second
      else if attempt = 4 then 8 * second else if attempt = 5 then 16 * second else 30 * second)"

text \<open>The attempts from the given one on, \<open>left\<close> of them.\<close>

fun send_attempts ::
  "'w telemetry_net \<Rightarrow> string \<Rightarrow> string \<Rightarrow> bool \<Rightarrow> string \<Rightarrow> nat \<Rightarrow> nat \<Rightarrow> nat \<Rightarrow> go_error option \<Rightarrow> ('w telemetry_state, go_error, unit) step" where
  "send_attempts N target token insecure jsonData maxRetries attempt 0 lastErr =
     exit_with (Wrap (''telemetry export failed after '' @ itoa (int maxRetries + 1) @ '' attempts'') lastErr)"
| "send_attempts N target token insecure jsonData maxRetries attempt (Suc left) lastErr =
     and_then (if attempt = 0 then ret None else observe (on_server (tn_wait N (retry_backoff attempt)))) (\<lambda>cancelled.
     case cancelled of
       Some err \<Rightarrow> exit_with (Wrap ''context cancelled during retry'' (Some err))
     | None \<Rightarrow>
         and_then (observe (sendRequest N target token insecure jsonData)) (\<lambda>x.
         case x of
           Inr _ \<Rightarrow> ret ()
         | Inl (NonRetryable err) \<Rightarrow> exit_with err
         | Inl (Retryable err) \<Rightarrow> send_attempts N target token insecure jsonData maxRetries (Suc attempt) left (Some err)))"

definition sendWithRetry ::
  "'w telemetry_net \<Rightarrow> string \<Rightarrow> string \<Rightarrow> bool \<Rightarrow> string \<Rightarrow> nat \<Rightarrow> ('w telemetry_state, go_error, unit) step" where
  "sendWithRetry N target token insecure jsonData maxRetries =
     send_attempts N target token insecure jsonData maxRetries 0 (maxRetries + 1) None"

definition ExportTelemetryPayload ::
  "'w telemetry_net \<Rightarrow> string \<Rightarrow> string \<Rightarrow> bool \<Rightarrow> telemetry_payload \<Rightarrow> ('w telemetry_state, go_error, unit) step" where
  "ExportTelemetryPayload N target token insecure payload =
     (case tn_marshal N \<lparr>he_time = tp_timestamp payload div second, he_host = tp_cluster_id payload, he_source = ''humio-operator'',
                        he_source_type = tp_source_type payload, he_event = payload\<rparr> of
        Inl err \<Rightarrow> exit_with (Wrap ''failed to marshal telemetry payload'' (Some err))
      | Inr jsonData \<Rightarrow> sendWithRetry N target token insecure jsonData 3)"

definition ExportPayloads ::
  "'w kube \<Rightarrow> 'w telemetry_net \<Rightarrow> string \<Rightarrow> string \<Rightarrow> bool \<Rightarrow> telemetry_payload list \<Rightarrow> ('w telemetry_state, 'r, telemetry_error list) step" where
  "ExportPayloads K N target token insecure payloads =
     fold_step (\<lambda>payload exportErrors.
       and_then (observe (ExportTelemetryPayload N target token insecure payload)) (\<lambda>x.
       case x of
         Inr _ \<Rightarrow> ret exportErrors
       | Inl err \<Rightarrow>
           and_then (on_base (pick (k_now K))) (\<lambda>now.
           ret (exportErrors @ [\<lparr>te_type = ''export'',
             te_message = ''Failed to export '' @ tp_collection_type payload @ '' data: '' @ error_message err, te_timestamp = now\<rparr>]))))
     payloads []"

section \<open>Reconciliation\<close>

definition telemetry_updateStatus ::
  "(telemetry_object, 'w) resource_api \<Rightarrow> duration \<Rightarrow> string \<Rightarrow> ('w telemetry_state, handler_result, handler_result) step" where
  "telemetry_updateStatus A requeuePeriod state =
     and_then get_obj (\<lambda>ht.
     and_then (set_obj (ht\<lparr>rs_state := state\<rparr>)) (\<lambda>_.
     and_then (as_result (update_resource_status A)) (\<lambda>_. ret (requeue_in requeuePeriod, None))))"

definition updateStatusWithConfigError ::
  "'w kube \<Rightarrow> (telemetry_object, 'w) resource_api \<Rightarrow> duration \<Rightarrow> go_error \<Rightarrow> ('w telemetry_state, handler_result, handler_result) step" where
  "updateStatusWithConfigError K A requeuePeriod configErr =
     and_then (on_base (pick (k_now K))) (\<lambda>now.
     and_then get_obj (\<lambda>ht.
     and_then (set_obj (ht\<lparr>rs_state := HumioTelemetryStateConfigError, rs_spec := (rs_spec ht)\<lparr>tos_collection_errors :=
         [\<lparr>te_type = ''configuration'', te_message = error_message configErr, te_timestamp = now\<rparr>]\<rparr>\<rparr>)) (\<lambda>_.
     and_then (as_result (update_resource_status A)) (\<lambda>_. ret (requeue_in requeuePeriod, None)))))"

definition cleanupTelemetry :: "(telemetry_object, 'w) resource_api \<Rightarrow> ('w telemetry_state, handler_result, handler_result) step" where
  "cleanupTelemetry A =
     and_then get_obj (\<lambda>ht.
     case RemoveElement (rs_finalizers ht) HumioFinalizer of
       Inl p \<Rightarrow> exit_with (empty_result, Some p)
     | Inr fs \<Rightarrow>
         and_then (set_obj (ht\<lparr>rs_finalizers := fs\<rparr>)) (\<lambda>_.
         and_then (as_result (update_resource A)) (\<lambda>_. ret (empty_result, None))))"

definition resolveTelemetryToken ::
  "'w kube \<Rightarrow> string \<Rightarrow> secret_key_selector \<Rightarrow> ('w telemetry_state, go_error, string) step" where
  "resolveTelemetryToken K ns ref =
     and_then (log_error (''failed to get secret '' @ sks_name ref) (on_base (query (k_get_object K SecretKind (sks_name ref) ns)))) (\<lambda>secret.
     case ko_data secret (sks_key ref) of
       None \<Rightarrow> exit_with (Msg (''key '' @ sks_key ref @ '' not found in secret '' @ sks_name ref))
     | Some token \<Rightarrow> ret token)"

definition apostrophes :: "string \<Rightarrow> string" where
  "apostrophes s = CHR 0x27 # s @ [CHR 0x27]"

definition one_error :: "'w kube \<Rightarrow> string \<Rightarrow> string \<Rightarrow> ('w telemetry_state, 'r, telemetry_error list) step" where
  "one_error K type message =
     and_then (on_base (pick (k_now K))) (\<lambda>now. ret [\<lparr>te_type = type, te_message = message, te_timestamp = now\<rparr>])"

text \<open>The reference of the token was validated, but the object may have been replaced by what a status write answered.\<close>

definition collectAndExportTelemetry ::
  "lib \<Rightarrow> 'w kube \<Rightarrow> 'w telemetry_net \<Rightarrow> humio_cluster \<Rightarrow> string list \<Rightarrow> ('w telemetry_state, handler_result, telemetry_error list) step" where
  "collectAndExportTelemetry L K N hc dataTypes =
     and_then get_obj (\<lambda>ht.
     let identifier = to_cluster_identifier (rs_spec ht) in
     and_then (observe (on_base (NewCluster L K (hc_name hc) [] (hc_namespace hc) (use_cert_manager L) True False))) (\<lambda>x.
     case x of
       Inl err \<Rightarrow> one_error K ''client'' (''Failed to get Humio client config for cluster '' @ apostrophes (hc_namespace hc @ ''/'' @ hc_name hc)
                    @ '': '' @ error_message err)
     | Inr cfg \<Rightarrow>
         and_then (observe (CollectTelemetryData K N cfg dataTypes identifier)) (\<lambda>y.
         case y of
           Inl err \<Rightarrow> one_error K ''collection'' (''Failed to collect telemetry data for types [['' @ join_with '' '' dataTypes
                        @ '']] from cluster '' @ apostrophes identifier @ '': '' @ error_message err)
         | Inr payloads \<Rightarrow>
             (case to_token (rs_spec ht) of
                None \<Rightarrow> exit_with (empty_result, Some nil_dereference)
              | Some ref \<Rightarrow>
                  and_then (observe (resolveTelemetryToken K (rs_namespace ht) ref)) (\<lambda>z.
                  case z of
                    Inl err \<Rightarrow> one_error K ''configuration'' (''Failed to resolve telemetry token from secret ''
                                 @ apostrophes (rs_namespace ht @ ''/'' @ sks_name ref) @ '': '' @ error_message err)
                  | Inr token \<Rightarrow> ExportPayloads K N (to_url (rs_spec ht)) token (to_tls (rs_spec ht) = Some True) payloads)))))"

text \<open>The status of every type of the run, whether it could be collected or not.\<close>

definition record_one ::
  "time \<Rightarrow> bool \<Rightarrow> string \<Rightarrow> (string \<rightharpoonup> collection_type_status) \<Rightarrow> string \<rightharpoonup> collection_type_status" where
  "record_one now exported dataType status =
     (let st = (case status dataType of Some st \<Rightarrow> st
                | None \<Rightarrow> \<lparr>cts_last_collection = None, cts_last_export = None, cts_collection_count = 0, cts_export_count = 0\<rparr>);
          st = st\<lparr>cts_last_collection := Some now, cts_collection_count := cts_collection_count st + 1\<rparr>;
          st = (if exported then st\<lparr>cts_last_export := Some now, cts_export_count := cts_export_count st + 1\<rparr> else st)
      in status(dataType \<mapsto> st))"

definition record_collection :: "time \<Rightarrow> telemetry_error list \<Rightarrow> string list \<Rightarrow> telemetry_object \<Rightarrow> telemetry_object" where
  "record_collection now exportErrors types ht =
     (let ht = ht\<lparr>tos_last_collection_time := Some now,
                  tos_collection_status := fold (record_one now (exportErrors = [])) types (tos_collection_status ht)\<rparr>
      in if exportErrors = []
         then ht\<lparr>tos_last_export_time := Some now, tos_export_errors := [], tos_collection_errors := []\<rparr>
         else ht\<lparr>tos_export_errors := exportErrors\<rparr>)"

definition HumioTelemetryReconciler_Reconcile ::
  "lib \<Rightarrow> 'w kube \<Rightarrow> (telemetry_object, 'w) resource_api \<Rightarrow> 'w telemetry_net \<Rightarrow> duration \<Rightarrow> string \<Rightarrow> string \<Rightarrow> string
   \<Rightarrow> 'w telemetry_state \<Rightarrow> handler_result \<times> 'w telemetry_state" where
  "HumioTelemetryReconciler_Reconcile L K A N requeuePeriod onlyNamespace ns name =
     returned
       (and_then (watched onlyNamespace ns) (\<lambda>_.
        and_then (fetch_object A ns name) (\<lambda>_.
        and_then get_obj (\<lambda>ht.
        if rs_deleted ht then cleanupTelemetry A
        else if \<not> ContainsElement (rs_finalizers ht) HumioFinalizer
        then and_then (set_obj (ht\<lparr>rs_finalizers := rs_finalizers ht @ [HumioFinalizer]\<rparr>)) (\<lambda>_.
             and_then (as_result (update_resource A)) (\<lambda>_. ret (requeue_now, None)))
        else
          (case validateConfiguration ht of
             Some err \<Rightarrow> updateStatusWithConfigError K A requeuePeriod err
           | None \<Rightarrow>
               and_then (observe (on_base (query (k_get_cluster K (rs_managed_cluster ht) (rs_namespace ht))))) (\<lambda>x.
               case x of
                 Inl err \<Rightarrow> telemetry_updateStatus A requeuePeriod HumioTelemetryStateConfigError
               | Inr hc \<Rightarrow>
                   and_then (on_base (pick (k_now K))) (\<lambda>now.
                   case ShouldRunTelemetryCollection (rs_spec ht) now of (shouldCollect, collectionTypes, nextCollection) \<Rightarrow>
                   if \<not> shouldCollect
                   then and_then (on_base (pick (k_now K))) (\<lambda>later. ret (requeue_in (time_until nextCollection later), None))
                   else
                     and_then (telemetry_updateStatus A requeuePeriod HumioTelemetryStateCollecting) (\<lambda>_.
                     and_then (collectAndExportTelemetry L K N hc collectionTypes) (\<lambda>exportErrors.
                     and_then (on_base (pick (k_now K))) (\<lambda>now.
                     and_then get_obj (\<lambda>ht.
                     and_then (set_obj (ht\<lparr>rs_spec := record_collection now exportErrors collectionTypes (rs_spec ht)\<rparr>)) (\<lambda>_.
                     telemetry_updateStatus A requeuePeriod HumioTelemetryStateEnabled))))))))))))"

section \<open>The schedule as a set of due times\<close>

text \<open>When a collection is due again, if its interval can be read.\<close>

definition due_at :: "(string \<rightharpoonup> collection_type_status) \<Rightarrow> telemetry_collection \<Rightarrow> time option" where
  "due_at status c =
     (case parseDuration (tc_interval c) of Inl _ \<Rightarrow> None | Inr interval \<Rightarrow> Some (last_collection status (tc_include c) + interval))"

definition due_by :: "(string \<rightharpoonup> collection_type_status) \<Rightarrow> time \<Rightarrow> telemetry_collection \<Rightarrow> bool" where
  "due_by status now c \<longleftrightarrow> (\<exists>t. due_at status c = Some t \<and> t \<le> now)"

lemma schedule_one_due:
  "schedule_one status now c (b, types, next) =
     (b \<or> due_by status now c, types @ (if due_by status now c then tc_include c else []),
      case due_at status c of None \<Rightarrow> next | Some t \<Rightarrow> min t next)"
  by (auto simp: schedule_one_def due_by_def due_at_def Let_def min_def split: sum.split)

definition due_times :: "(string \<rightharpoonup> collection_type_status) \<Rightarrow> telemetry_collection list \<Rightarrow> time set" where
  "due_times status cs = {t. \<exists>c \<in> set cs. due_at status c = Some t}"

lemma finite_due_times: "finite (due_times status cs)"
proof -
  have "due_times status cs \<subseteq> (\<lambda>c. the (due_at status c)) ` set cs" by (force simp: due_times_def)
  then show ?thesis by (rule finite_subset) simp
qed

lemma due_times_Cons:
  "due_times status (c # cs) = (case due_at status c of None \<Rightarrow> {} | Some t \<Rightarrow> {t}) \<union> due_times status cs"
  by (auto simp: due_times_def split: option.split)

lemma fold_schedule:
  "fold (schedule_one status now) cs (b, types, next) =
     (b \<or> (\<exists>c \<in> set cs. due_by status now c), types @ concat (map tc_include (filter (due_by status now) cs)),
      Min (insert next (due_times status cs)))"
proof (induction cs arbitrary: b types "next")
  case Nil
  then show ?case by (simp add: due_times_def)
next
  case (Cons c cs)
  have "Min (insert (min t n) (due_times status cs)) = Min (insert n (insert t (due_times status cs)))" for t n
    using finite_due_times [of status cs] by (cases "due_times status cs = {}") (auto simp: min.assoc min.commute min.left_commute)
  then show ?case
    by (auto simp: Cons.IH schedule_one_due due_times_Cons split: option.split)
qed


section \<open>A shared type starves a collection\<close>

definition later_of :: "(string \<rightharpoonup> collection_type_status) \<Rightarrow> string \<Rightarrow> time \<Rightarrow> time" where
  "later_of status dataType latest =
     (case case_option None cts_last_collection (status dataType) of None \<Rightarrow> latest | Some t \<Rightarrow> max latest t)"

lemma last_collection_fold: "last_collection status types = fold (later_of status) types zero_time"
proof -
  have "later_of status = (\<lambda>dataType latest. case status dataType of
         Some st \<Rightarrow> (case cts_last_collection st of Some t \<Rightarrow> if latest < t then t else latest | None \<Rightarrow> latest)
       | None \<Rightarrow> latest)"
    by (intro ext) (auto simp: later_of_def split: option.split)
  then show ?thesis by (simp add: last_collection_def)
qed

lemma last_collection_one: "dataType \<in> set types \<Longrightarrow> last_collection status [dataType] \<le> last_collection status types"
proof -
  have step: "l \<le> later_of status x l" for x l by (auto simp: later_of_def split: option.split)
  have grows: "l \<le> fold (later_of status) ts l" for ts l
  proof (induction ts arbitrary: l)
    case (Cons x xs)
    then show ?case using step [of l x] by (auto intro: order_trans)
  qed simp
  have "z \<le> l \<Longrightarrow> later_of status dataType z \<le> fold (later_of status) types l" if "dataType \<in> set types" for z l
    using that
  proof (induction types arbitrary: l)
    case (Cons x xs)
    show ?case
    proof (cases "x = dataType")
      case True
      have "later_of status dataType z \<le> later_of status x l" using True Cons.prems by (auto simp: later_of_def split: option.split)
      then show ?thesis using grows [of "later_of status x l" xs] by simp
    next
      case False
      have "z \<le> later_of status x l" using Cons.prems by (auto simp: later_of_def split: option.split)
      then show ?thesis using Cons False by simp
    qed
  qed simp
  then show "dataType \<in> set types \<Longrightarrow> ?thesis" by (simp add: last_collection_fold)
qed

lemma fold_record:
  "case_option None cts_last_collection (fold (record_one now ok) types status dataType) =
     (if dataType \<in> set types then Some now else case_option None cts_last_collection (status dataType))"
proof (induction types arbitrary: status)
  case (Cons x xs)
  have "case_option None cts_last_collection (record_one now ok x status dataType) =
      (if dataType = x then Some now else case_option None cts_last_collection (status dataType))"
    by (auto simp: record_one_def Let_def split: option.split)
  then show ?case by (auto simp: Cons.IH)
qed simp

lemma last_collection_record:
  "last_collection (tos_collection_status (record_collection now errs types ht)) [dataType] =
     (if dataType \<in> set types then max zero_time now else last_collection (tos_collection_status ht) [dataType])"
  by (simp add: last_collection_fold later_of_def record_collection_def Let_def fold_record)

lemma record_keeps_collections [simp]: "to_collections (record_collection now errs types ht) = to_collections ht"
  by (simp add: record_collection_def Let_def)

text \<open>
  Runs of the controller over the same specification: the times at which a run decides and at which it records, and the errors of
  its export.
\<close>

fun telemetry_rounds :: "telemetry_object \<Rightarrow> (time \<times> time \<times> telemetry_error list) list \<Rightarrow> string list list" where
  "telemetry_rounds ht [] = []"
| "telemetry_rounds ht ((now, later, errs) # rest) =
     (case ShouldRunTelemetryCollection ht now of (shouldCollect, types, _) \<Rightarrow>
        types # telemetry_rounds (if shouldCollect then record_collection later errs types ht else ht) rest)"

fun closely_spaced :: "duration \<Rightarrow> time \<Rightarrow> (time \<times> time \<times> telemetry_error list) list \<Rightarrow> bool" where
  "closely_spaced gap before [] \<longleftrightarrow> True"
| "closely_spaced gap before ((now, later, errs) # rest) \<longleftrightarrow> now \<le> before + gap \<and> now \<le> later \<and> closely_spaced gap now rest"

text \<open>
  Claim C37. A shared type starves a collection. Let one collection ask for a type alone, with a short interval, and let every
  collection that asks for another type also ask for the shared one, with a longer interval. Once the shared type has been
  collected, and while runs are no further apart than the difference of the intervals, the other type is never collected again,
  however long ago it was collected, or if it never was: a collection counts as made when any of its types was.
\<close>

theorem shared_type_starves:
  assumes "frequent \<in> set (to_collections ht)" and "tc_include frequent = [shared]"
    and "parseDuration (tc_interval frequent) = Inr short" and "0 < short"
    and "\<forall>c \<in> set (to_collections ht). other \<in> set (tc_include c) \<longrightarrow>
           shared \<in> set (tc_include c) \<and> (\<exists>interval. parseDuration (tc_interval c) = Inr interval \<and> long \<le> interval)"
    and "before < last_collection (tos_collection_status ht) [shared] + short"
    and "closely_spaced (long - short) before runs"
  shows "\<forall>types \<in> set (telemetry_rounds ht runs). other \<notin> set types"
  using assms
proof (induction runs arbitrary: ht before)
  case (Cons run runs)
  obtain now later errs where run: "run = (now, later, errs)" by (cases run)
  let ?st = "tos_collection_status ht"
  let ?types = "concat (map tc_include (filter (due_by ?st now) (to_collections ht)))"
  let ?next = "if \<exists>c \<in> set (to_collections ht). due_by ?st now c then record_collection later errs ?types ht else ht"
  have soon: "now < last_collection ?st [shared] + long" and order: "now \<le> later"
    using Cons.prems(6,7) by (auto simp: run)
  have "\<not> due_by ?st now c" if mem: "c \<in> set (to_collections ht)" "other \<in> set (tc_include c)" for c
  proof -
    obtain interval where "parseDuration (tc_interval c) = Inr interval" "long \<le> interval" "shared \<in> set (tc_include c)"
      using Cons.prems(5) mem by blast
    then show ?thesis using soon last_collection_one [of shared "tc_include c" ?st] by (auto simp: due_by_def due_at_def)
  qed
  then have starved: "other \<notin> set ?types" by auto
  have "now < last_collection (tos_collection_status ?next) [shared] + short"
  proof (cases "due_by ?st now frequent")
    case True
    then have "shared \<in> set ?types" using Cons.prems(1,2) by force
    then show ?thesis using True Cons.prems(1,4) order by (auto simp: last_collection_record)
  next
    case False
    then have "now < last_collection ?st [shared] + short"
      using Cons.prems(2,3) by (simp add: due_by_def due_at_def)
    then show ?thesis using Cons.prems(4) order by (auto simp: last_collection_record)
  qed
  then have "\<forall>types \<in> set (telemetry_rounds ?next runs). other \<notin> set types"
    by (intro Cons.IH) (use Cons.prems(1-5,7) in \<open>auto simp: run\<close>)
  then show ?case using starved by (simp add: run fold_schedule ShouldRunTelemetryCollection_def)
qed simp

section \<open>Day counts\<close>

lemma parse_days:
  assumes "0 \<le> d" and "d < 2 ^ 63"
  shows "parseDuration (itoa d @ ''d'') = Inr (wrap64 (d * 24 * hour))"
proof -
  have "itoa d \<noteq> []" using assms(1) by (simp add: itoa_def digits_of_nonempty)
  then have "\<not> length (itoa d @ ''d'') < 2" by (cases "itoa d") auto
  then show ?thesis using atoi_itoa [of d] assms by (simp add: parseDuration_def Let_def butlast_append)
qed

lemma wrap64_eqs:
  "0 \<le> i \<Longrightarrow> i < 2 ^ 63 \<Longrightarrow> wrap64 i = i" "2 ^ 63 \<le> j \<Longrightarrow> j < 2 ^ 64 \<Longrightarrow> wrap64 j = j - 2 ^ 64"
proof -
  have wrap: "wrap64 k = signed_take_bit 63 k" for k by (simp add: wrap64_def sint_sbintrunc')
  show "0 \<le> i \<Longrightarrow> i < 2 ^ 63 \<Longrightarrow> wrap64 i = i" by (simp add: wrap signed_take_bit_int_eq_self)
  have "signed_take_bit 63 j = signed_take_bit 63 (j - 2 ^ 64)"
    by (simp add: signed_take_bit_eq_iff_take_bit_eq take_bit_eq_mod)
  then show "2 ^ 63 \<le> j \<Longrightarrow> j < 2 ^ 64 \<Longrightarrow> wrap64 j = j - 2 ^ 64"
    by (simp add: wrap signed_take_bit_int_eq_self)
qed

text \<open>
  Days overflow. An interval of up to 106751 days is read exactly; one of 106752 up to 213503 days is read, without an
  error, as a duration that is 2 to the 64 nanoseconds too short and so negative: its collection is due in every run.
\<close>

lemma day_counts:
  assumes "0 \<le> d" and "d \<le> 213503"
  shows "parseDuration (itoa d @ ''d'') = Inr (if d \<le> 106751 then d * 24 * hour else d * 24 * hour - 2 ^ 64)"
  using assms by (auto simp: parse_days wrap64_eqs hour_def minute_def second_def)

theorem day_counts_witness: "parseDuration ''106752d'' = Inr (- 9223371273709551616)"
proof -
  have "itoa 106752 = ''106752''" by (simp add: itoa_def digits_of.simps digit_char_def) (code_simp)
  then show ?thesis using day_counts [of 106752] by (simp add: hour_def minute_def second_def)
qed

section \<open>What is collected and sent\<close>

definition makes_payloads :: "string \<Rightarrow> bool" where
  "makes_payloads dataType \<longleftrightarrow> dataType = ''license'' \<or> dataType = ''cluster_info''"

lemma collect_type_makes:
  "holds_after (\<lambda>s. \<forall>p \<in> set (fst x). makes_payloads (tp_collection_type p)) (collect_type N cfg clusterID timestamp dataType x)
     (\<lambda>r s. True) (\<lambda>x' s. \<forall>p \<in> set (fst x'). makes_payloads (tp_collection_type p))"
proof (rule holds_afterI)
  fix s x' s' assume old: "\<forall>p \<in> set (fst x). makes_payloads (tp_collection_type p)"
    and run: "collect_type N cfg clusterID timestamp dataType x s = (Inr x', s')"
  show "\<forall>p \<in> set (fst x'). makes_payloads (tp_collection_type p)"
    using run old by (cases x) (auto simp: collect_type_def and_then_def observe_def ret_def payload_of_def makes_payloads_def
        split: prod.splits sum.splits if_splits)
qed simp

lemma collected_types:
  assumes "fst (CollectTelemetryData K N cfg dataTypes clusterID s) = Inr payloads" and "p \<in> set payloads"
  shows "makes_payloads (tp_collection_type p)"
proof -
  have "holds_after (\<lambda>s. \<forall>p \<in> set (fst ([] :: telemetry_payload list, [] :: telemetry_error list)). makes_payloads (tp_collection_type p))
      (fold_step (collect_type N cfg clusterID timestamp) dataTypes ([], [])) (\<lambda>r s. True)
      (\<lambda>x' s. \<forall>p \<in> set (fst x'). makes_payloads (tp_collection_type p))" for timestamp
    by (rule holds_after_fold_step [where I = "\<lambda>ys x' s. \<forall>p \<in> set (fst x'). makes_payloads (tp_collection_type p)"])
      (rule collect_type_makes)
  then have "\<forall>p \<in> set ps. makes_payloads (tp_collection_type p)"
    if "fold_step (collect_type N cfg clusterID timestamp) dataTypes ([], []) s1 = (Inr (ps, es), s2)" for timestamp s1 ps es s2
    using that by (fastforce simp: holds_after_def)
  then show ?thesis
    using assms unfolding CollectTelemetryData_def
    by (auto simp: and_then_def on_base_def pick_def ret_def exit_with_def split: prod.splits sum.splits if_splits)
qed

lemma recorded_export:
  "dataType \<in> set types \<Longrightarrow>
   \<exists>st. tos_collection_status (record_collection now [] types ht) dataType = Some st \<and> cts_last_export st = Some now"
proof -
  have step: "\<exists>st. record_one now True x status x = Some st \<and> cts_last_export st = Some now" for x status
    by (auto simp: record_one_def Let_def)
  have "(\<exists>st. status dataType = Some st \<and> cts_last_export st = Some now) \<or> dataType \<in> set types \<Longrightarrow>
      \<exists>st. fold (record_one now True) types status dataType = Some st \<and> cts_last_export st = Some now" for status
  proof (induction types arbitrary: status)
    case (Cons x xs)
    then show ?case
      using step [of x status] by (cases "x = dataType") (auto simp: record_one_def Let_def)
  qed simp
  then show "dataType \<in> set types \<Longrightarrow> ?thesis" by (simp add: record_collection_def Let_def)
qed

text \<open>
  Claim C38. Data that is never collected counts as exported. Of the four types of data a telemetry resource may ask for, two,
  user_info and repository_info, pass validation and yet are in no payload; when other types of the run were collected and sent, the
  status says that these were exported as well.
\<close>

theorem unsupported_counts_as_exported:
  assumes "dataType \<in> {''user_info'', ''repository_info''}" and "dataType \<in> set dataTypes"
    and "fst (CollectTelemetryData K N cfg dataTypes clusterID s) = Inr payloads"
  shows "isValidDataType dataType \<and> (\<forall>p \<in> set payloads. tp_collection_type p \<noteq> dataType)
    \<and> (\<exists>st. tos_collection_status (record_collection now [] dataTypes ht) dataType = Some st \<and> cts_last_export st = Some now)"
proof (intro conjI ballI)
  show "isValidDataType dataType" using assms(1) by (auto simp: isValidDataType_def)
  show "tp_collection_type p \<noteq> dataType" if "p \<in> set payloads" for p
    using collected_types [OF assms(3) that] assms(1) by (auto simp: makes_payloads_def)
  show "\<exists>st. tos_collection_status (record_collection now [] dataTypes ht) dataType = Some st \<and> cts_last_export st = Some now"
    by (rule recorded_export [OF assms(2)])
qed

section \<open>Retries\<close>

text \<open>
  Counters of the world: every HTTP request counts one, every wait its duration, and nothing else is counted.
\<close>

definition counted :: "'w telemetry_net \<Rightarrow> ('w \<Rightarrow> nat) \<Rightarrow> ('w \<Rightarrow> duration) \<Rightarrow> bool" where
  "counted N requests waited \<longleftrightarrow>
     (\<forall>target token insecure body w. let w' = snd (tn_do N target token insecure body w) in requests w' = requests w + 1 \<and> waited w' = waited w) \<and>
     (\<forall>d w. let w' = snd (tn_wait N d w) in requests w' = requests w \<and> waited w' \<le> waited w + d)"

abbreviation world :: "('w, 'spec) rst \<Rightarrow> 'w" where "world s \<equiv> server (base s)"

lemma request_counted:
  assumes "counted N requests waited"
  shows "requests (world (snd (sendRequest N target token insecure body s))) \<le> requests (world s) + 1
    \<and> waited (world (snd (sendRequest N target token insecure body s))) = waited (world s)"
  using assms by (auto simp: counted_def sendRequest_def Let_def and_then_def observe_def on_server_def exit_with_def ret_def
      split: option.split sum.split prod.split)

lemma wait_counted:
  assumes "counted N requests waited"
  obtains c s1 where "(if attempt = 0 then ret None else observe (on_server (tn_wait N (retry_backoff attempt)))) s = (Inr c, s1)"
    and "requests (world s1) = requests (world s)"
    and "waited (world s1) \<le> waited (world s) + (if attempt = 0 then 0 else retry_backoff attempt)"
  using assms by (cases "attempt = 0") (auto simp: counted_def Let_def ret_def observe_def on_server_def)

definition waits :: "nat \<Rightarrow> nat \<Rightarrow> duration" where
  "waits attempt left = (\<Sum>i \<leftarrow> [attempt..<attempt + left]. if i = 0 then 0 else retry_backoff i)"

lemma waits_simps: "waits attempt 0 = 0"
  "waits attempt (Suc left) = (if attempt = 0 then 0 else retry_backoff attempt) + waits (Suc attempt) left"
  by (simp_all add: waits_def upt_conv_Cons)

lemma waits_nonneg: "0 \<le> waits attempt left"
  by (induction left arbitrary: attempt) (auto simp: waits_simps retry_backoff_def second_def)

lemma attempts_counted:
  fixes N :: "'w telemetry_net"
  assumes "counted N requests waited"
  shows "requests (world (snd (send_attempts N target token insecure body n attempt left lastErr s))) \<le> requests (world s) + left
    \<and> waited (world (snd (send_attempts N target token insecure body n attempt left lastErr s))) \<le> waited (world s) + waits attempt left"
proof (induction left arbitrary: attempt lastErr s)
  case 0
  then show ?case by (simp add: exit_with_def waits_simps)
next
  case (Suc left)
  obtain c s1 where wait: "(if attempt = 0 then ret None else observe (on_server (tn_wait N (retry_backoff attempt)))) s
      = (Inr c :: go_error + go_error option, s1)"
    and r1: "requests (world s1) = requests (world s)"
    and w1: "waited (world s1) \<le> waited (world s) + (if attempt = 0 then 0 else retry_backoff attempt)"
    by (rule wait_counted [OF assms])
  obtain x s2 where send: "sendRequest N target token insecure body s1 = (x, s2)" by fastforce
  have r2: "requests (world s2) \<le> requests (world s1) + 1" and w2: "waited (world s2) = waited (world s1)"
    using request_counted [OF assms, of target token insecure body s1] by (simp_all add: send)
  have after_wait: "and_then (if attempt = 0 then ret None else observe (on_server (tn_wait N (retry_backoff attempt)))) f s = f c s1"
    for f :: "go_error option \<Rightarrow> ('w telemetry_state, go_error, unit) step"
    using wait by (cases "attempt = 0") (simp_all add: and_then_def)
  show ?case
  proof (cases c)
    case (Some err)
    then have "snd (send_attempts N target token insecure body n attempt (Suc left) lastErr s) = s1"
      by (simp only: send_attempts.simps(2) after_wait option.case exit_with_def snd_conv)
    then show ?thesis using r1 w1 waits_nonneg [of "Suc attempt" left] by (simp add: waits_simps)
  next
    case None
    have "send_attempts N target token insecure body n attempt (Suc left) lastErr s =
        and_then (observe (sendRequest N target token insecure body)) (\<lambda>x. case x of Inr _ \<Rightarrow> ret () | Inl (NonRetryable err) \<Rightarrow> exit_with err
          | Inl (Retryable err) \<Rightarrow> send_attempts N target token insecure body n (Suc attempt) left (Some err)) s1"
      by (simp only: send_attempts.simps(2) after_wait None option.case)
    then have run: "snd (send_attempts N target token insecure body n attempt (Suc left) lastErr s) =
        (case x of Inl (Retryable err) \<Rightarrow> snd (send_attempts N target token insecure body n (Suc attempt) left (Some err) s2) | _ \<Rightarrow> s2)"
      by (auto simp: and_then_def observe_def send ret_def exit_with_def split: sum.split send_error.split)
    have r3: "requests (world s2) \<le> requests (world s) + 1"
      and w3: "waited (world s2) \<le> waited (world s) + (if attempt = 0 then 0 else retry_backoff attempt)"
      using r1 w1 r2 w2 by simp_all
    show ?thesis
    proof (cases "\<exists>err. x = Inl (Retryable err)")
      case True
      then obtain err where "x = Inl (Retryable err)" by blast
      moreover note Suc.IH [of "Suc attempt" "Some err" s2]
      ultimately show ?thesis using run r3 w3 by (simp only: waits_simps(2) sum.case send_error.case) linarith
    next
      case False
      then have "snd (send_attempts N target token insecure body n attempt (Suc left) lastErr s) = s2"
        using run by (simp only:) (auto split: sum.split send_error.split)
      then show ?thesis using r3 w3 waits_nonneg [of "Suc attempt" left] by (simp only: waits_simps(2)) linarith
    qed
  qed
qed

text \<open>
  Claim C39. The retries of an export are bounded. Whatever the endpoint answers, the export of a payload makes at most four
  requests and waits at most seven seconds between them.
\<close>

theorem export_bounded:
  assumes "counted N requests waited"
  shows "requests (world (snd (ExportTelemetryPayload N target token insecure payload s))) \<le> requests (world s) + 4
    \<and> waited (world (snd (ExportTelemetryPayload N target token insecure payload s))) \<le> waited (world s) + 7 * second"
proof -
  have "waits 0 4 = 7 * second" by (simp add: waits_def retry_backoff_def upt_conv_Cons)
  then show ?thesis
    using attempts_counted [OF assms, of target token insecure _ 3 0 4 None s]
    by (auto simp: ExportTelemetryPayload_def sendWithRetry_def exit_with_def second_def split: sum.split)
qed

section \<open>Witnesses\<close>

text \<open>A network that counts requests and seconds, and whose endpoint is always unavailable.\<close>

definition counting_net :: "(nat \<times> duration) telemetry_net" where
  "counting_net = \<lparr>tn_license = (\<lambda>_ w. (Inr (Some (Trial 1 2)), w)), tn_nodes = (\<lambda>_ w. (Inr 3, w)), tn_status = (\<lambda>_ w. (Inr ''1.2'', w)),
     tn_marshal = (\<lambda>_. Inr ''{}''), tn_new_request = (\<lambda>_. None), tn_do = (\<lambda>_ _ _ _ (n, t). (Inr (503, []), (n + 1, t))),
     tn_wait = (\<lambda>d (n, t). (None, (n, t + d)))\<rparr>"

definition sample_collections :: "telemetry_collection list" where
  "sample_collections = [\<lparr>tc_interval = ''15m'', tc_include = [''license'']\<rparr>, \<lparr>tc_interval = ''1h'', tc_include = [''license'', ''cluster_info'']\<rparr>]"

definition sample_telemetry :: telemetry_object where
  "sample_telemetry = \<lparr>to_cluster_identifier = ''id'', to_url = ''https://hec'', to_token = Some \<lparr>sks_name = ''t'', sks_key = ''token''\<rparr>,
     to_tls = None, to_collections = sample_collections, tos_last_collection_time = None, tos_last_export_time = None,
     tos_collection_errors = [], tos_export_errors = [],
     tos_collection_status = [''license'' \<mapsto> \<lparr>cts_last_collection = Some 0, cts_last_export = None, cts_collection_count = 1, cts_export_count = 0\<rparr>]\<rparr>"

definition sample_payload :: telemetry_payload where
  "sample_payload = payload_of 0 ''id'' ''cluster_info'' (ClusterInfo \<lparr>tci_version = ''1.2'', tci_node_count = 3, tci_user_count = 0, tci_repository_count = 0\<rparr>)"

lemma sample_intervals: "parseDuration ''15m'' = Inr (900 * second)" "parseDuration ''1h'' = Inr (3600 * second)"
  by code_simp+

theorem export_bounded_witness:
  "let w = world (snd (ExportTelemetryPayload counting_net [] [] False sample_payload (run_state (0, 0) (external_object sample_telemetry))))
   in fst w \<le> 4 \<and> snd w \<le> 7000000000"
proof -
  have "counted counting_net fst snd" by (auto simp: counted_def counting_net_def)
  from export_bounded [OF this, of "[]" "[]" False sample_payload "run_state (0, 0) (external_object sample_telemetry)"]
  show ?thesis by (simp add: run_state_def second_def Let_def)
qed

theorem shared_type_starves_witness:
  "list_all (\<lambda>types. ''cluster_info'' \<notin> set types)
     (telemetry_rounds sample_telemetry [(600 * second, 601 * second, []), (1500 * second, 1501 * second, []), (4200 * second, 4201 * second, [])])"
  unfolding list_all_iff
  by (rule shared_type_starves [where frequent = "hd sample_collections" and shared = "''license''" and short = "900 * second"
        and long = "3600 * second" and before = 0])
    (auto simp: sample_telemetry_def sample_collections_def sample_intervals last_collection_def zero_time_def second_def)

theorem unsupported_counts_as_exported_witness:
  "isValidDataType ''user_info''
    \<and> tp_collection_type (payload_of 7 ''id'' ''cluster_info'' (ClusterInfo \<lparr>tci_version = ''1.2'', tci_node_count = 3, tci_user_count = 0, tci_repository_count = 0\<rparr>)) \<noteq> ''user_info''
    \<and> (\<exists>st. tos_collection_status (record_collection 9 [] [''cluster_info'', ''user_info''] sample_telemetry) ''user_info'' = Some st
         \<and> cts_last_export st = Some 9)"
proof -
  let ?K = "answering_kube\<lparr>k_now := Pair 7\<rparr>"
  have "fst (CollectTelemetryData ?K counting_net cfg [''cluster_info'', ''user_info''] ''id'' (run_state (0, 0) (external_object sample_telemetry)))
      = Inr [payload_of 7 ''id'' ''cluster_info'' (ClusterInfo \<lparr>tci_version = ''1.2'', tci_node_count = 3, tci_user_count = 0, tci_repository_count = 0\<rparr>)]" for cfg
    by (simp add: CollectTelemetryData_def collect_type_def CollectClusterInfo_def and_then_def on_base_def pick_def observe_def
        log_error_def on_error_def on_server_def counting_net_def ret_def run_state_def)
  from unsupported_counts_as_exported [OF _ _ this, of "''user_info''" 9 sample_telemetry] show ?thesis by simp
qed

end
