(* ===== verification/Pdf_Objects.thy ===== *)
theory Pdf_Objects
  imports Telemetry "HOL-Library.List_Lexorder" "HOL-Library.Char_ord" "HOL-Library.AList"
begin

text \<open>
  The PDF render service, first part of humiopdfrenderservice_controller.go: the resource, and the deployment, service, autoscaler
  and certificate the controller constructs for it, with the normal form of a pod its hash is taken of.

  Parameters are the zero test of a quantity and \<open>meta.SetStatusCondition\<close>; JSON and hashes are those of \<open>lib\<close>.
\<close>

section \<open>The resource\<close>

record autoscaling_spec =
  as_min_replicas :: "int option"
  as_max_replicas :: int
  as_target_cpu :: "int option"
  as_target_memory :: "int option"
  as_metrics :: "kvalue list"
  as_behavior :: kvalue

record status_condition =
  sc_type :: string
  sc_status :: string
  sc_reason :: string
  sc_message :: string
  sc_last_transition_time :: time

type_synonym quantities = "(string \<times> kvalue) list"   \<comment> \<open>a resource list, by name\<close>

record pdf_service =
  pr_generation :: int
  pr_uid :: string
  pr_image :: string
  pr_image_pull_policy :: string
  pr_replicas :: int
  pr_port :: int
  pr_requests :: quantities
  pr_limits :: quantities
  pr_environment_variables :: "env_var list"
  pr_affinity :: kvalue
  pr_annotations :: smap
  pr_labels :: smap
  pr_service_annotations :: smap
  pr_liveness_probe :: "kvalue option"
  pr_readiness_probe :: "kvalue option"
  pr_service_type :: string
  pr_service_account_name :: string
  pr_image_pull_secrets :: "string list"
  pr_container_security_context :: "kvalue option"
  pr_pod_security_context :: "kvalue option"
  pr_volumes :: "volume list"
  pr_volume_mounts :: "volume_mount list"
  pr_tls :: "tls_spec option"
  pr_autoscaling :: "autoscaling_spec option"
  prs_ready_replicas :: int                           \<comment> \<open>from here on the status\<close>
  prs_conditions :: "status_condition list"
  prs_observed_generation :: int

record pdf_lib =
  pl_quantity_is_zero :: "kvalue \<Rightarrow> bool"
  pl_set_condition :: "status_condition list \<Rightarrow> status_condition \<Rightarrow> status_condition list"

definition DefaultPdfRenderServicePort :: int where "DefaultPdfRenderServicePort = 5123"
definition HPRSPodSpecHashAnnotation :: string where "HPRSPodSpecHashAnnotation = ''humio.com/pod-spec-hash''"
definition HPRSCertificateHashAnnotation :: string where "HPRSCertificateHashAnnotation = ''humio.com/hprs-certificate-hash''"
definition PullIfNotPresent :: string where "PullIfNotPresent = ''IfNotPresent''"

definition SetDefaults :: "pdf_service \<Rightarrow> pdf_service" where
  "SetDefaults h =
     h\<lparr>pr_port := if pr_port h = 0 then 5123 else pr_port h,
       pr_service_type := if pr_service_type h = [] then ''ClusterIP'' else pr_service_type h,
       pr_image_pull_policy := if pr_image_pull_policy h = [] then PullIfNotPresent else pr_image_pull_policy h\<rparr>"

section \<open>Helpers\<close>

definition use_kind_cluster :: "lib \<Rightarrow> bool" where
  "use_kind_cluster L \<longleftrightarrow> x_getenv L ''HUMIO_E2E_LICENSE'' \<noteq> []"

text \<open>An explicit setting holds whether cert-manager is there or not.\<close>

definition TLSEnabledForHPRS :: "lib \<Rightarrow> pdf_service \<Rightarrow> bool" where
  "TLSEnabledForHPRS L h =
     (case pr_tls h of
        None \<Rightarrow> use_cert_manager L
      | Some t \<Rightarrow> (case tls_enabled_flag t of None \<Rightarrow> use_cert_manager L | Some b \<Rightarrow> b))"

definition UseExistingCAForHPRS :: "pdf_service \<Rightarrow> bool" where
  "UseExistingCAForHPRS h \<longleftrightarrow> (\<exists>t. pr_tls h = Some t \<and> tls_ca_secret_name t \<noteq> [])"

definition GetCASecretNameForHPRS :: "pdf_service resource \<Rightarrow> string" where
  "GetCASecretNameForHPRS r =
     (case pr_tls (rs_spec r) of
        Some t \<Rightarrow> if tls_ca_secret_name t \<noteq> [] then tls_ca_secret_name t else rs_name r @ ''-ca-keypair''
      | None \<Rightarrow> rs_name r @ ''-ca-keypair'')"

definition HpaEnabledForHPRS :: "pdf_service \<Rightarrow> bool" where
  "HpaEnabledForHPRS h = (case pr_autoscaling h of None \<Rightarrow> False | Some a \<Rightarrow> 0 < as_max_replicas a)"

definition PdfRenderServiceChildName :: "string \<Rightarrow> string" where
  "PdfRenderServiceChildName pdfServiceName =
     (let result = ''hprs-'' @ pdfServiceName in if length result \<le> 63 then result else take 63 result)"

definition PdfRenderServiceHpaName :: "string \<Rightarrow> string" where
  "PdfRenderServiceHpaName pdfServiceName = PdfRenderServiceChildName pdfServiceName @ ''-hpa''"

definition childName :: "pdf_service resource \<Rightarrow> string" where
  "childName r = PdfRenderServiceChildName (rs_name r)"

definition labelsForHumioPdfRenderService :: "string \<Rightarrow> smap" where
  "labelsForHumioPdfRenderService name =
     [''app'' \<mapsto> ''humio-pdf-render-service'',
      ''humio-pdf-render-service'' \<mapsto> (if 63 < length name then take 63 name else name)]"

definition getPdfRenderServicePort :: "pdf_service \<Rightarrow> int" where
  "getPdfRenderServicePort h = (if pr_port h \<noteq> 0 then pr_port h else DefaultPdfRenderServicePort)"

definition DefaultPDFRenderServiceImage :: "lib \<Rightarrow> string" where
  "DefaultPDFRenderServiceImage L =
     (if use_dummy_image L then ''humio/humio-core:dummy''
      else ''humio/pdf-render-service:0.1.2--build-104--sha-9a7598de95bb9775b6f59d874c37a206713bae01'')"

text \<open>The first element of each name is kept.\<close>

fun dedup_by :: "('a \<Rightarrow> string) \<Rightarrow> string set \<Rightarrow> 'a list \<Rightarrow> 'a list" where
  "dedup_by key seen [] = []"
| "dedup_by key seen (x # xs) =
     (if key x \<in> seen then dedup_by key seen xs else x # dedup_by key (insert (key x) seen) xs)"

definition dedupEnvVars :: "env_var list \<Rightarrow> env_var list" where "dedupEnvVars = dedup_by ev_name {}"
definition dedupVolumes :: "volume list \<Rightarrow> volume list" where "dedupVolumes = dedup_by v_name {}"
definition dedupVolumeMounts :: "volume_mount list \<Rightarrow> volume_mount list" where "dedupVolumeMounts = dedup_by vm_name {}"

definition sortEnv :: "env_var list \<Rightarrow> env_var list" where "sortEnv env = sort_key ev_name env"

section \<open>What the container is given\<close>

definition tls_secret_source :: "string \<Rightarrow> (string \<times> kvalue) list \<Rightarrow> int \<Rightarrow> volume_source" where
  "tls_secret_source secretName items mode = \<lparr>vs_pvc = None, vs_rest = KObj [(''secret'',
     KObj ([(''secretName'', KStr secretName)] @ items @ [(''defaultMode'', KInt mode)]))]\<rparr>"

definition ca_items :: "(string \<times> kvalue) list" where
  "ca_items = [(''items'', KList [KObj [(''key'', KStr ''tls.crt''), (''path'', KStr ''ca.crt'')]])]"

text \<open>The appended variables, the volumes and the mounts. The name of the CA secret is never empty. \<open>0440\<close> is 288.\<close>

definition tlsVolumesAndMounts :: "lib \<Rightarrow> pdf_service resource \<Rightarrow> env_var list \<Rightarrow> env_var list \<times> volume list \<times> volume_mount list" where
  "tlsVolumesAndMounts L r env =
     (if \<not> TLSEnabledForHPRS L (rs_spec r) then (env @ [env_value ''TLS_ENABLED'' ''false''], [], [])
      else
        let env = env @ [env_value ''TLS_ENABLED'' ''true'', env_value ''TLS_CERT_PATH'' ''/etc/tls/tls.crt'', env_value ''TLS_KEY_PATH'' ''/etc/tls/tls.key''];
            vols = [\<lparr>v_name = ''tls'', v_source = tls_secret_source (childName r @ ''-tls'') [] 288\<rparr>];
            mounts = [\<lparr>vm_name = ''tls'', vm_mount_path = ''/etc/tls'', vm_sub_path = [], vm_read_only = True\<rparr>];
            caSecretName = GetCASecretNameForHPRS r
        in if caSecretName \<noteq> []
           then (env @ [env_value ''TLS_CA_PATH'' ''/etc/ca/ca.crt''],
                 vols @ [\<lparr>v_name = ''ca'', v_source = tls_secret_source caSecretName ca_items 288\<rparr>],
                 mounts @ [\<lparr>vm_name = ''ca'', vm_mount_path = ''/etc/ca'', vm_sub_path = [], vm_read_only = True\<rparr>])
           else (env, vols, mounts))"

definition buildRuntimeAssets :: "lib \<Rightarrow> pdf_service resource \<Rightarrow> int \<Rightarrow> env_var list \<times> volume list \<times> volume_mount list" where
  "buildRuntimeAssets L r port =
     (let envVars = [env_value ''HUMIO_PORT'' (itoa port), env_value ''HUMIO_NODE_ID'' ''0''] @ pr_environment_variables (rs_spec r);
          (envVars, vols, mounts) = tlsVolumesAndMounts L r envVars
      in (sortEnv (dedupEnvVars envVars), dedupVolumes (vols @ pr_volumes (rs_spec r)), dedupVolumeMounts (mounts @ pr_volume_mounts (rs_spec r))))"

definition cleanResources :: "pdf_lib \<Rightarrow> quantities \<Rightarrow> quantities \<Rightarrow> kvalue" where
  "cleanResources X requests limits =
     (let clean = filter (\<lambda>(k, v). \<not> pl_quantity_is_zero X v);
          part = (\<lambda>n q. if clean q = [] then [] else [(n, KObj (clean q))])
      in KObj (part ''limits'' limits @ part ''requests'' requests))"

definition http_probe :: "string \<Rightarrow> int \<Rightarrow> string \<Rightarrow> (string \<times> kvalue) list \<Rightarrow> kvalue" where
  "http_probe path port scheme timing =
     KObj ([(''httpGet'', KObj [(''path'', KStr path), (''port'', KInt port), (''scheme'', KStr scheme)])] @ timing)"

text \<open>In dummy mode the path is the root without delay; in a kind cluster and under envtest probes are quicker and more patient.\<close>

definition default_probe :: "lib \<Rightarrow> string \<Rightarrow> int \<Rightarrow> string \<Rightarrow> kvalue" where
  "default_probe L path port scheme =
     (let dummy = use_dummy_image L; patient = use_kind_cluster L \<or> use_envtest L
      in http_probe (if dummy then ''/'' else path) port scheme
           [(''initialDelaySeconds'', KInt (if dummy then 0 else 60)), (''timeoutSeconds'', KInt 5),
            (''periodSeconds'', KInt (if patient then 5 else 10)), (''successThreshold'', KInt 1),
            (''failureThreshold'', KInt (if patient then 10 else 3))])"

definition default_startup_probe :: "lib \<Rightarrow> int \<Rightarrow> string \<Rightarrow> kvalue" where
  "default_startup_probe L port scheme =
     http_probe (if use_dummy_image L then ''/'' else ''/ready'') port scheme
       [(''initialDelaySeconds'', KInt 0), (''timeoutSeconds'', KInt 5), (''periodSeconds'', KInt 5), (''successThreshold'', KInt 1),
        (''failureThreshold'', KInt 120)]"

definition buildPDFContainer ::
  "lib \<Rightarrow> pdf_lib \<Rightarrow> pdf_service \<Rightarrow> string \<Rightarrow> int \<Rightarrow> env_var list \<Rightarrow> volume_mount list \<Rightarrow> container" where
  "buildPDFContainer L X h img port envVars mounts =
     (let scheme = (if TLSEnabledForHPRS L h then ''HTTPS'' else ''HTTP'')
      in empty_container\<lparr>
           c_name := ''humio-pdf-render-service'', c_image := img, c_args := [''--port'', itoa port],
           c_ports := KList [KObj [(''name'', KStr ''http''), (''containerPort'', KInt port), (''protocol'', KStr ''TCP'')]],
           c_env := envVars, c_volume_mounts := mounts, c_resources := cleanResources X (pr_requests h) (pr_limits h),
           c_image_pull_policy := if pr_image_pull_policy h \<noteq> [] then pr_image_pull_policy h else PullIfNotPresent,
           c_liveness_probe := Some (case pr_liveness_probe h of Some p \<Rightarrow> p | None \<Rightarrow> default_probe L ''/health'' port scheme),
           c_readiness_probe := Some (case pr_readiness_probe h of Some p \<Rightarrow> p | None \<Rightarrow> default_probe L ''/ready'' port scheme),
           c_startup_probe := Some (default_startup_probe L port scheme),
           c_security_context := pr_container_security_context h\<rparr>)"

section \<open>The normal form of a pod\<close>

definition default_pull_policy :: "container \<Rightarrow> container" where
  "default_pull_policy c =
     (if c_image_pull_policy c = []
      then let imageParts = split_on CHR '':'' (c_image c)
           in c\<lparr>c_image_pull_policy := if length imageParts = 1 \<or> last imageParts = ''latest'' then ''Always'' else PullIfNotPresent\<rparr>
      else c)"

definition sanitize_pdf_container :: "container \<Rightarrow> container" where
  "sanitize_pdf_container c =
     sort_env (default_pull_policy (c\<lparr>c_termination_message_path := [], c_termination_message_policy := []\<rparr>))"

definition sanitize_pdf_volume :: "string \<Rightarrow> string \<Rightarrow> volume \<Rightarrow> volume" where
  "sanitize_pdf_volume tlsVolumeName caVolumeName v =
     (if v_name v = tlsVolumeName then \<lparr>v_name = tlsVolumeName, v_source = tls_secret_source [] [] 420\<rparr>
      else if v_name v = caVolumeName then \<lparr>v_name = caVolumeName, v_source = tls_secret_source [] ca_items 420\<rparr>
      else if has_prefix (v_name v) ''kube-api-access-'' then \<lparr>v_name = ''kube-api-access-'', v_source = empty_volume_source\<rparr>
      else v)"

definition SanitizePod :: "string \<Rightarrow> string \<Rightarrow> pod_spec \<Rightarrow> pod_spec" where
  "SanitizePod tlsVolumeName caVolumeName sp =
     sp\<lparr>ps_volumes := map (sanitize_pdf_volume tlsVolumeName caVolumeName) (ps_volumes sp),
        ps_restart_policy := [], ps_dns_policy := [], ps_scheduler_name := [], ps_priority := None, ps_enable_service_links := None,
        ps_preemption_policy := None, ps_deprecated_service_account := [], ps_node_name := [],
        ps_init_containers := map sanitize_pdf_container (ps_init_containers sp),
        ps_containers := map sanitize_pdf_container (ps_containers sp)\<rparr>"

text \<open>Fields of a JSON object; an absent number is zero and an absent string is empty.\<close>

fun json_get :: "string \<Rightarrow> kvalue \<Rightarrow> kvalue" where
  "json_get k (KObj kvs) = (case map_of kvs k of Some v \<Rightarrow> v | None \<Rightarrow> KNil)"
| "json_get k _ = KNil"

fun json_set :: "string \<Rightarrow> kvalue \<Rightarrow> kvalue \<Rightarrow> kvalue" where
  "json_set k v (KObj kvs) = KObj (AList.update k v kvs)"
| "json_set k v other = other"

definition json_default :: "string \<Rightarrow> kvalue \<Rightarrow> kvalue \<Rightarrow> kvalue" where
  "json_default k v obj = (if json_get k obj \<in> {KNil, KInt 0, KStr []} then json_set k v obj else obj)"

definition sanitizeProbeForHPRS :: "kvalue option \<Rightarrow> kvalue option" where
  "sanitizeProbeForHPRS =
     map_option (\<lambda>probe.
       let probe = (if json_get ''httpGet'' probe \<noteq> KNil
                    then json_set ''httpGet'' (json_default ''scheme'' (KStr ''HTTP'') (json_get ''httpGet'' probe)) probe else probe)
       in json_default ''failureThreshold'' (KInt 3) (json_default ''successThreshold'' (KInt 1)
            (json_default ''periodSeconds'' (KInt 10) (json_default ''timeoutSeconds'' (KInt 1) probe))))"

definition sanitize_probes :: "container \<Rightarrow> container" where
  "sanitize_probes c =
     c\<lparr>c_readiness_probe := sanitizeProbeForHPRS (c_readiness_probe c), c_liveness_probe := sanitizeProbeForHPRS (c_liveness_probe c),
       c_startup_probe := sanitizeProbeForHPRS (c_startup_probe c)\<rparr>"

definition sanitizePodProbesForHPRS :: "pod_spec \<Rightarrow> pod_spec" where
  "sanitizePodProbesForHPRS sp =
     sp\<lparr>ps_containers := map sanitize_probes (ps_containers sp), ps_init_containers := map sanitize_probes (ps_init_containers sp)\<rparr>"

definition pdf_pod_hash :: "lib \<Rightarrow> pod_spec \<Rightarrow> go_error + string" where
  "pdf_pod_hash L sp = PodHashMinusManagedFields L (NewPodHasher (Some (empty_pod\<lparr>p_spec := sp\<rparr>)) None)"

section \<open>The constructed objects\<close>

record deployment =
  dp_name :: string
  dp_namespace :: string
  dp_labels :: smap
  dp_annotations :: smap
  dp_generation :: int
  dp_replicas :: "int option"
  dp_selector :: smap
  dp_strategy :: kvalue
  dp_template_labels :: smap
  dp_template_annotations :: smap
  dp_pod :: pod_spec
  dps_observed_generation :: int           \<comment> \<open>from here on the status\<close>
  dps_replicas :: int
  dps_ready_replicas :: int
  dps_updated_replicas :: int
  dps_available_replicas :: int

definition empty_deployment :: "string \<Rightarrow> string \<Rightarrow> deployment" where
  "empty_deployment name namespace = \<lparr>dp_name = name, dp_namespace = namespace, dp_labels = Map.empty, dp_annotations = Map.empty,
     dp_generation = 0, dp_replicas = None, dp_selector = Map.empty, dp_strategy = KNil, dp_template_labels = Map.empty,
     dp_template_annotations = Map.empty, dp_pod = empty_pod_spec, dps_observed_generation = 0, dps_replicas = 0,
     dps_ready_replicas = 0, dps_updated_replicas = 0, dps_available_replicas = 0\<rparr>"

definition constructHprsCertificate :: "pdf_service resource \<Rightarrow> k8s_object" where
  "constructHprsCertificate r =
     (let cn = childName r; ns = rs_namespace r; certificateName = cn @ ''-tls''
      in zero_object\<lparr>
           ko_name := certificateName, ko_namespace := ns, ko_labels := labelsForHumioPdfRenderService (rs_name r),
           ko_dns_names := [cn, cn @ ''.'' @ ns, cn @ ''.'' @ ns @ ''.svc'', cn @ ''.'' @ ns @ ''.svc.cluster.local'']
             @ extra_hostnames (pr_tls (rs_spec r)),
           ko_keystores := Some (Some (KObj [(''create'', KBool True), (''passwordSecretRef'',
             KObj [(''key'', KStr ''passphrase''), (''name'', KStr (cn @ ''-keystore-passphrase''))])])),
           ko_spec := KObj [(''secretName'', KStr certificateName),
             (''issuerRef'', KObj [(''name'', KStr cn), (''kind'', KStr ''Issuer'')]),
             (''usages'', KList [KStr ''digital signature'', KStr ''key encipherment'', KStr ''server auth''])]\<rparr>)"

definition getHprsCertificateHash :: "lib \<Rightarrow> pdf_service resource \<Rightarrow> string" where
  "getHprsCertificateHash L r =
     x_sha256 L (x_json_of_object L ((constructHprsCertificate r)\<lparr>ko_annotations := Map.empty\<rparr>))"

definition rolling_strategy :: kvalue where
  "rolling_strategy = KObj [(''type'', KStr ''RollingUpdate''),
     (''rollingUpdate'', KObj [(''maxUnavailable'', KInt 0), (''maxSurge'', KInt 1)])]"

text \<open>The group is set in the security context of the resource itself, which is a pointer; nothing else reads it.\<close>

definition pdf_security_context :: "lib \<Rightarrow> pdf_service \<Rightarrow> kvalue" where
  "pdf_security_context L h =
     (let sc = (case pr_pod_security_context h of Some sc \<Rightarrow> sc | None \<Rightarrow> KObj [])
      in if TLSEnabledForHPRS L h \<and> json_get ''fsGroup'' sc = KNil then json_set ''fsGroup'' (KInt 65534) sc else sc)"

definition constructDesiredDeployment :: "lib \<Rightarrow> pdf_lib \<Rightarrow> pdf_service resource \<Rightarrow> int \<Rightarrow> deployment" where
  "constructDesiredDeployment L X r effectiveReplicas =
     (let h = rs_spec r;
          labels = labelsForHumioPdfRenderService (rs_name r);
          port = getPdfRenderServicePort h;
          img = (if pr_image h = [] then DefaultPDFRenderServiceImage L else pr_image h);
          (envVars, vols, mounts) = buildRuntimeAssets L r port;
          container = buildPDFContainer L X h img port envVars mounts;
          certHash = getHprsCertificateHash L r;
          podTemplateAnnotations = (if TLSEnabledForHPRS L h \<and> use_cert_manager L \<and> certHash \<noteq> []
             then (pr_annotations h)(HPRSCertificateHashAnnotation \<mapsto> certHash) else pr_annotations h);
          spec = empty_pod_spec\<lparr>
             ps_termination_grace_period_seconds := Some 30, ps_service_account_name := pr_service_account_name h,
             ps_affinity := pr_affinity h, ps_image_pull_secrets := pr_image_pull_secrets h,
             ps_security_context := Some (pdf_security_context L h), ps_containers := [container], ps_volumes := vols\<rparr>
      in (empty_deployment (childName r) (rs_namespace r))\<lparr>
           dp_labels := labels, dp_annotations := pr_annotations h, dp_replicas := Some effectiveReplicas, dp_selector := labels,
           dp_strategy := rolling_strategy, dp_template_labels := labels,
           dp_template_annotations := (case pdf_pod_hash L (SanitizePod ''tls'' ''ca'' spec) of
               Inl _ \<Rightarrow> podTemplateAnnotations
             | Inr hash \<Rightarrow> podTemplateAnnotations(HPRSPodSpecHashAnnotation \<mapsto> hash)),
           dp_pod := spec\<rparr>)"

text \<open>A service as the controller sees it.\<close>

record pdf_k8s_service =
  psv_name :: string
  psv_namespace :: string
  psv_labels :: smap
  psv_annotations :: smap
  psv_type :: string
  psv_ports :: kvalue
  psv_selector :: smap
  psv_cluster_ip :: string

definition constructDesiredService :: "pdf_service resource \<Rightarrow> pdf_k8s_service" where
  "constructDesiredService r =
     (let h = rs_spec r; labels = labelsForHumioPdfRenderService (rs_name r); port = getPdfRenderServicePort h
      in \<lparr>psv_name = childName r, psv_namespace = rs_namespace r, psv_labels = labels, psv_annotations = pr_service_annotations h,
          psv_type = (if pr_service_type h \<noteq> [] then pr_service_type h else ''ClusterIP''),
          psv_ports = KList [KObj [(''name'', KStr ''http''), (''port'', KInt port), (''targetPort'', KInt port), (''protocol'', KStr ''TCP'')]],
          psv_selector = labels, psv_cluster_ip = []\<rparr>)"

text \<open>The function \<open>CreateOrUpdate\<close> applies to the live service. The address of a service cannot be changed.\<close>

definition mutate_service :: "pdf_k8s_service \<Rightarrow> pdf_k8s_service \<Rightarrow> pdf_k8s_service" where
  "mutate_service desired svc =
     (let keep = (psv_cluster_ip svc \<noteq> [] \<and> psv_cluster_ip svc \<noteq> ''None'' \<and> psv_type desired = ''ClusterIP'')
      in svc\<lparr>psv_labels := psv_labels desired, psv_annotations := psv_annotations desired, psv_type := psv_type desired,
             psv_ports := psv_ports desired, psv_selector := psv_selector desired,
             psv_cluster_ip := if keep then psv_cluster_ip svc else psv_cluster_ip desired\<rparr>)"

record autoscaler =
  ha_name :: string
  ha_namespace :: string
  ha_labels :: smap
  ha_annotations :: smap
  ha_target :: string
  ha_min_replicas :: "int option"
  ha_max_replicas :: int
  ha_metrics :: "kvalue list"
  ha_behavior :: kvalue

definition utilization_metric :: "string \<Rightarrow> int \<Rightarrow> kvalue" where
  "utilization_metric name target =
     KObj [(''type'', KStr ''Resource''), (''resource'', KObj [(''name'', KStr name),
       (''target'', KObj [(''type'', KStr ''Utilization''), (''averageUtilization'', KInt target)])])]"

definition hpa_metrics :: "autoscaling_spec \<Rightarrow> kvalue list" where
  "hpa_metrics a =
     (let metrics = as_metrics a
            @ (case as_target_cpu a of None \<Rightarrow> [] | Some t \<Rightarrow> [utilization_metric ''cpu'' t])
            @ (case as_target_memory a of None \<Rightarrow> [] | Some t \<Rightarrow> [utilization_metric ''memory'' t])
      in if metrics = [] then [utilization_metric ''cpu'' 80] else metrics)"

definition constructDesiredHPA :: "pdf_service resource \<Rightarrow> autoscaling_spec \<Rightarrow> deployment \<Rightarrow> autoscaler" where
  "constructDesiredHPA r a dep =
     \<lparr>ha_name = PdfRenderServiceHpaName (rs_name r), ha_namespace = rs_namespace r,
      ha_labels = [''app'' \<mapsto> ''pdf-render-service'', ''humio.com/component'' \<mapsto> ''pdf-render-service''] ++ pr_labels (rs_spec r),
      ha_annotations = pr_annotations (rs_spec r), ha_target = dp_name dep,
      ha_min_replicas = Some (case as_min_replicas a of None \<Rightarrow> 1 | Some m \<Rightarrow> m), ha_max_replicas = as_max_replicas a,
      ha_metrics = hpa_metrics a, ha_behavior = as_behavior a\<rparr>"

definition mutate_hpa :: "autoscaler \<Rightarrow> autoscaler \<Rightarrow> autoscaler" where
  "mutate_hpa desired hpa = desired\<lparr>ha_name := ha_name hpa, ha_namespace := ha_namespace hpa\<rparr>"

end
