(* ===== verification/Pdf_Service.thy ===== *)
theory Pdf_Service
  imports Pdf_Objects "HOL-Library.Sublist"
begin

text \<open>
  The PDF render service, second part of humiopdfrenderservice_controller.go: the handlers of its certificates, deployment, service
  and autoscaler, the status, and \<open>Reconcile\<close>.

  Parameters are the calls of the API server about clusters, deployments, services and autoscalers (\<open>pdf_api\<close>), among them
  \<open>controllerutil.CreateOrUpdate\<close>, which takes the function that changes the live object, and the retry loops of client-go.
\<close>

section \<open>Calls\<close>

datatype operation_result = OperationResultNone | OperationResultCreated | OperationResultUpdated

record 'w pdf_api =
  px_list_clusters :: "string \<Rightarrow> 'w \<Rightarrow> (go_error + humio_cluster list) \<times> 'w"
  px_get_deployment :: "string \<Rightarrow> string \<Rightarrow> 'w \<Rightarrow> (go_error + deployment) \<times> 'w"
  px_apply_deployment :: "deployment \<Rightarrow> (deployment \<Rightarrow> deployment) \<Rightarrow> 'w \<Rightarrow> (go_error + operation_result \<times> deployment) \<times> 'w"
  px_update_deployment :: "deployment \<Rightarrow> 'w \<Rightarrow> (go_error + deployment) \<times> 'w"
  px_update_deployment_status :: "deployment \<Rightarrow> 'w \<Rightarrow> (go_error + deployment) \<times> 'w"
  px_apply_service :: "string \<Rightarrow> string \<Rightarrow> (pdf_k8s_service \<Rightarrow> pdf_k8s_service) \<Rightarrow> 'w \<Rightarrow> (go_error + unit) \<times> 'w"
  px_get_hpa :: "string \<Rightarrow> string \<Rightarrow> 'w \<Rightarrow> (go_error + autoscaler) \<times> 'w"
  px_apply_hpa :: "string \<Rightarrow> string \<Rightarrow> (autoscaler \<Rightarrow> autoscaler) \<Rightarrow> 'w \<Rightarrow> (go_error + unit) \<times> 'w"
  px_delete_hpa :: "autoscaler \<Rightarrow> 'w \<Rightarrow> (go_error + unit) \<times> 'w"
  px_already_exists :: "go_error \<Rightarrow> bool"                   \<comment> \<open>\<open>k8serrors.IsAlreadyExists\<close>\<close>

type_synonym 'w pdf_state = "('w, pdf_service) rst"
type_synonym 'w deployment_state = "'w pdf_state \<times> operation_result \<times> deployment"
type_synonym 's retry_loop = "('s \<Rightarrow> (go_error + unit) \<times> 's) \<Rightarrow> 's \<Rightarrow> (go_error + unit) \<times> 's"

text \<open>The retry loops, one for each type of closure.\<close>

record 'w pdf_retries =
  pt_deployment :: "'w deployment_state retry_loop"
  pt_certificate :: "'w st retry_loop"
  pt_status :: "'w pdf_state retry_loop"

definition PdfStateConfigError :: string where "PdfStateConfigError = ''ConfigError''"
definition PdfStateRunning :: string where "PdfStateRunning = ''Running''"
definition PdfStateScaledDown :: string where "PdfStateScaledDown = ''ScaledDown''"
definition PdfStateConfiguring :: string where "PdfStateConfiguring = ''Configuring''"

section \<open>Clusters and TLS\<close>

definition ascii_space :: "char \<Rightarrow> bool" where
  "ascii_space c \<longleftrightarrow> c \<in> {CHR '' '', CHR 0x09, CHR 0x0A, CHR 0x0B, CHR 0x0C, CHR 0x0D}"

definition isHumioClusterPDFEnabled :: "humio_cluster \<Rightarrow> bool" where
  "isHumioClusterPDFEnabled hc =
     (let allEnvVars = hcs_common_environment_variables (hc_spec hc) @ ns_environment_variables (hcs_node (hc_spec hc))
            @ concat (map (\<lambda>p. ns_environment_variables (nps_spec p)) (hcs_node_pools (hc_spec hc)))
      in list_ex (\<lambda>e. ev_name e = ''ENABLE_SCHEDULED_REPORT'' \<and> to_lower (ev_value e) = ''true'') allEnvVars
         \<or> list_ex (\<lambda>e. ev_name e = ''DEFAULT_PDF_RENDER_SERVICE_URL'' \<and> \<not> list_all ascii_space (ev_value e)) allEnvVars)"

definition findHumioClustersWithPDFEnabled :: "'w pdf_api \<Rightarrow> string \<Rightarrow> ('w pdf_state, go_error, humio_cluster list) step" where
  "findHumioClustersWithPDFEnabled P namespace =
     and_then (log_error (''failed to list HumioClusters in namespace '' @ namespace) (on_server (px_list_clusters P namespace))) (\<lambda>clusters.
     ret (filter isHumioClusterPDFEnabled clusters))"

definition cluster_tls_on :: "lib \<Rightarrow> humio_cluster \<Rightarrow> bool" where
  "cluster_tls_on L hc \<longleftrightarrow> (\<exists>t. hcs_tls (hc_spec hc) = Some t \<and> tls_enabled_flag t = Some True) \<or> ClusterTLSEnabled L hc"

definition shouldSynchronizeTLSFromCluster :: "lib \<Rightarrow> 'w pdf_api \<Rightarrow> ('w pdf_state, go_error, humio_cluster option) step" where
  "shouldSynchronizeTLSFromCluster L P =
     and_then get_obj (\<lambda>r.
     if \<exists>t. pr_tls (rs_spec r) = Some t \<and> tls_enabled_flag t \<noteq> None then ret None
     else
       and_then (findHumioClustersWithPDFEnabled P (rs_namespace r)) (\<lambda>clusters.
       ret (find (cluster_tls_on L) clusters)))"

definition synchronized_tls :: "lib \<Rightarrow> humio_cluster \<Rightarrow> tls_spec option \<Rightarrow> tls_spec" where
  "synchronized_tls L sourceCluster tls =
     (let t = (case tls of Some t \<Rightarrow> t | None \<Rightarrow> \<lparr>tls_enabled_flag = None, tls_ca_secret_name = [], tls_extra_hostnames = []\<rparr>);
          t = t\<lparr>tls_enabled_flag := Some (cluster_tls_on L sourceCluster)\<rparr>;
          t = (case hcs_tls (hc_spec sourceCluster) of
                 Some ct \<Rightarrow> if tls_ca_secret_name ct \<noteq> [] then t\<lparr>tls_ca_secret_name := tls_ca_secret_name ct\<rparr>
                            else t\<lparr>tls_ca_secret_name := hc_name sourceCluster\<rparr>
               | None \<Rightarrow> t\<lparr>tls_ca_secret_name := hc_name sourceCluster\<rparr>)
      in case hcs_tls (hc_spec sourceCluster) of
           Some ct \<Rightarrow> if tls_extra_hostnames ct \<noteq> [] \<and> tls_extra_hostnames t = []
                      then t\<lparr>tls_extra_hostnames := tls_extra_hostnames ct\<rparr> else t
         | None \<Rightarrow> t)"

definition synchronizeTLSFromCluster ::
  "lib \<Rightarrow> (pdf_service, 'w) resource_api \<Rightarrow> humio_cluster \<Rightarrow> ('w pdf_state, go_error, unit) step" where
  "synchronizeTLSFromCluster L A sourceCluster =
     and_then get_obj (\<lambda>r.
     and_then (set_obj (r\<lparr>rs_spec := (rs_spec r)\<lparr>pr_tls := Some (synchronized_tls L sourceCluster (pr_tls (rs_spec r)))\<rparr>\<rparr>)) (\<lambda>_.
     log_error ''failed to update PDF render service with synchronized TLS configuration'' (update_resource A)))"

section \<open>Certificates\<close>

definition ensureValidCASecretForHPRS ::
  "lib \<Rightarrow> 'w kube \<Rightarrow> 'w pdf_api \<Rightarrow> ('w pdf_state, go_error, unit) step" where
  "ensureValidCASecretForHPRS L K P =
     and_then get_obj (\<lambda>r.
     if \<not> TLSEnabledForHPRS L (rs_spec r) then ret ()
     else
       let caSecretName = GetCASecretNameForHPRS r in
       and_then (observe (on_base (validCASecret K (rs_namespace r) caSecretName))) (\<lambda>valid.
       case valid of
         Inr _ \<Rightarrow> ret ()
       | Inl err \<Rightarrow>
           if UseExistingCAForHPRS (rs_spec r)
           then exit_with (Wrap ''specified CA secret invalid''
                  (Some (Wrap (''configured to use existing CA secret '' @ caSecretName @ '', but validation failed'') (Some err))))
           else if \<not> is_not_found err then exit_with (Wrap ''could not validate CA secret'' (Some err))
           else
             and_then (log_error ''could not generate new CA certificate'' (on_base (query (k_generate_ca K)))) (\<lambda>(cert, key).
             if cert = [] \<or> key = []
             then exit_with (Wrap ''invalid CA certificate generated'' (Some (Msg ''generated CA certificate is invalid'')))
             else
               and_then (observe (on_base (create_object K SecretKind (ConstructSecret (rs_name r) (rs_namespace r) caSecretName
                  [TLSCertKey \<mapsto> cert, TLSPrivateKeyKey \<mapsto> key] Map.empty Map.empty)))) (\<lambda>created.
               case created of
                 Inr _ \<Rightarrow> ret ()
               | Inl err \<Rightarrow> if px_already_exists P err then ret () else exit_with (Wrap ''could not create CA secret'' (Some err))))))"

text \<open>\<open>EnsureValidCAIssuerGeneric\<close> of utils.go, of a namespace, a name, labels and a CA secret.\<close>

definition EnsureValidCAIssuerGeneric ::
  "'w kube \<Rightarrow> string \<Rightarrow> string \<Rightarrow> smap \<Rightarrow> string \<Rightarrow> ('w st, go_error, unit) step" where
  "EnsureValidCAIssuerGeneric K namespace name labels caSecretName =
     and_then (observe (validCAIssuer K namespace name)) (\<lambda>valid.
     let ensured = and_then (observe (get_object K IssuerKind name namespace)) (\<lambda>x. case x of
           Inr _ \<Rightarrow> ret ()
         | Inl err \<Rightarrow>
             if is_not_found err
             then log_error ''could not create CA Issuer'' (create_object K IssuerKind (zero_object\<lparr>
               ko_name := name, ko_namespace := namespace, ko_labels := labels,
               ko_spec := KObj [(''ca'', KObj [(''secretName'', KStr caSecretName)])]\<rparr>))
             else exit_with (Wrap ''could not get CA Issuer'' (Some err)))
     in case valid of
          Inl err \<Rightarrow> if is_not_found err then ensured else exit_with (Wrap ''could not validate CA Issuer'' (Some err))
        | Inr ready \<Rightarrow> if ready then ret () else ensured)"

definition EnsureValidCAIssuerForHPRS :: "lib \<Rightarrow> 'w kube \<Rightarrow> 'w pdf_api \<Rightarrow> ('w pdf_state, go_error, unit) step" where
  "EnsureValidCAIssuerForHPRS L K P =
     and_then get_obj (\<lambda>r.
     if \<not> TLSEnabledForHPRS L (rs_spec r) then ret ()
     else and_then (ensureValidCASecretForHPRS L K P) (\<lambda>_.
          on_base (EnsureValidCAIssuerGeneric K (rs_namespace r) (childName r) (labelsForHumioPdfRenderService (rs_name r))
            (GetCASecretNameForHPRS r))))"

definition ensureKeystorePassphraseSecretForHPRS :: "lib \<Rightarrow> 'w kube \<Rightarrow> ('w pdf_state, go_error, unit) step" where
  "ensureKeystorePassphraseSecretForHPRS L K =
     and_then get_obj (\<lambda>r.
     if \<not> TLSEnabledForHPRS L (rs_spec r) then ret ()
     else
       let secretName = childName r @ ''-keystore-passphrase'' in
       and_then (observe (on_base (get_object K SecretKind secretName (rs_namespace r)))) (\<lambda>x.
       case x of
         Inr _ \<Rightarrow> ret ()
       | Inl err \<Rightarrow>
           if is_not_found err
           then and_then (on_base (pick (k_random_string K))) (\<lambda>randomPass.
                log_error ''could not create keystore passphrase secret'' (on_base (create_object K SecretKind
                  (ConstructSecret (childName r) (rs_namespace r) secretName [''passphrase'' \<mapsto> randomPass]
                    (labelsForHumioPdfRenderService (rs_name r)) Map.empty))))
           else exit_with (Wrap ''could not get keystore passphrase secret'' (Some err))))"

definition with_certificate_hash :: "lib \<Rightarrow> pdf_service resource \<Rightarrow> k8s_object" where
  "with_certificate_hash L r =
     (constructHprsCertificate r)\<lparr>ko_annotations := [HPRSCertificateHashAnnotation \<mapsto> getHprsCertificateHash L r]\<rparr>"

definition ensureHprsServerCertificate :: "lib \<Rightarrow> 'w kube \<Rightarrow> 'w pdf_retries \<Rightarrow> ('w pdf_state, go_error, unit) step" where
  "ensureHprsServerCertificate L K R =
     and_then get_obj (\<lambda>r.
     if \<not> TLSEnabledForHPRS L (rs_spec r) then ret ()
     else
       and_then (observe (on_base (get_object K CertificateKind (childName r @ ''-tls'') (rs_namespace r)))) (\<lambda>x.
       case x of
         Inl err \<Rightarrow>
           if is_not_found err
           then log_error ''could not create server certificate'' (on_base (create_object K CertificateKind (with_certificate_hash L r)))
           else exit_with (Wrap ''could not get server certificate'' (Some err))
       | Inr existing \<Rightarrow>
           if map_get (ko_annotations existing) HPRSCertificateHashAnnotation = getHprsCertificateHash L r then ret ()
           else
             and_then (observe (on_base (pt_certificate R (
               and_then (get_object K CertificateKind (ko_name existing) (ko_namespace existing)) (\<lambda>_.
               update_object K CertificateKind (with_certificate_hash L r)))))) (\<lambda>y.
             case y of
               Inr _ \<Rightarrow> ret ()
             | Inl err \<Rightarrow> if is_not_found err then ret () else exit_with (Wrap ''failed to update server certificate'' (Some err)))))"

definition still_processing :: string where "still_processing = ''cert-manager is still processing''"

definition validateTLSConfiguration :: "lib \<Rightarrow> 'w kube \<Rightarrow> ('w pdf_state, go_error, unit) step" where
  "validateTLSConfiguration L K =
     and_then get_obj (\<lambda>r.
     let secretName = childName r @ ''-tls''; this = rs_namespace r @ ''/'' @ rs_name r;
         absent = Msg (''TLS is enabled for HPRS '' @ this @ '', but its server TLS-certificate Secret '' @ quoted secretName @ '' not found'');
         missing = (\<lambda>key. Msg (''HPRS server TLS-certificate secret '' @ secretName @ '' for HPRS '' @ this @ '' is missing key '' @ key))
     in if \<not> TLSEnabledForHPRS L (rs_spec r) then ret ()
        else
          and_then (observe (on_base (get_object K SecretKind secretName (rs_namespace r)))) (\<lambda>x.
          case x of
            Inr tlsSecret \<Rightarrow>
              if ko_data tlsSecret TLSCertKey = None then exit_with (missing TLSCertKey)
              else if ko_data tlsSecret TLSPrivateKeyKey = None then exit_with (missing TLSPrivateKeyKey)
              else ret ()
          | Inl err \<Rightarrow>
              if \<not> is_not_found err
              then exit_with (Wrap (''failed to get HPRS server TLS-certificate secret '' @ secretName @ '' for HPRS '' @ this) (Some err))
              else if \<not> use_cert_manager L then exit_with absent
              else
                and_then (observe (on_base (get_object K CertificateKind secretName (rs_namespace r)))) (\<lambda>y.
                case y of
                  Inl certErr \<Rightarrow>
                    if is_not_found certErr
                    then exit_with (Wrap (''TLS is enabled for HPRS '' @ this @ '', but its server TLS-certificate secret '' @ secretName
                           @ '' was not found'') (Some err))
                    else exit_with (Wrap (''failed to check Certificate resource '' @ secretName @ '' for HPRS '' @ this) (Some certErr))
                | Inr cert \<Rightarrow>
                    and_then (on_base (pick (k_now K))) (\<lambda>now.
                    if (if use_envtest L \<or> use_kind_cluster L then 60 * second else 20 * second) < now - ko_creation cert
                    then exit_with absent
                    else exit_with (Msg (''TLS certificate secret '' @ secretName @ '' is not ready yet, '' @ still_processing @ '' the certificate''))))))"

section \<open>Cleanup without TLS\<close>

definition delete_unless_gone ::
  "'w kube \<Rightarrow> object_kind \<Rightarrow> string \<Rightarrow> k8s_object \<Rightarrow> ('w pdf_state, go_error, unit) step" where
  "delete_unless_gone K kind what ob =
     on_error (on_base (delete_object K kind ob)) (\<lambda>err.
       if is_not_found err then ret () else exit_with (Wrap (''could not delete '' @ what @ '' '' @ ko_name ob) (Some err)))"

definition cleanupUnusedHPRSCertificates :: "lib \<Rightarrow> 'w kube \<Rightarrow> ('w pdf_state, go_error, unit) step" where
  "cleanupUnusedHPRSCertificates L K =
     (if \<not> use_cert_manager L then ret ()
      else
        and_then get_obj (\<lambda>r.
        and_then (on_base (query (k_list_objects K CertificateKind (rs_namespace r) (labelsForHumioPdfRenderService (rs_name r))))) (\<lambda>certificates.
        for_each (delete_unless_gone K CertificateKind ''certificate'') certificates)))"

definition owned_by :: "pdf_service resource \<Rightarrow> k8s_object \<Rightarrow> bool" where
  "owned_by r ob \<longleftrightarrow> pr_uid (rs_spec r) \<in> set (ko_owner_uids ob)"

definition cleanupUnusedHPRSTLSSecrets :: "'w kube \<Rightarrow> ('w pdf_state, go_error, unit) step" where
  "cleanupUnusedHPRSTLSSecrets K =
     and_then get_obj (\<lambda>r.
     and_then (on_base (query (k_list_objects K SecretKind (rs_namespace r) (labelsForHumioPdfRenderService (rs_name r))))) (\<lambda>secrets.
     for_each (delete_unless_gone K SecretKind ''TLS secret'') (filter (\<lambda>ob. ko_type ob = SecretTypeTLS \<and> owned_by r ob) secrets)))"

definition cleanupUnusedHPRSCAIssuer :: "lib \<Rightarrow> 'w kube \<Rightarrow> ('w pdf_state, go_error, unit) step" where
  "cleanupUnusedHPRSCAIssuer L K =
     (if \<not> use_cert_manager L then ret ()
      else
        and_then get_obj (\<lambda>r.
        and_then (observe (on_base (get_object K IssuerKind (childName r) (rs_namespace r)))) (\<lambda>x.
        case x of
          Inl err \<Rightarrow> if is_not_found err then ret () else exit_with (Wrap ''could not get CA Issuer'' (Some err))
        | Inr existing \<Rightarrow> delete_unless_gone K IssuerKind ''CA Issuer'' existing)))"

definition cleanupKeystorePassphraseSecretForHPRS :: "'w kube \<Rightarrow> ('w pdf_state, go_error, unit) step" where
  "cleanupKeystorePassphraseSecretForHPRS K =
     and_then get_obj (\<lambda>r.
     and_then (observe (on_base (get_object K SecretKind (childName r @ ''-keystore-passphrase'') (rs_namespace r)))) (\<lambda>x.
     case x of
       Inl err \<Rightarrow> if is_not_found err then ret () else exit_with (Wrap ''could not get keystore passphrase secret'' (Some err))
     | Inr existing \<Rightarrow> if owned_by r existing then delete_unless_gone K SecretKind ''keystore passphrase secret'' existing else ret ()))"

definition cleanupUnusedTLSResourcesForHPRS :: "lib \<Rightarrow> 'w kube \<Rightarrow> ('w pdf_state, go_error, unit) step" where
  "cleanupUnusedTLSResourcesForHPRS L K =
     and_then get_obj (\<lambda>r.
     if TLSEnabledForHPRS L (rs_spec r) then ret ()
     else
       and_then (log_error ''failed to cleanup unused certificates'' (cleanupUnusedHPRSCertificates L K)) (\<lambda>_.
       and_then (log_error ''failed to cleanup unused TLS secrets'' (cleanupUnusedHPRSTLSSecrets K)) (\<lambda>_.
       and_then (log_error ''failed to cleanup unused CA issuer'' (cleanupUnusedHPRSCAIssuer L K)) (\<lambda>_.
       log_error ''failed to cleanup keystore passphrase secret'' (cleanupKeystorePassphraseSecretForHPRS K)))))"

section \<open>The deployment\<close>

definition first_image :: "deployment \<Rightarrow> string option" where
  "first_image dep = (case ps_containers (dp_pod dep) of [] \<Rightarrow> None | c # _ \<Rightarrow> Some (c_image c))"

definition compared_hash :: "lib \<Rightarrow> deployment \<Rightarrow> go_error + string" where
  "compared_hash L dep = pdf_pod_hash L (sanitizePodProbesForHPRS (SanitizePod ''tls'' ''ca'' (dp_pod dep)))"

definition deployment_differs :: "lib \<Rightarrow> pdf_service \<Rightarrow> deployment \<Rightarrow> deployment \<Rightarrow> bool" where
  "deployment_differs L h dep desired \<longleftrightarrow>
     first_image dep \<noteq> first_image desired
     \<or> \<not> HpaEnabledForHPRS h \<and> dp_replicas dep \<noteq> dp_replicas desired
     \<or> dp_labels dep \<noteq> dp_labels desired
     \<or> \<not> dp_annotations desired \<subseteq>\<^sub>m dp_annotations dep
     \<or> dp_strategy dep \<noteq> dp_strategy desired
     \<or> compared_hash L dep \<noteq> compared_hash L desired
     \<or> dp_template_labels dep \<noteq> dp_template_labels desired
     \<or> (dp_template_annotations dep)(HPRSCertificateHashAnnotation := None)
         \<noteq> (dp_template_annotations desired)(HPRSCertificateHashAnnotation := None)
     \<or> map_get (dp_template_annotations dep) HPRSCertificateHashAnnotation
         \<noteq> map_get (dp_template_annotations desired) HPRSCertificateHashAnnotation
       \<and> map_get (dp_template_annotations desired) HPRSCertificateHashAnnotation \<noteq> []"

definition with_desired :: "pdf_service \<Rightarrow> deployment \<Rightarrow> deployment \<Rightarrow> deployment" where
  "with_desired h dep desired =
     dep\<lparr>dp_labels := dp_labels desired, dp_annotations := dp_annotations dep ++ dp_annotations desired,
         dp_replicas := if HpaEnabledForHPRS h then dp_replicas dep else dp_replicas desired,
         dp_template_labels := dp_template_labels desired, dp_template_annotations := dp_template_annotations desired,
         dp_pod := dp_pod desired, dp_strategy := dp_strategy desired\<rparr>"

text \<open>The function of \<open>CreateOrUpdate\<close>: labels, annotations and specification are replaced.\<close>

definition as_created :: "deployment \<Rightarrow> deployment \<Rightarrow> deployment" where
  "as_created desired dep =
     dep\<lparr>dp_labels := dp_labels desired, dp_annotations := dp_annotations desired, dp_replicas := dp_replicas desired,
         dp_selector := dp_selector desired, dp_strategy := dp_strategy desired, dp_template_labels := dp_template_labels desired,
         dp_template_annotations := dp_template_annotations desired, dp_pod := dp_pod desired\<rparr>"

text \<open>What a deployment controller would write, for tests without one.\<close>

definition simulated_status :: "deployment \<Rightarrow> deployment" where
  "simulated_status dep =
     (let dep = dep\<lparr>dps_observed_generation := dp_generation dep\<rparr>
      in case dp_replicas dep of
           None \<Rightarrow> dep
         | Some n \<Rightarrow> dep\<lparr>dps_replicas := n, dps_ready_replicas := n, dps_updated_replicas := n, dps_available_replicas := n\<rparr>)"

definition write_simulated :: "'w pdf_api \<Rightarrow> deployment \<Rightarrow> 'w pdf_state \<Rightarrow> deployment \<times> 'w pdf_state" where
  "write_simulated P dep s =
     (case on_server (px_update_deployment_status P (simulated_status dep)) s of
        (Inl _, s') \<Rightarrow> (simulated_status dep, s')
      | (Inr dep', s') \<Rightarrow> (dep', s'))"

text \<open>
  One attempt. The variables \<open>op\<close> and \<open>dep\<close> outside the closure are part of the state; on creation the closure assigns to a new
  \<open>op\<close> of its own.
\<close>

definition deployment_attempt ::
  "lib \<Rightarrow> 'w pdf_api \<Rightarrow> pdf_service \<Rightarrow> deployment \<Rightarrow> 'w deployment_state \<Rightarrow> (go_error + unit) \<times> 'w deployment_state" where
  "deployment_attempt L P h desired = (\<lambda>(s, op, dep).
     case on_server (px_get_deployment P (dp_namespace dep) (dp_name dep)) s of
       (Inl getErr, s) \<Rightarrow>
         if is_not_found getErr then
           (case on_server (px_apply_deployment P dep (as_created desired)) s of
              (Inl createErr, s) \<Rightarrow> (Inl createErr, (s, op, dep))
            | (Inr (_, dep), s) \<Rightarrow> (Inr (), (s, op, dep)))
         else (Inl (Wrap (''failed to get deployment '' @ dp_namespace dep @ ''/'' @ dp_name dep) (Some getErr)), (s, op, dep))
     | (Inr dep, s) \<Rightarrow>
         if first_image dep = None then (Inl (Panic ''runtime error: index out of range''), (s, op, dep))
         else if \<not> deployment_differs L h dep desired then
           if use_envtest L \<and> dps_observed_generation dep < dp_generation dep
           then (case write_simulated P dep s of (dep, s) \<Rightarrow> (Inr (), (s, OperationResultNone, dep)))
           else (Inr (), (s, OperationResultNone, dep))
         else
           (case on_server (px_update_deployment P (with_desired h dep desired)) s of
              (Inl updateErr, s) \<Rightarrow> (Inl updateErr, (s, op, with_desired h dep desired))
            | (Inr dep, s) \<Rightarrow>
                if use_envtest L
                then (case write_simulated P dep s of (dep, s) \<Rightarrow> (Inr (), (s, OperationResultUpdated, dep)))
                else (Inr (), (s, OperationResultUpdated, dep))))"

definition reconcileDeployment ::
  "lib \<Rightarrow> pdf_lib \<Rightarrow> 'w pdf_api \<Rightarrow> 'w pdf_retries \<Rightarrow> int \<Rightarrow> ('w pdf_state, go_error, operation_result \<times> deployment) step" where
  "reconcileDeployment L X P R effectiveReplicas s =
     (let r = robj s; desired = constructDesiredDeployment L X r effectiveReplicas in
      case pt_deployment R (deployment_attempt L P (rs_spec r) desired)
             (s, OperationResultNone, empty_deployment (dp_name desired) (dp_namespace desired)) of
        (Inl err, (s, _, _)) \<Rightarrow> (Inl (Wrap (''create/update Deployment '' @ dp_name desired @ '' failed after retries'') (Some err)), s)
      | (Inr _, (s, op, dep)) \<Rightarrow>
          (case on_server (px_get_deployment P (dp_namespace dep) (dp_name dep)) s of (fresh, s) \<Rightarrow>
             let dep = (case fresh of Inl _ \<Rightarrow> dep | Inr freshDep \<Rightarrow> freshDep);
                 behind = (case dp_replicas dep of None \<Rightarrow> False | Some n \<Rightarrow> dps_ready_replicas dep < n)
             in if use_envtest L \<and> (dps_observed_generation dep < dp_generation dep \<or> behind)
                then (case write_simulated P dep s of (dep, s) \<Rightarrow> (Inr (op, dep), s))
                else (Inr (op, dep), s)))"

section \<open>Service and autoscaler\<close>

definition reconcileService :: "'w pdf_api \<Rightarrow> ('w pdf_state, go_error, unit) step" where
  "reconcileService P =
     and_then get_obj (\<lambda>r.
     let desired = constructDesiredService r in
     log_error (''failed to reconcile Service '' @ psv_name desired)
       (on_server (px_apply_service P (psv_namespace desired) (psv_name desired) (mutate_service desired))))"

definition delete_hpa :: "'w pdf_api \<Rightarrow> pdf_service resource \<Rightarrow> string \<Rightarrow> ('w pdf_state, go_error, unit) step" where
  "delete_hpa P r hpaName =
     and_then (observe (on_server (px_get_hpa P (rs_namespace r) hpaName))) (\<lambda>x.
     case x of
       Inl err \<Rightarrow> if is_not_found err then ret () else exit_with (Wrap (''failed to get HPA '' @ hpaName @ '' for deletion'') (Some err))
     | Inr hpa \<Rightarrow> log_error (''failed to delete HPA '' @ hpaName) (on_server (px_delete_hpa P hpa)))"

text \<open>The resource is passed, as the caller may clear its autoscaling.\<close>

definition reconcileHPA :: "'w pdf_api \<Rightarrow> pdf_service resource \<Rightarrow> deployment \<Rightarrow> ('w pdf_state, go_error, unit) step" where
  "reconcileHPA P r dep =
     (let hpaName = PdfRenderServiceHpaName (rs_name r) in
      case pr_autoscaling (rs_spec r) of
        Some a \<Rightarrow>
          if HpaEnabledForHPRS (rs_spec r)
          then log_error (''failed to reconcile HPA '' @ hpaName)
                 (on_server (px_apply_hpa P (rs_namespace r) hpaName (mutate_hpa (constructDesiredHPA r a dep))))
          else delete_hpa P r hpaName
      | None \<Rightarrow> delete_hpa P r hpaName)"

section \<open>Status\<close>

definition buildCondition :: "'w kube \<Rightarrow> string \<Rightarrow> bool \<Rightarrow> string \<Rightarrow> string \<Rightarrow> string \<Rightarrow> ('w pdf_state, 'r, status_condition) step" where
  "buildCondition K condType trueStatus trueReason falseReason msg =
     and_then (on_base (pick (k_now K))) (\<lambda>now.
     ret \<lparr>sc_type = condType, sc_status = (if trueStatus then ''True'' else ''False''),
          sc_reason = (if trueStatus then trueReason else falseReason), sc_message = msg, sc_last_transition_time = now\<rparr>)"

definition pdf_conditions :: "'w kube \<Rightarrow> pdf_lib \<Rightarrow> string \<Rightarrow> go_error option \<Rightarrow> status_condition list \<Rightarrow> ('w pdf_state, 'r, status_condition list) step" where
  "pdf_conditions K X targetState reconcileErr conditions =
     (let reconcileMessage = (case reconcileErr of None \<Rightarrow> [] | Some err \<Rightarrow> ''Reconciliation failed: '' @ error_message err) in
      and_then (buildCondition K ''Available'' (targetState = PdfStateRunning) ''DeploymentAvailable'' ''DeploymentUnavailable'' []) (\<lambda>c1.
      and_then (buildCondition K ''Progressing'' (targetState = PdfStateConfiguring) ''Configuring'' ''ReconciliationComplete'' reconcileMessage) (\<lambda>c2.
      and_then (buildCondition K ''Degraded'' (targetState = PdfStateConfigError \<or> reconcileErr \<noteq> None) ''ConfigError'' ''ReconciliationSucceeded''
        reconcileMessage) (\<lambda>c3.
      and_then (buildCondition K ''ScaledDown'' (targetState = PdfStateScaledDown) ''ScaledDown'' ''NotScaledDown'' []) (\<lambda>c4.
      ret (foldl (pl_set_condition X) conditions [c1, c2, c3, c4]))))))"

definition pdf_status_attempt ::
  "'w kube \<Rightarrow> pdf_lib \<Rightarrow> (pdf_service, 'w) resource_api \<Rightarrow> 'w pdf_api \<Rightarrow> pdf_service resource \<Rightarrow> string \<Rightarrow> go_error option
   \<Rightarrow> ('w pdf_state, go_error, unit) step" where
  "pdf_status_attempt K X A P r targetState reconcileErr =
     and_then (on_server (ra_get A (rs_namespace r) (rs_name r))) (\<lambda>current.
     and_then (observe (on_server (px_get_deployment P (rs_namespace current) (PdfRenderServiceChildName (rs_name current))))) (\<lambda>x.
     let ready = (case x of Inr dep \<Rightarrow> dps_ready_replicas dep
                          | Inl err \<Rightarrow> if is_not_found err then 0 else prs_ready_replicas (rs_spec current)) in
     and_then (pdf_conditions K X targetState reconcileErr (prs_conditions (rs_spec current))) (\<lambda>conditions.
     let desired = current\<lparr>rs_state := targetState, rs_spec := (rs_spec current)\<lparr>prs_ready_replicas := ready, prs_conditions := conditions,
                     prs_observed_generation := pr_generation (rs_spec current)\<rparr>\<rparr>
     in if desired = current then ret ()
        else call_entity (\<lambda>_. Wrote_status desired) (\<lambda>_ w. case ra_update_status A desired w of
               (Inl err, w') \<Rightarrow> (Inl err, w') | (Inr _, w') \<Rightarrow> (Inr (), w')))))"

definition pdf_updateStatus ::
  "'w kube \<Rightarrow> pdf_lib \<Rightarrow> (pdf_service, 'w) resource_api \<Rightarrow> 'w pdf_api \<Rightarrow> 'w pdf_retries \<Rightarrow> string \<Rightarrow> go_error option
   \<Rightarrow> 'w pdf_state \<Rightarrow> (go_error + unit) \<times> 'w pdf_state" where
  "pdf_updateStatus K X A P R targetState reconcileErr s =
     pt_status R (pdf_status_attempt K X A P (robj s) targetState reconcileErr) s"

section \<open>Reconciliation\<close>

text \<open>A run inside the deferred status update ends with the state to publish and its result.\<close>

type_synonym pdf_outcome = "string \<times> handler_result"

definition config_error_on :: "('w pdf_state, go_error, 'a) step \<Rightarrow> ('w pdf_state, pdf_outcome, 'a) step" where
  "config_error_on m = on_error m (\<lambda>err. exit_with (PdfStateConfigError, (empty_result, Some err)))"

text \<open>Whether the service is running as it should, so that the rest can be left out.\<close>

definition up_to_date ::
  "lib \<Rightarrow> pdf_lib \<Rightarrow> 'w pdf_api \<Rightarrow> int \<Rightarrow> bool \<Rightarrow> ('w pdf_state, 'r, bool) step" where
  "up_to_date L X P effectiveReplicas hpaDesired =
     and_then get_obj (\<lambda>r.
     if rs_state r = PdfStateRunning \<and> prs_observed_generation (rs_spec r) = pr_generation (rs_spec r)
     then
       and_then (observe (on_server (px_get_deployment P (rs_namespace r) (childName r)))) (\<lambda>x.
       case x of
         Inl _ \<Rightarrow> ret False
       | Inr dep \<Rightarrow>
           if dps_ready_replicas dep < effectiveReplicas then ret False
           else
             let desired = constructDesiredDeployment L X r effectiveReplicas;
                 currentHash = map_get (dp_template_annotations dep) HPRSPodSpecHashAnnotation;
                 desiredHash = map_get (dp_template_annotations desired) HPRSPodSpecHashAnnotation
             in and_then (observe (on_server (px_get_hpa P (rs_namespace r) (PdfRenderServiceHpaName (rs_name r))))) (\<lambda>y.
                let hpaExists = (case y of Inl _ \<Rightarrow> False | Inr _ \<Rightarrow> True);
                    replicasMatch = (case dp_replicas dep of
                        None \<Rightarrow> True
                      | Some n \<Rightarrow> (hpaDesired \<or> n = effectiveReplicas) \<and> \<not> (effectiveReplicas = 0 \<and> 0 < n))
                in ret (currentHash = desiredHash \<and> currentHash \<noteq> [] \<and> hpaExists = hpaDesired \<and> replicasMatch)))
     else ret False)"

definition ensure_certificates ::
  "lib \<Rightarrow> 'w kube \<Rightarrow> 'w pdf_api \<Rightarrow> 'w pdf_retries \<Rightarrow> ('w pdf_state, pdf_outcome, unit) step" where
  "ensure_certificates L K P R =
     and_then get_obj (\<lambda>r.
     if TLSEnabledForHPRS L (rs_spec r) \<and> use_cert_manager L
     then and_then (config_error_on (EnsureValidCAIssuerForHPRS L K P)) (\<lambda>_.
          and_then (config_error_on (ensureKeystorePassphraseSecretForHPRS L K)) (\<lambda>_.
          config_error_on (ensureHprsServerCertificate L K R)))
     else ret ())"

definition check_certificates :: "lib \<Rightarrow> 'w kube \<Rightarrow> ('w pdf_state, pdf_outcome, unit) step" where
  "check_certificates L K =
     on_error (validateTLSConfiguration L K) (\<lambda>err.
       if use_cert_manager L \<and> sublist still_processing (error_message err)
       then exit_with (PdfStateConfiguring, (requeue_in (5 * second), None))
       else exit_with (PdfStateConfigError, (empty_result, Some err)))"

definition final_state :: "lib \<Rightarrow> int \<Rightarrow> deployment \<Rightarrow> string" where
  "final_state L effectiveReplicas dep =
     (if effectiveReplicas = 0 then PdfStateScaledDown
      else if use_dummy_image L then PdfStateRunning
      else if dps_ready_replicas dep < effectiveReplicas \<or> dps_observed_generation dep < dp_generation dep then PdfStateConfiguring
      else PdfStateRunning)"

text \<open>The children of the service. Only the autoscaler is reconciled with the autoscaling cleared when no cluster renders PDFs.\<close>

definition reconcile_children ::
  "lib \<Rightarrow> 'w kube \<Rightarrow> pdf_lib \<Rightarrow> 'w pdf_api \<Rightarrow> 'w pdf_retries \<Rightarrow> bool \<Rightarrow> int \<Rightarrow> ('w pdf_state, pdf_outcome, pdf_outcome) step" where
  "reconcile_children L K X P R pdfEnabled effectiveReplicas =
     and_then (ensure_certificates L K P R) (\<lambda>_.
     and_then (check_certificates L K) (\<lambda>_.
     and_then (config_error_on (cleanupUnusedTLSResourcesForHPRS L K)) (\<lambda>_.
     and_then (config_error_on (reconcileDeployment L X P R effectiveReplicas)) (\<lambda>(op, dep).
     and_then (config_error_on (reconcileService P)) (\<lambda>_.
     and_then get_obj (\<lambda>r.
     let forHPA = (if \<not> pdfEnabled then r\<lparr>rs_spec := (rs_spec r)\<lparr>pr_autoscaling := None\<rparr>\<rparr> else r) in
     and_then (config_error_on (reconcileHPA P forHPA dep)) (\<lambda>_.
     let finalState = final_state L effectiveReplicas dep in
     if finalState = PdfStateConfiguring then ret (finalState, (requeue_in (30 * second), None))
     else if op \<noteq> OperationResultNone then ret (finalState, (requeue_in (5 * second), None))
     else ret (finalState, (empty_result, None)))))))))"

definition reconcile_pdf_service ::
  "lib \<Rightarrow> 'w kube \<Rightarrow> pdf_lib \<Rightarrow> (pdf_service, 'w) resource_api \<Rightarrow> 'w pdf_api \<Rightarrow> 'w pdf_retries \<Rightarrow> ('w pdf_state, pdf_outcome, pdf_outcome) step" where
  "reconcile_pdf_service L K X A P R =
     and_then get_obj (\<lambda>r.
     if pr_replicas (rs_spec r) < 0
     then ret (PdfStateConfigError, (empty_result, Some (Msg ''spec.replicas must be non-negative'')))
     else
       and_then (config_error_on (shouldSynchronizeTLSFromCluster L P)) (\<lambda>sourceCluster.
       case sourceCluster of
         Some hc \<Rightarrow>
           and_then (config_error_on (synchronizeTLSFromCluster L A hc)) (\<lambda>_. ret ([], (requeue_in second, None)))
       | None \<Rightarrow>
           and_then (config_error_on (findHumioClustersWithPDFEnabled P (rs_namespace r))) (\<lambda>clusters.
           let pdfEnabled = (clusters \<noteq> []);
               effectiveReplicas = (if pdfEnabled then pr_replicas (rs_spec r) else 0);
               hpaDesired = (pdfEnabled \<and> HpaEnabledForHPRS (rs_spec r))
           in and_then (up_to_date L X P effectiveReplicas hpaDesired) (\<lambda>skip.
              if skip then ret (PdfStateRunning, (requeue_in (300 * second), None))
              else reconcile_children L K X P R pdfEnabled effectiveReplicas))))"

definition HumioPdfRenderServiceReconciler_Reconcile ::
  "lib \<Rightarrow> 'w kube \<Rightarrow> pdf_lib \<Rightarrow> (pdf_service, 'w) resource_api \<Rightarrow> 'w pdf_api \<Rightarrow> 'w pdf_retries \<Rightarrow> string \<Rightarrow> string
   \<Rightarrow> 'w pdf_state \<Rightarrow> handler_result \<times> 'w pdf_state" where
  "HumioPdfRenderServiceReconciler_Reconcile L K X A P R ns name =
     returned
       (and_then (fetch_object A ns name) (\<lambda>_.
        and_then get_obj (\<lambda>r.
        and_then (set_obj (r\<lparr>rs_spec := SetDefaults (rs_spec r)\<rparr>)) (\<lambda>_.
        and_then (observe (returned (reconcile_pdf_service L K X A P R))) (\<lambda>(finalState, res, err).
        and_then get_obj (\<lambda>r.
        and_then (if rs_deleted r then ret ()
                  else ignoring (pdf_updateStatus K X A P R finalState (case err of Some e \<Rightarrow> if is_panic e then None else Some e | None \<Rightarrow> None)))
          (\<lambda>_. ret (res, err))))))))"

text \<open>Which secrets the controller watches.\<close>

definition shouldWatchSecret :: "pdf_service resource \<Rightarrow> string \<Rightarrow> bool" where
  "shouldWatchSecret r secretName =
     (case pr_tls (rs_spec r) of
        None \<Rightarrow> False
      | Some t \<Rightarrow> tls_ca_secret_name t \<noteq> [] \<and> tls_ca_secret_name t = secretName \<or> secretName = childName r @ ''-tls''
          \<or> secretName = GetCASecretNameForHPRS r)"

end
