(* ===== verification/Pdf_Safety.thy ===== *)
theory Pdf_Safety
  imports Pdf_Service
begin

text \<open>
  What the controller of the PDF render service guarantees: the deployment it constructs is well formed and settles, and the cleanup
  of certificates spares the secrets of others; and where it fails: the number of replicas under autoscaling, the CA taken over from
  a cluster, names that collide.
\<close>

section \<open>Names\<close>

lemma child_name_take: "PdfRenderServiceChildName a = ''hprs-'' @ take 58 a"
  by (simp add: PdfRenderServiceChildName_def Let_def)

text \<open>The names of the children fit, and services whose names agree in 58 characters share them.\<close>

lemma child_names:
  "length (PdfRenderServiceChildName a) \<le> 63"
  "PdfRenderServiceChildName a = PdfRenderServiceChildName b \<longleftrightarrow> take 58 a = take 58 b"
  by (simp_all add: child_name_take)

section \<open>Deduplication\<close>

lemma dedup_by_mem: "x \<in> set (dedup_by key seen xs) \<longleftrightarrow> key x \<notin> seen \<and> find (\<lambda>y. key y = key x) xs = Some x"
proof (induction xs arbitrary: seen)
  case (Cons y xs)
  then show ?case by (auto split: if_splits)
qed simp

lemma dedup_by_distinct: "distinct (map key (dedup_by key seen xs))"
  by (induction xs arbitrary: seen) (auto simp: dedup_by_mem)

lemma find_append: "find p (xs @ ys) = (case find p xs of Some x \<Rightarrow> Some x | None \<Rightarrow> find p ys)"
  by (induction xs) auto

lemma dedup_keeps_prefix: "distinct (map key xs) \<Longrightarrow> set xs \<subseteq> set (dedup_by key {} (xs @ ys))"
proof
  fix x assume "distinct (map key xs)" and "x \<in> set xs"
  then have "find (\<lambda>y. key y = key x) xs = Some x"
    by (induction xs) (auto simp: image_iff)
  then show "x \<in> set (dedup_by key {} (xs @ ys))" by (simp add: dedup_by_mem find_append)
qed

text \<open>
  The variables of the container are, for each name, the first of the port and the node of the operator, the user's, and those of
  TLS: a user may override the latter only.
\<close>

lemma pdf_environment_exact:
  "e \<in> set (fst (buildRuntimeAssets L r port)) \<longleftrightarrow>
     find (\<lambda>x. ev_name x = ev_name e)
       (fst (tlsVolumesAndMounts L r ([env_value ''HUMIO_PORT'' (itoa port), env_value ''HUMIO_NODE_ID'' ''0''] @ pr_environment_variables (rs_spec r))))
     = Some e"
  by (simp add: buildRuntimeAssets_def Let_def dedupEnvVars_def sortEnv_def dedup_by_mem split: prod.split)

text \<open>A second mount of a volume is dropped, also when it has another path.\<close>

lemma second_mount_dropped:
  assumes "m1 \<in> set (snd (snd (buildRuntimeAssets L r port)))" and "m2 \<in> set (snd (snd (buildRuntimeAssets L r port)))"
    and "vm_name m1 = vm_name m2"
  shows "m1 = m2"
  using assms by (auto simp: buildRuntimeAssets_def Let_def dedupVolumeMounts_def dedup_by_mem split: prod.splits)

section \<open>The constructed deployment\<close>

text \<open>
  Claim C35. The constructed deployment is well formed. Its selector and the selector of the service are the labels of its pods, whose
  values fit; it has one container; no two of its variables, volumes and mounts share a name, and the variables are sorted; and
  with TLS every mount of a certificate has its volume, whatever volumes the user declares under the same name.
\<close>

theorem pdf_deployment_well_formed:
  "let dep = constructDesiredDeployment L X r n; c = hd (ps_containers (dp_pod dep)); vols = ps_volumes (dp_pod dep) in
     dp_selector dep = dp_template_labels dep \<and> psv_selector (constructDesiredService r) = dp_template_labels dep
     \<and> (\<forall>v \<in> ran (dp_template_labels dep). length v \<le> 63)
     \<and> length (ps_containers (dp_pod dep)) = 1
     \<and> sorted (map ev_name (c_env c)) \<and> distinct (map ev_name (c_env c))
     \<and> distinct (map v_name vols) \<and> distinct (map vm_name (c_volume_mounts c))
     \<and> (TLSEnabledForHPRS L (rs_spec r) \<longrightarrow>
          \<lparr>v_name = ''tls'', v_source = tls_secret_source (childName r @ ''-tls'') [] 288\<rparr> \<in> set vols
          \<and> \<lparr>vm_name = ''tls'', vm_mount_path = ''/etc/tls'', vm_sub_path = [], vm_read_only = True\<rparr> \<in> set (c_volume_mounts c)
          \<and> \<lparr>v_name = ''ca'', v_source = tls_secret_source (GetCASecretNameForHPRS r) ca_items 288\<rparr> \<in> set vols
          \<and> \<lparr>vm_name = ''ca'', vm_mount_path = ''/etc/ca'', vm_sub_path = [], vm_read_only = True\<rparr> \<in> set (c_volume_mounts c))"
proof -
  obtain env vols mounts where tls: "tlsVolumesAndMounts L r
      ([env_value ''HUMIO_PORT'' (itoa (getPdfRenderServicePort (rs_spec r))), env_value ''HUMIO_NODE_ID'' ''0''] @ pr_environment_variables (rs_spec r))
      = (env, vols, mounts)" by (cases rule: prod_cases3)
  have ca: "GetCASecretNameForHPRS r \<noteq> []" by (auto simp: GetCASecretNameForHPRS_def split: option.split)
  have names: "distinct (map v_name vols)" "distinct (map vm_name mounts)"
    using tls ca by (auto simp: tlsVolumesAndMounts_def Let_def split: if_splits)
  have here: "TLSEnabledForHPRS L (rs_spec r) \<Longrightarrow>
      vols = [\<lparr>v_name = ''tls'', v_source = tls_secret_source (childName r @ ''-tls'') [] 288\<rparr>,
              \<lparr>v_name = ''ca'', v_source = tls_secret_source (GetCASecretNameForHPRS r) ca_items 288\<rparr>]
      \<and> mounts = [\<lparr>vm_name = ''tls'', vm_mount_path = ''/etc/tls'', vm_sub_path = [], vm_read_only = True\<rparr>,
              \<lparr>vm_name = ''ca'', vm_mount_path = ''/etc/ca'', vm_sub_path = [], vm_read_only = True\<rparr>]"
    using tls ca by (auto simp: tlsVolumesAndMounts_def Let_def)
  have keep: "set vols \<subseteq> set (dedupVolumes (vols @ us))" "set mounts \<subseteq> set (dedupVolumeMounts (mounts @ ms))" for us ms
    using dedup_keeps_prefix [OF names(1)] dedup_keeps_prefix [OF names(2)] by (simp_all add: dedupVolumes_def dedupVolumeMounts_def)
  have assets: "buildRuntimeAssets L r (getPdfRenderServicePort (rs_spec r)) =
      (sortEnv (dedupEnvVars env), dedupVolumes (vols @ pr_volumes (rs_spec r)), dedupVolumeMounts (mounts @ pr_volume_mounts (rs_spec r)))"
    by (simp add: buildRuntimeAssets_def tls Let_def del: append.simps)
  have distinct: "distinct (map ev_name (dedupEnvVars es))" "distinct (map v_name (dedupVolumes us))" "distinct (map vm_name (dedupVolumeMounts ms))"
    for es us ms
    using dedup_by_distinct by (auto simp: dedupEnvVars_def dedupVolumes_def dedupVolumeMounts_def)
  have sorted: "distinct (map ev_name (sortEnv (dedupEnvVars env)))"
    using distinct(1) [of env] by (simp add: sortEnv_def distinct_map)
  show ?thesis
    using keep(1) [of "pr_volumes (rs_spec r)"] keep(2) [of "pr_volume_mounts (rs_spec r)"] here distinct sorted
    by (auto simp: constructDesiredDeployment_def assets Let_def constructDesiredService_def buildPDFContainer_def sortEnv_def
        labelsForHumioPdfRenderService_def ran_def)
qed


section \<open>The deployment settles\<close>

lemma constructed_names [simp]:
  "dp_name (constructDesiredDeployment L X r n) = childName r" "dp_namespace (constructDesiredDeployment L X r n) = rs_namespace r"
  "dp_replicas (constructDesiredDeployment L X r n) = Some n"
  by (simp_all add: constructDesiredDeployment_def empty_deployment_def Let_def split: prod.split)

lemma empty_deployment_names [simp]: "dp_name (empty_deployment n ns) = n" "dp_namespace (empty_deployment n ns) = ns"
  by (simp_all add: empty_deployment_def)

text \<open>The hash of a pod is always there, so that comparing two of them is comparing two strings.\<close>

lemma pdf_pod_hash_there: "pdf_pod_hash L sp = Inr (x_pod_spec_hash L sp)"
  by (simp add: pdf_pod_hash_def PodHashMinusManagedFields_def podHasherMinusManagedFields_def NewPodHasher_def calculateHash_def empty_pod_def)

text \<open>What the controller writes, on an existing deployment or on creation, it finds in order, whatever the generation.\<close>

lemma written_in_order: "\<not> deployment_differs L h ((with_desired h dep desired)\<lparr>dp_generation := g\<rparr>) desired"
  by (simp add: deployment_differs_def with_desired_def first_image_def compared_hash_def)

lemma created_in_order: "\<not> deployment_differs L h ((as_created desired dep)\<lparr>dp_generation := g\<rparr>) desired"
  by (simp add: deployment_differs_def as_created_def first_image_def compared_hash_def)

text \<open>
  A server that answers reads: what it stores is what was last written, with the generation of its choice; a write that fails changes
  nothing; and \<open>CreateOrUpdate\<close> applies its function to the live object or to the one it is given.
\<close>

definition deployment_store :: "'w pdf_api \<Rightarrow> ('w \<Rightarrow> string \<Rightarrow> string \<Rightarrow> deployment option) \<Rightarrow> bool" where
  "deployment_store P stored \<longleftrightarrow>
     (\<forall>ns n w. px_get_deployment P ns n w = (case stored w ns n of None \<Rightarrow> Inl (NotFound n) | Some d \<Rightarrow> Inr d, w))
     \<and> (\<forall>ns n w d. stored w ns n = Some d \<longrightarrow> dp_namespace d = ns \<and> dp_name d = n)
     \<and> (\<forall>d w d' w'. px_update_deployment P d w = (Inr d', w') \<longrightarrow>
          (\<exists>g. d' = d\<lparr>dp_generation := g\<rparr>) \<and> stored w' (dp_namespace d) (dp_name d) = Some d')
     \<and> (\<forall>d w e w'. px_update_deployment P d w = (Inl e, w') \<longrightarrow> stored w' = stored w)
     \<and> (\<forall>d f w res d' w'. px_apply_deployment P d f w = (Inr (res, d'), w') \<longrightarrow>
          (\<exists>live g. dp_namespace live = dp_namespace d \<and> dp_name live = dp_name d \<and> d' = (f live)\<lparr>dp_generation := g\<rparr>)
          \<and> stored w' (dp_namespace d) (dp_name d) = Some d')"

lemma store_laws:
  assumes "deployment_store P stored"
  shows "px_update_deployment P d w = (Inr d', w') \<Longrightarrow> (\<exists>g. d' = d\<lparr>dp_generation := g\<rparr>) \<and> stored w' (dp_namespace d) (dp_name d) = Some d'"
    and "px_update_deployment P d w = (Inl e, w') \<Longrightarrow> stored w' = stored w"
    and "px_apply_deployment P d f w = (Inr (res, d'), w') \<Longrightarrow>
      (\<exists>live g. dp_namespace live = dp_namespace d \<and> dp_name live = dp_name d \<and> d' = (f live)\<lparr>dp_generation := g\<rparr>)
      \<and> stored w' (dp_namespace d) (dp_name d) = Some d'"
  using assms unfolding deployment_store_def by blast+

lemma store_get:
  "deployment_store P stored \<Longrightarrow>
     on_server (px_get_deployment P ns n) s =
       (case stored (server (base s)) ns n of None \<Rightarrow> Inl (NotFound n) | Some d \<Rightarrow> Inr d, s)"
  by (simp add: deployment_store_def on_server_def)

lemma store_names: "deployment_store P stored \<Longrightarrow> stored w ns n = Some d \<Longrightarrow> dp_namespace d = ns \<and> dp_name d = n"
  by (simp add: deployment_store_def)

lemma store_update:
  assumes "deployment_store P stored" and "on_server (px_update_deployment P d) s = (x, s')"
  shows "case x of
      Inr d' \<Rightarrow> (\<exists>g. d' = d\<lparr>dp_generation := g\<rparr>) \<and> stored (server (base s')) (dp_namespace d) (dp_name d) = Some d' \<and> robj s' = robj s
    | Inl e \<Rightarrow> stored (server (base s')) = stored (server (base s)) \<and> robj s' = robj s"
proof -
  obtain y w' where run: "px_update_deployment P d (server (base s)) = (y, w')" by fastforce
  then have "x = y" "server (base s') = w'" "robj s' = robj s" using assms(2) by (auto simp: on_server_def)
  moreover have "case y of Inr d' \<Rightarrow> (\<exists>g. d' = d\<lparr>dp_generation := g\<rparr>) \<and> stored w' (dp_namespace d) (dp_name d) = Some d'
      | Inl e \<Rightarrow> stored w' = stored (server (base s))"
    using store_laws(1,2) [OF assms(1), of d] run by (cases y) auto
  ultimately show ?thesis by (auto split: sum.splits)
qed

lemma store_apply:
  assumes "deployment_store P stored" and "on_server (px_apply_deployment P d f) s = (Inr (res, d'), s')"
  shows "\<exists>live g. dp_namespace live = dp_namespace d \<and> dp_name live = dp_name d \<and> d' = (f live)\<lparr>dp_generation := g\<rparr>"
    and "stored (server (base s')) (dp_namespace d) (dp_name d) = Some d'" and "robj s' = robj s"
proof -
  obtain w' where run: "px_apply_deployment P d f (server (base s)) = (Inr (res, d'), w')"
    and s': "server (base s') = w'" and r: "robj s' = robj s"
    using assms(2) by (cases "px_apply_deployment P d f (server (base s))") (auto simp: on_server_def)
  have "(\<exists>live g. dp_namespace live = dp_namespace d \<and> dp_name live = dp_name d \<and> d' = (f live)\<lparr>dp_generation := g\<rparr>)
      \<and> stored w' (dp_namespace d) (dp_name d) = Some d'"
    by (rule store_laws(3) [OF assms(1) run])
  then show "\<exists>live g. dp_namespace live = dp_namespace d \<and> dp_name live = dp_name d \<and> d' = (f live)\<lparr>dp_generation := g\<rparr>"
    and "stored (server (base s')) (dp_namespace d) (dp_name d) = Some d'" and "robj s' = robj s"
    by (simp_all add: s' r)
qed

text \<open>What one attempt establishes, when it succeeds and when it does not.\<close>

lemma attempt_cases:
  assumes "deployment_store P stored" and "\<not> use_envtest L"
  shows "deployment_attempt L P h desired (s, op, dep) =
    (case stored (server (base s)) (dp_namespace dep) (dp_name dep) of
       None \<Rightarrow>
         (case on_server (px_apply_deployment P dep (as_created desired)) s of
              (Inl createErr, s) \<Rightarrow> (Inl createErr, (s, op, dep))
            | (Inr (_, dep), s) \<Rightarrow> (Inr (), (s, op, dep)))
     | Some d \<Rightarrow>
         if first_image d = None then (Inl (Panic ''runtime error: index out of range''), (s, op, d))
         else if \<not> deployment_differs L h d desired then (Inr (), (s, OperationResultNone, d))
         else (case on_server (px_update_deployment P (with_desired h d desired)) s of
              (Inl updateErr, s) \<Rightarrow> (Inl updateErr, (s, op, with_desired h d desired))
            | (Inr dep, s) \<Rightarrow> (Inr (), (s, OperationResultUpdated, dep))))"
  by (simp add: deployment_attempt_def store_get [OF assms(1)] assms(2) split: option.split sum.split prod.split)

lemma attempt_frame:
  assumes store: "deployment_store P stored" and env: "\<not> use_envtest L"
    and run: "deployment_attempt L P h desired (s, op, dep) = (x, (s', op', dep'))"
  shows "robj s' = robj s" and "x = Inl e \<Longrightarrow> dp_name dep' = dp_name dep" and "x = Inl e \<Longrightarrow> dp_namespace dep' = dp_namespace dep"
proof -
  have "robj (snd (on_server f s)) = robj s" for f :: "_ \<Rightarrow> 'b \<times> _" by simp
  note frame = this [of "px_update_deployment P d" for d] this [of "px_apply_deployment P d f" for d f]
  show "robj s' = robj s" and "x = Inl e \<Longrightarrow> dp_name dep' = dp_name dep" and "x = Inl e \<Longrightarrow> dp_namespace dep' = dp_namespace dep"
    using run unfolding attempt_cases [OF store env]
    by (auto split: option.splits if_splits sum.splits prod.splits dest: store_names [OF store] simp: with_desired_def on_server_def)
qed

lemma attempt_succeeds:
  assumes store: "deployment_store P stored" and env: "\<not> use_envtest L"
    and run: "deployment_attempt L P h desired (s, op, dep) = (Inr (), (s', op', dep'))"
  shows "stored (server (base s')) (dp_namespace dep) (dp_name dep) = Some dep'"
    and "\<not> deployment_differs L h dep' desired"
proof -
  have "stored (server (base s')) (dp_namespace dep) (dp_name dep) = Some dep' \<and> \<not> deployment_differs L h dep' desired"
  proof (cases "stored (server (base s)) (dp_namespace dep) (dp_name dep)")
    case None
    then obtain res where applied: "on_server (px_apply_deployment P dep (as_created desired)) s = (Inr (res, dep'), s')"
      using run unfolding attempt_cases [OF store env] by (auto split: sum.splits prod.splits)
    obtain live g where "dep' = (as_created desired live)\<lparr>dp_generation := g\<rparr>" using store_apply(1) [OF store applied] by blast
    then have "\<not> deployment_differs L h dep' desired" by (simp add: created_in_order)
    then show ?thesis using store_apply(2) [OF store applied] by simp
  next
    case (Some d)
    note names = store_names [OF store Some]
    show ?thesis
    proof (cases "deployment_differs L h d desired")
      case False
      then show ?thesis using run Some unfolding attempt_cases [OF store env] by (auto split: if_splits)
    next
      case True
      then have updated: "on_server (px_update_deployment P (with_desired h d desired)) s = (Inr dep', s')"
        using run Some unfolding attempt_cases [OF store env] by (auto split: if_splits sum.splits prod.splits)
      obtain g where "dep' = (with_desired h d desired)\<lparr>dp_generation := g\<rparr>" using store_update [OF store updated] by auto
      then have "\<not> deployment_differs L h dep' desired" by (simp add: written_in_order)
      then show ?thesis using store_update [OF store updated] names by (simp add: with_desired_def)
    qed
  qed
  then show "stored (server (base s')) (dp_namespace dep) (dp_name dep) = Some dep'" and "\<not> deployment_differs L h dep' desired"
    by simp_all
qed

text \<open>The retry loop of client-go, as a relation: it repeats after conflicts, and a success is final.\<close>

definition retries_deployment :: "'w pdf_retries \<Rightarrow> bool" where
  "retries_deployment R \<longleftrightarrow> (\<forall>f s. retry_run f s (pt_deployment R f s))"

lemma retry_once: "retry_run f s out \<Longrightarrow> f s = (Inr (), s') \<Longrightarrow> out = (Inr (), s')"
  by (erule retry_run.cases) auto

lemma retried_deployment:
  assumes store: "deployment_store P stored" and retries: "retries_deployment R" and env: "\<not> use_envtest L"
    and run: "pt_deployment R (deployment_attempt L P h desired) (s, op, dep) = (Inr (), (s', op', dep'))"
  shows "robj s' = robj s" and "stored (server (base s')) (dp_namespace dep) (dp_name dep) = Some dep'"
    and "\<not> deployment_differs L h dep' desired"
proof -
  let ?f = "deployment_attempt L P h desired"
  let ?I = "\<lambda>(t, _, d). robj t = robj s \<and> dp_name d = dp_name dep \<and> dp_namespace d = dp_namespace dep"
  let ?Q = "\<lambda>(t, _, d). robj t = robj s \<and> stored (server (base t)) (dp_namespace dep) (dp_name dep) = Some d
      \<and> \<not> deployment_differs L h d desired"
  have runs: "retry_run ?f (s, op, dep) (Inr (), (s', op', dep'))"
    using retries run unfolding retries_deployment_def by metis
  have "?Q (snd (Inr () :: go_error + unit, (s', op', dep')))"
  proof (rule retry_run_success [where I = ?I and Q = ?Q, OF runs])
    show "?I (s, op, dep)" by simp
    show "?I x'" if "?I x" and "?f x = (Inl m, x')" for x x' m
    proof -
      obtain t o1 d t' o2 d' where "x = (t, o1, d)" "x' = (t', o2, d')" by (cases x, cases x') auto
      then show ?thesis using that attempt_frame [OF store env, of h desired t o1 d "Inl m" t' o2 d'] by auto
    qed
    show "?Q x'" if "?I x" and "?f x = (Inr (), x')" for x x'
    proof -
      obtain t o1 d t' o2 d' where "x = (t, o1, d)" "x' = (t', o2, d')" by (cases x, cases x') auto
      then show ?thesis
        using that attempt_frame(1) [OF store env, of h desired t o1 d "Inr ()" t' o2 d'] attempt_succeeds [OF store env, of h desired t o1 d t' o2 d']
        by auto
    qed
  qed simp
  then show "robj s' = robj s" and "stored (server (base s')) (dp_namespace dep) (dp_name dep) = Some dep'"
    and "\<not> deployment_differs L h dep' desired"
    by auto
qed

text \<open>A successful \<open>reconcileDeployment\<close> is a successful retry and a read.\<close>

lemma reconcileDeployment_success:
  assumes store: "deployment_store P stored" and env: "\<not> use_envtest L" and retries: "retries_deployment R"
    and run: "reconcileDeployment L X P R n s = (Inr (op, dep), s')"
  shows "robj s' = robj s" and "stored (server (base s')) (rs_namespace (robj s)) (childName (robj s)) = Some dep"
    and "\<not> deployment_differs L (rs_spec (robj s)) dep (constructDesiredDeployment L X (robj s) n)"
    and "\<exists>d. pt_deployment R (deployment_attempt L P (rs_spec (robj s)) (constructDesiredDeployment L X (robj s) n))
        (s, OperationResultNone, empty_deployment (childName (robj s)) (rs_namespace (robj s))) = (Inr (), (s', op, d))"
proof -
  let ?r = "robj s" and ?d = "constructDesiredDeployment L X (robj s) n"
  obtain x t o1 d where tried: "pt_deployment R (deployment_attempt L P (rs_spec ?r) ?d)
      (s, OperationResultNone, empty_deployment (childName ?r) (rs_namespace ?r)) = (x, (t, o1, d))"
    by (cases "pt_deployment R (deployment_attempt L P (rs_spec ?r) ?d)
      (s, OperationResultNone, empty_deployment (childName ?r) (rs_namespace ?r))") auto
  have x: "x = Inr ()" using run by (cases x) (auto simp: reconcileDeployment_def Let_def tried)
  note facts = retried_deployment [OF store retries env tried [unfolded x], simplified]
  have names: "dp_namespace d = rs_namespace ?r" "dp_name d = childName ?r" using store_names [OF store facts(2)] by simp_all
  have "t = s'" "d = dep" "o1 = op"
    using run by (auto simp: reconcileDeployment_def Let_def tried x env store_get [OF store] names facts(2))
  then show "robj s' = ?r" and "stored (server (base s')) (rs_namespace ?r) (childName ?r) = Some dep"
    and "\<not> deployment_differs L (rs_spec ?r) dep ?d"
    and "\<exists>d. pt_deployment R (deployment_attempt L P (rs_spec ?r) ?d)
        (s, OperationResultNone, empty_deployment (childName ?r) (rs_namespace ?r)) = (Inr (), (s', op, d))"
    using facts tried x by auto
qed

lemma desired_image: "first_image (constructDesiredDeployment L X r n) \<noteq> None"
  by (simp add: first_image_def constructDesiredDeployment_def Let_def split: prod.split)


section \<open>The number of replicas under autoscaling\<close>

definition stored_replicas :: "('w \<Rightarrow> string \<Rightarrow> string \<Rightarrow> deployment option) \<Rightarrow> string \<Rightarrow> string \<Rightarrow> 'w pdf_state \<Rightarrow> int option option" where
  "stored_replicas stored ns n s = map_option dp_replicas (stored (server (base s)) ns n)"

lemma attempt_keeps_replicas:
  assumes store: "deployment_store P stored" and env: "\<not> use_envtest L" and hpa: "HpaEnabledForHPRS h"
    and run: "deployment_attempt L P h desired (s, op, dep) = (x, (s', op', dep'))"
    and replicas: "stored_replicas stored (dp_namespace dep) (dp_name dep) s = Some m"
  shows "stored_replicas stored (dp_namespace dep) (dp_name dep) s' = Some m"
proof -
  obtain d where d: "stored (server (base s)) (dp_namespace dep) (dp_name dep) = Some d" and m: "dp_replicas d = m"
    using replicas by (auto simp: stored_replicas_def)
  have kept: "stored_replicas stored (dp_namespace dep) (dp_name dep) s' = Some m" if "s' = s" using that replicas by simp
  show ?thesis
  proof (cases "first_image d = None \<or> \<not> deployment_differs L h d desired")
    case True
    then have "s' = s" using run by (cases "first_image d = None") (auto simp: attempt_cases [OF store env] d)
    then show ?thesis by (rule kept)
  next
    case False
    obtain y t where written: "on_server (px_update_deployment P (with_desired h d desired)) s = (y, t)" by fastforce
    then have "s' = t" using run False by (auto simp: attempt_cases [OF store env] d split: sum.splits)
    then show ?thesis using store_update [OF store written] store_names [OF store d] d m hpa
      by (auto simp: stored_replicas_def with_desired_def split: sum.splits)
  qed
qed

lemma retried_keeps_replicas:
  assumes store: "deployment_store P stored" and env: "\<not> use_envtest L" and hpa: "HpaEnabledForHPRS h"
    and retries: "retries_deployment R"
    and run: "pt_deployment R (deployment_attempt L P h desired) (s, op, dep) = (Inr (), (s', op', dep'))"
    and replicas: "stored_replicas stored (dp_namespace dep) (dp_name dep) s = Some m"
  shows "stored_replicas stored (dp_namespace dep) (dp_name dep) s' = Some m"
proof -
  let ?f = "deployment_attempt L P h desired" and ?kept = "\<lambda>t. stored_replicas stored (dp_namespace dep) (dp_name dep) t = Some m"
  let ?I = "\<lambda>(t, _, d). ?kept t \<and> dp_name d = dp_name dep \<and> dp_namespace d = dp_namespace dep"
  have runs: "retry_run ?f (s, op, dep) (Inr (), (s', op', dep'))"
    using retries run unfolding retries_deployment_def by metis
  have "(\<lambda>(t, _, _). ?kept t) (snd (Inr () :: go_error + unit, (s', op', dep')))"
  proof (rule retry_run_success [where I = ?I, OF runs])
    show "?I (s, op, dep)" using replicas by simp
    show "?I x'" if "?I x" and "?f x = (Inl m, x')" for x x' m
    proof -
      obtain t o1 d t' o2 d' where "x = (t, o1, d)" "x' = (t', o2, d')" by (cases x, cases x') auto
      then show ?thesis
        using that attempt_frame [OF store env, of h desired t o1 d "Inl m" t' o2 d'] attempt_keeps_replicas [OF store env hpa, of desired t o1 d "Inl m" t' o2 d']
        by auto
    qed
    show "(\<lambda>(t, _, _). ?kept t) x'" if "?I x" and "?f x = (Inr (), x')" for x x'
    proof -
      obtain t o1 d t' o2 d' where "x = (t, o1, d)" "x' = (t', o2, d')" by (cases x, cases x') auto
      then show ?thesis using that attempt_keeps_replicas [OF store env hpa, of desired t o1 d "Inr ()" t' o2 d'] by auto
    qed
  qed simp
  then show ?thesis by simp
qed

text \<open>
  Claim C34. With autoscaling the forced scale-down is not carried out. When no cluster renders PDFs, the controller reconciles the
  deployment with zero replicas and the state becomes "ScaledDown"; but with autoscaling configured the number of replicas of an
  existing deployment stays as it is, and so does what the next run will see.
\<close>

theorem pdf_scale_down_ignored:
  assumes "deployment_store P stored" and "retries_deployment R" and "\<not> use_envtest L" and "HpaEnabledForHPRS (rs_spec (robj s))"
    and "stored (server (base s)) (rs_namespace (robj s)) (childName (robj s)) = Some d"
    and "reconcileDeployment L X P R 0 s = (Inr (op, dep), s')"
  shows "dp_replicas dep = dp_replicas d \<and> final_state L 0 dep = PdfStateScaledDown
    \<and> stored (server (base s')) (rs_namespace (robj s')) (childName (robj s')) = Some dep"
proof -
  note facts = reconcileDeployment_success [OF assms(1,3,2,6)]
  obtain d' where tried: "pt_deployment R (deployment_attempt L P (rs_spec (robj s)) (constructDesiredDeployment L X (robj s) 0))
      (s, OperationResultNone, empty_deployment (childName (robj s)) (rs_namespace (robj s))) = (Inr (), (s', op, d'))"
    using facts(4) by blast
  have "stored_replicas stored (rs_namespace (robj s)) (childName (robj s)) s' = Some (dp_replicas d)"
    using retried_keeps_replicas [OF assms(1,3,4,2) tried, of "dp_replicas d"] by (simp add: stored_replicas_def assms(5))
  then show ?thesis using facts(1,2) by (simp add: stored_replicas_def final_state_def)
qed

section \<open>The CA taken over from a cluster\<close>

text \<open>
  The CA secret the service takes over is the one the cluster uses exactly when the cluster was given an existing CA: for a cluster
  with a CA of its own the name lacks the suffix.
\<close>

lemma synchronized_ca: "tls_ca_secret_name (synchronized_tls L hc t) = getCASecretName hc \<longleftrightarrow> useExistingCA hc"
  by (auto simp: synchronized_tls_def getCASecretName_def useExistingCA_def Let_def split: option.split)

section \<open>A change of the CA goes unnoticed\<close>

lemma dedup_by_related:
  assumes "list_all2 R xs ys" and "\<And>x y. R x y \<Longrightarrow> key x = key y"
  shows "list_all2 R (dedup_by key seen xs) (dedup_by key seen ys)"
  using assms(1) by (induction xs ys arbitrary: seen rule: list_all2_induct) (auto dest: assms(2))

definition with_ca :: "string \<Rightarrow> pdf_service resource \<Rightarrow> pdf_service resource" where
  "with_ca ca r = r\<lparr>rs_spec := (rs_spec r)\<lparr>pr_tls := map_option (\<lambda>t. t\<lparr>tls_ca_secret_name := ca\<rparr>) (pr_tls (rs_spec r))\<rparr>\<rparr>"

text \<open>Volumes of the same name and the same normal form.\<close>

definition same_volume :: "volume \<Rightarrow> volume \<Rightarrow> bool" where
  "same_volume v w \<longleftrightarrow> v_name v = v_name w \<and> sanitize_pdf_volume ''tls'' ''ca'' v = sanitize_pdf_volume ''tls'' ''ca'' w"

lemma with_ca_simps:
  "rs_name (with_ca ca r) = rs_name r" "rs_namespace (with_ca ca r) = rs_namespace r" "childName (with_ca ca r) = childName r"
  "TLSEnabledForHPRS L (rs_spec (with_ca ca r)) = TLSEnabledForHPRS L (rs_spec r)"
  "constructHprsCertificate (with_ca ca r) = constructHprsCertificate r"
  "getHprsCertificateHash L (with_ca ca r) = getHprsCertificateHash L r"
  by (simp_all add: with_ca_def childName_def TLSEnabledForHPRS_def getHprsCertificateHash_def constructHprsCertificate_def Let_def
      extra_hostnames_def split: option.split)

lemma with_ca_fields:
  "pr_image (rs_spec (with_ca ca r)) = pr_image (rs_spec r)" "pr_annotations (rs_spec (with_ca ca r)) = pr_annotations (rs_spec r)"
  "pr_service_account_name (rs_spec (with_ca ca r)) = pr_service_account_name (rs_spec r)"
  "pr_affinity (rs_spec (with_ca ca r)) = pr_affinity (rs_spec r)"
  "pr_image_pull_secrets (rs_spec (with_ca ca r)) = pr_image_pull_secrets (rs_spec r)"
  "pr_pod_security_context (rs_spec (with_ca ca r)) = pr_pod_security_context (rs_spec r)"
  "pr_requests (rs_spec (with_ca ca r)) = pr_requests (rs_spec r)" "pr_limits (rs_spec (with_ca ca r)) = pr_limits (rs_spec r)"
  "pr_image_pull_policy (rs_spec (with_ca ca r)) = pr_image_pull_policy (rs_spec r)"
  "pr_liveness_probe (rs_spec (with_ca ca r)) = pr_liveness_probe (rs_spec r)"
  "pr_readiness_probe (rs_spec (with_ca ca r)) = pr_readiness_probe (rs_spec r)"
  "pr_container_security_context (rs_spec (with_ca ca r)) = pr_container_security_context (rs_spec r)"
  "pr_environment_variables (rs_spec (with_ca ca r)) = pr_environment_variables (rs_spec r)"
  "pr_volumes (rs_spec (with_ca ca r)) = pr_volumes (rs_spec r)" "pr_volume_mounts (rs_spec (with_ca ca r)) = pr_volume_mounts (rs_spec r)"
  "getPdfRenderServicePort (rs_spec (with_ca ca r)) = getPdfRenderServicePort (rs_spec r)"
  by (simp_all add: with_ca_def getPdfRenderServicePort_def)

lemma ca_name_there: "GetCASecretNameForHPRS r \<noteq> []"
  by (auto simp: GetCASecretNameForHPRS_def split: option.split)

lemma assets_with_ca:
  assumes "buildRuntimeAssets L r port = (env, vols, mounts)"
  obtains vols' where "buildRuntimeAssets L (with_ca ca r) port = (env, vols', mounts)" and "list_all2 same_volume vols' vols"
proof -
  have refl: "list_all2 same_volume us us" for us by (rule list_all2_refl) (simp add: same_volume_def)
  obtain e v v' m where one: "tlsVolumesAndMounts L r es = (es @ e, v, m)" "tlsVolumesAndMounts L (with_ca ca r) es = (es @ e, v', m)"
    and volumes: "list_all2 same_volume v' v" for es
    by (cases "TLSEnabledForHPRS L (rs_spec r)")
      (auto simp: tlsVolumesAndMounts_def with_ca_simps Let_def ca_name_there same_volume_def sanitize_pdf_volume_def)
  have "list_all2 same_volume (dedupVolumes (v' @ pr_volumes (rs_spec r))) (dedupVolumes (v @ pr_volumes (rs_spec r)))"
    unfolding dedupVolumes_def
    by (rule dedup_by_related) (simp_all add: list_all2_appendI volumes refl same_volume_def)
  then show thesis
    using assms by (intro that) (auto simp: buildRuntimeAssets_def Let_def one with_ca_fields)
qed

text \<open>
  Claim C33. A change of the CA goes unnoticed. With TLS configured, the deployment constructed for the service is found in order after
  the service has been given another CA secret, because the comparison and the hash in the annotations are taken after the
  names of the secrets have been cleared; the pods keep mounting the old CA.
\<close>

theorem ca_change_unnoticed:
  "\<not> deployment_differs L h (constructDesiredDeployment L X r n) (constructDesiredDeployment L X (with_ca ca r) n)
     \<and> map_get (dp_template_annotations (constructDesiredDeployment L X (with_ca ca r) n)) HPRSPodSpecHashAnnotation
         = map_get (dp_template_annotations (constructDesiredDeployment L X r n)) HPRSPodSpecHashAnnotation"
proof -
  obtain env vols mounts where assets: "buildRuntimeAssets L r (getPdfRenderServicePort (rs_spec r)) = (env, vols, mounts)"
    by (cases rule: prod_cases3)
  then obtain vols' where assets': "buildRuntimeAssets L (with_ca ca r) (getPdfRenderServicePort (rs_spec r)) = (env, vols', mounts)"
    and same: "list_all2 same_volume vols' vols" by (rule assets_with_ca)
  have volumes: "map (sanitize_pdf_volume ''tls'' ''ca'') vols' = map (sanitize_pdf_volume ''tls'' ''ca'') vols"
    using same by (induction rule: list_all2_induct) (simp_all add: same_volume_def)
  define dep where "dep = constructDesiredDeployment L X r n"
  have container: "buildPDFContainer L X (rs_spec (with_ca ca r)) = buildPDFContainer L X (rs_spec r)"
    by (intro ext) (simp add: buildPDFContainer_def with_ca_simps with_ca_fields Let_def)
  have security: "pdf_security_context L (rs_spec (with_ca ca r)) = pdf_security_context L (rs_spec r)"
    by (simp add: pdf_security_context_def with_ca_simps with_ca_fields)
  have normal: "SanitizePod ''tls'' ''ca'' (sp\<lparr>ps_volumes := vols'\<rparr>) = SanitizePod ''tls'' ''ca'' (sp\<lparr>ps_volumes := vols\<rparr>)" for sp
    by (simp add: SanitizePod_def volumes)
  have changed: "constructDesiredDeployment L X (with_ca ca r) n = dep\<lparr>dp_pod := (dp_pod dep)\<lparr>ps_volumes := vols'\<rparr>\<rparr>"
    unfolding dep_def constructDesiredDeployment_def Let_def with_ca_fields with_ca_simps assets assets' container security prod.case normal
      pdf_pod_hash_there sum.case
    by simp
  have vols: "ps_volumes (dp_pod dep) = vols" by (simp add: dep_def constructDesiredDeployment_def Let_def assets)
  have "SanitizePod ''tls'' ''ca'' ((dp_pod dep)\<lparr>ps_volumes := vols'\<rparr>) = SanitizePod ''tls'' ''ca'' (dp_pod dep)"
    unfolding normal vols [symmetric] by simp
  then show ?thesis
    by (simp add: changed dep_def [symmetric] deployment_differs_def first_image_def compared_hash_def)
qed

section \<open>Cleanup\<close>

text \<open>The calls of a step that leaves the resource, which is known, as it is.\<close>

definition asks_of :: "pdf_service resource \<Rightarrow> (api_call \<Rightarrow> bool) \<Rightarrow> ('w pdf_state \<Rightarrow> 'x \<times> 'w pdf_state) \<Rightarrow> bool" where
  "asks_of r P m \<longleftrightarrow> (\<forall>s. robj s = r \<longrightarrow> robj (snd (m s)) = r \<and> (\<exists>cs. calls (base (snd (m s))) = calls (base s) @ cs \<and> list_all P cs))"

lemma asks_of_get: "asks_of r P (f r) \<Longrightarrow> asks_of r P (and_then get_obj f)"
  by (simp add: asks_of_def and_then_def get_obj_def)

lemma asks_of_simple: "asks_of r P (ret a)" "asks_of r P (exit_with e)" "adds_only P n \<Longrightarrow> asks_of r P (on_base n)"
  by (auto simp: asks_of_def ret_def exit_with_def on_base_def adds_only_def emits_def)

lemma asks_of_frame: "asks_of r P m \<Longrightarrow> asks_of r P (observe m)" "asks_of r P n \<Longrightarrow> asks_of r P (log_error msg n)"
  by (auto simp: asks_of_def observe_def log_error_def on_error_def exit_with_def split: sum.split prod.split)

lemma asks_of_and_then:
  assumes "asks_of r P m" and "\<And>a. asks_of r P (f a)"
  shows "asks_of r P (and_then m f)"
  unfolding asks_of_def
proof (intro allI impI)
  fix s :: "'a pdf_state" assume r: "robj s = r"
  obtain x s' where run: "m s = (x, s')" by fastforce
  have "robj (snd (m s)) = r \<and> (\<exists>cs. calls (base (snd (m s))) = calls (base s) @ cs \<and> list_all P cs)"
    using assms(1) r unfolding asks_of_def by blast
  then have here: "robj s' = r" "\<exists>cs. calls (base s') = calls (base s) @ cs \<and> list_all P cs" by (simp_all add: run)
  show "robj (snd (and_then m f s)) = r \<and> (\<exists>cs. calls (base (snd (and_then m f s))) = calls (base s) @ cs \<and> list_all P cs)"
  proof (cases x)
    case (Inr a)
    obtain cs where cs: "calls (base s') = calls (base s) @ cs" "list_all P cs" using here(2) by blast
    obtain ds where "robj (snd (f a s')) = r" "calls (base (snd (f a s'))) = calls (base s') @ ds" "list_all P ds"
      using assms(2) [of a] here(1) unfolding asks_of_def by blast
    then show ?thesis using run Inr cs by (intro conjI exI [of _ "cs @ ds"]) (simp_all add: and_then_def)
  qed (use here run in \<open>simp add: and_then_def\<close>)
qed

lemma asks_of_on_error:
  assumes "asks_of r P m" and "\<And>e. h e = ret () \<or> (\<exists>x. h e = exit_with x)"
  shows "asks_of r P (on_error m h)"
  unfolding asks_of_def
proof (intro allI impI)
  fix s :: "'a pdf_state" assume r: "robj s = r"
  obtain x s' where run: "m s = (x, s')" by fastforce
  have "snd (h e t) = t" for e t using assms(2) [of e] by (auto simp: ret_def exit_with_def)
  then have "snd (on_error m h s) = s'" using run by (cases x) (simp_all add: on_error_def)
  then show "robj (snd (on_error m h s)) = r \<and> (\<exists>cs. calls (base (snd (on_error m h s))) = calls (base s) @ cs \<and> list_all P cs)"
    using assms(1) r run unfolding asks_of_def by (metis snd_conv)
qed

lemma asks_of_for_each: "(\<And>x. x \<in> set xs \<Longrightarrow> asks_of r P (f x)) \<Longrightarrow> asks_of r P (for_each f xs)"
  by (induction xs) (auto simp: for_each_Nil for_each_Cons intro: asks_of_simple asks_of_and_then)

lemmas asks_of_intros = asks_of_simple asks_of_frame asks_of_and_then asks_of_for_each

lemma asks_of_delete: "P (DeleteObject kind ob) \<Longrightarrow> asks_of r P (delete_unless_gone K kind what ob)"
  unfolding delete_unless_gone_def by (rule asks_of_on_error) (auto intro!: asks_of_simple trace_intros)

text \<open>What the cleanup may delete: nothing while TLS is on; secrets of the resource; and certificates and issuers with cert-manager.\<close>

definition pdf_cleanup_call :: "lib \<Rightarrow> pdf_service resource \<Rightarrow> api_call \<Rightarrow> bool" where
  "pdf_cleanup_call L r c \<longleftrightarrow> \<not> TLSEnabledForHPRS L (rs_spec r) \<and>
     (\<exists>kind ob. c = DeleteObject kind ob
        \<and> (kind = SecretKind \<and> owned_by r ob \<or> kind \<in> {CertificateKind, IssuerKind} \<and> use_cert_manager L))"

lemma asks_of_branch:
  "(b \<Longrightarrow> asks_of r P m) \<Longrightarrow> (\<not> b \<Longrightarrow> asks_of r P n) \<Longrightarrow> asks_of r P (if b then m else n)"
  "(\<And>a. asks_of r P (f1 a)) \<Longrightarrow> (\<And>b. asks_of r P (f2 b)) \<Longrightarrow> asks_of r P (case x of Inl a \<Rightarrow> f1 a | Inr b \<Rightarrow> f2 b)"
  by (simp_all split: sum.split)

text \<open>
  Claim C31. The cleanup of certificates is careful with secrets. Whatever the server answers, the only changes the cleanup asks for are
  deletions; while TLS is on there are none; a secret is deleted only if the resource is among its owners; and certificates and
  issuers only where cert-manager is in use.
\<close>

theorem pdf_cleanup_safe:
  "\<exists>cs. calls (base (snd (cleanupUnusedTLSResourcesForHPRS L K s))) = calls (base s) @ cs
     \<and> list_all (pdf_cleanup_call L (robj s)) cs"
proof -
  let ?r = "robj s" and ?P = "pdf_cleanup_call L (robj s)"
  have certificates: "asks_of ?r ?P (cleanupUnusedHPRSCertificates L K)" if off: "\<not> TLSEnabledForHPRS L (rs_spec ?r)"
    unfolding cleanupUnusedHPRSCertificates_def
    by (intro asks_of_branch asks_of_intros asks_of_get asks_of_delete trace_intros) (simp add: pdf_cleanup_call_def off)
  have secrets: "asks_of ?r ?P (cleanupUnusedHPRSTLSSecrets K)" if off: "\<not> TLSEnabledForHPRS L (rs_spec ?r)"
    unfolding cleanupUnusedHPRSTLSSecrets_def
    by (intro asks_of_intros asks_of_get asks_of_delete trace_intros) (auto simp: pdf_cleanup_call_def off)
  have issuer: "asks_of ?r ?P (cleanupUnusedHPRSCAIssuer L K)" if off: "\<not> TLSEnabledForHPRS L (rs_spec ?r)"
    unfolding cleanupUnusedHPRSCAIssuer_def
    by (intro asks_of_branch asks_of_get asks_of_simple asks_of_frame asks_of_and_then asks_of_delete trace_intros)
      (simp_all add: pdf_cleanup_call_def off)
  have passphrase: "asks_of ?r ?P (cleanupKeystorePassphraseSecretForHPRS K)" if off: "\<not> TLSEnabledForHPRS L (rs_spec ?r)"
    unfolding cleanupKeystorePassphraseSecretForHPRS_def
    by (rule asks_of_get, intro asks_of_branch asks_of_simple asks_of_frame asks_of_and_then asks_of_delete trace_intros)
      (simp_all add: pdf_cleanup_call_def off)
  have "asks_of ?r ?P (cleanupUnusedTLSResourcesForHPRS L K)"
    unfolding cleanupUnusedTLSResourcesForHPRS_def
    by (rule asks_of_get, intro asks_of_branch asks_of_simple asks_of_frame asks_of_and_then certificates secrets issuer passphrase)
  then show ?thesis by (simp add: asks_of_def)
qed

section \<open>Concrete data\<close>

definition some_pdf_service :: "pdf_service resource" where
  "some_pdf_service = \<lparr>rs_namespace = ''ns'', rs_name = ''pdf'', rs_deleted = False, rs_finalizers = [], rs_managed_cluster = [],
     rs_external_cluster = [], rs_spec = \<lparr>pr_generation = 1, pr_uid = ''u'', pr_image = ''i'', pr_image_pull_policy = [], pr_replicas = 3,
       pr_port = 5123, pr_requests = [], pr_limits = [], pr_environment_variables = [], pr_affinity = KNil, pr_annotations = Map.empty,
       pr_labels = Map.empty, pr_service_annotations = Map.empty, pr_liveness_probe = None, pr_readiness_probe = None,
       pr_service_type = [], pr_service_account_name = [], pr_image_pull_secrets = [], pr_container_security_context = None,
       pr_pod_security_context = None, pr_volumes = [\<lparr>v_name = ''tls'', v_source = empty_volume_source\<rparr>], pr_volume_mounts = [],
       pr_tls = Some \<lparr>tls_enabled_flag = Some True, tls_ca_secret_name = [], tls_extra_hostnames = []\<rparr>,
       pr_autoscaling = Some \<lparr>as_min_replicas = None, as_max_replicas = 5, as_target_cpu = None, as_target_memory = None,
         as_metrics = [], as_behavior = KNil\<rparr>,
       prs_ready_replicas = 0, prs_conditions = [], prs_observed_generation = 0\<rparr>, rs_state = [], rs_id = []\<rparr>"

definition some_pdf_lib :: pdf_lib where
  "some_pdf_lib = \<lparr>pl_quantity_is_zero = (\<lambda>q. q = KStr ''0''), pl_set_condition = (\<lambda>cs c. cs @ [c])\<rparr>"

text \<open>A server that keeps deployments by namespace and name and refuses to rename one.\<close>

type_synonym deployments = "string \<Rightarrow> string \<Rightarrow> deployment option"

definition kept :: "deployments \<Rightarrow> deployments" where
  "kept w ns n = (case w ns n of None \<Rightarrow> None | Some d \<Rightarrow> if dp_namespace d = ns \<and> dp_name d = n then Some d else None)"

definition put :: "deployment \<Rightarrow> deployments \<Rightarrow> deployments" where
  "put d w = w(dp_namespace d := (w (dp_namespace d))(dp_name d \<mapsto> d))"

definition mem_pdf_api :: "deployments pdf_api" where
  "mem_pdf_api = \<lparr>
     px_list_clusters = (\<lambda>ns w. (Inr [], w)),
     px_get_deployment = (\<lambda>ns n w. (case kept w ns n of None \<Rightarrow> Inl (NotFound n) | Some d \<Rightarrow> Inr d, w)),
     px_apply_deployment = (\<lambda>d f w.
       let live = (case kept w (dp_namespace d) (dp_name d) of None \<Rightarrow> d | Some x \<Rightarrow> x) in
       if dp_namespace (f live) = dp_namespace d \<and> dp_name (f live) = dp_name d
       then (Inr (OperationResultCreated, f live), put (f live) w) else (Inl (ApiError ''renamed''), w)),
     px_update_deployment = (\<lambda>d w. (Inr (d\<lparr>dp_generation := dp_generation d + 1\<rparr>), put (d\<lparr>dp_generation := dp_generation d + 1\<rparr>) w)),
     px_update_deployment_status = (\<lambda>d w. (Inr d, put d w)),
     px_apply_service = (\<lambda>ns n f w. (Inr (), w)), px_get_hpa = (\<lambda>ns n w. (Inl (NotFound n), w)),
     px_apply_hpa = (\<lambda>ns n f w. (Inr (), w)), px_delete_hpa = (\<lambda>h w. (Inr (), w)), px_already_exists = (\<lambda>e. False)\<rparr>"

definition one_attempt :: "'w pdf_retries" where
  "one_attempt = \<lparr>pt_deployment = (\<lambda>f s. f s), pt_certificate = (\<lambda>f s. f s), pt_status = (\<lambda>f s. f s)\<rparr>"

definition pdf_run :: "deployments \<Rightarrow> deployments pdf_state" where
  "pdf_run w = \<lparr>base = \<lparr>server = w, calls = [], zone_cache = Map.empty, hc_obj = empty_cluster\<rparr>, robj = some_pdf_service, rlog = []\<rparr>"

lemma kept_put: "kept (put d w) (dp_namespace d) (dp_name d) = Some d"
  by (simp add: kept_def put_def)

lemma mem_pdf_store: "deployment_store mem_pdf_api kept"
proof -
  have names: "kept w ns n = Some d \<Longrightarrow> dp_namespace d = ns \<and> dp_name d = n" for w ns n d
    by (auto simp: kept_def split: option.splits if_splits)
  have get: "px_get_deployment mem_pdf_api ns n w = (case kept w ns n of None \<Rightarrow> Inl (NotFound n) | Some d \<Rightarrow> Inr d, w)" for ns n w
    by (simp add: mem_pdf_api_def)
  have update: "(\<exists>g. d' = d\<lparr>dp_generation := g\<rparr>) \<and> kept w' (dp_namespace d) (dp_name d) = Some d'"
    if "px_update_deployment mem_pdf_api d w = (Inr d', w')" for d w d' w'
    using that kept_put [of "d\<lparr>dp_generation := dp_generation d + 1\<rparr>" w] by (auto simp: mem_pdf_api_def)
  have no_failure: "px_update_deployment mem_pdf_api d w \<noteq> (Inl e, w')" for d w e w'
    by (simp add: mem_pdf_api_def)
  have applied: "(\<exists>live g. dp_namespace live = dp_namespace d \<and> dp_name live = dp_name d \<and> d' = (f live)\<lparr>dp_generation := g\<rparr>)
      \<and> kept w' (dp_namespace d) (dp_name d) = Some d'"
    if run: "px_apply_deployment mem_pdf_api d f w = (Inr (res, d'), w')" for d f w res d' w'
  proof -
    define live where "live = (case kept w (dp_namespace d) (dp_name d) of None \<Rightarrow> d | Some x \<Rightarrow> x)"
    have "dp_namespace live = dp_namespace d \<and> dp_name live = dp_name d"
      by (auto simp: live_def dest: names split: option.split)
    moreover have "d' = f live" "w' = put (f live) w" "dp_namespace (f live) = dp_namespace d" "dp_name (f live) = dp_name d"
      using run by (auto simp: mem_pdf_api_def Let_def live_def [symmetric] split: if_splits)
    moreover have "f live = (f live)\<lparr>dp_generation := dp_generation (f live)\<rparr>" by simp
    ultimately show ?thesis using kept_put [of "f live" w] by metis
  qed
  show ?thesis
    unfolding deployment_store_def using names get update no_failure applied by blast
qed

lemma one_attempt_retries: "retries_deployment one_attempt"
  by (simp add: retries_deployment_def one_attempt_def retry_last)

lemma plain_no_envtest: "\<not> use_envtest plain_lib"
  by (simp add: use_envtest_def plain_lib_def true_str_def)

text \<open>One attempt: from a server without deployments it creates one, and where all is in order it changes nothing.\<close>

lemma one_attempt_run:
  assumes "deployment_attempt plain_lib mem_pdf_api (rs_spec (robj s)) (constructDesiredDeployment plain_lib some_pdf_lib (robj s) n)
      (s, OperationResultNone, empty_deployment (childName (robj s)) (rs_namespace (robj s))) = (Inr (), (s', op, dep))"
  shows "reconcileDeployment plain_lib some_pdf_lib mem_pdf_api one_attempt n s = (Inr (op, dep), s')"
proof -
  have "kept (server (base s')) (rs_namespace (robj s)) (childName (robj s)) = Some dep"
    using attempt_succeeds(1) [OF mem_pdf_store plain_no_envtest assms] by simp
  moreover from this have "dp_namespace dep = rs_namespace (robj s)" "dp_name dep = childName (robj s)"
    using store_names [OF mem_pdf_store] by blast+
  ultimately show ?thesis
    using assms by (simp add: reconcileDeployment_def one_attempt_def Let_def store_get [OF mem_pdf_store] plain_no_envtest)
qed

lemma first_deployment:
  "\<exists>dep s'. reconcileDeployment plain_lib some_pdf_lib mem_pdf_api one_attempt 2 (pdf_run (\<lambda>_ _. None)) = (Inr (OperationResultNone, dep), s')"
proof -
  let ?s = "pdf_run (\<lambda>_ _. None)"
  have none: "kept (\<lambda>_ _. None) ns n = None" for ns n by (simp add: kept_def)
  have "\<exists>dep s'. deployment_attempt plain_lib mem_pdf_api (rs_spec (robj ?s)) (constructDesiredDeployment plain_lib some_pdf_lib (robj ?s) 2)
      (?s, OperationResultNone, empty_deployment (childName (robj ?s)) (rs_namespace (robj ?s))) = (Inr (), (s', OperationResultNone, dep))"
    unfolding attempt_cases [OF mem_pdf_store plain_no_envtest]
    by (simp add: pdf_run_def none on_server_def mem_pdf_api_def as_created_def Let_def)
  then show ?thesis using one_attempt_run by blast
qed


text \<open>A deployment of three replicas while no cluster renders PDFs.\<close>

definition three_replicas :: deployment where
  "three_replicas = constructDesiredDeployment plain_lib some_pdf_lib some_pdf_service 3"

lemma replicas_only: "constructDesiredDeployment L X r n = (constructDesiredDeployment L X r m)\<lparr>dp_replicas := Some n\<rparr>"
  by (simp add: constructDesiredDeployment_def Let_def split: prod.split)

lemma scale_down_run:
  "\<exists>dep s'. reconcileDeployment plain_lib some_pdf_lib mem_pdf_api one_attempt 0 (pdf_run (put three_replicas (\<lambda>_ _. None)))
     = (Inr (OperationResultNone, dep), s')"
proof -
  let ?s = "pdf_run (put three_replicas (\<lambda>_ _. None))"
  have stored: "kept (put three_replicas (\<lambda>_ _. None)) (rs_namespace some_pdf_service) (childName some_pdf_service) = Some three_replicas"
    using kept_put [of three_replicas "\<lambda>_ _. None"] by (simp add: three_replicas_def)
  have hpa: "HpaEnabledForHPRS (rs_spec some_pdf_service)" by (simp add: HpaEnabledForHPRS_def some_pdf_service_def)
  have "\<not> deployment_differs plain_lib (rs_spec some_pdf_service) three_replicas (constructDesiredDeployment plain_lib some_pdf_lib some_pdf_service 0)"
    unfolding replicas_only [of plain_lib some_pdf_lib some_pdf_service 0 3] three_replicas_def [symmetric]
    by (simp add: deployment_differs_def first_image_def compared_hash_def hpa)
  moreover have "first_image three_replicas \<noteq> None" unfolding three_replicas_def by (rule desired_image)
  ultimately have "\<exists>dep s'. deployment_attempt plain_lib mem_pdf_api (rs_spec (robj ?s)) (constructDesiredDeployment plain_lib some_pdf_lib (robj ?s) 0)
      (?s, OperationResultNone, empty_deployment (childName (robj ?s)) (rs_namespace (robj ?s))) = (Inr (), (s', OperationResultNone, dep))"
    unfolding attempt_cases [OF mem_pdf_store plain_no_envtest] by (simp add: pdf_run_def stored)
  then show ?thesis using one_attempt_run by blast
qed

theorem pdf_scale_down_ignored_witness:
  "\<exists>dep s'. reconcileDeployment plain_lib some_pdf_lib mem_pdf_api one_attempt 0 (pdf_run (put three_replicas (\<lambda>_ _. None)))
       = (Inr (OperationResultNone, dep), s')
     \<and> dp_replicas dep = Some 3 \<and> final_state plain_lib 0 dep = PdfStateScaledDown"
proof -
  let ?s = "pdf_run (put three_replicas (\<lambda>_ _. None))"
  have hpa: "HpaEnabledForHPRS (rs_spec (robj ?s))" by (simp add: HpaEnabledForHPRS_def some_pdf_service_def pdf_run_def)
  have stored: "kept (server (base ?s)) (rs_namespace (robj ?s)) (childName (robj ?s)) = Some three_replicas"
    using kept_put [of three_replicas "\<lambda>_ _. None"] by (simp add: three_replicas_def pdf_run_def)
  obtain dep s' where run: "reconcileDeployment plain_lib some_pdf_lib mem_pdf_api one_attempt 0 ?s = (Inr (OperationResultNone, dep), s')"
    using scale_down_run by blast
  have "dp_replicas three_replicas = Some 3" by (simp add: three_replicas_def)
  then show ?thesis
    using run pdf_scale_down_ignored [OF mem_pdf_store one_attempt_retries plain_no_envtest hpa stored run] by auto
qed

text \<open>A user's volume named like the one of the certificate does not take its place.\<close>

theorem pdf_deployment_well_formed_witness:
  "\<lparr>v_name = ''tls'', v_source = tls_secret_source (childName some_pdf_service @ ''-tls'') [] 288\<rparr>
     \<in> set (ps_volumes (dp_pod (constructDesiredDeployment plain_lib some_pdf_lib some_pdf_service 3)))"
proof -
  have "TLSEnabledForHPRS plain_lib (rs_spec some_pdf_service)" by (simp add: TLSEnabledForHPRS_def some_pdf_service_def)
  then show ?thesis
    using pdf_deployment_well_formed [of plain_lib some_pdf_lib some_pdf_service 3] unfolding Let_def by blast
qed

end
