(* ===== verification/Spec2Isabelle.thy ===== *)
theory Spec2Isabelle
  imports Pdf_Safety
begin

text \<open>
  The humio-operator, a Kubernetes operator for LogScale (Humio) clusters, written in Go. This library models
  its decisions as HOL functions and proves what makes them correct.

  \<^bold>\<open>The program.\<close> The operator watches custom resources and reconciles each of them: a handler reads the
  resource and the objects it owns, compares them with what the specification asks for, makes at most a few
  changes, records the outcome in the status of the resource and asks to be called again. The largest of
  these reconcilers is the one of \<open>HumioCluster\<close> (internal/controller/humiocluster_*.go), which keeps the pods,
  persistent volume claims, services, ingresses, certificates, secrets, roles and the license of a LogScale
  cluster. It talks to two services that are not code of the repository: the Kubernetes API server and the
  GraphQL API of LogScale.

  \<^bold>\<open>The model.\<close> The outside world is a parameter: a record \<open>kube\<close> of calls (theory \<open>Kube_Api\<close>) from a state of the
  world to an answer and the next state of the world. Nothing is assumed of these calls, so each may fail and
  may find the world changed by others; a property that needs more says so as a hypothesis. Library functions
  whose code is not in the repository (semantic versions, JSON and SHA-256, percentages, environment
  variables, signed tokens) are the record \<open>lib\<close> (\<open>Api_Types\<close>). A handler is a state-passing step (\<open>Prelude\<close>):
  it continues with a value (\<open>Inr\<close>) or leaves early (\<open>Inl\<close>), where every early return of the code is such a
  value. The state \<open>st\<close> holds the world, the shared pointer to the cluster that the handlers refresh and
  change, the cache of zones, and a ghost list of the mutating calls made, about which the safety properties
  speak. Errors are values of \<open>go_error\<close>; a run-time panic is one of them and, as the controller runtime
  recovers it, ends the reconciliation with an error.

  \<^bold>\<open>Theories.\<close>
  \<^item> \<open>Prelude\<close>, \<open>Go_Lib\<close>: errors, results, steps and their Hoare predicate; strings, sorting and maps of Go.
  \<^item> \<open>Api_Types\<close>, \<open>Versions\<close>, \<open>Kube_Api\<close>, \<open>Fixture\<close>: the types of api/v1alpha1 and of the Kubernetes API the code uses,
    image versions (humiocluster_version.go, versions.go), the calls, the retry loop, internal/kubernetes/nodes.go,
    and an in-memory world that the witnesses run on.
  \<^item> \<open>Status\<close>: humiocluster_status.go. The interface \<open>Option\<close> is the locale \<open>status_options\<close>, interpreted for
    every kind of option and for their union.
  \<^item> \<open>Node_Pool\<close>: humiocluster_defaults.go, the node pools with their defaults and the tracker of managed fields.
  \<^item> \<open>Cluster_Objects\<close>, \<open>Cluster_Client\<close>: the objects a cluster owns and their comparisons (humiocluster_services.go,
    humiocluster_ingresses.go, humiocluster_tls.go, internal/kubernetes); helpers/clusterinterface.go.
  \<^item> \<open>Pod_Hash\<close>, \<open>Pod_Compare\<close>, \<open>Pod_Construction\<close>: what a pod is made of and when two pods differ
    (humiocluster_pod_hasher.go, humiocluster_pod_compare.go, humiocluster_pods.go).
  \<^item> \<open>Pvcs\<close>, \<open>Pod_Status\<close>, \<open>Pod_Lifecycle\<close>, \<open>Pod_Creation\<close>, \<open>Rolling_Update\<close>, \<open>Downscaling\<close>: the life of pods and claims
    (humiocluster_persistent_volumes.go, humiocluster_pod_status.go, humiocluster_pod_lifecycle.go and the
    handlers of humiocluster_controller.go).
  \<^item> \<open>Cluster_Resources\<close>, \<open>Cluster_Access\<close>, \<open>Cluster_Tls\<close>, \<open>Humio_Access\<close>, \<open>Cluster_Extras\<close>: the handlers of the other objects,
    the license and the API token (humiocluster_permission_tokens.go), disruption budgets and telemetry. The
    locale \<open>ensured_object\<close> is the contract of a comparison and an update, interpreted for services and config maps.
  \<^item> \<open>Cluster_Reconcile\<close>, \<open>Reconcile_Safety\<close>: \<open>Reconcile\<close> of humiocluster_controller.go as it composes the handlers, and
    what a whole reconciliation may destroy.
  \<^item> \<open>Resource_Api\<close>, \<open>Resource_Reconcile\<close>: the frame the controllers of the other custom resources share: reading the resource,
    finalizers, writes of the resource and its status, lookups that tell a missing entity from a failure, and the
    three ways in which their copies compose the phases. A controller's state \<open>rst\<close> adds the resource to \<open>st\<close>.
  \<^item> \<open>Scheduled_Search\<close>, \<open>Entities\<close>, \<open>Actions\<close>, \<open>Multi_Cluster_Views\<close>: what LogScale keeps, how it is made from the custom
    resources and when the two agree (api/v1alpha1, api/v1beta1, internal/humio/action_transform.go, the
    comparison functions of the controllers).
  \<^item> \<open>Client_Mock\<close>, \<open>Mock_Entities\<close>, \<open>Mock_Tokens\<close>: internal/humio/client_mock.go, the in-memory LogScale the operator can
    run on: its tables and every operation on them.
  \<^item> \<open>Entity_Controllers\<close>, \<open>Search_Controller\<close>, \<open>Special_Controllers\<close>, \<open>Action_Controller\<close>: \<open>Reconcile\<close> of parsers, repositories,
    views, users, groups, roles, ingest tokens, the alerts, scheduled searches, IP filters, feature flags,
    multi-cluster search views, actions and external clusters.
  \<^item> \<open>Token_Controllers\<close>, \<open>Token_Safety\<close>, \<open>Bootstrap_Token\<close>: system, organization and view tokens with common_tokens.go;
    the bootstrap token of a cluster and its one-time pod.
  \<^item> \<open>Telemetry\<close>: humiotelemetry_controller.go with the collector and the exporter of internal/humio: the schedule of
    collections, what is collected, the export with its retries, and what is recorded of it.
  \<^item> \<open>Pdf_Objects\<close>, \<open>Pdf_Service\<close>, \<open>Pdf_Safety\<close>: humiopdfrenderservice_controller.go: the deployment, service, autoscaler and
    certificates of a PDF render service, the handlers that keep them and the status, and what is shown of them.
  \<^item> \<open>Entity_Protocol\<close>: which call a controller may make after which answer; the log \<open>rlog\<close> of a run is accepted by a protocol.
  \<^item> \<open>Entity_Contract\<close>, \<open>Entity_Settling\<close>: the contract between a controller and LogScale (locale \<open>entity_contract\<close>: what a
    lookup answers after an addition, an update and a deletion), under which a resource settles and its deletion
    ends; interpreted on the in-memory LogScale for parsers, users, groups, repositories, views and alerts.

  \<^bold>\<open>What is shown.\<close> Safety: which calls the rollout, the downscaling, the cleanup of claims, certificates and a whole
  reconciliation may make (collections \<open>trace_intros\<close> and \<open>harmless_intros\<close>); which calls to LogScale eighteen
  controllers may make after which lookup (\<open>protocol_intros\<close>); what the token controllers and
  the cleanup of a PDF render service may do to secrets (\<open>asks_intros\<close>, \<open>asks_of_intros\<close>). Bounds: deletions per rollout,
  evictions per run, waits, requests per export. Types: the deployment of a PDF render service is well formed.
  Invariants and equivalences: the summary of pods, the environment of a pod, the comparison of pods and of the
  normal forms the hash is taken of, the comparison of actions, the telemetry schedule as a set of due times.
  Round trips: versions of scheduled searches, time texts, names of certificates. Liveness and termination: a
  service and a deployment settle, a parser and an alert are brought about and then left alone, a deletion ends.
  Error behaviour: the ways in which a change goes unnoticed, a collection is starved or an error is lost.

  \<^bold>\<open>Bounds.\<close> The waiting loops of the code count to a constant (10 or 30 rounds of a second), which is the
  recursion argument of their models; the retry loop of client-go is a parameter of which only its documented
  behaviour is assumed (\<open>retries\<close>), with any number of attempts. The loop of \<open>FixPermissions\<close>, which changes the slice
  it ranges over, is a relation on the states of the loop, with a proof that every run of it ends. The export of
  telemetry counts its attempts down from four; an interval is read unit by unit from a shorter and shorter text.

  \<^bold>\<open>Not modelled.\<close> Log lines, metrics, Kubernetes events, owner references (but where a cleanup reads them) and finalizers of owned objects; which address and
  token a LogScale call is made with (the configuration is built, the calls do not depend on it); concurrent
  reconciliations of one resource, which the controller runtime serialises; the generated code (deep copies,
  the GraphQL client); internal/humio/client.go, every function of which makes one or two calls of the
  generated client and copies their answers; the wiring in cmd, charts, images and test suites; the
  controllers the manifest lists as not modelled.
\<close>

end
